(* ===== verification/Prelude.thy ===== *)
theory Prelude
  imports Main "HOL-Library.AList"
begin

text \<open>
  Shared vocabulary of the development.

  \<^item> A Python \<open>dict\<close> is an association list in the order an iteration of the dict would visit
    its keys, with distinct keys (\<open>dict_wf\<close>). Storing under a present key keeps its place. Python 2
    promises nothing about that order: the correctness theorems hold for every list that stands for
    the dict.
  \<^item> A Python function that may raise is a function into \<open>'e + 'a\<close>: \<open>Inl e\<close> is the exception,
    \<open>Inr x\<close> the returned value. \<open>rbind\<close> is sequencing.
\<close>

section \<open>Results\<close>

named_theorems result_simps \<open>inversion of computations that may raise\<close>
named_theorems dict_simps \<open>lookup after store and delete\<close>

fun rbind :: "'e + 'a \<Rightarrow> ('a \<Rightarrow> 'e + 'b) \<Rightarrow> 'e + 'b" where
  "rbind (Inl e) f = Inl e"
| "rbind (Inr x) f = f x"

lemma rbind_cong [fundef_cong]:
  assumes "m = n" and "\<And>x. n = Inr x \<Longrightarrow> f x = g x"
  shows "rbind m f = rbind n g"
  using assms by (cases n) simp_all

lemma rbind_eq_Inr [result_simps]:
  "rbind m f = Inr y \<longleftrightarrow> (\<exists>x. m = Inr x \<and> f x = Inr y)"
  by (cases m) simp_all

lemma rbind_eq_Inl [result_simps]:
  "rbind m f = Inl e \<longleftrightarrow> m = Inl e \<or> (\<exists>x. m = Inr x \<and> f x = Inl e)"
  by (cases m) simp_all

lemma rbind_assoc: "rbind (rbind m f) g = rbind m (\<lambda>x. rbind (f x) g)"
  by (cases m) simp_all

lemma rbind_Inr_right [simp]: "rbind m Inr = m"
  by (cases m) simp_all

definition guard_or :: "bool \<Rightarrow> 'e \<Rightarrow> 'e + unit" where
  "guard_or b e = (if b then Inr () else Inl e)"

lemma guard_or_eq_Inr [result_simps]: "guard_or b e = Inr u \<longleftrightarrow> b"
  by (simp add: guard_or_def)

lemma guard_or_eq_Inl [result_simps]: "guard_or b e = Inl e' \<longleftrightarrow> \<not> b \<and> e' = e"
  by (auto simp: guard_or_def)

lemma guard_or_simps [simp]: "guard_or True e = Inr ()" "guard_or False e = Inl e"
  by (simp_all add: guard_or_def)

text \<open>A loop over a list whose body may raise: the first exception ends it.\<close>

fun rmap :: "('a \<Rightarrow> 'e + 'b) \<Rightarrow> 'a list \<Rightarrow> 'e + 'b list" where
  "rmap f [] = Inr []"
| "rmap f (x # xs) = rbind (f x) (\<lambda>y. rbind (rmap f xs) (\<lambda>ys. Inr (y # ys)))"

fun rfold :: "('a \<Rightarrow> 's \<Rightarrow> 'e + 's) \<Rightarrow> 'a list \<Rightarrow> 's \<Rightarrow> 'e + 's" where
  "rfold f [] s = Inr s"
| "rfold f (x # xs) s = rbind (f x s) (rfold f xs)"

lemma rmap_eq_Inr [result_simps]:
  "rmap f xs = Inr ys \<longleftrightarrow> list_all2 (\<lambda>x y. f x = Inr y) xs ys"
  by (induction xs arbitrary: ys) (auto simp: result_simps list_all2_Cons1)

lemma rmap_cong [fundef_cong]:
  assumes "xs = ys" and "\<And>x. x \<in> set ys \<Longrightarrow> f x = g x"
  shows "rmap f xs = rmap g ys"
  unfolding assms(1) using assms(2) by (induction ys) auto

lemma rfold_append: "rfold f (xs @ ys) s = rbind (rfold f xs s) (rfold f ys)"
proof (induction xs arbitrary: s)
  case Nil
  then show ?case by simp
next
  case (Cons x xs)
  then show ?case by (cases "f x s") simp_all
qed

lemma rfold_invariant:
  assumes "rfold f xs s = Inr s'" and "P s"
    and "\<And>x s s'. x \<in> set xs \<Longrightarrow> P s \<Longrightarrow> f x s = Inr s' \<Longrightarrow> P s'"
  shows "P s'"
  using assms by (induction xs arbitrary: s) (auto simp: result_simps)

section \<open>Dictionaries\<close>

type_synonym ('k, 'v) dict = "('k \<times> 'v) list"

abbreviation dget :: "('k, 'v) dict \<Rightarrow> 'k \<Rightarrow> 'v option" where
  "dget \<equiv> map_of"

abbreviation dset :: "'k \<Rightarrow> 'v \<Rightarrow> ('k, 'v) dict \<Rightarrow> ('k, 'v) dict" where
  "dset \<equiv> AList.update"

abbreviation ddel :: "'k \<Rightarrow> ('k, 'v) dict \<Rightarrow> ('k, 'v) dict" where
  "ddel \<equiv> AList.delete"

abbreviation dkeys :: "('k, 'v) dict \<Rightarrow> 'k list" where
  "dkeys d \<equiv> map fst d"

definition dhas :: "('k, 'v) dict \<Rightarrow> 'k \<Rightarrow> bool" where
  "dhas d k \<longleftrightarrow> list_ex (\<lambda>(k', _). k' = k) d"

definition dict_wf :: "('k, 'v) dict \<Rightarrow> bool" where
  "dict_wf d \<longleftrightarrow> distinct (map fst d)"

text \<open>\<open>d.update(d')\<close>\<close>

definition dupdate :: "('k, 'v) dict \<Rightarrow> ('k, 'v) dict \<Rightarrow> ('k, 'v) dict" where
  "dupdate d d' = fold (\<lambda>(k, v) acc. AList.update k v acc) d' d"

lemma dhas_Nil [simp]: "\<not> dhas [] k"
  by (simp add: dhas_def)

lemma dhas_Cons [simp]: "dhas (p # d) k \<longleftrightarrow> fst p = k \<or> dhas d k"
  by (cases p) (simp add: dhas_def)

lemma dhas_iff [dict_simps]: "dhas d k \<longleftrightarrow> (\<exists>v. dget d k = Some v)"
  by (induction d) auto

lemma dhas_keys: "dhas d k \<longleftrightarrow> k \<in> set (dkeys d)"
  by (induction d) auto

lemma dget_dset [dict_simps]: "dget (dset k v d) = (dget d)(k \<mapsto> v)"
  by (rule AList.update_conv')

lemma dget_ddel [dict_simps]: "dget (ddel k d) = (dget d)(k := None)"
  by (rule AList.delete_conv')

lemma dhas_dset [simp]: "dhas (dset k v d) k' \<longleftrightarrow> k' = k \<or> dhas d k'"
  by (auto simp: dhas_iff dget_dset)

lemma dhas_ddel [simp]: "dhas (ddel k d) k' \<longleftrightarrow> k' \<noteq> k \<and> dhas d k'"
  by (auto simp: dhas_iff dget_ddel)

lemma dict_wf_Nil [simp]: "dict_wf []"
  by (simp add: dict_wf_def)

lemma dict_wf_dset [simp]: "dict_wf (dset k v d) \<longleftrightarrow> dict_wf d"
proof
  show "dict_wf d \<Longrightarrow> dict_wf (dset k v d)"
    unfolding dict_wf_def by (rule AList.distinct_update)
  show "dict_wf (dset k v d) \<Longrightarrow> dict_wf d"
    unfolding dict_wf_def
    by (induction d) (auto simp: AList.dom_update split: if_splits)
qed

lemma dict_wf_ddel [simp]: "dict_wf d \<Longrightarrow> dict_wf (ddel k d)"
  unfolding dict_wf_def by (rule AList.distinct_delete)

lemma dict_wf_ConsD: "dict_wf (p # d) \<Longrightarrow> dict_wf d"
  by (simp add: dict_wf_def)

lemma dget_in_set: "dict_wf d \<Longrightarrow> (k, v) \<in> set d \<longleftrightarrow> dget d k = Some v"
  unfolding dict_wf_def by (rule map_of_eq_Some_iff [symmetric])

lemma dget_Some_in_set: "dget d k = Some v \<Longrightarrow> (k, v) \<in> set d"
  by (rule map_of_SomeD)

lemma list_ex_dict:
  "dict_wf d \<Longrightarrow> list_ex (\<lambda>(k, v). P k v) d \<longleftrightarrow> (\<exists>k v. dget d k = Some v \<and> P k v)"
  by (force simp: list_ex_iff dget_in_set [symmetric])

lemma list_all_dict:
  "dict_wf d \<Longrightarrow> list_all (\<lambda>(k, v). P k v) d \<longleftrightarrow> (\<forall>k v. dget d k = Some v \<longrightarrow> P k v)"
  by (force simp: list_all_iff dget_in_set [symmetric])

lemma dget_map_value:
  "dget (map (\<lambda>(k, v). (k, f k v)) d) k = map_option (f k) (dget d k)"
  by (induction d) auto

lemma dkeys_map_value: "dkeys (map (\<lambda>(k, v). (k, f k v)) d) = dkeys d"
  by (induction d) auto

lemma dupdate_Nil [simp]: "dupdate d [] = d"
  by (simp add: dupdate_def)

lemma dupdate_Cons: "dupdate d (p # d') = dupdate (dset (fst p) (snd p) d) d'"
  by (cases p) (simp add: dupdate_def)

lemma dict_wf_dupdate [simp]: "dict_wf d \<Longrightarrow> dict_wf (dupdate d d')"
  by (induction d' arbitrary: d) (simp_all add: dupdate_Cons)

lemma dget_dupdate:
  "dict_wf d' \<Longrightarrow> dget (dupdate d d') k = (case dget d' k of Some v \<Rightarrow> Some v | None \<Rightarrow> dget d k)"
proof (induction d' arbitrary: d)
  case Nil
  then show ?case by simp
next
  case (Cons p d')
  obtain k' v where p: "p = (k', v)" by (cases p)
  from Cons.prems have wf: "dict_wf d'" and new: "dget d' k' = None"
    by (auto simp: p dict_wf_def map_of_eq_None_iff)
  show ?case
    using Cons.IH [OF wf, of "dset k' v d"] new
    by (auto simp: p dupdate_Cons dict_simps split: option.splits)
qed

text \<open>
  \<open>find\<close> on a dict: the first entry in iteration order. Where at most one entry qualifies, the
  order does not matter.
\<close>

lemma find_dict_None:
  "dict_wf d \<Longrightarrow> List.find (\<lambda>(k, v). P k v) d = None \<longleftrightarrow> (\<forall>k v. dget d k = Some v \<longrightarrow> \<not> P k v)"
  by (force simp: find_None_iff dget_in_set [symmetric])

lemma find_dict_SomeD:
  "dict_wf d \<Longrightarrow> List.find (\<lambda>(k, v). P k v) d = Some (k, v) \<Longrightarrow> dget d k = Some v \<and> P k v"
  by (metis (mono_tags, lifting) case_prod_conv dget_in_set find_Some_iff nth_mem)

lemma find_SomeD: "List.find P xs = Some x \<Longrightarrow> x \<in> set xs \<and> P x"
  by (induction xs) (auto split: if_splits)

lemma set_map_filter: "set (List.map_filter f xs) = {y. \<exists>x \<in> set xs. f x = Some y}"
  by (induction xs) (auto simp: List.map_filter_simps split: option.splits)

section \<open>The dictionary interface\<close>

text \<open>
  What the components rely on when they use a Python \<open>dict\<close>: the laws of lookup after a store, a
  delete and on the empty dict, and that the operations keep the representation valid. The clients'
  lemmas below use only these laws.
\<close>

locale pydict =
  fixes empty :: 'd
    and lookup :: "'d \<Rightarrow> 'k \<Rightarrow> 'v option"
    and store :: "'k \<Rightarrow> 'v \<Rightarrow> 'd \<Rightarrow> 'd"
    and del :: "'k \<Rightarrow> 'd \<Rightarrow> 'd"
    and valid :: "'d \<Rightarrow> bool"
  assumes lookup_empty: "lookup empty = (\<lambda>_. None)"
    and lookup_store: "valid d \<Longrightarrow> lookup (store k v d) = (lookup d)(k \<mapsto> v)"
    and lookup_del: "valid d \<Longrightarrow> lookup (del k d) = (lookup d)(k := None)"
    and valid_empty: "valid empty"
    and valid_store: "valid d \<Longrightarrow> valid (store k v d)"
    and valid_del: "valid d \<Longrightarrow> valid (del k d)"
begin

text \<open>\<open>d.setdefault(k, v)\<close>: a present value wins.\<close>

definition setdefault :: "'k \<Rightarrow> 'v \<Rightarrow> 'd \<Rightarrow> 'd" where
  "setdefault k v d = (case lookup d k of None \<Rightarrow> store k v d | Some _ \<Rightarrow> d)"

lemma lookup_setdefault:
  "valid d \<Longrightarrow> lookup (setdefault k v d) k' =
     (if k' = k then Some (case lookup d k of None \<Rightarrow> v | Some w \<Rightarrow> w) else lookup d k')"
  by (auto simp: setdefault_def lookup_store split: option.splits)

lemma valid_setdefault: "valid d \<Longrightarrow> valid (setdefault k v d)"
  by (auto simp: setdefault_def valid_store split: option.splits)

lemma dom_store: "valid d \<Longrightarrow> dom (lookup (store k v d)) = insert k (dom (lookup d))"
  by (simp add: lookup_store)

lemma dom_del: "valid d \<Longrightarrow> dom (lookup (del k d)) = dom (lookup d) - {k}"
  by (simp add: lookup_del)

lemma store_del_cancel:
  "valid d \<Longrightarrow> lookup d k = None \<Longrightarrow> lookup (del k (store k v d)) = lookup d"
  by (simp add: lookup_del lookup_store valid_store fun_upd_idem)

lemma store_store_same:
  "valid d \<Longrightarrow> lookup (store k w (store k v d)) = lookup (store k w d)"
  by (simp add: lookup_store valid_store)

end

interpretation pd: pydict "[]" map_of AList.update AList.delete dict_wf
  by unfold_locales (simp_all add: dict_simps fun_eq_iff)

end
