(* ===== verification/Endpoint.thy ===== *)
theory Endpoint
  imports PyStrings
begin

text \<open>
  \<open>juju/state/endpoint.py\<close>: the value type of a relation endpoint and the test that decides which
  endpoints may be joined.
\<close>

record relation_endpoint =
  ep_service_name :: string
  ep_relation_type :: string
  ep_relation_name :: string
  ep_relation_role :: string
  ep_relation_scope :: string

text \<open>\<open>RelationEndpoint.__new__\<close>: the scope defaults to \<open>global\<close>.\<close>

definition new_endpoint :: "string \<Rightarrow> string \<Rightarrow> string \<Rightarrow> string \<Rightarrow> string option \<Rightarrow> relation_endpoint" where
  "new_endpoint service type name role scope =
     \<lparr>ep_service_name = service, ep_relation_type = type, ep_relation_name = name,
      ep_relation_role = role,
      ep_relation_scope = (case scope of None \<Rightarrow> ''global'' | Some s \<Rightarrow> s)\<rparr>"

definition may_relate_to :: "relation_endpoint \<Rightarrow> relation_endpoint \<Rightarrow> bool" where
  "may_relate_to a b \<longleftrightarrow>
     ep_relation_type a = ep_relation_type b \<and>
     ((ep_relation_role a = ''server'' \<and> ep_relation_role b = ''client'') \<or>
      (ep_relation_role a = ''client'' \<and> ep_relation_role b = ''server'') \<or>
      (ep_relation_role a = ''peer'' \<and> ep_relation_role b = ''peer''))"

lemma may_relate_to_sym: "may_relate_to a b \<Longrightarrow> may_relate_to b a"
  by (auto simp: may_relate_to_def)

lemma may_relate_to_self: "may_relate_to a a \<longleftrightarrow> ep_relation_role a = ''peer''"
  by (auto simp: may_relate_to_def)

text \<open>
  \<open>ServiceStateManager.join_descriptors\<close> (in \<open>juju/state/service.py\<close>) pairs every endpoint of
  the first descriptor with every endpoint of the second that it may relate to, in order.
\<close>

definition join_endpoints ::
  "relation_endpoint list \<Rightarrow> relation_endpoint list \<Rightarrow> (relation_endpoint \<times> relation_endpoint) list" where
  "join_endpoints relations_1 relations_2 =
     concat (map (\<lambda>r1. map (\<lambda>r2. (r1, r2)) (filter (may_relate_to r1) relations_2)) relations_1)"

lemma set_join_endpoints:
  "set (join_endpoints xs ys) = {(a, b). a \<in> set xs \<and> b \<in> set ys \<and> may_relate_to a b}"
  by (auto simp: join_endpoints_def)

lemma join_endpoints_swap:
  "(a, b) \<in> set (join_endpoints xs ys) \<longleftrightarrow> (b, a) \<in> set (join_endpoints ys xs)"
  by (auto simp: set_join_endpoints dest: may_relate_to_sym)

end
