(* ===== verification/Topology.thy ===== *)
theory Topology
  imports Endpoint "HOL-Library.List_Lexorder" "HOL-Library.Char_ord"
begin

text \<open>
  \<open>juju/state/topology.py\<close>: \<open>InternalTopology\<close>, the map of machines, services, units and relations
  that is kept in one ZooKeeper node. The Python object's \<open>_state\<close> is a dict with up to five keys,
  each present once something has been stored under it: here a record whose fields are options, and
  whose nested dicts are association lists. Every method is a function of the topology; a method that
  changes it returns the changed topology. A method that raises leaves nothing behind for its caller,
  because the callers drop the object when an exception passes, so an error carries no state.
\<close>

section \<open>State and errors\<close>

record unit_info =
  u_sequence :: int
  u_container :: "string option"
  u_machine :: "string option"  \<comment> \<open>\<open>None\<close>: the key is absent\<close>

record service_info =
  s_name :: string
  s_units :: "(string, unit_info) dict"

record rel_service =
  rs_role :: string
  rs_name :: string

record relation_info =
  r_interface :: string
  r_scope :: string
  r_services :: "(string, rel_service) dict"

record topology =
  t_version :: "int option"
  t_machines :: "(string, unit) dict option"
  t_services :: "(string, service_info) dict option"
  t_unit_sequence :: "(string, int) dict option"
  t_relations :: "(string, relation_info) dict option"

text \<open>An entry of the list \<open>get_relations_for_service\<close> returns.\<close>

record service_relation_info =
  ri_relation_id :: string
  ri_interface :: string
  ri_scope :: string
  ri_service :: rel_service

text \<open>One constructor per \<open>raise\<close>, and the exceptions of the Python operations themselves.\<close>

datatype topo_error =
    MachineDuplicated string
  | MachineNotFound string
  | MachineHasUnits string
  | ServiceDuplicated string
  | ServiceNameInUse string
  | ServiceNotFound "string option"
  | ServiceHasRelations string "service_relation_info list"
  | UnitAlreadyInService string string
  | NoContainerRelation
  | UnitIdNotFound string
  | UnitNotInService string string
  | UnitAlreadyAssigned string string
  | UnitNotAssigned string string
  | RelationIdInUse string
  | RelationNotFound string
  | ServiceAlreadyInRelation string string
  | RoleAlreadyProvided string string
  | ServiceNotInRelation string string
  | IncompatibleVersion int int
  | KeyError
  | ValueError
  | IndexError
  | AttributeError

definition VERSION :: int where
  "VERSION = 2"

definition new_topology :: topology where
  "new_topology = \<lparr>t_version = Some VERSION, t_machines = None, t_services = None,
                   t_unit_sequence = None, t_relations = None\<rparr>"

definition reset :: "topology \<Rightarrow> topology" where
  "reset t = \<lparr>t_version = Some VERSION, t_machines = None, t_services = None,
              t_unit_sequence = None, t_relations = None\<rparr>"

definition get_version :: "topology \<Rightarrow> int" where
  "get_version t = (case t_version t of None \<Rightarrow> 0 | Some v \<Rightarrow> v)"

text \<open>\<open>self._state.get(key, {})\<close>\<close>

definition machines_of :: "topology \<Rightarrow> (string, unit) dict" where
  "machines_of t = (case t_machines t of None \<Rightarrow> [] | Some d \<Rightarrow> d)"

definition services_of :: "topology \<Rightarrow> (string, service_info) dict" where
  "services_of t = (case t_services t of None \<Rightarrow> [] | Some d \<Rightarrow> d)"

definition unit_sequence_of :: "topology \<Rightarrow> (string, int) dict" where
  "unit_sequence_of t = (case t_unit_sequence t of None \<Rightarrow> [] | Some d \<Rightarrow> d)"

definition relations_of :: "topology \<Rightarrow> (string, relation_info) dict" where
  "relations_of t = (case t_relations t of None \<Rightarrow> [] | Some d \<Rightarrow> d)"

lemmas topo_fields = machines_of_def services_of_def unit_sequence_of_def relations_of_def

section \<open>Assertions\<close>

definition assert_relation :: "topology \<Rightarrow> string \<Rightarrow> topo_error + unit" where
  "assert_relation t rid = guard_or (dhas (relations_of t) rid) (RelationNotFound rid)"

definition assert_machine :: "topology \<Rightarrow> string \<Rightarrow> topo_error + unit" where
  "assert_machine t mid = guard_or (dhas (machines_of t) mid) (MachineNotFound mid)"

definition assert_service :: "topology \<Rightarrow> string \<Rightarrow> topo_error + unit" where
  "assert_service t sid = guard_or (dhas (services_of t) sid) (ServiceNotFound (Some sid))"

text \<open>\<open>d[k]\<close>, a subscript that raises \<open>KeyError\<close>.\<close>

definition item :: "('k, 'v) dict \<Rightarrow> 'k \<Rightarrow> topo_error + 'v" where
  "item d k = (case dget d k of None \<Rightarrow> Inl KeyError | Some v \<Rightarrow> Inr v)"

definition assert_service_unit :: "topology \<Rightarrow> string \<Rightarrow> string \<Rightarrow> topo_error + unit" where
  "assert_service_unit t sid uid =
     rbind (assert_service t sid) (\<lambda>_.
     rbind (item (services_of t) sid) (\<lambda>s.
     guard_or (dhas (s_units s) uid) (UnitNotInService uid sid)))"

section \<open>Machines\<close>

definition add_machine :: "topology \<Rightarrow> string \<Rightarrow> topo_error + topology" where
  "add_machine t mid =
     (let machines = machines_of t in
      if dhas machines mid then Inl (MachineDuplicated mid)
      else Inr (t\<lparr>t_machines := Some (dset mid () machines)\<rparr>))"

definition has_machine :: "topology \<Rightarrow> string \<Rightarrow> bool" where
  "has_machine t mid = dhas (machines_of t) mid"

definition get_machines :: "topology \<Rightarrow> string list" where
  "get_machines t = sort (dkeys (machines_of t))"

definition machine_has_units :: "topology \<Rightarrow> string \<Rightarrow> topo_error + bool" where
  "machine_has_units t mid =
     rbind (assert_machine t mid) (\<lambda>_.
     Inr (list_ex (\<lambda>(_, s). list_ex (\<lambda>(_, u). u_machine u = Some mid) (s_units s)) (services_of t)))"

definition remove_machine :: "topology \<Rightarrow> string \<Rightarrow> topo_error + topology" where
  "remove_machine t mid =
     rbind (assert_machine t mid) (\<lambda>_.
     rbind (machine_has_units t mid) (\<lambda>used.
     if used then Inl (MachineHasUnits mid)
     else Inr (t\<lparr>t_machines := Some (ddel mid (machines_of t))\<rparr>)))"

section \<open>Services\<close>

definition add_service :: "topology \<Rightarrow> string \<Rightarrow> string \<Rightarrow> topo_error + topology" where
  "add_service t sid name =
     (let services = services_of t in
      if dhas services sid then Inl (ServiceDuplicated sid)
      else if list_ex (\<lambda>(_, s). s_name s = name) services then Inl (ServiceNameInUse name)
      else
        (let services' = dset sid \<lparr>s_name = name, s_units = []\<rparr> services;
             unit_sequence = unit_sequence_of t;
             unit_sequence' =
               (if dhas unit_sequence name then unit_sequence else dset name 0 unit_sequence)
         in Inr (t\<lparr>t_services := Some services', t_unit_sequence := Some unit_sequence'\<rparr>)))"

definition has_service :: "topology \<Rightarrow> string \<Rightarrow> bool" where
  "has_service t sid = dhas (services_of t) sid"

definition get_service_name :: "topology \<Rightarrow> string \<Rightarrow> topo_error + string" where
  "get_service_name t sid =
     rbind (assert_service t sid) (\<lambda>_.
     rbind (item (services_of t) sid) (\<lambda>s. Inr (s_name s)))"

definition find_service_with_name :: "topology \<Rightarrow> string \<Rightarrow> string option" where
  "find_service_with_name t name =
     map_option fst (List.find (\<lambda>(_, s). s_name s = name) (services_of t))"

definition get_services :: "topology \<Rightarrow> string list" where
  "get_services t = dkeys (services_of t)"

definition get_relations_for_service ::
  "topology \<Rightarrow> string \<Rightarrow> topo_error + service_relation_info list" where
  "get_relations_for_service t sid =
     rbind (assert_service t sid) (\<lambda>_.
     Inr (List.map_filter
       (\<lambda>(rid, r). map_option
          (\<lambda>rs. \<lparr>ri_relation_id = rid, ri_interface = r_interface r, ri_scope = r_scope r,
                 ri_service = rs\<rparr>)
          (dget (r_services r) sid))
       (relations_of t)))"

definition remove_service :: "topology \<Rightarrow> string \<Rightarrow> topo_error + topology" where
  "remove_service t sid =
     rbind (assert_service t sid) (\<lambda>_.
     rbind (get_relations_for_service t sid) (\<lambda>rels.
     if rels \<noteq> [] then Inl (ServiceHasRelations sid rels)
     else Inr (t\<lparr>t_services := Some (ddel sid (services_of t))\<rparr>)))"

section \<open>Relations\<close>

definition add_relation :: "topology \<Rightarrow> string \<Rightarrow> string \<Rightarrow> string \<Rightarrow> topo_error + topology" where
  "add_relation t rid type scope =
     (let relations = relations_of t in
      if dhas relations rid then Inl (RelationIdInUse rid)
      else Inr (t\<lparr>t_relations :=
        Some (dset rid \<lparr>r_interface = type, r_scope = scope, r_services = []\<rparr> relations)\<rparr>))"

definition has_relation :: "topology \<Rightarrow> string \<Rightarrow> bool" where
  "has_relation t rid = dhas (relations_of t) rid"

definition get_relations :: "topology \<Rightarrow> string list" where
  "get_relations t = dkeys (relations_of t)"

definition get_relation_services ::
  "topology \<Rightarrow> string \<Rightarrow> topo_error + (string, rel_service) dict" where
  "get_relation_services t rid =
     rbind (assert_relation t rid) (\<lambda>_.
     rbind (item (relations_of t) rid) (\<lambda>r. Inr (r_services r)))"

definition get_relation_type :: "topology \<Rightarrow> string \<Rightarrow> topo_error + string" where
  "get_relation_type t rid =
     rbind (assert_relation t rid) (\<lambda>_.
     rbind (item (relations_of t) rid) (\<lambda>r. Inr (r_interface r)))"

definition get_relation_scope :: "topology \<Rightarrow> string \<Rightarrow> topo_error + string" where
  "get_relation_scope t rid =
     rbind (assert_relation t rid) (\<lambda>_.
     rbind (item (relations_of t) rid) (\<lambda>r. Inr (r_scope r)))"

definition relation_has_service :: "topology \<Rightarrow> string \<Rightarrow> string \<Rightarrow> bool" where
  "relation_has_service t rid sid =
     (case dget (relations_of t) rid of None \<Rightarrow> False | Some r \<Rightarrow> dhas (r_services r) sid)"

definition remove_relation :: "topology \<Rightarrow> string \<Rightarrow> topo_error + topology" where
  "remove_relation t rid =
     rbind (assert_relation t rid) (\<lambda>_.
     Inr (t\<lparr>t_relations := Some (ddel rid (relations_of t))\<rparr>))"

text \<open>The loop of \<open>assign_service_to_relation\<close> over the services already in the relation.\<close>

fun check_assignable ::
  "string \<Rightarrow> string \<Rightarrow> string \<Rightarrow> (string, rel_service) dict \<Rightarrow> topo_error + unit" where
  "check_assignable rid sid role [] = Inr ()"
| "check_assignable rid sid role ((sid', info) # rest) =
     (if sid' = sid then Inl (ServiceAlreadyInRelation sid rid)
      else if rs_role info = role then Inl (RoleAlreadyProvided sid' (rs_role info))
      else check_assignable rid sid role rest)"

definition set_relation :: "topology \<Rightarrow> string \<Rightarrow> relation_info \<Rightarrow> topology" where
  "set_relation t rid r = t\<lparr>t_relations := Some (dset rid r (relations_of t))\<rparr>"

definition assign_service_to_relation ::
  "topology \<Rightarrow> string \<Rightarrow> string \<Rightarrow> string \<Rightarrow> string \<Rightarrow> topo_error + topology" where
  "assign_service_to_relation t rid sid name role =
     rbind (assert_service t sid) (\<lambda>_.
     rbind (assert_relation t rid) (\<lambda>_.
     rbind (item (relations_of t) rid) (\<lambda>r.
     rbind (check_assignable rid sid role (r_services r)) (\<lambda>_.
     Inr (set_relation t rid
       (r\<lparr>r_services := dset sid \<lparr>rs_role = role, rs_name = name\<rparr> (r_services r)\<rparr>))))))"

definition unassign_service_from_relation :: "topology \<Rightarrow> string \<Rightarrow> string \<Rightarrow> topo_error + topology" where
  "unassign_service_from_relation t rid sid =
     rbind (assert_service t sid) (\<lambda>_.
     rbind (assert_relation t rid) (\<lambda>_.
     rbind (item (relations_of t) rid) (\<lambda>r.
     if \<not> dhas (r_services r) sid then Inl (ServiceNotInRelation sid rid)
     else Inr (set_relation t rid (r\<lparr>r_services := ddel sid (r_services r)\<rparr>)))))"

definition get_relation_service ::
  "topology \<Rightarrow> string \<Rightarrow> string \<Rightarrow> topo_error + (string \<times> rel_service)" where
  "get_relation_service t rid sid =
     rbind (assert_service t sid) (\<lambda>_.
     rbind (assert_relation t rid) (\<lambda>_.
     rbind (item (relations_of t) rid) (\<lambda>r.
     if \<not> dhas (r_services r) sid then Inl (ServiceNotInRelation sid rid)
     else rbind (item (r_services r) sid) (\<lambda>rs. Inr (r_interface r, rs)))))"

section \<open>Service units\<close>

text \<open>The service id of the first service, in iteration order, that holds the unit.\<close>

definition get_service_unit_service :: "topology \<Rightarrow> string \<Rightarrow> topo_error + string" where
  "get_service_unit_service t uid =
     (case List.find (\<lambda>(_, s). dhas (s_units s) uid) (services_of t) of
        None \<Rightarrow> Inl (UnitIdNotFound uid)
      | Some (sid, _) \<Rightarrow> Inr sid)"

text \<open>
  The search of \<open>add_service_unit\<close> for a container-scoped relation between the two services.
\<close>

fun has_container_relation ::
  "topology \<Rightarrow> string \<Rightarrow> service_relation_info list \<Rightarrow> topo_error + bool" where
  "has_container_relation t principal_service [] = Inr False"
| "has_container_relation t principal_service (ri # rest) =
     (if relation_has_service t (ri_relation_id ri) principal_service
      then rbind (get_relation_scope t (ri_relation_id ri)) (\<lambda>scope.
           if scope = ''container'' then Inr True else has_container_relation t principal_service rest)
      else has_container_relation t principal_service rest)"

definition check_container :: "topology \<Rightarrow> string \<Rightarrow> string option \<Rightarrow> topo_error + unit" where
  "check_container t sid container_id = (case container_id of
       None \<Rightarrow> Inr ()
     | Some c \<Rightarrow>
         rbind (get_service_unit_service t c) (\<lambda>principal_service.
         rbind (get_relations_for_service t sid) (\<lambda>relations.
         rbind (has_container_relation t principal_service relations) (\<lambda>found.
         guard_or found NoContainerRelation))))"

definition set_units :: "topology \<Rightarrow> string \<Rightarrow> service_info \<Rightarrow> (string, unit_info) dict \<Rightarrow> topology" where
  "set_units t sid s units = t\<lparr>t_services := Some (dset sid (s\<lparr>s_units := units\<rparr>) (services_of t))\<rparr>"

definition add_service_unit ::
  "topology \<Rightarrow> string \<Rightarrow> string \<Rightarrow> string option \<Rightarrow> topo_error + (topology \<times> int)" where
  "add_service_unit t sid uid container_id =
     rbind (assert_service t sid) (\<lambda>_.
     rbind (case List.find (\<lambda>(_, s). dhas (s_units s) uid) (services_of t) of
              None \<Rightarrow> Inr ()
            | Some (some_sid, _) \<Rightarrow> Inl (UnitAlreadyInService uid some_sid)) (\<lambda>_.
     rbind (check_container t sid container_id) (\<lambda>_.
     rbind (item (services_of t) sid) (\<lambda>s.
     rbind (item (unit_sequence_of t) (s_name s)) (\<lambda>seq.
     (let unit_data = \<lparr>u_sequence = seq, u_container = container_id, u_machine = None\<rparr>;
          t1 = set_units t sid s (dset uid unit_data (s_units s));
          t2 = t1\<lparr>t_unit_sequence := Some (dset (s_name s) (seq + 1) (unit_sequence_of t))\<rparr>
      in Inr (t2, seq)))))))"

definition has_service_unit :: "topology \<Rightarrow> string \<Rightarrow> string \<Rightarrow> topo_error + bool" where
  "has_service_unit t sid uid =
     rbind (assert_service t sid) (\<lambda>_.
     rbind (item (services_of t) sid) (\<lambda>s. Inr (dhas (s_units s) uid)))"

definition get_service_units :: "topology \<Rightarrow> string \<Rightarrow> topo_error + string list" where
  "get_service_units t sid =
     rbind (assert_service t sid) (\<lambda>_.
     rbind (item (services_of t) sid) (\<lambda>s. Inr (dkeys (s_units s))))"

text \<open>\<open>self._state["services"][service_id]["units"][unit_id]\<close> after the assertion.\<close>

definition unit_item :: "topology \<Rightarrow> string \<Rightarrow> string \<Rightarrow> topo_error + (service_info \<times> unit_info)" where
  "unit_item t sid uid =
     rbind (assert_service_unit t sid uid) (\<lambda>_.
     rbind (item (services_of t) sid) (\<lambda>s.
     rbind (item (s_units s) uid) (\<lambda>u. Inr (s, u))))"

text \<open>\<open>"%s/%s" % (service_name, unit_sequence)\<close>\<close>

definition unit_name :: "string \<Rightarrow> int \<Rightarrow> string" where
  "unit_name name seq = name @ ''/'' @ show_int seq"

definition get_service_unit_name :: "topology \<Rightarrow> string \<Rightarrow> string \<Rightarrow> topo_error + string" where
  "get_service_unit_name t sid uid =
     rbind (unit_item t sid uid) (\<lambda>(s, u). Inr (unit_name (s_name s) (u_sequence u)))"

definition get_service_unit_sequence :: "topology \<Rightarrow> string \<Rightarrow> string \<Rightarrow> topo_error + int" where
  "get_service_unit_sequence t sid uid =
     rbind (unit_item t sid uid) (\<lambda>(_, u). Inr (u_sequence u))"

definition find_service_unit_with_sequence ::
  "topology \<Rightarrow> string option \<Rightarrow> int \<Rightarrow> topo_error + string option" where
  "find_service_unit_with_sequence t service_id seq =
     (case service_id of
        None \<Rightarrow> Inl (ServiceNotFound None)
      | Some sid \<Rightarrow>
          rbind (assert_service t sid) (\<lambda>_.
          rbind (item (services_of t) sid) (\<lambda>s.
          Inr (map_option fst (List.find (\<lambda>(_, u). u_sequence u = seq) (s_units s))))))"

definition get_service_unit_id_from_name :: "topology \<Rightarrow> string \<Rightarrow> topo_error + string option" where
  "get_service_unit_id_from_name t uname =
     (case py_split CHR ''/'' uname of
        [service_name, unit_sequence_id] \<Rightarrow>
          (let service_id = find_service_with_name t service_name in
           case py_int unit_sequence_id of
             None \<Rightarrow> Inl ValueError
           | Some seq \<Rightarrow> find_service_unit_with_sequence t service_id seq)
      | _ \<Rightarrow> Inl ValueError)"

definition get_service_unit_name_from_id :: "topology \<Rightarrow> string \<Rightarrow> topo_error + string" where
  "get_service_unit_name_from_id t uid =
     rbind (get_service_unit_service t uid) (\<lambda>sid. get_service_unit_name t sid uid)"

definition get_service_unit_principal :: "topology \<Rightarrow> string \<Rightarrow> topo_error + string option" where
  "get_service_unit_principal t uid =
     (case List.find (\<lambda>(_, s). dhas (s_units s) uid) (services_of t) of
        None \<Rightarrow> Inl (UnitIdNotFound uid)
      | Some (_, s) \<Rightarrow> rbind (item (s_units s) uid) (\<lambda>u. Inr (u_container u)))"

text \<open>
  The name of the container's unit is printed and taken apart again at its last slash.
\<close>

definition get_service_unit_container ::
  "topology \<Rightarrow> string \<Rightarrow> topo_error + (string \<times> string \<times> int \<times> string) option" where
  "get_service_unit_container t uid =
     rbind (get_service_unit_principal t uid) (\<lambda>container_id.
     case container_id of
       None \<Rightarrow> Inr None
     | Some cid \<Rightarrow>
         rbind (get_service_unit_service t cid) (\<lambda>sid.
         rbind (get_service_unit_name t sid cid) (\<lambda>cname.
         (case rsplit_once CHR ''/'' cname of
            None \<Rightarrow> Inl ValueError
          | Some (service_name, seq) \<Rightarrow>
              (case py_int seq of
                 None \<Rightarrow> Inl ValueError
               | Some n \<Rightarrow> Inr (Some (sid, service_name, n, cid)))))))"

definition remove_service_unit :: "topology \<Rightarrow> string \<Rightarrow> string \<Rightarrow> topo_error + topology" where
  "remove_service_unit t sid uid =
     rbind (assert_service_unit t sid uid) (\<lambda>_.
     rbind (item (services_of t) sid) (\<lambda>s.
     Inr (set_units t sid s (ddel uid (s_units s)))))"

definition assign_service_unit_to_machine ::
  "topology \<Rightarrow> string \<Rightarrow> string \<Rightarrow> string \<Rightarrow> topo_error + topology" where
  "assign_service_unit_to_machine t sid uid mid =
     rbind (assert_service_unit t sid uid) (\<lambda>_.
     rbind (assert_machine t mid) (\<lambda>_.
     rbind (unit_item t sid uid) (\<lambda>(s, u).
     if u_machine u \<noteq> None then Inl (UnitAlreadyAssigned uid sid)
     else Inr (set_units t sid s (dset uid (u\<lparr>u_machine := Some mid\<rparr>) (s_units s))))))"

definition get_service_unit_machine :: "topology \<Rightarrow> string \<Rightarrow> string \<Rightarrow> topo_error + string option" where
  "get_service_unit_machine t sid uid =
     rbind (unit_item t sid uid) (\<lambda>(_, u). Inr (u_machine u))"

definition unassign_service_unit_from_machine ::
  "topology \<Rightarrow> string \<Rightarrow> string \<Rightarrow> topo_error + topology" where
  "unassign_service_unit_from_machine t sid uid =
     rbind (unit_item t sid uid) (\<lambda>(s, u).
     if u_machine u = None then Inl (UnitNotAssigned sid uid)
     else Inr (set_units t sid s (dset uid (u\<lparr>u_machine := None\<rparr>) (s_units s))))"

definition get_service_units_in_machine :: "topology \<Rightarrow> string \<Rightarrow> topo_error + string list" where
  "get_service_units_in_machine t mid =
     rbind (assert_machine t mid) (\<lambda>_.
     Inr (concat (map (\<lambda>(_, s). map fst (filter (\<lambda>(_, u). u_machine u = Some mid) (s_units s)))
                      (services_of t))))"

section \<open>Relations between endpoints\<close>

definition endpoint_service :: "topology \<Rightarrow> relation_info \<Rightarrow> relation_endpoint \<Rightarrow> rel_service option" where
  "endpoint_service t r e =
     (case find_service_with_name t (ep_service_name e) of
        None \<Rightarrow> None
      | Some sid \<Rightarrow> dget (r_services r) sid)"

definition has_relation_between_endpoints :: "topology \<Rightarrow> relation_endpoint list \<Rightarrow> bool" where
  "has_relation_between_endpoints t endpoints =
     list_ex (\<lambda>(_, r). list_all (\<lambda>e.
         (case endpoint_service t r e of
            None \<Rightarrow> False
          | Some rs \<Rightarrow> rs_name rs = ep_relation_name e \<and> r_scope r = ep_relation_scope e))
       endpoints) (relations_of t)"

fun find_relation_between ::
  "topology \<Rightarrow> relation_endpoint list \<Rightarrow> (string, relation_info) dict \<Rightarrow> topo_error + string option" where
  "find_relation_between t endpoints [] = Inr None"
| "find_relation_between t endpoints ((rid, r) # rest) =
     (case endpoints of
        [] \<Rightarrow> Inl IndexError
      | e0 # _ \<Rightarrow>
          if r_interface r \<noteq> ep_relation_type e0 then find_relation_between t endpoints rest
          else if list_all (\<lambda>e. case endpoint_service t r e of
                                None \<Rightarrow> False
                              | Some rs \<Rightarrow> rs_name rs = ep_relation_name e) endpoints
          then Inr (Some rid)
          else find_relation_between t endpoints rest)"

definition get_relation_between_endpoints ::
  "topology \<Rightarrow> relation_endpoint list \<Rightarrow> topo_error + string option" where
  "get_relation_between_endpoints t endpoints = find_relation_between t endpoints (relations_of t)"

section \<open>Versions and the stored form\<close>

text \<open>\<open>_VERSION_MIGRATION\<close> has no enabled entry.\<close>

definition version_migration :: "(int, topology \<Rightarrow> topo_error + topology) dict" where
  "version_migration = []"

partial_function (option) migrate_loop ::
  "int \<Rightarrow> int \<Rightarrow> topology \<Rightarrow> (topo_error + topology) option" where
  "migrate_loop version current t =
     (if current < VERSION then
        (case dget version_migration current of
           None \<Rightarrow> Some (Inl (IncompatibleVersion version VERSION))
         | Some f \<Rightarrow>
             (case f t of
                Inl e \<Rightarrow> Some (Inl e)
              | Inr t' \<Rightarrow> migrate_loop version (get_version t') t'))
      else Some (Inr t))"

definition migrate_topology :: "topology \<Rightarrow> (topo_error + topology) option" where
  "migrate_topology t =
     (let version = get_version t in
      if version = VERSION then Some (Inr t) else migrate_loop version version t)"

text \<open>
  \<open>yaml.safe_dump\<close> and \<open>yaml.load\<close> are outside the sources: parameters. \<open>yload\<close> gives \<open>None\<close> where
  \<open>yaml.load\<close> returns Python's \<open>None\<close>, on which \<open>get_version\<close> raises.
\<close>

definition dump :: "(topology \<Rightarrow> 'd) \<Rightarrow> topology \<Rightarrow> 'd" where
  "dump safe_dump t = safe_dump t"

definition parse :: "('d \<Rightarrow> topology option) \<Rightarrow> 'd \<Rightarrow> (topo_error + topology) option" where
  "parse yload data =
     (case yload data of
        None \<Rightarrow> Some (Inl AttributeError)
      | Some parsed \<Rightarrow>
          if get_version parsed \<noteq> VERSION then migrate_topology parsed else Some (Inr parsed))"

text \<open>
  The disabled migration of version 1, whose relations were pairs of an interface and the services.
  The new dict mixes the nodes the loop stores under the relation ids with those it stores under the
  literal keys \<open>interface\<close>, \<open>scope\<close> and \<open>services\<close>.
\<close>

datatype migrated_node =
    EmptyNode
  | TextNode string
  | ServicesNode "(string, rel_service) dict"

definition migrate_relations_1 ::
  "(string, string \<times> (string, rel_service) dict) dict \<Rightarrow> (string, migrated_node) dict" where
  "migrate_relations_1 relations =
     fold (\<lambda>(relation, (relation_type, relation_services)) new_relations.
        dset ''services'' (ServicesNode relation_services)
          (dset ''scope'' (TextNode ''global'')
            (dset ''interface'' (TextNode relation_type)
              (dset relation EmptyNode new_relations)))) relations []"

text \<open>
  The function itself. Only \<open>version\<close> and \<open>relations\<close> of the topology matter to it; the rest passes
  through. \<open>relations\<close> is read and written back, so an empty or missing one stays as it is.
\<close>

record topology_v1 =
  v1_version :: "int option"
  v1_relations :: "(string, string \<times> (string, rel_service) dict) dict option"

datatype migration =
    Unchanged topology_v1
  | VersionOnly topology_v1
  | Migrated int "(string, migrated_node) dict"

definition migrate_version_1 :: "topology_v1 \<Rightarrow> topo_error + migration" where
  "migrate_version_1 t =
     (let version = (case v1_version t of None \<Rightarrow> 0 | Some v \<Rightarrow> v) in
      if version > 1 then Inr (Unchanged t)
      else if version \<noteq> 1 then Inl (IncompatibleVersion version VERSION)
      else case v1_relations t of
        None \<Rightarrow> Inr (VersionOnly (t\<lparr>v1_version := Some 2\<rparr>))
      | Some [] \<Rightarrow> Inr (VersionOnly (t\<lparr>v1_version := Some 2\<rparr>))
      | Some relations \<Rightarrow> Inr (Migrated 2 (migrate_relations_1 relations)))"


section \<open>How the operations read and write the dicts\<close>

lemma item_eq_Inr [result_simps]: "item d k = Inr v \<longleftrightarrow> dget d k = Some v"
  by (simp add: item_def split: option.splits)

lemma item_eq_Inl [result_simps]: "item d k = Inl e \<longleftrightarrow> dget d k = None \<and> e = KeyError"
  by (auto simp: item_def split: option.splits)

lemma assert_service_unit_eq_Inr [result_simps]:
  "assert_service_unit t sid uid = Inr x \<longleftrightarrow>
     (\<exists>s u. dget (services_of t) sid = Some s \<and> dget (s_units s) uid = Some u)"
  by (auto simp: assert_service_unit_def assert_service_def result_simps dict_simps)

lemma unit_item_eq_Inr [result_simps]:
  "unit_item t sid uid = Inr p \<longleftrightarrow>
     dget (services_of t) sid = Some (fst p) \<and> dget (s_units (fst p)) uid = Some (snd p)"
  by (cases p) (auto simp: unit_item_def result_simps)

lemma set_units_fields [simp]:
  "machines_of (set_units t sid s us) = machines_of t"
  "unit_sequence_of (set_units t sid s us) = unit_sequence_of t"
  "relations_of (set_units t sid s us) = relations_of t"
  "services_of (set_units t sid s us) = dset sid (s\<lparr>s_units := us\<rparr>) (services_of t)"
  by (simp_all add: set_units_def topo_fields)

lemma set_relation_fields [simp]:
  "machines_of (set_relation t rid r) = machines_of t"
  "unit_sequence_of (set_relation t rid r) = unit_sequence_of t"
  "services_of (set_relation t rid r) = services_of t"
  "relations_of (set_relation t rid r) = dset rid r (relations_of t)"
  by (simp_all add: set_relation_def topo_fields)

lemma field_updates [simp]:
  "machines_of (t\<lparr>t_machines := Some d\<rparr>) = d"
  "services_of (t\<lparr>t_machines := Some d\<rparr>) = services_of t"
  "unit_sequence_of (t\<lparr>t_machines := Some d\<rparr>) = unit_sequence_of t"
  "relations_of (t\<lparr>t_machines := Some d\<rparr>) = relations_of t"
  "services_of (t\<lparr>t_services := Some sd\<rparr>) = sd"
  "machines_of (t\<lparr>t_services := Some sd\<rparr>) = machines_of t"
  "unit_sequence_of (t\<lparr>t_services := Some sd\<rparr>) = unit_sequence_of t"
  "relations_of (t\<lparr>t_services := Some sd\<rparr>) = relations_of t"
  "services_of (t\<lparr>t_unit_sequence := Some qd\<rparr>) = services_of t"
  "machines_of (t\<lparr>t_unit_sequence := Some qd\<rparr>) = machines_of t"
  "unit_sequence_of (t\<lparr>t_unit_sequence := Some qd\<rparr>) = qd"
  "relations_of (t\<lparr>t_unit_sequence := Some qd\<rparr>) = relations_of t"
  "services_of (t\<lparr>t_relations := Some rd\<rparr>) = services_of t"
  "machines_of (t\<lparr>t_relations := Some rd\<rparr>) = machines_of t"
  "unit_sequence_of (t\<lparr>t_relations := Some rd\<rparr>) = unit_sequence_of t"
  "relations_of (t\<lparr>t_relations := Some rd\<rparr>) = rd"
  by (simp_all add: topo_fields)

lemma new_topology_fields [simp]:
  "machines_of new_topology = []" "services_of new_topology = []"
  "unit_sequence_of new_topology = []" "relations_of new_topology = []"
  by (simp_all add: topo_fields new_topology_def)

lemma reset_eq_new [simp]: "reset t = new_topology"
  by (simp add: reset_def new_topology_def)

text \<open>What each operation that changes the topology did, when it returned.\<close>

lemma add_machine_Inr:
  "add_machine t m = Inr t' \<longleftrightarrow>
     dget (machines_of t) m = None \<and> t' = t\<lparr>t_machines := Some (dset m () (machines_of t))\<rparr>"
  by (cases "dget (machines_of t) m") (auto simp: add_machine_def Let_def dict_simps)

lemma machine_has_units_Inr:
  "machine_has_units t m = Inr b \<longleftrightarrow>
     dhas (machines_of t) m \<and>
     b = list_ex (\<lambda>(_, s). list_ex (\<lambda>(_, u). u_machine u = Some m) (s_units s)) (services_of t)"
  by (auto simp: machine_has_units_def assert_machine_def result_simps)

lemma check_assignable_Inr:
  "check_assignable rid sid role d = Inr u \<longleftrightarrow>
     (\<forall>(sid', info) \<in> set d. sid' \<noteq> sid \<and> rs_role info \<noteq> role)"
  by (induction rid sid role d rule: check_assignable.induct) auto

lemma has_container_relation_Inr:
  assumes "\<forall>ri \<in> set rels. dhas (relations_of t) (ri_relation_id ri)"
  shows "has_container_relation t p rels =
     Inr (\<exists>ri \<in> set rels. relation_has_service t (ri_relation_id ri) p \<and>
            (\<exists>r. dget (relations_of t) (ri_relation_id ri) = Some r \<and> r_scope r = ''container''))"
  using assms
proof (induction rels)
  case Nil
  then show ?case by simp
next
  case (Cons ri rels)
  from Cons.prems obtain r where r: "dget (relations_of t) (ri_relation_id ri) = Some r"
    by (auto simp: dict_simps)
  then have "get_relation_scope t (ri_relation_id ri) = Inr (r_scope r)"
    by (simp add: get_relation_scope_def assert_relation_def dict_simps result_simps)
  with Cons r show ?case by auto
qed

lemma migrate_loop_old:
  "current < VERSION \<Longrightarrow> migrate_loop version current t = Some (Inl (IncompatibleVersion version VERSION))"
  by (simp add: migrate_loop.simps version_migration_def)

lemma migrate_loop_new: "\<not> current < VERSION \<Longrightarrow> migrate_loop version current t = Some (Inr t)"
  by (simp add: migrate_loop.simps)

end
