(* ===== verification/TopologySpec.thy ===== *)
theory TopologySpec
  imports Topology
begin

text \<open>
  The contract of \<open>InternalTopology\<close>: an abstract state of finite maps, one command per method that
  changes the topology, the guard and the effect of each command on the abstract state, and the
  proof that the methods of the code are exactly that (\<open>exec_refines\<close>). The invariants of the
  topology are proved of the abstract commands and carried to every reachable topology.
\<close>

section \<open>Commands\<close>

datatype topo_cmd =
    AddMachine string
  | RemoveMachine string
  | AddService string string
  | RemoveService string
  | AddUnit string string "string option"
  | RemoveUnit string string
  | AssignUnit string string string
  | UnassignUnit string string
  | AddRelation string string string
  | RemoveRelation string
  | AssignRelation string string string string
  | UnassignRelation string string
  | Reset

fun exec_cmd :: "topology \<Rightarrow> topo_cmd \<Rightarrow> topo_error + topology" where
  "exec_cmd t (AddMachine m) = add_machine t m"
| "exec_cmd t (RemoveMachine m) = remove_machine t m"
| "exec_cmd t (AddService sid name) = add_service t sid name"
| "exec_cmd t (RemoveService sid) = remove_service t sid"
| "exec_cmd t (AddUnit sid uid c) = rbind (add_service_unit t sid uid c) (\<lambda>(t', _). Inr t')"
| "exec_cmd t (RemoveUnit sid uid) = remove_service_unit t sid uid"
| "exec_cmd t (AssignUnit sid uid m) = assign_service_unit_to_machine t sid uid m"
| "exec_cmd t (UnassignUnit sid uid) = unassign_service_unit_from_machine t sid uid"
| "exec_cmd t (AddRelation rid type scope) = add_relation t rid type scope"
| "exec_cmd t (RemoveRelation rid) = remove_relation t rid"
| "exec_cmd t (AssignRelation rid sid name role) = assign_service_to_relation t rid sid name role"
| "exec_cmd t (UnassignRelation rid sid) = unassign_service_from_relation t rid sid"
| "exec_cmd t Reset = Inr (reset t)"

text \<open>
  A run of commands; one that raises leaves the stored topology as it was, because
  \<open>_retry_topology_change\<close> writes only what the change function returned.
\<close>

definition exec_or_keep :: "topology \<Rightarrow> topo_cmd \<Rightarrow> topology" where
  "exec_or_keep t c = (case exec_cmd t c of Inl _ \<Rightarrow> t | Inr t' \<Rightarrow> t')"

definition run_cmds :: "topology \<Rightarrow> topo_cmd list \<Rightarrow> topology" where
  "run_cmds t cs = foldl exec_or_keep t cs"

inductive topo_step :: "topology \<Rightarrow> topo_cmd \<Rightarrow> topology \<Rightarrow> bool" where
  exec: "exec_cmd t c = Inr t' \<Longrightarrow> topo_step t c t'"

inductive_cases topo_stepE: "topo_step t c t'"

inductive_simps topo_step_iff: "topo_step t c t'"

inductive topo_reachable :: "topology \<Rightarrow> bool" where
  initial: "topo_reachable new_topology"
| step: "topo_reachable t \<Longrightarrow> topo_step t c t' \<Longrightarrow> topo_reachable t'"

lemma reachable_exec_or_keep: "topo_reachable t \<Longrightarrow> topo_reachable (exec_or_keep t c)"
  by (auto simp: exec_or_keep_def split: sum.splits intro: topo_reachable.step topo_step.exec)

lemma reachable_run_from: "topo_reachable t \<Longrightarrow> topo_reachable (run_cmds t cs)"
  unfolding run_cmds_def
  by (induction cs arbitrary: t) (auto intro: reachable_exec_or_keep)

lemma reachable_run: "topo_reachable (run_cmds new_topology cs)"
  by (rule reachable_run_from [OF topo_reachable.initial])

section \<open>The abstract state\<close>

record asvc =
  as_name :: string
  as_units :: "string \<rightharpoonup> unit_info"

record arel =
  ar_interface :: string
  ar_scope :: string
  ar_services :: "string \<rightharpoonup> rel_service"

record atopo =
  a_machines :: "string set"
  a_services :: "string \<rightharpoonup> asvc"
  a_seq :: "string \<rightharpoonup> int"
  a_rels :: "string \<rightharpoonup> arel"

definition abs_svc :: "service_info \<Rightarrow> asvc" where
  "abs_svc s = \<lparr>as_name = s_name s, as_units = dget (s_units s)\<rparr>"

definition abs_rel :: "relation_info \<Rightarrow> arel" where
  "abs_rel r = \<lparr>ar_interface = r_interface r, ar_scope = r_scope r, ar_services = dget (r_services r)\<rparr>"

definition topo_abs :: "topology \<Rightarrow> atopo" where
  "topo_abs t =
     \<lparr>a_machines = {m. dhas (machines_of t) m},
      a_services = map_option abs_svc \<circ> dget (services_of t),
      a_seq = dget (unit_sequence_of t),
      a_rels = map_option abs_rel \<circ> dget (relations_of t)\<rparr>"

definition a_empty :: atopo where
  "a_empty = \<lparr>a_machines = {}, a_services = Map.empty, a_seq = Map.empty, a_rels = Map.empty\<rparr>"

definition has_unit :: "atopo \<Rightarrow> string \<Rightarrow> string \<Rightarrow> bool" where
  "has_unit a sid uid \<longleftrightarrow> (\<exists>s u. a_services a sid = Some s \<and> as_units s uid = Some u)"

definition container_ok :: "atopo \<Rightarrow> string \<Rightarrow> string \<Rightarrow> bool" where
  "container_ok a sid c \<longleftrightarrow>
     (\<exists>psid rid r rs rs'. has_unit a psid c \<and> a_rels a rid = Some r \<and>
        ar_services r sid = Some rs \<and> ar_services r psid = Some rs' \<and> ar_scope r = ''container'')"

definition upd_units :: "atopo \<Rightarrow> string \<Rightarrow> asvc \<Rightarrow> (string \<rightharpoonup> unit_info) \<Rightarrow> atopo" where
  "upd_units a sid s us = a\<lparr>a_services := (a_services a)(sid \<mapsto> s\<lparr>as_units := us\<rparr>)\<rparr>"

definition upd_rel :: "atopo \<Rightarrow> string \<Rightarrow> arel \<Rightarrow> (string \<rightharpoonup> rel_service) \<Rightarrow> atopo" where
  "upd_rel a rid r m = a\<lparr>a_rels := (a_rels a)(rid \<mapsto> r\<lparr>ar_services := m\<rparr>)\<rparr>"

inductive astep :: "atopo \<Rightarrow> topo_cmd \<Rightarrow> atopo \<Rightarrow> bool" where
  add_machine: "m \<notin> a_machines a \<Longrightarrow>
     astep a (AddMachine m) (a\<lparr>a_machines := insert m (a_machines a)\<rparr>)"
| remove_machine: "m \<in> a_machines a \<Longrightarrow>
     \<forall>sid s uid u. a_services a sid = Some s \<longrightarrow> as_units s uid = Some u \<longrightarrow> u_machine u \<noteq> Some m \<Longrightarrow>
     astep a (RemoveMachine m) (a\<lparr>a_machines := a_machines a - {m}\<rparr>)"
| add_service: "a_services a sid = None \<Longrightarrow>
     \<forall>sid' s. a_services a sid' = Some s \<longrightarrow> as_name s \<noteq> name \<Longrightarrow>
     astep a (AddService sid name)
       (a\<lparr>a_services := (a_services a)(sid \<mapsto> \<lparr>as_name = name, as_units = Map.empty\<rparr>),
          a_seq := (if a_seq a name = None then (a_seq a)(name \<mapsto> 0) else a_seq a)\<rparr>)"
| remove_service: "a_services a sid = Some s \<Longrightarrow>
     \<forall>rid r. a_rels a rid = Some r \<longrightarrow> ar_services r sid = None \<Longrightarrow>
     astep a (RemoveService sid) (a\<lparr>a_services := (a_services a)(sid := None)\<rparr>)"
| add_unit: "a_services a sid = Some s \<Longrightarrow> \<forall>sid'. \<not> has_unit a sid' uid \<Longrightarrow>
     (\<And>cid. c = Some cid \<Longrightarrow> container_ok a sid cid) \<Longrightarrow> a_seq a (as_name s) = Some n \<Longrightarrow>
     astep a (AddUnit sid uid c)
       ((upd_units a sid s ((as_units s)(uid \<mapsto>
           \<lparr>u_sequence = n, u_container = c, u_machine = None\<rparr>)))
         \<lparr>a_seq := (a_seq a)(as_name s \<mapsto> n + 1)\<rparr>)"
| remove_unit: "a_services a sid = Some s \<Longrightarrow> as_units s uid = Some u \<Longrightarrow>
     astep a (RemoveUnit sid uid) (upd_units a sid s ((as_units s)(uid := None)))"
| assign_unit: "a_services a sid = Some s \<Longrightarrow> as_units s uid = Some u \<Longrightarrow> m \<in> a_machines a \<Longrightarrow>
     u_machine u = None \<Longrightarrow>
     astep a (AssignUnit sid uid m)
       (upd_units a sid s ((as_units s)(uid \<mapsto> u\<lparr>u_machine := Some m\<rparr>)))"
| unassign_unit: "a_services a sid = Some s \<Longrightarrow> as_units s uid = Some u \<Longrightarrow> u_machine u = Some m \<Longrightarrow>
     astep a (UnassignUnit sid uid)
       (upd_units a sid s ((as_units s)(uid \<mapsto> u\<lparr>u_machine := None\<rparr>)))"
| add_relation: "a_rels a rid = None \<Longrightarrow>
     astep a (AddRelation rid type scope)
       (a\<lparr>a_rels := (a_rels a)(rid \<mapsto>
          \<lparr>ar_interface = type, ar_scope = scope, ar_services = Map.empty\<rparr>)\<rparr>)"
| remove_relation: "a_rels a rid = Some r \<Longrightarrow>
     astep a (RemoveRelation rid) (a\<lparr>a_rels := (a_rels a)(rid := None)\<rparr>)"
| assign_relation: "a_services a sid = Some s \<Longrightarrow> a_rels a rid = Some r \<Longrightarrow>
     ar_services r sid = None \<Longrightarrow> \<forall>sid' i. ar_services r sid' = Some i \<longrightarrow> rs_role i \<noteq> role \<Longrightarrow>
     astep a (AssignRelation rid sid name role)
       (upd_rel a rid r ((ar_services r)(sid \<mapsto> \<lparr>rs_role = role, rs_name = name\<rparr>)))"
| unassign_relation: "a_services a sid = Some s \<Longrightarrow> a_rels a rid = Some r \<Longrightarrow>
     ar_services r sid = Some i \<Longrightarrow>
     astep a (UnassignRelation rid sid) (upd_rel a rid r ((ar_services r)(sid := None)))"
| reset: "astep a Reset a_empty"

inductive_simps astep_iff:
  "astep a (AddMachine m) a'" "astep a (RemoveMachine m) a'" "astep a (AddService sid name) a'"
  "astep a (RemoveService sid) a'" "astep a (AddUnit sid uid c) a'" "astep a (RemoveUnit sid uid) a'"
  "astep a (AssignUnit sid uid m) a'" "astep a (UnassignUnit sid uid) a'"
  "astep a (AddRelation rid type scope) a'" "astep a (RemoveRelation rid) a'"
  "astep a (AssignRelation rid sid name role) a'" "astep a (UnassignRelation rid sid) a'"
  "astep a Reset a'"

section \<open>Invariants of the abstract state\<close>

definition names_unique :: "atopo \<Rightarrow> bool" where
  "names_unique a \<longleftrightarrow> (\<forall>sid1 sid2 s1 s2. a_services a sid1 = Some s1 \<longrightarrow>
     a_services a sid2 = Some s2 \<longrightarrow> as_name s1 = as_name s2 \<longrightarrow> sid1 = sid2)"

definition units_unique :: "atopo \<Rightarrow> bool" where
  "units_unique a \<longleftrightarrow> (\<forall>sid1 sid2 uid. has_unit a sid1 uid \<longrightarrow> has_unit a sid2 uid \<longrightarrow> sid1 = sid2)"

definition sequences_ok :: "atopo \<Rightarrow> bool" where
  "sequences_ok a \<longleftrightarrow>
     (\<forall>name n. a_seq a name = Some n \<longrightarrow> 0 \<le> n) \<and>
     (\<forall>sid s. a_services a sid = Some s \<longrightarrow> (\<exists>n. a_seq a (as_name s) = Some n \<and>
        (\<forall>uid u. as_units s uid = Some u \<longrightarrow> 0 \<le> u_sequence u \<and> u_sequence u < n)))"

definition sequences_distinct :: "atopo \<Rightarrow> bool" where
  "sequences_distinct a \<longleftrightarrow> (\<forall>sid s uid1 uid2 u1 u2. a_services a sid = Some s \<longrightarrow>
     as_units s uid1 = Some u1 \<longrightarrow> as_units s uid2 = Some u2 \<longrightarrow>
     u_sequence u1 = u_sequence u2 \<longrightarrow> uid1 = uid2)"

definition machines_known :: "atopo \<Rightarrow> bool" where
  "machines_known a \<longleftrightarrow> (\<forall>sid s uid u m. a_services a sid = Some s \<longrightarrow>
     as_units s uid = Some u \<longrightarrow> u_machine u = Some m \<longrightarrow> m \<in> a_machines a)"

definition relations_ok :: "atopo \<Rightarrow> bool" where
  "relations_ok a \<longleftrightarrow>
     (\<forall>rid r sid i. a_rels a rid = Some r \<longrightarrow> ar_services r sid = Some i \<longrightarrow>
        (\<exists>s. a_services a sid = Some s)) \<and>
     (\<forall>rid r sid1 sid2 i1 i2. a_rels a rid = Some r \<longrightarrow> ar_services r sid1 = Some i1 \<longrightarrow>
        ar_services r sid2 = Some i2 \<longrightarrow> rs_role i1 = rs_role i2 \<longrightarrow> sid1 = sid2)"

definition topo_inv :: "atopo \<Rightarrow> bool" where
  "topo_inv a \<longleftrightarrow> names_unique a \<and> units_unique a \<and> sequences_ok a \<and> sequences_distinct a \<and>
     machines_known a \<and> relations_ok a"

lemmas topo_inv_defs =
  names_unique_def units_unique_def sequences_ok_def sequences_distinct_def machines_known_def
  relations_ok_def

lemmas upd_defs = upd_units_def upd_rel_def

lemma topo_inv_empty: "topo_inv a_empty"
  by (simp add: topo_inv_def topo_inv_defs a_empty_def has_unit_def)

lemma names_unique_astep: "astep a c a' \<Longrightarrow> names_unique a \<Longrightarrow> names_unique a'"
  by (induction rule: astep.induct)
     (auto simp: names_unique_def upd_defs a_empty_def split: if_splits)

lemma has_unit_upd:
  "has_unit (upd_units a sid s us) sid' uid \<longleftrightarrow>
     (if sid' = sid then \<exists>u. us uid = Some u else has_unit a sid' uid)"
  by (auto simp: has_unit_def upd_units_def)

lemma units_unique_astep: "astep a c a' \<Longrightarrow> units_unique a \<Longrightarrow> units_unique a'"
  by (induction rule: astep.induct)
     (unfold units_unique_def has_unit_def upd_defs a_empty_def,
      (fastforce split: if_splits)+)

lemma sequences_ok_astep: "astep a c a' \<Longrightarrow> sequences_ok a \<Longrightarrow> names_unique a \<Longrightarrow> sequences_ok a'"
proof (induction rule: astep.induct)
  case (add_unit a sid s uid c n)
  then show ?case
    by (fastforce simp: sequences_ok_def names_unique_def upd_units_def split: if_splits)
next
  case (add_service a sid name)
  then show ?case by (force simp: sequences_ok_def split: if_splits)
qed (force simp: sequences_ok_def upd_defs a_empty_def split: if_splits)+

lemma sequences_distinct_astep:
  "astep a c a' \<Longrightarrow> sequences_distinct a \<Longrightarrow> sequences_ok a \<Longrightarrow> sequences_distinct a'"
proof (induction rule: astep.induct)
  case (add_unit a sid s uid c n)
  then have "as_units s uid' = Some u \<Longrightarrow> u_sequence u \<noteq> n" for uid' u
    by (force simp: sequences_ok_def)
  with add_unit show ?case
    by (fastforce simp: sequences_distinct_def upd_units_def split: if_splits)
qed (fastforce simp: sequences_distinct_def upd_defs a_empty_def split: if_splits)+

lemma machines_known_astep: "astep a c a' \<Longrightarrow> machines_known a \<Longrightarrow> machines_known a'"
  by (induction rule: astep.induct)
     (unfold machines_known_def upd_defs a_empty_def, (fastforce split: if_splits)+)

lemma relations_ok_astep: "astep a c a' \<Longrightarrow> relations_ok a \<Longrightarrow> relations_ok a'"
  by (induction rule: astep.induct)
     (unfold relations_ok_def upd_defs a_empty_def, (fastforce split: if_splits)+)

lemma topo_inv_astep: "astep a c a' \<Longrightarrow> topo_inv a \<Longrightarrow> topo_inv a'"
  unfolding topo_inv_def
  by (blast intro: names_unique_astep units_unique_astep sequences_ok_astep
        sequences_distinct_astep machines_known_astep relations_ok_astep)


section \<open>The code refines the contract\<close>

definition wf_dicts :: "topology \<Rightarrow> bool" where
  "wf_dicts t \<longleftrightarrow> dict_wf (machines_of t) \<and> dict_wf (services_of t) \<and>
     dict_wf (unit_sequence_of t) \<and> dict_wf (relations_of t) \<and>
     (\<forall>sid s. dget (services_of t) sid = Some s \<longrightarrow> dict_wf (s_units s)) \<and>
     (\<forall>rid r. dget (relations_of t) rid = Some r \<longrightarrow> dict_wf (r_services r))"

lemma topo_abs_fields [simp]:
  "a_machines (topo_abs t) = {m. dhas (machines_of t) m}"
  "a_services (topo_abs t) sid = map_option abs_svc (dget (services_of t) sid)"
  "a_seq (topo_abs t) = dget (unit_sequence_of t)"
  "a_rels (topo_abs t) rid = map_option abs_rel (dget (relations_of t) rid)"
  by (simp_all add: topo_abs_def)

lemma abs_svc_fields [simp]:
  "as_name (abs_svc s) = s_name s" "as_units (abs_svc s) = dget (s_units s)"
  by (simp_all add: abs_svc_def)

lemma abs_rel_fields [simp]:
  "ar_interface (abs_rel r) = r_interface r" "ar_scope (abs_rel r) = r_scope r"
  "ar_services (abs_rel r) = dget (r_services r)"
  by (simp_all add: abs_rel_def)

lemma topo_abs_empty [simp]: "topo_abs new_topology = a_empty"
  by (simp add: topo_abs_def a_empty_def fun_eq_iff)

lemma wf_dicts_empty [simp]: "wf_dicts new_topology"
  by (simp add: wf_dicts_def)

lemma wf_dictsD:
  assumes "wf_dicts t"
  shows "dict_wf (machines_of t)" "dict_wf (services_of t)" "dict_wf (unit_sequence_of t)"
    "dict_wf (relations_of t)"
    "dget (services_of t) sid = Some s \<Longrightarrow> dict_wf (s_units s)"
    "dget (relations_of t) rid = Some r \<Longrightarrow> dict_wf (r_services r)"
  using assms by (auto simp: wf_dicts_def)

text \<open>The abstraction of each kind of update.\<close>

lemma abs_machines_update:
  "topo_abs (t\<lparr>t_machines := Some d\<rparr>) = (topo_abs t)\<lparr>a_machines := {m. dhas d m}\<rparr>"
  by (simp add: topo_abs_def)

lemma topo_abs_add_machine:
  "topo_abs (t\<lparr>t_machines := Some (dset m () (machines_of t))\<rparr>) =
     (topo_abs t)\<lparr>a_machines := insert m (a_machines (topo_abs t))\<rparr>"
  by (auto simp: abs_machines_update insert_Collect intro!: arg_cong [where f = "\<lambda>M. (topo_abs t)\<lparr>a_machines := M\<rparr>"])

lemma topo_abs_del_machine:
  "topo_abs (t\<lparr>t_machines := Some (ddel m (machines_of t))\<rparr>) =
     (topo_abs t)\<lparr>a_machines := a_machines (topo_abs t) - {m}\<rparr>"
  by (auto simp: abs_machines_update intro!: arg_cong [where f = "\<lambda>M. (topo_abs t)\<lparr>a_machines := M\<rparr>"])

lemma abs_sequence_update:
  "topo_abs (t\<lparr>t_unit_sequence := Some d\<rparr>) = (topo_abs t)\<lparr>a_seq := dget d\<rparr>"
  by (simp add: topo_abs_def)

lemma abs_services_update:
  "topo_abs (t\<lparr>t_services := Some d\<rparr>) = (topo_abs t)\<lparr>a_services := map_option abs_svc \<circ> dget d\<rparr>"
  by (simp add: topo_abs_def)

lemma abs_relations_update:
  "topo_abs (t\<lparr>t_relations := Some d\<rparr>) = (topo_abs t)\<lparr>a_rels := map_option abs_rel \<circ> dget d\<rparr>"
  by (simp add: topo_abs_def)

lemma abs_service_set: "map_option abs_svc \<circ> dget (dset sid s d) = (map_option abs_svc \<circ> dget d)(sid \<mapsto> abs_svc s)"
  by (simp add: fun_eq_iff dict_simps)

lemma abs_service_del: "map_option abs_svc \<circ> dget (ddel sid d) = (map_option abs_svc \<circ> dget d)(sid := None)"
  by (simp add: fun_eq_iff dict_simps)

lemma abs_relation_set: "map_option abs_rel \<circ> dget (dset rid r d) = (map_option abs_rel \<circ> dget d)(rid \<mapsto> abs_rel r)"
  by (simp add: fun_eq_iff dict_simps)

lemma abs_relation_del: "map_option abs_rel \<circ> dget (ddel rid d) = (map_option abs_rel \<circ> dget d)(rid := None)"
  by (simp add: fun_eq_iff dict_simps)

lemma a_services_topo_abs: "a_services (topo_abs t) = map_option abs_svc \<circ> dget (services_of t)"
  by (simp add: topo_abs_def)

lemma a_rels_topo_abs: "a_rels (topo_abs t) = map_option abs_rel \<circ> dget (relations_of t)"
  by (simp add: topo_abs_def)

lemma topo_abs_set_units:
  "topo_abs (set_units t sid s us) = upd_units (topo_abs t) sid (abs_svc s) (dget us)"
  by (simp add: set_units_def upd_units_def abs_services_update abs_service_set abs_svc_def
        a_services_topo_abs)

lemma topo_abs_set_relation:
  "topo_abs (set_relation t rid (r\<lparr>r_services := m\<rparr>)) = upd_rel (topo_abs t) rid (abs_rel r) (dget m)"
  by (simp add: set_relation_def upd_rel_def abs_relations_update abs_relation_set abs_rel_def
        a_rels_topo_abs)

lemmas abs_updates =
  abs_machines_update abs_sequence_update abs_services_update abs_relations_update
  abs_service_set abs_service_del abs_relation_set abs_relation_del
  topo_abs_set_units topo_abs_set_relation

text \<open>Which unit is where, in the code's terms.\<close>

lemma has_unit_topo_abs:
  "has_unit (topo_abs t) sid uid \<longleftrightarrow>
     (\<exists>s u. dget (services_of t) sid = Some s \<and> dget (s_units s) uid = Some u)"
  by (auto simp: has_unit_def)

lemma find_unit_None:
  assumes "wf_dicts t"
  shows "List.find (\<lambda>(_, s). dhas (s_units s) uid) (services_of t) = None \<longleftrightarrow>
     (\<forall>sid. \<not> has_unit (topo_abs t) sid uid)"
  using find_dict_None [OF wf_dictsD(2) [OF assms], of "\<lambda>_ s. dhas (s_units s) uid"]
  by (auto simp: has_unit_topo_abs dict_simps)

lemma find_unit_Some:
  assumes "wf_dicts t"
    and "List.find (\<lambda>(_, s). dhas (s_units s) uid) (services_of t) = Some (sid, s)"
  shows "has_unit (topo_abs t) sid uid" and "dget (services_of t) sid = Some s"
  using find_dict_SomeD [OF wf_dictsD(2) [OF assms(1)], of "\<lambda>_ s. dhas (s_units s) uid" sid s] assms(2)
  by (auto simp: has_unit_topo_abs dict_simps)

lemma unit_service_Inr:
  assumes "wf_dicts t" and "units_unique (topo_abs t)"
  shows "get_service_unit_service t uid = Inr sid \<longleftrightarrow> has_unit (topo_abs t) sid uid"
proof (cases "List.find (\<lambda>(_, s). dhas (s_units s) uid) (services_of t)")
  case None
  then have "\<forall>sid. \<not> has_unit (topo_abs t) sid uid" using find_unit_None [OF assms(1)] by blast
  with None show ?thesis by (simp add: get_service_unit_service_def)
next
  case (Some p)
  obtain sid' s where p: "p = (sid', s)" by (cases p)
  have "has_unit (topo_abs t) sid' uid" using find_unit_Some assms(1) Some p by blast
  with assms(2) show ?thesis
    using Some p by (auto simp: get_service_unit_service_def units_unique_def)
qed

lemma relations_for_service_Inr:
  assumes "get_relations_for_service t sid = Inr rels" and "wf_dicts t"
  shows "ri \<in> set rels \<longleftrightarrow> (\<exists>r i. dget (relations_of t) (ri_relation_id ri) = Some r \<and>
     dget (r_services r) sid = Some i \<and> ri_interface ri = r_interface r \<and>
     ri_scope ri = r_scope r \<and> ri_service ri = i)"
proof -
  have wf: "dict_wf (relations_of t)" using assms(2) by (rule wf_dictsD)
  have rels: "set rels = {ri. \<exists>(rid, r) \<in> set (relations_of t). map_option
      (\<lambda>i. \<lparr>ri_relation_id = rid, ri_interface = r_interface r, ri_scope = r_scope r, ri_service = i\<rparr>)
      (dget (r_services r) sid) = Some ri}"
    using assms(1)
    by (simp add: get_relations_for_service_def result_simps, elim conjE, hypsubst)
       (simp add: set_map_filter case_prod_beta)
  show ?thesis
    unfolding rels by (cases ri) (auto simp: dget_in_set [OF wf])
qed

lemma relations_for_service_total:
  "dget (services_of t) sid = Some s \<Longrightarrow> \<exists>rels. get_relations_for_service t sid = Inr rels"
  by (simp add: get_relations_for_service_def assert_service_def dict_simps)

lemma container_ok_abs:
  "container_ok (topo_abs t) sid c \<longleftrightarrow> (\<exists>p. has_unit (topo_abs t) p c \<and>
     (\<exists>rid r i i'. dget (relations_of t) rid = Some r \<and> dget (r_services r) sid = Some i \<and>
        dget (r_services r) p = Some i' \<and> r_scope r = ''container''))"
  by (force simp: container_ok_def)

lemma check_container_Inr:
  assumes wf: "wf_dicts t" and uu: "units_unique (topo_abs t)"
    and s: "dget (services_of t) sid = Some s"
  shows "check_container t sid c = Inr () \<longleftrightarrow> (\<forall>cid. c = Some cid \<longrightarrow> container_ok (topo_abs t) sid cid)"
proof (cases c)
  case None
  then show ?thesis by (simp add: check_container_def)
next
  case (Some cid)
  obtain rels where rels: "get_relations_for_service t sid = Inr rels"
    using relations_for_service_total [OF s] by blast
  note mem = relations_for_service_Inr [OF rels wf]
  have known: "\<forall>ri \<in> set rels. dhas (relations_of t) (ri_relation_id ri)"
    by (auto simp: mem dict_simps)
  have found: "(\<exists>ri \<in> set rels. relation_has_service t (ri_relation_id ri) p \<and>
        (\<exists>r. dget (relations_of t) (ri_relation_id ri) = Some r \<and> r_scope r = ''container'')) \<longleftrightarrow>
      (\<exists>rid r i i'. dget (relations_of t) rid = Some r \<and> dget (r_services r) sid = Some i \<and>
        dget (r_services r) p = Some i' \<and> r_scope r = ''container'')" (is "?L \<longleftrightarrow> ?R") for p
  proof
    show "?L \<Longrightarrow> ?R"
      by (auto simp: mem relation_has_service_def dict_simps split: option.splits) blast
    assume ?R
    then obtain rid r i i' where "dget (relations_of t) rid = Some r"
      "dget (r_services r) sid = Some i" "dget (r_services r) p = Some i'" "r_scope r = ''container''"
      by blast
    then show ?L
      using mem [of "\<lparr>ri_relation_id = rid, ri_interface = r_interface r, ri_scope = r_scope r,
                      ri_service = i\<rparr>"]
      by (intro bexI [of _ "\<lparr>ri_relation_id = rid, ri_interface = r_interface r,
                              ri_scope = r_scope r, ri_service = i\<rparr>"])
         (auto simp: relation_has_service_def dict_simps)
  qed
  have "check_container t sid c = Inr () \<longleftrightarrow> (\<exists>p. has_unit (topo_abs t) p cid \<and>
      (\<exists>rid r i i'. dget (relations_of t) rid = Some r \<and> dget (r_services r) sid = Some i \<and>
        dget (r_services r) p = Some i' \<and> r_scope r = ''container''))"
    using Some rels
    by (simp add: check_container_def result_simps unit_service_Inr [OF wf uu]
          has_container_relation_Inr [OF known] found)
  with Some show ?thesis by (auto simp: container_ok_abs)
qed


text \<open>
  One lemma per command: the method returns exactly when the abstract command is enabled, and then
  with its effect.
\<close>

definition refines :: "topology \<Rightarrow> topo_cmd \<Rightarrow> bool" where
  "refines t c \<longleftrightarrow>
     (\<forall>a'. astep (topo_abs t) c a' \<longleftrightarrow> (\<exists>t'. exec_cmd t c = Inr t' \<and> a' = topo_abs t'))"

lemma machine_in_use:
  assumes "wf_dicts t"
  shows "list_ex (\<lambda>(_, s). list_ex (\<lambda>(_, u). u_machine u = Some m) (s_units s)) (services_of t) \<longleftrightarrow>
     (\<exists>sid s uid u. dget (services_of t) sid = Some s \<and> dget (s_units s) uid = Some u \<and>
        u_machine u = Some m)"
proof -
  have "list_ex (\<lambda>(_, u). u_machine u = Some m) (s_units s) \<longleftrightarrow>
      (\<exists>uid u. dget (s_units s) uid = Some u \<and> u_machine u = Some m)"
    if "dget (services_of t) sid = Some s" for sid s
    using list_ex_dict [OF wf_dictsD(5) [OF assms that], of "\<lambda>_ u. u_machine u = Some m"] by simp
  note inner = this
  have "list_ex (\<lambda>(_, s). list_ex (\<lambda>(_, u). u_machine u = Some m) (s_units s)) (services_of t) \<longleftrightarrow>
      (\<exists>sid s. dget (services_of t) sid = Some s \<and> list_ex (\<lambda>(_, u). u_machine u = Some m) (s_units s))"
    using list_ex_dict [OF wf_dictsD(2) [OF assms],
        of "\<lambda>_ s. list_ex (\<lambda>(_, u). u_machine u = Some m) (s_units s)"] .
  also have "\<dots> \<longleftrightarrow> (\<exists>sid s uid u. dget (services_of t) sid = Some s \<and>
      dget (s_units s) uid = Some u \<and> u_machine u = Some m)"
    using inner by blast
  finally show ?thesis .
qed

lemma all_units_topo_abs:
  "(\<forall>sid s. (\<exists>z. dget (services_of t) sid = Some z \<and> abs_svc z = s) \<longrightarrow>
      (\<forall>uid u. as_units s uid = Some u \<longrightarrow> P u)) \<longleftrightarrow>
   (\<forall>sid s uid u. dget (services_of t) sid = Some s \<longrightarrow> dget (s_units s) uid = Some u \<longrightarrow> P u)"
  by (metis abs_svc_fields(2))

lemma name_in_use:
  assumes "wf_dicts t"
  shows "list_ex (\<lambda>(_, s). s_name s = name) (services_of t) \<longleftrightarrow>
     (\<exists>sid s. dget (services_of t) sid = Some s \<and> s_name s = name)"
  using list_ex_dict [OF wf_dictsD(2) [OF assms], of "\<lambda>_ s. s_name s = name"] by simp

lemma refines_AddMachine: "refines t (AddMachine m)"
  by (auto simp: refines_def astep_iff add_machine_def Let_def topo_abs_add_machine)

lemma remove_machine_Inr:
  assumes "wf_dicts t"
  shows "remove_machine t m = Inr t' \<longleftrightarrow>
     dhas (machines_of t) m \<and>
     (\<forall>sid s uid u. dget (services_of t) sid = Some s \<longrightarrow> dget (s_units s) uid = Some u \<longrightarrow>
        u_machine u \<noteq> Some m) \<and>
     t' = t\<lparr>t_machines := Some (ddel m (machines_of t))\<rparr>"
  by (auto simp: remove_machine_def machine_has_units_def assert_machine_def result_simps
        machine_in_use [OF assms])

lemma refines_RemoveMachine: "wf_dicts t \<Longrightarrow> refines t (RemoveMachine m)"
  by (auto simp: refines_def astep_iff remove_machine_Inr topo_abs_del_machine all_units_topo_abs)

lemma add_service_Inr:
  assumes "wf_dicts t"
  shows "add_service t sid name = Inr t' \<longleftrightarrow>
     dget (services_of t) sid = None \<and>
     (\<forall>sid' s. dget (services_of t) sid' = Some s \<longrightarrow> s_name s \<noteq> name) \<and>
     t' = t\<lparr>t_services := Some (dset sid \<lparr>s_name = name, s_units = []\<rparr> (services_of t)),
            t_unit_sequence := Some (if dget (unit_sequence_of t) name = None
              then dset name 0 (unit_sequence_of t) else unit_sequence_of t)\<rparr>"
  by (auto simp: add_service_def Let_def name_in_use [OF assms] dhas_iff)

lemma all_names_topo_abs:
  "(\<forall>sid s. (\<exists>z. dget (services_of t) sid = Some z \<and> abs_svc z = s) \<longrightarrow> as_name s \<noteq> name) \<longleftrightarrow>
   (\<forall>sid s. dget (services_of t) sid = Some s \<longrightarrow> s_name s \<noteq> name)"
  by (metis abs_svc_fields(1))

lemma topo_abs_add_service:
  "topo_abs (t\<lparr>t_services := Some (dset sid \<lparr>s_name = name, s_units = []\<rparr> (services_of t)),
              t_unit_sequence := Some q\<rparr>) =
   (topo_abs t)\<lparr>a_services := (a_services (topo_abs t))(sid \<mapsto> \<lparr>as_name = name, as_units = Map.empty\<rparr>),
                a_seq := dget q\<rparr>"
  by (simp add: topo_abs_def fun_eq_iff dget_dset abs_svc_def)

lemma refines_AddService: "wf_dicts t \<Longrightarrow> refines t (AddService sid name)"
  by (auto simp: refines_def astep_iff add_service_Inr topo_abs_add_service dget_dset all_names_topo_abs)

lemma service_relations_Nil:
  assumes "wf_dicts t" and "get_relations_for_service t sid = Inr rels"
  shows "rels = [] \<longleftrightarrow> (\<forall>rid r. dget (relations_of t) rid = Some r \<longrightarrow> dget (r_services r) sid = None)"
proof -
  note mem = relations_for_service_Inr [OF assms(2,1)]
  have "(\<exists>ri. ri \<in> set rels) \<longleftrightarrow>
      (\<exists>rid r i. dget (relations_of t) rid = Some r \<and> dget (r_services r) sid = Some i)" (is "_ \<longleftrightarrow> ?R")
  proof
    show "\<exists>ri. ri \<in> set rels \<Longrightarrow> ?R" by (auto simp: mem)
    assume ?R
    then obtain rid r i where "dget (relations_of t) rid = Some r" "dget (r_services r) sid = Some i"
      by blast
    then have "\<lparr>ri_relation_id = rid, ri_interface = r_interface r, ri_scope = r_scope r,
                ri_service = i\<rparr> \<in> set rels"
      by (simp add: mem)
    then show "\<exists>ri. ri \<in> set rels" ..
  qed
  then show ?thesis by (cases rels) auto
qed

lemma remove_service_Inr:
  assumes wf: "wf_dicts t"
  shows "remove_service t sid = Inr t' \<longleftrightarrow>
     (\<exists>s. dget (services_of t) sid = Some s) \<and>
     (\<forall>rid r. dget (relations_of t) rid = Some r \<longrightarrow> dget (r_services r) sid = None) \<and>
     t' = t\<lparr>t_services := Some (ddel sid (services_of t))\<rparr>"
proof (cases "dget (services_of t) sid")
  case None
  then show ?thesis
    by (simp add: remove_service_def assert_service_def result_simps dhas_iff)
next
  case (Some s)
  then obtain rels where rels: "get_relations_for_service t sid = Inr rels"
    using relations_for_service_total by blast
  show ?thesis
    using Some service_relations_Nil [OF wf rels] rels
    by (auto simp: remove_service_def assert_service_def result_simps dhas_iff)
qed

lemma all_rels_topo_abs:
  "(\<forall>rid r. (\<exists>z. dget (relations_of t) rid = Some z \<and> abs_rel z = r) \<longrightarrow> ar_services r sid = None) \<longleftrightarrow>
   (\<forall>rid r. dget (relations_of t) rid = Some r \<longrightarrow> dget (r_services r) sid = None)"
  by (metis abs_rel_fields(3))

lemma refines_RemoveService: "wf_dicts t \<Longrightarrow> refines t (RemoveService sid)"
  by (auto simp: refines_def astep_iff remove_service_Inr abs_services_update abs_service_del
        a_services_topo_abs all_rels_topo_abs)

lemma add_service_unit_Inr:
  assumes wf: "wf_dicts t" and uu: "units_unique (topo_abs t)"
  shows "add_service_unit t sid uid c = Inr (t', n) \<longleftrightarrow>
     (\<exists>s. dget (services_of t) sid = Some s \<and> (\<forall>sid'. \<not> has_unit (topo_abs t) sid' uid) \<and>
        (\<forall>cid. c = Some cid \<longrightarrow> container_ok (topo_abs t) sid cid) \<and>
        dget (unit_sequence_of t) (s_name s) = Some n \<and>
        t' = (set_units t sid s (dset uid \<lparr>u_sequence = n, u_container = c, u_machine = None\<rparr> (s_units s)))
               \<lparr>t_unit_sequence := Some (dset (s_name s) (n + 1) (unit_sequence_of t))\<rparr>)"
proof (cases "dget (services_of t) sid")
  case None
  then show ?thesis
    by (auto simp: add_service_unit_def assert_service_def result_simps dict_simps)
next
  case (Some s)
  show ?thesis
  proof (cases "List.find (\<lambda>(_, s). dhas (s_units s) uid) (services_of t)")
    case None
    then have "\<forall>sid'. \<not> has_unit (topo_abs t) sid' uid" using find_unit_None [OF wf] by blast
    then show ?thesis
      using Some None check_container_Inr [OF wf uu Some, of c]
      by (auto simp: add_service_unit_def assert_service_def result_simps dict_simps Let_def)
  next
    case (Some p)
    obtain sid' s' where p: "p = (sid', s')" by (cases p)
    have "has_unit (topo_abs t) sid' uid" using find_unit_Some(1) [OF wf] Some p by blast
    then show ?thesis
      using Some p by (auto simp: add_service_unit_def result_simps)
  qed
qed

lemma refines_AddUnit:
  assumes "wf_dicts t" and "units_unique (topo_abs t)"
  shows "refines t (AddUnit sid uid c)"
  by (auto simp: refines_def astep_iff result_simps add_service_unit_Inr [OF assms] abs_updates
        dict_simps)

lemma refines_RemoveUnit: "refines t (RemoveUnit sid uid)"
  by (auto simp: refines_def astep_iff remove_service_unit_def result_simps abs_updates dict_simps)

lemma assign_unit_Inr:
  "assign_service_unit_to_machine t sid uid m = Inr t' \<longleftrightarrow>
     (\<exists>s u. dget (services_of t) sid = Some s \<and> dget (s_units s) uid = Some u \<and>
        dhas (machines_of t) m \<and> u_machine u = None \<and>
        t' = set_units t sid s (dset uid (u\<lparr>u_machine := Some m\<rparr>) (s_units s)))"
  by (auto simp: assign_service_unit_to_machine_def assert_machine_def result_simps split: if_splits)

lemma refines_AssignUnit: "refines t (AssignUnit sid uid m)"
  by (auto simp: refines_def astep_iff assign_unit_Inr topo_abs_set_units dget_dset)

lemma unassign_unit_Inr:
  "unassign_service_unit_from_machine t sid uid = Inr t' \<longleftrightarrow>
     (\<exists>s u m. dget (services_of t) sid = Some s \<and> dget (s_units s) uid = Some u \<and>
        u_machine u = Some m \<and>
        t' = set_units t sid s (dset uid (u\<lparr>u_machine := None\<rparr>) (s_units s)))"
  by (auto simp: unassign_service_unit_from_machine_def result_simps split: if_splits)

lemma refines_UnassignUnit: "refines t (UnassignUnit sid uid)"
  by (auto simp: refines_def astep_iff unassign_unit_Inr topo_abs_set_units dget_dset)

lemma refines_AddRelation: "refines t (AddRelation rid type scope)"
  by (auto simp: refines_def astep_iff add_relation_def Let_def dict_simps abs_updates abs_rel_def
        a_rels_topo_abs)

lemma refines_RemoveRelation: "refines t (RemoveRelation rid)"
  by (auto simp: refines_def astep_iff remove_relation_def assert_relation_def result_simps dhas_iff
        abs_relations_update abs_relation_del a_rels_topo_abs)

lemma check_assignable_dict:
  assumes "dict_wf d"
  shows "check_assignable rid sid role d = Inr u \<longleftrightarrow>
     dget d sid = None \<and> (\<forall>sid' i. dget d sid' = Some i \<longrightarrow> rs_role i \<noteq> role)"
  by (force simp: check_assignable_Inr dget_in_set [OF assms] map_of_eq_None_iff)

lemma refines_AssignRelation:
  assumes wf: "wf_dicts t"
  shows "refines t (AssignRelation rid sid name role)"
proof (cases "dget (relations_of t) rid")
  case None
  then show ?thesis
    by (auto simp: refines_def astep_iff assign_service_to_relation_def assert_relation_def
          result_simps dict_simps)
next
  case (Some r)
  then have "dict_wf (r_services r)" using wf by (rule wf_dictsD(6) [rotated])
  with Some show ?thesis
    by (auto simp: refines_def astep_iff assign_service_to_relation_def assert_relation_def
          assert_service_def result_simps dict_simps check_assignable_dict abs_updates)
qed

lemma unassign_relation_Inr:
  "unassign_service_from_relation t rid sid = Inr t' \<longleftrightarrow>
     (\<exists>s r i. dget (services_of t) sid = Some s \<and> dget (relations_of t) rid = Some r \<and>
        dget (r_services r) sid = Some i \<and>
        t' = set_relation t rid (r\<lparr>r_services := ddel sid (r_services r)\<rparr>))"
  by (auto simp: unassign_service_from_relation_def assert_service_def assert_relation_def dhas_iff
        result_simps split: if_splits)

lemma refines_UnassignRelation: "refines t (UnassignRelation rid sid)"
  by (auto simp: refines_def astep_iff unassign_relation_Inr topo_abs_set_relation dget_ddel)

lemma refines_Reset: "refines t Reset"
  by (simp add: refines_def astep_iff)

lemma exec_refines:
  assumes "wf_dicts t" and "topo_inv (topo_abs t)"
  shows "refines t c"
  using assms
  by (cases c)
     (simp_all add: refines_AddMachine refines_RemoveMachine refines_AddService refines_RemoveService
        refines_AddUnit refines_RemoveUnit refines_AssignUnit refines_UnassignUnit
        refines_AddRelation refines_RemoveRelation refines_AssignRelation refines_UnassignRelation
        refines_Reset topo_inv_def)


section \<open>Every reachable topology\<close>

lemma wf_dicts_set_units:
  "wf_dicts t \<Longrightarrow> dget (services_of t) sid = Some s \<Longrightarrow> dict_wf us \<Longrightarrow> wf_dicts (set_units t sid s us)"
  by (auto simp: wf_dicts_def dget_dset)

lemma wf_dicts_set_relation:
  "wf_dicts t \<Longrightarrow> dget (relations_of t) rid = Some r \<Longrightarrow> dict_wf m \<Longrightarrow>
     wf_dicts (set_relation t rid (r\<lparr>r_services := m\<rparr>))"
  by (auto simp: wf_dicts_def dget_dset)

lemma wf_dicts_sequence: "wf_dicts t \<Longrightarrow> dict_wf d \<Longrightarrow> wf_dicts (t\<lparr>t_unit_sequence := Some d\<rparr>)"
  by (simp add: wf_dicts_def)

lemma wf_dicts_exec:
  assumes wf: "wf_dicts t" and inv: "topo_inv (topo_abs t)" and ex: "exec_cmd t c = Inr t'"
  shows "wf_dicts t'"
proof (cases c)
  case (AddMachine m)
  with ex wf show ?thesis by (auto simp: add_machine_Inr wf_dicts_def)
next
  case (RemoveMachine m)
  with ex wf show ?thesis by (auto simp: remove_machine_Inr [OF wf] wf_dicts_def)
next
  case (AddService sid name)
  with ex wf show ?thesis
    by (auto simp: add_service_Inr [OF wf] wf_dicts_def dget_dset split: if_splits)
next
  case (RemoveService sid)
  with ex wf show ?thesis
    by (auto simp: remove_service_Inr [OF wf] wf_dicts_def dget_ddel)
next
  case (AddUnit sid uid cid)
  from inv have "units_unique (topo_abs t)" by (simp add: topo_inv_def)
  with AddUnit ex wf show ?thesis
    by (auto simp: result_simps add_service_unit_Inr wf_dicts_set_units wf_dicts_sequence wf_dictsD)
next
  case (RemoveUnit sid uid)
  with ex wf show ?thesis
    by (auto simp: remove_service_unit_def result_simps wf_dicts_set_units wf_dictsD)
next
  case (AssignUnit sid uid m)
  with ex wf show ?thesis by (auto simp: assign_unit_Inr wf_dicts_set_units wf_dictsD)
next
  case (UnassignUnit sid uid)
  with ex wf show ?thesis by (auto simp: unassign_unit_Inr wf_dicts_set_units wf_dictsD)
next
  case (AddRelation rid type scope)
  with ex wf show ?thesis
    by (auto simp: add_relation_def Let_def wf_dicts_def dget_dset split: if_splits)
next
  case (RemoveRelation rid)
  with ex wf show ?thesis
    by (auto simp: remove_relation_def result_simps wf_dicts_def dget_ddel split: if_splits)
next
  case (AssignRelation rid sid name role)
  with ex wf show ?thesis
    by (auto simp: assign_service_to_relation_def result_simps wf_dicts_set_relation wf_dictsD)
next
  case (UnassignRelation rid sid)
  with ex wf show ?thesis by (auto simp: unassign_relation_Inr wf_dicts_set_relation wf_dictsD)
next
  case Reset
  with ex show ?thesis by auto
qed

lemma exec_astep:
  "wf_dicts t \<Longrightarrow> topo_inv (topo_abs t) \<Longrightarrow> exec_cmd t c = Inr t' \<Longrightarrow> astep (topo_abs t) c (topo_abs t')"
  using exec_refines [of t c] by (auto simp: refines_def)

lemma reachable_invariants: "topo_reachable t \<Longrightarrow> wf_dicts t \<and> topo_inv (topo_abs t)"
proof (induction rule: topo_reachable.induct)
  case initial
  show ?case by (simp add: topo_inv_empty)
next
  case (step t c t')
  then have "exec_cmd t c = Inr t'" by (auto simp: topo_step_iff)
  with step.IH show ?case by (blast intro: wf_dicts_exec topo_inv_astep exec_astep)
qed

lemma reachableD:
  assumes "topo_reachable t"
  shows "wf_dicts t" "topo_inv (topo_abs t)" "names_unique (topo_abs t)" "units_unique (topo_abs t)"
    "sequences_ok (topo_abs t)" "sequences_distinct (topo_abs t)" "machines_known (topo_abs t)"
    "relations_ok (topo_abs t)"
  using reachable_invariants [OF assms] by (simp_all add: topo_inv_def)

section \<open>Unit numbers\<close>

text \<open>
  Only \<open>add_service_unit\<close> touches a counter, and counts up; removing the service keeps it.
  \<open>Reset\<close> starts afresh.
\<close>

definition seq_of :: "atopo \<Rightarrow> string \<Rightarrow> int" where
  "seq_of a name = (case a_seq a name of None \<Rightarrow> 0 | Some n \<Rightarrow> n)"

lemma seq_of_astep:
  "astep a c a' \<Longrightarrow> sequences_ok a \<Longrightarrow> c \<noteq> Reset \<Longrightarrow> seq_of a name \<le> seq_of a' name"
  by (induction rule: astep.induct)
     (auto simp: seq_of_def sequences_ok_def upd_defs split: option.splits)

lemma seq_of_run:
  assumes "topo_reachable t" and "Reset \<notin> set cs"
  shows "seq_of (topo_abs t) name \<le> seq_of (topo_abs (run_cmds t cs)) name"
  using assms
proof (induction cs arbitrary: t)
  case Nil
  then show ?case by (simp add: run_cmds_def)
next
  case (Cons c cs)
  let ?t = "exec_or_keep t c"
  have "seq_of (topo_abs t) name \<le> seq_of (topo_abs ?t) name"
  proof (cases "exec_cmd t c")
    case (Inr t')
    from Cons.prems have "wf_dicts t" "topo_inv (topo_abs t)" "sequences_ok (topo_abs t)"
      by (auto dest: reachableD)
    with Inr Cons.prems show ?thesis
      by (auto simp: exec_or_keep_def intro!: seq_of_astep [where c = c] exec_astep)
  qed (simp add: exec_or_keep_def)
  also have "\<dots> \<le> seq_of (topo_abs (run_cmds ?t cs)) name"
    using Cons by (simp add: reachable_exec_or_keep)
  finally show ?case by (simp add: run_cmds_def)
qed

lemma add_unit_seq:
  assumes "wf_dicts t" and "units_unique (topo_abs t)" and "add_service_unit t sid uid c = Inr (t', n)"
  obtains s where "dget (services_of t) sid = Some s" and "seq_of (topo_abs t) (s_name s) = n"
    and "seq_of (topo_abs t') (s_name s) = n + 1"
  using assms by (auto simp: add_service_unit_Inr seq_of_def dget_dset)

lemma unit_name_inject: "unit_name name m = unit_name name' n \<longleftrightarrow> name = name' \<and> m = n"
proof
  assume eq: "unit_name name m = unit_name name' n"
  have "rsplit_once CHR ''/'' (unit_name name m) = Some (name, show_int m)" for name m
    by (simp add: unit_name_def rsplit_once_append)
  with eq show "name = name' \<and> m = n" by (metis option.inject prod.inject show_int_inject)
qed simp

section \<open>Looking things up\<close>

lemma find_service_Some:
  assumes "wf_dicts t" and "names_unique (topo_abs t)"
  shows "find_service_with_name t name = Some sid \<longleftrightarrow>
     (\<exists>s. dget (services_of t) sid = Some s \<and> s_name s = name)"
proof
  assume "find_service_with_name t name = Some sid"
  then obtain s where "List.find (\<lambda>(_, s). s_name s = name) (services_of t) = Some (sid, s)"
    by (auto simp: find_service_with_name_def)
  then show "\<exists>s. dget (services_of t) sid = Some s \<and> s_name s = name"
    using find_dict_SomeD [OF wf_dictsD(2) [OF assms(1)], of "\<lambda>_ s. s_name s = name" sid s] by auto
next
  assume "\<exists>s. dget (services_of t) sid = Some s \<and> s_name s = name"
  then obtain s where s: "dget (services_of t) sid = Some s" "s_name s = name" by blast
  then obtain p where p: "List.find (\<lambda>(_, s). s_name s = name) (services_of t) = Some p"
    using find_dict_None [OF wf_dictsD(2) [OF assms(1)], of "\<lambda>_ s. s_name s = name"] by fastforce
  obtain sid' s' where p': "p = (sid', s')" by (cases p)
  have "dget (services_of t) sid' = Some s' \<and> s_name s' = name"
    using find_dict_SomeD [OF wf_dictsD(2) [OF assms(1)], of "\<lambda>_ s. s_name s = name"] p p' by auto
  with s assms(2) have "sid' = sid" by (force simp: names_unique_def)
  with p p' show "find_service_with_name t name = Some sid"
    by (simp add: find_service_with_name_def)
qed

lemma find_unit_with_sequence:
  assumes "wf_dicts t" and "sequences_distinct (topo_abs t)"
    and s: "dget (services_of t) sid = Some s" and u: "dget (s_units s) uid = Some u"
  shows "find_service_unit_with_sequence t (Some sid) (u_sequence u) = Inr (Some uid)"
proof -
  have wf: "dict_wf (s_units s)" using assms(1) s by (rule wf_dictsD(5))
  obtain p where p: "List.find (\<lambda>(_, v). u_sequence v = u_sequence u) (s_units s) = Some p"
    using find_dict_None [OF wf, of "\<lambda>_ v. u_sequence v = u_sequence u"] u by fastforce
  obtain uid' u' where p': "p = (uid', u')" by (cases p)
  have "dget (s_units s) uid' = Some u' \<and> u_sequence u' = u_sequence u"
    using find_dict_SomeD [OF wf, of "\<lambda>_ v. u_sequence v = u_sequence u"] p p' by auto
  with assms(2) s u have "uid' = uid" by (force simp: sequences_distinct_def)
  with s p p' show ?thesis
    by (simp add: find_service_unit_with_sequence_def assert_service_def dhas_iff item_def)
qed

lemma get_service_unit_name_Inr:
  "get_service_unit_name t sid uid = Inr n \<longleftrightarrow>
     (\<exists>s u. dget (services_of t) sid = Some s \<and> dget (s_units s) uid = Some u \<and>
        n = unit_name (s_name s) (u_sequence u))"
  by (auto simp: get_service_unit_name_def result_simps)

lemma get_service_unit_principal_eq:
  assumes "wf_dicts t" and "units_unique (topo_abs t)"
    and "dget (services_of t) sid = Some s" and "dget (s_units s) uid = Some u"
  shows "get_service_unit_principal t uid = Inr (u_container u)"
proof (cases "List.find (\<lambda>(_, s). dhas (s_units s) uid) (services_of t)")
  case None
  then have "\<not> has_unit (topo_abs t) sid uid" using find_unit_None [OF assms(1)] by blast
  with assms(3,4) show ?thesis by (simp add: has_unit_topo_abs)
next
  case (Some p)
  obtain sid' s' where p: "p = (sid', s')" by (cases p)
  have found: "has_unit (topo_abs t) sid' uid" "dget (services_of t) sid' = Some s'"
    using find_unit_Some [OF assms(1)] Some p by blast+
  moreover have "has_unit (topo_abs t) sid uid" using assms(3,4) by (simp add: has_unit_topo_abs)
  ultimately have "sid' = sid" using assms(2) by (simp add: units_unique_def)
  with found(2) assms(3,4) Some p show ?thesis
    by (simp add: get_service_unit_principal_def item_def)
qed

lemma units_in_machine_set:
  assumes "wf_dicts t" and "get_service_units_in_machine t m = Inr uids"
  shows "set uids = {uid. \<exists>sid s u. dget (services_of t) sid = Some s \<and>
     dget (s_units s) uid = Some u \<and> u_machine u = Some m}"
proof -
  have "uids = concat (map (\<lambda>(_, s). map fst (filter (\<lambda>(_, u). u_machine u = Some m) (s_units s)))
                           (services_of t))"
    using assms(2) by (simp add: get_service_units_in_machine_def result_simps)
  then have "set uids = {uid. \<exists>sid s u. (sid, s) \<in> set (services_of t) \<and> (uid, u) \<in> set (s_units s) \<and>
      u_machine u = Some m}"
    by force
  also have "\<dots> = {uid. \<exists>sid s u. dget (services_of t) sid = Some s \<and>
      dget (s_units s) uid = Some u \<and> u_machine u = Some m}"
    using dget_in_set [OF wf_dictsD(2) [OF assms(1)]] dget_in_set [OF wf_dictsD(5) [OF assms(1)]]
    by blast
  finally show ?thesis .
qed

end
