(* ===== verification/TopologyProps.thy ===== *)
theory TopologyProps
  imports TopologySpec
begin

text \<open>
  The properties of the topology, stated of the functions of \<open>Topology\<close> and of every topology that a
  run of commands can reach, each with an example run where its hypotheses hold.
\<close>

section \<open>An example run\<close>

definition demo_cmds :: "topo_cmd list" where
  "demo_cmds =
     [AddMachine ''m-0'', AddService ''s-0'' ''wordpress'', AddService ''s-1'' ''logging'',
      AddUnit ''s-0'' ''u-0'' None, AddRelation ''r-0'' ''juju-info'' ''container'',
      AssignRelation ''r-0'' ''s-0'' ''juju-info'' ''server'',
      AssignRelation ''r-0'' ''s-1'' ''info'' ''client'',
      AddUnit ''s-1'' ''u-1'' (Some ''u-0''), AssignUnit ''s-0'' ''u-0'' ''m-0'']"

definition demo :: topology where
  "demo = run_cmds new_topology demo_cmds"

lemma demo_reachable: "topo_reachable demo"
  unfolding demo_def by (rule reachable_run)

lemma demo_value:
  "demo = \<lparr>t_version = Some 2, t_machines = Some [(''m-0'', ())],
     t_services = Some
       [(''s-0'', \<lparr>s_name = ''wordpress'', s_units =
           [(''u-0'', \<lparr>u_sequence = 0, u_container = None, u_machine = Some ''m-0''\<rparr>)]\<rparr>),
        (''s-1'', \<lparr>s_name = ''logging'', s_units =
           [(''u-1'', \<lparr>u_sequence = 0, u_container = Some ''u-0'', u_machine = None\<rparr>)]\<rparr>)],
     t_unit_sequence = Some [(''wordpress'', 1), (''logging'', 1)],
     t_relations = Some
       [(''r-0'', \<lparr>r_interface = ''juju-info'', r_scope = ''container'', r_services =
           [(''s-0'', \<lparr>rs_role = ''server'', rs_name = ''juju-info''\<rparr>),
            (''s-1'', \<lparr>rs_role = ''client'', rs_name = ''info''\<rparr>)]\<rparr>)]\<rparr>"
  by code_simp

section \<open>Invariants and refinement\<close>

text \<open>
  C2: every topology that any sequence of the operations can produce has distinct service names, each
  unit in one service only, unit numbers that are distinct within a service and below the service
  name's counter, units assigned to known machines only, and relations that mention known services
  only, each in its own role.
\<close>

theorem topology_invariants:
  assumes "topo_reachable t"
  shows "wf_dicts t \<and> topo_inv (topo_abs t)"
  using assms by (rule reachable_invariants)

theorem topology_invariants_witness:
  "topo_reachable demo \<and> wf_dicts demo \<and> topo_inv (topo_abs demo)"
  using demo_reachable topology_invariants [OF demo_reachable] by simp

text \<open>
  C1: on a reachable topology every method that changes it returns exactly when the contract enables
  its command, and the state it returns is the one the contract gives; it raises otherwise.
\<close>

theorem topology_refines:
  assumes "topo_reachable t"
  shows "astep (topo_abs t) c a' \<longleftrightarrow> (\<exists>t'. exec_cmd t c = Inr t' \<and> a' = topo_abs t')"
  using exec_refines [of t c] reachable_invariants [OF assms] by (simp add: refines_def)

theorem topology_refines_witness:
  "topo_reachable demo \<and> \<not> (\<exists>a'. astep (topo_abs demo) (RemoveMachine ''m-0'') a')"
proof -
  have "exec_cmd demo (RemoveMachine ''m-0'') = Inl (MachineHasUnits ''m-0'')"
    by code_simp
  then show ?thesis
    using demo_reachable topology_refines [OF demo_reachable, of "RemoveMachine ''m-0''"] by auto
qed

section \<open>Names\<close>

text \<open>
  C3: the name of a unit (service name and number) is never given out again, whatever happens in
  between: also when the unit or its service is removed and a service of that name is added again.
\<close>

theorem unit_names_never_reused:
  assumes t: "topo_reachable t"
    and first: "add_service_unit t sid uid c = Inr (t1, n)"
    and between: "Reset \<notin> set cs"
    and second: "add_service_unit (run_cmds t1 cs) sid' uid' c' = Inr (t2, n')"
    and name: "get_service_unit_name t1 sid uid = Inr nm"
    and name': "get_service_unit_name t2 sid' uid' = Inr nm'"
  shows "nm \<noteq> nm'"
proof -
  have "exec_cmd t (AddUnit sid uid c) = Inr t1" using first by simp
  then have t1: "topo_reachable t1" using t by (blast intro: topo_reachable.step topo_step.exec)
  let ?u = "run_cmds t1 cs"
  have u: "topo_reachable ?u" using t1 by (rule reachable_run_from)
  obtain s where s: "seq_of (topo_abs t1) (s_name s) = n + 1" "dget (services_of t) sid = Some s"
    using add_unit_seq [OF _ _ first] reachableD [OF t] by metis
  obtain s' where s': "seq_of (topo_abs ?u) (s_name s') = n'" "dget (services_of ?u) sid' = Some s'"
    using add_unit_seq [OF _ _ second] reachableD [OF u] by metis
  have nm: "nm = unit_name (s_name s) n"
    using first name s(2) add_service_unit_Inr [OF reachableD(1,4) [OF t]]
    by (auto simp: get_service_unit_name_Inr dget_dset)
  have nm': "nm' = unit_name (s_name s') n'"
    using second name' s'(2) add_service_unit_Inr [OF reachableD(1,4) [OF u]]
    by (auto simp: get_service_unit_name_Inr dget_dset)
  have "n + 1 \<le> seq_of (topo_abs ?u) (s_name s)"
    using seq_of_run [OF t1 between, of "s_name s"] s(1) by simp
  then show ?thesis using nm nm' s'(1) by (auto simp: unit_name_inject)
qed

definition demo2 :: topology where
  "demo2 = run_cmds new_topology [AddService ''s-0'' ''db'']"

definition demo2_added :: topology where
  "demo2_added = (case add_service_unit demo2 ''s-0'' ''u-0'' None of Inr (t, _) \<Rightarrow> t | Inl _ \<Rightarrow> demo2)"

definition demo2_between :: "topo_cmd list" where
  "demo2_between = [RemoveUnit ''s-0'' ''u-0'', RemoveService ''s-0'', AddService ''s-9'' ''db'']"

definition demo2_last :: topology where
  "demo2_last =
     (case add_service_unit (run_cmds demo2_added demo2_between) ''s-9'' ''u-9'' None of
        Inr (t, _) \<Rightarrow> t | Inl _ \<Rightarrow> demo2)"

theorem unit_names_never_reused_witness:
  "get_service_unit_name demo2_added ''s-0'' ''u-0'' = Inr ''db/0'' \<and>
   get_service_unit_name demo2_last ''s-9'' ''u-9'' = Inr ''db/1'' \<and> ''db/0'' \<noteq> ''db/1''"
proof -
  have n1: "get_service_unit_name demo2_added ''s-0'' ''u-0'' = Inr ''db/0''" by code_simp
  have n2: "get_service_unit_name demo2_last ''s-9'' ''u-9'' = Inr ''db/1''" by code_simp
  have a1: "add_service_unit demo2 ''s-0'' ''u-0'' None = Inr (demo2_added, 0)" by code_simp
  have a2: "add_service_unit (run_cmds demo2_added demo2_between) ''s-9'' ''u-9'' None = Inr (demo2_last, 1)"
    by code_simp
  have r: "topo_reachable demo2" unfolding demo2_def by (rule reachable_run)
  have b: "Reset \<notin> set demo2_between" by (simp add: demo2_between_def)
  from unit_names_never_reused [OF r a1 b a2 n1 n2] n1 n2 show ?thesis by simp
qed

text \<open>
  Looking up the id of a unit by the name \<open>get_service_unit_name\<close> prints for it gives the unit
  back, for every service name without a slash.
\<close>

theorem unit_name_roundtrip:
  assumes t: "topo_reachable t"
    and name: "get_service_unit_name t sid uid = Inr nm"
    and slash: "\<And>sname. get_service_name t sid = Inr sname \<Longrightarrow> CHR ''/'' \<notin> set sname"
  shows "get_service_unit_id_from_name t nm = Inr (Some uid)"
proof -
  from name obtain s u where s: "dget (services_of t) sid = Some s" and u: "dget (s_units s) uid = Some u"
    and nm: "nm = unit_name (s_name s) (u_sequence u)"
    by (auto simp: get_service_unit_name_Inr)
  from s have "get_service_name t sid = Inr (s_name s)"
    by (simp add: get_service_name_def assert_service_def dhas_iff item_def)
  then have "py_split CHR ''/'' nm = [s_name s, show_int (u_sequence u)]"
    by (simp add: nm unit_name_def slash py_split_append_sep py_split_no_sep)
  moreover have "find_service_with_name t (s_name s) = Some sid"
    using s find_service_Some [OF reachableD(1,3) [OF t]] by blast
  ultimately show ?thesis
    using find_unit_with_sequence [OF reachableD(1,6) [OF t] s u]
    by (simp add: get_service_unit_id_from_name_def)
qed

theorem unit_name_roundtrip_witness:
  "get_service_unit_name demo ''s-1'' ''u-1'' = Inr ''logging/0'' \<and>
   get_service_unit_id_from_name demo ''logging/0'' = Inr (Some ''u-1'')"
proof -
  have n: "get_service_unit_name demo ''s-1'' ''u-1'' = Inr ''logging/0''" by code_simp
  have g: "get_service_name demo ''s-1'' = Inr ''logging''" by code_simp
  have "get_service_unit_id_from_name demo ''logging/0'' = Inr (Some ''u-1'')"
    by (rule unit_name_roundtrip [OF demo_reachable n]) (simp add: g)
  with n show ?thesis by simp
qed

section \<open>Machines\<close>

text \<open>
  \<open>remove_machine\<close> succeeds exactly on a known machine that holds no unit, and then no unit and no
  lookup mentions the machine any more.
\<close>

theorem remove_machine_iff_unused:
  assumes t: "topo_reachable t"
  shows "(\<exists>t'. remove_machine t m = Inr t') \<longleftrightarrow>
     has_machine t m \<and> get_service_units_in_machine t m = Inr []"
proof -
  have wf: "wf_dicts t" using t by (rule reachableD)
  have "get_service_units_in_machine t m = Inr [] \<longleftrightarrow> has_machine t m \<and>
      (\<forall>sid s uid u. dget (services_of t) sid = Some s \<longrightarrow> dget (s_units s) uid = Some u \<longrightarrow>
        u_machine u \<noteq> Some m)"
  proof (cases "has_machine t m")
    case True
    then obtain uids where uids: "get_service_units_in_machine t m = Inr uids"
      by (simp add: get_service_units_in_machine_def assert_machine_def has_machine_def)
    have "uids = [] \<longleftrightarrow> set uids = {}" by simp
    with True uids units_in_machine_set [OF wf uids] show ?thesis by auto
  next
    case False
    then show ?thesis
      by (auto simp: get_service_units_in_machine_def assert_machine_def has_machine_def)
  qed
  then show ?thesis by (auto simp: remove_machine_Inr [OF wf] has_machine_def)
qed

theorem remove_machine_iff_unused_witness:
  "\<not> (\<exists>t'. remove_machine demo ''m-0'' = Inr t') \<and>
   get_service_units_in_machine demo ''m-0'' = Inr [''u-0'']"
proof -
  have g: "get_service_units_in_machine demo ''m-0'' = Inr [''u-0'']" by code_simp
  then show ?thesis using remove_machine_iff_unused [OF demo_reachable, of "''m-0''"] by simp
qed


section \<open>Subordinate units\<close>

lemma relation_has_service_iff:
  "relation_has_service t rid sid \<longleftrightarrow>
     (\<exists>r i. dget (relations_of t) rid = Some r \<and> dget (r_services r) sid = Some i)"
  by (auto simp: relation_has_service_def dhas_iff split: option.splits)

lemma get_relation_scope_Inr:
  "get_relation_scope t rid = Inr scope \<longleftrightarrow>
     (\<exists>r. dget (relations_of t) rid = Some r \<and> r_scope r = scope)"
  by (auto simp: get_relation_scope_def assert_relation_def dhas_iff result_simps)

text \<open>
  A unit can be added inside the container of another unit exactly when some container-scoped
  relation holds both services; without one the addition fails with that error and no other.
\<close>

theorem subordinate_needs_container_relation:
  assumes t: "topo_reachable t"
    and service: "has_service t sid"
    and fresh: "\<forall>sid'. get_service_unit_service t uid \<noteq> Inr sid'"
    and principal: "get_service_unit_service t cid = Inr psid"
  shows "add_service_unit t sid uid (Some cid) = Inl NoContainerRelation \<longleftrightarrow>
     (\<forall>rid. relation_has_service t rid sid \<longrightarrow> relation_has_service t rid psid \<longrightarrow>
        get_relation_scope t rid \<noteq> Inr ''container'')"
proof -
  note wf = reachableD(1) [OF t] and uu = reachableD(4) [OF t]
  obtain s where s: "dget (services_of t) sid = Some s"
    using service by (auto simp: has_service_def dhas_iff)
  obtain n where n: "dget (unit_sequence_of t) (s_name s) = Some n"
    using reachableD(5) [OF t] s by (force simp: sequences_ok_def)
  have nf: "List.find (\<lambda>(_, s). dhas (s_units s) uid) (services_of t) = None"
    using fresh by (auto simp: get_service_unit_service_def split: option.splits)
  have "has_unit (topo_abs t) p cid \<longleftrightarrow> p = psid" for p
    using principal unit_service_Inr [OF wf uu, of cid p] by auto
  then have "container_ok (topo_abs t) sid cid \<longleftrightarrow>
      (\<exists>rid r i i'. dget (relations_of t) rid = Some r \<and> dget (r_services r) sid = Some i \<and>
        dget (r_services r) psid = Some i' \<and> r_scope r = ''container'')"
    by (simp add: container_ok_abs)
  then have ok: "container_ok (topo_abs t) sid cid \<longleftrightarrow>
      \<not> (\<forall>rid. relation_has_service t rid sid \<longrightarrow> relation_has_service t rid psid \<longrightarrow>
          get_relation_scope t rid \<noteq> Inr ''container'')"
    by (simp add: relation_has_service_iff get_relation_scope_Inr) (metis option.inject)
  obtain rels where rels: "get_relations_for_service t sid = Inr rels"
    using relations_for_service_total [OF s] by blast
  then have "\<forall>ri \<in> set rels. dhas (relations_of t) (ri_relation_id ri)"
    using relations_for_service_Inr [OF rels wf] by (auto simp: dhas_iff)
  then have "\<exists>b. has_container_relation t psid rels = Inr b"
    by (simp add: has_container_relation_Inr)
  then have "\<exists>b. check_container t sid (Some cid) = guard_or b NoContainerRelation"
    using rels principal by (auto simp: check_container_def)
  then obtain b where b: "check_container t sid (Some cid) = guard_or b NoContainerRelation" ..
  then have "b \<longleftrightarrow> container_ok (topo_abs t) sid cid"
    using check_container_Inr [OF wf uu s, of "Some cid"] by (simp add: guard_or_eq_Inr)
  moreover have "add_service_unit t sid uid (Some cid) = Inl NoContainerRelation \<longleftrightarrow> \<not> b"
    using service s n nf b
    by (cases b) (simp_all add: add_service_unit_def assert_service_def has_service_def item_def Let_def)
  ultimately show ?thesis using ok by blast
qed

theorem subordinate_needs_container_relation_witness:
  "has_service demo ''s-0'' \<and>
   add_service_unit demo ''s-1'' ''u-2'' (Some ''u-1'') \<noteq> Inl NoContainerRelation"
proof -
  have s: "has_service demo ''s-1''" by code_simp
  have f: "get_service_unit_service demo ''u-2'' = Inl (UnitIdNotFound ''u-2'')" by code_simp
  have p: "get_service_unit_service demo ''u-1'' = Inr ''s-1''" by code_simp
  have r: "relation_has_service demo ''r-0'' ''s-1''" by code_simp
  have c: "get_relation_scope demo ''r-0'' = Inr ''container''" by code_simp
  have "add_service_unit demo ''s-1'' ''u-2'' (Some ''u-1'') \<noteq> Inl NoContainerRelation"
    using subordinate_needs_container_relation [OF demo_reachable s _ p, of "''u-2''"] f r c by auto
  moreover have "has_service demo ''s-0''" by code_simp
  ultimately show ?thesis by simp
qed

text \<open>
  For a unit that was added in a container which still exists, \<open>get_service_unit_container\<close>
  recovers the container's service id, service name and number from its printed name.
\<close>

theorem container_info_correct:
  assumes t: "topo_reachable t"
    and u: "dget (services_of t) sid = Some s" "dget (s_units s) uid = Some u"
    and c: "u_container u = Some cid"
    and p: "dget (services_of t) psid = Some ps" "dget (s_units ps) cid = Some pu"
  shows "get_service_unit_container t uid = Inr (Some (psid, s_name ps, u_sequence pu, cid))"
proof -
  note wf = reachableD(1) [OF t] and uu = reachableD(4) [OF t]
  have "get_service_unit_principal t uid = Inr (Some cid)"
    using get_service_unit_principal_eq [OF wf uu u] c by simp
  moreover have "get_service_unit_service t cid = Inr psid"
    using unit_service_Inr [OF wf uu] p by (simp add: has_unit_topo_abs)
  moreover have "get_service_unit_name t psid cid = Inr (unit_name (s_name ps) (u_sequence pu))"
    using p by (simp add: get_service_unit_name_Inr)
  ultimately show ?thesis
    by (simp add: get_service_unit_container_def unit_name_def rsplit_once_append)
qed

theorem container_info_correct_witness:
  "get_service_unit_container demo ''u-1'' = Inr (Some (''s-0'', ''wordpress'', 0, ''u-0''))"
  using container_info_correct [OF demo_reachable, of "''s-1''"
      "\<lparr>s_name = ''logging'', s_units =
           [(''u-1'', \<lparr>u_sequence = 0, u_container = Some ''u-0'', u_machine = None\<rparr>)]\<rparr>" "''u-1''"
      "\<lparr>u_sequence = 0, u_container = Some ''u-0'', u_machine = None\<rparr>" "''u-0''" "''s-0''"
      "\<lparr>s_name = ''wordpress'', s_units =
           [(''u-0'', \<lparr>u_sequence = 0, u_container = None, u_machine = Some ''m-0''\<rparr>)]\<rparr>"
      "\<lparr>u_sequence = 0, u_container = None, u_machine = Some ''m-0''\<rparr>"]
  by (simp add: demo_value services_of_def)

section \<open>Relations between endpoints\<close>

lemma endpoint_service_Some:
  assumes "wf_dicts t" and "names_unique (topo_abs t)"
  shows "endpoint_service t r e = Some rs \<longleftrightarrow> (\<exists>sid s. dget (services_of t) sid = Some s \<and>
      s_name s = ep_service_name e \<and> dget (r_services r) sid = Some rs)"
proof -
  note found = find_service_Some [OF assms, of "ep_service_name e"]
  have "endpoint_service t r e = Some rs \<longleftrightarrow>
      (\<exists>sid. find_service_with_name t (ep_service_name e) = Some sid \<and> dget (r_services r) sid = Some rs)"
    by (simp add: endpoint_service_def split: option.splits)
  also have "\<dots> \<longleftrightarrow> (\<exists>sid s. dget (services_of t) sid = Some s \<and>
      s_name s = ep_service_name e \<and> dget (r_services r) sid = Some rs)"
    unfolding found by blast
  finally show ?thesis .
qed

lemma find_relation_between_Some:
  "find_relation_between t es d = Inr (Some rid) \<Longrightarrow> es \<noteq> [] \<and>
     (\<exists>r. (rid, r) \<in> set d \<and> r_interface r = ep_relation_type (hd es) \<and>
        (\<forall>e \<in> set es. \<exists>rs. endpoint_service t r e = Some rs \<and> rs_name rs = ep_relation_name e))"
proof (induction t es d rule: find_relation_between.induct)
  case (1 t endpoints)
  then show ?case by simp
next
  case (2 t endpoints rid' r rest)
  obtain e es where es: "endpoints = e # es" using "2.prems" by (cases endpoints) auto
  let ?here = "r_interface r = ep_relation_type e \<and>
      list_all (\<lambda>e. case endpoint_service t r e of None \<Rightarrow> False
        | Some rs \<Rightarrow> rs_name rs = ep_relation_name e) endpoints"
  show ?case
  proof (cases ?here)
    case True
    with "2.prems" es have "rid' = rid" by (auto split: if_splits)
    moreover from True have "\<forall>e \<in> set endpoints. \<exists>rs. endpoint_service t r e = Some rs \<and>
        rs_name rs = ep_relation_name e"
      by (auto simp: list_all_iff split: option.splits)
    ultimately show ?thesis using True es by auto
  next
    case False
    with "2.prems" es have "find_relation_between t endpoints rest = Inr (Some rid)"
      by (auto split: if_splits)
    with "2.IH" es False show ?thesis by (cases "r_interface r = ep_relation_type e") auto
  qed
qed

lemma find_relation_between_None:
  "find_relation_between t es d = Inr None \<Longrightarrow> (rid, r) \<in> set d \<Longrightarrow>
     r_interface r = ep_relation_type (hd es) \<Longrightarrow>
     \<exists>e \<in> set es. \<not> (\<exists>rs. endpoint_service t r e = Some rs \<and> rs_name rs = ep_relation_name e)"
proof (induction t es d rule: find_relation_between.induct)
  case (1 t endpoints)
  then show ?case by simp
next
  case (2 t endpoints rid' r' rest)
  obtain e es where es: "endpoints = e # es" using "2.prems"(1) by (cases endpoints) auto
  let ?here = "list_all (\<lambda>e. case endpoint_service t r' e of None \<Rightarrow> False
      | Some rs \<Rightarrow> rs_name rs = ep_relation_name e) endpoints"
  show ?case
  proof (cases "(rid, r) = (rid', r')")
    case True
    with "2.prems" es have "\<not> ?here" by (auto split: if_splits)
    with True show ?thesis by (auto simp: list_all_iff split: option.splits)
  next
    case False
    with "2.prems"(2) have "(rid, r) \<in> set rest" by auto
    with "2.IH" "2.prems" es show ?thesis by (auto split: if_splits)
  qed
qed

text \<open>What it means that a relation joins the endpoints.\<close>

definition endpoint_joined :: "topology \<Rightarrow> relation_info \<Rightarrow> relation_endpoint \<Rightarrow> bool" where
  "endpoint_joined t r e \<longleftrightarrow> (\<exists>sid s rs. dget (services_of t) sid = Some s \<and>
     s_name s = ep_service_name e \<and> dget (r_services r) sid = Some rs \<and> rs_name rs = ep_relation_name e)"

definition relation_joins :: "topology \<Rightarrow> relation_endpoint list \<Rightarrow> string \<Rightarrow> bool" where
  "relation_joins t es rid \<longleftrightarrow> (\<exists>r. dget (relations_of t) rid = Some r \<and>
     r_interface r = ep_relation_type (hd es) \<and> (\<forall>e \<in> set es. endpoint_joined t r e))"

text \<open>
  For a non-empty list of endpoints \<open>get_relation_between_endpoints\<close> returns a relation that has
  the first endpoint's interface and holds every endpoint's service under the endpoint's relation
  name; it returns \<open>None\<close> only when there is no such relation.
\<close>

theorem relation_between_endpoints_correct:
  assumes t: "topo_reachable t" and es: "es \<noteq> []"
  shows "\<exists>found. get_relation_between_endpoints t es = Inr found \<and>
     (case found of Some rid \<Rightarrow> relation_joins t es rid | None \<Rightarrow> \<forall>rid. \<not> relation_joins t es rid)"
proof -
  note wf = reachableD(1) [OF t]
  have joined: "endpoint_joined t r e \<longleftrightarrow>
      (\<exists>rs. endpoint_service t r e = Some rs \<and> rs_name rs = ep_relation_name e)" for r e
    using endpoint_service_Some [OF wf reachableD(3) [OF t]] by (auto simp: endpoint_joined_def)
  have mem: "(rid, r) \<in> set (relations_of t) \<longleftrightarrow> dget (relations_of t) rid = Some r" for rid r
    by (rule dget_in_set [OF wf_dictsD(4) [OF wf]])
  have "\<exists>found. find_relation_between t es d = Inr found" for d
    using es by (induction t es d rule: find_relation_between.induct) (auto split: list.splits)
  then obtain found where f: "find_relation_between t es (relations_of t) = Inr found" by blast
  show ?thesis
  proof (cases found)
    case None
    have "\<not> relation_joins t es rid" for rid
      using find_relation_between_None [of t es "relations_of t" rid] f None mem
      by (auto simp: relation_joins_def joined)
    then show ?thesis using f None by (simp add: get_relation_between_endpoints_def)
  next
    case (Some rid)
    have "relation_joins t es rid"
      using find_relation_between_Some [of t es "relations_of t" rid] f Some mem
      by (auto simp: relation_joins_def joined)
    then show ?thesis using f Some by (simp add: get_relation_between_endpoints_def)
  qed
qed

theorem relation_between_endpoints_correct_witness:
  "\<exists>found. get_relation_between_endpoints demo
      [new_endpoint ''wordpress'' ''juju-info'' ''juju-info'' ''server'' None,
       new_endpoint ''logging'' ''juju-info'' ''info'' ''client'' (Some ''container'')] = Inr found
    \<and> found = Some ''r-0''"
proof -
  let ?es = "[new_endpoint ''wordpress'' ''juju-info'' ''juju-info'' ''server'' None,
       new_endpoint ''logging'' ''juju-info'' ''info'' ''client'' (Some ''container'')]"
  have "get_relation_between_endpoints demo ?es = Inr (Some ''r-0'')" by code_simp
  with relation_between_endpoints_correct [OF demo_reachable, of ?es] show ?thesis by blast
qed

section \<open>The stored form\<close>

text \<open>
  \<open>parse\<close> always returns. It rejects every version below the current one with
  \<open>IncompatibleVersion\<close> (no migration is enabled), and accepts every other version unchanged: also
  those above the current one, which the check in \<open>parse\<close> was meant to stop.
\<close>

theorem parse_versions:
  "parse yload data =
     (case yload data of
        None \<Rightarrow> Some (Inl AttributeError)
      | Some t \<Rightarrow> if get_version t < VERSION then Some (Inl (IncompatibleVersion (get_version t) VERSION))
                  else Some (Inr t))"
  by (auto simp: parse_def migrate_topology_def migrate_loop_old migrate_loop_new Let_def
        split: option.splits)

lemma migrate_relations_fold:
  "dget (fold (\<lambda>(relation, (relation_type, relation_services)) new_relations.
        dset ''services'' (ServicesNode relation_services)
          (dset ''scope'' (TextNode ''global'')
            (dset ''interface'' (TextNode relation_type)
              (dset relation EmptyNode new_relations)))) rels acc) rid =
     (if rid \<in> {''services'', ''scope'', ''interface''} then
        dget (fold (\<lambda>(relation, (relation_type, relation_services)) new_relations.
        dset ''services'' (ServicesNode relation_services)
          (dset ''scope'' (TextNode ''global'')
            (dset ''interface'' (TextNode relation_type)
              (dset relation EmptyNode new_relations)))) rels acc) rid
      else if dhas rels rid then Some EmptyNode else dget acc rid)"
  by (induction rels arbitrary: acc) (auto simp: dget_dset)

lemma migrate_relations_empty:
  assumes "dhas relations rid" and "rid \<notin> {''services'', ''scope'', ''interface''}"
  shows "dget (migrate_relations_1 relations) rid = Some EmptyNode"
  unfolding migrate_relations_1_def
  by (subst migrate_relations_fold) (use assms in simp)

text \<open>
  The disabled migration of version 1 drops every relation's data: it reports version 2, but
  no relation carries its interface, scope and services afterwards, whatever the relations were.
\<close>

theorem migrate_relations_loses_data:
  assumes "v1_version t = Some 1" and "v1_relations t = Some relations"
    and "dhas relations rid" and "rid \<notin> {''services'', ''scope'', ''interface''}"
  shows "\<exists>new. migrate_version_1 t = Inr (Migrated 2 new) \<and> dget new rid = Some EmptyNode"
  using assms by (cases relations) (simp_all add: migrate_version_1_def migrate_relations_empty)

theorem migrate_relations_loses_data_witness:
  "\<exists>new. migrate_version_1 \<lparr>v1_version = Some 1,
       v1_relations = Some [(''relation-0'', (''mysql'', [(''service-0'', \<lparr>rs_role = ''client'', rs_name = ''db''\<rparr>)]))]\<rparr>
     = Inr (Migrated 2 new) \<and> dget new ''relation-0'' = Some EmptyNode"
  by (rule migrate_relations_loses_data, simp, simp, simp, simp)

end
