(* ===== verification/Statemachine.thy ===== *)
theory Statemachine
  imports PyStrings
begin

text \<open>
  \<open>juju/lib/statemachine.py\<close>: \<open>Transition\<close>, \<open>Workflow\<close> and \<open>WorkflowState\<close>.

  A \<open>WorkflowState\<close> object is a \<open>machine\<close>: the storage its subclass provides (\<open>_load\<close> and \<open>_store\<close>, a
  \<open>backend\<close>), whether its lock is held, whether an observer is set and what it was told, and the world
  its actions act on. Each subclass adds actions \<open>do_<transition id>\<close>; they are a map from transition
  ids to functions of the world. An action returns (a dict of variables or something else), raises
  \<open>TransitionError\<close>, or raises another exception.

  \<open>fire_transition\<close> calls itself for error transitions and, after a success, for automatic
  transitions. Nothing in the class bounds that recursion, so the model takes fuel; \<open>None\<close> is a run
  that used it up. \<open>fire_enough_fuel\<close> says how much a workflow needs.
\<close>

section \<open>Transitions and workflows\<close>

record transition =
  tr_id :: string
  tr_label :: string
  tr_source :: "string option"
  tr_destination :: string
  tr_error :: "string option"
  tr_automatic :: bool
  tr_alias :: "string option"

record workflow =
  w_sources :: "(string option, string list) dict"
  w_transitions :: "(string, transition) dict"

datatype wf_error =
    InvalidStateError "string option"
  | InvalidTransitionError string "string option"
  | AmbiguousAlias string "string option" "transition list"
  | NoTransitionForAlias string "string option"
  | LockNotHeld
  | MissingTransition string
  | MissingVariables
  | ActionRaised string
  | CallRaised string  \<comment> \<open>an exception of a call outside an action\<close>

text \<open>\<open>Workflow.initialize\<close>\<close>

definition add_transition :: "transition \<Rightarrow> workflow \<Rightarrow> workflow" where
  "add_transition t w =
     (let s1 = pd.setdefault (tr_source t) [] (w_sources w);
          s2 = dset (tr_source t) ((case dget s1 (tr_source t) of None \<Rightarrow> [] | Some ids \<Rightarrow> ids) @ [tr_id t]) s1;
          s3 = pd.setdefault (Some (tr_destination t)) [] s2
      in \<lparr>w_sources = s3, w_transitions = dset (tr_id t) t (w_transitions w)\<rparr>)"

definition initialize :: "transition list \<Rightarrow> workflow" where
  "initialize ts = fold add_transition ts \<lparr>w_sources = [], w_transitions = []\<rparr>"

definition get_transition :: "workflow \<Rightarrow> string \<Rightarrow> wf_error + transition" where
  "get_transition w tid =
     (case dget (w_transitions w) tid of None \<Rightarrow> Inl (MissingTransition tid) | Some t \<Rightarrow> Inr t)"

definition get_transitions :: "workflow \<Rightarrow> string option \<Rightarrow> wf_error + transition list" where
  "get_transitions w source_id =
     (case dget (w_sources w) source_id of
        None \<Rightarrow> Inl (InvalidStateError source_id)
      | Some ids \<Rightarrow> rmap (get_transition w) ids)"

definition has_state :: "workflow \<Rightarrow> string option \<Rightarrow> bool" where
  "has_state w state_id = dhas (w_sources w) state_id"

section \<open>Stored state\<close>

type_synonym vars = "(string, string) dict"

record state_dict =
  sd_state :: "string option"
  sd_vars :: "vars option"  \<comment> \<open>\<open>None\<close>: no key \<open>state_variables\<close>\<close>
  sd_transition :: "string option"  \<comment> \<open>\<open>None\<close>: no key \<open>transition_id\<close>\<close>

record 's backend =
  be_load :: "'s \<Rightarrow> state_dict option"
  be_store :: "state_dict \<Rightarrow> 's \<Rightarrow> 's"

text \<open>The base class stores nothing.\<close>

definition base_backend :: "unit backend" where
  "base_backend = \<lparr>be_load = (\<lambda>_. None), be_store = (\<lambda>_ s. s)\<rparr>"

record ('s, 'w) machine =
  m_store :: 's
  m_locked :: bool
  m_has_observer :: bool
  m_observed :: "(string \<times> vars) list"
  m_world :: 'w

datatype act_outcome =
    ActReturned "vars option"  \<comment> \<open>\<open>None\<close>: the value is not a dict\<close>
  | ActTransitionError
  | ActRaised string

record ('s, 'w) wf_env =
  env_workflow :: workflow
  env_backend :: "'s backend"
  env_action :: "string \<Rightarrow> ('w \<Rightarrow> act_outcome \<times> 'w) option"

definition load :: "('s, 'w) wf_env \<Rightarrow> ('s, 'w) machine \<Rightarrow> state_dict option" where
  "load env m = be_load (env_backend env) (m_store m)"

definition store :: "('s, 'w) wf_env \<Rightarrow> state_dict \<Rightarrow> ('s, 'w) machine \<Rightarrow> ('s, 'w) machine" where
  "store env d m = m\<lparr>m_store := be_store (env_backend env) d (m_store m)\<rparr>"

definition lock :: "('s, 'w) machine \<Rightarrow> ('s, 'w) machine" where
  "lock m = m\<lparr>m_locked := True\<rparr>"

definition release :: "('s, 'w) machine \<Rightarrow> ('s, 'w) machine" where
  "release m = m\<lparr>m_locked := False\<rparr>"

definition set_observer :: "('s, 'w) machine \<Rightarrow> ('s, 'w) machine" where
  "set_observer m = m\<lparr>m_has_observer := True\<rparr>"

definition get_state :: "('s, 'w) wf_env \<Rightarrow> ('s, 'w) machine \<Rightarrow> string option" where
  "get_state env m = (case load env m of None \<Rightarrow> None | Some d \<Rightarrow> sd_state d)"

definition get_state_variables :: "('s, 'w) wf_env \<Rightarrow> ('s, 'w) machine \<Rightarrow> wf_error + vars" where
  "get_state_variables env m =
     (case load env m of
        None \<Rightarrow> Inr []
      | Some d \<Rightarrow> (case sd_vars d of None \<Rightarrow> Inl MissingVariables | Some v \<Rightarrow> Inr v))"

definition get_inflight :: "('s, 'w) wf_env \<Rightarrow> ('s, 'w) machine \<Rightarrow> string option" where
  "get_inflight env m = (case load env m of None \<Rightarrow> None | Some d \<Rightarrow> sd_transition d)"

text \<open>\<open>set_state\<close> replaces the whole dict, which clears \<open>transition_id\<close>.\<close>

definition set_state :: "('s, 'w) wf_env \<Rightarrow> string \<Rightarrow> vars \<Rightarrow> ('s, 'w) machine \<Rightarrow> ('s, 'w) machine" where
  "set_state env state variables m =
     (let m1 = store env \<lparr>sd_state = Some state, sd_vars = Some variables, sd_transition = None\<rparr> m
      in if m_has_observer m1 then m1\<lparr>m_observed := m_observed m1 @ [(state, variables)]\<rparr> else m1)"

definition set_inflight :: "('s, 'w) wf_env \<Rightarrow> string option \<Rightarrow> ('s, 'w) machine \<Rightarrow> ('s, 'w) machine" where
  "set_inflight env transition_id m =
     (let d = (case load env m of
                 None \<Rightarrow> \<lparr>sd_state = None, sd_vars = None, sd_transition = None\<rparr>
               | Some d \<Rightarrow> d)
      in store env (d\<lparr>sd_vars := Some (case sd_vars d of None \<Rightarrow> [] | Some v \<Rightarrow> v),
                      sd_transition := transition_id\<rparr>) m)"

definition get_available_transitions ::
  "('s, 'w) wf_env \<Rightarrow> ('s, 'w) machine \<Rightarrow> wf_error + transition list" where
  "get_available_transitions env m = get_transitions (env_workflow env) (get_state env m)"

section \<open>Firing\<close>

text \<open>\<open>if transition.error_transition_id:\<close> \<open>None\<close> and the empty string are false.\<close>

definition error_transition :: "transition \<Rightarrow> string option" where
  "error_transition t = (case tr_error t of None \<Rightarrow> None | Some e \<Rightarrow> if e = [] then None else Some e)"

type_synonym ('s, 'w) outcome = "(wf_error + bool) \<times> ('s, 'w) machine"

text \<open>The value of a nested call is dropped; its exception passes.\<close>

definition finish :: "bool \<Rightarrow> ('s, 'w) outcome option \<Rightarrow> ('s, 'w) outcome option" where
  "finish b r = map_option (\<lambda>(res, m). (map_sum id (\<lambda>_. b) res, m)) r"

fun fire_transition ::
  "('s, 'w) wf_env \<Rightarrow> nat \<Rightarrow> string \<Rightarrow> vars \<Rightarrow> ('s, 'w) machine \<Rightarrow> ('s, 'w) outcome option"
and fire_automatic_transitions ::
  "('s, 'w) wf_env \<Rightarrow> nat \<Rightarrow> ('s, 'w) machine \<Rightarrow> ('s, 'w) outcome option"
where
  "fire_transition env 0 tid state_variables m = None"
| "fire_transition env (Suc n) tid state_variables m =
     (if \<not> m_locked m then Some (Inl LockNotHeld, m)
      else case get_available_transitions env m of
        Inl e \<Rightarrow> Some (Inl e, m)
      | Inr available \<Rightarrow>
          if tid \<notin> set (map tr_id available)
          then Some (Inl (InvalidTransitionError tid (get_state env m)), m)
          else
            (let m1 = set_inflight env (Some tid) m in
             case get_transition (env_workflow env) tid of
               Inl e \<Rightarrow> Some (Inl e, m1)
             | Inr t \<Rightarrow>
                 (case env_action env tid of
                    None \<Rightarrow>
                      finish True (fire_automatic_transitions env n
                        (set_state env (tr_destination t) state_variables m1))
                  | Some action \<Rightarrow>
                      (case action (m_world m1) of
                         (ActReturned v, w) \<Rightarrow>
                           finish True (fire_automatic_transitions env n
                             (set_state env (tr_destination t)
                               (dupdate state_variables (case v of None \<Rightarrow> [] | Some vs \<Rightarrow> vs))
                               (m1\<lparr>m_world := w\<rparr>)))
                       | (ActTransitionError, w) \<Rightarrow>
                           (case error_transition t of
                              Some e \<Rightarrow> finish False (fire_transition env n e [] (m1\<lparr>m_world := w\<rparr>))
                            | None \<Rightarrow> Some (Inr False, set_inflight env None (m1\<lparr>m_world := w\<rparr>)))
                       | (ActRaised e, w) \<Rightarrow> Some (Inl (ActionRaised e), m1\<lparr>m_world := w\<rparr>)))))"
| "fire_automatic_transitions env n m =
     (if \<not> m_locked m then Some (Inl LockNotHeld, m)
      else case get_available_transitions env m of
        Inl e \<Rightarrow> Some (Inl e, m)
      | Inr available \<Rightarrow>
          (case List.find tr_automatic available of
             None \<Rightarrow> Some (Inr True, m)
           | Some t \<Rightarrow> fire_transition env n (tr_id t) [] m))"

definition fire_transition_alias ::
  "('s, 'w) wf_env \<Rightarrow> nat \<Rightarrow> string \<Rightarrow> ('s, 'w) machine \<Rightarrow> ('s, 'w) outcome option" where
  "fire_transition_alias env n alias m =
     (if \<not> m_locked m then Some (Inl LockNotHeld, m)
      else case get_available_transitions env m of
        Inl e \<Rightarrow> Some (Inl e, m)
      | Inr available \<Rightarrow>
          (case filter (\<lambda>t. tr_alias t = Some alias) available of
             [] \<Rightarrow> Some (Inl (NoTransitionForAlias alias (get_state env m)), m)
           | [t] \<Rightarrow> fire_transition env n (tr_id t) [] m
           | found \<Rightarrow> Some (Inl (AmbiguousAlias alias (get_state env m) found), m)))"

definition transition_state ::
  "('s, 'w) wf_env \<Rightarrow> nat \<Rightarrow> string \<Rightarrow> ('s, 'w) machine \<Rightarrow> ('s, 'w) outcome option" where
  "transition_state env n state_id m =
     (if \<not> m_locked m then Some (Inl LockNotHeld, m)
      else if \<not> has_state (env_workflow env) (Some state_id)
      then Some (Inl (InvalidStateError (Some state_id)), m)
      else case get_available_transitions env m of
        Inl e \<Rightarrow> Some (Inl e, m)
      | Inr available \<Rightarrow>
          (case List.find (\<lambda>t. tr_destination t = state_id) available of
             None \<Rightarrow> Some (Inr False, m)
           | Some t \<Rightarrow> fire_transition env n (tr_id t) [] m))"

definition synchronize ::
  "('s, 'w) wf_env \<Rightarrow> nat \<Rightarrow> ('s, 'w) machine \<Rightarrow> ('s, 'w) outcome option" where
  "synchronize env n m =
     (if \<not> m_locked m then Some (Inl LockNotHeld, m)
      else case get_inflight env m of
        Some tid \<Rightarrow> fire_transition env n tid [] m
      | None \<Rightarrow> fire_automatic_transitions env n m)"

end
