(* ===== verification/StatemachineSpec.thy ===== *)
theory StatemachineSpec
  imports Statemachine
begin

text \<open>
  What a workflow machine promises. \<open>fires\<close> is the big-step meaning of firing without fuel; the
  fuelled functions compute it (\<open>fire_sound\<close>, \<open>fire_complete\<close>) and a workflow whose error and automatic
  transitions have a rank needs only that much fuel (\<open>fire_enough_fuel\<close>). The locale \<open>wf_backend\<close> is
  the contract of the storage (what was stored is loaded); under it the machine keeps its in-flight
  protocol and moves along the workflow's edges.
\<close>

section \<open>Workflows as graphs\<close>

definition is_edge :: "transition list \<Rightarrow> string option \<Rightarrow> string option \<Rightarrow> bool" where
  "is_edge ts a b \<longleftrightarrow> (\<exists>t \<in> set ts. tr_source t = a \<and> Some (tr_destination t) = b)"

fun is_walk :: "transition list \<Rightarrow> string option \<Rightarrow> string list \<Rightarrow> bool" where
  "is_walk ts a [] \<longleftrightarrow> True"
| "is_walk ts a (b # bs) \<longleftrightarrow> is_edge ts a (Some b) \<and> is_walk ts (Some b) bs"

definition walk_end :: "string option \<Rightarrow> string list \<Rightarrow> string option" where
  "walk_end a bs = (if bs = [] then a else Some (last bs))"

lemma is_walk_append: "is_walk ts a (xs @ ys) \<longleftrightarrow> is_walk ts a xs \<and> is_walk ts (walk_end a xs) ys"
  by (induction xs arbitrary: a) (auto simp: walk_end_def)

lemma walk_end_append: "walk_end (walk_end a xs) ys = walk_end a (xs @ ys)"
  by (simp add: walk_end_def)

lemma walk_end_Cons: "walk_end a (b # bs) = walk_end (Some b) bs"
  by (simp add: walk_end_def)

section \<open>What \<open>initialize\<close> builds\<close>

lemma dget_setdefault:
  "dget (pd.setdefault k v d) k' = (if k' = k then Some (case dget d k of None \<Rightarrow> v | Some w \<Rightarrow> w) else dget d k')"
  by (auto simp: pd.setdefault_def dget_dset split: option.splits)

lemma sources_add_transition:
  "dget (w_sources (add_transition t w)) s =
     (if tr_source t = s then Some ((case dget (w_sources w) s of None \<Rightarrow> [] | Some ids \<Rightarrow> ids) @ [tr_id t])
      else if Some (tr_destination t) = s
      then Some (case dget (w_sources w) s of None \<Rightarrow> [] | Some ids \<Rightarrow> ids)
      else dget (w_sources w) s)"
  by (auto simp: add_transition_def Let_def dget_setdefault dget_dset split: option.splits)

lemma transitions_add_transition:
  "w_transitions (add_transition t w) = dset (tr_id t) t (w_transitions w)"
  by (simp add: add_transition_def Let_def)

definition states_of :: "transition list \<Rightarrow> string option set" where
  "states_of ts = tr_source ` set ts \<union> (\<lambda>t. Some (tr_destination t)) ` set ts"

lemma states_of_code: "s \<in> states_of ts \<longleftrightarrow> list_ex (\<lambda>t. tr_source t = s \<or> Some (tr_destination t) = s) ts"
  by (auto simp: states_of_def list_ex_iff)

lemma sources_initialize:
  "dget (w_sources (initialize ts)) s =
     (if s \<in> states_of ts then Some (map tr_id (filter (\<lambda>t. tr_source t = s) ts)) else None)"
proof (induction ts rule: rev_induct)
  case Nil
  then show ?case by (simp add: initialize_def states_of_def)
next
  case (snoc t ts)
  have "initialize (ts @ [t]) = add_transition t (initialize ts)"
    by (simp add: initialize_def)
  then show ?case
    using snoc by (auto simp: sources_add_transition states_of_def filter_empty_conv) (metis imageI)+
qed

lemma transitions_initialize:
  assumes "distinct (map tr_id ts)" and "t \<in> set ts"
  shows "dget (w_transitions (initialize ts)) (tr_id t) = Some t"
  using assms
proof (induction ts rule: rev_induct)
  case Nil
  then show ?case by simp
next
  case (snoc t' ts)
  have "initialize (ts @ [t']) = add_transition t' (initialize ts)"
    by (simp add: initialize_def)
  moreover have "tr_id t \<noteq> tr_id t'" if "t \<in> set ts"
    using snoc.prems(1) imageI [OF that, of tr_id] by auto
  ultimately show ?case
    using snoc by (auto simp: transitions_add_transition dget_dset)
qed

lemma transitions_initialize_None:
  "tid \<notin> tr_id ` set ts \<Longrightarrow> dget (w_transitions (initialize ts)) tid = None"
proof (induction ts rule: rev_induct)
  case Nil
  then show ?case by (simp add: initialize_def)
next
  case (snoc t' ts)
  have "initialize (ts @ [t']) = add_transition t' (initialize ts)"
    by (simp add: initialize_def)
  with snoc show ?case by (auto simp: transitions_add_transition dget_dset)
qed

lemma get_transition_initialize:
  assumes "distinct (map tr_id ts)"
  shows "get_transition (initialize ts) tid = Inr t \<longleftrightarrow> t \<in> set ts \<and> tr_id t = tid"
proof
  assume "get_transition (initialize ts) tid = Inr t"
  then have look: "dget (w_transitions (initialize ts)) tid = Some t"
    by (auto simp: get_transition_def split: option.splits)
  then have "tid \<in> tr_id ` set ts"
    by (metis transitions_initialize_None option.distinct(1))
  then obtain t' where "t' \<in> set ts" and "tid = tr_id t'" by blast
  with look transitions_initialize [OF assms, of t'] show "t \<in> set ts \<and> tr_id t = tid" by simp
next
  assume "t \<in> set ts \<and> tr_id t = tid"
  with transitions_initialize [OF assms, of t] show "get_transition (initialize ts) tid = Inr t"
    by (auto simp: get_transition_def)
qed

lemma get_transitions_initialize:
  assumes "distinct (map tr_id ts)"
  shows "get_transitions (initialize ts) s =
     (if s \<in> states_of ts then Inr (filter (\<lambda>t. tr_source t = s) ts) else Inl (InvalidStateError s))"
proof -
  have "rmap (get_transition (initialize ts)) (map tr_id (filter P ts)) = Inr (filter P ts)" for P
    by (auto simp: rmap_eq_Inr list_all2_conv_all_nth get_transition_initialize [OF assms]
          dest: nth_mem)
  then show ?thesis
    by (simp add: get_transitions_def sources_initialize)
qed

lemma has_state_initialize: "has_state (initialize ts) s \<longleftrightarrow> s \<in> states_of ts"
  by (simp add: has_state_def dhas_iff sources_initialize)

section \<open>Firing without fuel\<close>

text \<open>\<open>do_<transition id>\<close>, or nothing where the subclass has no such action\<close>

definition run_action :: "('s, 'w) wf_env \<Rightarrow> string \<Rightarrow> 'w \<Rightarrow> act_outcome \<times> 'w" where
  "run_action env tid w = (case env_action env tid of None \<Rightarrow> (ActReturned None, w) | Some f \<Rightarrow> f w)"

definition variables_of :: "vars option \<Rightarrow> vars" where
  "variables_of v = (case v of None \<Rightarrow> [] | Some vs \<Rightarrow> vs)"

lemma machine_world_idem: "m\<lparr>m_world := m_world m\<rparr> = m"
  by simp

lemma set_inflight_world_idem [simp]:
  fixes m :: "('s, 'w) machine" and env :: "('s, 'w) wf_env"
  shows "(set_inflight env tid m)\<lparr>m_world := m_world m\<rparr> = set_inflight env tid m"
  by (simp add: set_inflight_def Let_def store_def)

lemma fire_transition_Suc:
  "fire_transition env (Suc n) tid v m =
     (if \<not> m_locked m then Some (Inl LockNotHeld, m)
      else case get_available_transitions env m of
        Inl e \<Rightarrow> Some (Inl e, m)
      | Inr available \<Rightarrow>
          if tid \<notin> set (map tr_id available)
          then Some (Inl (InvalidTransitionError tid (get_state env m)), m)
          else
            (case get_transition (env_workflow env) tid of
               Inl e \<Rightarrow> Some (Inl e, set_inflight env (Some tid) m)
             | Inr t \<Rightarrow>
                 (case run_action env tid (m_world (set_inflight env (Some tid) m)) of
                    (ActReturned vs, w) \<Rightarrow>
                      finish True (fire_automatic_transitions env n
                        (set_state env (tr_destination t) (dupdate v (variables_of vs))
                          ((set_inflight env (Some tid) m)\<lparr>m_world := w\<rparr>)))
                  | (ActTransitionError, w) \<Rightarrow>
                      (case error_transition t of
                         Some e \<Rightarrow> finish False (fire_transition env n e []
                                      ((set_inflight env (Some tid) m)\<lparr>m_world := w\<rparr>))
                       | None \<Rightarrow> Some (Inr False,
                                   set_inflight env None ((set_inflight env (Some tid) m)\<lparr>m_world := w\<rparr>)))
                  | (ActRaised e, w) \<Rightarrow>
                      Some (Inl (ActionRaised e), (set_inflight env (Some tid) m)\<lparr>m_world := w\<rparr>))))"
  by (auto simp: Let_def run_action_def variables_of_def split: option.splits sum.splits act_outcome.splits prod.splits)

lemma fire_automatic_code:
  "fire_automatic_transitions env n m =
     (if \<not> m_locked m then Some (Inl LockNotHeld, m)
      else case get_available_transitions env m of
        Inl e \<Rightarrow> Some (Inl e, m)
      | Inr available \<Rightarrow>
          (case List.find tr_automatic available of
             None \<Rightarrow> Some (Inr True, m)
           | Some t \<Rightarrow> fire_transition env n (tr_id t) [] m))"
  by simp

declare fire_transition.simps(2) [simp del] fire_automatic_transitions.simps [simp del]

inductive fires ::
  "('s, 'w) wf_env \<Rightarrow> string \<Rightarrow> vars \<Rightarrow> ('s, 'w) machine \<Rightarrow> wf_error + bool \<Rightarrow> ('s, 'w) machine \<Rightarrow> bool"
and autos ::
  "('s, 'w) wf_env \<Rightarrow> ('s, 'w) machine \<Rightarrow> wf_error + bool \<Rightarrow> ('s, 'w) machine \<Rightarrow> bool"
where
  not_locked: "\<not> m_locked m \<Longrightarrow> fires env tid v m (Inl LockNotHeld) m"
| bad_state: "m_locked m \<Longrightarrow> get_available_transitions env m = Inl e \<Longrightarrow> fires env tid v m (Inl e) m"
| not_available:
    "m_locked m \<Longrightarrow> get_available_transitions env m = Inr available \<Longrightarrow> tid \<notin> set (map tr_id available)
     \<Longrightarrow> fires env tid v m (Inl (InvalidTransitionError tid (get_state env m))) m"
| missing:
    "m_locked m \<Longrightarrow> get_available_transitions env m = Inr available \<Longrightarrow> tid \<in> set (map tr_id available)
     \<Longrightarrow> get_transition (env_workflow env) tid = Inl e \<Longrightarrow> m1 = set_inflight env (Some tid) m
     \<Longrightarrow> fires env tid v m (Inl e) m1"
| succeeds:
    "m_locked m \<Longrightarrow> get_available_transitions env m = Inr available \<Longrightarrow> tid \<in> set (map tr_id available)
     \<Longrightarrow> get_transition (env_workflow env) tid = Inr t \<Longrightarrow> m1 = set_inflight env (Some tid) m
     \<Longrightarrow> run_action env tid (m_world m1) = (ActReturned vs, w)
     \<Longrightarrow> m2 = set_state env (tr_destination t) (dupdate v (variables_of vs)) (m1\<lparr>m_world := w\<rparr>)
     \<Longrightarrow> autos env m2 r m' \<Longrightarrow> fires env tid v m (map_sum id (\<lambda>_. True) r) m'"
| recovers:
    "m_locked m \<Longrightarrow> get_available_transitions env m = Inr available \<Longrightarrow> tid \<in> set (map tr_id available)
     \<Longrightarrow> get_transition (env_workflow env) tid = Inr t \<Longrightarrow> m1 = set_inflight env (Some tid) m
     \<Longrightarrow> run_action env tid (m_world m1) = (ActTransitionError, w)
     \<Longrightarrow> error_transition t = Some e \<Longrightarrow> m2 = m1\<lparr>m_world := w\<rparr>
     \<Longrightarrow> fires env e [] m2 r m' \<Longrightarrow> fires env tid v m (map_sum id (\<lambda>_. False) r) m'"
| fails:
    "m_locked m \<Longrightarrow> get_available_transitions env m = Inr available \<Longrightarrow> tid \<in> set (map tr_id available)
     \<Longrightarrow> get_transition (env_workflow env) tid = Inr t \<Longrightarrow> m1 = set_inflight env (Some tid) m
     \<Longrightarrow> run_action env tid (m_world m1) = (ActTransitionError, w)
     \<Longrightarrow> error_transition t = None \<Longrightarrow> m2 = m1\<lparr>m_world := w\<rparr>
     \<Longrightarrow> fires env tid v m (Inr False) (set_inflight env None m2)"
| raises:
    "m_locked m \<Longrightarrow> get_available_transitions env m = Inr available \<Longrightarrow> tid \<in> set (map tr_id available)
     \<Longrightarrow> get_transition (env_workflow env) tid = Inr t \<Longrightarrow> m1 = set_inflight env (Some tid) m
     \<Longrightarrow> run_action env tid (m_world m1) = (ActRaised e, w) \<Longrightarrow> m2 = m1\<lparr>m_world := w\<rparr>
     \<Longrightarrow> fires env tid v m (Inl (ActionRaised e)) m2"
| auto_not_locked: "\<not> m_locked m \<Longrightarrow> autos env m (Inl LockNotHeld) m"
| auto_bad_state: "m_locked m \<Longrightarrow> get_available_transitions env m = Inl e \<Longrightarrow> autos env m (Inl e) m"
| auto_none:
    "m_locked m \<Longrightarrow> get_available_transitions env m = Inr available
     \<Longrightarrow> List.find tr_automatic available = None \<Longrightarrow> autos env m (Inr True) m"
| auto_fire:
    "m_locked m \<Longrightarrow> get_available_transitions env m = Inr available
     \<Longrightarrow> List.find tr_automatic available = Some t
     \<Longrightarrow> fires env (tr_id t) [] m r m' \<Longrightarrow> autos env m r m'"

lemma finish_eq_None [simp]: "finish b x = None \<longleftrightarrow> x = None"
  by (simp add: finish_def)

lemma finish_eq_Some: "finish b x = Some (r, m) \<longleftrightarrow> (\<exists>r'. x = Some (r', m) \<and> r = map_sum id (\<lambda>_. b) r')"
  by (auto simp: finish_def)

lemma fire_sound:
  "(fire_transition env n tid v m = Some (r, m') \<longrightarrow> fires env tid v m r m') \<and>
   (fire_automatic_transitions env n m = Some (r2, m2) \<longrightarrow> autos env m r2 m2)"
proof (induction n arbitrary: tid v m r m' m r2 m2)
  case 0
  then show ?case
    by (auto simp: fire_automatic_code split: if_splits sum.splits option.splits intro: fires_autos.intros)
next
  case (Suc n)
  have fire: "fires env tid v m r m'" if "fire_transition env (Suc n) tid v m = Some (r, m')" for tid v m r m'
    using that unfolding fire_transition_Suc
    by (auto split: if_splits sum.splits option.splits prod.splits act_outcome.splits
          simp: finish_eq_Some simp del: set_map
          intro: fires_autos.intros Suc.IH [THEN conjunct1, rule_format] Suc.IH [THEN conjunct2, rule_format])
  then show ?case
    by (auto simp: fire_automatic_code split: if_splits sum.splits option.splits intro: fires_autos.intros)
qed

lemma fire_mono_Suc:
  "(fire_transition env n tid v m = Some x \<longrightarrow> fire_transition env (Suc n) tid v m = Some x) \<and>
   (fire_automatic_transitions env n m = Some y \<longrightarrow> fire_automatic_transitions env (Suc n) m = Some y)"
proof (induction n arbitrary: tid v m x m y)
  case 0
  then show ?case
    by (auto simp: fire_automatic_code split: if_splits sum.splits option.splits)
next
  case (Suc n)
  have fire: "fire_transition env (Suc (Suc n)) tid v m = Some x" if "fire_transition env (Suc n) tid v m = Some x"
    for tid v m x
    using that [unfolded fire_transition_Suc [of env n]]
    by (subst fire_transition_Suc [of env "Suc n"])
      (auto split: if_splits sum.splits option.splits prod.splits act_outcome.splits
          simp: finish_def simp del: set_map
          intro: Suc.IH [THEN conjunct1, rule_format] Suc.IH [THEN conjunct2, rule_format])
  then show ?case
    by (auto simp: fire_automatic_code split: if_splits sum.splits option.splits)
qed

lemma fire_mono:
  assumes "n \<le> k" and "fire_transition env n tid v m = Some x"
  shows "fire_transition env k tid v m = Some x"
  using assms by (induction rule: dec_induct) (use fire_mono_Suc in blast)+

lemma fire_automatic_mono:
  assumes "n \<le> k" and "fire_automatic_transitions env n m = Some x"
  shows "fire_automatic_transitions env k m = Some x"
  using assms by (induction rule: dec_induct) (use fire_mono_Suc in blast)+

lemma fire_complete:
  "fires env tid v m r m' \<Longrightarrow> \<exists>n. fire_transition env n tid v m = Some (r, m')"
  "autos env m r m' \<Longrightarrow> \<exists>n. fire_automatic_transitions env n m = Some (r, m')"
proof (induction rule: fires_autos.inducts)
  case (succeeds m env available tid t m1 vs w m2 v r m')
  then obtain n where "fire_automatic_transitions env n m2 = Some (r, m')" by blast
  with succeeds.hyps have "fire_transition env (Suc n) tid v m = Some (map_sum id (\<lambda>_. True) r, m')"
    by (auto simp: fire_transition_Suc finish_def simp del: set_map)
  then show ?case ..
next
  case (recovers m env available tid t m1 w e m2 r m' v)
  then obtain n where "fire_transition env n e [] m2 = Some (r, m')" by blast
  with recovers.hyps have "fire_transition env (Suc n) tid v m = Some (map_sum id (\<lambda>_. False) r, m')"
    by (auto simp: fire_transition_Suc finish_def simp del: set_map)
  then show ?case ..
next
  case (fails m env available tid t m1 w m2 v)
  then have "fire_transition env (Suc 0) tid v m = Some (Inr False, set_inflight env None m2)"
    by (auto simp: fire_transition_Suc simp del: set_map)
  then show ?case ..
next
  case (raises m env available tid t m1 e w m2 v)
  then have "fire_transition env (Suc 0) tid v m = Some (Inl (ActionRaised e), m2)"
    by (auto simp: fire_transition_Suc simp del: set_map)
  then show ?case ..
next
  case (missing m env available tid e m1 v)
  then have "fire_transition env (Suc 0) tid v m = Some (Inl e, m1)"
    by (auto simp: fire_transition_Suc simp del: set_map)
  then show ?case ..
next
  case (not_locked m env tid v)
  then have "fire_transition env (Suc 0) tid v m = Some (Inl LockNotHeld, m)"
    by (simp add: fire_transition_Suc)
  then show ?case ..
next
  case (bad_state m env e tid v)
  then have "fire_transition env (Suc 0) tid v m = Some (Inl e, m)"
    by (simp add: fire_transition_Suc)
  then show ?case ..
next
  case (not_available m env available tid v)
  then have "fire_transition env (Suc 0) tid v m = Some (Inl (InvalidTransitionError tid (get_state env m)), m)"
    by (simp add: fire_transition_Suc)
  then show ?case ..
qed (auto simp: fire_automatic_code)

section \<open>The storage contract\<close>

text \<open>What \<open>WorkflowState\<close> expects of its subclass: \<open>_load\<close> returns what \<open>_store\<close> was last given.\<close>

locale wf_storage =
  fixes s_load :: "'s \<Rightarrow> state_dict option"
    and s_store :: "state_dict \<Rightarrow> 's \<Rightarrow> 's"
  assumes load_store: "s_load (s_store d s) = Some d"

locale workflow_machine =
  wf_storage "be_load (env_backend env)" "be_store (env_backend env)"
  for env :: "('s, 'w) wf_env" +
  fixes ts :: "transition list"
  assumes workflow: "env_workflow env = initialize ts"
    and ids_distinct: "distinct (map tr_id ts)"
begin

lemma load_store_machine [simp]: "load env (store env d m) = Some d"
  by (simp add: load_def store_def load_store)

lemma load_world [simp]: "load env (m\<lparr>m_world := w\<rparr>) = load env m"
  by (simp add: load_def)

lemma state_world [simp]: "get_state env (m\<lparr>m_world := w\<rparr>) = get_state env m"
  by (simp add: get_state_def)

lemma inflight_world [simp]: "get_inflight env (m\<lparr>m_world := w\<rparr>) = get_inflight env m"
  by (simp add: get_inflight_def)

lemma load_observed [simp]: "load env (m\<lparr>m_observed := l\<rparr>) = load env m"
  by (simp add: load_def)

lemma state_set_inflight [simp]: "get_state env (set_inflight env tid m) = get_state env m"
  by (simp add: set_inflight_def Let_def get_state_def split: option.splits)

lemma inflight_set_inflight [simp]: "get_inflight env (set_inflight env tid m) = tid"
  by (simp add: set_inflight_def Let_def get_inflight_def)

lemma state_set_state [simp]: "get_state env (set_state env s v m) = Some s"
  by (simp add: set_state_def Let_def get_state_def)

lemma inflight_set_state [simp]: "get_inflight env (set_state env s v m) = None"
  by (simp add: set_state_def Let_def get_inflight_def)

lemma variables_set_state [simp]: "get_state_variables env (set_state env s v m) = Inr v"
  by (simp add: set_state_def Let_def get_state_variables_def)

lemma locked_set_inflight [simp]: "m_locked (set_inflight env tid m) = m_locked m"
  by (simp add: set_inflight_def Let_def store_def)

lemma locked_set_state [simp]: "m_locked (set_state env s v m) = m_locked m"
  by (simp add: set_state_def Let_def store_def)

lemma observer_set_inflight [simp]:
  "m_has_observer (set_inflight env tid m) = m_has_observer m"
  "m_observed (set_inflight env tid m) = m_observed m"
  by (simp_all add: set_inflight_def Let_def store_def)

lemma observer_set_state [simp]:
  "m_has_observer (set_state env s v m) = m_has_observer m"
  "m_observed (set_state env s v m) = (if m_has_observer m then m_observed m @ [(s, v)] else m_observed m)"
  by (simp_all add: set_state_def Let_def store_def)

lemma available_iff:
  "get_available_transitions env m =
     (if get_state env m \<in> states_of ts then Inr (filter (\<lambda>t. tr_source t = get_state env m) ts)
      else Inl (InvalidStateError (get_state env m)))"
  by (simp add: get_available_transitions_def workflow get_transitions_initialize [OF ids_distinct])

lemma availableD:
  assumes "get_available_transitions env m = Inr available" and "tid \<in> set (map tr_id available)"
    and "get_transition (env_workflow env) tid = Inr t"
  shows "t \<in> set ts" "tr_id t = tid" "tr_source t = get_state env m"
proof -
  from assms(3) show t: "t \<in> set ts" "tr_id t = tid"
    by (simp_all add: workflow get_transition_initialize [OF ids_distinct])
  from assms(1,2) obtain t' where t': "t' \<in> set ts" "tr_id t' = tid" "tr_source t' = get_state env m"
    by (auto simp: available_iff split: if_splits)
  with t have "t' = t"
    using ids_distinct by (metis (no_types) distinct_map inj_onD)
  with t' show "tr_source t = get_state env m" by simp
qed

text \<open>The states passed through form a walk in the workflow's graph, and the observer sees each of them.\<close>

lemma fires_walk:
  "fires e tid v m r m' \<Longrightarrow> e = env \<Longrightarrow> \<exists>l. is_walk ts (get_state env m) (map fst l) \<and>
     get_state env m' = walk_end (get_state env m) (map fst l) \<and>
     (m_has_observer m \<longrightarrow> m_observed m' = m_observed m @ l) \<and> m_has_observer m' = m_has_observer m"
  "autos e m r m' \<Longrightarrow> e = env \<Longrightarrow> \<exists>l. is_walk ts (get_state env m) (map fst l) \<and>
     get_state env m' = walk_end (get_state env m) (map fst l) \<and>
     (m_has_observer m \<longrightarrow> m_observed m' = m_observed m @ l) \<and> m_has_observer m' = m_has_observer m"
proof (induction rule: fires_autos.inducts)
  case (succeeds m e available tid t m1 vs w m2 v r m')
  then obtain l where l: "is_walk ts (get_state env m2) (map fst l)"
    "get_state env m' = walk_end (get_state env m2) (map fst l)"
    "m_has_observer m2 \<longrightarrow> m_observed m' = m_observed m2 @ l" "m_has_observer m' = m_has_observer m2" by blast
  have st: "get_state env m2 = Some (tr_destination t)"
    using succeeds.hyps(7) succeeds.prems by simp
  have "is_edge ts (get_state env m) (Some (tr_destination t))"
    using availableD [of m available tid t] succeeds.hyps(2,3,4) succeeds.prems by (auto simp: is_edge_def)
  with l st succeeds.hyps succeeds.prems show ?case
    by (intro exI [of _ "(tr_destination t, dupdate v (variables_of vs)) # l"]) (auto simp: walk_end_Cons)
next
  case (recovers m e available tid t m1 w err m2 r m' v)
  then show ?case by simp
qed (auto intro!: exI [of _ "[]"] simp: walk_end_def)

end

section \<open>The in-flight protocol\<close>

text \<open>
  What the stored \<open>transition_id\<close> tells after a call: nothing is in flight after a normal return, and
  after an exception of an action the transition that ran it is, in a state it can be fired from.
\<close>

fun inflight_ok ::
  "('s, 'w) wf_env \<Rightarrow> transition list \<Rightarrow> wf_error + bool \<Rightarrow> ('s, 'w) machine \<Rightarrow> bool" where
  "inflight_ok env ts (Inr b) m \<longleftrightarrow> get_inflight env m = None"
| "inflight_ok env ts (Inl (ActionRaised x)) m \<longleftrightarrow>
     (\<exists>t \<in> set ts. get_inflight env m = Some (tr_id t) \<and> tr_source t = get_state env m)"
| "inflight_ok env ts (Inl e) m \<longleftrightarrow> True"

lemma inflight_ok_map_sum [simp]: "inflight_ok env ts (map_sum id f r) m = inflight_ok env ts r m"
proof (cases r)
  case (Inl e)
  then show ?thesis by (cases e) simp_all
qed simp

context workflow_machine
begin

lemma bad_state_error: "get_available_transitions env m = Inl err \<Longrightarrow> inflight_ok env ts (Inl err) m'"
  by (auto simp: available_iff split: if_splits)

lemma missing_error: "get_transition (env_workflow env) tid = Inl err \<Longrightarrow> inflight_ok env ts (Inl err) m'"
  by (auto simp: get_transition_def split: option.splits)

lemma fires_inflight:
  "fires e tid v m r m' \<Longrightarrow> e = env \<Longrightarrow> inflight_ok env ts r m'"
  "autos e m r m' \<Longrightarrow> e = env \<Longrightarrow> get_inflight env m = None \<Longrightarrow> inflight_ok env ts r m'"
proof (induction rule: fires_autos.inducts)
  case (raises m e available tid t m1 x w m2 v)
  have "t \<in> set ts" "tr_id t = tid" "tr_source t = get_state env m"
    using availableD [of m available tid t] raises by simp_all
  then show ?case using raises by auto
next
  case (auto_fire m e available t r m')
  then show ?case by simp
qed (auto intro: bad_state_error missing_error)

lemma locked_world [simp]: "m_locked (m\<lparr>m_world := w\<rparr>) = m_locked m"
  by simp

end

section \<open>Termination\<close>

text \<open>
  A rank for the transitions that decreases along error transitions and along the automatic
  transitions that follow a success.
\<close>

definition ranked :: "transition list \<Rightarrow> (string \<Rightarrow> nat) \<Rightarrow> bool" where
  "ranked ts rank \<longleftrightarrow>
     list_all (\<lambda>t.
       (case error_transition t of None \<Rightarrow> True | Some e \<Rightarrow> rank e < rank (tr_id t)) \<and>
       list_all (\<lambda>t'. tr_automatic t' \<and> tr_source t' = Some (tr_destination t)
                   \<longrightarrow> rank (tr_id t') < rank (tr_id t)) ts) ts"

context workflow_machine
begin

lemma find_automaticD:
  assumes "get_available_transitions env m = Inr available" and "List.find tr_automatic available = Some t"
  shows "t \<in> set ts \<and> tr_automatic t \<and> tr_source t = get_state env m"
  using assms by (auto simp: available_iff find_Some_iff split: if_splits dest: nth_mem)

lemma fire_enough_fuel:
  assumes "ranked ts rank"
  shows "rank tid < n \<Longrightarrow> fire_transition env n tid v m \<noteq> None"
proof (induction n arbitrary: tid v m)
  case 0
  then show ?case by simp
next
  case (Suc n)
  have auto_ok: "fire_automatic_transitions env n m2 \<noteq> None"
    if "t \<in> set ts" "tr_id t = tid" "get_state env m2 = Some (tr_destination t)" for t m2
  proof -
    have "rank (tr_id t') < n" if "t' \<in> set ts" "tr_automatic t'" "tr_source t' = get_state env m2" for t'
      using assms \<open>t \<in> set ts\<close> \<open>tr_id t = tid\<close> \<open>get_state env m2 = Some (tr_destination t)\<close> that Suc.prems
      by (fastforce simp: ranked_def list_all_iff)
    then show ?thesis
      using Suc.IH by (auto simp: fire_automatic_code dest!: find_automaticD split: sum.splits option.splits)
  qed
  have err_ok: "fire_transition env n e [] m2 \<noteq> None"
    if "t \<in> set ts" "tr_id t = tid" "error_transition t = Some e" for t e m2
  proof -
    have "rank e < n" using assms that Suc.prems by (fastforce simp: ranked_def list_all_iff)
    then show ?thesis by (rule Suc.IH)
  qed
  have not_auto: "fire_automatic_transitions env n m2 = None \<Longrightarrow> t \<in> set ts \<Longrightarrow> tr_id t = tid
      \<Longrightarrow> get_state env m2 = Some (tr_destination t) \<Longrightarrow> False" for t m2
    using auto_ok by blast
  have not_err: "fire_transition env n e [] m2 = None \<Longrightarrow> t \<in> set ts \<Longrightarrow> tr_id t = tid
      \<Longrightarrow> error_transition t = Some e \<Longrightarrow> False" for t e m2
    using err_ok by blast
  show ?case
  proof
    assume "fire_transition env (Suc n) tid v m = None"
    then show False
      by (auto simp: fire_transition_Suc workflow get_transition_initialize [OF ids_distinct]
            split: sum.splits option.splits prod.splits act_outcome.splits if_splits
            dest: not_auto not_err)
  qed
qed

lemma fire_automatic_enough_fuel:
  assumes "ranked ts rank" and "\<forall>t \<in> set ts. rank (tr_id t) < n"
  shows "fire_automatic_transitions env n m \<noteq> None"
proof -
  have "fire_transition env n (tr_id t) [] m \<noteq> None" if "t \<in> set ts" for t
    using fire_enough_fuel [OF assms(1)] assms(2) that by blast
  then show ?thesis
    by (auto simp: fire_automatic_code dest!: find_automaticD split: sum.splits option.splits)
qed

lemma synchronize_enough_fuel:
  assumes "ranked ts rank" and "\<forall>t \<in> set ts. rank (tr_id t) < n" and "0 < n"
  shows "synchronize env n m \<noteq> None"
proof -
  have "fire_transition env n tid [] m \<noteq> None" if "m_locked m" for tid
  proof (cases "tid \<in> tr_id ` set ts")
    case True
    then show ?thesis using fire_enough_fuel [OF assms(1)] assms(2) by blast
  next
    case False
    then show ?thesis
      using assms(3) by (cases n) (auto simp: fire_transition_Suc available_iff states_of_def split: if_splits)
  qed
  then show ?thesis
    using fire_automatic_enough_fuel [OF assms(1,2)]
    by (auto simp: synchronize_def split: option.splits)
qed

end

section \<open>How one firing ends\<close>

context workflow_machine
begin

lemma fires_locked:
  "fires e tid v m r m' \<Longrightarrow> e = env \<Longrightarrow> m_locked m' = m_locked m"
  "autos e m r m' \<Longrightarrow> e = env \<Longrightarrow> m_locked m' = m_locked m"
  by (induction rule: fires_autos.inducts) auto

lemma available_of_source:
  assumes "t \<in> set ts" and "get_state env m = tr_source t"
  shows "get_available_transitions env m = Inr (filter (\<lambda>t'. tr_source t' = tr_source t) ts)"
    and "tr_id t \<in> set (map tr_id (filter (\<lambda>t'. tr_source t' = tr_source t) ts))"
    and "get_transition (env_workflow env) (tr_id t) = Inr t"
  using assms by (auto simp: available_iff states_of_def workflow get_transition_initialize [OF ids_distinct])

lemma set_inflight_world [simp]: "m_world (set_inflight env tid m) = m_world m"
  by (simp add: set_inflight_def Let_def store_def)

lemma set_state_world [simp]: "m_world (set_state env s v m) = m_world m"
  by (simp add: set_state_def Let_def store_def)

text \<open>A source state with an automatic transition stays on the move.\<close>

definition settled :: "string \<Rightarrow> bool" where
  "settled s \<longleftrightarrow> (\<forall>t \<in> set ts. tr_source t = Some s \<longrightarrow> \<not> tr_automatic t)"

lemma autos_settled:
  assumes "m_locked m" and "get_state env m = Some s" and "settled s" and "Some s \<in> states_of ts"
  shows "autos env m (Inr True) m"
proof (rule auto_none)
  show "get_available_transitions env m = Inr (filter (\<lambda>t. tr_source t = Some s) ts)"
    using assms by (simp add: available_iff)
  show "List.find tr_automatic (filter (\<lambda>t. tr_source t = Some s) ts) = None"
    using assms(3) by (auto simp: find_None_iff settled_def)
qed (rule assms(1))

lemma fires_success:
  assumes "t \<in> set ts" and "m_locked m" and "get_state env m = tr_source t"
    and "run_action env (tr_id t) (m_world m) = (ActReturned vs, w)"
    and "m2 = set_state env (tr_destination t) (dupdate v (variables_of vs))
                ((set_inflight env (Some (tr_id t)) m)\<lparr>m_world := w\<rparr>)"
    and "autos env m2 r m'"
  shows "fires env (tr_id t) v m (map_sum id (\<lambda>_. True) r) m'"
  by (rule succeeds [OF assms(2) available_of_source [OF assms(1,3)] refl _ assms(5,6)])
    (simp add: assms(4))

lemma fires_success_settled:
  assumes "t \<in> set ts" and "m_locked m" and "get_state env m = tr_source t"
    and "run_action env (tr_id t) (m_world m) = (ActReturned vs, w)" and "settled (tr_destination t)"
  shows "fires env (tr_id t) v m (Inr True)
           (set_state env (tr_destination t) (dupdate v (variables_of vs))
             ((set_inflight env (Some (tr_id t)) m)\<lparr>m_world := w\<rparr>))"
proof -
  have "autos env (set_state env (tr_destination t) (dupdate v (variables_of vs))
             ((set_inflight env (Some (tr_id t)) m)\<lparr>m_world := w\<rparr>)) (Inr True)
          (set_state env (tr_destination t) (dupdate v (variables_of vs))
             ((set_inflight env (Some (tr_id t)) m)\<lparr>m_world := w\<rparr>))"
    by (rule autos_settled) (use assms in \<open>auto simp: states_of_def\<close>)
  from fires_success [OF assms(1-4) refl this] show ?thesis by simp
qed

text \<open>
  A transition whose action raises \<open>TransitionError\<close>: with an error transition (from the same state,
  whose action returns) the machine ends in that transition's destination, without one it stays.
\<close>

lemma fires_failure:
  assumes t: "t \<in> set ts" "m_locked m" "get_state env m = tr_source t"
    and fails: "run_action env (tr_id t) (m_world m) = (ActTransitionError, w)"
    and err: "case error_transition t of
                None \<Rightarrow> s = tr_source t
              | Some e \<Rightarrow> \<exists>t' \<in> set ts. tr_id t' = e \<and> tr_source t' = tr_source t \<and>
                  s = Some (tr_destination t') \<and> settled (tr_destination t') \<and>
                  (\<exists>vs w'. run_action env e w = (ActReturned vs, w'))"
  shows "\<exists>m'. fires env (tr_id t) v m (Inr False) m' \<and> get_state env m' = s \<and> get_inflight env m' = None"
proof (cases "error_transition t")
  case None
  let ?m1 = "set_inflight env (Some (tr_id t)) m"
  have "fires env (tr_id t) v m (Inr False) (set_inflight env None (?m1\<lparr>m_world := w\<rparr>))"
    by (rule StatemachineSpec.fails [OF t(2) available_of_source [OF t(1,3)] refl _ None refl]) (simp add: fails)
  then show ?thesis using None err t(3) by auto
next
  case (Some e)
  then obtain t' vs w' where t': "t' \<in> set ts" "tr_id t' = e" "tr_source t' = tr_source t"
      "s = Some (tr_destination t')" "settled (tr_destination t')"
      and run: "run_action env e w = (ActReturned vs, w')"
    using err by auto
  let ?m2 = "(set_inflight env (Some (tr_id t)) m)\<lparr>m_world := w\<rparr>"
  let ?m' = "set_state env (tr_destination t') (dupdate [] (variables_of vs))
               ((set_inflight env (Some e) ?m2)\<lparr>m_world := w'\<rparr>)"
  have inner: "fires env e [] ?m2 (Inr True) ?m'"
    using fires_success_settled [of t' ?m2 vs w' "[]"] t' t run by simp
  have "fires env (tr_id t) v m (map_sum id (\<lambda>_. False) (Inr True)) ?m'"
    by (rule recovers [OF t(2) available_of_source [OF t(1,3)] refl _ Some refl inner]) (simp add: fails)
  then show ?thesis using t' by auto
qed

text \<open>With enough fuel the function returns what \<open>fires\<close> allows, and it allows nothing else.\<close>

lemma fires_computed:
  assumes "ranked ts rank" and "rank tid < n" and "fires env tid v m r m'"
  shows "fire_transition env n tid v m = Some (r, m')"
proof -
  obtain x where x: "fire_transition env n tid v m = Some x"
    using fire_enough_fuel [OF assms(1,2)] by blast
  obtain k where "fire_transition env k tid v m = Some (r, m')"
    using fire_complete(1) [OF assms(3)] by blast
  then have "fire_transition env (max n k) tid v m = Some (r, m')"
    by (rule fire_mono [rotated]) simp
  moreover have "fire_transition env (max n k) tid v m = Some x"
    using x by (rule fire_mono [rotated]) simp
  ultimately show ?thesis using x by simp
qed

end

end
