(* ===== verification/UnitWorkflow.thy ===== *)
theory UnitWorkflow
  imports StatemachineSpec
begin

text \<open>
  \<open>juju/unit/workflow.py\<close>: the workflows of a unit and of a unit relation, where their state is kept
  (disk and ZooKeeper), and the workflow state classes the unit agent drives.

  Outside the sources and so parameters: the YAML codec (\<open>yaml\<close>), the ZooKeeper client with txzookeeper's
  \<open>retry_change\<close> (\<open>zk\<close>). The lifecycles the actions call are parameters as well, records of operations
  on the agent's world; the lifecycle theories give their operations.
\<close>

section \<open>The workflows\<close>

text \<open>\<open>Transition(id, label, source, destination, error_transition_id, automatic, alias)\<close>\<close>

definition new_transition ::
  "string \<Rightarrow> string \<Rightarrow> string option \<Rightarrow> string \<Rightarrow> string option \<Rightarrow> bool \<Rightarrow> string option \<Rightarrow> transition" where
  "new_transition tid label source destination err automatic alias =
     \<lparr>tr_id = tid, tr_label = label, tr_source = source, tr_destination = destination,
      tr_error = err, tr_automatic = automatic, tr_alias = alias\<rparr>"

definition unit_transitions :: "transition list" where
  "unit_transitions =
    [new_transition ''install'' ''Install'' None ''installed'' (Some ''error_install'') True None,
     new_transition ''error_install'' ''Install error'' None ''install_error'' None False None,
     new_transition ''retry_install'' ''Retry install'' (Some ''install_error'') ''installed''
       None False (Some ''retry''),
     new_transition ''retry_install_hook'' ''Retry install with hook'' (Some ''install_error'') ''installed''
       None False (Some ''retry_hook''),
     new_transition ''start'' ''Start'' (Some ''installed'') ''started'' (Some ''error_start'') True None,
     new_transition ''error_start'' ''Start error'' (Some ''installed'') ''start_error'' None False None,
     new_transition ''retry_start'' ''Retry start'' (Some ''start_error'') ''started''
       None False (Some ''retry''),
     new_transition ''retry_start_hook'' ''Retry start with hook'' (Some ''start_error'') ''started''
       None False (Some ''retry_hook''),
     new_transition ''stop'' ''Stop'' (Some ''started'') ''stopped'' (Some ''error_stop'') False None,
     new_transition ''error_stop'' ''Stop error'' (Some ''started'') ''stop_error'' None False None,
     new_transition ''retry_stop'' ''Retry stop'' (Some ''stop_error'') ''stopped''
       None False (Some ''retry''),
     new_transition ''retry_stop_hook'' ''Retry stop with hook'' (Some ''stop_error'') ''stopped''
       None False (Some ''retry_hook''),
     new_transition ''upgrade_charm'' ''Upgrade'' (Some ''started'') ''started''
       (Some ''upgrade_charm_error'') False None,
     new_transition ''upgrade_charm_error'' ''Upgrade error'' (Some ''started'') ''charm_upgrade_error''
       None False None,
     new_transition ''retry_upgrade_charm_error'' ''Upgrade error'' (Some ''charm_upgrade_error'')
       ''charm_upgrade_error'' None False None,
     new_transition ''retry_upgrade_charm'' ''Retry upgrade'' (Some ''charm_upgrade_error'') ''started''
       (Some ''retry_upgrade_charm_error'') False (Some ''retry''),
     new_transition ''retry_upgrade_charm_hook'' ''Retry upgrade with hook'' (Some ''charm_upgrade_error'')
       ''started'' (Some ''retry_upgrade_charm_error'') False (Some ''retry_hook''),
     new_transition ''configure'' ''Configure'' (Some ''started'') ''started''
       (Some ''error_configure'') False None,
     new_transition ''error_configure'' ''On configure error'' (Some ''started'') ''configure_error''
       None False None,
     new_transition ''error_retry_configure'' ''On retry configure error'' (Some ''configure_error'')
       ''configure_error'' None False None,
     new_transition ''retry_configure'' ''Retry configure'' (Some ''configure_error'') ''started''
       (Some ''error_retry_configure'') False (Some ''retry''),
     new_transition ''retry_configure_hook'' ''Retry configure with hooks'' (Some ''configure_error'')
       ''started'' (Some ''error_retry_configure'') False (Some ''retry_hook'')]"

definition UnitWorkflow :: workflow where
  "UnitWorkflow = initialize unit_transitions"

definition relation_transitions :: "transition list" where
  "relation_transitions =
    [new_transition ''start'' ''Start'' None ''up'' None True None,
     new_transition ''stop'' ''Stop'' (Some ''up'') ''down'' None False None,
     new_transition ''restart'' ''Restart'' (Some ''down'') ''up'' None False (Some ''retry''),
     new_transition ''error'' ''Relation hook error'' (Some ''up'') ''error'' None False None,
     new_transition ''reset'' ''Recover from hook error'' (Some ''error'') ''up'' None False None,
     new_transition ''depart'' ''Relation broken'' (Some ''up'') ''departed'' None False None,
     new_transition ''down_depart'' ''Relation broken'' (Some ''down'') ''departed'' None False None,
     new_transition ''error_depart'' ''Relation broken'' (Some ''error'') ''departed'' None False None]"

definition RelationWorkflow :: workflow where
  "RelationWorkflow = initialize relation_transitions"

section \<open>Where the state is kept\<close>

datatype domain_state =
    ServiceUnitState string string  \<comment> \<open>\<open>internal_id\<close>, \<open>unit_name\<close>\<close>
  | UnitRelationState string string string  \<comment> \<open>\<open>internal_unit_id\<close>, \<open>internal_relation_id\<close>, \<open>relation_scope\<close>\<close>
  | UnknownDomainObject

datatype workflow_error = UnknownDomain | NodeNotADict

definition zk_workflow_identity :: "domain_state \<Rightarrow> workflow_error + string \<times> string" where
  "zk_workflow_identity d =
     (case d of
        ServiceUnitState internal_id unit_name \<Rightarrow> Inr (''/units/'' @ internal_id, unit_name)
      | UnitRelationState unit_id relation_id scope \<Rightarrow> Inr (''/units/'' @ unit_id, relation_id)
      | UnknownDomainObject \<Rightarrow> Inl UnknownDomain)"

definition replace_char :: "char \<Rightarrow> char \<Rightarrow> string \<Rightarrow> string" where
  "replace_char a b s = map (\<lambda>c. if c = a then b else c) s"

definition fs_workflow_paths :: "string \<Rightarrow> domain_state \<Rightarrow> workflow_error + string \<times> string" where
  "fs_workflow_paths state_directory d =
     (case d of
        ServiceUnitState internal_id unit_name \<Rightarrow>
          (let base = state_directory @ ''/'' @ replace_char (CHR ''/'') (CHR ''-'') unit_name
           in Inr (base @ ''-'' @ ''state.txt'', base @ ''-'' @ ''history.txt''))
      | UnitRelationState unit_id relation_id scope \<Rightarrow>
          (let base = state_directory @ ''/'' @ unit_id @ ''-'' @ relation_id
           in Inr (base @ ''-'' @ ''state.txt'', base @ ''-'' @ ''history.txt''))
      | UnknownDomainObject \<Rightarrow> Inl UnknownDomain)"

text \<open>
  A unit's ZooKeeper node: the dict under \<open>workflow_state\<close>, whose values are serialized state dicts,
  and everything else in it. Texts are of any type \<open>'c\<close>; the codec is a parameter.
\<close>

record 'c unit_node =
  un_workflow_state :: "(string, 'c) dict option"
  un_rest :: "(string, string) dict"

record 'c yaml =
  y_dump_state :: "state_dict \<Rightarrow> 'c"
  y_load_state :: "'c \<Rightarrow> state_dict option"
  y_dump_node :: "'c unit_node \<Rightarrow> 'c"
  y_load_node :: "'c \<Rightarrow> 'c unit_node option"

record ('c, 'z) zk =
  zk_get :: "'z \<Rightarrow> string \<Rightarrow> 'c option"  \<comment> \<open>\<open>None\<close>: \<open>NoNodeException\<close>\<close>
  zk_retry_change :: "string \<Rightarrow> ('c \<Rightarrow> 'c) \<Rightarrow> 'z \<Rightarrow> 'z"

text \<open>\<open>if not unit_data: unit_data = {}\<close>\<close>

definition update_state :: "'c yaml \<Rightarrow> string \<Rightarrow> 'c \<Rightarrow> 'c \<Rightarrow> 'c" where
  "update_state y zk_state_id state_serialized content =
     (let unit_data = (case y_load_node y content of
                         None \<Rightarrow> \<lparr>un_workflow_state = None, un_rest = []\<rparr> | Some d \<Rightarrow> d);
          persistent_workflow = (case un_workflow_state unit_data of None \<Rightarrow> [] | Some w \<Rightarrow> w)
      in y_dump_node y (unit_data\<lparr>un_workflow_state :=
           Some (dset zk_state_id state_serialized persistent_workflow)\<rparr>))"

definition zk_store ::
  "'c yaml \<Rightarrow> ('c, 'z) zk \<Rightarrow> string \<times> string \<Rightarrow> state_dict \<Rightarrow> 'z \<Rightarrow> 'z" where
  "zk_store y client identity d z =
     zk_retry_change client (fst identity) (update_state y (snd identity) (y_dump_state y d)) z"

text \<open>An empty node loads as \<open>None\<close>, which has no \<open>get\<close>; no entry is the text \<open>""\<close>, which loads as \<open>None\<close>.\<close>

definition zk_load ::
  "'c yaml \<Rightarrow> ('c, 'z) zk \<Rightarrow> string \<times> string \<Rightarrow> 'z \<Rightarrow> workflow_error + state_dict option" where
  "zk_load y client identity z =
     (case zk_get client z (fst identity) of
        None \<Rightarrow> Inr (Some \<lparr>sd_state = None, sd_vars = None, sd_transition = None\<rparr>)
      | Some content \<Rightarrow>
          (case y_load_node y content of
             None \<Rightarrow> Inl NodeNotADict
           | Some unit_data \<Rightarrow>
               (case dget (case un_workflow_state unit_data of None \<Rightarrow> [] | Some w \<Rightarrow> w) (snd identity) of
                  None \<Rightarrow> Inr None
                | Some text \<Rightarrow> Inr (y_load_state y text))))"

text \<open>The state file, the rows of the history file, and ZooKeeper's state.\<close>

record ('c, 'z) disk =
  dk_state_file :: "'c option"
  dk_history :: "'c list"
  dk_zk :: 'z

definition disk_store ::
  "'c yaml \<Rightarrow> ('c, 'z) zk \<Rightarrow> string \<times> string \<Rightarrow> state_dict \<Rightarrow> ('c, 'z) disk \<Rightarrow> ('c, 'z) disk" where
  "disk_store y client identity d s =
     (let state_serialized = y_dump_state y d
      in \<lparr>dk_state_file = Some state_serialized, dk_history = dk_history s @ [state_serialized],
          dk_zk = zk_store y client identity d (dk_zk s)\<rparr>)"

definition disk_load :: "'c yaml \<Rightarrow> ('c, 'z) disk \<Rightarrow> state_dict option" where
  "disk_load y s =
     (case dk_state_file s of
        None \<Rightarrow> Some \<lparr>sd_state = None, sd_vars = None, sd_transition = None\<rparr>
      | Some content \<Rightarrow> y_load_state y content)"

definition disk_backend ::
  "'c yaml \<Rightarrow> ('c, 'z) zk \<Rightarrow> string \<times> string \<Rightarrow> ('c, 'z) disk backend" where
  "disk_backend y client identity =
     \<lparr>be_load = disk_load y, be_store = disk_store y client identity\<rparr>"

section \<open>Reading from outside the agent\<close>

text \<open>\<open>WorkflowStateClient\<close> reads through \<open>zk_load\<close>; its \<open>_store\<close> raises \<open>NotImplementedError\<close>.\<close>

definition client_get_state ::
  "'c yaml \<Rightarrow> ('c, 'z) zk \<Rightarrow> domain_state \<Rightarrow> 'z \<Rightarrow> workflow_error + string option" where
  "client_get_state y client d z =
     rbind (zk_workflow_identity d) (\<lambda>identity.
     rbind (zk_load y client identity z) (\<lambda>state_dict.
     Inr (case state_dict of None \<Rightarrow> None | Some sd \<Rightarrow> sd_state sd)))"

definition is_unit_running ::
  "'c yaml \<Rightarrow> ('c, 'z) zk \<Rightarrow> domain_state \<Rightarrow> 'z \<Rightarrow> workflow_error + bool \<times> string option" where
  "is_unit_running y client d z =
     rbind (client_get_state y client d z) (\<lambda>workflow_state.
     if workflow_state = None \<or> workflow_state = Some [] then Inr (False, None)
     else Inr (workflow_state = Some ''started'', workflow_state))"

definition is_relation_running ::
  "'c yaml \<Rightarrow> ('c, 'z) zk \<Rightarrow> domain_state \<Rightarrow> 'z \<Rightarrow> workflow_error + bool \<times> string option" where
  "is_relation_running y client d z =
     rbind (client_get_state y client d z) (\<lambda>workflow_state.
     if workflow_state = None \<or> workflow_state = Some [] then Inr (False, None)
     else Inr (workflow_state = Some ''up'', workflow_state))"

section \<open>The unit's workflow state\<close>

text \<open>How a call of the lifecycle or the executor ends; an exception carries its text.\<close>

datatype lifecycle_result =
    LReturned
  | LFileNotFound string
  | LCharmError string
  | LRaised string

text \<open>The operations of \<open>UnitLifecycle\<close> and \<open>HookExecutor\<close> the workflow calls.\<close>

record 'w agent_ops =
  ag_install :: "bool \<Rightarrow> 'w \<Rightarrow> lifecycle_result \<times> 'w"  \<comment> \<open>\<open>fire_hooks\<close>\<close>
  ag_start :: "bool \<Rightarrow> bool \<Rightarrow> 'w \<Rightarrow> lifecycle_result \<times> 'w"  \<comment> \<open>\<open>fire_hooks\<close>, \<open>start_relations\<close>\<close>
  ag_stop :: "bool \<Rightarrow> 'w \<Rightarrow> lifecycle_result \<times> 'w"
  ag_upgrade_charm :: "bool \<Rightarrow> 'w \<Rightarrow> lifecycle_result \<times> 'w"
  ag_configure :: "bool \<Rightarrow> 'w \<Rightarrow> lifecycle_result \<times> 'w"
  ag_running :: "'w \<Rightarrow> bool"
  ex_running :: "'w \<Rightarrow> bool"
  ex_start :: "'w \<Rightarrow> lifecycle_result \<times> 'w"
  ex_stop :: "'w \<Rightarrow> lifecycle_result \<times> 'w"

definition invoke_lifecycle :: "('w \<Rightarrow> lifecycle_result \<times> 'w) \<Rightarrow> 'w \<Rightarrow> act_outcome \<times> 'w" where
  "invoke_lifecycle method w =
     (case method w of
        (LReturned, w') \<Rightarrow> (ActReturned None, w')
      | (LFileNotFound _, w') \<Rightarrow> (ActTransitionError, w')
      | (LCharmError _, w') \<Rightarrow> (ActTransitionError, w')
      | (LRaised e, w') \<Rightarrow> (ActRaised e, w'))"

text \<open>Two actions in a row, the second only if the first returns (\<open>yield ...; yield ...\<close>).\<close>

definition act_then :: "('w \<Rightarrow> act_outcome \<times> 'w) \<Rightarrow> ('w \<Rightarrow> act_outcome \<times> 'w) \<Rightarrow> 'w \<Rightarrow> act_outcome \<times> 'w" where
  "act_then f g w = (case f w of (ActReturned _, w') \<Rightarrow> g w' | r \<Rightarrow> r)"

definition unit_actions :: "'w agent_ops \<Rightarrow> (string, 'w \<Rightarrow> act_outcome \<times> 'w) dict" where
  "unit_actions ops =
    [(''install'', invoke_lifecycle (ag_install ops True)),
     (''retry_install'', invoke_lifecycle (ag_install ops False)),
     (''retry_install_hook'', invoke_lifecycle (ag_install ops True)),
     (''start'', invoke_lifecycle (ag_start ops True True)),
     (''retry_start'', invoke_lifecycle (ag_start ops False True)),
     (''retry_start_hook'', invoke_lifecycle (ag_start ops True True)),
     (''stop'', invoke_lifecycle (ag_stop ops True)),
     (''retry_stop'', invoke_lifecycle (ag_stop ops False)),
     (''retry_stop_hook'', invoke_lifecycle (ag_stop ops True)),
     (''upgrade_charm'', invoke_lifecycle (ag_upgrade_charm ops True)),
     (''retry_upgrade_charm'', invoke_lifecycle (ag_upgrade_charm ops False)),
     (''retry_upgrade_charm_hook'', invoke_lifecycle (ag_upgrade_charm ops True)),
     (''error_configure'', invoke_lifecycle (ag_stop ops False)),
     (''configure'', invoke_lifecycle (ag_configure ops True)),
     (''error_retry_configure'', invoke_lifecycle (ag_stop ops False)),
     (''retry_configure'',
        act_then (invoke_lifecycle (ag_start ops False True)) (invoke_lifecycle (ag_configure ops False))),
     (''retry_configure_hook'',
        act_then (invoke_lifecycle (ag_start ops False True)) (invoke_lifecycle (ag_configure ops True)))]"

definition unit_env ::
  "'c yaml \<Rightarrow> ('c, 'z) zk \<Rightarrow> string \<times> string \<Rightarrow> 'w agent_ops \<Rightarrow> (('c, 'z) disk, 'w) wf_env" where
  "unit_env y client identity ops =
     \<lparr>env_workflow = UnitWorkflow, env_backend = disk_backend y client identity,
      env_action = dget (unit_actions ops)\<rparr>"

definition get_preconditions :: "('s, 'w) wf_env \<Rightarrow> ('s, 'w) machine \<Rightarrow> bool \<times> bool" where
  "get_preconditions env m =
     (let state = get_state env m in
      if state = Some ''charm_upgrade_error'' then (False, True)
      else if state = Some ''started'' then
        (if get_inflight env m = Some ''upgrade_charm'' then (False, True) else (True, True))
      else (True, False))"

text \<open>A call outside an action: any exception ends \<open>synchronize\<close>.\<close>

fun call_error :: "lifecycle_result \<Rightarrow> wf_error option" where
  "call_error LReturned = None"
| "call_error (LFileNotFound e) = Some (CallRaised e)"
| "call_error (LCharmError e) = Some (CallRaised e)"
| "call_error (LRaised e) = Some (CallRaised e)"

definition call_world ::
  "('w \<Rightarrow> lifecycle_result \<times> 'w) \<Rightarrow> ('s, 'w) machine \<Rightarrow> wf_error option \<times> ('s, 'w) machine" where
  "call_world f m = (case f (m_world m) of (r, w) \<Rightarrow> (call_error r, m\<lparr>m_world := w\<rparr>))"

definition call_if ::
  "bool \<Rightarrow> ('w \<Rightarrow> lifecycle_result \<times> 'w) \<Rightarrow> ('s, 'w) machine \<Rightarrow> wf_error option \<times> ('s, 'w) machine" where
  "call_if b f m = (if b then call_world f m else (None, m))"

definition unit_synchronize ::
  "('s, 'w) wf_env \<Rightarrow> 'w agent_ops \<Rightarrow> nat \<Rightarrow> ('s, 'w) machine \<Rightarrow> ('s, 'w) outcome option" where
  "unit_synchronize env ops n m =
     (if \<not> m_locked m then Some (Inl LockNotHeld, m)
      else let (run_executor, run_lifecycle) = get_preconditions env m in
      case (if run_executor then call_if (\<not> ex_running ops (m_world m)) (ex_start ops) m
            else call_if (ex_running ops (m_world m)) (ex_stop ops) m) of
        (Some e, m1) \<Rightarrow> Some (Inl e, m1)
      | (None, m1) \<Rightarrow>
          (case (if run_lifecycle then call_if (\<not> ag_running ops (m_world m1)) (ag_start ops False False) m1
                 else call_if (ag_running ops (m_world m1)) (ag_stop ops False) m1) of
             (Some e, m2) \<Rightarrow> Some (Inl e, m2)
           | (None, m2) \<Rightarrow> synchronize env n m2))"

section \<open>The unit relation's workflow state\<close>

text \<open>The operations of \<open>UnitRelationLifecycle\<close> the workflow calls.\<close>

record 'w relation_ops =
  rl_start :: "bool \<Rightarrow> bool \<Rightarrow> 'w \<Rightarrow> lifecycle_result \<times> 'w"  \<comment> \<open>\<open>start_watches\<close>, \<open>start_scheduler\<close>\<close>
  rl_stop :: "bool \<Rightarrow> 'w \<Rightarrow> lifecycle_result \<times> 'w"  \<comment> \<open>\<open>stop_watches\<close>\<close>
  rl_depart :: "'w \<Rightarrow> lifecycle_result \<times> 'w"
  rl_set_hook_error_handler :: "bool \<Rightarrow> 'w \<Rightarrow> 'w"  \<comment> \<open>whether a handler is set\<close>

text \<open>Relation actions let every exception through: none of them is a \<open>TransitionError\<close>.\<close>

definition relation_call :: "('w \<Rightarrow> lifecycle_result \<times> 'w) \<Rightarrow> 'w \<Rightarrow> act_outcome \<times> 'w" where
  "relation_call f w =
     (case f w of
        (LReturned, w') \<Rightarrow> (ActReturned None, w')
      | (LFileNotFound e, w') \<Rightarrow> (ActRaised e, w')
      | (LCharmError e, w') \<Rightarrow> (ActRaised e, w')
      | (LRaised e, w') \<Rightarrow> (ActRaised e, w'))"

text \<open>\<open>str(e)\<close> of a caught exception\<close>

fun exception_text :: "lifecycle_result \<Rightarrow> string" where
  "exception_text LReturned = []"
| "exception_text (LFileNotFound e) = e"
| "exception_text (LCharmError e) = e"
| "exception_text (LRaised e) = e"

definition do_depart :: "'w relation_ops \<Rightarrow> 'w \<Rightarrow> act_outcome \<times> 'w" where
  "do_depart ops =
     act_then (relation_call (rl_stop ops True)) (\<lambda>w.
       (case rl_depart ops (rl_set_hook_error_handler ops False w) of
          (LReturned, w') \<Rightarrow> (ActReturned None, w')
        | (e, w') \<Rightarrow>
            (ActReturned (Some [(''change_type'', ''depart''), (''error_message'', exception_text e)]), w')))"

definition relation_actions :: "'w relation_ops \<Rightarrow> (string, 'w \<Rightarrow> act_outcome \<times> 'w) dict" where
  "relation_actions ops =
    [(''stop'', relation_call (rl_stop ops True)),
     (''reset'', relation_call (rl_start ops False True)),
     (''error'', relation_call (rl_stop ops False)),
     (''restart'', relation_call (rl_start ops True True)),
     (''start'', relation_call (rl_start ops True True)),
     (''depart'', do_depart ops),
     (''down_depart'', do_depart ops),
     (''error_depart'', do_depart ops)]"

definition relation_env ::
  "'c yaml \<Rightarrow> ('c, 'z) zk \<Rightarrow> string \<times> string \<Rightarrow> 'w relation_ops \<Rightarrow> (('c, 'z) disk, 'w) wf_env" where
  "relation_env y client identity ops =
     \<lparr>env_workflow = RelationWorkflow, env_backend = disk_backend y client identity,
      env_action = dget (relation_actions ops)\<rparr>"

text \<open>For a state of no branch Python raises \<open>UnboundLocalError\<close> when it reads \<open>watches\<close>, after the stop.\<close>

definition relation_targets :: "string option \<Rightarrow> (bool \<times> bool) option" where
  "relation_targets state =
     (if state = Some ''up'' then Some (True, True)
      else if state = None \<or> state = Some ''down'' \<or> state = Some ''departed'' then Some (False, False)
      else if state = Some ''error'' then Some (True, False)
      else None)"

definition relation_synchronize ::
  "('s, 'w) wf_env \<Rightarrow> 'w relation_ops \<Rightarrow> nat \<Rightarrow> ('s, 'w) machine \<Rightarrow> ('s, 'w) outcome option" where
  "relation_synchronize env ops n m =
     (if \<not> m_locked m then Some (Inl LockNotHeld, m)
      else case call_world (rl_stop ops True) m of
        (Some e, m1) \<Rightarrow> Some (Inl e, m1)
      | (None, m1) \<Rightarrow>
          (case relation_targets (get_state env m) of
             None \<Rightarrow> Some (Inl (CallRaised ''UnboundLocalError''), m1)
           | Some (watches, scheduler) \<Rightarrow>
               (case call_if (watches \<or> scheduler) (rl_start ops watches scheduler) m1 of
                  (Some e, m2) \<Rightarrow> Some (Inl e, m2)
                | (None, m2) \<Rightarrow> synchronize env n m2)))"

definition on_hook_error ::
  "('s, 'w) wf_env \<Rightarrow> nat \<Rightarrow> string \<Rightarrow> string \<Rightarrow> ('s, 'w) machine \<Rightarrow> ('s, 'w) outcome option" where
  "on_hook_error env n change_type error m =
     map_option (map_prod id release)
       (fire_transition env n ''error'' [(''change_type'', change_type), (''error_message'', error)] (lock m))"

definition get_relation_info :: "domain_state \<Rightarrow> string \<Rightarrow> workflow_error + (string, string \<times> string) dict" where
  "get_relation_info d relation_name =
     (case d of
        UnitRelationState unit_id relation_id scope \<Rightarrow> Inr [(relation_id, (relation_name, scope))]
      | _ \<Rightarrow> Inl UnknownDomain)"

end
