(* ===== verification/WorkflowTables.thy ===== *)
theory WorkflowTables
  imports UnitWorkflow
begin

text \<open>
  Facts of the two transition tables, each checked on the table: which transitions are automatic, the
  rank that bounds their chains, and the state each failure leads to.
\<close>

definition unit_rank :: "string \<Rightarrow> nat" where
  "unit_rank tid =
     (if tid \<in> {''install'', ''retry_install'', ''retry_install_hook''} then 2
      else if tid \<in> {''error_install'', ''error_start'', ''error_stop'', ''upgrade_charm_error'',
                      ''retry_upgrade_charm_error'', ''error_configure'', ''error_retry_configure''} then 0
      else 1)"

lemma unit_automatic:
  "list_all (\<lambda>t. tr_automatic t \<longrightarrow> tr_source t = None \<or> (tr_source t = Some ''installed'' \<and> tr_id t = ''start''))
     unit_transitions"
  by (simp add: unit_transitions_def new_transition_def)

lemma unit_installing:
  "list_all (\<lambda>t. tr_destination t = ''installed'' \<longrightarrow> unit_rank (tr_id t) = 2) unit_transitions"
  by (simp add: unit_transitions_def new_transition_def unit_rank_def)

lemma unit_errors:
  "list_all (\<lambda>t. case error_transition t of None \<Rightarrow> True | Some e \<Rightarrow> unit_rank e < unit_rank (tr_id t)) unit_transitions"
  by (simp add: unit_transitions_def new_transition_def unit_rank_def error_transition_def)

lemma unit_ranked: "ranked unit_transitions unit_rank"
proof -
  have "unit_rank ''start'' < 2" by (simp add: unit_rank_def)
  then show ?thesis
    using unit_automatic unit_installing unit_errors by (fastforce simp: ranked_def list_all_iff)
qed
lemma unit_rank_less: "unit_rank tid < 3"
  by (simp add: unit_rank_def)

lemma relation_ranked: "ranked relation_transitions (\<lambda>_. 0)"
  by (simp add: relation_transitions_def new_transition_def ranked_def error_transition_def)

lemma unit_ids_distinct: "distinct (map tr_id unit_transitions)"
  by code_simp

lemma relation_ids_distinct: "distinct (map tr_id relation_transitions)"
  by code_simp

text \<open>The state the workflow means a failing transition to end in.\<close>

definition failure_state :: "transition \<Rightarrow> string option" where
  "failure_state t =
     (let tid = tr_id t in
      if tid = ''install'' then Some ''install_error''
      else if tid = ''start'' then Some ''start_error''
      else if tid = ''stop'' then Some ''stop_error''
      else if tid \<in> {''upgrade_charm'', ''retry_upgrade_charm'', ''retry_upgrade_charm_hook''}
      then Some ''charm_upgrade_error''
      else if tid \<in> {''configure'', ''retry_configure'', ''retry_configure_hook''}
      then Some ''configure_error''
      else tr_source t)"

definition error_ids :: "string list" where
  "error_ids = [''error_install'', ''error_start'', ''error_stop'', ''upgrade_charm_error'',
                ''retry_upgrade_charm_error'', ''error_configure'', ''error_retry_configure'']"

text \<open>Every error transition of the unit workflow leaves from the state of the failed one, to its failure state.\<close>

definition error_target_ok :: "transition \<Rightarrow> bool" where
  "error_target_ok t =
     (case error_transition t of
        None \<Rightarrow> failure_state t = tr_source t
      | Some e \<Rightarrow> list_ex (\<lambda>t'. tr_id t' = e \<and> tr_source t' = tr_source t \<and>
          failure_state t = Some (tr_destination t') \<and> tr_destination t' \<noteq> ''installed'' \<and>
          e \<in> set error_ids)
          unit_transitions)"

lemma error_targets: "list_all error_target_ok unit_transitions"
  by (simp add: unit_transitions_def new_transition_def error_target_ok_def failure_state_def error_transition_def
        error_ids_def)

text \<open>The error transitions of a configuration failure stop the lifecycle; the others do nothing.\<close>

lemma error_actions:
  "list_all (\<lambda>e. dget (unit_actions ops) e = None
               \<or> dget (unit_actions ops) e = Some (invoke_lifecycle (ag_stop ops False))) error_ids"
  by (simp add: error_ids_def unit_actions_def)

lemma unit_error_action:
  assumes "e \<in> set error_ids" and "fst (ag_stop ops False w) = LReturned"
  shows "\<exists>vs w'. run_action (unit_env y client identity ops) e w = (ActReturned vs, w')"
proof -
  have "dget (unit_actions ops) e = None \<or> dget (unit_actions ops) e = Some (invoke_lifecycle (ag_stop ops False))"
    using error_actions [of ops] assms(1) unfolding list_all_iff by blast
  then show ?thesis
  proof
    assume "dget (unit_actions ops) e = None"
    then show ?thesis by (simp add: run_action_def unit_env_def)
  next
    assume "dget (unit_actions ops) e = Some (invoke_lifecycle (ag_stop ops False))"
    then show ?thesis
      using assms(2) by (cases "ag_stop ops False w") (simp add: run_action_def unit_env_def invoke_lifecycle_def)
  qed
qed

end
