(* ===== verification/WorkflowProps.thy ===== *)
theory WorkflowProps
  imports WorkflowTables
begin

text \<open>
  The properties of the workflow machines. \<open>unit_machine\<close> and \<open>relation_machine\<close> discharge the contract
  \<open>workflow_machine\<close> for the two workflow states of the agent, kept on disk; the facts of that locale
  then hold for them.
\<close>

section \<open>The contract holds\<close>

text \<open>\<open>yaml.load\<close> reads back what \<open>yaml.safe_dump\<close> wrote: documented of PyYAML for such dicts.\<close>

definition yaml_ok :: "'c yaml \<Rightarrow> bool" where
  "yaml_ok y \<longleftrightarrow> (\<forall>d. y_load_state y (y_dump_state y d) = Some d) \<and>
                  (\<forall>n. y_load_node y (y_dump_node y n) = Some n)"

text \<open>\<open>retry_change\<close> on an existing node replaces its content by the function's result, and no other node's.\<close>

definition zk_ok :: "('c, 'z) zk \<Rightarrow> bool" where
  "zk_ok client \<longleftrightarrow>
     (\<forall>z p f q c. zk_get client z p = Some c \<longrightarrow>
        zk_get client (zk_retry_change client p f z) q = (if q = p then Some (f c) else zk_get client z q))"

lemma disk_load_store: "yaml_ok y \<Longrightarrow> disk_load y (disk_store y client identity d s) = Some d"
  by (simp add: disk_load_def disk_store_def Let_def yaml_ok_def)

lemma unit_machine:
  assumes "yaml_ok y"
  shows "workflow_machine (unit_env y client identity ops) unit_transitions"
  by unfold_locales
    (simp_all add: unit_env_def disk_backend_def disk_load_store [OF assms] UnitWorkflow_def unit_ids_distinct)

lemma relation_machine:
  assumes "yaml_ok y"
  shows "workflow_machine (relation_env y client identity ops) relation_transitions"
  by unfold_locales
    (simp_all add: relation_env_def disk_backend_def disk_load_store [OF assms] RelationWorkflow_def
       relation_ids_distinct)

text \<open>A codec that keeps values, and a ZooKeeper of one map: the contract is satisfiable.\<close>

datatype plain_text =
    PlainState "string option" "(string \<times> string) list option" "string option"
  | PlainNode "(string \<times> plain_text) list option" "(string \<times> string) list"

definition plain_yaml :: "plain_text yaml" where
  "plain_yaml =
     \<lparr>y_dump_state = (\<lambda>d. PlainState (sd_state d) (sd_vars d) (sd_transition d)),
      y_load_state = (\<lambda>c. case c of
        PlainState s v t \<Rightarrow> Some \<lparr>sd_state = s, sd_vars = v, sd_transition = t\<rparr> | _ \<Rightarrow> None),
      y_dump_node = (\<lambda>n. PlainNode (un_workflow_state n) (un_rest n)),
      y_load_node = (\<lambda>c. case c of
        PlainNode w r \<Rightarrow> Some \<lparr>un_workflow_state = w, un_rest = r\<rparr> | _ \<Rightarrow> None)\<rparr>"

definition plain_zk :: "('c, (string, 'c) dict) zk" where
  "plain_zk =
     \<lparr>zk_get = dget,
      zk_retry_change = (\<lambda>p f z. case dget z p of None \<Rightarrow> z | Some c \<Rightarrow> dset p (f c) z)\<rparr>"

lemma plain_yaml_ok: "yaml_ok plain_yaml"
  by (simp add: yaml_ok_def plain_yaml_def)

lemma plain_zk_ok: "zk_ok plain_zk"
  by (simp add: zk_ok_def plain_zk_def dget_dset)

interpretation unit_wf: workflow_machine "unit_env plain_yaml client identity ops" unit_transitions
  for client identity ops
  by (rule unit_machine [OF plain_yaml_ok])

interpretation relation_wf: workflow_machine "relation_env plain_yaml client identity ops" relation_transitions
  for client identity ops
  by (rule relation_machine [OF plain_yaml_ok])

section \<open>Ranks and settled states of the two workflows\<close>

lemma unit_settled:
  assumes "yaml_ok y" and "s \<noteq> ''installed''"
  shows "workflow_machine.settled unit_transitions s"
  unfolding workflow_machine.settled_def [OF unit_machine [OF assms(1)]]
  using assms(2) unit_automatic by (auto simp: list_all_iff)

lemma unit_success:
  assumes y: "yaml_ok y" and t: "t \<in> set unit_transitions" and "m_locked m"
    and "get_state (unit_env y client identity ops) m = tr_source t"
    and "run_action (unit_env y client identity ops) (tr_id t) (m_world m) = (ActReturned vs, w)"
    and "tr_destination t \<noteq> ''installed''"
  shows "fire_transition (unit_env y client identity ops) 3 (tr_id t) v m
     = Some (Inr True, set_state (unit_env y client identity ops) (tr_destination t) (dupdate v (variables_of vs))
             ((set_inflight (unit_env y client identity ops) (Some (tr_id t)) m)\<lparr>m_world := w\<rparr>))"
  by (rule workflow_machine.fires_computed [OF unit_machine [OF y] unit_ranked unit_rank_less
        workflow_machine.fires_success_settled [OF unit_machine [OF y] t assms(3-5) unit_settled [OF y assms(6)]]])

section \<open>Properties\<close>

text \<open>
  C14: firing a transition, retrying by alias and synchronizing a unit's workflow always end: no
  chain of error and automatic transitions of the unit workflow is longer than three, of the relation
  workflow longer than one, whatever the actions do.
\<close>

theorem workflows_terminate:
  assumes "yaml_ok y"
  shows "fire_transition (unit_env y client identity ops) 3 tid v m \<noteq> None
    \<and> fire_transition_alias (unit_env y client identity ops) 3 alias m \<noteq> None
    \<and> unit_synchronize (unit_env y client identity ops) ops 3 m \<noteq> None
    \<and> fire_transition (relation_env y client identity' rops) 1 tid v m' \<noteq> None
    \<and> relation_synchronize (relation_env y client identity' rops) rops 1 m' \<noteq> None
    \<and> on_hook_error (relation_env y client identity' rops) 1 change_type err m' \<noteq> None"
proof -
  note unit = unit_machine [OF assms, of client identity ops]
  note rel = relation_machine [OF assms, of client identity' rops]
  have fire: "fire_transition (unit_env y client identity ops) 3 tid v m \<noteq> None" for tid v m
    by (rule workflow_machine.fire_enough_fuel [OF unit unit_ranked unit_rank_less])
  have sync: "synchronize (unit_env y client identity ops) 3 m \<noteq> None" for m
    by (rule workflow_machine.synchronize_enough_fuel [OF unit unit_ranked]) (simp_all add: unit_rank_less)
  have rfire: "fire_transition (relation_env y client identity' rops) 1 tid v m \<noteq> None" for tid v m
    by (rule workflow_machine.fire_enough_fuel [OF rel relation_ranked]) simp
  have rsync: "synchronize (relation_env y client identity' rops) 1 m \<noteq> None" for m
    by (rule workflow_machine.synchronize_enough_fuel [OF rel relation_ranked]) simp_all
  have "fire_transition_alias (unit_env y client identity ops) 3 alias m \<noteq> None"
    using fire by (auto simp: fire_transition_alias_def split: sum.splits list.splits)
  moreover have "unit_synchronize (unit_env y client identity ops) ops 3 m \<noteq> None"
    using sync by (auto simp: unit_synchronize_def Let_def split: prod.splits option.splits)
  moreover have "relation_synchronize (relation_env y client identity' rops) rops 1 m' \<noteq> None"
    using rsync by (auto simp: relation_synchronize_def split: prod.splits option.splits)
  moreover have "on_hook_error (relation_env y client identity' rops) 1 change_type err m' \<noteq> None"
    using rfire by (simp add: on_hook_error_def)
  ultimately show ?thesis using fire rfire by blast
qed

definition idle_ops :: "bool agent_ops" where
  "idle_ops =
     \<lparr>ag_install = (\<lambda>_ w. (LReturned, w)), ag_start = (\<lambda>_ _ w. (LReturned, w)),
      ag_stop = (\<lambda>_ w. (LReturned, w)), ag_upgrade_charm = (\<lambda>_ w. (LCharmError ''bad charm'', w)),
      ag_configure = (\<lambda>_ w. (LReturned, w)), ag_running = (\<lambda>_. True), ex_running = (\<lambda>_. True),
      ex_start = (\<lambda>w. (LReturned, w)), ex_stop = (\<lambda>w. (LReturned, w))\<rparr>"

definition idle_relation_ops :: "bool relation_ops" where
  "idle_relation_ops =
     \<lparr>rl_start = (\<lambda>_ _ w. (LReturned, w)), rl_stop = (\<lambda>_ w. (LReturned, w)),
      rl_depart = (\<lambda>w. (LRaised ''hook failed'', w)), rl_set_hook_error_handler = (\<lambda>_ w. w)\<rparr>"

text \<open>A fresh machine with its lock held, an observer, and an empty disk.\<close>

definition fresh_machine ::
  "'w \<Rightarrow> ((plain_text, (string, plain_text) dict) disk, 'w) machine" where
  "fresh_machine w =
     \<lparr>m_store = \<lparr>dk_state_file = None, dk_history = [], dk_zk = [(''/units/unit-0'', PlainNode None [])]\<rparr>,
      m_locked = True, m_has_observer = True, m_observed = [], m_world = w\<rparr>"

definition demo_env :: "((plain_text, (string, plain_text) dict) disk, bool) wf_env" where
  "demo_env = unit_env plain_yaml plain_zk (''/units/unit-0'', ''wordpress/0'') idle_ops"

definition demo_relation_env :: "((plain_text, (string, plain_text) dict) disk, bool) wf_env" where
  "demo_relation_env = relation_env plain_yaml plain_zk (''/units/unit-0'', ''relation-0'') idle_relation_ops"

lemmas demo_env_defs = demo_env_def demo_relation_env_def

theorem workflows_terminate_witness:
  "fire_transition demo_env 3 ''install'' [] (fresh_machine True) \<noteq> None
    \<and> fire_transition_alias demo_env 3 ''retry'' (fresh_machine True) \<noteq> None
    \<and> unit_synchronize demo_env idle_ops 3 (fresh_machine True) \<noteq> None
    \<and> fire_transition demo_relation_env 1 ''install'' [] (fresh_machine True) \<noteq> None
    \<and> relation_synchronize demo_relation_env idle_relation_ops 1 (fresh_machine True) \<noteq> None
    \<and> on_hook_error demo_relation_env 1 ''joined'' ''oops'' (fresh_machine True) \<noteq> None"
  unfolding demo_env_defs by (rule workflows_terminate [OF plain_yaml_ok])

text \<open>
  C6: a workflow machine moves only along its workflow's transitions, and its observer sees every
  state it passes through: the states reported by one call form a walk in the graph from the old state
  to the new one.
\<close>

theorem workflow_walks:
  assumes "yaml_ok y" and "m_has_observer m"
    and "fire_transition (unit_env y client identity ops) n tid v m = Some (r, m')"
  shows "\<exists>l. m_observed m' = m_observed m @ l
    \<and> is_walk unit_transitions (get_state (unit_env y client identity ops) m) (map fst l)
    \<and> get_state (unit_env y client identity ops) m' =
        walk_end (get_state (unit_env y client identity ops) m) (map fst l)"
  using workflow_machine.fires_walk(1) [OF unit_machine [OF assms(1)] fire_sound [THEN conjunct1, rule_format, OF assms(3)] refl]
    assms(2) by blast


lemma demo_runs: "\<exists>r m'. fire_transition demo_env 3 tid v m = Some (r, m')"
  using workflow_machine.fire_enough_fuel [OF unit_machine [OF plain_yaml_ok] unit_ranked unit_rank_less]
  unfolding demo_env_def by fastforce

theorem workflow_walks_witness:
  "\<exists>r m' l. fire_transition demo_env 3 ''install'' [] (fresh_machine True) = Some (r, m')
    \<and> m_observed m' = m_observed (fresh_machine True) @ l
    \<and> is_walk unit_transitions (get_state demo_env (fresh_machine True)) (map fst l)
    \<and> get_state demo_env m' = walk_end (get_state demo_env (fresh_machine True)) (map fst l)"
proof -
  obtain r m' where run: "fire_transition demo_env 3 ''install'' [] (fresh_machine True) = Some (r, m')"
    using demo_runs by blast
  have "m_has_observer (fresh_machine True)" by (simp add: fresh_machine_def)
  from workflow_walks [OF plain_yaml_ok this run [unfolded demo_env_def]] run show ?thesis
    unfolding demo_env_def by blast
qed

text \<open>
  C12: a crash loses no transition. After a normal return nothing is in flight; after an exception of an
  action the transition that ran it is recorded, the state is one it can be fired from, and
  \<open>synchronize\<close> on the restarted agent fires exactly that transition again.
\<close>

theorem inflight_recovery:
  assumes "yaml_ok y" and "m_locked m"
    and "fire_transition (unit_env y client identity ops) n tid v m = Some (r, m')"
  shows "(\<forall>b. r = Inr b \<longrightarrow> get_inflight (unit_env y client identity ops) m' = None)
    \<and> (\<forall>x. r = Inl (ActionRaised x) \<longrightarrow> (\<exists>t \<in> set unit_transitions.
          get_inflight (unit_env y client identity ops) m' = Some (tr_id t)
        \<and> tr_source t = get_state (unit_env y client identity ops) m'
        \<and> synchronize (unit_env y client identity ops) k m'
          = fire_transition (unit_env y client identity ops) k (tr_id t) [] m'))"
proof -
  note unit = unit_machine [OF assms(1), of client identity ops]
  have f: "fires (unit_env y client identity ops) tid v m r m'"
    using fire_sound assms(3) by blast
  have "m_locked m'" using workflow_machine.fires_locked(1) [OF unit f refl] assms(2) by simp
  moreover have "inflight_ok (unit_env y client identity ops) unit_transitions r m'"
    by (rule workflow_machine.fires_inflight(1) [OF unit f refl])
  ultimately show ?thesis
    by (auto simp: synchronize_def) blast
qed

definition crash_ops :: "bool agent_ops" where
  "crash_ops = idle_ops\<lparr>ag_stop := (\<lambda>_ w. (LRaised ''killed'', w))\<rparr>"

definition started_machine :: "((plain_text, (string, plain_text) dict) disk, bool) machine" where
  "started_machine = set_state demo_env ''started'' [] (fresh_machine True)"

lemma started_machine_simps [simp]:
  "get_state demo_env started_machine = Some ''started''" "m_locked started_machine"
  "m_world started_machine = True"
  by (simp_all add: started_machine_def demo_env_def fresh_machine_def)

lemma demo_stop:
  "fire_transition demo_env 3 ''stop'' [] started_machine
     = Some (Inr True, set_state demo_env ''stopped'' [] (set_inflight demo_env (Some ''stop'') started_machine))"
proof -
  define t where "t = new_transition ''stop'' ''Stop'' (Some ''started'') ''stopped'' (Some ''error_stop'') False None"
  have t: "t \<in> set unit_transitions" "tr_id t = ''stop''" "tr_source t = Some ''started''" "tr_destination t = ''stopped''"
    by (simp_all add: t_def unit_transitions_def new_transition_def)
  have "run_action demo_env ''stop'' True = (ActReturned None, True)"
    by (simp add: run_action_def demo_env_def unit_env_def unit_actions_def invoke_lifecycle_def idle_ops_def)
  moreover have "(set_inflight demo_env (Some ''stop'') started_machine)\<lparr>m_world := True\<rparr>
      = set_inflight demo_env (Some ''stop'') started_machine"
    using set_inflight_world_idem [of started_machine demo_env "Some ''stop''"] by simp
  ultimately show ?thesis
    using unit_success [OF plain_yaml_ok t(1), of started_machine plain_zk "(''/units/unit-0'', ''wordpress/0'')"
        idle_ops None True "[]"] t(2-4)
    unfolding demo_env_def [symmetric] by (simp add: variables_of_def)
qed

theorem inflight_recovery_witness:
  "\<exists>m'. fire_transition demo_env 3 ''stop'' [] started_machine = Some (Inr True, m')
    \<and> get_inflight demo_env m' = None"
  using inflight_recovery [OF plain_yaml_ok started_machine_simps(2) demo_stop [unfolded demo_env_def]] demo_stop
  unfolding demo_env_def [symmetric] by blast

text \<open>
  C13: what a failing action does to a unit. Each of the transitions whose lifecycle call raises
  \<open>FileNotFound\<close> or \<open>CharmError\<close> returns \<open>False\<close> and leaves the unit in the state the workflow names
  for that failure, with nothing in flight.
\<close>

theorem unit_failures:
  assumes y: "yaml_ok y" and t: "t \<in> set unit_transitions" and locked: "m_locked m"
    and state: "get_state (unit_env y client identity ops) m = tr_source t"
    and action: "dget (unit_actions ops) (tr_id t) = Some action"
    and fails: "action (m_world m) = (ActTransitionError, w)"
    and stop: "fst (ag_stop ops False w) = LReturned"
  shows "\<exists>m'. fire_transition (unit_env y client identity ops) 3 (tr_id t) v m = Some (Inr False, m')
    \<and> get_state (unit_env y client identity ops) m' = failure_state t
    \<and> get_inflight (unit_env y client identity ops) m' = None"
proof -
  let ?env = "unit_env y client identity ops"
  note unit = unit_machine [OF y, of client identity ops]
  have target: "error_target_ok t" using error_targets t by (simp only: list_all_iff)
  have err: "case error_transition t of
                None \<Rightarrow> failure_state t = tr_source t
              | Some e \<Rightarrow> \<exists>t' \<in> set unit_transitions. tr_id t' = e \<and> tr_source t' = tr_source t \<and>
                  failure_state t = Some (tr_destination t') \<and>
                  workflow_machine.settled unit_transitions (tr_destination t') \<and>
                  (\<exists>vs w'. run_action ?env e w = (ActReturned vs, w'))"
  proof (cases "error_transition t")
    case None
    then show ?thesis using target by (simp add: error_target_ok_def)
  next
    case (Some e)
    then obtain t' where t': "t' \<in> set unit_transitions" "tr_id t' = e" "tr_source t' = tr_source t"
        "failure_state t = Some (tr_destination t')" "tr_destination t' \<noteq> ''installed''" "e \<in> set error_ids"
      using target by (auto simp: error_target_ok_def list_ex_iff)
    show ?thesis
      unfolding Some option.case
      using t' unit_settled [OF y t'(5)] unit_error_action [OF t'(6) stop] by blast
  qed
  have run: "run_action ?env (tr_id t) (m_world m) = (ActTransitionError, w)"
    using action fails by (simp add: run_action_def unit_env_def)
  obtain m' where m': "fires ?env (tr_id t) v m (Inr False) m'" "get_state ?env m' = failure_state t"
      "get_inflight ?env m' = None"
    using workflow_machine.fires_failure [OF unit t locked state run err] by blast
  with workflow_machine.fires_computed [OF unit unit_ranked unit_rank_less m'(1)] show ?thesis by blast
qed

theorem unit_failures_witness:
  "\<exists>m'. fire_transition demo_env 3 ''upgrade_charm'' [] started_machine = Some (Inr False, m')
    \<and> get_state demo_env m' = Some ''charm_upgrade_error'' \<and> get_inflight demo_env m' = None"
proof -
  define t where "t = new_transition ''upgrade_charm'' ''Upgrade'' (Some ''started'') ''started''
                        (Some ''upgrade_charm_error'') False None"
  have t: "t \<in> set unit_transitions" "tr_id t = ''upgrade_charm''" "tr_source t = Some ''started''"
      "failure_state t = Some ''charm_upgrade_error''"
    by (simp_all add: t_def unit_transitions_def new_transition_def failure_state_def)
  have action: "dget (unit_actions idle_ops) ''upgrade_charm'' = Some (invoke_lifecycle (ag_upgrade_charm idle_ops True))"
    by (simp add: unit_actions_def)
  have fails: "invoke_lifecycle (ag_upgrade_charm idle_ops True) True = (ActTransitionError, True)"
    and stop: "fst (ag_stop idle_ops False True) = LReturned"
    by (simp_all add: invoke_lifecycle_def idle_ops_def)
  have "\<exists>m'. fire_transition (unit_env plain_yaml plain_zk (''/units/unit-0'', ''wordpress/0'') idle_ops)
      3 (tr_id t) [] started_machine = Some (Inr False, m')
    \<and> get_state (unit_env plain_yaml plain_zk (''/units/unit-0'', ''wordpress/0'') idle_ops) m' = failure_state t
    \<and> get_inflight (unit_env plain_yaml plain_zk (''/units/unit-0'', ''wordpress/0'') idle_ops) m' = None"
  proof (rule unit_failures [OF plain_yaml_ok t(1) started_machine_simps(2)])
    show "get_state (unit_env plain_yaml plain_zk (''/units/unit-0'', ''wordpress/0'') idle_ops) started_machine
        = tr_source t"
      using started_machine_simps(1) unfolding t(3) demo_env_def .
    show "dget (unit_actions idle_ops) (tr_id t) = Some (invoke_lifecycle (ag_upgrade_charm idle_ops True))"
      unfolding t(2) by (rule action)
    show "invoke_lifecycle (ag_upgrade_charm idle_ops True) (m_world started_machine) = (ActTransitionError, True)"
      using fails by simp
  qed (rule stop)
  then show ?thesis unfolding t(2,4) demo_env_def .
qed

definition ops_switch :: "'w agent_ops \<Rightarrow> bool" where
  "ops_switch ops \<longleftrightarrow> (\<forall>w.
     (\<exists>w'. ex_start ops w = (LReturned, w') \<and> ex_running ops w' \<and> ag_running ops w' = ag_running ops w) \<and>
     (\<exists>w'. ex_stop ops w = (LReturned, w') \<and> \<not> ex_running ops w' \<and> ag_running ops w' = ag_running ops w) \<and>
     (\<exists>w'. ag_start ops False False w = (LReturned, w') \<and> ag_running ops w' \<and> ex_running ops w' = ex_running ops w) \<and>
     (\<exists>w'. ag_stop ops False w = (LReturned, w') \<and> \<not> ag_running ops w' \<and> ex_running ops w' = ex_running ops w))"

lemma call_if_switch:
  assumes "call_if b f m = (r, m')" and "b \<Longrightarrow> \<exists>w'. f (m_world m) = (LReturned, w') \<and> P w'"
    and "\<not> b \<Longrightarrow> P (m_world m)"
  shows "r = None \<and> m' = m\<lparr>m_world := m_world m'\<rparr> \<and> P (m_world m')"
  using assms by (cases b) (auto simp: call_if_def call_world_def)

lemma executor_switch:
  assumes "ops_switch ops"
    and "(if b then call_if (\<not> ex_running ops (m_world m)) (ex_start ops) m
          else call_if (ex_running ops (m_world m)) (ex_stop ops) m) = (r, m')"
  shows "r = None \<and> m' = m\<lparr>m_world := m_world m'\<rparr> \<and> ex_running ops (m_world m') = b"
proof (cases b)
  case True
  have "\<exists>w'. ex_start ops (m_world m) = (LReturned, w') \<and> ex_running ops w'"
    using assms(1) unfolding ops_switch_def by meson
  with True show ?thesis
    using call_if_switch [of "\<not> ex_running ops (m_world m)" "ex_start ops" m r m' "ex_running ops"] assms(2)
    by simp
next
  case False
  have "\<exists>w'. ex_stop ops (m_world m) = (LReturned, w') \<and> \<not> ex_running ops w'"
    using assms(1) unfolding ops_switch_def by meson
  with False show ?thesis
    using call_if_switch [of "ex_running ops (m_world m)" "ex_stop ops" m r m' "\<lambda>w. \<not> ex_running ops w"] assms(2)
    by simp
qed

lemma lifecycle_switch:
  assumes "ops_switch ops"
    and "(if b then call_if (\<not> ag_running ops (m_world m)) (ag_start ops False False) m
          else call_if (ag_running ops (m_world m)) (ag_stop ops False) m) = (r, m')"
  shows "r = None \<and> m' = m\<lparr>m_world := m_world m'\<rparr> \<and> ag_running ops (m_world m') = b
    \<and> ex_running ops (m_world m') = ex_running ops (m_world m)"
proof (cases b)
  case True
  have "\<exists>w'. ag_start ops False False (m_world m) = (LReturned, w') \<and> ag_running ops w'
      \<and> ex_running ops w' = ex_running ops (m_world m)"
    using assms(1) unfolding ops_switch_def by meson
  with True show ?thesis
    using call_if_switch [of "\<not> ag_running ops (m_world m)" "ag_start ops False False" m r m'
        "\<lambda>w. ag_running ops w \<and> ex_running ops w = ex_running ops (m_world m)"] assms(2)
    by simp
next
  case False
  have "\<exists>w'. ag_stop ops False (m_world m) = (LReturned, w') \<and> \<not> ag_running ops w'
      \<and> ex_running ops w' = ex_running ops (m_world m)"
    using assms(1) unfolding ops_switch_def by meson
  with False show ?thesis
    using call_if_switch [of "ag_running ops (m_world m)" "ag_stop ops False" m r m'
        "\<lambda>w. \<not> ag_running ops w \<and> ex_running ops w = ex_running ops (m_world m)"] assms(2)
    by simp
qed

text \<open>
  \<open>synchronize\<close> of a unit first brings the executor and the lifecycle to the state the workflow
  asks for: hooks may run unless a charm upgrade is half done, and the lifecycle runs exactly for a
  started unit or one in an upgrade. The stored state is untouched until then.
\<close>

theorem unit_synchronize_preconditions:
  assumes "ops_switch ops" and "m_locked m"
  shows "\<exists>w. unit_synchronize env ops n m = synchronize env n (m\<lparr>m_world := w\<rparr>)
    \<and> (ex_running ops w, ag_running ops w) = get_preconditions env m"
proof -
  obtain b1 b2 where pre: "get_preconditions env m = (b1, b2)"
    by (cases "get_preconditions env m")
  obtain r1 m1 where first: "(if b1 then call_if (\<not> ex_running ops (m_world m)) (ex_start ops) m
            else call_if (ex_running ops (m_world m)) (ex_stop ops) m) = (r1, m1)"
    by (metis surj_pair)
  obtain r2 m2 where second: "(if b2 then call_if (\<not> ag_running ops (m_world m1)) (ag_start ops False False) m1
                 else call_if (ag_running ops (m_world m1)) (ag_stop ops False) m1) = (r2, m2)"
    by (metis surj_pair)
  note sw = executor_switch [OF assms(1) first] lifecycle_switch [OF assms(1) second]
  obtain w1 where m1: "m1 = m\<lparr>m_world := w1\<rparr>" using sw(1) by blast
  obtain w2 where "m2 = m1\<lparr>m_world := w2\<rparr>" using sw(2) by blast
  then have m2: "m2 = m\<lparr>m_world := w2\<rparr>" by (simp add: m1)
  have "unit_synchronize env ops n m = synchronize env n m2"
    using assms(2) first second sw by (simp add: unit_synchronize_def pre)
  moreover have "(ex_running ops w2, ag_running ops w2) = (b1, b2)"
    using sw m2 by simp
  ultimately show ?thesis unfolding pre m2 by blast
qed

text \<open>An agent whose world is the pair of the two switches.\<close>

definition switch_ops :: "(bool \<times> bool) agent_ops" where
  "switch_ops =
     \<lparr>ag_install = (\<lambda>_ w. (LReturned, w)), ag_start = (\<lambda>_ _ w. (LReturned, (fst w, True))),
      ag_stop = (\<lambda>_ w. (LReturned, (fst w, False))), ag_upgrade_charm = (\<lambda>_ w. (LReturned, w)),
      ag_configure = (\<lambda>_ w. (LReturned, w)), ag_running = snd, ex_running = fst,
      ex_start = (\<lambda>w. (LReturned, (True, snd w))), ex_stop = (\<lambda>w. (LReturned, (False, snd w)))\<rparr>"

definition switch_env :: "((plain_text, (string, plain_text) dict) disk, bool \<times> bool) wf_env" where
  "switch_env = unit_env plain_yaml plain_zk (''/units/unit-0'', ''wordpress/0'') switch_ops"

text \<open>A unit that died while it upgraded its charm: the executor is running, the upgrade in flight.\<close>

definition upgrading_machine where
  "upgrading_machine =
     set_inflight switch_env (Some ''upgrade_charm'')
       (set_state switch_env ''started'' [] (fresh_machine (True, False)))"

lemma upgrading_machine_simps:
  "m_locked upgrading_machine" "get_preconditions switch_env upgrading_machine = (False, True)"
  by (simp_all add: upgrading_machine_def switch_env_def get_preconditions_def fresh_machine_def)

theorem unit_synchronize_preconditions_witness:
  "\<exists>w. unit_synchronize switch_env switch_ops 3 upgrading_machine
        = synchronize switch_env 3 (upgrading_machine\<lparr>m_world := w\<rparr>)
    \<and> (fst w, snd w) = (False, True)"
proof -
  have "ops_switch switch_ops" by (simp add: ops_switch_def switch_ops_def)
  from unit_synchronize_preconditions [OF this upgrading_machine_simps(1), of switch_env 3]
  show ?thesis unfolding upgrading_machine_simps(2) by (simp add: switch_ops_def)
qed

end
