(* ===== verification/RelationWorkflowProps.thy ===== *)
theory RelationWorkflowProps
  imports WorkflowProps
begin

text \<open>
  Properties of retrying a failed unit, of the relation workflow, and of what a client outside the agent
  reads of both.
\<close>

section \<open>Retrying a failed unit\<close>

definition all_return :: "'w agent_ops \<Rightarrow> bool" where
  "all_return ops \<longleftrightarrow> (\<forall>b b' w. fst (ag_install ops b w) = LReturned \<and> fst (ag_start ops b b' w) = LReturned
     \<and> fst (ag_stop ops b w) = LReturned \<and> fst (ag_upgrade_charm ops b w) = LReturned
     \<and> fst (ag_configure ops b w) = LReturned)"

definition retry_of :: "string \<Rightarrow> string \<Rightarrow> transition option" where
  "retry_of alias st =
     (case filter (\<lambda>t. tr_alias t = Some alias) (filter (\<lambda>t. tr_source t = Some st) unit_transitions) of
        [t] \<Rightarrow> Some t | _ \<Rightarrow> None)"

definition error_states :: "string list" where
  "error_states = [''install_error'', ''start_error'', ''stop_error'', ''charm_upgrade_error'', ''configure_error'']"

definition retry_target :: "string \<Rightarrow> string" where
  "retry_target st = (if st = ''install_error'' then ''installed''
     else if st = ''stop_error'' then ''stopped'' else ''started'')"

text \<open>In each error state each alias names one transition, which has an action and this destination.\<close>

lemma retry_table:
  "list_all (\<lambda>st. list_all (\<lambda>alias. case retry_of alias st of
       None \<Rightarrow> False | Some t \<Rightarrow> tr_destination t = retry_target st) [''retry'', ''retry_hook'']) error_states"
  by code_simp

lemma invoke_returns: "fst (f w) = LReturned \<Longrightarrow> \<exists>w'. invoke_lifecycle f w = (ActReturned None, w')"
  by (cases "f w") (simp add: invoke_lifecycle_def)

lemma act_then_returns:
  assumes "\<And>w. \<exists>w'. f w = (ActReturned None, w')" and "\<And>w. \<exists>w'. g w = (ActReturned None, w')"
  shows "\<exists>w'. act_then f g w = (ActReturned None, w')"
proof -
  obtain w1 where "f w = (ActReturned None, w1)" using assms(1) by blast
  then show ?thesis using assms(2) by (simp add: act_then_def)
qed

lemma actions_return:
  assumes "all_return ops"
  shows "\<exists>w'. run_action (unit_env y client identity ops) tid w = (ActReturned None, w')"
proof -
  have each: "\<exists>w'. f w = (ActReturned None, w')" if "f \<in> snd ` set (unit_actions ops)" for f w
    using assms that unfolding unit_actions_def all_return_def
    by (auto intro!: act_then_returns invoke_returns)
  show ?thesis
  proof (cases "dget (unit_actions ops) tid")
    case None
    then show ?thesis by (simp add: run_action_def unit_env_def)
  next
    case (Some f)
    then have "f \<in> snd ` set (unit_actions ops)" by (force dest: map_of_SomeD)
    with Some each show ?thesis by (simp add: run_action_def unit_env_def)
  qed
qed

lemma retry_ofD:
  assumes "retry_of alias st = Some t"
  shows "t \<in> set unit_transitions" "tr_source t = Some st"
    "filter (\<lambda>t. tr_alias t = Some alias) (filter (\<lambda>t. tr_source t = Some st) unit_transitions) = [t]"
proof -
  show *: "filter (\<lambda>t. tr_alias t = Some alias) (filter (\<lambda>t. tr_source t = Some st) unit_transitions) = [t]"
    using assms by (auto simp: retry_of_def split: list.splits)
  then have "t \<in> set (filter (\<lambda>t. tr_alias t = Some alias) (filter (\<lambda>t. tr_source t = Some st) unit_transitions))"
    by simp
  then show "t \<in> set unit_transitions" "tr_source t = Some st" by simp_all
qed

text \<open>From \<open>installed\<close> the automatic \<open>start\<close> goes on to \<open>started\<close>.\<close>

lemma start_transition:
  "List.find tr_automatic (filter (\<lambda>t. tr_source t = Some ''installed'') unit_transitions)
     = Some (new_transition ''start'' ''Start'' (Some ''installed'') ''started'' (Some ''error_start'') True None)"
  by (simp add: unit_transitions_def new_transition_def)

lemma autos_installed:
  assumes y: "yaml_ok y" and ops: "all_return ops" and locked: "m_locked m"
    and st: "get_state (unit_env y client identity ops) m = Some ''installed''"
  shows "\<exists>m'. autos (unit_env y client identity ops) m (Inr True) m'
    \<and> get_state (unit_env y client identity ops) m' = Some ''started''
    \<and> get_inflight (unit_env y client identity ops) m' = None"
proof -
  let ?env = "unit_env y client identity ops"
  let ?t = "new_transition ''start'' ''Start'' (Some ''installed'') ''started'' (Some ''error_start'') True None"
  note unit = unit_machine [OF y, of client identity ops]
  have t: "?t \<in> set unit_transitions" "tr_source ?t = Some ''installed''" "tr_destination ?t = ''started''"
    by (simp_all add: unit_transitions_def new_transition_def)
  obtain w where run: "run_action ?env (tr_id ?t) (m_world m) = (ActReturned None, w)"
    using actions_return [OF ops] by blast
  let ?m' = "set_state ?env (tr_destination ?t) (dupdate [] (variables_of None))
               ((set_inflight ?env (Some (tr_id ?t)) m)\<lparr>m_world := w\<rparr>)"
  have "fires ?env (tr_id ?t) [] m (Inr True) ?m'"
    by (rule workflow_machine.fires_success_settled [OF unit t(1) locked _ run unit_settled [OF y]])
      (simp_all add: st t)
  then have "autos ?env m (Inr True) ?m'"
    using workflow_machine.available_of_source(1) [OF unit t(1), of m] st t(2) start_transition locked
    by (intro auto_fire [where t = ?t]) simp_all
  then show ?thesis
    using workflow_machine.state_set_state [OF unit] workflow_machine.inflight_set_state [OF unit] t(3) by metis
qed

text \<open>
  C29: \<open>resolved --retry\<close> works from every error state of a unit. In each of them the aliases
  \<open>retry\<close> and \<open>retry_hook\<close> name exactly one transition; when the lifecycle's operations return, it
  brings the unit to \<open>stopped\<close> from a stop error and to \<open>started\<close> from every other one (an install error
  through the automatic start).
\<close>

theorem unit_retry:
  assumes y: "yaml_ok y" and ops: "all_return ops" and locked: "m_locked m"
    and st: "get_state (unit_env y client identity ops) m = Some st" "st \<in> set error_states"
    and al: "alias \<in> {''retry'', ''retry_hook''}"
  shows "\<exists>m'. fire_transition_alias (unit_env y client identity ops) 3 alias m = Some (Inr True, m')
    \<and> get_state (unit_env y client identity ops) m' = Some (if st = ''stop_error'' then ''stopped'' else ''started'')
    \<and> get_inflight (unit_env y client identity ops) m' = None"
proof -
  let ?env = "unit_env y client identity ops"
  note unit = unit_machine [OF y, of client identity ops]
  obtain t where t: "retry_of alias st = Some t" "tr_destination t = retry_target st"
  proof -
    have "case retry_of alias st of None \<Rightarrow> False | Some t \<Rightarrow> tr_destination t = retry_target st"
      using retry_table st(2) al unfolding list_all_iff by simp blast
    then show thesis using that by (cases "retry_of alias st") simp_all
  qed
  note t' = retry_ofD [OF t(1)]
  obtain w where run: "run_action ?env (tr_id t) (m_world m) = (ActReturned None, w)"
    using actions_return [OF ops] by blast
  let ?m2 = "set_state ?env (tr_destination t) (dupdate [] (variables_of None))
               ((set_inflight ?env (Some (tr_id t)) m)\<lparr>m_world := w\<rparr>)"
  have m2: "get_state ?env ?m2 = Some (tr_destination t)" "get_inflight ?env ?m2 = None" "m_locked ?m2"
    using locked workflow_machine.locked_set_state [OF unit] workflow_machine.locked_set_inflight [OF unit]
    by (simp_all add: workflow_machine.state_set_state [OF unit] workflow_machine.inflight_set_state [OF unit])
  have src: "get_state ?env m = tr_source t" using st(1) t'(2) by simp
  have "\<exists>m'. fires ?env (tr_id t) [] m (Inr True) m' \<and> get_inflight ?env m' = None
    \<and> get_state ?env m' = Some (if st = ''stop_error'' then ''stopped'' else ''started'')"
  proof (cases "st = ''install_error''")
    case True
    then obtain m' where a: "autos ?env ?m2 (Inr True) m'" "get_state ?env m' = Some ''started''"
        "get_inflight ?env m' = None"
      using autos_installed [OF y ops m2(3), of client identity] m2(1) t(2) by (auto simp: retry_target_def)
    with workflow_machine.fires_success [OF unit t'(1) locked src run refl a(1)] True
    show ?thesis by auto
  next
    case False
    then have "tr_destination t = (if st = ''stop_error'' then ''stopped'' else ''started'')"
      using t(2) by (simp add: retry_target_def)
    with workflow_machine.fires_success_settled [OF unit t'(1) locked src run unit_settled [OF y]] m2
    show ?thesis by (auto split: if_splits)
  qed
  then obtain m' where m': "fires ?env (tr_id t) [] m (Inr True) m'" "get_inflight ?env m' = None"
      "get_state ?env m' = Some (if st = ''stop_error'' then ''stopped'' else ''started'')" by blast
  have "fire_transition_alias ?env 3 alias m = fire_transition ?env 3 (tr_id t) [] m"
    using locked workflow_machine.available_of_source(1) [OF unit t'(1) src] t'(2,3)
    by (simp add: fire_transition_alias_def)
  also have "\<dots> = Some (Inr True, m')"
    by (rule workflow_machine.fires_computed [OF unit unit_ranked unit_rank_less m'(1)])
  finally show ?thesis using m' by blast
qed

theorem unit_retry_witness:
  "\<exists>m'. fire_transition_alias switch_env 3 ''retry''
      (set_state switch_env ''install_error'' [] (fresh_machine (True, False))) = Some (Inr True, m')
    \<and> get_state switch_env m' = Some ''started'' \<and> get_inflight switch_env m' = None"
proof -
  have "all_return switch_ops" by (simp add: all_return_def switch_ops_def)
  moreover have "m_locked (set_state switch_env ''install_error'' [] (fresh_machine (True, False)))"
    by (simp add: switch_env_def fresh_machine_def)
  moreover have "get_state switch_env (set_state switch_env ''install_error'' [] (fresh_machine (True, False)))
      = Some ''install_error''" by (simp add: switch_env_def)
  ultimately show ?thesis
    using unit_retry [OF plain_yaml_ok, of switch_ops "set_state switch_env ''install_error'' [] (fresh_machine (True, False))"
        plain_zk "(''/units/unit-0'', ''wordpress/0'')" "''install_error''" "''retry''"]
    unfolding switch_env_def [symmetric] by (simp add: error_states_def)
qed

section \<open>Relations\<close>

lemma relation_settled:
  assumes "yaml_ok y"
  shows "workflow_machine.settled relation_transitions s"
proof -
  have "list_all (\<lambda>t. tr_automatic t \<longrightarrow> tr_source t = None) relation_transitions"
    by (simp add: relation_transitions_def new_transition_def)
  then show ?thesis
    unfolding workflow_machine.settled_def [OF relation_machine [OF assms]] by (auto simp: list_all_iff)
qed

lemma relation_success:
  assumes y: "yaml_ok y" and t: "t \<in> set relation_transitions" and "m_locked m"
    and "get_state (relation_env y client identity ops) m = tr_source t"
    and "run_action (relation_env y client identity ops) (tr_id t) (m_world m) = (ActReturned vs, w)"
  shows "fire_transition (relation_env y client identity ops) 1 (tr_id t) v m
     = Some (Inr True, set_state (relation_env y client identity ops) (tr_destination t) (dupdate v (variables_of vs))
             ((set_inflight (relation_env y client identity ops) (Some (tr_id t)) m)\<lparr>m_world := w\<rparr>))"
  by (rule workflow_machine.fires_computed [OF relation_machine [OF y] relation_ranked _
        workflow_machine.fires_success_settled [OF relation_machine [OF y] t assms(3-5) relation_settled [OF y]]])
    simp

text \<open>No action of a relation raises \<open>TransitionError\<close>.\<close>

lemma relation_call_cases: "fst (relation_call f w) \<noteq> ActTransitionError"
  by (simp add: relation_call_def split: prod.split lifecycle_result.split)

lemma do_depart_cases: "fst (do_depart ops w) \<noteq> ActTransitionError"
  unfolding do_depart_def act_then_def using relation_call_cases [of "rl_stop ops True" w]
  by (auto split: prod.splits act_outcome.splits lifecycle_result.splits)

lemma relation_action_cases: "run_action (relation_env y client identity ops) tid w \<noteq> (ActTransitionError, w')"
proof -
  have each: "fst (f w) \<noteq> ActTransitionError" if "f \<in> snd ` set (relation_actions ops)" for f
    using that unfolding relation_actions_def
    by (auto simp: relation_call_cases do_depart_cases)
  show ?thesis
  proof (cases "dget (relation_actions ops) tid")
    case (Some f)
    then have "f \<in> snd ` set (relation_actions ops)" by (force dest: map_of_SomeD)
    from each [OF this] Some show ?thesis by (auto simp: run_action_def relation_env_def)
  qed (simp add: run_action_def relation_env_def)
qed

text \<open>So a transition that returns ran the action of a transition from the state it was in.\<close>

lemma relation_success_inv:
  assumes y: "yaml_ok y" and fire: "fire_transition (relation_env y client identity ops) 1 tid v m = Some (Inr b, m')"
  obtains t vs w where "t \<in> set relation_transitions" and "tr_id t = tid"
    and "get_state (relation_env y client identity ops) m = tr_source t"
    and "run_action (relation_env y client identity ops) tid (m_world m) = (ActReturned vs, w)"
    and "get_state (relation_env y client identity ops) m' = Some (tr_destination t)" and "m_world m' = w"
proof -
  let ?env = "relation_env y client identity ops"
  note rel = relation_machine [OF y, of client identity ops]
  have "fires ?env tid v m (Inr b) m'" using fire_sound fire by blast
  then obtain available t vs w where *: "m_locked m" "get_available_transitions ?env m = Inr available"
      "tid \<in> set (map tr_id available)" "get_transition (env_workflow ?env) tid = Inr t"
      "run_action ?env tid (m_world (set_inflight ?env (Some tid) m)) = (ActReturned vs, w)"
    by cases (simp_all add: relation_action_cases)
  note t = workflow_machine.availableD [OF rel *(2-4)]
  have run: "run_action ?env (tr_id t) (m_world m) = (ActReturned vs, w)"
    using *(5) t(2) workflow_machine.set_inflight_world [OF rel] by simp
  from relation_success [OF y t(1) *(1) t(3) [symmetric] run] fire t(2)
  have m': "m' = set_state ?env (tr_destination t) (dupdate v (variables_of vs))
      ((set_inflight ?env (Some (tr_id t)) m)\<lparr>m_world := w\<rparr>)" by simp
  show thesis
  proof (rule that [OF t(1,2) t(3) [symmetric]])
    show "run_action ?env tid (m_world m) = (ActReturned vs, w)" using run t(2) by simp
    show "get_state ?env m' = Some (tr_destination t)"
      unfolding m' by (rule workflow_machine.state_set_state [OF rel])
    show "m_world m' = w"
      unfolding m' using workflow_machine.set_state_world [OF rel] by simp
  qed
qed

definition depart_transition :: "string \<Rightarrow> transition" where
  "depart_transition src =
     (if src = ''up'' then new_transition ''depart'' ''Relation broken'' (Some ''up'') ''departed'' None False None
      else if src = ''down'' then new_transition ''down_depart'' ''Relation broken'' (Some ''down'') ''departed'' None False None
      else new_transition ''error_depart'' ''Relation broken'' (Some ''error'') ''departed'' None False None)"

lemma depart_transition:
  assumes "src \<in> {''up'', ''down'', ''error''}"
  shows "depart_transition src \<in> set relation_transitions"
    and "tr_source (depart_transition src) = Some src"
    and "tr_destination (depart_transition src) = ''departed''"
    and "dget (relation_actions ops) (tr_id (depart_transition src)) = Some (do_depart ops)"
  using assms
  by (auto simp: depart_transition_def relation_transitions_def new_transition_def relation_actions_def)

lemma departed_is_final:
  assumes "yaml_ok y" and "m_locked m" and "get_state (relation_env y client identity ops) m = Some ''departed''"
  shows "fire_transition (relation_env y client identity ops) 1 tid v m =
     Some (Inl (InvalidTransitionError tid (Some ''departed'')), m)"
proof -
  have "Some ''departed'' \<in> states_of relation_transitions"
    and none: "filter (\<lambda>t. tr_source t = Some ''departed'') relation_transitions = []"
    by (simp_all add: states_of_def relation_transitions_def new_transition_def)
  then have "get_available_transitions (relation_env y client identity ops) m = Inr []"
    using workflow_machine.available_iff [OF relation_machine [OF assms(1)], of client identity ops m] assms(3) by simp
  then show ?thesis
    using assms(2,3) fire_transition_Suc [of "relation_env y client identity ops" 0 tid v m] by simp
qed

text \<open>
  C25: a relation always departs. Whatever the depart hook does, the relation ends in \<open>departed\<close> with
  nothing in flight; a failing hook is only recorded in the state's variables. No transition leaves
  \<open>departed\<close>.
\<close>

theorem relation_departs:
  assumes y: "yaml_ok y" and locked: "m_locked m" and src: "src \<in> {''up'', ''down'', ''error''}"
    and st: "get_state (relation_env y client identity ops) m = Some src"
    and stop: "rl_stop ops True (m_world m) = (LReturned, w1)"
    and depart: "rl_depart ops (rl_set_hook_error_handler ops False w1) = (res, w2)"
  shows "\<exists>m'. fire_transition (relation_env y client identity ops) 1 (tr_id (depart_transition src)) [] m = Some (Inr True, m')
    \<and> get_state (relation_env y client identity ops) m' = Some ''departed''
    \<and> get_inflight (relation_env y client identity ops) m' = None
    \<and> get_state_variables (relation_env y client identity ops) m' =
        Inr (if res = LReturned then []
             else [(''change_type'', ''depart''), (''error_message'', exception_text res)])
    \<and> (\<forall>tid v. fire_transition (relation_env y client identity ops) 1 tid v m' =
         Some (Inl (InvalidTransitionError tid (Some ''departed'')), m'))"
proof -
  let ?env = "relation_env y client identity ops"
  let ?t = "depart_transition src"
  let ?vs = "if res = LReturned then None
             else Some [(''change_type'', ''depart''), (''error_message'', exception_text res)]"
  note rel = relation_machine [OF y, of client identity ops]
  note t = depart_transition [OF src]
  have "do_depart ops (m_world m) = (ActReturned ?vs, w2)"
    using stop depart by (cases res) (simp_all add: do_depart_def act_then_def relation_call_def)
  then have run: "run_action ?env (tr_id ?t) (m_world m) = (ActReturned ?vs, w2)"
    using t(4) [of ops] by (simp add: run_action_def relation_env_def)
  let ?m' = "set_state ?env (tr_destination ?t) (dupdate [] (variables_of ?vs))
               ((set_inflight ?env (Some (tr_id ?t)) m)\<lparr>m_world := w2\<rparr>)"
  have fire: "fire_transition ?env 1 (tr_id ?t) [] m = Some (Inr True, ?m')"
    by (rule relation_success [OF y t(1) locked _ run]) (simp add: st t(2))
  have state: "get_state ?env ?m' = Some ''departed''" and "m_locked ?m'"
    using locked t(3) workflow_machine.state_set_state [OF rel] workflow_machine.locked_set_state [OF rel]
      workflow_machine.locked_set_inflight [OF rel] by simp_all
  then have final: "\<forall>tid v. fire_transition ?env 1 tid v ?m' =
      Some (Inl (InvalidTransitionError tid (Some ''departed'')), ?m')"
    using departed_is_final [OF y] by blast
  have vars: "get_state_variables ?env ?m' =
        Inr (if res = LReturned then [] else [(''change_type'', ''depart''), (''error_message'', exception_text res)])"
    unfolding workflow_machine.variables_set_state [OF rel]
    by (simp add: variables_of_def dupdate_def)
  show ?thesis
    using fire state workflow_machine.inflight_set_state [OF rel] vars final by blast
qed

definition up_machine :: "((plain_text, (string, plain_text) dict) disk, bool) machine" where
  "up_machine = set_state demo_relation_env ''up'' [] (fresh_machine True)"

lemma up_machine_simps [simp]:
  "m_locked up_machine" "m_world up_machine = True" "get_state demo_relation_env up_machine = Some ''up''"
  by (simp_all add: up_machine_def demo_relation_env_def fresh_machine_def)

theorem relation_departs_witness:
  "\<exists>m'. fire_transition demo_relation_env 1 (tr_id (depart_transition ''up'')) [] up_machine = Some (Inr True, m')
    \<and> get_state demo_relation_env m' = Some ''departed''
    \<and> get_state_variables demo_relation_env m' =
        Inr [(''change_type'', ''depart''), (''error_message'', ''hook failed'')]"
proof -
  have "rl_stop idle_relation_ops True (m_world up_machine) = (LReturned, True)"
    "rl_depart idle_relation_ops (rl_set_hook_error_handler idle_relation_ops False True) = (LRaised ''hook failed'', True)"
    by (simp_all add: idle_relation_ops_def)
  from relation_departs [OF plain_yaml_ok up_machine_simps(1) _ up_machine_simps(3) [unfolded demo_relation_env_def] this]
  show ?thesis unfolding demo_relation_env_def [symmetric] by simp blast
qed

text \<open>
  A hook error of a relation. In state \<open>up\<close> it stops the hook execution but keeps the watches,
  moves the relation to \<open>error\<close> and stores the change type and the message; in any other state of the
  workflow the handler raises \<open>InvalidTransitionError\<close> and stores nothing. The lock is released either way.
\<close>

theorem hook_errors:
  assumes y: "yaml_ok y" and st: "get_state (relation_env y client identity ops) m = Some st"
    and known: "Some st \<in> states_of relation_transitions"
    and stop: "rl_stop ops False (m_world m) = (LReturned, w)"
  shows "\<exists>r m'. on_hook_error (relation_env y client identity ops) 1 change_type err m = Some (r, m')
    \<and> \<not> m_locked m'
    \<and> (if st = ''up'' then r = Inr True \<and> m_world m' = w
          \<and> get_state (relation_env y client identity ops) m' = Some ''error''
          \<and> get_state_variables (relation_env y client identity ops) m' =
              Inr [(''change_type'', change_type), (''error_message'', err)]
        else r = Inl (InvalidTransitionError ''error'' (Some st)) \<and> m_store m' = m_store m \<and> m_world m' = m_world m)"
proof -
  let ?env = "relation_env y client identity ops"
  note rel = relation_machine [OF y, of client identity ops]
  let ?t = "new_transition ''error'' ''Relation hook error'' (Some ''up'') ''error'' None False None"
  have lock: "m_locked (lock m)" "get_state ?env (lock m) = Some st" "m_world (lock m) = m_world m"
      "m_store (lock m) = m_store m"
    using st by (simp_all add: lock_def get_state_def load_def)
  show ?thesis
  proof (cases "st = ''up''")
    case True
    have t: "?t \<in> set relation_transitions" "tr_id ?t = ''error''" "tr_source ?t = Some ''up''" "tr_destination ?t = ''error''"
      by (simp_all add: relation_transitions_def new_transition_def)
    have run: "run_action ?env (tr_id ?t) (m_world (lock m)) = (ActReturned None, w)"
      using stop lock(3) t(2) by (simp add: run_action_def relation_env_def relation_actions_def relation_call_def)
    let ?m' = "set_state ?env (tr_destination ?t) (dupdate [(''change_type'', change_type), (''error_message'', err)] (variables_of None))
               ((set_inflight ?env (Some (tr_id ?t)) (lock m))\<lparr>m_world := w\<rparr>)"
    have "fire_transition ?env 1 (tr_id ?t) [(''change_type'', change_type), (''error_message'', err)] (lock m)
        = Some (Inr True, ?m')"
      by (rule relation_success [OF y t(1) lock(1) _ run]) (simp add: lock(2) t(3) True)
    then have "on_hook_error ?env 1 change_type err m = Some (Inr True, release ?m')"
      unfolding t(2) by (simp add: on_hook_error_def)
    moreover have "get_state ?env (release ?m') = Some ''error''"
        "get_state_variables ?env (release ?m') = Inr [(''change_type'', change_type), (''error_message'', err)]"
      using workflow_machine.state_set_state [OF rel] workflow_machine.variables_set_state [OF rel]
      by (simp_all add: release_def get_state_def get_state_variables_def load_def t(4) variables_of_def)
    moreover have "m_world (release ?m') = w" "\<not> m_locked (release ?m')"
      using workflow_machine.set_state_world [OF rel] by (simp_all add: release_def)
    ultimately show ?thesis using True by auto
  next
    case False
    have "''error'' \<notin> tr_id ` set (filter (\<lambda>t. tr_source t = Some st) relation_transitions)"
      using False by (auto simp: relation_transitions_def new_transition_def)
    then have "fire_transition ?env 1 ''error'' v (lock m) = Some (Inl (InvalidTransitionError ''error'' (Some st)), lock m)" for v
      using workflow_machine.available_iff [OF rel, of "lock m"] lock known fire_transition_Suc [of ?env 0 "''error''" v "lock m"]
      by simp
    then have "on_hook_error ?env 1 change_type err m =
        Some (Inl (InvalidTransitionError ''error'' (Some st)), release (lock m))"
      by (simp add: on_hook_error_def)
    then show ?thesis using False by (simp add: release_def lock_def)
  qed
qed

theorem hook_errors_witness:
  "\<exists>r m'. on_hook_error demo_relation_env 1 ''joined'' ''oops'' up_machine = Some (r, m')
    \<and> \<not> m_locked m' \<and> r = Inr True \<and> get_state demo_relation_env m' = Some ''error''"
proof -
  have "Some ''up'' \<in> states_of relation_transitions"
    by (simp add: states_of_code relation_transitions_def new_transition_def)
  moreover have "rl_stop idle_relation_ops False (m_world up_machine) = (LReturned, True)"
    by (simp add: idle_relation_ops_def)
  ultimately show ?thesis
    using hook_errors [OF plain_yaml_ok up_machine_simps(3) [unfolded demo_relation_env_def], of True "''joined''" "''oops''"]
    unfolding demo_relation_env_def [symmetric] by simp blast
qed

section \<open>What a client outside the agent reads\<close>

lemma zk_store_load:
  assumes y: "yaml_ok y" and zk: "zk_ok client" and node: "zk_get client z (fst identity) = Some c"
    and load: "y_load_node y c = Some nd"
  shows "zk_load y client identity' (zk_store y client identity d z) =
     (if identity' = identity then Inr (Some d) else zk_load y client identity' z)"
proof -
  have look: "zk_get client (zk_store y client identity d z) q =
      (if q = fst identity then Some (update_state y (snd identity) (y_dump_state y d) c) else zk_get client z q)" for q
    using zk node unfolding zk_ok_def zk_store_def by blast
  show ?thesis
    using y node load
    by (cases "fst identity' = fst identity")
      (auto simp: zk_load_def look update_state_def Let_def yaml_ok_def dget_dset prod_eq_iff split: option.splits)
qed

text \<open>
  Other processes see what the agent stores. Once the unit's ZooKeeper node exists, after every
  change of state a \<open>WorkflowStateClient\<close> reads exactly the new state (\<open>is_unit_running\<close> answers for it),
  and reads the states of every other unit and relation as before.
\<close>

theorem client_reads_agent_state:
  assumes "yaml_ok y" and "zk_ok client"
    and "zk_workflow_identity d = Inr identity"
    and "zk_get client (dk_zk (m_store m)) (fst identity) = Some c" and "y_load_node y c = Some nd"
    and "m' = set_state (unit_env y client identity ops) s v m" and "s \<noteq> []"
  shows "client_get_state y client d (dk_zk (m_store m')) = Inr (Some s)
    \<and> is_unit_running y client d (dk_zk (m_store m')) = Inr (s = ''started'', Some s)
    \<and> (zk_workflow_identity d' \<noteq> Inr identity \<longrightarrow>
      client_get_state y client d' (dk_zk (m_store m')) = client_get_state y client d' (dk_zk (m_store m)))"
proof -
  have zk: "dk_zk (m_store m') = zk_store y client identity
      \<lparr>sd_state = Some s, sd_vars = Some v, sd_transition = None\<rparr> (dk_zk (m_store m))"
    by (simp add: assms(6) set_state_def Let_def store_def unit_env_def disk_backend_def disk_store_def)
  note load = zk_store_load [OF assms(1,2,4,5)]
  have mine: "client_get_state y client d (dk_zk (m_store m')) = Inr (Some s)"
    by (simp add: client_get_state_def assms(3) zk load)
  have "is_unit_running y client d (dk_zk (m_store m')) = Inr (s = ''started'', Some s)"
    by (simp add: is_unit_running_def mine assms(7))
  moreover have "client_get_state y client d' (dk_zk (m_store m')) = client_get_state y client d' (dk_zk (m_store m))"
    if "zk_workflow_identity d' \<noteq> Inr identity"
    using that by (cases "zk_workflow_identity d'") (simp_all add: client_get_state_def zk load)
  ultimately show ?thesis using mine by blast
qed

theorem client_reads_agent_state_witness:
  "client_get_state plain_yaml plain_zk (ServiceUnitState ''unit-0'' ''wordpress/0'')
     (dk_zk (m_store (set_state demo_env ''started'' [] (fresh_machine True)))) = Inr (Some ''started'')"
proof -
  have "zk_workflow_identity (ServiceUnitState ''unit-0'' ''wordpress/0'') = Inr (''/units/unit-0'', ''wordpress/0'')"
    by (simp add: zk_workflow_identity_def)
  moreover have "zk_get plain_zk (dk_zk (m_store (fresh_machine True))) (fst (''/units/unit-0'', ''wordpress/0''))
      = Some (PlainNode None [])"
    by (simp add: plain_zk_def fresh_machine_def)
  moreover have "y_load_node plain_yaml (PlainNode None []) = Some \<lparr>un_workflow_state = None, un_rest = []\<rparr>"
    by (simp add: plain_yaml_def)
  ultimately show ?thesis
    unfolding demo_env_def
    by (intro client_reads_agent_state [OF plain_yaml_ok plain_zk_ok _ _ _ refl, THEN conjunct1]) simp_all
qed

text \<open>
  The disk state of an agent that has stored nothing has no \<open>state_variables\<close>: asking for them raises,
  where the base class answers with the empty dict.
\<close>

lemma fresh_disk_variables:
  "get_state_variables (unit_env y client identity ops) \<lparr>m_store = \<lparr>dk_state_file = None, dk_history = [], dk_zk = z\<rparr>,
      m_locked = b, m_has_observer = b', m_observed = [], m_world = w\<rparr> = Inl MissingVariables"
  by (simp add: get_state_variables_def load_def unit_env_def disk_backend_def disk_load_def)

end
