(* ===== verification/Scheduler.thy ===== *)
theory Scheduler
  imports Prelude "HOL-Library.Char_ord" "HOL-Library.List_Lexorder"
begin

text \<open>
  \<open>juju/hooks/scheduler.py\<close>: \<open>HookQueue\<close> and \<open>HookScheduler\<close>.

  The scheduler is a record: its flags and dicts, the queue's \<open>pending\<close> list, how many run loops wait
  on the queue, which changes run loops are executing (each entry is one suspended \<open>run\<close>), the calls
  made to the executor, and the state file. What Twisted interleaves are the events: the two watch
  callbacks, \<open>run\<close>, \<open>stop\<close>, \<open>pop\<close> and the end of a hook. A hook ends in an event of its own, after the
  callback that started it.

  An exception does not undo what was done before it, so every operation returns the state next to the
  optional exception. Members are kept as a set; \<open>sorted\<close> lists it.
\<close>

datatype change_type = ADDED | REMOVED | MODIFIED

record change =
  ch_unit_name :: string
  ch_change_type :: change_type
  ch_members :: "string list"

text \<open>What \<open>_save_state\<close> writes; the file may also be missing, or empty after \<open>check_writeable\<close>.\<close>

record saved_state =
  sv_context_members :: "string list"
  sv_member_versions :: "(string, int) dict"
  sv_change_queue :: "change list"

datatype state_file = Missing | EmptyFile | Saved saved_state

record scheduler =
  sc_running :: bool
  sc_context_members :: "string set option"
  sc_member_versions :: "(string, int) dict"
  sc_pending :: "change list"
  sc_waiting :: nat
  sc_executing :: "change list"
  sc_calls :: "change list"
  sc_file :: state_file

datatype sched_error =
    AlreadyRunning
  | MustBeStopped
  | NotWriteable
  | QueueUnderflow
  | MembersUnknown  \<comment> \<open>\<open>sorted(None)\<close>\<close>
  | Unreducible change_type change_type  \<comment> \<open>\<open>_reduce\<close> returned nothing to unpack\<close>
  | NotRemoved
  | MemberMissing string  \<comment> \<open>\<open>set.remove\<close>\<close>

type_synonym sched_result = "scheduler \<times> sched_error option"

text \<open>Sequencing: an exception ends the operation, the state stays as it is then.\<close>

definition sthen :: "sched_result \<Rightarrow> (scheduler \<Rightarrow> sched_result) \<Rightarrow> sched_result" where
  "sthen r f = (case r of (s, None) \<Rightarrow> f s | (s, Some e) \<Rightarrow> (s, Some e))"

fun sfold :: "('a \<Rightarrow> scheduler \<Rightarrow> sched_result) \<Rightarrow> 'a list \<Rightarrow> scheduler \<Rightarrow> sched_result" where
  "sfold f [] s = (s, None)"
| "sfold f (x # xs) s = sthen (f x s) (sfold f xs)"

section \<open>The queue\<close>

definition reduce :: "int option \<times> change_type \<Rightarrow> int option \<times> change_type
    \<Rightarrow> (int option \<times> change_type option) option" where
  "reduce previous new =
     (case (snd previous, snd new) of
        (REMOVED, ADDED) \<Rightarrow> Some (fst new, Some MODIFIED)
      | (ADDED, MODIFIED) \<Rightarrow> Some (fst previous, Some ADDED)
      | (ADDED, REMOVED) \<Rightarrow> Some (None, None)
      | (MODIFIED, REMOVED) \<Rightarrow> Some (fst new, Some REMOVED)
      | (MODIFIED, MODIFIED) \<Rightarrow> Some (fst previous, Some MODIFIED)
      | (REMOVED, MODIFIED) \<Rightarrow> Some (fst previous, Some REMOVED)
      | _ \<Rightarrow> None)"

text \<open>\<open>pending.index(p)\<close>: the first entry equal to \<open>p\<close>.\<close>

fun list_index :: "'a list \<Rightarrow> 'a \<Rightarrow> nat" where
  "list_index [] y = 0"
| "list_index (x # xs) y = (if x = y then 0 else Suc (list_index xs y))"

definition previous :: "string \<Rightarrow> change list \<Rightarrow> (nat \<times> change) option" where
  "previous unit_name pending =
     (case List.find (\<lambda>p. ch_unit_name p = unit_name) (rev pending) of
        None \<Rightarrow> None
      | Some p \<Rightarrow> Some (list_index pending p, p))"

definition wipe_member :: "string \<Rightarrow> change \<Rightarrow> change" where
  "wipe_member unit_name p = p\<lparr>ch_members := remove1 unit_name (ch_members p)\<rparr>"

definition list_pop :: "nat \<Rightarrow> 'a list \<Rightarrow> 'a list" where
  "list_pop i xs = take i xs @ drop (Suc i) xs"

section \<open>The state file\<close>

definition create_state :: "scheduler \<Rightarrow> scheduler" where
  "create_state s = s\<lparr>sc_context_members := None, sc_member_versions := [], sc_pending := [],
                     sc_waiting := 0\<rparr>"

definition load_state :: "scheduler \<Rightarrow> scheduler" where
  "load_state s =
     (case sc_file s of
        Saved state \<Rightarrow> s\<lparr>sc_context_members := Some (set (sv_context_members state)),
                        sc_member_versions := sv_member_versions state,
                        sc_pending := sv_change_queue state, sc_waiting := 0\<rparr>
      | _ \<Rightarrow> create_state s)"

definition new_scheduler :: "state_file \<Rightarrow> scheduler" where
  "new_scheduler file =
     (let s = \<lparr>sc_running = False, sc_context_members = None, sc_member_versions = [], sc_pending = [],
               sc_waiting = 0, sc_executing = [], sc_calls = [], sc_file = file\<rparr>
      in if file = Missing then create_state s else load_state s)"

definition save_state :: "scheduler \<Rightarrow> sched_result" where
  "save_state s =
     (case sc_context_members s of
        None \<Rightarrow> (s, Some MembersUnknown)
      | Some members \<Rightarrow>
          (s\<lparr>sc_file := Saved \<lparr>sv_context_members = sorted_list_of_set members,
                               sv_member_versions = sc_member_versions s,
                               sv_change_queue = sc_pending s\<rparr>\<rparr>, None))"

section \<open>Queueing a change\<close>

text \<open>
  The index \<open>previous\<close> finds counts from the start of the slice \<open>pending[offset:]\<close>, but \<open>pop\<close> applies it
  to \<open>pending\<close> itself.
\<close>

definition queue_change :: "change \<Rightarrow> nat \<Rightarrow> scheduler \<Rightarrow> sched_result" where
  "queue_change change offset s =
     (case previous (ch_unit_name change) (drop offset (sc_pending s)) of
        None \<Rightarrow> save_state (s\<lparr>sc_pending := sc_pending s @ [change]\<rparr>)
      | Some (previous_idx, prev) \<Rightarrow>
          (case reduce (Some (int previous_idx), ch_change_type prev) (Some (- 1), ch_change_type change) of
             None \<Rightarrow> (s, Some (Unreducible (ch_change_type prev) (ch_change_type change)))
           | Some (change_idx, reduced) \<Rightarrow>
               if change_idx = Some (int previous_idx) then (s, None)
               else
                 (case reduced of
                    Some t \<Rightarrow>
                      save_state (s\<lparr>sc_pending :=
                        list_pop previous_idx (sc_pending s) @ [change\<lparr>ch_change_type := t\<rparr>]\<rparr>)
                  | None \<Rightarrow>
                      if ch_change_type change \<noteq> REMOVED then (s, Some NotRemoved)
                      else save_state (s\<lparr>sc_pending :=
                        list_pop previous_idx
                          (take offset (sc_pending s) @
                           map (wipe_member (ch_unit_name change)) (drop offset (sc_pending s)))\<rparr>))))"

section \<open>The run loop\<close>

text \<open>\<open>_execute\<close>: the loop is suspended until the executor is done with the change.\<close>

definition execute :: "change \<Rightarrow> scheduler \<Rightarrow> scheduler" where
  "execute change s = s\<lparr>sc_executing := sc_executing s @ [change], sc_calls := sc_calls s @ [change]\<rparr>"

text \<open>From the head of \<open>while self._running\<close> to the next suspension, with \<open>next_change\<close>.\<close>

definition loop_turn :: "scheduler \<Rightarrow> sched_result" where
  "loop_turn s =
     (if \<not> sc_running s then (s, None)
      else case sc_pending s of
        change # _ \<Rightarrow> (execute change s, None)
      | [] \<Rightarrow> if sc_waiting s < 1 then (s\<lparr>sc_waiting := sc_waiting s + 1\<rparr>, None)
              else (s, Some QueueUnderflow))"

text \<open>\<open>put(None)\<close>: wakes a waiting loop, which ends if the scheduler stopped.\<close>

definition put_stop :: "scheduler \<Rightarrow> sched_result" where
  "put_stop s =
     (if sc_waiting s > 0 then
        (let s1 = s\<lparr>sc_waiting := sc_waiting s - 1\<rparr>
         in if \<not> sc_running s1 then (s1, None) else loop_turn s1)
      else (s, None))"

definition put :: "change \<Rightarrow> nat \<Rightarrow> scheduler \<Rightarrow> sched_result" where
  "put change offset s =
     (if sc_waiting s > 0 then
        sthen (queue_change change 0 s) (\<lambda>s1.
          case sc_pending s1 of
            [] \<Rightarrow> (s1, None)
          | head # _ \<Rightarrow> (execute head (s1\<lparr>sc_waiting := sc_waiting s1 - 1\<rparr>), None))
      else queue_change change offset s)"

definition finished_change :: "scheduler \<Rightarrow> sched_result" where
  "finished_change s =
     (case sc_pending s of [] \<Rightarrow> (s, None) | _ # rest \<Rightarrow> save_state (s\<lparr>sc_pending := rest\<rparr>))"

definition get_change :: "string \<Rightarrow> change_type \<Rightarrow> scheduler \<Rightarrow> sched_error + change" where
  "get_change unit_name t s =
     (case sc_context_members s of
        None \<Rightarrow> Inl MembersUnknown
      | Some members \<Rightarrow>
          Inr \<lparr>ch_unit_name = unit_name, ch_change_type = t, ch_members = sorted_list_of_set members\<rparr>)"

definition put_change :: "string \<Rightarrow> change_type \<Rightarrow> nat \<Rightarrow> scheduler \<Rightarrow> sched_result" where
  "put_change unit_name t offset s =
     (case get_change unit_name t s of Inl e \<Rightarrow> (s, Some e) | Inr c \<Rightarrow> put c offset s)"

section \<open>Events\<close>

text \<open>\<open>check_writeable\<close> opens the file for appending, which creates a missing one.\<close>

definition run :: "bool \<Rightarrow> scheduler \<Rightarrow> sched_result" where
  "run writeable s =
     (if sc_running s then (s, Some AlreadyRunning)
      else if \<not> writeable then (s, Some NotWriteable)
      else loop_turn (s\<lparr>sc_file := (if sc_file s = Missing then EmptyFile else sc_file s),
                       sc_running := True\<rparr>))"

text \<open>The executor is done with the \<open>i\<close>-th suspended change.\<close>

definition hook_done :: "nat \<Rightarrow> bool \<Rightarrow> scheduler \<Rightarrow> sched_result" where
  "hook_done i success s =
     (let change = sc_executing s ! i;
          s1 = s\<lparr>sc_executing := list_pop i (sc_executing s)\<rparr>
      in sthen (if ch_change_type change = ADDED
                then put_change (ch_unit_name change) MODIFIED 1 s1 else (s1, None)) (\<lambda>s2.
           if success then sthen (finished_change s2) loop_turn
           else (s2\<lparr>sc_running := False\<rparr>, None)))"

definition stop :: "scheduler \<Rightarrow> sched_result" where
  "stop s = (if \<not> sc_running s then (s, None) else put_stop (s\<lparr>sc_running := False\<rparr>))"

definition pop :: "scheduler \<Rightarrow> sched_result" where
  "pop s = (if sc_running s then (s, Some MustBeStopped) else finished_change s)"

definition offset_of :: "scheduler \<Rightarrow> nat" where
  "offset_of s = (if sc_running s then 1 else 0)"

definition member_added :: "string \<Rightarrow> scheduler \<Rightarrow> sched_result" where
  "member_added unit_name s =
     (let s1 = s\<lparr>sc_context_members := map_option (insert unit_name) (sc_context_members s)\<rparr>
      in put_change unit_name ADDED (offset_of s1) s1)"

definition member_removed :: "string \<Rightarrow> scheduler \<Rightarrow> sched_result" where
  "member_removed unit_name s =
     (case sc_context_members s of
        None \<Rightarrow> (s, Some MembersUnknown)
      | Some members \<Rightarrow>
          if unit_name \<notin> members then (s, Some (MemberMissing unit_name))
          else let s1 = s\<lparr>sc_context_members := Some (members - {unit_name})\<rparr>
               in put_change unit_name REMOVED (offset_of s1) s1)"

definition cb_change_members :: "string list \<Rightarrow> string list \<Rightarrow> scheduler \<Rightarrow> sched_result" where
  "cb_change_members old_units new_units s =
     (let s1 = (if sc_context_members s = None then s\<lparr>sc_context_members := Some (set old_units)\<rparr> else s);
          known = set (dkeys (sc_member_versions s1));
          added = sorted_list_of_set (set new_units - known);
          removed = sorted_list_of_set (known - set new_units);
          versions = fold ddel removed (dupdate (sc_member_versions s1) (map (\<lambda>u. (u, 0)) added));
          s2 = s1\<lparr>sc_member_versions := versions\<rparr>
      in sthen (sfold member_added added s2) (\<lambda>s3.
         sthen (sfold member_removed removed s3) save_state))"

definition settings_changed :: "string \<times> int \<Rightarrow> scheduler \<Rightarrow> sched_result" where
  "settings_changed uv s =
     (let (unit_name, version) = uv in
      if version > (case dget (sc_member_versions s) unit_name of None \<Rightarrow> 0 | Some v \<Rightarrow> v) then
        let s1 = s\<lparr>sc_member_versions := dset unit_name version (sc_member_versions s)\<rparr>
        in put_change unit_name MODIFIED (offset_of s1) s1
      else (s, None))"

definition cb_change_settings :: "(string \<times> int) list \<Rightarrow> scheduler \<Rightarrow> sched_result" where
  "cb_change_settings unit_versions s = sthen (sfold settings_changed unit_versions s) save_state"

end
