(* ===== verification/SchedulerProps.thy ===== *)
theory SchedulerProps
  imports Scheduler
begin

text \<open>
  What the queue of hooks promises. A queue is read as what its hooks will tell the charm: \<open>replay\<close>
  gives the members the charm will know after them, \<open>legal\<close> says that no hook surprises it.
\<close>

section \<open>The meaning of a queue\<close>

fun apply_change :: "change \<Rightarrow> string set \<Rightarrow> string set" where
  "apply_change c known =
     (case ch_change_type c of
        ADDED \<Rightarrow> insert (ch_unit_name c) known
      | REMOVED \<Rightarrow> known - {ch_unit_name c}
      | MODIFIED \<Rightarrow> known)"

definition admissible :: "change \<Rightarrow> string set \<Rightarrow> bool" where
  "admissible c known \<longleftrightarrow> (if ch_change_type c = ADDED then ch_unit_name c \<notin> known else ch_unit_name c \<in> known)"

definition replay :: "change list \<Rightarrow> string set \<Rightarrow> string set" where
  "replay q known = fold apply_change q known"

fun legal :: "change list \<Rightarrow> string set \<Rightarrow> bool" where
  "legal [] known \<longleftrightarrow> True"
| "legal (c # cs) known \<longleftrightarrow> admissible c known \<and> legal cs (apply_change c known)"

definition units_of :: "change list \<Rightarrow> string list" where
  "units_of q = map ch_unit_name q"

lemma replay_Nil [simp]: "replay [] known = known"
  and replay_Cons [simp]: "replay (c # q) known = replay q (apply_change c known)"
  and replay_append [simp]: "replay (q @ r) known = replay r (replay q known)"
  by (simp_all add: replay_def)

lemma legal_append: "legal (q @ r) known \<longleftrightarrow> legal q known \<and> legal r (replay q known)"
  by (induction q arbitrary: known) auto

text \<open>A queue decides each unit by itself: a unit it does not name keeps its membership.\<close>

lemma replay_other: "u \<notin> set (units_of q) \<Longrightarrow> u \<in> replay q known \<longleftrightarrow> u \<in> known"
  by (induction q arbitrary: known) (auto simp: units_of_def split: change_type.splits)

lemma apply_change_iff:
  "u \<in> apply_change c known \<longleftrightarrow>
     (if u = ch_unit_name c \<and> ch_change_type c \<noteq> MODIFIED then ch_change_type c = ADDED else u \<in> known)"
  by (cases "ch_change_type c") auto

declare apply_change.simps [simp del]

lemma replay_agree: "(u \<in> A \<longleftrightarrow> u \<in> B) \<Longrightarrow> u \<in> replay q A \<longleftrightarrow> u \<in> replay q B"
proof (induction q arbitrary: A B)
  case Nil
  then show ?case by simp
next
  case (Cons c q)
  have "u \<in> apply_change c A \<longleftrightarrow> u \<in> apply_change c B"
    using Cons.prems by (simp add: apply_change_iff)
  then show ?case unfolding replay_Cons by (rule Cons.IH)
qed

lemma legal_agree:
  assumes "\<And>u. u \<in> set (units_of q) \<Longrightarrow> u \<in> A \<longleftrightarrow> u \<in> B"
  shows "legal q A \<longleftrightarrow> legal q B"
  using assms
proof (induction q arbitrary: A B)
  case Nil
  then show ?case by simp
next
  case (Cons c q)
  have "legal q (apply_change c A) \<longleftrightarrow> legal q (apply_change c B)"
    by (rule Cons.IH) (use Cons.prems in \<open>auto simp: units_of_def apply_change_iff\<close>)
  then show ?case using Cons.prems by (auto simp: units_of_def admissible_def)
qed

text \<open>Dropping a change \<open>p\<close> from the middle, when no other change names its unit.\<close>

lemma replay_drop:
  assumes "ch_unit_name p \<notin> set (units_of r)"
  shows "u \<in> replay (q @ r) known \<longleftrightarrow>
    (if u = ch_unit_name p then u \<in> replay q known else u \<in> replay (q @ p # r) known)"
proof -
  have "u \<in> replay r (replay q known) \<longleftrightarrow> u \<in> replay r (apply_change p (replay q known))"
    if "u \<noteq> ch_unit_name p"
    by (rule replay_agree) (simp add: that apply_change_iff)
  then show ?thesis using replay_other [OF assms] by auto
qed

lemma legal_drop:
  assumes "ch_unit_name p \<notin> set (units_of r)" and "legal (q @ p # r) known"
  shows "legal (q @ r) known"
proof -
  have "legal r (replay q known) \<longleftrightarrow> legal r (apply_change p (replay q known))"
    by (rule legal_agree) (use assms(1) in \<open>auto simp: apply_change_iff\<close>)
  then show ?thesis using assms(2) by (simp add: legal_append)
qed

lemma replay_map_members [simp]: "replay (map (wipe_member u) q) known = replay q known"
  by (induction q arbitrary: known) (simp_all add: wipe_member_def apply_change.simps split: change_type.splits)

lemma legal_map_members [simp]: "legal (map (wipe_member u) q) known = legal q known"
  by (induction q arbitrary: known) (simp_all add: wipe_member_def admissible_def apply_change.simps split: change_type.splits)

lemma units_of_map_members [simp]: "units_of (map (wipe_member u) q) = units_of q"
  by (induction q) (simp_all add: units_of_def wipe_member_def)

section \<open>Finding the previous change\<close>

lemma list_index_append: "x \<notin> set xs \<Longrightarrow> list_index (xs @ x # ys) x = length xs"
  by (induction xs) auto

lemma previous_None: "previous u q = None \<longleftrightarrow> u \<notin> set (units_of q)"
  by (auto simp: previous_def find_None_iff units_of_def dest!: find_SomeD split: option.splits)

lemma previous_Some:
  assumes "distinct (units_of q)" and "previous u q = Some (i, p)"
  shows "\<exists>a b. q = a @ p # b \<and> i = length a \<and> ch_unit_name p = u \<and> u \<notin> set (units_of a) \<and> u \<notin> set (units_of b)"
proof -
  have f: "List.find (\<lambda>p. ch_unit_name p = u) (rev q) = Some p" and i: "i = list_index q p"
    using assms(2) by (auto simp: previous_def split: option.splits)
  then have p: "p \<in> set q" "ch_unit_name p = u" by (auto dest: find_SomeD)
  then obtain a b where ab: "q = a @ p # b" by (metis split_list)
  with assms(1) p(2) have "u \<notin> set (units_of a)" "u \<notin> set (units_of b)" by (auto simp: units_of_def)
  moreover have "p \<notin> set a" using calculation(1) p(2) by (auto simp: units_of_def)
  ultimately show ?thesis using ab i p(2) by (auto simp: list_index_append)
qed

lemma list_pop_append [simp]: "list_pop (length a) (a @ p # b) = a @ b"
  by (simp add: list_pop_def)

section \<open>Queueing while no hook runs\<close>

definition queue_ok :: "change list \<Rightarrow> string set \<Rightarrow> bool" where
  "queue_ok q known \<longleftrightarrow> distinct (units_of q) \<and> legal q known"

lemma queue_ok_Nil [simp]: "queue_ok [] known"
  by (simp add: queue_ok_def units_of_def)

lemma save_state_Some:
  "sc_context_members s = Some M \<Longrightarrow> \<exists>s'. save_state s = (s', None) \<and> sc_pending s' = sc_pending s
     \<and> sc_context_members s' = sc_context_members s \<and> sc_executing s' = sc_executing s
     \<and> sc_running s' = sc_running s \<and> sc_waiting s' = sc_waiting s \<and> sc_calls s' = sc_calls s
     \<and> sc_member_versions s' = sc_member_versions s"
  by (simp add: save_state_def)

text \<open>What queueing does to the list, offset 0: the unit's earlier change and the new one become one.\<close>

definition merged :: "change list \<Rightarrow> change \<Rightarrow> change list" where
  "merged q c =
     (case previous (ch_unit_name c) q of
        None \<Rightarrow> q @ [c]
      | Some (i, p) \<Rightarrow>
          (case (ch_change_type p, ch_change_type c) of
             (REMOVED, ADDED) \<Rightarrow> list_pop i q @ [c\<lparr>ch_change_type := MODIFIED\<rparr>]
           | (MODIFIED, REMOVED) \<Rightarrow> list_pop i q @ [c]
           | (ADDED, REMOVED) \<Rightarrow> list_pop i (map (wipe_member (ch_unit_name c)) q)
           | _ \<Rightarrow> q))"

lemma merged_legal:
  assumes q: "queue_ok q known" and c: "admissible c (replay q known)"
  shows "queue_ok (merged q c) known \<and> replay (merged q c) known = apply_change c (replay q known)
    \<and> (\<forall>i p. previous (ch_unit_name c) q = Some (i, p) \<longrightarrow>
         (ch_change_type p, ch_change_type c) \<in> {(REMOVED, ADDED), (MODIFIED, REMOVED), (ADDED, REMOVED),
            (ADDED, MODIFIED), (MODIFIED, MODIFIED)})"
proof (cases "previous (ch_unit_name c) q")
  case None
  then have "ch_unit_name c \<notin> set (units_of q)" by (simp add: previous_None)
  then show ?thesis
    using q c None by (simp add: merged_def queue_ok_def legal_append units_of_def)
next
  case (Some ip)
  then obtain i p where ip: "previous (ch_unit_name c) q = Some (i, p)" by (cases ip) simp
  let ?u = "ch_unit_name c"
  obtain a b where ab: "q = a @ p # b" "i = length a" "ch_unit_name p = ?u"
      "?u \<notin> set (units_of a)" "?u \<notin> set (units_of b)"
    using previous_Some [OF _ ip] q by (auto simp: queue_ok_def)
  have dist: "distinct (units_of (a @ b))" and legal_ab: "legal (a @ b) known"
    using q ab legal_drop [of p b a known] by (auto simp: queue_ok_def units_of_def)
  have adm_p: "admissible p (replay a known)"
    using q ab(1) by (simp add: queue_ok_def legal_append)
  have u_in: "?u \<in> replay q known \<longleftrightarrow> ?u \<in> apply_change p (replay a known)"
    using replay_other [OF ab(5)] ab(1) by simp
  have ab_iff: "v \<in> replay (a @ b) known \<longleftrightarrow> (if v = ?u then ?u \<in> replay a known else v \<in> replay q known)" for v
    using replay_drop [of p b v a known] ab by auto
  have dist_c: "distinct (units_of ((a @ b) @ [c']))" if "ch_unit_name c' = ?u" for c'
    using dist ab(4,5) that by (auto simp: units_of_def)
  consider (ra) "ch_change_type p = REMOVED" "ch_change_type c = ADDED"
    | (mr) "ch_change_type p = MODIFIED" "ch_change_type c = REMOVED"
    | (ar) "ch_change_type p = ADDED" "ch_change_type c = REMOVED"
    | (am) "ch_change_type p = ADDED" "ch_change_type c = MODIFIED"
    | (mm) "ch_change_type p = MODIFIED" "ch_change_type c = MODIFIED"
    using c u_in adm_p ab(3)
    by (cases "ch_change_type p"; cases "ch_change_type c") (auto simp: admissible_def apply_change_iff)
  then show ?thesis
  proof cases
    case ra
    then have "merged q c = (a @ b) @ [c\<lparr>ch_change_type := MODIFIED\<rparr>]"
      using ip ab by (simp add: merged_def)
    moreover have "?u \<in> replay (a @ b) known" using adm_p ra(1) ab(3) ab_iff by (simp add: admissible_def)
    ultimately show ?thesis
      using ra ip dist_c legal_ab ab_iff
      by (auto simp: queue_ok_def legal_append admissible_def apply_change_iff set_eq_iff)
  next
    case mr
    then have "merged q c = (a @ b) @ [c]" using ip ab by (simp add: merged_def)
    moreover have "?u \<in> replay (a @ b) known" using adm_p mr(1) ab(3) ab_iff by (simp add: admissible_def)
    ultimately show ?thesis
      using mr ip dist_c legal_ab ab_iff
      by (auto simp: queue_ok_def legal_append admissible_def apply_change_iff set_eq_iff)
  next
    case ar
    then have "merged q c = map (wipe_member ?u) (a @ b)"
      using ip ab list_pop_append [of "map (wipe_member ?u) a" "wipe_member ?u p" "map (wipe_member ?u) b"]
      by (simp add: merged_def)
    moreover have "?u \<notin> replay (a @ b) known" using adm_p ar(1) ab(3) ab_iff by (simp add: admissible_def)
    ultimately show ?thesis
      using ar ip dist legal_ab ab_iff
      by (auto simp: queue_ok_def apply_change_iff set_eq_iff simp del: map_append)
  next
    case am
    then have "merged q c = q" using ip by (simp add: merged_def)
    then show ?thesis using am ip q by (auto simp: apply_change_iff)
  next
    case mm
    then have "merged q c = q" using ip by (simp add: merged_def)
    then show ?thesis using mm ip q by (auto simp: apply_change_iff)
  qed
qed

lemma queue_change_merged:
  assumes "queue_ok (sc_pending s) known" and "admissible c (replay (sc_pending s) known)"
    and "sc_context_members s = Some M"
  shows "\<exists>s'. queue_change c 0 s = (s', None) \<and> sc_pending s' = merged (sc_pending s) c
     \<and> sc_context_members s' = Some M \<and> sc_executing s' = sc_executing s \<and> sc_running s' = sc_running s
     \<and> sc_waiting s' = sc_waiting s \<and> sc_calls s' = sc_calls s \<and> sc_member_versions s' = sc_member_versions s"
proof (cases "previous (ch_unit_name c) (sc_pending s)")
  case None
  then show ?thesis
    using assms(3) save_state_Some [of "s\<lparr>sc_pending := sc_pending s @ [c]\<rparr>" M]
    by (auto simp: queue_change_def merged_def)
next
  case (Some ip)
  then obtain i p where ip: "previous (ch_unit_name c) (sc_pending s) = Some (i, p)" by (cases ip) simp
  have "(ch_change_type p, ch_change_type c) \<in> {(REMOVED, ADDED), (MODIFIED, REMOVED), (ADDED, REMOVED),
            (ADDED, MODIFIED), (MODIFIED, MODIFIED)}"
    using merged_legal [OF assms(1,2)] ip by blast
  then show ?thesis
    using assms(3) ip by (auto simp: queue_change_def merged_def reduce_def save_state_def)
qed

section \<open>Membership changes while the hooks are stopped\<close>

text \<open>\<open>track known M s\<close>: no loop runs or waits, and the queue leads from \<open>known\<close> to the members \<open>M\<close>.\<close>

definition track :: "string set \<Rightarrow> string set \<Rightarrow> scheduler \<Rightarrow> bool" where
  "track known M s \<longleftrightarrow> \<not> sc_running s \<and> sc_waiting s = 0 \<and> sc_context_members s = Some M
     \<and> queue_ok (sc_pending s) known \<and> replay (sc_pending s) known = M"

lemma put_change_track:
  assumes "\<not> sc_running s" "sc_waiting s = 0" "sc_context_members s = Some M'"
    and "queue_ok (sc_pending s) known" and "replay (sc_pending s) known = M"
    and "if t = ADDED then u \<notin> M else u \<in> M"
    and "M' = (case t of ADDED \<Rightarrow> insert u M | REMOVED \<Rightarrow> M - {u} | MODIFIED \<Rightarrow> M)"
  shows "\<exists>s'. put_change u t 0 s = (s', None) \<and> track known M' s' \<and> sc_member_versions s' = sc_member_versions s"
proof -
  let ?c = "\<lparr>ch_unit_name = u, ch_change_type = t, ch_members = sorted_list_of_set M'\<rparr>"
  have adm: "admissible ?c (replay (sc_pending s) known)"
    using assms(5,6) by (simp add: admissible_def split: if_splits)
  from queue_change_merged [OF assms(4) adm assms(3)] obtain s' where
    s': "queue_change ?c 0 s = (s', None)" "sc_pending s' = merged (sc_pending s) ?c"
      "sc_context_members s' = Some M'" "sc_running s' = sc_running s" "sc_waiting s' = sc_waiting s"
      "sc_member_versions s' = sc_member_versions s" by blast
  have "replay (merged (sc_pending s) ?c) known = M'"
    using merged_legal [OF assms(4) adm] assms(5,7) by (cases t) (simp_all add: apply_change.simps)
  with s' merged_legal [OF assms(4) adm] assms(1-3) show ?thesis
    by (auto simp: put_change_def get_change_def put_def track_def)
qed

lemma member_added_track:
  assumes "track known M s" and "u \<notin> M"
  shows "\<exists>s'. member_added u s = (s', None) \<and> track known (insert u M) s'
    \<and> sc_member_versions s' = sc_member_versions s"
  using put_change_track [of "s\<lparr>sc_context_members := Some (insert u M)\<rparr>" "insert u M" known M ADDED u] assms
  by (simp add: member_added_def Let_def offset_of_def track_def)

lemma member_removed_track:
  assumes "track known M s" and "u \<in> M"
  shows "\<exists>s'. member_removed u s = (s', None) \<and> track known (M - {u}) s'
    \<and> sc_member_versions s' = sc_member_versions s"
  using put_change_track [of "s\<lparr>sc_context_members := Some (M - {u})\<rparr>" "M - {u}" known M REMOVED u] assms
  by (simp add: member_removed_def Let_def offset_of_def track_def)

lemma sthen_Inr [simp]: "sthen (s, None) f = f s"
  by (simp add: sthen_def)

lemma members_added_track:
  "track known M s \<Longrightarrow> distinct us \<Longrightarrow> set us \<inter> M = {} \<Longrightarrow>
     \<exists>s'. sfold member_added us s = (s', None) \<and> track known (M \<union> set us) s'
       \<and> sc_member_versions s' = sc_member_versions s"
proof (induction us arbitrary: M s)
  case Nil
  then show ?case by simp
next
  case (Cons u us)
  then obtain s1 where s1: "member_added u s = (s1, None)" "track known (insert u M) s1"
      "sc_member_versions s1 = sc_member_versions s"
    using member_added_track [of known M s u] by auto
  then show ?case using Cons.IH [OF s1(2)] Cons.prems by auto
qed

lemma members_removed_track:
  "track known M s \<Longrightarrow> distinct us \<Longrightarrow> set us \<subseteq> M \<Longrightarrow>
     \<exists>s'. sfold member_removed us s = (s', None) \<and> track known (M - set us) s'
       \<and> sc_member_versions s' = sc_member_versions s"
proof (induction us arbitrary: M s)
  case Nil
  then show ?case by simp
next
  case (Cons u us)
  then obtain s1 where s1: "member_removed u s = (s1, None)" "track known (M - {u}) s1"
      "sc_member_versions s1 = sc_member_versions s"
    using member_removed_track [of known M s u] by auto
  then obtain s' where "sfold member_removed us s1 = (s', None)" "track known (M - {u} - set us) s'"
      "sc_member_versions s' = sc_member_versions s1"
    using Cons.IH [OF s1(2)] Cons.prems by auto
  moreover have "M - {u} - set us = M - set (u # us)" by auto
  ultimately show ?case using s1 by auto
qed

lemma dkeys_dupdate: "set (dkeys (dupdate d d')) = set (dkeys d) \<union> set (dkeys d')"
  by (induction d' arbitrary: d) (auto simp: dupdate_Cons AList.dom_update)

lemma fst_dict: "fst ` set d = {k. dhas d k}"
  by (simp add: dhas_keys image_def)

lemma dkeys_fold_ddel: "set (dkeys (fold ddel us d)) = set (dkeys d) - set us"
  by (induction us arbitrary: d) (auto simp: fst_dict)

lemma change_members_track:
  assumes "track known M s" and "set (dkeys (sc_member_versions s)) = M"
  shows "\<exists>s'. cb_change_members old_units new_units s = (s', None)
    \<and> track known (set new_units) s' \<and> set (dkeys (sc_member_versions s')) = set new_units"
proof -
  let ?added = "sorted_list_of_set (set new_units - M)" and ?removed = "sorted_list_of_set (M - set new_units)"
  let ?s2 = "s\<lparr>sc_member_versions := fold ddel ?removed
      (dupdate (sc_member_versions s) (map (\<lambda>u. (u, 0)) ?added))\<rparr>"
  have fin: "finite M" using assms(2) by (metis List.finite_set)
  have members: "sc_context_members s = Some M" using assms(1) by (simp add: track_def)
  have t2: "track known M ?s2" using assms(1) by (simp add: track_def)
  have keys: "set (dkeys (sc_member_versions ?s2)) = set new_units"
  proof -
    have "set (dkeys (sc_member_versions ?s2)) = (M \<union> set ?added) - set ?removed"
      using dkeys_fold_ddel [of ?removed "dupdate (sc_member_versions s) (map (\<lambda>u. (u, 0)) ?added)"]
        dkeys_dupdate [of "sc_member_versions s" "map (\<lambda>u. (u, 0)) ?added"] assms(2)
      by (simp add: image_image)
    then show ?thesis using fin by auto
  qed
  obtain s3 where s3: "sfold member_added ?added ?s2 = (s3, None)" "track known (M \<union> set new_units) s3"
      "sc_member_versions s3 = sc_member_versions ?s2"
    using members_added_track [OF t2, of ?added] fin by auto
  obtain s4 where s4: "sfold member_removed ?removed s3 = (s4, None)" "track known (set new_units) s4"
      "sc_member_versions s4 = sc_member_versions s3"
  proof -
    have "M \<union> set new_units - set ?removed = set new_units" using fin by auto
    then show thesis using members_removed_track [OF s3(2), of ?removed] fin that by auto
  qed
  obtain s5 where s5: "save_state s4 = (s5, None)" "track known (set new_units) s5"
      "sc_member_versions s5 = sc_member_versions s4"
    using s4(2) save_state_Some [of s4 "set new_units"] by (auto simp: track_def)
  have "cb_change_members old_units new_units s = (s5, None)"
  proof -
    have "fst ` set (sc_member_versions s) = M" using assms(2) by simp
    then show ?thesis using s3(1) s4(1) s5(1) by (simp add: cb_change_members_def Let_def members)
  qed
  then show ?thesis using s5 s3(3) s4(3) keys by auto
qed

text \<open>New settings of a member keep the queue exact as well.\<close>

lemma change_settings_track:
  assumes "track known M s" and "set (dkeys (sc_member_versions s)) = M" and "u \<in> M"
  shows "\<exists>s'. cb_change_settings [(u, version)] s = (s', None)
    \<and> track known M s' \<and> set (dkeys (sc_member_versions s')) = M"
proof -
  let ?s1 = "s\<lparr>sc_member_versions := dset u version (sc_member_versions s)\<rparr>"
  have keys: "set (dkeys (dset u version (sc_member_versions s))) = M"
    using assms(2,3) by (auto simp: AList.dom_update)
  obtain s2 where s2: "settings_changed (u, version) s = (s2, None)" "track known M s2"
      "set (dkeys (sc_member_versions s2)) = M"
  proof (cases "version > (case dget (sc_member_versions s) u of None \<Rightarrow> 0 | Some v \<Rightarrow> v)")
    case True
    obtain s2 where "put_change u MODIFIED 0 ?s1 = (s2, None)" "track known M s2"
        "sc_member_versions s2 = sc_member_versions ?s1"
      using put_change_track [of ?s1 M known M MODIFIED u] assms by (auto simp: track_def)
    then show thesis
      using that True keys assms(1) by (simp add: settings_changed_def Let_def offset_of_def track_def)
  next
    case False
    then show thesis using that assms by (auto simp: settings_changed_def)
  qed
  obtain s3 where "save_state s2 = (s3, None)" "track known M s3" "set (dkeys (sc_member_versions s3)) = M"
    using save_state_Some [of s2 M] s2(2,3) by (auto simp: track_def)
  then show ?thesis using s2(1) by (simp add: cb_change_settings_def)
qed

text \<open>
  C5: while no hook runs, the queue stays exact. Every unit has at most one queued change, no queued
  hook is out of order for its unit (joined only for an unknown unit, modified and departed only for a
  known one), and running the queued hooks takes the charm from the members it knows to exactly the
  members the relation has now. A membership callback keeps this and moves the members to the new ones.
\<close>

theorem members_tracked:
  assumes "track known M s" and "set (dkeys (sc_member_versions s)) = M"
  shows "\<exists>s'. cb_change_members old_units new_units s = (s', None)
    \<and> track known (set new_units) s' \<and> set (dkeys (sc_member_versions s')) = set new_units"
  by (rule change_members_track [OF assms])

definition idle_scheduler :: scheduler where
  "idle_scheduler = (new_scheduler Missing)\<lparr>sc_context_members := Some {}\<rparr>"

lemma idle_track: "track {} {} idle_scheduler" "set (dkeys (sc_member_versions idle_scheduler)) = {}"
  by (simp_all add: idle_scheduler_def new_scheduler_def create_state_def track_def)

theorem members_tracked_witness:
  "\<exists>s'. cb_change_members [] [''mysql/0'', ''mysql/1''] idle_scheduler = (s', None)
    \<and> track {} {''mysql/0'', ''mysql/1''} s' \<and> set (dkeys (sc_member_versions s')) = {''mysql/0'', ''mysql/1''}"
  using members_tracked [OF idle_track, of "[]" "[''mysql/0'', ''mysql/1'']"] by simp

section \<open>A cancellation while a hook runs\<close>

text \<open>
  C23: while a hook runs (its change \<open>h\<close> at the head), a unit that leaves before its joined hook ran
  should have its queued change removed. The code removes the entry one place before it: with the joined
  change of \<open>u\<close> at position \<open>i\<close> of the queue behind \<open>h\<close>, the entry \<open>i\<close> of the whole queue goes. The
  joined change of the departed unit stays, and another change is lost: for \<open>i = 0\<close> the running one,
  else that of another unit.
\<close>

theorem cancellation_removes_wrong_change:
  assumes running: "sc_running s" "sc_waiting s = 0"
    and pending: "sc_pending s = h # q" "distinct (units_of q)"
    and queued: "i < length q" "ch_unit_name (q ! i) = u" "ch_change_type (q ! i) = ADDED"
    and members: "sc_context_members s = Some M" "u \<in> M"
  shows "\<exists>s' lost. member_removed u s = (s', None)
    \<and> sc_pending s' = list_pop i (h # map (wipe_member u) q)
    \<and> (\<exists>p \<in> set (sc_pending s'). ch_unit_name p = u \<and> ch_change_type p = ADDED)
    \<and> lost = (h # q) ! i \<and> (0 < i \<longrightarrow> ch_unit_name lost \<noteq> u \<and> ch_unit_name lost \<notin> set (units_of (tl (sc_pending s'))))"
proof -
  let ?s1 = "s\<lparr>sc_context_members := Some (M - {u})\<rparr>"
  let ?c = "\<lparr>ch_unit_name = u, ch_change_type = REMOVED, ch_members = sorted_list_of_set (M - {u})\<rparr>"
  obtain p where "previous u q = Some p"
    using queued previous_None [of u q] by (force simp: units_of_def)
  then obtain j p where jp: "previous u q = Some (j, p)" by (cases p) simp
  obtain a b where ab: "q = a @ p # b" "j = length a" "ch_unit_name p = u"
      "u \<notin> set (units_of a)" "u \<notin> set (units_of b)"
    using previous_Some [OF pending(2) jp] by auto
  have "q ! j = p" using ab by simp
  moreover have "i = j"
  proof -
    have "j < length q" by (simp add: ab(1,2))
    then have "units_of q ! i = units_of q ! j" "j < length q"
      using queued(1,2) \<open>q ! j = p\<close> ab(3) by (simp_all add: units_of_def)
    then show ?thesis
      using pending(2) queued(1) nth_eq_iff_index_eq [of "units_of q" i j] by (simp add: units_of_def)
  qed
  ultimately have added: "ch_change_type p = ADDED" using queued(3) by simp
  let ?q' = "list_pop i (h # map (wipe_member u) q)"
  obtain s' where s': "member_removed u s = (s', None)" "sc_pending s' = ?q'"
    using running pending(1) members jp added \<open>i = j\<close>
    by (auto simp: member_removed_def Let_def put_change_def get_change_def put_def offset_of_def
        queue_change_def reduce_def save_state_def)
  have q'_Nil: "?q' = map (wipe_member u) (p # b)" if "a = []"
    using ab(1,2) \<open>i = j\<close> that by (simp add: list_pop_def)
  have q'_snoc: "?q' = h # map (wipe_member u) (a' @ p # b)" "(h # q) ! i = l" if "a = a' @ [l]" for a' l
    using ab(1,2) \<open>i = j\<close> that by (simp_all add: list_pop_def nth_append)
  have "wipe_member u p \<in> set ?q'"
    by (cases a rule: rev_cases) (simp_all only: q'_Nil q'_snoc(1), simp_all)
  then have still: "\<exists>p \<in> set (sc_pending s'). ch_unit_name p = u \<and> ch_change_type p = ADDED"
    using s'(2) ab(3) added by (intro bexI [of _ "wipe_member u p"]) (simp_all add: wipe_member_def)
  have lost: "ch_unit_name ((h # q) ! i) \<noteq> u \<and> ch_unit_name ((h # q) ! i) \<notin> set (units_of (tl (sc_pending s')))"
    if "0 < i"
  proof -
    have "a \<noteq> []" using that ab(2) \<open>i = j\<close> by auto
    then obtain a' l where a: "a = a' @ [l]" by (cases a rule: rev_cases) auto
    have "units_of (tl (sc_pending s')) = units_of (a' @ p # b)"
      unfolding s'(2) q'_snoc(1) [OF a] list.sel by (rule units_of_map_members)
    moreover have "ch_unit_name l \<notin> set (units_of (a' @ p # b))"
      using pending(2) ab(1) a by (auto simp: units_of_def)
    ultimately show ?thesis
      using q'_snoc(2) [OF a] ab(3) by (auto simp: units_of_def)
  qed
  show ?thesis using s' still lost by blast
qed

definition busy_scheduler :: scheduler where
  "busy_scheduler =
     \<lparr>sc_running = True, sc_context_members = Some {''a'', ''b'', ''c''},
      sc_member_versions = [(''a'', 0), (''b'', 0), (''c'', 0)],
      sc_pending = [\<lparr>ch_unit_name = ''a'', ch_change_type = ADDED, ch_members = [''a'']\<rparr>,
                    \<lparr>ch_unit_name = ''b'', ch_change_type = ADDED, ch_members = [''a'', ''b'']\<rparr>,
                    \<lparr>ch_unit_name = ''c'', ch_change_type = ADDED, ch_members = [''a'', ''b'', ''c'']\<rparr>],
      sc_waiting = 0, sc_executing = [\<lparr>ch_unit_name = ''a'', ch_change_type = ADDED, ch_members = [''a'']\<rparr>],
      sc_calls = [], sc_file = Missing\<rparr>"

theorem cancellation_removes_wrong_change_witness:
  "\<exists>s'. member_removed ''c'' busy_scheduler = (s', None)
    \<and> map ch_unit_name (sc_pending s') = [''a'', ''c'']"
  using cancellation_removes_wrong_change [of busy_scheduler "hd (sc_pending busy_scheduler)"
      "tl (sc_pending busy_scheduler)" 1 "''c''" "{''a'', ''b'', ''c''}"]
  by (auto simp: busy_scheduler_def units_of_def list_pop_def wipe_member_def)

section \<open>A failed hook\<close>

text \<open>
  A failed hook is kept. After it the scheduler is stopped with the failed change at the head of
  the queue (a joined hook has queued its modified change behind it); \<open>run\<close> gives the executor that same
  change again, and \<open>pop\<close> followed by \<open>run\<close> goes on with the change behind it.
\<close>

theorem failed_hook_retried:
  assumes "sc_running s" "sc_waiting s = 0" "sc_executing s = [c]" "sc_pending s = c # q"
    and "sc_context_members s = Some M"
  shows "\<exists>s1 q'. hook_done 0 False s = (s1, None) \<and> \<not> sc_running s1 \<and> sc_pending s1 = c # q'
    \<and> (\<exists>s2. run True s1 = (s2, None) \<and> sc_executing s2 = [c] \<and> sc_calls s2 = sc_calls s @ [c])
    \<and> (\<exists>s3 s4. pop s1 = (s3, None) \<and> run True s3 = (s4, None) \<and> sc_pending s4 = q'
          \<and> sc_executing s4 = (case q' of [] \<Rightarrow> [] | c' # _ \<Rightarrow> [c']))"
proof -
  let ?s0 = "s\<lparr>sc_executing := []\<rparr>"
  have "\<exists>s1 q'. (if ch_change_type c = ADDED then put_change (ch_unit_name c) MODIFIED 1 ?s0 else (?s0, None)) = (s1, None)
    \<and> sc_pending s1 = c # q' \<and> sc_waiting s1 = 0 \<and> sc_executing s1 = [] \<and> sc_calls s1 = sc_calls s
    \<and> sc_context_members s1 = Some M"
  proof (cases "ch_change_type c = ADDED")
    case False
    then show ?thesis using assms by simp
  next
    case True
    let ?m = "\<lparr>ch_unit_name = ch_unit_name c, ch_change_type = MODIFIED, ch_members = sorted_list_of_set M\<rparr>"
    have "put_change (ch_unit_name c) MODIFIED 1 ?s0 = queue_change ?m 1 ?s0"
      using assms(2,5) by (simp add: put_change_def get_change_def put_def)
    moreover have "\<exists>s1 q'. queue_change ?m 1 ?s0 = (s1, None) \<and> sc_pending s1 = c # q' \<and> sc_waiting s1 = 0
      \<and> sc_executing s1 = [] \<and> sc_calls s1 = sc_calls s \<and> sc_context_members s1 = Some M"
      using assms(2,4,5)
      by (cases "previous (ch_unit_name c) q")
        (auto simp: queue_change_def save_state_def reduce_def split: change_type.splits)
    ultimately show ?thesis using True by simp
  qed
  then obtain s1 q' where s1: "(if ch_change_type c = ADDED then put_change (ch_unit_name c) MODIFIED 1 ?s0 else (?s0, None)) = (s1, None)"
     "sc_pending s1 = c # q'" "sc_waiting s1 = 0" "sc_executing s1 = []" "sc_calls s1 = sc_calls s"
     "sc_context_members s1 = Some M" by blast
  have finished: "hook_done 0 False s = (s1\<lparr>sc_running := False\<rparr>, None)"
    using s1(1) assms(3) by (simp add: hook_done_def list_pop_def Let_def)
  have "\<exists>s2. run True (s1\<lparr>sc_running := False\<rparr>) = (s2, None) \<and> sc_executing s2 = [c] \<and> sc_calls s2 = sc_calls s @ [c]"
    using s1 by (simp add: run_def loop_turn_def execute_def)
  moreover have "\<exists>s3 s4. pop (s1\<lparr>sc_running := False\<rparr>) = (s3, None) \<and> run True s3 = (s4, None) \<and> sc_pending s4 = q'
          \<and> sc_executing s4 = (case q' of [] \<Rightarrow> [] | c' # _ \<Rightarrow> [c'])"
    using s1 by (auto simp: pop_def finished_change_def save_state_def run_def loop_turn_def execute_def split: list.splits)
  ultimately show ?thesis using finished s1(2) by auto
qed

theorem failed_hook_retried_witness:
  "\<exists>s1 q'. hook_done 0 False busy_scheduler = (s1, None) \<and> sc_pending s1 = hd (sc_pending busy_scheduler) # q'"
  using failed_hook_retried [of busy_scheduler "hd (sc_pending busy_scheduler)" "tl (sc_pending busy_scheduler)"
      "{''a'', ''b'', ''c''}"]
  by (fastforce simp: busy_scheduler_def)

section \<open>Restarts\<close>

datatype sched_event =
    ChangeMembers "string list" "string list"
  | ChangeSettings "(string \<times> int) list"
  | Run
  | HookDone nat bool
  | Stop
  | Pop

fun sched_event_ok :: "sched_event \<Rightarrow> scheduler \<Rightarrow> bool" where
  "sched_event_ok (HookDone i _) s \<longleftrightarrow> i < length (sc_executing s)"
| "sched_event_ok _ s \<longleftrightarrow> True"

fun sched_exec :: "sched_event \<Rightarrow> scheduler \<Rightarrow> sched_result" where
  "sched_exec (ChangeMembers old new) s = cb_change_members old new s"
| "sched_exec (ChangeSettings l) s = cb_change_settings l s"
| "sched_exec Run s = run True s"
| "sched_exec (HookDone i b) s = hook_done i b s"
| "sched_exec Stop s = stop s"
| "sched_exec Pop s = pop s"

inductive sched_reachable :: "scheduler \<Rightarrow> bool" where
  start: "sched_reachable (new_scheduler Missing)"
| event: "sched_reachable s \<Longrightarrow> sched_event_ok ev s \<Longrightarrow> sched_exec ev s = (s', None) \<Longrightarrow> sched_reachable s'"

text \<open>The file holds the scheduler's state, or the scheduler has none yet.\<close>

definition synced :: "scheduler \<Rightarrow> bool" where
  "synced s \<longleftrightarrow>
     (case sc_context_members s of
        None \<Rightarrow> sc_file s \<in> {Missing, EmptyFile} \<and> sc_member_versions s = [] \<and> sc_pending s = []
      | Some M \<Rightarrow> finite M \<and> sc_file s = Saved \<lparr>sv_context_members = sorted_list_of_set M,
          sv_member_versions = sc_member_versions s, sv_change_queue = sc_pending s\<rparr>)"

text \<open>The part of it that concerns the queue, while a callback still works on the dicts.\<close>

definition members_finite :: "scheduler \<Rightarrow> bool" where
  "members_finite s \<longleftrightarrow> (\<forall>M. sc_context_members s = Some M \<longrightarrow> finite M)"

lemma sthen_None: "sthen r f = (s', None) \<longleftrightarrow> (\<exists>s1. r = (s1, None) \<and> f s1 = (s', None))"
  by (cases r) (auto simp: sthen_def split: option.splits)

lemma save_synced: "save_state s = (s', None) \<Longrightarrow> members_finite s \<Longrightarrow> synced s'"
  by (auto simp: save_state_def synced_def members_finite_def split: option.splits)

lemma save_members: "save_state s = (s', e) \<Longrightarrow> sc_context_members s' = sc_context_members s"
  by (auto simp: save_state_def split: option.splits)

lemma queue_change_cases:
  "(\<exists>q. queue_change c k s = save_state (s\<lparr>sc_pending := q\<rparr>)) \<or> (\<exists>e. queue_change c k s = (s, e))"
  by (auto simp: queue_change_def split: option.splits)

lemma queue_change_members:
  assumes "queue_change c k s = (s', e)"
  shows "sc_context_members s' = sc_context_members s"
  using queue_change_cases [of c k s]
proof (elim disjE exE)
  fix q
  assume "queue_change c k s = save_state (s\<lparr>sc_pending := q\<rparr>)"
  with assms have "save_state (s\<lparr>sc_pending := q\<rparr>) = (s', e)" by simp
  from save_members [OF this] show ?thesis by simp
qed (use assms in simp)

lemma queue_change_synced:
  assumes "queue_change c k s = (s', None)" and "synced s"
  shows "synced s'"
  using queue_change_cases [of c k s]
proof (elim disjE exE)
  fix q
  assume "queue_change c k s = save_state (s\<lparr>sc_pending := q\<rparr>)"
  with assms have "save_state (s\<lparr>sc_pending := q\<rparr>) = (s', None)" by simp
  moreover have "members_finite (s\<lparr>sc_pending := q\<rparr>)"
    using assms(2) by (auto simp: synced_def members_finite_def)
  ultimately show ?thesis by (rule save_synced)
qed (use assms in simp)

lemma synced_fields:
  "synced (s\<lparr>sc_waiting := n\<rparr>) = synced s" "synced (s\<lparr>sc_running := b\<rparr>) = synced s"
  "synced (s\<lparr>sc_executing := l\<rparr>) = synced s" "synced (s\<lparr>sc_calls := l\<rparr>) = synced s"
  by (simp_all add: synced_def split: option.splits)

lemma synced_execute: "synced (execute c s) = synced s"
  by (simp add: synced_def execute_def split: option.splits)

lemma loop_turn_synced: "loop_turn s = (s', e) \<Longrightarrow> synced s' = synced s"
  by (auto simp: loop_turn_def synced_fields synced_execute split: if_splits list.splits)

lemma put_members: "put c k s = (s', e) \<Longrightarrow> sc_context_members s' = sc_context_members s"
  by (auto simp: put_def sthen_def execute_def split: if_splits prod.splits option.splits list.splits
      dest: queue_change_members)

lemma put_synced:
  assumes "put c k s = (s', None)" and "synced s"
  shows "synced s'"
proof (cases "sc_waiting s > 0")
  case True
  define resume where "resume = (\<lambda>s1. case sc_pending s1 of [] \<Rightarrow> (s1, None)
      | head # _ \<Rightarrow> (execute head (s1\<lparr>sc_waiting := sc_waiting s1 - 1\<rparr>), None :: sched_error option))"
  have "sthen (queue_change c 0 s) resume = (s', None)"
    using assms(1) True unfolding put_def resume_def by simp
  then obtain s1 where s1: "queue_change c 0 s = (s1, None)" and s': "resume s1 = (s', None)"
    unfolding sthen_None by blast
  have "synced s1" by (rule queue_change_synced [OF s1 assms(2)])
  with s' show ?thesis unfolding resume_def by (cases "sc_pending s1") (auto simp: synced_execute synced_fields)
next
  case False
  then show ?thesis using assms queue_change_synced by (simp add: put_def)
qed

lemma put_change_members: "put_change u t k s = (s', e) \<Longrightarrow> sc_context_members s' = sc_context_members s"
  by (auto simp: put_change_def dest: put_members split: sum.splits)

lemma put_change_synced: "put_change u t k s = (s', None) \<Longrightarrow> synced s \<Longrightarrow> synced s'"
  by (auto simp: put_change_def dest: put_synced split: sum.splits)

lemma finished_synced: "finished_change s = (s', None) \<Longrightarrow> synced s \<Longrightarrow> synced s'"
  by (auto simp: finished_change_def synced_def members_finite_def save_state_def split: list.splits option.splits)

lemma synced_members_finite: "synced s \<Longrightarrow> members_finite s"
  by (auto simp: synced_def members_finite_def)

lemma members_finite_added:
  "members_finite s \<Longrightarrow> member_added u s = (s', e) \<Longrightarrow> members_finite s'"
  by (cases "sc_context_members s")
    (auto simp: member_added_def Let_def members_finite_def dest!: put_change_members)

lemma members_finite_removed:
  "members_finite s \<Longrightarrow> member_removed u s = (s', e) \<Longrightarrow> members_finite s'"
  by (auto simp: member_removed_def Let_def members_finite_def dest!: put_change_members
      split: option.splits if_splits)

lemma members_finite_settings:
  "members_finite s \<Longrightarrow> settings_changed uv s = (s', e) \<Longrightarrow> members_finite s'"
  by (auto simp: settings_changed_def Let_def members_finite_def dest!: put_change_members
      split: if_splits prod.splits)

lemma sfold_members_finite:
  assumes "\<And>x s s'. members_finite s \<Longrightarrow> f x s = (s', None) \<Longrightarrow> members_finite s'"
  shows "members_finite s \<Longrightarrow> sfold f xs s = (s', None) \<Longrightarrow> members_finite s'"
  by (induction xs arbitrary: s) (auto simp: sthen_None dest: assms)

lemma change_members_synced:
  assumes "cb_change_members old new s = (s', None)" and "members_finite s"
  shows "synced s'"
proof -
  let ?s1 = "if sc_context_members s = None then s\<lparr>sc_context_members := Some (set old)\<rparr> else s"
  obtain v xs ys s2 s3 where step: "sfold member_added xs (?s1\<lparr>sc_member_versions := v\<rparr>) = (s2, None)"
      "sfold member_removed ys s2 = (s3, None)" "save_state s3 = (s', None)"
    using assms(1) unfolding cb_change_members_def Let_def sthen_None by blast
  have "members_finite (?s1\<lparr>sc_member_versions := v\<rparr>)"
    using assms(2) by (simp add: members_finite_def)
  then have "members_finite s2"
    by (rule sfold_members_finite [rotated, OF _ step(1)]) (rule members_finite_added)
  then have "members_finite s3"
    by (rule sfold_members_finite [rotated, OF _ step(2)]) (rule members_finite_removed)
  with step(3) show ?thesis by (rule save_synced)
qed

lemma event_synced:
  assumes "sched_exec ev s = (s', None)" and "synced s"
  shows "synced s'"
proof (cases ev)
  case (ChangeMembers old new)
  then show ?thesis
    using assms change_members_synced synced_members_finite by simp
next
  case (ChangeSettings l)
  then obtain s1 where s1: "sfold settings_changed l s = (s1, None)" "save_state s1 = (s', None)"
    using assms(1) by (auto simp: cb_change_settings_def sthen_None)
  have "members_finite s1"
    by (rule sfold_members_finite [OF members_finite_settings synced_members_finite [OF assms(2)] s1(1)])
  with s1(2) show ?thesis by (rule save_synced)
next
  case Run
  then show ?thesis
    using assms by (auto simp: run_def dest!: loop_turn_synced split: if_splits)
      (auto simp: synced_def split: option.splits)
next
  case (HookDone i b)
  then show ?thesis
    using assms
    by (auto simp: hook_done_def Let_def sthen_None synced_fields split: if_splits
        dest!: put_change_synced finished_synced loop_turn_synced)
next
  case Stop
  then show ?thesis
    using assms by (auto simp: stop_def put_stop_def Let_def synced_fields split: if_splits dest!: loop_turn_synced)
next
  case Pop
  then show ?thesis
    using assms by (auto simp: pop_def split: if_splits dest!: finished_synced)
qed

text \<open>
  A restarted agent takes up where the old one was. After any sequence of events that raised
  nothing, the scheduler built from the state file has the same members, versions and queue; a change
  whose hook was running at the time of the crash is still at the head of that queue.
\<close>

theorem restart_restores:
  assumes "sched_reachable s"
  shows "let r = new_scheduler (sc_file s) in
    sc_context_members r = sc_context_members s \<and> sc_member_versions r = sc_member_versions s
    \<and> sc_pending r = sc_pending s \<and> \<not> sc_running r \<and> sc_executing r = []"
proof -
  have "synced s"
    using assms
  proof induction
    case start
    show ?case by (simp add: synced_def new_scheduler_def create_state_def)
  next
    case (event s ev s')
    then show ?case using event_synced by blast
  qed
  then show ?thesis
    by (auto simp: synced_def new_scheduler_def load_state_def create_state_def Let_def split: option.splits)
qed

theorem restart_restores_witness:
  "\<exists>s c. sched_reachable s \<and> sc_pending s = [c] \<and> sc_executing s = [c]
    \<and> sc_pending (new_scheduler (sc_file s)) = [c]"
proof -
  let ?c = "\<lparr>ch_unit_name = ''mysql/0'', ch_change_type = ADDED, ch_members = [''mysql/0'']\<rparr>"
  define s1 where "s1 = fst (run True (new_scheduler Missing))"
  define s2 where "s2 = fst (cb_change_members [] [''mysql/0''] s1)"
  have r1: "sched_exec Run (new_scheduler Missing) = (s1, None)"
    by (simp add: s1_def run_def new_scheduler_def create_state_def loop_turn_def)
  then have reach1: "sched_reachable s1"
    by (rule sched_reachable.event [OF sched_reachable.start, rotated]) simp
  have "sched_exec (ChangeMembers [] [''mysql/0'']) s1 = (s2, None) \<and> sc_pending s2 = [?c] \<and> sc_executing s2 = [?c]"
    unfolding s2_def s1_def by code_simp
  then have "sched_reachable s2" "sc_pending s2 = [?c]" "sc_executing s2 = [?c]"
    using sched_reachable.event [OF reach1, of "ChangeMembers [] [''mysql/0'']" s2] by simp_all
  with restart_restores [of s2] show ?thesis by (metis (no_types, lifting))
qed

end
