(* ===== verification/Constraints.thy ===== *)
theory Constraints
  imports PyStrings Complex_Main "HOL-Library.Char_ord" "HOL-Library.List_Lexorder"
begin

text \<open>
  \<open>juju/machine/constraints.py\<close>: constraint types, \<open>ConstraintSet\<close> and \<open>Constraints\<close>.

  A converter and a comparer are functions, as they are in Python; a provider may register others than
  the generic ones. \<open>float(s)\<close> is read into an exact rational or an infinity: rounding to 53 bits is not
  modelled.
\<close>

section \<open>Reading numbers\<close>

datatype number = Fin rat | PosInf

text \<open>A decimal: digits with at most one point and at least one digit.\<close>

definition read_decimal :: "string \<Rightarrow> rat option" where
  "read_decimal s =
     (case split_once CHR ''.'' s of
        None \<Rightarrow> if py_isdigit s then Some (of_nat (read_nat s)) else None
      | Some (a, b) \<Rightarrow>
          if list_all is_digit a \<and> list_all is_digit b \<and> (a \<noteq> [] \<or> b \<noteq> [])
          then Some (of_nat (read_nat a) + of_nat (read_nat b) / 10 ^ length b) else None)"

definition lower_char :: "char \<Rightarrow> char" where
  "lower_char c = (if 65 \<le> (of_char c :: nat) \<and> (of_char c :: nat) \<le> 90 then char_of ((of_char c :: nat) + 32) else c)"

definition read_exponent :: "string \<Rightarrow> int option" where
  "read_exponent s =
     (case s of
        [] \<Rightarrow> None
      | c # r \<Rightarrow>
          if c = CHR ''-'' then (if py_isdigit r then Some (- int (read_nat r)) else None)
          else if c = CHR ''+'' then (if py_isdigit r then Some (int (read_nat r)) else None)
          else if py_isdigit s then Some (int (read_nat s)) else None)"

definition scale10 :: "int \<Rightarrow> rat" where
  "scale10 e = (if e < 0 then 1 / 10 ^ nat (- e) else 10 ^ nat e)"

text \<open>The magnitude after the sign; \<open>nan\<close> is not at least zero and is left out as if unreadable.\<close>

definition read_magnitude :: "string \<Rightarrow> number option" where
  "read_magnitude s =
     (if s = ''inf'' \<or> s = ''infinity'' then Some PosInf
      else case split_once CHR ''e'' s of
        None \<Rightarrow> map_option Fin (read_decimal s)
      | Some (a, b) \<Rightarrow>
          (case (read_decimal a, read_exponent b) of
             (Some m, Some e) \<Rightarrow> Some (Fin (m * scale10 e))
           | _ \<Rightarrow> None))"

text \<open>
  \<open>float(s)\<close> followed by \<open>value >= 0\<close>, which is how the converters use it: \<open>None\<close> where either raises
  \<open>ValueError\<close>. A negative zero is at least zero.
\<close>

definition read_float :: "string \<Rightarrow> number option" where
  "read_float s =
     (case map lower_char (py_strip s) of
        [] \<Rightarrow> None
      | c # r \<Rightarrow>
          if c = CHR ''-'' then
            (if read_magnitude r = Some (Fin 0) then Some (Fin 0) else None)
          else if c = CHR ''+'' then read_magnitude r
          else read_magnitude (c # r))"

fun num_le :: "number \<Rightarrow> number \<Rightarrow> bool" where
  "num_le (Fin a) (Fin b) \<longleftrightarrow> a \<le> b"
| "num_le (Fin a) PosInf \<longleftrightarrow> True"
| "num_le PosInf (Fin b) \<longleftrightarrow> False"
| "num_le PosInf PosInf \<longleftrightarrow> True"

fun num_times :: "number \<Rightarrow> rat \<Rightarrow> number" where
  "num_times (Fin a) k = Fin (a * k)"
| "num_times PosInf k = PosInf"

section \<open>Constraint types\<close>

datatype cvalue = CStr string | CNum number

datatype conv_error = BadValue | NoLastChar  \<comment> \<open>\<open>ValueError\<close>; \<open>s[-1]\<close> of an empty string\<close>

record constraint_type =
  ct_name :: string
  ct_default :: "string option"
  ct_converter :: "string \<Rightarrow> conv_error + cvalue"
  ct_comparer :: "cvalue \<Rightarrow> cvalue \<Rightarrow> bool"
  ct_visible :: bool

datatype constraint_error =
    BadConstraint string string
  | BadIndex
  | UnknownConstraint string
  | NotAnAssignment string
  | ComputedConstraint string
  | Ambiguous string string
  | NoSuchConstraint string  \<comment> \<open>\<open>KeyError\<close>\<close>

definition convert :: "constraint_type \<Rightarrow> string option \<Rightarrow> constraint_error + cvalue option" where
  "convert t s =
     (case s of
        None \<Rightarrow> Inr None
      | Some s \<Rightarrow>
          (case ct_converter t s of
             Inr v \<Rightarrow> Inr (Some v)
           | Inl BadValue \<Rightarrow> Inl (BadConstraint (ct_name t) s)
           | Inl NoLastChar \<Rightarrow> Inl BadIndex))"

definition type_can_satisfy :: "constraint_type \<Rightarrow> cvalue \<Rightarrow> cvalue \<Rightarrow> bool" where
  "type_can_satisfy t candidate benchmark = ct_comparer t candidate benchmark"

section \<open>Generic converters\<close>

definition dont_convert :: "string \<Rightarrow> conv_error + cvalue" where
  "dont_convert s = Inr (CStr s)"

definition VALID_ARCHS :: "string list" where
  "VALID_ARCHS = [''i386'', ''amd64'', ''arm'']"

definition convert_arch :: "string \<Rightarrow> conv_error + cvalue" where
  "convert_arch s = (if s \<in> set VALID_ARCHS then Inr (CStr s) else Inl BadValue)"

definition convert_cpu :: "string \<Rightarrow> conv_error + cvalue" where
  "convert_cpu s = (case read_float s of None \<Rightarrow> Inl BadValue | Some v \<Rightarrow> Inr (CNum v))"

definition MEM_SUFFIXES :: "(char, rat) dict" where
  "MEM_SUFFIXES = [(CHR ''M'', 1), (CHR ''G'', 1024), (CHR ''T'', 1024 * 1024)]"

definition convert_mem :: "string \<Rightarrow> conv_error + cvalue" where
  "convert_mem s =
     (if s = [] then Inl NoLastChar
      else case dget MEM_SUFFIXES (last s) of
        Some k \<Rightarrow>
          (case read_float (butlast s) of
             None \<Rightarrow> Inl BadValue
           | Some v \<Rightarrow> Inr (CNum (num_times v k)))
      | None \<Rightarrow> (case read_float s of None \<Rightarrow> Inl BadValue | Some v \<Rightarrow> Inr (CNum v)))"

definition convert_instance_type :: "string list \<Rightarrow> string \<Rightarrow> conv_error + cvalue" where
  "convert_instance_type names s = (if s \<in> set names then Inr (CStr s) else Inl BadValue)"

text \<open>\<open>operator.eq\<close> and \<open>operator.ge\<close>; the second compares numbers only where it is registered.\<close>

definition op_eq :: "cvalue \<Rightarrow> cvalue \<Rightarrow> bool" where
  "op_eq a b \<longleftrightarrow> a = b"

fun op_ge :: "cvalue \<Rightarrow> cvalue \<Rightarrow> bool" where
  "op_ge (CNum a) (CNum b) \<longleftrightarrow> num_le b a"
| "op_ge (CStr a) (CStr b) \<longleftrightarrow> b \<le> a"
| "op_ge (CStr a) (CNum b) \<longleftrightarrow> True"
| "op_ge (CNum a) (CStr b) \<longleftrightarrow> False"

section \<open>Constraint sets\<close>

record constraint_set =
  cs_provider_type :: string
  cs_registry :: "(string, constraint_type) dict"
  cs_conflicts :: "(string, string list) dict"

definition register ::
  "string \<Rightarrow> string option \<Rightarrow> (string \<Rightarrow> conv_error + cvalue) \<Rightarrow> (cvalue \<Rightarrow> cvalue \<Rightarrow> bool) \<Rightarrow> bool
     \<Rightarrow> constraint_set \<Rightarrow> constraint_set" where
  "register name dflt converter comparer visible cs =
     cs\<lparr>cs_registry := dset name \<lparr>ct_name = name, ct_default = dflt, ct_converter = converter,
                                  ct_comparer = comparer, ct_visible = visible\<rparr> (cs_registry cs),
        cs_conflicts := dset name [] (cs_conflicts cs)\<rparr>"

definition new_constraint_set :: "string \<Rightarrow> constraint_set" where
  "new_constraint_set provider_type =
     register ''provider-type'' None dont_convert op_eq False
       (register ''ubuntu-series'' None dont_convert op_eq False
         \<lparr>cs_provider_type = provider_type, cs_registry = [], cs_conflicts = []\<rparr>)"

text \<open>\<open>self._conflicts[name].update(others)\<close>\<close>

definition add_conflicts :: "string list \<Rightarrow> string \<Rightarrow> constraint_set \<Rightarrow> constraint_error + constraint_set" where
  "add_conflicts others name cs =
     (case dget (cs_conflicts cs) name of
        None \<Rightarrow> Inl (NoSuchConstraint name)
      | Some old \<Rightarrow> Inr (cs\<lparr>cs_conflicts := dset name (old @ others) (cs_conflicts cs)\<rparr>))"

definition register_conflicts :: "string list \<Rightarrow> string list \<Rightarrow> constraint_set \<Rightarrow> constraint_error + constraint_set" where
  "register_conflicts reds blues cs =
     rbind (rfold (add_conflicts blues) reds cs) (rfold (add_conflicts reds) blues)"

definition register_generics :: "string list \<Rightarrow> constraint_set \<Rightarrow> constraint_error + constraint_set" where
  "register_generics instance_type_names cs =
     (let cs1 = register ''mem'' (Some ''512M'') convert_mem op_ge True
                  (register ''cpu'' (Some ''1'') convert_cpu op_ge True
                    (register ''arch'' (Some ''amd64'') convert_arch op_eq True cs))
      in if instance_type_names = [] then Inr cs1
         else register_conflicts [''cpu'', ''mem''] [''instance-type'']
                (register ''instance-type'' None (convert_instance_type instance_type_names) op_eq True cs1))"

definition names :: "constraint_set \<Rightarrow> string list" where
  "names cs = dkeys (cs_registry cs)"

definition get_type :: "constraint_set \<Rightarrow> string \<Rightarrow> constraint_type option" where
  "get_type cs name = dget (cs_registry cs) name"

section \<open>Constraints\<close>

type_synonym cdata = "(string, string option) dict"

record constraints =
  c_available :: constraint_set
  c_data :: cdata

definition parse_one :: "constraint_set \<Rightarrow> string \<Rightarrow> cdata \<Rightarrow> constraint_error + cdata" where
  "parse_one cs s data =
     (case split_once CHR ''='' s of
        None \<Rightarrow> Inl (NotAnAssignment s)
      | Some (name, value) \<Rightarrow>
          (case get_type cs name of
             None \<Rightarrow> Inl (UnknownConstraint name)
           | Some constraint \<Rightarrow>
               (let v1 = (if value = ''any'' then None else Some value);
                    v2 = (if v1 = Some [] then ct_default constraint else v1)
                in rbind (convert constraint v2) (\<lambda>_.
                   if \<not> ct_visible constraint then Inl (ComputedConstraint name)
                   else Inr (dset name v2 data)))))"

definition conflicts_of :: "constraint_set \<Rightarrow> string \<Rightarrow> string list" where
  "conflicts_of cs name = (case dget (cs_conflicts cs) name of None \<Rightarrow> [] | Some l \<Rightarrow> l)"

text \<open>
  The check of one set constraint: its conflicts must not be in the data, and are collected.
  \<open>sorted\<close> decides which overlap an error names.
\<close>

definition check_conflict :: "cdata \<Rightarrow> string \<Rightarrow> string \<Rightarrow> string list \<Rightarrow> constraint_error + string list" where
  "check_conflict data name conflict acc =
     (if dhas data conflict then Inl (Ambiguous name conflict) else Inr (acc @ [conflict]))"

definition check_conflicts :: "constraint_set \<Rightarrow> cdata \<Rightarrow> string \<Rightarrow> string list \<Rightarrow> constraint_error + string list" where
  "check_conflicts cs data name acc =
     (case dget data name of
        Some (Some _) \<Rightarrow> rfold (check_conflict data name) (sorted_list_of_set (set (conflicts_of cs name))) acc
      | _ \<Rightarrow> Inr acc)"

definition parse_constraints :: "constraint_set \<Rightarrow> string list \<Rightarrow> constraint_error + constraints" where
  "parse_constraints cs strs =
     rbind (rfold (parse_one cs) strs [(''provider-type'', Some (cs_provider_type cs))]) (\<lambda>data.
     rbind (rfold (check_conflicts cs data) (sort (dkeys data)) []) (\<lambda>conflicts.
     Inr \<lparr>c_available = cs, c_data = dupdate data (map (\<lambda>c. (c, None)) conflicts)\<rparr>))"

definition check_loaded :: "constraint_set \<Rightarrow> string \<times> string option \<Rightarrow> constraint_error + unit" where
  "check_loaded cs kv =
     (case get_type cs (fst kv) of
        None \<Rightarrow> Inr ()
      | Some constraint \<Rightarrow> rbind (convert constraint (snd kv)) (\<lambda>_. Inr ()))"

definition load_constraints :: "constraint_set \<Rightarrow> cdata \<Rightarrow> constraint_error + constraints" where
  "load_constraints cs data =
     rbind (rmap (check_loaded cs) data) (\<lambda>_. Inr \<lparr>c_available = cs, c_data = data\<rparr>)"

text \<open>\<open>self[name]\<close>\<close>

definition get_item :: "constraints \<Rightarrow> string \<Rightarrow> constraint_error + cvalue option" where
  "get_item c name =
     (case get_type (c_available c) name of
        None \<Rightarrow> Inl (NoSuchConstraint name)
      | Some constraint \<Rightarrow>
          convert constraint (case dget (c_data c) name of None \<Rightarrow> ct_default constraint | Some v \<Rightarrow> v))"

text \<open>\<open>DictMixin.get\<close>: \<open>None\<close> for a \<open>KeyError\<close>\<close>

definition get_or_none :: "constraints \<Rightarrow> string \<Rightarrow> constraint_error + cvalue option" where
  "get_or_none c name =
     (case get_item c name of Inl (NoSuchConstraint _) \<Rightarrow> Inr None | r \<Rightarrow> r)"

definition with_series :: "constraints \<Rightarrow> string \<Rightarrow> constraint_error + constraints" where
  "with_series c series =
     load_constraints (c_available c) (dset ''ubuntu-series'' (Some series) (c_data c))"

definition complete_constraints :: "constraints \<Rightarrow> constraint_error + bool" where
  "complete_constraints c =
     rbind (get_or_none c ''provider-type'') (\<lambda>p.
     rbind (get_or_none c ''ubuntu-series'') (\<lambda>s. Inr (p \<noteq> None \<and> s \<noteq> None)))"

definition update_constraints :: "constraints \<Rightarrow> constraints \<Rightarrow> constraints" where
  "update_constraints c other = c\<lparr>c_data := dupdate (c_data c) (c_data other)\<rparr>"

text \<open>\<open>other.items()\<close>\<close>

definition items :: "constraints \<Rightarrow> constraint_error + (string \<times> cvalue option) list" where
  "items c = rmap (\<lambda>name. rbind (get_item c name) (\<lambda>v. Inr (name, v))) (names (c_available c))"

fun satisfies_all :: "constraints \<Rightarrow> (string \<times> cvalue option) list \<Rightarrow> constraint_error + bool" where
  "satisfies_all c [] = Inr True"
| "satisfies_all c ((name, unit_value) # rest) =
     (case unit_value of
        None \<Rightarrow> satisfies_all c rest
      | Some u \<Rightarrow>
          rbind (get_item c name) (\<lambda>machine_value.
          case machine_value of
            None \<Rightarrow> Inr False
          | Some mv \<Rightarrow>
              (case get_type (c_available c) name of
                 None \<Rightarrow> Inl (NoSuchConstraint name)
               | Some constraint \<Rightarrow>
                   if type_can_satisfy constraint mv u then satisfies_all c rest else Inr False)))"

definition can_satisfy :: "constraints \<Rightarrow> constraints \<Rightarrow> constraint_error + bool" where
  "can_satisfy c other =
     rbind (complete_constraints c) (\<lambda>a.
     if \<not> a then Inr False
     else rbind (complete_constraints other) (\<lambda>b.
       if \<not> b then Inr False else rbind (items other) (satisfies_all c)))"

end
