(* ===== verification/ConstraintsProps.thy ===== *)
theory ConstraintsProps
  imports Constraints
begin

text \<open>
  Properties of constraints: overlapping constraints never end up set together, however layers are
  combined, and \<open>can_satisfy\<close> is a preorder on complete constraints.
\<close>

section \<open>Conflicts\<close>

definition conflict_closed :: "constraint_set \<Rightarrow> cdata \<Rightarrow> bool" where
  "conflict_closed cs d \<longleftrightarrow> (\<forall>a b v. dget d a = Some (Some v) \<longrightarrow> b \<in> set (conflicts_of cs a) \<longrightarrow> dget d b = Some None)"

definition conflicts_symmetric :: "constraint_set \<Rightarrow> bool" where
  "conflicts_symmetric cs \<longleftrightarrow> (\<forall>a b. b \<in> set (conflicts_of cs a) \<longrightarrow> a \<in> set (conflicts_of cs b))"

lemma dget_dupdate_None:
  "dget (dupdate d (map (\<lambda>c. (c, None)) cs)) k = (if k \<in> set cs then Some None else dget d k)"
  by (induction cs arbitrary: d) (auto simp: dupdate_Cons dget_dset)

lemma check_conflict_fold:
  "rfold (check_conflict data name) cs acc = Inr acc' \<longleftrightarrow>
     (\<forall>c \<in> set cs. \<not> dhas data c) \<and> acc' = acc @ cs"
  by (induction cs arbitrary: acc) (auto simp: check_conflict_def result_simps)

lemma check_conflicts_step:
  assumes "check_conflicts cs data name acc = Inr acc'"
  shows "set acc \<subseteq> set acc' \<and> (\<forall>v. dget data name = Some (Some v) \<longrightarrow> set (conflicts_of cs name) \<subseteq> set acc')"
  using assms by (auto simp: check_conflicts_def check_conflict_fold split: option.splits)

lemma check_conflicts_all:
  assumes "rfold (check_conflicts cs data) ns acc = Inr acc'"
  shows "set acc \<subseteq> set acc' \<and>
     (\<forall>name \<in> set ns. \<forall>v. dget data name = Some (Some v) \<longrightarrow> set (conflicts_of cs name) \<subseteq> set acc')"
  using assms
proof (induction ns arbitrary: acc)
  case Nil
  then show ?case by simp
next
  case (Cons n ns)
  then obtain acc1 where acc1: "check_conflicts cs data n acc = Inr acc1"
      "rfold (check_conflicts cs data) ns acc1 = Inr acc'"
    by (auto simp: result_simps)
  from check_conflicts_step [OF acc1(1)] Cons.IH [OF acc1(2)] show ?case by fastforce
qed

lemma parse_closed:
  assumes "parse_constraints cs strs = Inr c"
  shows "c_available c = cs \<and> conflict_closed cs (c_data c)"
proof -
  obtain data conflicts where
    conf: "rfold (check_conflicts cs data) (sort (dkeys data)) [] = Inr conflicts"
    and c: "c = \<lparr>c_available = cs, c_data = dupdate data (map (\<lambda>c. (c, None)) conflicts)\<rparr>"
    using assms by (auto simp: parse_constraints_def result_simps)
  have "dget (c_data c) b = Some None"
    if a: "dget (c_data c) a = Some (Some v)" and b: "b \<in> set (conflicts_of cs a)" for a b v
  proof -
    have "dget data a = Some (Some v)"
      using a by (auto simp: c dget_dupdate_None split: if_splits)
    moreover have "a \<in> set (sort (dkeys data))"
      using \<open>dget data a = Some (Some v)\<close> by (force dest: map_of_SomeD)
    ultimately have "b \<in> set conflicts" using check_conflicts_all [OF conf] b by blast
    then show ?thesis by (simp add: c dget_dupdate_None)
  qed
  then show ?thesis using c by (auto simp: conflict_closed_def)
qed

lemma parse_dict_wf:
  assumes "parse_constraints cs strs = Inr c"
  shows "dict_wf (c_data c)"
proof -
  obtain data conflicts where data: "rfold (parse_one cs) strs [(''provider-type'', Some (cs_provider_type cs))] = Inr data"
    and c: "c_data c = dupdate data (map (\<lambda>c. (c, None)) conflicts)"
    using assms by (auto simp: parse_constraints_def result_simps)
  have "dict_wf data"
    by (rule rfold_invariant [OF data])
      (auto simp: dict_wf_def parse_one_def result_simps Let_def AList.distinct_update split: option.splits prod.splits if_splits)
  then show ?thesis by (simp add: c)
qed

lemma update_closed:
  assumes "conflict_closed cs d" and "conflict_closed cs d'" and "dict_wf d'" and "conflicts_symmetric cs"
  shows "conflict_closed cs (dupdate d d')"
  unfolding conflict_closed_def
proof (intro allI impI)
  fix a b v
  assume a: "dget (dupdate d d') a = Some (Some v)" and b: "b \<in> set (conflicts_of cs a)"
  have ab: "a \<in> set (conflicts_of cs b)" using b assms(4) by (simp add: conflicts_symmetric_def)
  show "dget (dupdate d d') b = Some None"
  proof (cases "dget d' a")
    case (Some x)
    then have "dget d' b = Some None"
      using a b assms(2) unfolding dget_dupdate [OF assms(3)] conflict_closed_def by auto
    then show ?thesis by (simp add: dget_dupdate [OF assms(3)])
  next
    case None
    then have "dget d b = Some None"
      using a b assms(1) unfolding dget_dupdate [OF assms(3)] conflict_closed_def by auto
    moreover have "dget d' b \<noteq> Some (Some w)" for w
      using None ab assms(2) by (auto simp: conflict_closed_def)
    ultimately show ?thesis
      by (cases "dget d' b") (auto simp: dget_dupdate [OF assms(3)])
  qed
qed

lemma conflicts_register:
  "conflicts_of (register name dflt conv cmp vis cs) n = (if n = name then [] else conflicts_of cs n)"
  by (simp add: register_def conflicts_of_def dget_dset)

lemma conflicts_new [simp]: "conflicts_of (new_constraint_set p) n = []"
  by (simp add: new_constraint_set_def register_def conflicts_of_def dget_dset)

lemma conflicts_add:
  "add_conflicts others name cs = Inr cs' \<Longrightarrow>
     conflicts_of cs' n = (if n = name then conflicts_of cs n @ others else conflicts_of cs n)"
  by (auto simp: add_conflicts_def conflicts_of_def dget_dset split: option.splits)

lemma generics_conflicts:
  assumes "register_generics types (new_constraint_set p) = Inr cs"
  shows "conflicts_of cs n =
     (if types = [] then []
      else if n = ''cpu'' \<or> n = ''mem'' then [''instance-type'']
      else if n = ''instance-type'' then [''cpu'', ''mem''] else [])"
proof (cases "types = []")
  case True
  then show ?thesis
    using assms by (auto simp: register_generics_def Let_def conflicts_register)
next
  case False
  define cs0 where "cs0 = register ''instance-type'' None (convert_instance_type types) op_eq True
     (register ''mem'' (Some ''512M'') convert_mem op_ge True
       (register ''cpu'' (Some ''1'') convert_cpu op_ge True
         (register ''arch'' (Some ''amd64'') convert_arch op_eq True (new_constraint_set p))))"
  have none: "conflicts_of cs0 n = []" for n by (simp add: cs0_def conflicts_register)
  have "register_conflicts [''cpu'', ''mem''] [''instance-type''] cs0 = Inr cs"
    using assms False by (simp add: register_generics_def Let_def cs0_def)
  then obtain cs1 cs2 where "add_conflicts [''instance-type''] ''cpu'' cs0 = Inr cs1"
      "add_conflicts [''instance-type''] ''mem'' cs1 = Inr cs2"
      "add_conflicts [''cpu'', ''mem''] ''instance-type'' cs2 = Inr cs"
    by (auto simp: register_conflicts_def result_simps)
  note steps = this [THEN conflicts_add]
  show ?thesis using False none by (simp add: steps)
qed

lemma generics_symmetric:
  "register_generics types (new_constraint_set p) = Inr cs \<Longrightarrow> conflicts_symmetric cs"
  by (auto simp: conflicts_symmetric_def generics_conflicts)

text \<open>
  C22: overlapping constraints are never both set. For a provider's generic constraints, whatever layers
  (environment, service, machine) the user's strings parse to and in whatever order they are laid over
  one another, a set \<open>instance-type\<close> masks \<open>cpu\<close> and \<open>mem\<close> and either of those masks it: the masked
  constraints read as unset.
\<close>

theorem layers_never_overlap:
  assumes "register_generics types (new_constraint_set p) = Inr cs"
    and "list_all2 (\<lambda>strs c. parse_constraints cs strs = Inr c) (strs # others) (c # layers)"
    and "dget (c_data (foldl update_constraints c layers)) a = Some (Some v)"
    and "b \<in> set (conflicts_of cs a)" and "get_type cs b = Some t"
  shows "get_item (foldl update_constraints c layers) b = Inr None"
proof -
  have base: "c_available c = cs" "conflict_closed cs (c_data c)"
    using assms(2) parse_closed by auto
  have "c_available (foldl update_constraints c layers) = cs \<and>
        conflict_closed cs (c_data (foldl update_constraints c layers))"
    if "list_all2 (\<lambda>strs c. parse_constraints cs strs = Inr c) others layers"
      "c_available c = cs" "conflict_closed cs (c_data c)" for c others
    using that
  proof (induction layers arbitrary: c others rule: list.induct)
    case Nil
    then show ?case by simp
  next
    case (Cons l ls)
    then obtain s1 ss where l: "parse_constraints cs s1 = Inr l" and ls: "list_all2 (\<lambda>strs c. parse_constraints cs strs = Inr c) ss ls"
      by (auto simp: list_all2_Cons2)
    have "conflict_closed cs (c_data (update_constraints c l))"
      using update_closed [OF Cons.prems(3) _ parse_dict_wf [OF l] generics_symmetric [OF assms(1)]]
        parse_closed [OF l] by (simp add: update_constraints_def)
    then show ?case using Cons.IH [OF ls] Cons.prems(2) by (simp add: update_constraints_def)
  qed
  from this [of others c] base assms(2) have
    "c_available (foldl update_constraints c layers) = cs"
    "conflict_closed cs (c_data (foldl update_constraints c layers))" by auto
  then show ?thesis
    using assms(3-5) by (auto simp: get_item_def conflict_closed_def convert_def)
qed

definition ec2_constraints :: "constraint_error + constraint_set" where
  "ec2_constraints = register_generics [''m1.small''] (new_constraint_set ''ec2'')"

lemma ec2_cpu: "\<exists>cs t. ec2_constraints = Inr cs \<and> get_type cs ''cpu'' = Some t \<and> ''cpu'' \<in> set (conflicts_of cs ''instance-type'')"
proof -
  have "(case ec2_constraints of Inl e \<Rightarrow> False | Inr cs \<Rightarrow> get_type cs ''cpu'' \<noteq> None \<and> ''cpu'' \<in> set (conflicts_of cs ''instance-type''))"
    by code_simp
  then show ?thesis by (auto split: sum.splits)
qed

definition demo_layers :: "constraint_error + constraints list" where
  "demo_layers = rbind ec2_constraints (\<lambda>cs.
     rmap (parse_constraints cs) [[''cpu=2'', ''mem=1G''], [''instance-type=m1.small'']])"

theorem layers_never_overlap_witness:
  "\<exists>cs c l. ec2_constraints = Inr cs \<and> parse_constraints cs [''cpu=2'', ''mem=1G''] = Inr c
    \<and> parse_constraints cs [''instance-type=m1.small''] = Inr l
    \<and> get_item (update_constraints c l) ''cpu'' = Inr None"
proof -
  have run: "(case demo_layers of Inr [c, l] \<Rightarrow>
      dget (c_data (update_constraints c l)) ''instance-type'' = Some (Some ''m1.small'') | _ \<Rightarrow> False)"
    by code_simp
  obtain cs t where cs: "ec2_constraints = Inr cs" "get_type cs ''cpu'' = Some t"
      "''cpu'' \<in> set (conflicts_of cs ''instance-type'')"
    using ec2_cpu by blast
  obtain c l where cl: "demo_layers = Inr [c, l]"
      "dget (c_data (update_constraints c l)) ''instance-type'' = Some (Some ''m1.small'')"
    using run by (auto split: sum.splits list.splits)
  have "rmap (parse_constraints cs) [[''cpu=2'', ''mem=1G''], [''instance-type=m1.small'']] = Inr [c, l]"
    using cl(1) unfolding demo_layers_def cs(1) rbind.simps .
  then have p: "parse_constraints cs [''cpu=2'', ''mem=1G''] = Inr c"
      "parse_constraints cs [''instance-type=m1.small''] = Inr l"
    by (simp_all add: rmap_eq_Inr del: rmap.simps)
  from layers_never_overlap [OF cs(1) [unfolded ec2_constraints_def], of "[''cpu=2'', ''mem=1G'']"
      "[[''instance-type=m1.small'']]" c "[l]", OF _ _ cs(3,2)] cl(2) p cs(1)
  show ?thesis by auto
qed

section \<open>Satisfying\<close>

definition comparers_ok :: "constraint_set \<Rightarrow> bool" where
  "comparers_ok cs \<longleftrightarrow> (\<forall>name t. get_type cs name = Some t \<longrightarrow>
     (\<forall>a. ct_comparer t a a) \<and>
     (\<forall>a b c. ct_comparer t a b \<longrightarrow> ct_comparer t b c \<longrightarrow> ct_comparer t a c))"

lemma num_le_refl [simp]: "num_le a a"
  by (cases a) simp_all

lemma num_le_trans: "num_le a b \<Longrightarrow> num_le b c \<Longrightarrow> num_le a c"
  by (cases a; cases b; cases c) auto

lemma op_ge_refl [simp]: "op_ge a a"
  by (cases a) simp_all

lemma op_ge_trans: "op_ge a b \<Longrightarrow> op_ge b c \<Longrightarrow> op_ge a c"
  by (cases a; cases b; cases c) (auto intro: num_le_trans)

lemma comparers_register:
  assumes "comparers_ok cs" and "cmp = op_eq \<or> cmp = op_ge"
  shows "comparers_ok (register name dflt conv cmp vis cs)"
  using assms op_ge_trans unfolding comparers_ok_def
  by (auto simp: register_def get_type_def dget_dset op_eq_def)

lemma comparers_new: "comparers_ok (new_constraint_set p)"
  unfolding new_constraint_set_def
  by (intro comparers_register) (simp_all add: comparers_ok_def get_type_def)

lemma comparers_conflicts: "register_conflicts reds blues cs = Inr cs' \<Longrightarrow> cs_registry cs' = cs_registry cs"
proof -
  have add: "rfold (add_conflicts others) ns cs = Inr cs' \<Longrightarrow> cs_registry cs' = cs_registry cs" for others ns cs cs'
    by (induction ns arbitrary: cs) (auto simp: result_simps add_conflicts_def split: option.splits)
  show "register_conflicts reds blues cs = Inr cs' \<Longrightarrow> cs_registry cs' = cs_registry cs"
    by (auto simp: register_conflicts_def result_simps dest!: add)
qed

lemma comparers_registry: "cs_registry cs' = cs_registry cs \<Longrightarrow> comparers_ok cs' = comparers_ok cs"
  by (simp add: comparers_ok_def get_type_def)

lemma generics_comparers:
  assumes "register_generics types (new_constraint_set p) = Inr cs"
  shows "comparers_ok cs"
proof -
  have base: "comparers_ok (register ''mem'' (Some ''512M'') convert_mem op_ge True
                  (register ''cpu'' (Some ''1'') convert_cpu op_ge True
                    (register ''arch'' (Some ''amd64'') convert_arch op_eq True (new_constraint_set p))))" (is "comparers_ok ?cs")
    by (intro comparers_register comparers_new) simp_all
  have inst: "comparers_ok (register ''instance-type'' None (convert_instance_type types) op_eq True ?cs)"
    by (intro comparers_register base) simp
  show ?thesis
  proof (cases "types = []")
    case True
    then have "cs = ?cs" using assms unfolding register_generics_def Let_def by simp
    with base show ?thesis by simp
  next
    case False
    then have "register_conflicts [''cpu'', ''mem''] [''instance-type'']
        (register ''instance-type'' None (convert_instance_type types) op_eq True ?cs) = Inr cs"
      using assms unfolding register_generics_def Let_def by simp
    from comparers_registry [OF comparers_conflicts [OF this]] inst show ?thesis by simp
  qed
qed

lemma satisfies_step:
  "satisfies_all c ((name, v) # rest) = Inr True \<longleftrightarrow>
     (\<forall>u. v = Some u \<longrightarrow> (\<exists>mv t. get_item c name = Inr (Some mv) \<and> get_type (c_available c) name = Some t
        \<and> ct_comparer t mv u)) \<and> satisfies_all c rest = Inr True"
proof (cases v)
  case None
  then show ?thesis by simp
next
  case (Some u)
  show ?thesis
  proof (cases "get_item c name")
    case (Inl e)
    then show ?thesis using Some by simp
  next
    case (Inr mv)
    then show ?thesis
      using Some by (cases mv; cases "get_type (c_available c) name") (simp_all add: type_can_satisfy_def)
  qed
qed

lemma satisfies_all_iff:
  "satisfies_all c l = Inr True \<longleftrightarrow> (\<forall>(name, v) \<in> set l. \<forall>u. v = Some u \<longrightarrow>
     (\<exists>mv t. get_item c name = Inr (Some mv) \<and> get_type (c_available c) name = Some t \<and> ct_comparer t mv u))"
proof (induction l)
  case Nil
  then show ?case by simp
next
  case (Cons nv l)
  then show ?case by (cases nv) (simp only: satisfies_step list.set ball_simps prod.case)
qed

lemma items_iff:
  "items c = Inr l \<longleftrightarrow> list_all2 (\<lambda>name nv. fst nv = name \<and> get_item c name = Inr (snd nv)) (names (c_available c)) l"
proof -
  have "rbind (get_item c name) (\<lambda>v. Inr (name, v)) = Inr nv \<longleftrightarrow> fst nv = name \<and> get_item c name = Inr (snd nv)" for name nv
    by (cases nv) (auto simp: result_simps)
  then show ?thesis by (simp add: items_def result_simps)
qed

lemma items_set:
  assumes "items c = Inr l"
  shows "set l = {(name, v). name \<in> set (names (c_available c)) \<and> get_item c name = Inr v}"
  using assms unfolding items_iff list_all2_conv_all_nth set_conv_nth by (auto simp: prod_eq_iff) (metis prod.collapse sum.inject(2) prod.sel)

text \<open>\<open>can_satisfy\<close> without the loops.\<close>

lemma can_satisfy_iff:
  "can_satisfy c other = Inr True \<longleftrightarrow>
     complete_constraints c = Inr True \<and> complete_constraints other = Inr True \<and>
     (\<forall>name \<in> set (names (c_available other)). \<exists>v. get_item other name = Inr v \<and>
        (\<forall>u. v = Some u \<longrightarrow> (\<exists>mv t. get_item c name = Inr (Some mv) \<and>
           get_type (c_available c) name = Some t \<and> ct_comparer t mv u)))"
  (is "?lhs \<longleftrightarrow> complete_constraints c = Inr True \<and> complete_constraints other = Inr True \<and> ?all")
proof -
  have "(\<exists>l. items other = Inr l \<and> satisfies_all c l = Inr True) \<longleftrightarrow> ?all"
  proof
    assume "\<exists>l. items other = Inr l \<and> satisfies_all c l = Inr True"
    then obtain l where l: "items other = Inr l" "satisfies_all c l = Inr True" by blast
    have "\<exists>v. (name, v) \<in> set l" if "name \<in> set (names (c_available other))" for name
    proof -
      have "map fst l = names (c_available other)"
        using l(1) unfolding items_iff by (simp add: list_all2_conv_all_nth list_eq_iff_nth_eq)
      then have "name \<in> fst ` set l" using that by (metis list.set_map)
      then show ?thesis by force
    qed
    then show ?all
      using l(2) items_set [OF l(1)] unfolding satisfies_all_iff by blast
  next
    assume all: ?all
    have "\<exists>l. list_all2 (\<lambda>name nv. fst nv = name \<and> get_item other name = Inr (snd nv)) ns l"
      if "\<forall>name \<in> set ns. \<exists>v. get_item other name = Inr v" for ns
      using that
    proof (induction ns)
      case Nil
      then show ?case by simp
    next
      case (Cons n ns)
      then obtain v l where "get_item other n = Inr v"
          "list_all2 (\<lambda>name nv. fst nv = name \<and> get_item other name = Inr (snd nv)) ns l" by auto
      then show ?case by (intro exI [of _ "(n, v) # l"]) simp
    qed
    then obtain l where l: "items other = Inr l" using all unfolding items_iff by blast
    then have "satisfies_all c l = Inr True"
      unfolding satisfies_all_iff items_set [OF l] using all by fastforce
    with l show "\<exists>l. items other = Inr l \<and> satisfies_all c l = Inr True" by blast
  qed
  then show ?thesis
    by (auto simp: can_satisfy_def result_simps split: if_splits)
qed

text \<open>
  Placing by constraints is a preorder. For a provider's generic constraints, a complete
  constraint that reads without error satisfies itself, and a machine that can stand in for a second
  one can take every unit the second one can.
\<close>

theorem can_satisfy_preorder:
  assumes "register_generics types (new_constraint_set p) = Inr cs"
    and "c_available a = cs" "c_available b = cs" "c_available c = cs"
  shows "(complete_constraints a = Inr True \<longrightarrow> (\<forall>name \<in> set (names cs). \<exists>v. get_item a name = Inr v) \<longrightarrow> can_satisfy a a = Inr True)
    \<and> (can_satisfy a b = Inr True \<longrightarrow> can_satisfy b c = Inr True \<longrightarrow> can_satisfy a c = Inr True)"
proof -
  note cmp = generics_comparers [OF assms(1), unfolded comparers_ok_def]
  have type: "\<exists>t. get_type cs name = Some t" if "name \<in> set (names cs)" for name
    using that by (cases "get_type cs name") (auto simp: names_def get_type_def map_of_eq_None_iff)
  have "can_satisfy a a = Inr True"
    if "complete_constraints a = Inr True" "\<forall>name \<in> set (names cs). \<exists>v. get_item a name = Inr v"
    using that type cmp assms(2) unfolding can_satisfy_iff by metis
  moreover have "can_satisfy a c = Inr True" if "can_satisfy a b = Inr True" "can_satisfy b c = Inr True"
  proof -
    have "\<exists>v. get_item c name = Inr v \<and>
        (\<forall>u. v = Some u \<longrightarrow> (\<exists>mv t. get_item a name = Inr (Some mv) \<and>
           get_type cs name = Some t \<and> ct_comparer t mv u))" if n: "name \<in> set (names cs)" for name
    proof -
      obtain v where v: "get_item c name = Inr v"
        "\<forall>u. v = Some u \<longrightarrow> (\<exists>mv t. get_item b name = Inr (Some mv) \<and> get_type cs name = Some t \<and> ct_comparer t mv u)"
        using \<open>can_satisfy b c = Inr True\<close> n assms(3,4) unfolding can_satisfy_iff by metis
      obtain w where w: "get_item b name = Inr w"
        "\<forall>u. w = Some u \<longrightarrow> (\<exists>mv t. get_item a name = Inr (Some mv) \<and> get_type cs name = Some t \<and> ct_comparer t mv u)"
        using \<open>can_satisfy a b = Inr True\<close> n assms(2,3) unfolding can_satisfy_iff by metis
      show ?thesis
      proof (cases v)
        case None
        then show ?thesis using v(1) by simp
      next
        case (Some u)
        then show ?thesis using v w cmp by (metis option.inject sum.inject(2))
      qed
    qed
    then show ?thesis
      using that assms(2,4) unfolding can_satisfy_iff by simp
  qed
  ultimately show ?thesis by blast
qed

definition demo_machine :: "constraint_error + constraints" where
  "demo_machine = rbind ec2_constraints (\<lambda>cs.
     rbind (parse_constraints cs [''arch=i386'']) (\<lambda>c. with_series c ''precise''))"

lemma demo_machine_ok:
  "\<exists>cs c. ec2_constraints = Inr cs \<and> demo_machine = Inr c \<and> c_available c = cs \<and> complete_constraints c = Inr True
     \<and> (\<forall>name \<in> set (names cs). \<exists>v. get_item c name = Inr v)"
proof -
  have run: "(case ec2_constraints of Inl e \<Rightarrow> False | Inr cs \<Rightarrow>
      (case demo_machine of Inl e \<Rightarrow> False | Inr c \<Rightarrow> complete_constraints c = Inr True
        \<and> list_all (\<lambda>name. case get_item c name of Inl e \<Rightarrow> False | Inr v \<Rightarrow> True) (names cs)))"
    by code_simp
  then obtain cs c where c: "ec2_constraints = Inr cs" "demo_machine = Inr c" "complete_constraints c = Inr True"
      "list_all (\<lambda>name. case get_item c name of Inl e \<Rightarrow> False | Inr v \<Rightarrow> True) (names cs)"
    by (auto split: sum.splits)
  have "c_available c = cs"
    using c(2) by (auto simp: demo_machine_def c(1) result_simps with_series_def load_constraints_def dest!: parse_closed)
  moreover have "\<exists>v. get_item c name = Inr v" if "name \<in> set (names cs)" for name
    using c(4) that by (cases "get_item c name") (auto simp: list_all_iff)
  ultimately show ?thesis using c by blast
qed

theorem can_satisfy_preorder_witness:
  "\<exists>c. demo_machine = Inr c \<and> can_satisfy c c = Inr True"
proof -
  obtain cs c where c: "ec2_constraints = Inr cs" "demo_machine = Inr c" "c_available c = cs" "complete_constraints c = Inr True"
     "\<forall>name \<in> set (names cs). \<exists>v. get_item c name = Inr v"
    using demo_machine_ok by blast
  with can_satisfy_preorder [OF c(1) [unfolded ec2_constraints_def] c(3) c(3) c(3)] show ?thesis by blast
qed

section \<open>Memory sizes\<close>

lemma lower_digits: "list_all is_digit s \<Longrightarrow> map lower_char s = s"
proof (induction s)
  case (Cons c s)
  have "lower_char c = c" using Cons.prems by (auto simp: is_digit_def lower_char_def)
  with Cons show ?case by simp
qed simp

lemma read_float_nat: "read_float (show_nat n) = Some (Fin (of_nat n))"
proof -
  have d: "list_all is_digit (show_nat n)" by (rule show_nat_digits)
  obtain c r where cr: "show_nat n = c # r" using show_nat_not_Nil by (cases "show_nat n") auto
  have dig: "is_digit c" using d by (simp add: cr)
  have "c \<noteq> CHR ''i''" "c \<noteq> CHR ''-''" "c \<noteq> CHR ''+''" using dig by (auto simp: is_digit_def)
  moreover have "split_once CHR ''e'' (c # r) = None" "split_once CHR ''.'' (c # r) = None"
    using show_nat_no [of _ n] by (simp_all only: cr [symmetric] split_once_None) (simp_all add: is_digit_def)
  moreover have "py_isdigit (c # r)" "read_nat (c # r) = n"
    using py_isdigit_show_nat [of n] read_show_nat [of n] by (simp_all only: cr)
  ultimately have mag: "read_magnitude (c # r) = Some (Fin (of_nat n))"
    by (simp add: read_magnitude_def read_decimal_def del: split_once.simps)
  have "map lower_char (py_strip (c # r)) = c # r"
    using d by (simp only: cr [symmetric] strip_digits lower_digits)
  then show ?thesis
    using mag \<open>c \<noteq> CHR ''-''\<close> \<open>c \<noteq> CHR ''+''\<close> by (simp add: read_float_def cr)
qed

text \<open>
  Memory is counted in megabytes. A whole number with \<open>M\<close>, \<open>G\<close> or \<open>T\<close>, or none, is read as that
  many units of 1, 1024, 1024 * 1024 or 1 megabytes; a size without a unit so equals one in \<open>M\<close>.
\<close>

theorem memory_units:
  "convert_mem (show_nat n @ ''M'') = Inr (CNum (Fin (of_nat n)))
    \<and> convert_mem (show_nat n @ ''G'') = Inr (CNum (Fin (of_nat (1024 * n))))
    \<and> convert_mem (show_nat n @ ''T'') = Inr (CNum (Fin (of_nat (1024 * (1024 * n)))))
    \<and> convert_mem (show_nat n) = Inr (CNum (Fin (of_nat n)))"
proof -
  have "last (show_nat n) \<in> set (show_nat n)" by simp
  then have "is_digit (last (show_nat n))"
    using show_nat_digits [of n] by (simp only: list_all_iff)
  then have "last (show_nat n) \<noteq> CHR ''M''" "last (show_nat n) \<noteq> CHR ''G''" "last (show_nat n) \<noteq> CHR ''T''"
    by (auto simp: is_digit_def)
  then show ?thesis
    by (simp add: convert_mem_def MEM_SUFFIXES_def read_float_nat mult.commute mult.left_commute)
qed

end
