(* ===== verification/Schema.thy ===== *)
theory Schema
  imports PyStrings Complex_Main
begin

text \<open>
  \<open>juju/lib/schema.py\<close>: schemas that validate and convert dict-based values (charm metadata and
  configuration, environments).

  \<open>pyval\<close> are the Python values a YAML document can hold. A float is its exact value. \<open>repr\<close>, \<open>str\<close>,
  the decoding of byte strings and the syntax check of regular expressions are in \<open>schema_env\<close>.

  The sources pass the path to the current value as one mutable list: \<open>List\<close> and \<open>Tuple\<close> extend it and
  restore it, \<open>Dict\<close> and \<open>KeyDict\<close> work on a copy. An exception holds a reference to the list, and
  \<open>OneOf\<close> compares lengths of such lists after they were restored. \<open>Shared\<close> is a reference to the list
  of the caller, \<open>Own\<close> one to a copy.
\<close>

section \<open>Values\<close>

datatype pyval =
    PNone
  | PBool bool
  | PInt int
  | PFloat rat
  | PStr string
  | PUnicode "nat list"
  | PList "pyval list"
  | PTuple "pyval list"
  | PDict "(pyval \<times> pyval) list"
  | PRegex pyval

definition as_number :: "pyval \<Rightarrow> rat option" where
  "as_number v =
     (case v of
        PBool b \<Rightarrow> Some (if b then 1 else 0)
      | PInt i \<Rightarrow> Some (of_int i)
      | PFloat q \<Rightarrow> Some q
      | _ \<Rightarrow> None)"

definition as_text :: "pyval \<Rightarrow> nat list option" where
  "as_text v =
     (case v of
        PStr s \<Rightarrow> Some (map of_char s)
      | PUnicode u \<Rightarrow> Some u
      | _ \<Rightarrow> None)"

definition ascii :: "nat list \<Rightarrow> bool" where
  "ascii u \<longleftrightarrow> list_all (\<lambda>n. n < 128) u"

text \<open>Python's \<open>==\<close>: numbers by value, byte and unicode strings equal only if both are ASCII.\<close>

fun py_eq :: "pyval \<Rightarrow> pyval \<Rightarrow> bool" where
  "py_eq PNone w \<longleftrightarrow> w = PNone"
| "py_eq (PBool b) w \<longleftrightarrow> as_number w = Some (if b then 1 else 0)"
| "py_eq (PInt i) w \<longleftrightarrow> as_number w = Some (of_int i)"
| "py_eq (PFloat q) w \<longleftrightarrow> as_number w = Some q"
| "py_eq (PStr s) w \<longleftrightarrow> (case w of PStr t \<Rightarrow> s = t
     | PUnicode u \<Rightarrow> map of_char s = u \<and> ascii u | _ \<Rightarrow> False)"
| "py_eq (PUnicode u) w \<longleftrightarrow> (case w of PStr t \<Rightarrow> u = map of_char t \<and> ascii u
     | PUnicode u' \<Rightarrow> u = u' | _ \<Rightarrow> False)"
| "py_eq (PList xs) w \<longleftrightarrow> (case w of PList ys \<Rightarrow> list_all2 py_eq xs ys | _ \<Rightarrow> False)"
| "py_eq (PTuple xs) w \<longleftrightarrow> (case w of PTuple ys \<Rightarrow> list_all2 py_eq xs ys | _ \<Rightarrow> False)"
| "py_eq (PDict d) w \<longleftrightarrow> (case w of
       PDict d' \<Rightarrow> length d = length d' \<and>
         list_all (\<lambda>(k, v). list_ex (\<lambda>(k', v'). py_eq k k' \<and> py_eq v v') d') d
     | _ \<Rightarrow> False)"
| "py_eq (PRegex r) w \<longleftrightarrow> (case w of PRegex r' \<Rightarrow> py_eq r r' | _ \<Rightarrow> False)"

fun hashable :: "pyval \<Rightarrow> bool" where
  "hashable (PList _) \<longleftrightarrow> False"
| "hashable (PDict _) \<longleftrightarrow> False"
| "hashable (PTuple xs) \<longleftrightarrow> list_all hashable xs"
| "hashable _ \<longleftrightarrow> True"

text \<open>\<open>d[k]\<close> and \<open>d[k] = v\<close>: keys are compared with \<open>==\<close>, a present key stays.\<close>

definition pd_get :: "(pyval \<times> 'v) list \<Rightarrow> pyval \<Rightarrow> 'v option" where
  "pd_get d k = map_option snd (List.find (\<lambda>(k', _). py_eq k' k) d)"

fun pd_set :: "pyval \<Rightarrow> 'v \<Rightarrow> (pyval \<times> 'v) list \<Rightarrow> (pyval \<times> 'v) list" where
  "pd_set k v [] = [(k, v)]"
| "pd_set k v ((k', w) # d) = (if py_eq k' k then (k', v) # d else (k', w) # pd_set k v d)"

section \<open>Errors\<close>

datatype path_ref = Shared | Own "string list"

datatype coerce_error =
    SchemaError string path_ref  \<comment> \<open>the message and what its \<open>path\<close> refers to\<close>
  | PyTypeError
  | PyKeyError

record schema_env =
  en_repr :: "pyval \<Rightarrow> string"
  en_str :: "pyval \<Rightarrow> string option"  \<comment> \<open>\<open>None\<close>: \<open>str\<close> raises \<open>ValueError\<close>\<close>
  en_decode :: "string \<Rightarrow> string \<Rightarrow> nat list option"
  en_regex_ok :: "pyval \<Rightarrow> bool"

definition schema_error :: "string list \<Rightarrow> path_ref \<Rightarrow> string \<Rightarrow> coerce_error + pyval" where
  "schema_error path ref message = Inl (SchemaError (concat path @ '': '' @ message) ref)"

definition expectation :: "schema_env \<Rightarrow> string list \<Rightarrow> string \<Rightarrow> pyval \<Rightarrow> coerce_error + pyval" where
  "expectation en path expected got =
     schema_error path Shared (''expected '' @ expected @ '', got '' @ en_repr en got)"

text \<open>An error that left a callee working on the copy \<open>p\<close>.\<close>

fun own :: "string list \<Rightarrow> coerce_error \<Rightarrow> coerce_error" where
  "own p (SchemaError info Shared) = SchemaError info (Own p)"
| "own p e = e"

definition own_error :: "string list \<Rightarrow> coerce_error + 'a \<Rightarrow> coerce_error + 'a" where
  "own_error p r = map_sum (own p) id r"

fun error_depth :: "string list \<Rightarrow> coerce_error \<Rightarrow> nat" where
  "error_depth path (SchemaError info Shared) = length path"
| "error_depth path (SchemaError info (Own p)) = length p"
| "error_depth path e = 0"

section \<open>Schemas\<close>

datatype schema =
    Constant pyval
  | Anything
  | OneOf "schema list"
  | SBool
  | SInt
  | SFloat
  | SString
  | SUnicode
  | SRegex
  | UnicodeOrString string
  | SList schema
  | STuple "schema list"
  | SDict schema schema
  | KeyDict "(string \<times> schema) list" "string list"
  | SelectDict string "(string \<times> schema) list"
  | OAuthString

text \<open>The loop of \<open>OneOf\<close>: only a \<open>SchemaError\<close> is caught; with no schemas it raises \<open>None\<close>.\<close>

fun one_of :: "string list \<Rightarrow> (schema \<Rightarrow> coerce_error + pyval) \<Rightarrow> coerce_error option \<Rightarrow> schema list
    \<Rightarrow> coerce_error + pyval" where
  "one_of path f best [] = (case best of None \<Rightarrow> Inl PyTypeError | Some e \<Rightarrow> Inl e)"
| "one_of path f best (s # ss) =
     (case f s of
        Inr v \<Rightarrow> Inr v
      | Inl (SchemaError info ref) \<Rightarrow>
          (let be = SchemaError info ref in
           one_of path f
             (case best of
                None \<Rightarrow> Some be
              | Some b \<Rightarrow> if error_depth path be > error_depth path b then Some be else Some b) ss)
      | Inl e \<Rightarrow> Inl e)"

lemma one_of_cong [fundef_cong]:
  assumes "path = path'" "best = best'" "ss = ss'" "\<And>s. s \<in> set ss' \<Longrightarrow> f s = g s"
  shows "one_of path f best ss = one_of path' g best' ss'"
  unfolding assms(1-3) using assms(4)
  by (induction ss' arbitrary: best') (auto simp: Let_def split: sum.splits coerce_error.splits)

definition key_text :: "schema_env \<Rightarrow> pyval \<Rightarrow> string" where
  "key_text en k = (case en_str en k of Some s \<Rightarrow> s | None \<Rightarrow> en_repr en k)"

text \<open>\<open>self.key in value\<close> on the sequences that are not dicts\<close>

definition substring :: "nat list \<Rightarrow> nat list \<Rightarrow> bool" where
  "substring a b \<longleftrightarrow> list_ex (\<lambda>i. take (length a) (drop i b) = a) [0..<Suc (length b)]"

definition in_sequence :: "string \<Rightarrow> pyval \<Rightarrow> bool option" where
  "in_sequence key v =
     (case v of
        PStr s \<Rightarrow> Some (substring (map of_char key) (map of_char s))
      | PUnicode u \<Rightarrow> Some (substring (map of_char key) u)
      | PList xs \<Rightarrow> Some (list_ex (py_eq (PStr key)) xs)
      | PTuple xs \<Rightarrow> Some (list_ex (py_eq (PStr key)) xs)
      | _ \<Rightarrow> None)"

definition is_missing :: "(pyval \<times> pyval) list \<Rightarrow> string list \<Rightarrow> string \<Rightarrow> bool" where
  "is_missing d optional k \<longleftrightarrow> pd_get d (PStr k) = None \<and> k \<notin> set optional"

definition text_keys :: "(string \<times> 's) list \<Rightarrow> (pyval \<times> 's) list" where
  "text_keys ss = map (\<lambda>(k, s). (PStr k, s)) ss"

lemma size_find: "List.find P ss = Some (k, s) \<Longrightarrow> size s < Suc (size_list (size_prod (\<lambda>x. 0) size) ss)"
  by (induction ss) (auto split: if_splits)

lemma size_mem: "s \<in> set ss \<Longrightarrow> size s < Suc (size_list size ss)"
  by (induction ss) auto

function coerce :: "schema_env \<Rightarrow> schema \<Rightarrow> pyval \<Rightarrow> string list \<Rightarrow> coerce_error + pyval" where
  "coerce en (Constant c) v path =
     (if py_eq v c then Inr v else expectation en path (en_repr en c) v)"
| "coerce en Anything v path = Inr v"
| "coerce en (OneOf schemas) v path = one_of path (\<lambda>s. coerce en s v path) None schemas"
| "coerce en SBool v path =
     (case v of PBool _ \<Rightarrow> Inr v | _ \<Rightarrow> expectation en path ''bool'' v)"
| "coerce en SInt v path =
     (case v of PBool _ \<Rightarrow> Inr v | PInt _ \<Rightarrow> Inr v | _ \<Rightarrow> expectation en path ''int'' v)"
| "coerce en SFloat v path =
     (case v of PBool _ \<Rightarrow> Inr v | PInt _ \<Rightarrow> Inr v | PFloat _ \<Rightarrow> Inr v
      | _ \<Rightarrow> expectation en path ''number'' v)"
| "coerce en SString v path =
     (case v of PStr _ \<Rightarrow> Inr v | _ \<Rightarrow> expectation en path ''string'' v)"
| "coerce en SUnicode v path =
     (case v of PUnicode _ \<Rightarrow> Inr v | _ \<Rightarrow> expectation en path ''unicode'' v)"
| "coerce en SRegex v path =
     (case v of
        PRegex _ \<Rightarrow> Inr v
      | PStr _ \<Rightarrow> if en_regex_ok en v then Inr (PRegex v) else expectation en path ''regex'' v
      | PUnicode _ \<Rightarrow> if en_regex_ok en v then Inr (PRegex v) else expectation en path ''regex'' v
      | _ \<Rightarrow> Inl PyTypeError)"
| "coerce en (UnicodeOrString encoding) v path =
     (case v of
        PStr s \<Rightarrow>
          (case en_decode en encoding s of
             Some u \<Rightarrow> Inr (PUnicode u)
           | None \<Rightarrow> expectation en path (''unicode or '' @ encoding @ '' string'') v)
      | PUnicode _ \<Rightarrow> Inr v
      | _ \<Rightarrow> expectation en path (''unicode or '' @ encoding @ '' string'') v)"
| "coerce en (SList s) v path =
     (case v of
        PList vs \<Rightarrow>
          rbind (rmap (\<lambda>(i, x). coerce en s x (path @ [''['', show_nat i, '']''])) (enumerate 0 vs))
            (\<lambda>ws. Inr (PList ws))
      | _ \<Rightarrow> expectation en path ''list'' v)"
| "coerce en (STuple ss) v path =
     (case v of
        PTuple vs \<Rightarrow>
          if length vs \<noteq> length ss
          then expectation en path (''tuple with '' @ show_nat (length ss) @ '' elements'') v
          else rbind (rmap (\<lambda>(i, (s, x)). coerce en s x (path @ [''['', show_nat i, '']''])) (enumerate 0 (zip ss vs)))
                 (\<lambda>ws. Inr (PTuple ws))
      | _ \<Rightarrow> expectation en path ''tuple'' v)"
| "coerce en (SDict ks vs) v path =
     (case v of
        PDict d \<Rightarrow>
          rbind (rmap (\<lambda>(k, x).
              rbind (coerce en ks k path) (\<lambda>k'.
              let value_path = (if path = [] then [key_text en k] else path @ [''.'', key_text en k])
              in rbind (own_error value_path (coerce en vs x value_path)) (\<lambda>x'.
                 if hashable k' then Inr (k', x') else Inl PyTypeError))) d)
            (\<lambda>kvs. Inr (PDict (fold (\<lambda>(k, x) acc. pd_set k x acc) kvs [])))
      | _ \<Rightarrow> expectation en path ''dict'' v)"
| "coerce en (KeyDict ss optional) v path =
     (case v of
        PDict d \<Rightarrow>
          (let base = (if path = [] then [] else path @ [''.'']) in
           rbind (rmap (\<lambda>(k, x).
               case List.find (\<lambda>(k', _). py_eq (PStr k') k) ss of
                 None \<Rightarrow> Inr (k, x)
               | Some (_, s) \<Rightarrow>
                   rbind (own_error (base @ [key_text en k]) (coerce en s x (base @ [key_text en k]))) (\<lambda>x'.
                   Inr (k, x'))) d) (\<lambda>kvs.
           case List.find (\<lambda>(k, _). is_missing d optional k) ss of
             Some (k, _) \<Rightarrow> schema_error (base @ [k]) (Own (base @ [k])) ''required value not found''
           | None \<Rightarrow> Inr (PDict (fold (\<lambda>(k, x) acc. pd_set k x acc) kvs []))))
      | _ \<Rightarrow> expectation en path ''dict'' v)"
| "coerce en (SelectDict key ss) v path =
     (case v of
        PDict d \<Rightarrow>
          (case pd_get d (PStr key) of
             None \<Rightarrow> schema_error (path @ [''.'', key]) (Own (path @ [''.'', key])) ''required value not found''
           | Some selected \<Rightarrow>
               if \<not> hashable selected then Inl PyTypeError
               else case List.find (\<lambda>(k', _). py_eq (PStr k') selected) ss of
                 None \<Rightarrow> Inl PyKeyError
               | Some (_, s) \<Rightarrow> coerce en s v path)
      | _ \<Rightarrow>
          (case in_sequence key v of
             None \<Rightarrow> Inl PyTypeError
           | Some True \<Rightarrow> Inl PyTypeError
           | Some False \<Rightarrow>
               schema_error (path @ [''.'', key]) (Own (path @ [''.'', key])) ''required value not found''))"
| "coerce en OAuthString v path =
     (case v of
        PStr s \<Rightarrow>
          (let parts = map py_strip (py_split CHR '':'' s) in
           if length parts \<noteq> 3 then schema_error path Shared ''does not contain three colon-separated parts''
           else if [] \<in> set parts then schema_error path Shared ''one or more parts are empty''
           else Inr (PTuple (map PStr parts)))
      | _ \<Rightarrow> expectation en path ''string'' v)"
  by pat_completeness auto

termination
  by (relation "measure (\<lambda>(en, s, v, path). size s)")
    (auto simp: in_set_enumerate_eq dest!: size_find intro!: size_mem)

section \<open>Validation leaves values alone\<close>

text \<open>
  A schema converts only at the leaves \<open>Regex\<close>, \<open>UnicodeOrString\<close> and \<open>OAuthString\<close>.
\<close>

fun validating :: "schema \<Rightarrow> bool" where
  "validating SRegex \<longleftrightarrow> False"
| "validating (UnicodeOrString _) \<longleftrightarrow> False"
| "validating OAuthString \<longleftrightarrow> False"
| "validating (OneOf ss) \<longleftrightarrow> list_all validating ss"
| "validating (SList s) \<longleftrightarrow> validating s"
| "validating (STuple ss) \<longleftrightarrow> list_all validating ss"
| "validating (SDict ks vs) \<longleftrightarrow> validating ks \<and> validating vs"
| "validating (KeyDict ss _) \<longleftrightarrow> list_all (\<lambda>(_, s). validating s) ss"
| "validating (SelectDict _ ss) \<longleftrightarrow> list_all (\<lambda>(_, s). validating s) ss"
| "validating _ \<longleftrightarrow> True"

text \<open>The keys of every dict in the value are different for Python.\<close>

fun keys_apart :: "pyval \<Rightarrow> bool" where
  "keys_apart (PList xs) \<longleftrightarrow> list_all keys_apart xs"
| "keys_apart (PTuple xs) \<longleftrightarrow> list_all keys_apart xs"
| "keys_apart (PDict d) \<longleftrightarrow> list_all (\<lambda>(k, v). keys_apart k \<and> keys_apart v) d \<and>
     (\<forall>i < length d. \<forall>j < i. \<not> py_eq (fst (d ! j)) (fst (d ! i)))"
| "keys_apart _ \<longleftrightarrow> True"

lemma fold_pd_set:
  assumes "\<forall>i < length (acc @ d). \<forall>j < i. \<not> py_eq (fst ((acc @ d) ! j)) (fst ((acc @ d) ! i))"
  shows "fold (\<lambda>(k, x) a. pd_set k x a) d acc = acc @ d"
  using assms
proof (induction d arbitrary: acc)
  case Nil
  then show ?case by simp
next
  case (Cons kv d)
  obtain k v where kv: "kv = (k, v)" by (cases kv)
  have "\<forall>j < length acc. \<not> py_eq (fst (acc ! j)) k"
  proof (intro allI impI)
    fix j assume "j < length acc"
    with Cons.prems [rule_format, of "length acc" j] show "\<not> py_eq (fst (acc ! j)) k"
      by (simp add: kv nth_append)
  qed
  then have "pd_set k v acc = acc @ [(k, v)]"
  proof (induction acc)
    case Nil
    then show ?case by simp
  next
    case (Cons a acc)
    from Cons.prems have "\<not> py_eq (fst a) k" and "\<forall>j < length acc. \<not> py_eq (fst (acc ! j)) k"
      by auto
    with Cons.IH show ?case by (cases a) simp
  qed
  with Cons.IH [of "acc @ [kv]"] Cons.prems show ?case by (simp add: kv)
qed

lemma list_all2_eq_nth: "list_all2 (\<lambda>x y. f x = y) xs ys \<longleftrightarrow> ys = map f xs"
  by (auto simp: list_all2_conv_all_nth list_eq_iff_nth_eq)

lemma one_of_Inr:
  "one_of path f best ss = Inr w \<Longrightarrow> \<exists>s \<in> set ss. f s = Inr w"
  by (induction path f best ss rule: one_of.induct) (auto simp: Let_def split: option.splits sum.splits coerce_error.splits)

end
