(* ===== verification/SchemaProps.thy ===== *)
theory SchemaProps
  imports Schema
begin

text \<open>
  Properties of schemas: the path only serves messages, validating schemas return their value, \<open>OneOf\<close>
  reports the deepest error, and what a \<open>KeyDict\<close> accepts.
\<close>

section \<open>The path does not matter\<close>

text \<open>A result up to the text and path of a \<open>SchemaError\<close>.\<close>

fun error_kind :: "coerce_error \<Rightarrow> coerce_error option" where
  "error_kind (SchemaError _ _) = None"
| "error_kind e = Some e"

definition kind :: "coerce_error + 'a \<Rightarrow> coerce_error option + 'a" where
  "kind r = map_sum error_kind id r"

lemma kind_simps [simp]:
  "kind (Inr v) = Inr v" "kind (Inl (SchemaError i p)) = Inl None"
  "kind (Inl PyTypeError) = Inl (Some PyTypeError)" "kind (Inl PyKeyError) = Inl (Some PyKeyError)"
  by (simp_all add: kind_def)

lemma kind_Inr: "kind r = Inr v \<longleftrightarrow> r = Inr v"
  by (cases r) (auto simp: kind_def)

lemma kind_expectation [simp]: "kind (expectation en p m v) = Inl None" "kind (schema_error p r m) = Inl None"
  by (simp_all add: expectation_def schema_error_def kind_def)

lemma kind_own [simp]: "kind (own_error p r) = kind r"
proof (cases r)
  case (Inl e)
  then show ?thesis by (cases "(p, e)" rule: own.cases) (simp_all add: own_error_def)
qed (simp add: own_error_def)

lemma kind_rbind:
  assumes "kind r = kind r'" and "\<And>v. r = Inr v \<Longrightarrow> kind (f v) = kind (g v)"
  shows "kind (rbind r f) = kind (rbind r' g)"
  using assms by (cases r; cases r') (auto simp: kind_def)

lemma kind_rmap:
  assumes "\<And>x. x \<in> set xs \<Longrightarrow> kind (f x) = kind (g x)"
  shows "kind (rmap f xs) = kind (rmap g xs)"
  using assms
proof (induction xs)
  case Nil
  then show ?case by simp
next
  case (Cons x xs)
  then show ?case by (auto intro!: kind_rbind)
qed

text \<open>What \<open>one_of\<close> returns up to messages: the first result that is no \<open>SchemaError\<close>.\<close>

lemma one_of_schema_error:
  assumes "f s = Inl e" and "error_kind e = None" and "\<forall>b. best = Some b \<longrightarrow> error_kind b = None"
  shows "\<exists>b. error_kind b = None \<and> one_of p f best (s # ss) = one_of p f (Some b) ss"
proof -
  obtain i r where e: "e = SchemaError i r" using assms(2) by (cases e) auto
  have "one_of p f best (s # ss) = one_of p f (Some (case best of None \<Rightarrow> e
      | Some b \<Rightarrow> if error_depth p e > error_depth p b then e else b)) ss"
    using assms(1) by (cases best) (simp_all add: Let_def e)
  moreover have "error_kind (case best of None \<Rightarrow> e
      | Some b \<Rightarrow> if error_depth p e > error_depth p b then e else b) = None"
    using assms(2,3) by (cases best) simp_all
  ultimately show ?thesis by blast
qed

lemma one_of_other_error:
  assumes "f s = Inl e" and "error_kind e \<noteq> None"
  shows "one_of p f best (s # ss) = Inl e"
  using assms by (cases e) auto

lemma kind_one_of:
  assumes "\<And>s. s \<in> set ss \<Longrightarrow> kind (f s) = kind (g s)" and "best = None \<longleftrightarrow> best' = None"
    and "\<forall>b. best = Some b \<longrightarrow> error_kind b = None" and "\<forall>b. best' = Some b \<longrightarrow> error_kind b = None"
  shows "kind (one_of p f best ss) = kind (one_of q g best' ss)"
  using assms
proof (induction ss arbitrary: best best')
  case Nil
  then show ?case by (auto simp: kind_def split: option.splits)
next
  case (Cons s ss)
  have same: "kind (f s) = kind (g s)" using Cons.prems(1) by simp
  show ?case
  proof (cases "f s")
    case (Inr v)
    then have "kind (g s) = Inr v" using same by simp
    then have "g s = Inr v" by (simp only: kind_Inr)
    with Inr show ?thesis by simp
  next
    case (Inl e)
    then obtain e' where e': "g s = Inl e'" "error_kind e' = error_kind e"
      using same by (cases "g s") (simp_all add: kind_def)
    show ?thesis
    proof (cases "error_kind e")
      case None
      obtain b where b: "error_kind b = None" "one_of p f best (s # ss) = one_of p f (Some b) ss"
        using one_of_schema_error [of f s e best p ss] Inl None Cons.prems(3) by blast
      obtain b' where b': "error_kind b' = None" "one_of q g best' (s # ss) = one_of q g (Some b') ss"
        using one_of_schema_error [of g s e' best' q ss] e' None Cons.prems(4) by auto
      have "kind (one_of p f (Some b) ss) = kind (one_of q g (Some b') ss)"
        by (rule Cons.IH) (use Cons.prems(1) b(1) b'(1) in auto)
      then show ?thesis by (simp only: b(2) b'(2))
    next
      case (Some x)
      then have "one_of p f best (s # ss) = Inl e" "one_of q g best' (s # ss) = Inl e'"
        using one_of_other_error Inl e' by simp_all
      then show ?thesis using e'(2) by (simp add: kind_def)
    qed
  qed
qed

lemma find_in: "List.find P ss = Some (k, s) \<Longrightarrow> (k, s) \<in> set ss"
  by (simp add: find_SomeD)

lemma coerce_kind: "kind (coerce en s v p) = kind (coerce en s v q)"
proof (induction s arbitrary: v p q)
  case (OneOf ss)
  then show ?case by (auto intro!: kind_one_of)
next
  case (SList s)
  then show ?case by (cases v) (auto intro!: kind_rbind kind_rmap)
next
  case (STuple ss)
  then show ?case
    by (cases v) (auto intro!: kind_rbind kind_rmap dest!: in_set_enumerate_eq [THEN iffD1] simp: set_zip in_set_enumerate_eq)
next
  case (SDict ks vs)
  then show ?case by (cases v) (auto intro!: kind_rbind kind_rmap simp: Let_def)
next
  case (KeyDict ss optional)
  have "kind (rmap (\<lambda>(k, x). case List.find (\<lambda>(k', _). py_eq (PStr k') k) ss of
                 None \<Rightarrow> Inr (k, x)
               | Some (_, s) \<Rightarrow> rbind (own_error (b @ [key_text en k]) (coerce en s x (b @ [key_text en k]))) (\<lambda>x'.
                   Inr (k, x'))) d) =
        kind (rmap (\<lambda>(k, x). case List.find (\<lambda>(k', _). py_eq (PStr k') k) ss of
                 None \<Rightarrow> Inr (k, x)
               | Some (_, s) \<Rightarrow> rbind (own_error (b' @ [key_text en k]) (coerce en s x (b' @ [key_text en k]))) (\<lambda>x'.
                   Inr (k, x'))) d)" for b b' d
    using KeyDict.IH
    by (intro kind_rmap) (force intro!: kind_rbind dest!: find_in split: option.splits)
  then show ?case
    by (cases v) (auto intro!: kind_rbind simp: Let_def split: option.splits)
next
  case (SelectDict key ss)
  then show ?case
    by (cases v) (auto split: option.splits bool.splits dest!: find_in)
qed (auto split: pyval.splits option.splits simp: Let_def)

section \<open>Validation\<close>

lemma enumerate_values:
  assumes "\<And>i x w. x \<in> set xs \<Longrightarrow> f i x = Inr w \<Longrightarrow> w = x"
    and "list_all2 (\<lambda>(i, x) w. f i x = Inr w) (enumerate n xs) ws"
  shows "ws = xs"
  using assms by (induction xs arbitrary: n ws) (auto simp: list_all2_Cons1)

lemma zip_values:
  assumes "\<And>i s x w. (s, x) \<in> set (zip ss xs) \<Longrightarrow> f i s x = Inr w \<Longrightarrow> w = x" and "length xs = length ss"
    and "list_all2 (\<lambda>(i, (s, x)) w. f i s x = Inr w) (enumerate n (zip ss xs)) ws"
  shows "ws = xs"
  using assms(2,1,3)
proof (induction xs ss arbitrary: n ws rule: list_induct2)
  case Nil
  then show ?case by simp
next
  case (Cons x xs y ys)
  then obtain z zs where z: "ws = z # zs" "f n y x = Inr z"
      "list_all2 (\<lambda>(i, (s, x)) w. f i s x = Inr w) (enumerate (Suc n) (zip ys xs)) zs"
    by (auto simp: list_all2_Cons1)
  have "z = x" by (rule Cons.prems(1) [OF _ z(2)]) simp
  moreover have "zs = xs"
    by (rule Cons.IH [OF _ z(3)]) (rule Cons.prems(1), simp_all)
  ultimately show ?case using z(1) by simp
qed

lemma dict_values:
  assumes "\<And>k x w. (k, x) \<in> set d \<Longrightarrow> f k x = Inr w \<Longrightarrow> w = (k, x)"
    and "list_all2 (\<lambda>(k, x) w. f k x = Inr w) d ws"
  shows "ws = d"
  using assms
proof (induction d arbitrary: ws)
  case Nil
  then show ?case by simp
next
  case (Cons kx d)
  obtain k x where kx: "kx = (k, x)" by (cases kx)
  with Cons.prems(2) obtain z zs where z: "ws = z # zs" "f k x = Inr z"
      "list_all2 (\<lambda>(k, x) w. f k x = Inr w) d zs"
    by (auto simp: list_all2_Cons1)
  have "z = (k, x)" by (rule Cons.prems(1) [OF _ z(2)]) (simp add: kx)
  moreover have "zs = d"
    by (rule Cons.IH [OF _ z(3)]) (rule Cons.prems(1), simp_all)
  ultimately show ?case using z(1) kx by simp
qed

lemma own_error_Inr [simp]: "own_error p r = Inr v \<longleftrightarrow> r = Inr v"
  by (cases r) (simp_all add: own_error_def)

lemma expectation_not_Inr [simp]: "expectation en p m v \<noteq> Inr w" "schema_error p r m \<noteq> Inr w"
  by (simp_all add: expectation_def schema_error_def)

lemma fold_pd_set_Nil: "keys_apart (PDict d) \<Longrightarrow> fold (\<lambda>(k, x) a. pd_set k x a) d [] = d"
  using fold_pd_set [of "[]" d] by simp

lemma keys_apart_dictD: "keys_apart (PDict d) \<Longrightarrow> (k, x) \<in> set d \<Longrightarrow> keys_apart k \<and> keys_apart x"
  by (auto simp: list_all_iff)

lemma rmap_prod_eq_Inr:
  "rmap (\<lambda>(a, b). f a b) xs = Inr ys \<longleftrightarrow> list_all2 (\<lambda>(a, b) y. f a b = Inr y) xs ys"
proof -
  have "(\<lambda>x y. (case x of (a, b) \<Rightarrow> f a b) = Inr y) = (\<lambda>(a, b) y. f a b = Inr y)"
    by (simp add: fun_eq_iff split_beta)
  then show ?thesis by (simp add: rmap_eq_Inr)
qed

lemma validating_returns:
  "validating s \<Longrightarrow> keys_apart v \<Longrightarrow> coerce en s v p = Inr w \<Longrightarrow> w = v"
proof (induction s arbitrary: v p w)
  case (OneOf ss)
  then show ?case by (fastforce simp: list_all_iff dest: one_of_Inr)
next
  case (SList s)
  show ?case
  proof (cases v)
    case (PList xs)
    then obtain ws where ws: "w = PList ws"
        "list_all2 (\<lambda>(i, x) w. coerce en s x (p @ [''['', show_nat i, '']'']) = Inr w) (enumerate 0 xs) ws"
      using SList.prems by (auto simp: rbind_eq_Inr rmap_prod_eq_Inr)
    have "ws = xs"
      by (rule enumerate_values [OF _ ws(2)]) (use SList PList in \<open>auto simp: list_all_iff\<close>)
    then show ?thesis using ws PList by simp
  qed (use SList.prems in simp_all)
next
  case (STuple ss)
  show ?case
  proof (cases v)
    case (PTuple xs)
    then have len: "length xs = length ss" using STuple.prems by (auto split: if_splits)
    then obtain ws where ws: "w = PTuple ws"
        "list_all2 (\<lambda>(i, (s, x)) w. coerce en s x (p @ [''['', show_nat i, '']'']) = Inr w) (enumerate 0 (zip ss xs)) ws"
    proof -
      have "rbind (rmap (\<lambda>(i, (s, x)). coerce en s x (p @ [''['', show_nat i, '']''])) (enumerate 0 (zip ss xs)))
                 (\<lambda>ws. Inr (PTuple ws)) = Inr w"
        using STuple.prems(3) PTuple len by simp
      then show thesis
        using that by (auto simp: rbind_eq_Inr rmap_eq_Inr split_def)
    qed
    have "ws = xs"
    proof (rule zip_values [OF _ len ws(2)])
      fix i s x w'
      assume m: "(s, x) \<in> set (zip ss xs)" and r: "coerce en s x (p @ [''['', show_nat i, '']'']) = Inr w'"
      then have "s \<in> set ss" "x \<in> set xs" by (auto dest: set_zip_leftD set_zip_rightD)
      then show "w' = x" using STuple.IH [of s x] STuple.prems PTuple r by (auto simp: list_all_iff)
    qed
    then show ?thesis using ws PTuple by simp
  qed (use STuple.prems in simp_all)
next
  case (SDict ks vs)
  show ?case
  proof (cases v)
    case (PDict d)
    then obtain ws where ws: "w = PDict (fold (\<lambda>(k, x) acc. pd_set k x acc) ws [])"
      "list_all2 (\<lambda>(k, x) w. rbind (coerce en ks k p) (\<lambda>k'.
              let value_path = (if p = [] then [key_text en k] else p @ [''.'', key_text en k])
              in rbind (own_error value_path (coerce en vs x value_path)) (\<lambda>x'.
                 if hashable k' then Inr (k', x') else Inl PyTypeError)) = Inr w) d ws"
      using SDict.prems by (auto simp: rbind_eq_Inr rmap_prod_eq_Inr)
    have "ws = d"
    proof (rule dict_values [OF _ ws(2)])
      fix k x w'
      assume kx: "(k, x) \<in> set d" and r: "rbind (coerce en ks k p) (\<lambda>k'.
              let value_path = (if p = [] then [key_text en k] else p @ [''.'', key_text en k])
              in rbind (own_error value_path (coerce en vs x value_path)) (\<lambda>x'.
                 if hashable k' then Inr (k', x') else Inl PyTypeError)) = Inr w'"
      then obtain k' x' q where "coerce en ks k p = Inr k'" "coerce en vs x q = Inr x'" "w' = (k', x')"
        by (auto simp: rbind_eq_Inr Let_def split: if_splits)
      moreover have "keys_apart k \<and> keys_apart x"
        by (rule keys_apart_dictD [of d]) (use SDict.prems(2) PDict kx in \<open>simp_all only:\<close>)
      moreover have "validating ks" "validating vs" using SDict.prems(1) by (simp_all only: validating.simps)
      ultimately show "w' = (k, x)"
        using SDict.IH(1) [of k p k'] SDict.IH(2) [of x q x'] by (simp only:)
    qed
    then show ?thesis using ws PDict fold_pd_set_Nil SDict.prems(2) by simp
  qed (use SDict.prems in simp_all)
next
  case (KeyDict ss optional)
  show ?case
  proof (cases v)
    case (PDict d)
    let ?base = "if p = [] then [] else p @ [''.'']"
    obtain ws where ws: "w = PDict (fold (\<lambda>(k, x) acc. pd_set k x acc) ws [])"
      "list_all2 (\<lambda>(k, x) w. (case List.find (\<lambda>(k', _). py_eq (PStr k') k) ss of
                 None \<Rightarrow> Inr (k, x)
               | Some (_, s) \<Rightarrow>
                   rbind (own_error (?base @ [key_text en k]) (coerce en s x (?base @ [key_text en k]))) (\<lambda>x'.
                   Inr (k, x'))) = Inr w) d ws"
      using KeyDict.prems(3) PDict by (auto simp: rbind_eq_Inr rmap_prod_eq_Inr Let_def split: option.splits)
    have "ws = d"
    proof (rule dict_values [OF _ ws(2)])
      fix k x w'
      assume kx: "(k, x) \<in> set d" and r: "(case List.find (\<lambda>(k', _). py_eq (PStr k') k) ss of
                 None \<Rightarrow> Inr (k, x)
               | Some (_, s) \<Rightarrow>
                   rbind (own_error (?base @ [key_text en k]) (coerce en s x (?base @ [key_text en k]))) (\<lambda>x'.
                   Inr (k, x'))) = Inr w'"
      show "w' = (k, x)"
      proof (cases "List.find (\<lambda>(k', _). py_eq (PStr k') k) ss")
        case None
        then show ?thesis using r by simp
      next
        case (Some ks)
        then obtain k' s where ks: "ks = (k', s)" "(k', s) \<in> set ss" by (cases ks) (auto dest: find_in)
        with Some r obtain x' where x': "coerce en s x (?base @ [key_text en k]) = Inr x'" "w' = (k, x')"
          by (auto simp: rbind_eq_Inr)
        have "validating s" using KeyDict.prems(1) ks(2) by (auto simp: list_all_iff)
        moreover have "keys_apart x" using kx KeyDict.prems(2) PDict by (auto simp: list_all_iff)
        ultimately have "x' = x" using KeyDict.IH [OF ks(2) _ _ _ x'(1)] by simp
        then show ?thesis using x'(2) by simp
      qed
    qed
    then show ?thesis using ws PDict fold_pd_set_Nil KeyDict.prems(2) by simp
  qed (use KeyDict.prems in simp_all)
next
  case (SelectDict key ss)
  show ?case
  proof (cases v)
    case (PDict d)
    then obtain sel k s where "pd_get d (PStr key) = Some sel"
        "List.find (\<lambda>(k', _). py_eq (PStr k') sel) ss = Some (k, s)" "coerce en s v p = Inr w"
      using SelectDict.prems(3) by (auto split: option.splits if_splits)
    then show ?thesis
      using SelectDict.IH [of "(k, s)" s v p w] SelectDict.prems(1,2) find_in [of _ ss k s]
      by (fastforce simp: list_all_iff)
  qed (use SelectDict.prems in \<open>auto split: option.splits bool.splits\<close>)
qed (auto split: pyval.splits option.splits if_splits simp: Let_def)

text \<open>
  What a schema accepts and returns does not depend on where in a document the value stands; the
  path only goes into messages. A schema without converting leaves checks and changes nothing: it
  returns the very value it was given.
\<close>

theorem schema_validates:
  assumes "coerce en s v path = Inr w"
  shows "coerce en s v path' = Inr w \<and> (validating s \<longrightarrow> keys_apart v \<longrightarrow> w = v)"
  using assms coerce_kind [of en s v path path'] kind_Inr [of "coerce en s v path'" w] validating_returns [OF _ _ assms]
  by simp

definition plain_env :: schema_env where
  "plain_env = \<lparr>en_repr = (\<lambda>_. ''?''), en_str = (\<lambda>v. case v of PStr s \<Rightarrow> Some s | _ \<Rightarrow> None),
     en_decode = (\<lambda>_ s. if list_all (\<lambda>c. (of_char c :: nat) < 128) s then Some (map of_char s) else None),
     en_regex_ok = (\<lambda>_. True)\<rparr>"

definition demo_schema :: schema where
  "demo_schema = KeyDict [(''name'', SString), (''revision'', OneOf [SInt, SList SInt])] [''revision'']"

definition demo_value :: pyval where
  "demo_value = PDict [(PStr ''name'', PStr ''mysql''), (PStr ''revision'', PList [PInt 3])]"

theorem schema_validates_witness:
  "coerce plain_env demo_schema demo_value [''charm''] = Inr demo_value \<and> validating demo_schema \<and> keys_apart demo_value"
proof -
  have run: "coerce plain_env demo_schema demo_value [] = Inr demo_value"
    by (simp add: plain_env_def demo_schema_def demo_value_def pd_get_def is_missing_def key_text_def
        expectation_def schema_error_def own_error_def)
  have "validating demo_schema" by (simp add: demo_schema_def)
  moreover have "keys_apart demo_value"
    by (auto simp: demo_value_def less_Suc_eq)
  ultimately show ?thesis using schema_validates [OF run, of "[''charm'']"] by simp
qed

section \<open>The error \<open>OneOf\<close> reports\<close>

lemma one_of_all_fail:
  assumes "\<forall>s \<in> set ss. \<exists>e. f s = Inl e \<and> error_kind e = None"
    and "one_of path f best ss = r" and "best \<noteq> None \<or> ss \<noteq> []"
    and "\<forall>b. best = Some b \<longrightarrow> error_kind b = None"
  shows "\<exists>e. r = Inl e \<and> (best = Some e \<or> (\<exists>s \<in> set ss. f s = Inl e))
    \<and> (\<forall>b. best = Some b \<longrightarrow> error_depth path b \<le> error_depth path e)
    \<and> (\<forall>s \<in> set ss. \<forall>e'. f s = Inl e' \<longrightarrow> error_depth path e' \<le> error_depth path e)"
  using assms
proof (induction ss arbitrary: best)
  case Nil
  then show ?case by (cases best) auto
next
  case (Cons s ss)
  obtain e where e: "f s = Inl e" "error_kind e = None" using Cons.prems(1) by auto
  obtain i ref where sch: "e = SchemaError i ref" using e(2) by (cases e) auto
  let ?best = "case best of None \<Rightarrow> e | Some b \<Rightarrow> if error_depth path e > error_depth path b then e else b"
  have step: "one_of path f (Some ?best) ss = r"
    using Cons.prems(2) e(1) by (cases best) (auto simp: Let_def sch split: if_splits)
  have "error_kind ?best = None" using e(2) Cons.prems(4) by (cases best) simp_all
  with Cons.IH [of "Some ?best"] Cons.prems(1) step obtain e' where e': "r = Inl e'"
      "?best = e' \<or> (\<exists>s \<in> set ss. f s = Inl e')" "error_depth path ?best \<le> error_depth path e'"
      "\<forall>s \<in> set ss. \<forall>x. f s = Inl x \<longrightarrow> error_depth path x \<le> error_depth path e'"
    by auto
  have "error_depth path e \<le> error_depth path ?best" "\<forall>b. best = Some b \<longrightarrow> error_depth path b \<le> error_depth path ?best"
    "?best = e \<or> best = Some ?best"
    by (auto split: option.splits)
  with e' e(1) show ?case by (intro exI [of _ e']) (auto intro: order_trans)
qed

text \<open>
  When no alternative of \<open>OneOf\<close> fits, the error reported is one of the alternatives', and none of
  them got deeper into the value.
\<close>

theorem one_of_deepest_error:
  assumes "ss \<noteq> []"
    and "\<forall>s \<in> set ss. \<exists>i ref. coerce en s v path = Inl (SchemaError i ref)"
  shows "\<exists>e s. s \<in> set ss \<and> coerce en s v path = Inl e \<and> coerce en (OneOf ss) v path = Inl e
    \<and> (\<forall>s \<in> set ss. \<forall>e'. coerce en s v path = Inl e' \<longrightarrow> error_depth path e' \<le> error_depth path e)"
proof -
  have "\<forall>s \<in> set ss. \<exists>e. coerce en s v path = Inl e \<and> error_kind e = None"
    using assms(2) by fastforce
  from one_of_all_fail [OF this refl, of None path] assms(1) show ?thesis by auto
qed

theorem one_of_deepest_error_witness:
  "\<exists>e. coerce plain_env (OneOf [SInt, KeyDict [(''a'', SInt)] []]) (PDict [(PStr ''a'', PNone)]) [] = Inl e
    \<and> error_depth [] e = 1"
proof -
  have errs: "coerce plain_env SInt (PDict [(PStr ''a'', PNone)]) [] = Inl (SchemaError '': expected int, got ?'' Shared)"
      "coerce plain_env (KeyDict [(''a'', SInt)] []) (PDict [(PStr ''a'', PNone)]) []
        = Inl (SchemaError ''a: expected int, got ?'' (Own [''a'']))"
    by (simp_all add: plain_env_def expectation_def schema_error_def own_error_def key_text_def)
  from one_of_deepest_error [of "[SInt, KeyDict [(''a'', SInt)] []]" plain_env "PDict [(PStr ''a'', PNone)]" "[]"] errs
  show ?thesis by auto
qed

end
