(* ===== verification/YamlState.thy ===== *)
theory YamlState
  imports Prelude
begin

text \<open>
  \<open>juju/state/utils.py\<close>: \<open>dict_merge\<close>, \<open>YAMLState\<close> and \<open>YAMLStateNodeMixin\<close>.

  A \<open>YAMLState\<close> is a local view of one ZooKeeper node that holds a dict. The YAML codec and the
  ZooKeeper client (with txzookeeper's \<open>retry_change\<close>) are parameters: \<open>ynode\<close> is the client's access to
  the node at the object's path. \<open>set\<close> orders of Python are the orders of lists here.
\<close>

datatype yaml_error =
    StateChanged
  | StateNotFound
  | NotRead  \<comment> \<open>\<open>ValueError\<close> of \<open>_check\<close>\<close>
  | NoSuchKey string
  | NodeMissing  \<comment> \<open>what the mixee's \<open>_node_missing\<close> raises\<close>

section \<open>Merging\<close>

definition dict_merge :: "('k, 'v) dict \<Rightarrow> ('k, 'v) dict \<Rightarrow> yaml_error + ('k, 'v) dict" where
  "dict_merge d1 d2 =
     (if list_all (\<lambda>k. dhas d2 k \<longrightarrow> dget d1 k = dget d2 k) (dkeys d1)
      then Inr (dupdate (dupdate [] d1) d2) else Inl StateChanged)"

section \<open>The local view\<close>

record 'v yaml_state =
  ys_pristine :: "(string, 'v) dict option"
  ys_cache :: "(string, 'v) dict"

datatype 'v change_item =
    DeletedItem string "'v option"
  | ModifiedItem string 'v 'v
  | AddedItem string 'v

record ('z, 'c, 'v) ynode =
  yn_load :: "'c \<Rightarrow> (string, 'v) dict"
  yn_dump :: "(string, 'v) dict \<Rightarrow> 'c"
  yn_get :: "'z \<Rightarrow> 'c option"  \<comment> \<open>\<open>None\<close>: \<open>NoNodeException\<close>\<close>
  yn_retry_change :: "('c option \<Rightarrow> 'c) \<Rightarrow> 'z \<Rightarrow> 'z"

definition new_yaml_state :: "'v yaml_state" where
  "new_yaml_state = \<lparr>ys_pristine = None, ys_cache = []\<rparr>"

definition read :: "('z, 'c, 'v) ynode \<Rightarrow> 'z \<Rightarrow> bool \<Rightarrow> yaml_error option \<times> 'v yaml_state" where
  "read node z required =
     (case yn_get node z of
        Some content \<Rightarrow>
          (let data = yn_load node content
           in if data \<noteq> [] then (None, \<lparr>ys_pristine = Some data, ys_cache = data\<rparr>)
              else (None, \<lparr>ys_pristine = Some [], ys_cache = []\<rparr>))
      | None \<Rightarrow> (if required then Some StateNotFound else None, \<lparr>ys_pristine = Some [], ys_cache = []\<rparr>))"

definition check :: "'v yaml_state \<Rightarrow> yaml_error + unit" where
  "check s = guard_or (ys_pristine s \<noteq> None) NotRead"

definition keys :: "'v yaml_state \<Rightarrow> string list" where
  "keys s = dkeys (ys_cache s)"

definition getitem :: "'v yaml_state \<Rightarrow> string \<Rightarrow> yaml_error + 'v" where
  "getitem s k =
     rbind (check s) (\<lambda>_. case dget (ys_cache s) k of None \<Rightarrow> Inl (NoSuchKey k) | Some v \<Rightarrow> Inr v)"

definition setitem :: "'v yaml_state \<Rightarrow> string \<Rightarrow> 'v \<Rightarrow> yaml_error + 'v yaml_state" where
  "setitem s k v = rbind (check s) (\<lambda>_. Inr (s\<lparr>ys_cache := dset k v (ys_cache s)\<rparr>))"

definition delitem :: "'v yaml_state \<Rightarrow> string \<Rightarrow> yaml_error + 'v yaml_state" where
  "delitem s k =
     rbind (check s) (\<lambda>_.
     if dhas (ys_cache s) k then Inr (s\<lparr>ys_cache := ddel k (ys_cache s)\<rparr>) else Inl (NoSuchKey k))"

section \<open>Writing\<close>

text \<open>One key of the loop in \<open>apply_changes\<close>.\<close>

definition apply_key ::
  "(string, 'v) dict \<Rightarrow> (string, 'v) dict \<Rightarrow> string \<Rightarrow> (string, 'v) dict \<times> 'v change_item list
     \<Rightarrow> (string, 'v) dict \<times> 'v change_item list" where
  "apply_key pristine_cache cache key acc =
     (let (current, changes) = acc;
          old_value = dget pristine_cache key;
          new_value = dget cache key
      in if old_value \<noteq> new_value then
           (case new_value of
              Some v \<Rightarrow>
                (dset key v current,
                 changes @ [case old_value of Some w \<Rightarrow> ModifiedItem key w v | None \<Rightarrow> AddedItem key v])
            | None \<Rightarrow>
                if dhas current key then (ddel key current, changes @ [DeletedItem key old_value])
                else (current, changes))
         else (current, changes))"

definition apply_changes ::
  "(string, 'v) dict \<Rightarrow> (string, 'v) dict \<Rightarrow> (string, 'v) dict \<Rightarrow> (string, 'v) dict \<times> 'v change_item list" where
  "apply_changes pristine_cache cache current =
     fold (apply_key pristine_cache cache) (remdups (dkeys pristine_cache @ dkeys cache)) (current, [])"

definition node_dict :: "('z, 'c, 'v) ynode \<Rightarrow> 'c option \<Rightarrow> (string, 'v) dict" where
  "node_dict node content = (case content of None \<Rightarrow> [] | Some c \<Rightarrow> yn_load node c)"

text \<open>
  \<open>retry_change\<close> calls \<open>apply_changes\<close> until the node was not changed in between; the changes reported
  are those of the last call, on the content that was replaced.
\<close>

definition write_state :: "('z, 'c, 'v) ynode \<Rightarrow> 'v yaml_state \<Rightarrow> 'z
    \<Rightarrow> yaml_error + ('v yaml_state \<times> 'z \<times> 'v change_item list)" where
  "write_state node s z =
     (case ys_pristine s of
        None \<Rightarrow> Inl NotRead
      | Some pristine_cache \<Rightarrow>
          Inr (s\<lparr>ys_pristine := Some (ys_cache s)\<rparr>,
               yn_retry_change node
                 (\<lambda>content. yn_dump node (fst (apply_changes pristine_cache (ys_cache s) (node_dict node content)))) z,
               snd (apply_changes pristine_cache (ys_cache s) (node_dict node (yn_get node z)))))"

section \<open>The node mixin\<close>

definition get_node_value :: "('z, 'c, 'v) ynode \<Rightarrow> 'z \<Rightarrow> string \<Rightarrow> 'v option \<Rightarrow> yaml_error + 'v option" where
  "get_node_value node z key dflt =
     (case read node z True of
        (Some _, _) \<Rightarrow> Inl NodeMissing
      | (None, node_data) \<Rightarrow>
          (case dget (ys_cache node_data) key of None \<Rightarrow> Inr dflt | Some v \<Rightarrow> Inr (Some v)))"

definition set_node_value :: "('z, 'c, 'v) ynode \<Rightarrow> 'z \<Rightarrow> string \<Rightarrow> 'v \<Rightarrow> yaml_error + 'z" where
  "set_node_value node z key v =
     (case read node z True of
        (Some _, _) \<Rightarrow> Inl NodeMissing
      | (None, node_data) \<Rightarrow>
          rbind (setitem node_data key v) (\<lambda>node_data.
          rbind (write_state node node_data z) (\<lambda>(_, z', _). Inr z')))"

section \<open>What writing does to one key\<close>

lemma apply_key_lookup:
  "dget (fst (apply_key p c k (cur, ch))) k' =
     (if k' = k \<and> dget p k \<noteq> dget c k then dget c k else dget cur k')"
  by (auto simp: apply_key_def Let_def dget_dset dget_ddel dhas_iff split: option.splits)

lemma apply_fold_lookup:
  "dget (fst (fold (apply_key p c) ks acc)) k =
     (if k \<in> set ks \<and> dget p k \<noteq> dget c k then dget c k else dget (fst acc) k)"
proof (induction ks arbitrary: acc)
  case Nil
  then show ?case by simp
next
  case (Cons k' ks)
  obtain cur ch where acc: "acc = (cur, ch)" by (cases acc)
  show ?case by (auto simp: Cons.IH acc apply_key_lookup)
qed

lemma apply_changes_lookup:
  "dget (fst (apply_changes p c cur)) k = (if dget p k \<noteq> dget c k then dget c k else dget cur k)"
proof -
  have "k \<in> set (remdups (dkeys p @ dkeys c))" if "dget p k \<noteq> dget c k"
  proof (rule ccontr)
    assume "k \<notin> set (remdups (dkeys p @ dkeys c))"
    then have "dget p k = None" "dget c k = None" by (auto simp: map_of_eq_None_iff)
    with that show False by simp
  qed
  then show ?thesis by (auto simp: apply_changes_def apply_fold_lookup)
qed

text \<open>The reported change of one key.\<close>

definition change_of :: "(string, 'v) dict \<Rightarrow> (string, 'v) dict \<Rightarrow> (string, 'v) dict \<Rightarrow> string \<Rightarrow> 'v change_item option" where
  "change_of p c cur k =
     (if dget p k = dget c k then None
      else case (dget p k, dget c k) of
        (Some w, Some v) \<Rightarrow> Some (ModifiedItem k w v)
      | (None, Some v) \<Rightarrow> Some (AddedItem k v)
      | (old, None) \<Rightarrow> if dhas cur k then Some (DeletedItem k old) else None)"

lemma apply_key_changes:
  "snd (apply_key p c k (cur, ch)) = ch @ (case change_of p c cur k of None \<Rightarrow> [] | Some i \<Rightarrow> [i])"
  by (auto simp: apply_key_def change_of_def Let_def split: option.splits)

lemma apply_fold_changes:
  assumes "distinct ks" and "\<forall>k \<in> set ks. dget cur k = dget (fst acc) k"
  shows "snd (fold (apply_key p c) ks acc) = snd acc @ List.map_filter (change_of p c cur) ks"
  using assms
proof (induction ks arbitrary: acc)
  case Nil
  then show ?case by (simp add: List.map_filter_def)
next
  case (Cons k ks)
  obtain a ch where acc: "acc = (a, ch)" by (cases acc)
  have "dget a k = dget cur k" using Cons.prems(2) by (simp add: acc)
  then have "change_of p c a k = change_of p c cur k"
    unfolding change_of_def dhas_iff by presburger
  moreover have "\<forall>k' \<in> set ks. dget cur k' = dget (fst (apply_key p c k acc)) k'"
    using Cons.prems by (auto simp: acc apply_key_lookup)
  ultimately show ?case
    using Cons.IH [of "apply_key p c k acc"] Cons.prems(1)
    by (simp add: acc apply_key_changes List.map_filter_simps split: option.splits)
qed

lemma apply_changes_items:
  "snd (apply_changes p c cur) = List.map_filter (change_of p c cur) (remdups (dkeys p @ dkeys c))"
  unfolding apply_changes_def by (subst apply_fold_changes [of _ cur]) simp_all

end
