(* ===== verification/YamlStateProps.thy ===== *)
theory YamlStateProps
  imports YamlState
begin

text \<open>
  What clients of \<open>YAMLState\<close> rely on: a write is a three-way merge of the local view into the node.
\<close>

text \<open>The codec keeps lookups, and \<open>retry_change\<close> stores what the function makes of the node's content.\<close>

definition ynode_ok :: "('z, 'c, 'v) ynode \<Rightarrow> bool" where
  "ynode_ok node \<longleftrightarrow>
     (\<forall>d. dget (yn_load node (yn_dump node d)) = dget d) \<and>
     (\<forall>f z. yn_get node (yn_retry_change node f z) = Some (f (yn_get node z)))"

definition node_get :: "('z, 'c, 'v) ynode \<Rightarrow> 'z \<Rightarrow> string \<Rightarrow> 'v option" where
  "node_get node z = dget (node_dict node (yn_get node z))"

lemma write_result:
  assumes "ynode_ok node" and "write_state node s z = Inr (s', z', changes)"
  shows "\<exists>p. ys_pristine s = Some p
    \<and> (\<forall>k. node_get node z' k = (if dget p k \<noteq> dget (ys_cache s) k then dget (ys_cache s) k else node_get node z k))
    \<and> ys_cache s' = ys_cache s \<and> ys_pristine s' = Some (ys_cache s)
    \<and> changes = snd (apply_changes p (ys_cache s) (node_dict node (yn_get node z)))"
proof -
  obtain p where p: "ys_pristine s = Some p" using assms(2) by (auto simp: write_state_def split: option.splits)
  have "node_get node z' k = (if dget p k \<noteq> dget (ys_cache s) k then dget (ys_cache s) k else node_get node z k)" for k
    using assms p by (auto simp: write_state_def node_get_def node_dict_def ynode_ok_def apply_changes_lookup)
  then show ?thesis using assms(2) p by (auto simp: write_state_def)
qed

lemma read_pristine:
  "read node z r = (None, s) \<Longrightarrow> ys_pristine s = Some (ys_cache s) \<and> dget (ys_cache s) = node_get node z"
  by (auto simp: read_def node_get_def node_dict_def Let_def split: option.splits if_splits)

text \<open>
  C32: a write merges. Every key the client changed or deleted since it read has the client's value in
  the node afterwards, every other key keeps whatever the node has by then; the reported changes are
  exactly the differences made, one for each such key, and writing again reports nothing and changes nothing.
\<close>

theorem write_merges:
  assumes ok: "ynode_ok node" and wr: "write_state node s z = Inr (s', z', changes)"
    and pristine: "ys_pristine s = Some p"
  shows "(\<forall>k. node_get node z' k = (if dget p k \<noteq> dget (ys_cache s) k then dget (ys_cache s) k else node_get node z k))
    \<and> set changes = {i. \<exists>k. change_of p (ys_cache s) (node_dict node (yn_get node z)) k = Some i}
    \<and> (\<exists>s2 z2. write_state node s' z' = Inr (s2, z2, []) \<and> node_get node z2 = node_get node z')"
proof -
  obtain merged: "\<forall>k. node_get node z' k =
      (if dget p k \<noteq> dget (ys_cache s) k then dget (ys_cache s) k else node_get node z k)"
    and s': "ys_cache s' = ys_cache s" "ys_pristine s' = Some (ys_cache s)"
    and ch: "changes = snd (apply_changes p (ys_cache s) (node_dict node (yn_get node z)))"
    using write_result [OF ok wr] pristine by auto
  have "k \<in> set (remdups (dkeys p @ dkeys (ys_cache s)))" if "change_of p (ys_cache s) cur k = Some i" for k i cur
  proof (rule ccontr)
    assume "k \<notin> set (remdups (dkeys p @ dkeys (ys_cache s)))"
    then have "dget p k = None" "dget (ys_cache s) k = None" by (auto simp: map_of_eq_None_iff)
    with that show False by (simp add: change_of_def)
  qed
  then have changes: "set changes = {i. \<exists>k. change_of p (ys_cache s) (node_dict node (yn_get node z)) k = Some i}"
    unfolding ch apply_changes_items set_map_filter by blast
  obtain s2 z2 c2 where again: "write_state node s' z' = Inr (s2, z2, c2)"
    using s' by (simp add: write_state_def)
  from write_result [OF ok again] s' have "node_get node z2 = node_get node z'"
      and "c2 = snd (apply_changes (ys_cache s) (ys_cache s) (node_dict node (yn_get node z')))" by auto
  moreover have "snd (apply_changes d d cur) = []" for d cur :: "(string, 'c) dict"
    by (simp add: apply_changes_items change_of_def List.map_filter_def)
  ultimately show ?thesis using merged changes again by auto
qed

text \<open>A node held as its dict.\<close>

definition plain_node :: "((string, 'v) dict option, (string, 'v) dict, 'v) ynode" where
  "plain_node = \<lparr>yn_load = (\<lambda>c. c), yn_dump = (\<lambda>d. d), yn_get = (\<lambda>z. z), yn_retry_change = (\<lambda>f z. Some (f z))\<rparr>"

lemma plain_node_ok: "ynode_ok plain_node"
  by (simp add: ynode_ok_def plain_node_def)

theorem write_merges_witness:
  "\<exists>s' z' changes. write_state plain_node \<lparr>ys_pristine = Some [(''a'', 1), (''b'', 2)], ys_cache = [(''a'', 1), (''c'', 3)]\<rparr>
      (Some [(''a'', 9), (''b'', 2 :: int)]) = Inr (s', z', changes)
    \<and> node_get plain_node z' ''a'' = Some 9 \<and> node_get plain_node z' ''b'' = None \<and> node_get plain_node z' ''c'' = Some 3
    \<and> set changes = {i. \<exists>k. change_of [(''a'', 1), (''b'', 2)] [(''a'', 1), (''c'', 3)] [(''a'', 9), (''b'', 2)] k = Some i}"
proof -
  let ?s = "\<lparr>ys_pristine = Some [(''a'', 1), (''b'', 2 :: int)], ys_cache = [(''a'', 1), (''c'', 3)]\<rparr>"
  let ?z = "Some [(''a'', 9), (''b'', 2 :: int)]"
  obtain s' z' changes where w: "write_state plain_node ?s ?z = Inr (s', z', changes)"
    by (simp add: write_state_def)
  have base: "node_get plain_node ?z k = dget [(''a'', 9), (''b'', 2)] k" for k
    by (simp add: node_get_def node_dict_def plain_node_def)
  have cur: "node_dict plain_node (yn_get plain_node ?z) = [(''a'', 9), (''b'', 2)]"
    by (simp add: node_dict_def plain_node_def)
  have all: "\<forall>k. node_get plain_node z' k =
      (if dget [(''a'', 1), (''b'', 2)] k \<noteq> dget [(''a'', 1), (''c'', 3)] k
       then dget [(''a'', 1), (''c'', 3)] k else dget [(''a'', 9), (''b'', 2)] k)"
    and ch: "set changes = {i. \<exists>k. change_of [(''a'', 1), (''b'', 2)] [(''a'', 1), (''c'', 3)] [(''a'', 9), (''b'', 2)] k = Some i}"
    using write_merges [OF plain_node_ok w, of "[(''a'', 1), (''b'', 2)]"] unfolding base cur by simp_all
  have "node_get plain_node z' ''a'' = Some 9 \<and> node_get plain_node z' ''b'' = None \<and> node_get plain_node z' ''c'' = Some 3
    \<and> set changes = {i. \<exists>k. change_of [(''a'', 1), (''b'', 2)] [(''a'', 1), (''c'', 3)] [(''a'', 9), (''b'', 2)] k = Some i}"
    using all [rule_format, of "''a''"] all [rule_format, of "''b''"] all [rule_format, of "''c''"] ch by simp
  with w show ?thesis by blast
qed

text \<open>
  Concurrent writers of different keys do not lose updates. Two clients read the same node, change
  disjoint sets of keys and write one after the other, the second one on stale data: the node then has
  both sets of changes, and every other key as it was.
\<close>

definition touched :: "'v yaml_state \<Rightarrow> string set" where
  "touched s = {k. \<exists>p. ys_pristine s = Some p \<and> dget p k \<noteq> dget (ys_cache s) k}"

theorem writers_keep_disjoint_changes:
  assumes ok: "ynode_ok node"
    and write1: "write_state node s1 z = Inr (s1', z1, ch1)" and write2: "write_state node s2 z1 = Inr (s2', z2, ch2)"
    and disjoint: "touched s1 \<inter> touched s2 = {}"
  shows "\<forall>k. node_get node z2 k =
     (if k \<in> touched s1 then dget (ys_cache s1) k
      else if k \<in> touched s2 then dget (ys_cache s2) k else node_get node z k)"
proof
  fix k
  obtain p1 where p1: "ys_pristine s1 = Some p1" "node_get node z1 k =
      (if dget p1 k \<noteq> dget (ys_cache s1) k then dget (ys_cache s1) k else node_get node z k)"
    using write_result [OF ok write1] by blast
  obtain p2 where p2: "ys_pristine s2 = Some p2" "node_get node z2 k =
      (if dget p2 k \<noteq> dget (ys_cache s2) k then dget (ys_cache s2) k else node_get node z1 k)"
    using write_result [OF ok write2] by blast
  show "node_get node z2 k = (if k \<in> touched s1 then dget (ys_cache s1) k
      else if k \<in> touched s2 then dget (ys_cache s2) k else node_get node z k)"
    using p1 p2 disjoint by (auto simp: touched_def)
qed

theorem writers_keep_disjoint_changes_witness:
  "\<exists>z2. node_get plain_node z2 ''a'' = Some (1 :: int) \<and> node_get plain_node z2 ''b'' = Some 2"
proof -
  let ?s1 = "\<lparr>ys_pristine = Some [], ys_cache = [(''a'', 1 :: int)]\<rparr>"
  let ?s2 = "\<lparr>ys_pristine = Some [], ys_cache = [(''b'', 2 :: int)]\<rparr>"
  obtain s1' z1 ch1 where w1: "write_state plain_node ?s1 None = Inr (s1', z1, ch1)" by (simp add: write_state_def)
  obtain s2' z2 ch2 where w2: "write_state plain_node ?s2 z1 = Inr (s2', z2, ch2)" by (simp add: write_state_def)
  have "touched ?s1 \<inter> touched ?s2 = {}" by (auto simp: touched_def)
  from writers_keep_disjoint_changes [OF plain_node_ok w1 w2 this]
  have "node_get plain_node z2 ''a'' = Some 1" "node_get plain_node z2 ''b'' = Some 2" by (simp_all add: touched_def)
  then show ?thesis by blast
qed

text \<open>
  \<open>dict_merge\<close> accepts exactly the dicts that agree where both have a key; the result then has
  every entry of both and no other, in whichever order the arguments are given.
\<close>

theorem dict_merge_union:
  assumes "dict_wf d1" and "dict_wf d2"
  shows "(case dict_merge d1 d2 of
      Inl e \<Rightarrow> e = StateChanged \<and> (\<exists>k v w. dget d1 k = Some v \<and> dget d2 k = Some w \<and> v \<noteq> w)
    | Inr d \<Rightarrow> (\<forall>k. dget d k = (case dget d1 k of Some v \<Rightarrow> Some v | None \<Rightarrow> dget d2 k))
        \<and> (\<exists>d'. dict_merge d2 d1 = Inr d' \<and> dget d' = dget d))"
proof (cases "list_all (\<lambda>k. dhas d2 k \<longrightarrow> dget d1 k = dget d2 k) (dkeys d1)")
  case False
  then obtain k where "k \<in> set (dkeys d1)" "dhas d2 k" "dget d1 k \<noteq> dget d2 k" by (auto simp: list_all_iff)
  then have "\<exists>v w. dget d1 k = Some v \<and> dget d2 k = Some w \<and> v \<noteq> w"
    by (metis dhas_iff dhas_keys)
  with False show ?thesis by (auto simp: dict_merge_def)
next
  case True
  have agree: "dget d1 k = dget d2 k" if "dhas d1 k" "dhas d2 k" for k
    using True that unfolding list_all_iff dhas_keys [of d1] by blast
  then have sym: "list_all (\<lambda>k. dhas d1 k \<longrightarrow> dget d2 k = dget d1 k) (dkeys d2)"
    by (metis (mono_tags, lifting) dhas_keys list_all_iff)
  have union: "dget (dupdate (dupdate [] d1) d2) k = (case dget d1 k of Some v \<Rightarrow> Some v | None \<Rightarrow> dget d2 k)" for k
    using agree [of k] assms by (auto simp: dget_dupdate dhas_iff split: option.splits)
  have union': "dget (dupdate (dupdate [] d2) d1) k = (case dget d1 k of Some v \<Rightarrow> Some v | None \<Rightarrow> dget d2 k)" for k
    using assms by (auto simp: dget_dupdate split: option.splits)
  show ?thesis using True sym union union' by (simp add: dict_merge_def fun_eq_iff)
qed

theorem dict_merge_union_witness:
  "\<exists>d. dict_merge [(''b'', 2), (''a'', 1 :: int)] [(''a'', 1), (''b'', 2)] = Inr d \<and> dget d ''a'' = Some 1"
proof -
  have wf: "dict_wf [(''b'', 2), (''a'', 1 :: int)]" "dict_wf [(''a'', 1), (''b'', 2 :: int)]"
    by (simp_all add: dict_wf_def)
  obtain d where "dict_merge [(''b'', 2), (''a'', 1 :: int)] [(''a'', 1), (''b'', 2)] = Inr d"
    by (simp add: dict_merge_def)
  with dict_merge_union [OF wf] show ?thesis by simp
qed

end
