(* ===== verification/CharmUrl.thy ===== *)
theory CharmUrl
  imports PyStrings
begin

text \<open>
  \<open>juju/charm/url.py\<close>: charm URLs, their text and its parser.

  The three regular expressions are predicates. Their \<open>$\<close> also matches before a newline at the end of
  the text, which \<open>chomp\<close> accounts for.
\<close>

section \<open>The regular expressions\<close>

definition is_lower :: "char \<Rightarrow> bool" where
  "is_lower c \<longleftrightarrow> 97 \<le> (of_char c :: nat) \<and> (of_char c :: nat) \<le> 122"

definition is_upper :: "char \<Rightarrow> bool" where
  "is_upper c \<longleftrightarrow> 65 \<le> (of_char c :: nat) \<and> (of_char c :: nat) \<le> 90"

lemma not_letter [simp]:
  "\<not> is_lower CHR ''/''" "\<not> is_upper CHR ''/''" "\<not> is_lower CHR ''~''" "\<not> is_lower CHR ''-''"
  by (simp_all add: is_lower_def is_upper_def)

lemma digit_not_lower: "is_digit c \<Longrightarrow> \<not> is_lower c"
  unfolding is_digit_def is_lower_def by auto

lemma digit_not_newline: "is_digit c \<Longrightarrow> c \<noteq> CHR 0x0A"
  unfolding is_digit_def by auto

definition chomp :: "string \<Rightarrow> string" where
  "chomp s = (if s \<noteq> [] \<and> last s = CHR 0x0A then butlast s else s)"

definition USER_RE :: "string \<Rightarrow> bool" where
  "USER_RE s = (case chomp s of
     c # r \<Rightarrow> (is_lower c \<or> is_digit c) \<and> r \<noteq> [] \<and>
       list_all (\<lambda>c. is_lower c \<or> is_upper c \<or> is_digit c \<or> c \<in> set ''+.-'') r
   | [] \<Rightarrow> False)"

definition SERIES_RE :: "string \<Rightarrow> bool" where
  "SERIES_RE s = (let t = chomp s in
     t \<noteq> [] \<and> is_lower (hd t) \<and> is_lower (last t) \<and> list_all (\<lambda>c. is_lower c \<or> c = CHR ''-'') t)"

text \<open>The first group starts with a letter; every further one holds at least one letter.\<close>

definition NAME_RE :: "string \<Rightarrow> bool" where
  "NAME_RE s = (case py_split CHR ''-'' (chomp s) of
     g # gs \<Rightarrow> g \<noteq> [] \<and> is_lower (hd g) \<and> list_all (\<lambda>c. is_lower c \<or> is_digit c) g \<and>
       list_all (\<lambda>h. list_all (\<lambda>c. is_lower c \<or> is_digit c) h \<and> list_ex is_lower h) gs
   | [] \<Rightarrow> False)"

section \<open>Collections and URLs\<close>

record charm_collection =
  cc_schema :: string
  cc_user :: "string option"
  cc_series :: string

record charm_url =
  cu_collection :: charm_collection
  cu_name :: string
  cu_revision :: "int option"

datatype url_error = CharmURLError string string  \<comment> \<open>the text and the message\<close>

definition str_collection :: "charm_collection \<Rightarrow> string" where
  "str_collection c =
     (case cc_user c of
        None \<Rightarrow> cc_schema c @ '':'' @ cc_series c
      | Some user \<Rightarrow> cc_schema c @ '':~'' @ user @ ''/'' @ cc_series c)"

definition str_url :: "charm_url \<Rightarrow> string" where
  "str_url u =
     (case cu_revision u of
        None \<Rightarrow> str_collection (cu_collection u) @ ''/'' @ cu_name u
      | Some r \<Rightarrow> str_collection (cu_collection u) @ ''/'' @ cu_name u @ ''-'' @ show_int r)"

text \<open>\<open>None\<close>: the \<open>IndexError\<close> of a text without colon\<close>

definition url_path :: "charm_url \<Rightarrow> string option" where
  "url_path u = map_option snd (split_once CHR '':'' (str_url u))"

definition with_revision :: "charm_url \<Rightarrow> int option \<Rightarrow> charm_url" where
  "with_revision u r = u\<lparr>cu_revision := r\<rparr>"

definition assert_revision :: "charm_url \<Rightarrow> url_error + unit" where
  "assert_revision u = guard_or (cu_revision u \<noteq> None) (CharmURLError (str_url u) ''expected a revision'')"

section \<open>Parsing\<close>

text \<open>The name with an optional revision: the digits behind the last dash.\<close>

definition split_revision :: "string \<Rightarrow> string \<times> int option" where
  "split_revision name =
     (case rsplit_once CHR ''-'' name of
        None \<Rightarrow> (name, None)
      | Some (maybe_name, maybe_revision) \<Rightarrow>
          if py_isdigit maybe_revision then (maybe_name, Some (int (read_nat maybe_revision))) else (name, None))"

text \<open>The user part: the rest of the parts and the user.\<close>

definition parse_user :: "string \<Rightarrow> string \<Rightarrow> string list \<Rightarrow> url_error + string option \<times> string list" where
  "parse_user text schema parts =
     (if startswith (hd parts) ''~'' then
        if schema = ''local'' then Inl (CharmURLError text ''users not allowed in local URLs'')
        else if \<not> USER_RE (tl (hd parts)) then Inl (CharmURLError text ''invalid user'')
        else Inr (Some (tl (hd parts)), tl parts)
      else Inr (None, parts))"

definition parse_parts :: "string \<Rightarrow> string \<Rightarrow> string option \<Rightarrow> string list \<Rightarrow> url_error + charm_url" where
  "parse_parts text schema user parts =
     (case parts of
        [series, name0] \<Rightarrow>
          if \<not> SERIES_RE series then Inl (CharmURLError text ''invalid series'')
          else if \<not> NAME_RE (fst (split_revision name0)) then Inl (CharmURLError text ''invalid name'')
          else Inr \<lparr>cu_collection = \<lparr>cc_schema = schema, cc_user = user, cc_series = series\<rparr>,
                    cu_name = fst (split_revision name0), cu_revision = snd (split_revision name0)\<rparr>
      | _ \<Rightarrow> Inl (CharmURLError text ''no series specified''))"

definition parse_url :: "string \<Rightarrow> url_error + charm_url" where
  "parse_url text =
     (case split_once CHR '':'' text of
        None \<Rightarrow> Inl (CharmURLError text ''no schema specified'')
      | Some (schema, rest) \<Rightarrow>
          if schema \<noteq> ''cs'' \<and> schema \<noteq> ''local'' then Inl (CharmURLError text ''invalid schema'')
          else let parts = py_split CHR ''/'' rest in
          if length parts \<noteq> 2 \<and> length parts \<noteq> 3 then Inl (CharmURLError text ''invalid form'')
          else rbind (parse_user text schema parts) (\<lambda>(user, parts). parse_parts text schema user parts))"

definition infer_string :: "string \<Rightarrow> string \<Rightarrow> string" where
  "infer_string vague_name default_series =
     (let (schema, rest) = (case split_once CHR '':'' vague_name of None \<Rightarrow> (''cs'', vague_name) | Some p \<Rightarrow> p)
      in case py_split CHR ''/'' rest of
           [_] \<Rightarrow> schema @ '':'' @ default_series @ ''/'' @ rest
         | [user, name] \<Rightarrow>
             if startswith user ''~'' then schema @ '':'' @ user @ ''/'' @ default_series @ ''/'' @ name
             else schema @ '':'' @ rest
         | _ \<Rightarrow> schema @ '':'' @ rest)"

definition infer :: "string \<Rightarrow> string \<Rightarrow> url_error + charm_url" where
  "infer vague_name default_series =
     (case parse_url vague_name of
        Inr u \<Rightarrow> Inr u
      | Inl _ \<Rightarrow>
          if startswith vague_name ''~''
          then Inl (CharmURLError vague_name ''a URL with a user must specify a schema'')
          else (case parse_url (infer_string vague_name default_series) of
              Inr u \<Rightarrow> Inr u
            | Inl (CharmURLError text message) \<Rightarrow>
                Inl (CharmURLError text (message @ '' (URL inferred from '' @ [CHR 0x27] @ vague_name @ [CHR 0x27] @ '')''))))"

section \<open>Round trip\<close>

definition url_ok :: "charm_url \<Rightarrow> bool" where
  "url_ok u \<longleftrightarrow>
     (let c = cu_collection u in
      cc_schema c \<in> {''cs'', ''local''} \<and>
      (\<forall>user. cc_user c = Some user \<longrightarrow> cc_schema c \<noteq> ''local'' \<and> USER_RE user) \<and>
      SERIES_RE (cc_series c) \<and> NAME_RE (cu_name u) \<and> (\<forall>r. cu_revision u = Some r \<longrightarrow> 0 \<le> r) \<and>
      CHR ''/'' \<notin> set (cc_series c) \<and> CHR ''/'' \<notin> set (cu_name u) \<and> \<not> startswith (cc_series c) ''~'' \<and>
      (\<forall>user. cc_user c = Some user \<longrightarrow> CHR ''/'' \<notin> set user))"

lemma chomp_set: "c \<in> set s \<Longrightarrow> c \<noteq> CHR 0x0A \<Longrightarrow> c \<in> set (chomp s)"
  by (cases s rule: rev_cases) (auto simp: chomp_def)

lemma in_join: "x \<in> set (py_join sep ws) \<Longrightarrow> x \<notin> set sep \<Longrightarrow> \<exists>w \<in> set ws. x \<in> set w"
  by (induction sep ws rule: py_join.induct) auto

lemma name_groups:
  assumes "NAME_RE s" and "w \<in> set (py_split CHR ''-'' (chomp s))"
  shows "list_all (\<lambda>c. is_lower c \<or> is_digit c) w"
  using assms by (cases "py_split CHR ''-'' (chomp s)") (auto simp: NAME_RE_def list_all_iff)

lemma name_later_groups:
  assumes "NAME_RE s" and "w \<in> set (tl (py_split CHR ''-'' (chomp s)))"
  shows "list_ex is_lower w"
  using assms by (cases "py_split CHR ''-'' (chomp s)") (auto simp: NAME_RE_def list_all_iff)

lemma name_no_slash:
  assumes "NAME_RE s"
  shows "CHR ''/'' \<notin> set s"
proof
  assume "CHR ''/'' \<in> set s"
  then have "CHR ''/'' \<in> set (chomp s)" by (rule chomp_set) simp
  then have "CHR ''/'' \<in> set (py_join ''-'' (py_split CHR ''-'' (chomp s)))" by simp
  then obtain w where w: "w \<in> set (py_split CHR ''-'' (chomp s))" "CHR ''/'' \<in> set w"
    using in_join by fastforce
  then have "is_lower CHR ''/'' \<or> is_digit CHR ''/''"
    using name_groups [OF assms w(1)] by (simp only: list_all_iff)
  then show False by simp
qed

lemma series_ok:
  assumes "SERIES_RE s"
  shows "CHR ''/'' \<notin> set s" and "\<not> startswith s ''~''"
proof -
  show "CHR ''/'' \<notin> set s"
  proof
    assume "CHR ''/'' \<in> set s"
    then have "CHR ''/'' \<in> set (chomp s)" by (rule chomp_set) simp
    with assms show False by (auto simp: SERIES_RE_def Let_def list_all_iff)
  qed
  show "\<not> startswith s ''~''"
  proof
    assume "startswith s ''~''"
    then obtain r where r: "s = CHR ''~'' # r" by (cases s) (auto simp: startswith_def)
    then have "chomp s = [] \<or> hd (chomp s) = CHR ''~''" by (auto simp: chomp_def)
    with assms show False by (auto simp: SERIES_RE_def Let_def)
  qed
qed

lemma user_no_slash:
  assumes "USER_RE s"
  shows "CHR ''/'' \<notin> set s"
proof
  assume "CHR ''/'' \<in> set s"
  then have "CHR ''/'' \<in> set (chomp s)" by (rule chomp_set) simp
  with assms show False by (cases "chomp s") (auto simp: USER_RE_def list_all_iff)
qed

lemma split_append: "py_split c (x @ c # y) = py_split c x @ py_split c y"
proof (induction x)
  case (Cons a x)
  then show ?case by (cases "py_split c x") auto
qed simp

text \<open>A valid name does not end in a dash and digits, so it never reads as one with a revision.\<close>

lemma name_not_revision:
  assumes "NAME_RE name"
  shows "split_revision name = (name, None)"
proof (cases "rsplit_once CHR ''-'' name")
  case None
  then show ?thesis by (simp add: split_revision_def)
next
  case (Some ab)
  then obtain a b where ab: "rsplit_once CHR ''-'' name = Some (a, b)" by (cases ab) simp
  have split: "name = a @ CHR ''-'' # b" "CHR ''-'' \<notin> set b"
    using rsplit_once_SomeD [OF ab] by simp_all
  have "\<not> py_isdigit b"
  proof
    assume digits: "py_isdigit b"
    then have "last b \<noteq> CHR 0x0A"
      by (intro digit_not_newline) (auto simp: py_isdigit_def list_all_iff)
    then have "chomp name = name"
      using split(1) digits by (simp add: chomp_def py_isdigit_def)
    moreover have "b \<in> set (tl (py_split CHR ''-'' name))"
      using split by (simp add: split_append py_split_no_sep)
    ultimately have "list_ex is_lower b" using name_later_groups [OF assms] by simp
    with digits show False
      by (auto simp: py_isdigit_def list_all_iff list_ex_iff digit_not_lower)
  qed
  then show ?thesis by (simp add: split_revision_def ab)
qed

lemma split_revision_shown: "0 \<le> r \<Longrightarrow> split_revision (name @ ''-'' @ show_int r) = (name, Some r)"
  using rsplit_once_append [of "CHR ''-''" "show_nat (nat r)" name]
  by (simp add: split_revision_def show_int_def show_nat_no)

lemma split_revision_nonneg: "snd (split_revision name) = Some r \<Longrightarrow> 0 \<le> r"
  by (auto simp: split_revision_def split: option.splits if_splits)

lemma parse_parts_Inr:
  assumes "parse_parts text schema user parts = Inr u"
  shows "\<exists>series name0. parts = [series, name0] \<and> SERIES_RE series \<and> NAME_RE (fst (split_revision name0))
    \<and> u = \<lparr>cu_collection = \<lparr>cc_schema = schema, cc_user = user, cc_series = series\<rparr>,
           cu_name = fst (split_revision name0), cu_revision = snd (split_revision name0)\<rparr>"
  using assms by (auto simp: parse_parts_def split: list.splits if_splits)

lemma parse_user_Inr:
  "parse_user text schema parts = Inr (user, parts') \<Longrightarrow> \<forall>x. user = Some x \<longrightarrow> schema \<noteq> ''local'' \<and> USER_RE x"
  by (auto simp: parse_user_def split: if_splits)

lemma parse_url_ok:
  assumes "parse_url text = Inr u"
  shows "url_ok u"
proof -
  obtain schema rest where sr: "split_once CHR '':'' text = Some (schema, rest)" "schema = ''cs'' \<or> schema = ''local''"
    using assms by (cases "split_once CHR '':'' text") (auto simp: parse_url_def split: if_splits)
  then obtain user parts where
    user: "parse_user text schema (py_split CHR ''/'' rest) = Inr (user, parts)"
    and parts: "parse_parts text schema user parts = Inr u"
    using assms by (auto simp: parse_url_def Let_def rbind_eq_Inr split: if_splits)
  from parse_parts_Inr [OF parts] obtain series name0 where
    "SERIES_RE series" "NAME_RE (fst (split_revision name0))"
    and u: "u = \<lparr>cu_collection = \<lparr>cc_schema = schema, cc_user = user, cc_series = series\<rparr>,
                 cu_name = fst (split_revision name0), cu_revision = snd (split_revision name0)\<rparr>" by blast
  then show ?thesis
    using parse_user_Inr [OF user] sr(2) series_ok name_no_slash user_no_slash split_revision_nonneg
    unfolding url_ok_def u by (simp add: Let_def)
qed

lemma parse_str_url:
  assumes "url_ok u"
  shows "parse_url (str_url u) = Inr u"
proof -
  obtain c name rev where u: "u = \<lparr>cu_collection = c, cu_name = name, cu_revision = rev\<rparr>" by (cases u)
  obtain schema user series where c: "c = \<lparr>cc_schema = schema, cc_user = user, cc_series = series\<rparr>" by (cases c)
  have ok: "schema = ''cs'' \<or> schema = ''local''" "\<And>x. user = Some x \<Longrightarrow> schema \<noteq> ''local'' \<and> USER_RE x \<and> CHR ''/'' \<notin> set x"
    "SERIES_RE series" "NAME_RE name" "\<And>r. rev = Some r \<Longrightarrow> 0 \<le> r"
    "CHR ''/'' \<notin> set series" "CHR ''/'' \<notin> set name" "\<not> startswith series ''~''"
    using assms by (auto simp: url_ok_def u c)
  define tail where "tail = (case rev of None \<Rightarrow> name | Some r \<Rightarrow> name @ ''-'' @ show_int r)"
  have tail: "split_revision tail = (name, rev)" "CHR ''/'' \<notin> set tail"
    using ok(4,5,7) name_not_revision split_revision_shown by (auto simp: tail_def split: option.splits)
  have schema: "CHR '':'' \<notin> set schema" using ok(1) by auto
  have parts: "parse_parts t schema user [series, tail] = Inr u" for t
    using ok(3,4) tail(1) by (simp add: parse_parts_def u c)
  show ?thesis
  proof (cases user)
    case None
    then have "str_url u = schema @ CHR '':'' # (series @ CHR ''/'' # tail)"
      by (auto simp: str_url_def str_collection_def u c tail_def split: option.splits)
    moreover have "py_split CHR ''/'' (series @ CHR ''/'' # tail) = [series, tail]"
      using ok(6) tail(2) by (simp add: py_split_append_sep py_split_no_sep)
    ultimately show ?thesis
      using ok(1,8) None parts schema
      by (simp add: parse_url_def split_once_append Let_def parse_user_def)
  next
    case (Some x)
    then have "str_url u = schema @ CHR '':'' # ((CHR ''~'' # x) @ CHR ''/'' # (series @ CHR ''/'' # tail))"
      by (auto simp: str_url_def str_collection_def u c tail_def split: option.splits)
    moreover have "py_split CHR ''/'' ((CHR ''~'' # x) @ CHR ''/'' # (series @ CHR ''/'' # tail)) = [CHR ''~'' # x, series, tail]"
      using ok(2,6) tail(2) Some by (subst py_split_append_sep) (simp_all add: py_split_append_sep py_split_no_sep)
    ultimately show ?thesis
      using ok(1,2) Some parts schema
      by (simp add: parse_url_def split_once_append Let_def parse_user_def startswith_def)
  qed
qed

text \<open>
  Charm URLs round-trip. Everything the parser accepts prints to a text that parses to the same
  URL, with or without user and revision; \<open>infer\<close> returns it too, whatever the default series.
\<close>

theorem charm_url_roundtrip:
  assumes "parse_url text = Inr u"
  shows "parse_url (str_url u) = Inr u \<and> infer (str_url u) default_series = Inr u
    \<and> (\<forall>r \<ge> 0. parse_url (str_url (with_revision u (Some r))) = Inr (with_revision u (Some r)))"
proof -
  have ok: "url_ok u" by (rule parse_url_ok [OF assms])
  then have "url_ok (with_revision u (Some r))" if "r \<ge> 0" for r
    using that by (simp add: url_ok_def with_revision_def Let_def)
  then show ?thesis using parse_str_url ok by (simp add: infer_def)
qed

theorem charm_url_roundtrip_witness:
  "\<exists>u. parse_url ''cs:~joe/precise/my-sql2-007'' = Inr u \<and> str_url u = ''cs:~joe/precise/my-sql2-7''
    \<and> parse_url (str_url u) = Inr u"
proof -
  have run: "(case parse_url ''cs:~joe/precise/my-sql2-007'' of Inl e \<Rightarrow> False
      | Inr u \<Rightarrow> str_url u = ''cs:~joe/precise/my-sql2-7'')" by code_simp
  then obtain u where u: "parse_url ''cs:~joe/precise/my-sql2-007'' = Inr u" "str_url u = ''cs:~joe/precise/my-sql2-7''"
    by (auto split: sum.splits)
  with charm_url_roundtrip [OF u(1), of "[]"] show ?thesis by blast
qed

end
