(* ===== verification/StateBase.thy ===== *)
theory StateBase
  imports Topology YamlState CharmUrl
begin

text \<open>
  \<open>juju/state/base.py\<close>: reading, changing and watching the \<open>/topology\<close> node, and the two watches of
  \<open>juju/state/service.py\<close> that report sets of names.

  ZooKeeper is reached through \<open>zk_client\<close>, whose fields stand for the client's calls and
  txzookeeper's \<open>retry_change\<close>; \<open>'c\<close> are the contents of nodes. YAML's loader and dumper of topologies
  are the parameters of \<open>InternalTopology.parse\<close> and \<open>dump\<close>.
\<close>

section \<open>Errors of the state package\<close>

datatype state_error =
    InTopology topo_error  \<comment> \<open>\<open>InternalTopologyError\<close> and Python's own exceptions\<close>
  | InNode yaml_error  \<comment> \<open>\<open>StateChanged\<close>, \<open>StateNotFound\<close>, ... of \<open>state/utils.py\<close>\<close>
  | InCharm url_error
  | ServiceStateNotFound string
  | ServiceStateNameInUse string
  | ServiceUnitStateNotFound string
  | BadServiceStateName string string
  | BadUnitName string  \<comment> \<open>\<open>ValueError\<close> and \<open>AssertionError\<close> of a name without sequence\<close>
  | RelationStateNotFound
  | RelationAlreadyExists "relation_endpoint list"
  | DuplicateEndpoints "relation_endpoint list"
  | IncompatibleEndpoints "relation_endpoint list"
  | WrongNumberOfEndpoints nat
  | UnitRelationStateNotFound string string string
  | UnknownRelationRole string string string
  | InvalidRelationIdentity string
  | RelationBrokenContextError string
  | PrincipalServiceUnitRequired string string
  | IllegalSubordinateMachineAssignment string
  | ServiceUnitStateMachineAlreadyAssigned string
  | NoUnusedMachines
  | ServiceUnitStateMachineNotAssigned string
  | MachineStateNotFound "string + int"  \<comment> \<open>the id, as it was given\<close>
  | MachineStateInUse int
  | PrincipalNotFound string
  | CharmStateNotFound string
  | UnitRelationStateAlreadyAssigned string string string
  | UnitMissingContainer string
  | SubordinateUsedAsContainer string string
  | NotSubordinateCharm string string
  | UnsupportedSubordinateServiceRemoval string string
  | EnvironmentStateNotFound
  | NoMatchingEndpoints
  | AmbiguousRelation string string "(relation_endpoint \<times> relation_endpoint) list"
  | ServiceUnitDebugAlreadyEnabled string
  | ServiceUnitUpgradeAlreadyEnabled string
  | ServiceUnitResolvedAlreadyEnabled string
  | ServiceUnitRelationResolvedAlreadyEnabled string
  | BadDescriptor string
  | ConstraintError string
  | InvalidPlacementPolicy string
  | BadValue string  \<comment> \<open>\<open>ValueError\<close> of a check of the arguments\<close>
  | BadContent string  \<comment> \<open>a Python exception on a node whose content has another shape\<close>
  | NodeExists string
  | NoNode string

abbreviation state_changed :: state_error where
  "state_changed \<equiv> InNode StateChanged"

definition raise_as :: "('a \<Rightarrow> 'b) \<Rightarrow> 'a + 'c \<Rightarrow> 'b + 'c" where
  "raise_as f r = (case r of Inl e \<Rightarrow> Inl (f e) | Inr x \<Rightarrow> Inr x)"

lemma raise_as_simps [simp]: "raise_as f (Inl e) = Inl (f e)" "raise_as f (Inr x) = Inr x"
  by (simp_all add: raise_as_def)

lemma raise_as_eq_Inr [result_simps]: "raise_as f r = Inr x \<longleftrightarrow> r = Inr x"
  by (cases r) simp_all

section \<open>The client\<close>

record ('z, 'c) zk_client =
  zc_get :: "'z \<Rightarrow> string \<Rightarrow> 'c option"  \<comment> \<open>\<open>None\<close>: \<open>NoNodeException\<close>\<close>
  zc_exists :: "'z \<Rightarrow> string \<Rightarrow> bool"
  zc_children :: "'z \<Rightarrow> string \<Rightarrow> string list option"
  zc_create :: "string \<Rightarrow> 'c \<Rightarrow> 'z \<Rightarrow> 'z option"  \<comment> \<open>\<open>None\<close>: \<open>NodeExistsException\<close>\<close>
  zc_delete :: "string \<Rightarrow> 'z \<Rightarrow> 'z option"  \<comment> \<open>\<open>None\<close>: \<open>NoNodeException\<close>\<close>
  zc_create_sequence :: "string \<Rightarrow> 'c \<Rightarrow> 'z \<Rightarrow> string \<times> 'z"  \<comment> \<open>the path created\<close>
  zc_retry_change :: "string \<Rightarrow> ('c option \<Rightarrow> state_error + 'c) \<Rightarrow> 'z \<Rightarrow> state_error + 'z"

record 'c topo_yaml =
  ty_load :: "'c \<Rightarrow> topology option"
  ty_dump :: "topology \<Rightarrow> 'c"
  ty_blank :: "'c \<Rightarrow> bool"  \<comment> \<open>the empty text\<close>

section \<open>Reading and changing\<close>

lemma migrate_loop_returns: "migrate_loop v c t \<noteq> None"
  by (subst migrate_loop.simps) (simp add: version_migration_def)

lemma parse_returns: "parse yload data \<noteq> None"
  unfolding parse_def migrate_topology_def
  using migrate_loop_returns by (auto simp: Let_def split: option.splits)

text \<open>\<open>parse\<close> always returns, so its value can be taken.\<close>

definition read_topology :: "'c topo_yaml \<Rightarrow> ('z, 'c) zk_client \<Rightarrow> 'z \<Rightarrow> state_error + topology" where
  "read_topology y client z =
     (case zc_get client z ''/topology'' of
        None \<Rightarrow> Inr new_topology
      | Some content \<Rightarrow> raise_as InTopology (the (parse (ty_load y) content)))"

text \<open>The topology a change function is given: a new one for a missing or empty node.\<close>

definition content_topology :: "'c topo_yaml \<Rightarrow> 'c option \<Rightarrow> state_error + topology" where
  "content_topology y content =
     (case content of
        None \<Rightarrow> Inr new_topology
      | Some text \<Rightarrow> if ty_blank y text then Inr new_topology
          else raise_as InTopology (the (parse (ty_load y) text)))"

definition change_content_function ::
  "'c topo_yaml \<Rightarrow> (topology \<Rightarrow> state_error + topology) \<Rightarrow> 'c option \<Rightarrow> state_error + 'c" where
  "change_content_function y change_topology_function content =
     rbind (content_topology y content) (\<lambda>topology.
     rbind (change_topology_function topology) (\<lambda>topology. Inr (dump (ty_dump y) topology)))"

definition retry_topology_change ::
  "'c topo_yaml \<Rightarrow> ('z, 'c) zk_client \<Rightarrow> (topology \<Rightarrow> state_error + topology) \<Rightarrow> 'z \<Rightarrow> state_error + 'z" where
  "retry_topology_change y client f = zc_retry_change client ''/topology'' (change_content_function y f)"

section \<open>Watching\<close>

text \<open>
  What a watch has left: the topology last handed to the callback and whether a ZooKeeper watch is set.
  The callback is given the state \<open>'w\<close> of its own.
\<close>

record topo_watch =
  tw_old :: "topology option"
  tw_watching :: bool

datatype watch_end = Returned | StopWatcher | Failed state_error

type_synonym 'w watch_function = "topology option \<Rightarrow> topology \<Rightarrow> 'w \<Rightarrow> 'w \<times> watch_end"

text \<open>
  One firing of the watch: whether the client is connected and what it reads from the node. A missing
  node sets the watch again, which fires when the node is back.
\<close>

definition topology_changed ::
  "'c topo_yaml \<Rightarrow> 'w watch_function \<Rightarrow> bool \<times> 'c option \<Rightarrow> topo_watch \<times> 'w \<Rightarrow> topo_watch \<times> 'w" where
  "topology_changed y f event s =
     (let (connected, node) = event; (w, x) = s in
      if \<not> connected then (w\<lparr>tw_watching := False\<rparr>, x)
      else case node of
        None \<Rightarrow> (w\<lparr>tw_watching := True\<rparr>, x)
      | Some content \<Rightarrow>
          (case the (parse (ty_load y) content) of
             Inl _ \<Rightarrow> (w\<lparr>tw_watching := False\<rparr>, x)
           | Inr topology \<Rightarrow>
               (case f (tw_old w) topology x of
                  (x, Returned) \<Rightarrow> (w\<lparr>tw_old := Some topology, tw_watching := True\<rparr>, x)
                | (x, _) \<Rightarrow> (w\<lparr>tw_watching := False\<rparr>, x))))"

text \<open>A watch that is not set any more does not fire.\<close>

definition watch_event ::
  "'c topo_yaml \<Rightarrow> 'w watch_function \<Rightarrow> bool \<times> 'c option \<Rightarrow> topo_watch \<times> 'w \<Rightarrow> topo_watch \<times> 'w" where
  "watch_event y f event s = (if tw_watching (fst s) then topology_changed y f event s else s)"

text \<open>\<open>_watch_topology\<close>: a present node is read at once, a missing one watched.\<close>

definition watch_topology ::
  "'c topo_yaml \<Rightarrow> 'w watch_function \<Rightarrow> bool \<times> 'c option \<Rightarrow> 'w \<Rightarrow> topo_watch \<times> 'w" where
  "watch_topology y f event x =
     (let w = \<lparr>tw_old = None, tw_watching = True\<rparr> in
      if \<not> fst event then (w\<lparr>tw_watching := False\<rparr>, x)
      else if snd event \<noteq> None then topology_changed y f event (w, x) else (w, x))"

definition watch_run ::
  "'c topo_yaml \<Rightarrow> 'w watch_function \<Rightarrow> bool \<times> 'c option \<Rightarrow> (bool \<times> 'c option) list \<Rightarrow> 'w
     \<Rightarrow> topo_watch \<times> 'w" where
  "watch_run y f first events x = fold (watch_event y f) events (watch_topology y f first x)"

section \<open>Watches of names\<close>

definition get_service_names :: "topology option \<Rightarrow> topo_error + string set" where
  "get_service_names topology =
     (case topology of
        None \<Rightarrow> Inr {}
      | Some t \<Rightarrow> rbind (rmap (get_service_name t) (get_services t)) (\<lambda>names. Inr (set names)))"

definition get_service_unit_names :: "string \<Rightarrow> topology option \<Rightarrow> topo_error + string set" where
  "get_service_unit_names sid topology =
     (case topology of
        None \<Rightarrow> Inr {}
      | Some t \<Rightarrow>
          if \<not> has_service t sid then Inr {}
          else rbind (get_service_units t sid) (\<lambda>unit_ids.
               rbind (rmap (get_service_unit_name t sid) unit_ids) (\<lambda>names. Inr (set names))))"

text \<open>The function both watches pass on: the callback hears of a change of the names only.\<close>

definition report_names ::
  "(topology option \<Rightarrow> topo_error + string set) \<Rightarrow> (string set \<Rightarrow> string set \<Rightarrow> 'w \<Rightarrow> 'w \<times> watch_end)
     \<Rightarrow> 'w watch_function" where
  "report_names names callback old new x =
     (case names old of
        Inl e \<Rightarrow> (x, Failed (InTopology e))
      | Inr old_names \<Rightarrow>
          (case names (Some new) of
             Inl e \<Rightarrow> (x, Failed (InTopology e))
           | Inr new_names \<Rightarrow>
               if old_names \<noteq> new_names then callback old_names new_names x else (x, Returned)))"

definition watch_service_states ::
  "'c topo_yaml \<Rightarrow> (string set \<Rightarrow> string set \<Rightarrow> 'w \<Rightarrow> 'w \<times> watch_end) \<Rightarrow> bool \<times> 'c option \<Rightarrow> 'w
     \<Rightarrow> topo_watch \<times> 'w" where
  "watch_service_states y callback = watch_topology y (report_names get_service_names callback)"

definition watch_service_unit_states ::
  "'c topo_yaml \<Rightarrow> string \<Rightarrow> (string set \<Rightarrow> string set \<Rightarrow> 'w \<Rightarrow> 'w \<times> watch_end) \<Rightarrow> bool \<times> 'c option \<Rightarrow> 'w
     \<Rightarrow> topo_watch \<times> 'w" where
  "watch_service_unit_states y sid callback = watch_topology y (report_names (get_service_unit_names sid) callback)"

section \<open>What is expected of the client\<close>

text \<open>
  \<open>retry_change\<close> replaces the content of one node by what the change function makes of it, atomically, and
  writes nothing when the function raises.
\<close>

definition client_ok :: "('z, 'c) zk_client \<Rightarrow> bool" where
  "client_ok client \<longleftrightarrow>
     (\<forall>p f z. case f (zc_get client z p) of
        Inl e \<Rightarrow> zc_retry_change client p f z = Inl e
      | Inr c \<Rightarrow> \<exists>z'. zc_retry_change client p f z = Inr z' \<and>
          (\<forall>q. zc_get client z' q = (if q = p then Some c else zc_get client z q)))"

lemma retry_change_Inr:
  assumes "client_ok client" and "f (zc_get client z p) = Inr c"
  shows "\<exists>z'. zc_retry_change client p f z = Inr z' \<and>
    (\<forall>q. zc_get client z' q = (if q = p then Some c else zc_get client z q))"
  using assms(1) [unfolded client_ok_def, rule_format, of p f z] assms(2) by simp

lemma retry_change_Inl:
  assumes "client_ok client" and "f (zc_get client z p) = Inl e"
  shows "zc_retry_change client p f z = Inl e"
  using assms(1) [unfolded client_ok_def, rule_format, of p f z] assms(2) by simp

text \<open>A client over a dict of nodes.\<close>

definition plain_client :: "((string, 'c) dict, 'c) zk_client" where
  "plain_client = \<lparr>
     zc_get = dget,
     zc_exists = dhas,
     zc_children = (\<lambda>z p. if dhas z p then Some (List.map_filter (\<lambda>(q, _).
        case rsplit_once CHR ''/'' q of None \<Rightarrow> None | Some (d, b) \<Rightarrow> if d = p then Some b else None) z) else None),
     zc_create = (\<lambda>p c z. if dhas z p then None else Some (dset p c z)),
     zc_delete = (\<lambda>p z. if dhas z p then Some (ddel p z) else None),
     zc_create_sequence = (\<lambda>p c z. let q = p @ show_nat (length z) in (q, dset q c z)),
     zc_retry_change = (\<lambda>p f z. rbind (f (dget z p)) (\<lambda>c. Inr (dset p c z)))\<rparr>"

lemma plain_client_simps [simp]:
  "zc_get plain_client = dget"
  "zc_retry_change plain_client p f z = rbind (f (dget z p)) (\<lambda>c. Inr (dset p c z))"
  by (simp_all add: plain_client_def)

lemma plain_client_ok: "client_ok (plain_client :: ((string, 'c) dict, 'c) zk_client)"
  unfolding client_ok_def
proof (intro allI)
  fix p :: string and f :: "'c option \<Rightarrow> state_error + 'c" and z :: "(string, 'c) dict"
  show "case f (zc_get plain_client z p) of
      Inl e \<Rightarrow> zc_retry_change plain_client p f z = Inl e
    | Inr c \<Rightarrow> \<exists>z'. zc_retry_change plain_client p f z = Inr z' \<and>
        (\<forall>q. zc_get plain_client z' q = (if q = p then Some c else zc_get plain_client z q))"
    by (cases "f (dget z p)") (auto simp: dget_dset)
qed

end
