(* ===== verification/StateBaseProps.thy ===== *)
theory StateBaseProps
  imports StateBase TopologySpec
begin

text \<open>
  Properties of \<open>StateBase\<close>: what watchers of the topology are told, and what becomes of changes to the
  stored topology.
\<close>

section \<open>Chains of reported changes\<close>

type_synonym name_changes = "(string set \<times> string set) list"

text \<open>A callback that records its calls and answers in any way that depends on them.\<close>

definition logging ::
  "(name_changes \<Rightarrow> watch_end) \<Rightarrow> string set \<Rightarrow> string set \<Rightarrow> name_changes \<Rightarrow> name_changes \<times> watch_end" where
  "logging answer old new calls = (calls @ [(old, new)], answer (calls @ [(old, new)]))"

fun chained :: "string set \<Rightarrow> name_changes \<Rightarrow> bool" where
  "chained a [] \<longleftrightarrow> True"
| "chained a ((old, new) # calls) \<longleftrightarrow> old = a \<and> old \<noteq> new \<and> chained new calls"

definition reported :: "name_changes \<Rightarrow> string set" where
  "reported calls = (if calls = [] then {} else snd (last calls))"

lemma reported_snoc [simp]: "reported (calls @ [(a, b)]) = b"
  by (simp add: reported_def)

lemma chained_snoc:
  "chained a (calls @ [(b, c)]) \<longleftrightarrow>
     chained a calls \<and> b = (if calls = [] then a else snd (last calls)) \<and> b \<noteq> c"
  by (induction a calls rule: chained.induct) auto

text \<open>The content of the last node that was there to be read.\<close>

definition last_content :: "(bool \<times> 'c option) list \<Rightarrow> 'c option" where
  "last_content events = fold (\<lambda>e acc. case snd e of None \<Rightarrow> acc | Some c \<Rightarrow> Some c) events None"

lemma last_content_snoc:
  "last_content (events @ [e]) = (case snd e of None \<Rightarrow> last_content events | Some c \<Rightarrow> Some c)"
  by (simp add: last_content_def split: option.split)

text \<open>
  What a watch of names promises: the calls lead from no names to the names of the topology that was
  read last, each from where the one before ended, as long as the watch goes on.
\<close>

definition tells_changes ::
  "'c topo_yaml \<Rightarrow> (topology option \<Rightarrow> topo_error + string set) \<Rightarrow> (bool \<times> 'c option) list
     \<Rightarrow> topo_watch \<times> name_changes \<Rightarrow> bool" where
  "tells_changes y names events s \<longleftrightarrow>
     chained {} (snd s) \<and>
     (tw_watching (fst s) \<longrightarrow>
        (case last_content events of
           None \<Rightarrow> tw_old (fst s) = None \<and> snd s = []
         | Some content \<Rightarrow> \<exists>t. parse (ty_load y) content = Some (Inr t) \<and> tw_old (fst s) = Some t \<and>
             names (Some t) = Inr (reported (snd s))))"

locale names_watch =
  fixes names :: "topology option \<Rightarrow> topo_error + string set"
  assumes names_none: "names None = Inr {}"
    and names_total: "\<exists>ns. names (Some t) = Inr ns"
begin

lemma names_reported:
  "tells_changes y names events (w, calls) \<Longrightarrow> tw_watching w \<Longrightarrow> names (tw_old w) = Inr (reported calls)"
  by (auto simp: tells_changes_def names_none reported_def split: option.splits)

lemma changed_tells:
  assumes I: "tells_changes y names events (w, calls)" and w: "tw_watching w"
  shows "tells_changes y names (events @ [e])
           (topology_changed y (report_names names (logging answer)) e (w, calls))"
proof -
  obtain connected node where e: "e = (connected, node)" by (cases e)
  have old: "names (tw_old w) = Inr (reported calls)" using names_reported [OF I w] .
  have chain: "chained {} calls" using I by (simp add: tells_changes_def)
  show ?thesis
  proof (cases "connected \<and> node \<noteq> None")
    case False
    then show ?thesis
      using I w by (auto simp: e topology_changed_def tells_changes_def last_content_snoc split: option.splits)
  next
    case True
    then obtain content where c: "connected" "node = Some content" by auto
    obtain r where r: "parse (ty_load y) content = Some r" using parse_returns by fastforce
    show ?thesis
    proof (cases r)
      case (Inl err)
      then show ?thesis using chain by (simp add: e c r topology_changed_def tells_changes_def)
    next
      case (Inr t)
      obtain ns where ns: "names (Some t) = Inr ns" using names_total by blast
      show ?thesis
      proof (cases "reported calls = ns")
        case True
        then show ?thesis
          using chain by (simp add: e c r Inr old ns topology_changed_def report_names_def tells_changes_def last_content_snoc)
      next
        case False
        have "chained {} (calls @ [(reported calls, ns)])"
          using chain False by (simp add: chained_snoc reported_def)
        then show ?thesis
          using False by (cases "answer (calls @ [(reported calls, ns)])")
            (simp_all add: e c r Inr old ns topology_changed_def report_names_def logging_def tells_changes_def last_content_snoc)
      qed
    qed
  qed
qed

lemma event_tells:
  assumes "tells_changes y names events s"
  shows "tells_changes y names (events @ [e]) (watch_event y (report_names names (logging answer)) e s)"
  using assms changed_tells [of y events "fst s" "snd s" e answer]
  by (auto simp: watch_event_def tells_changes_def)

lemma run_tells:
  "tells_changes y names (first # events) (watch_run y (report_names names (logging answer)) first events [])"
proof (induction events rule: rev_induct)
  case Nil
  obtain connected node where first: "first = (connected, node)" by (cases first)
  have "tells_changes y names [] (\<lparr>tw_old = None, tw_watching = True\<rparr>, [])"
    by (simp add: tells_changes_def last_content_def)
  from changed_tells [OF this, of first answer] show ?case
    by (cases "connected \<and> node \<noteq> None")
      (auto simp: watch_run_def watch_topology_def Let_def first tells_changes_def last_content_def topology_changed_def)
next
  case (snoc e events)
  from event_tells [OF snoc, of e answer] show ?case by (simp add: watch_run_def)
qed

end

lemma rmap_total: "(\<And>x. x \<in> set xs \<Longrightarrow> \<exists>y. f x = Inr y) \<Longrightarrow> \<exists>ys. rmap f xs = Inr ys"
  by (induction xs) (force simp: result_simps)+

lemma service_names_total: "\<exists>ns. get_service_names (Some t) = Inr ns"
proof -
  have "\<exists>names. rmap (get_service_name t) (get_services t) = Inr names"
    by (rule rmap_total)
      (auto simp: get_services_def get_service_name_def assert_service_def item_def dhas_keys map_of_eq_None_iff
         image_iff split: option.splits)
  then show ?thesis by (auto simp: get_service_names_def)
qed

lemma unit_names_total: "\<exists>ns. get_service_unit_names sid (Some t) = Inr ns"
proof (cases "has_service t sid")
  case False
  then show ?thesis by (simp add: get_service_unit_names_def)
next
  case True
  then obtain s where s: "dget (services_of t) sid = Some s" by (auto simp: has_service_def dhas_iff)
  have "\<exists>names. rmap (get_service_unit_name t sid) (dkeys (s_units s)) = Inr names"
  proof (rule rmap_total)
    fix uid assume "uid \<in> set (dkeys (s_units s))"
    then have "dhas (s_units s) uid" by (simp add: dhas_keys)
    then obtain u where "dget (s_units s) uid = Some u" by (auto simp: dhas_iff)
    then show "\<exists>y. get_service_unit_name t sid uid = Inr y"
      using s by (simp add: get_service_unit_name_def unit_item_def assert_service_unit_def assert_service_def
        item_def dhas_iff)
  qed
  then show ?thesis
    using True s by (auto simp: get_service_unit_names_def get_service_units_def assert_service_def item_def
      has_service_def dhas_iff)
qed

interpretation service_watch: names_watch get_service_names
  by unfold_locales (simp add: get_service_names_def, rule service_names_total)

interpretation unit_watch: names_watch "get_service_unit_names sid" for sid
  by unfold_locales (simp add: get_service_unit_names_def, rule unit_names_total)


section \<open>Changes of the stored topology\<close>

definition topo_yaml_ok :: "'c topo_yaml \<Rightarrow> bool" where
  "topo_yaml_ok y \<longleftrightarrow> (\<forall>t. ty_load y (ty_dump y t) = Some t \<and> \<not> ty_blank y (ty_dump y t))"

text \<open>A client of the state package submits one operation on the topology; its failure is the client's.\<close>

definition submit :: "'c topo_yaml \<Rightarrow> ('z, 'c) zk_client \<Rightarrow> 'z \<Rightarrow> topo_cmd \<Rightarrow> 'z" where
  "submit y client z c =
     (case retry_topology_change y client (\<lambda>t. raise_as InTopology (exec_cmd t c)) z of
        Inl _ \<Rightarrow> z
      | Inr z' \<Rightarrow> z')"

text \<open>The stored topology is \<open>t\<close>; a fresh environment has no node.\<close>

definition stored :: "'c topo_yaml \<Rightarrow> ('z, 'c) zk_client \<Rightarrow> 'z \<Rightarrow> topology \<Rightarrow> bool" where
  "stored y client z t \<longleftrightarrow> get_version t = VERSION \<and>
     (zc_get client z ''/topology'' = None \<and> t = new_topology \<or>
      zc_get client z ''/topology'' = Some (ty_dump y t))"

lemma parse_dumped: "topo_yaml_ok y \<Longrightarrow> get_version t = VERSION \<Longrightarrow> parse (ty_load y) (ty_dump y t) = Some (Inr t)"
  by (simp add: parse_def topo_yaml_ok_def)

lemma stored_read: "topo_yaml_ok y \<Longrightarrow> stored y client z t \<Longrightarrow> read_topology y client z = Inr t"
  by (auto simp: stored_def read_topology_def parse_dumped)

lemma stored_change:
  "topo_yaml_ok y \<Longrightarrow> stored y client z t \<Longrightarrow>
     change_content_function y f (zc_get client z ''/topology'') = rbind (f t) (\<lambda>t'. Inr (ty_dump y t'))"
  by (auto simp: stored_def change_content_function_def content_topology_def parse_dumped dump_def) (auto simp: topo_yaml_ok_def)

lemma version_set_relation [simp]: "get_version (set_relation t rid r) = get_version t"
  by (simp add: set_relation_def get_version_def)

lemma version_set_units [simp]: "get_version (set_units t sid s us) = get_version t"
  by (simp add: set_units_def get_version_def)

lemma version_new [simp]: "get_version new_topology = VERSION"
  by (simp add: new_topology_def get_version_def)

lemma version_update [simp]:
  "get_version (t\<lparr>t_machines := a\<rparr>) = get_version t" "get_version (t\<lparr>t_services := b\<rparr>) = get_version t"
  "get_version (t\<lparr>t_unit_sequence := c\<rparr>) = get_version t" "get_version (t\<lparr>t_relations := d\<rparr>) = get_version t"
  by (simp_all add: get_version_def)

lemma version_kept: "exec_cmd t c = Inr t' \<Longrightarrow> get_version t = VERSION \<Longrightarrow> get_version t' = VERSION"
proof (cases c)
  case (AddService sid name)
  then show "exec_cmd t c = Inr t' \<Longrightarrow> get_version t = VERSION \<Longrightarrow> get_version t' = VERSION"
    by (auto simp: add_service_def Let_def split: if_splits)
next
  case (AddUnit sid uid k)
  then show "exec_cmd t c = Inr t' \<Longrightarrow> get_version t = VERSION \<Longrightarrow> get_version t' = VERSION"
    by (auto simp: add_service_unit_def result_simps Let_def split: if_splits)
qed (auto simp: result_simps Let_def add_machine_def remove_machine_def remove_service_def
    remove_service_unit_def assign_service_unit_to_machine_def unassign_service_unit_from_machine_def
    add_relation_def remove_relation_def assign_service_to_relation_def unassign_service_from_relation_def
    reset_def split: if_splits)

lemma stored_submit:
  assumes "client_ok client" and "topo_yaml_ok y" and "stored y client z t"
  shows "stored y client (submit y client z c) (exec_or_keep t c) \<and>
    (\<forall>q. q \<noteq> ''/topology'' \<longrightarrow> zc_get client (submit y client z c) q = zc_get client z q)"
proof (cases "exec_cmd t c")
  case (Inl e)
  then have "retry_topology_change y client (\<lambda>t. raise_as InTopology (exec_cmd t c)) z = Inl (InTopology e)"
    unfolding retry_topology_change_def
    by (intro retry_change_Inl [OF assms(1)]) (simp add: stored_change [OF assms(2,3)])
  then show ?thesis using assms(3) Inl by (simp add: submit_def exec_or_keep_def)
next
  case (Inr t')
  have "change_content_function y (\<lambda>t. raise_as InTopology (exec_cmd t c)) (zc_get client z ''/topology'') =
      Inr (ty_dump y t')"
    by (simp add: stored_change [OF assms(2,3)] Inr)
  from retry_change_Inr [where f = "change_content_function y (\<lambda>t. raise_as InTopology (exec_cmd t c))", OF assms(1) this]
  obtain z' where "retry_topology_change y client (\<lambda>t. raise_as InTopology (exec_cmd t c)) z = Inr z'"
    and "\<forall>q. zc_get client z' q = (if q = ''/topology'' then Some (ty_dump y t') else zc_get client z q)"
    by (auto simp: retry_topology_change_def)
  moreover have "get_version t' = VERSION" using version_kept [OF Inr] assms(3) by (simp add: stored_def)
  ultimately show ?thesis by (simp add: submit_def exec_or_keep_def Inr stored_def)
qed

lemma stored_submits:
  assumes "client_ok client" and "topo_yaml_ok y" and "stored y client z t"
  shows "stored y client (foldl (submit y client) z cs) (run_cmds t cs) \<and>
    (\<forall>q. q \<noteq> ''/topology'' \<longrightarrow> zc_get client (foldl (submit y client) z cs) q = zc_get client z q)"
  using assms(3)
proof (induction cs arbitrary: z t)
  case Nil
  then show ?case by (simp add: run_cmds_def)
next
  case (Cons c cs)
  from Cons.IH [OF conjunct1 [OF stored_submit [OF assms(1,2) Cons.prems, of c]]]
    conjunct2 [OF stored_submit [OF assms(1,2) Cons.prems, of c]]
  show ?case by (simp add: run_cmds_def)
qed

text \<open>
  C11: the stored topology is the in-memory one. In an environment without \<open>/topology\<close> node, after any
  sequence of operations that clients submit through \<open>_retry_topology_change\<close> (each sees the topology the
  one before left, one that raises writes nothing), \<open>_read_topology\<close> returns exactly the topology the
  operations build in memory; it satisfies the invariants of \<open>InternalTopology\<close>, and no other node is touched.
\<close>

theorem stored_topology:
  assumes "client_ok client" and "topo_yaml_ok y" and "zc_get client z ''/topology'' = None"
  shows "read_topology y client (foldl (submit y client) z cs) = Inr (run_cmds new_topology cs)
    \<and> topo_inv (topo_abs (run_cmds new_topology cs))
    \<and> (\<forall>q. q \<noteq> ''/topology'' \<longrightarrow> zc_get client (foldl (submit y client) z cs) q = zc_get client z q)"
proof -
  have "stored y client z new_topology" using assms(3) by (simp add: stored_def)
  note final = stored_submits [OF assms(1,2) this, of cs]
  have "topo_reachable (run_cmds new_topology cs)"
    by (rule reachable_run_from [OF topo_reachable.initial])
  note inv = conjunct2 [OF reachable_invariants [OF this]]
  show ?thesis
    by (intro conjI stored_read [OF assms(2)] conjunct1 [OF final] conjunct2 [OF final] inv)
qed

text \<open>A YAML that keeps topologies as they are.\<close>

definition plain_topo_yaml :: "topology option topo_yaml" where
  "plain_topo_yaml = \<lparr>ty_load = (\<lambda>c. c), ty_dump = Some, ty_blank = (\<lambda>c. c = None)\<rparr>"

lemma plain_topo_yaml_ok: "topo_yaml_ok plain_topo_yaml"
  by (simp add: topo_yaml_ok_def plain_topo_yaml_def)

theorem stored_topology_witness:
  "read_topology plain_topo_yaml plain_client
     (foldl (submit plain_topo_yaml plain_client) []
        [AddMachine ''m-0'', AddService ''s-0'' ''wordpress'', AddMachine ''m-0'', AddUnit ''s-0'' ''u-0'' None])
   = Inr (run_cmds new_topology
        [AddMachine ''m-0'', AddService ''s-0'' ''wordpress'', AddMachine ''m-0'', AddUnit ''s-0'' ''u-0'' None])"
  by (rule stored_topology [OF plain_client_ok plain_topo_yaml_ok, THEN conjunct1]) simp

end
