(* ===== verification/Effects.thy ===== *)
theory Effects
  imports Prelude
begin

text \<open>
  Operations that change a state and may raise: the state they leave behind is there in both cases, as
  Python's is. \<open>ebind\<close> is sequencing; an exception skips the rest and keeps the changes made so far.
\<close>

type_synonym ('s, 'e, 'a) eff = "'s \<Rightarrow> 's \<times> ('e + 'a)"

named_theorems eff_simps \<open>running operations\<close>

definition eret :: "'a \<Rightarrow> ('s, 'e, 'a) eff" where
  "eret x s = (s, Inr x)"

definition eraise :: "'e \<Rightarrow> ('s, 'e, 'a) eff" where
  "eraise e s = (s, Inl e)"

definition ebind :: "('s, 'e, 'a) eff \<Rightarrow> ('a \<Rightarrow> ('s, 'e, 'b) eff) \<Rightarrow> ('s, 'e, 'b) eff" where
  "ebind m f s = (let (s', r) = m s in case r of Inl e \<Rightarrow> (s', Inl e) | Inr x \<Rightarrow> f x s')"

text \<open>Reading the state, possibly raising; replacing it, possibly raising with the state as it was.\<close>

definition eread :: "('s \<Rightarrow> 'e + 'a) \<Rightarrow> ('s, 'e, 'a) eff" where
  "eread g s = (s, g s)"

definition echange :: "('s \<Rightarrow> 'e + 's) \<Rightarrow> ('s, 'e, unit) eff" where
  "echange g s = (case g s of Inl e \<Rightarrow> (s, Inl e) | Inr s' \<Rightarrow> (s', Inr ()))"

text \<open>\<open>try: m except: h\<close>, with the handler chosen by the exception; \<open>None\<close> lets it pass.\<close>

definition ecatch :: "('s, 'e, 'a) eff \<Rightarrow> ('e \<Rightarrow> ('s, 'e, 'a) eff option) \<Rightarrow> ('s, 'e, 'a) eff" where
  "ecatch m h s = (let (s', r) = m s in
     case r of
       Inl e \<Rightarrow> (case h e of None \<Rightarrow> (s', Inl e) | Some k \<Rightarrow> k s')
     | Inr x \<Rightarrow> (s', Inr x))"

text \<open>A loop over a list.\<close>

fun efor :: "'a list \<Rightarrow> ('a \<Rightarrow> ('s, 'e, unit) eff) \<Rightarrow> ('s, 'e, unit) eff" where
  "efor [] f s = (s, Inr ())"
| "efor (x # xs) f s = ebind (f x) (\<lambda>_. efor xs f) s"

fun emap :: "'a list \<Rightarrow> ('a \<Rightarrow> ('s, 'e, 'b) eff) \<Rightarrow> ('s, 'e, 'b list) eff" where
  "emap [] f s = (s, Inr [])"
| "emap (x # xs) f s = ebind (f x) (\<lambda>y. ebind (emap xs f) (\<lambda>ys. eret (y # ys))) s"

lemma ebind_simps [eff_simps]:
  "ebind (eret x) f s = f x s"
  "ebind (eraise e) f s = (s, Inl e)"
  "ebind (eread g) f s = (case g s of Inl e \<Rightarrow> (s, Inl e) | Inr x \<Rightarrow> f x s)"
  "ebind (echange h) k s = (case h s of Inl e \<Rightarrow> (s, Inl e) | Inr s' \<Rightarrow> k () s')"
  by (simp_all add: ebind_def eret_def eraise_def eread_def echange_def split: sum.split)

lemma ebind_ran: "m s = (s', Inr x) \<Longrightarrow> ebind m f s = f x s'"
  by (simp add: ebind_def)

lemma ebind_raised: "m s = (s', Inl e) \<Longrightarrow> ebind m f s = (s', Inl e)"
  by (simp add: ebind_def)

lemma ebind_eq_Inr:
  "ebind m f s = (s'', Inr y) \<longleftrightarrow> (\<exists>s' x. m s = (s', Inr x) \<and> f x s' = (s'', Inr y))"
  by (auto simp: ebind_def Let_def split: prod.splits sum.splits)

lemma ebind_assoc: "ebind (ebind m f) g = ebind m (\<lambda>x. ebind (f x) g)"
  by (rule ext) (simp add: ebind_def Let_def split: prod.split sum.split)

lemma eret_simp [eff_simps]: "eret x s = (s, Inr x)"
  by (simp add: eret_def)

lemma eraise_simp [eff_simps]: "eraise e s = (s, Inl e)"
  by (simp add: eraise_def)

lemma eread_simp [eff_simps]: "eread g s = (s, g s)"
  by (simp add: eread_def)

text \<open>A reflexive and transitive relation that every step keeps is kept by the whole operation.\<close>

locale eff_relation =
  fixes R :: "'s \<Rightarrow> 's \<Rightarrow> bool"
  assumes R_refl: "R s s" and R_trans: "R s t \<Longrightarrow> R t u \<Longrightarrow> R s u"
begin

definition keeps :: "('s, 'e, 'a) eff \<Rightarrow> bool" where
  "keeps m \<longleftrightarrow> (\<forall>s. R s (fst (m s)))"

lemma keepsD: "keeps m \<Longrightarrow> R s (fst (m s))"
  by (simp add: keeps_def)

lemma keeps_pure [intro]: "keeps (eret x)" "keeps (eraise e)" "keeps (eread g)"
  by (simp_all add: keeps_def eret_def eraise_def eread_def R_refl)

lemma keeps_bind [intro]: "keeps m \<Longrightarrow> (\<And>x. keeps (f x)) \<Longrightarrow> keeps (ebind m f)"
  unfolding keeps_def ebind_def
  by (auto simp: Let_def split: prod.split sum.split) (metis R_trans fst_conv)+

lemma keeps_change: "(\<And>s s'. g s = Inr s' \<Longrightarrow> R s s') \<Longrightarrow> keeps (echange g)"
  by (auto simp: keeps_def echange_def R_refl split: sum.split)

lemma keeps_catch: "keeps m \<Longrightarrow> (\<And>e k. h e = Some k \<Longrightarrow> keeps k) \<Longrightarrow> keeps (ecatch m h)"
  unfolding keeps_def ecatch_def
  by (auto simp: Let_def split: prod.split sum.split option.split) (metis R_trans fst_conv)+

lemma keeps_for: "(\<And>x. keeps (f x)) \<Longrightarrow> keeps (efor xs f)"
proof (induction xs)
  case Nil
  then show ?case by (simp add: keeps_def R_refl)
next
  case (Cons x xs)
  from keeps_bind [OF Cons.prems Cons.IH [OF Cons.prems]] show ?case by (simp add: keeps_def)
qed

lemma keeps_map: "(\<And>x. keeps (f x)) \<Longrightarrow> keeps (emap xs f)"
proof (induction xs)
  case Nil
  then show ?case by (simp add: keeps_def R_refl)
next
  case (Cons x xs)
  have "keeps (ebind (f x) (\<lambda>y. ebind (emap xs f) (\<lambda>ys. eret (y # ys))))"
    by (intro keeps_bind keeps_pure Cons.prems Cons.IH [OF Cons.prems])
  then show ?case by (simp add: keeps_def)
qed

end

end
