(* ===== verification/ServiceState.thy ===== *)
theory ServiceState
  imports StateBase Effects
begin

text \<open>
  \<open>juju/state/service.py\<close>: services, their units, and the nodes below \<open>/units/<unit id>\<close> through which
  clients and the unit's agent talk (debugging, upgrade, resolved flags, ports).

  The state is ZooKeeper's, \<open>'z\<close>. The contents of nodes are read and written as YAML values by
  \<open>se_load\<close> and \<open>se_dump\<close>. Charm metadata and constraints are other components: what this one asks of them
  is in \<open>state_env\<close> too.
\<close>

section \<open>Values of nodes\<close>

datatype yvalue =
    YNone
  | YBool bool
  | YInt int
  | YText string
  | YList "yvalue list"
  | YMap "(string, yvalue) dict"

text \<open>Python's \<open>==\<close>: dicts are compared key by key, a bool equals its number.\<close>

definition y_number :: "yvalue \<Rightarrow> int option" where
  "y_number v = (case v of YBool b \<Rightarrow> Some (if b then 1 else 0) | YInt i \<Rightarrow> Some i | _ \<Rightarrow> None)"

fun y_eq :: "yvalue \<Rightarrow> yvalue \<Rightarrow> bool" where
  "y_eq YNone w \<longleftrightarrow> w = YNone"
| "y_eq (YBool b) w \<longleftrightarrow> y_number w = Some (if b then 1 else 0)"
| "y_eq (YInt i) w \<longleftrightarrow> y_number w = Some i"
| "y_eq (YText s) w \<longleftrightarrow> w = YText s"
| "y_eq (YList xs) w \<longleftrightarrow> (case w of YList ys \<Rightarrow> list_all2 y_eq xs ys | _ \<Rightarrow> False)"
| "y_eq (YMap d) w \<longleftrightarrow> (case w of
     YMap d' \<Rightarrow> length d = length d' \<and> list_all (\<lambda>(k, v). list_ex (\<lambda>(k', v'). k = k' \<and> y_eq v v') d') d
   | _ \<Rightarrow> False)"

text \<open>\<open>if data:\<close>\<close>

definition y_true :: "yvalue \<Rightarrow> bool" where
  "y_true v = (case v of YNone \<Rightarrow> False | YBool b \<Rightarrow> b | YInt i \<Rightarrow> i \<noteq> 0 | YText s \<Rightarrow> s \<noteq> []
     | YList xs \<Rightarrow> xs \<noteq> [] | YMap d \<Rightarrow> d \<noteq> [])"

record service_state =
  ss_id :: string
  ss_name :: string

record service_unit =
  su_service :: string
  su_service_name :: string
  su_sequence :: int
  su_id :: string

record ('z, 'c) state_env =
  se_client :: "('z, 'c) zk_client"
  se_topo :: "'c topo_yaml"
  se_load :: "'c \<Rightarrow> yvalue"
  se_dump :: "yvalue \<Rightarrow> 'c"
  se_empty :: 'c  \<comment> \<open>what \<open>create\<close> without data stores\<close>
  se_remove_tree :: "string \<Rightarrow> 'z \<Rightarrow> 'z"  \<comment> \<open>\<open>remove_tree\<close> of \<open>state/utils.py\<close>\<close>
  se_unit_data :: "'z \<Rightarrow> string \<Rightarrow> state_error + yvalue"  \<comment> \<open>charm id and constraints a new unit gets\<close>
  se_is_subordinate :: "'z \<Rightarrow> string \<Rightarrow> state_error + bool"  \<comment> \<open>of a service, by its charm's metadata\<close>
  se_config_defaults :: "'z \<Rightarrow> string \<Rightarrow> state_error + (string, yvalue) dict"  \<comment> \<open>of a service, by its charm's config\<close>
  se_can_satisfy :: "'z \<Rightarrow> string \<Rightarrow> string \<Rightarrow> state_error + bool"  \<comment> \<open>a machine the constraints of a unit\<close>

abbreviation topo_of :: "('z, 'c) state_env \<Rightarrow> 'z \<Rightarrow> state_error + topology" where
  "topo_of e \<equiv> read_topology (se_topo e) (se_client e)"

abbreviation topo_change ::
  "('z, 'c) state_env \<Rightarrow> (topology \<Rightarrow> state_error + topology) \<Rightarrow> ('z, state_error, unit) eff" where
  "topo_change e f \<equiv> echange (retry_topology_change (se_topo e) (se_client e) f)"

text \<open>The node at a path as a \<open>YAMLState\<close> sees it: a content that is no dict is an empty one.\<close>

definition as_dict :: "yvalue \<Rightarrow> (string, yvalue) dict" where
  "as_dict v = (case v of YMap d \<Rightarrow> d | _ \<Rightarrow> [])"

definition node_at :: "('z, 'c) state_env \<Rightarrow> string \<Rightarrow> ('z, 'c, yvalue) ynode" where
  "node_at e path = \<lparr>
     yn_load = (\<lambda>c. as_dict (se_load e c)),
     yn_dump = (\<lambda>d. se_dump e (YMap d)),
     yn_get = (\<lambda>z. zc_get (se_client e) z path),
     yn_retry_change = (\<lambda>f z. case zc_retry_change (se_client e) path (\<lambda>c. Inr (f c)) z of Inl _ \<Rightarrow> z | Inr z' \<Rightarrow> z')\<rparr>"

section \<open>Finding services and units\<close>

definition get_service_state :: "('z, 'c) state_env \<Rightarrow> string \<Rightarrow> 'z \<Rightarrow> state_error + service_state" where
  "get_service_state e service_name z =
     rbind (topo_of e z) (\<lambda>topology.
     case find_service_with_name topology service_name of
       None \<Rightarrow> Inl (ServiceStateNotFound service_name)
     | Some internal_id \<Rightarrow> Inr \<lparr>ss_id = internal_id, ss_name = service_name\<rparr>)"

definition parse_unit_name :: "string \<Rightarrow> state_error + string \<times> int" where
  "parse_unit_name uname =
     (case rsplit_once CHR ''/'' uname of
        None \<Rightarrow> Inl (BadUnitName uname)
      | Some (service_name, sequence) \<Rightarrow>
          (case py_int sequence of None \<Rightarrow> Inl (BadUnitName uname) | Some n \<Rightarrow> Inr (service_name, n)))"

definition parse_service_name :: "string \<Rightarrow> state_error + string" where
  "parse_service_name uname = rbind (parse_unit_name uname) (\<lambda>(service_name, _). Inr service_name)"

definition service_unit_state ::
  "('z, 'c) state_env \<Rightarrow> service_state \<Rightarrow> string \<Rightarrow> 'z \<Rightarrow> state_error + service_unit" where
  "service_unit_state e s uname z =
     (if CHR ''/'' \<notin> set uname then Inl (BadUnitName uname)
      else rbind (parse_unit_name uname) (\<lambda>(service_name, sequence).
      if service_name \<noteq> ss_name s then Inl (BadServiceStateName (ss_name s) service_name)
      else rbind (topo_of e z) (\<lambda>topology.
      if \<not> has_service topology (ss_id s) then Inl state_changed
      else rbind (raise_as InTopology (find_service_unit_with_sequence topology (Some (ss_id s)) sequence))
        (\<lambda>internal_unit_id.
      case internal_unit_id of
        None \<Rightarrow> Inl (ServiceUnitStateNotFound uname)
      | Some uid \<Rightarrow> Inr \<lparr>su_service = ss_id s, su_service_name = ss_name s, su_sequence = sequence, su_id = uid\<rparr>))))"

definition get_unit_state :: "('z, 'c) state_env \<Rightarrow> string \<Rightarrow> 'z \<Rightarrow> state_error + service_unit" where
  "get_unit_state e uname z =
     (if CHR ''/'' \<notin> set uname then Inl (ServiceUnitStateNotFound uname)
      else case py_split CHR ''/'' uname of
        [service_name, _] \<Rightarrow>
          rbind (get_service_state e service_name z) (\<lambda>s. service_unit_state e s uname z)
      | _ \<Rightarrow> Inl (BadUnitName uname))"

definition get_all_service_states :: "('z, 'c) state_env \<Rightarrow> 'z \<Rightarrow> state_error + service_state list" where
  "get_all_service_states e z =
     rbind (topo_of e z) (\<lambda>topology.
     rmap (\<lambda>sid. rbind (raise_as InTopology (get_service_name topology sid))
       (\<lambda>name. Inr \<lparr>ss_id = sid, ss_name = name\<rparr>)) (get_services topology))"

definition get_unit_names :: "('z, 'c) state_env \<Rightarrow> service_state \<Rightarrow> 'z \<Rightarrow> state_error + string list" where
  "get_unit_names e s z =
     rbind (topo_of e z) (\<lambda>topology.
     if \<not> has_service topology (ss_id s) then Inl state_changed
     else rbind (raise_as InTopology (get_service_units topology (ss_id s)))
       (\<lambda>ids. rmap (\<lambda>uid. raise_as InTopology (get_service_unit_name topology (ss_id s) uid)) ids))"

definition get_all_unit_states :: "('z, 'c) state_env \<Rightarrow> service_state \<Rightarrow> 'z \<Rightarrow> state_error + (string option \<times> int) list" where
  "get_all_unit_states e s z =
     rbind (topo_of e z) (\<lambda>topology.
     if \<not> has_service topology (ss_id s) then Inl state_changed
     else rbind (raise_as InTopology (get_service_units topology (ss_id s))) (\<lambda>ids.
       rmap (\<lambda>uid.
         rbind (raise_as InTopology (get_service_unit_name topology (ss_id s) uid)) (\<lambda>unit_name.
         rbind (parse_unit_name unit_name) (\<lambda>(service_name, sequence).
         rbind (raise_as InTopology (find_service_unit_with_sequence topology (Some (ss_id s)) sequence))
           (\<lambda>internal_unit_id. Inr (internal_unit_id, sequence))))) ids))"

section \<open>Units and their containers\<close>

definition unit_name_of :: "service_unit \<Rightarrow> string" where
  "unit_name_of u = su_service_name u @ ''/'' @ show_int (su_sequence u)"

definition unit_path :: "service_unit \<Rightarrow> string" where
  "unit_path u = ''/units/'' @ su_id u"

definition check_valid_in :: "service_unit \<Rightarrow> topology \<Rightarrow> state_error + unit" where
  "check_valid_in u topology =
     (if has_service topology (su_service u)
      then rbind (raise_as InTopology (has_service_unit topology (su_service u) (su_id u)))
        (\<lambda>ok. guard_or ok state_changed)
      else Inl state_changed)"

text \<open>The exceptions \<open>InternalTopology\<close> raises by itself, not Python's.\<close>

definition internal_topology_error :: "topo_error \<Rightarrow> bool" where
  "internal_topology_error e \<longleftrightarrow> e \<notin> {KeyError, ValueError, IndexError, AttributeError}"

definition get_container :: "('z, 'c) state_env \<Rightarrow> service_unit \<Rightarrow> 'z \<Rightarrow> state_error + service_unit option" where
  "get_container e u z =
     rbind (topo_of e z) (\<lambda>topology.
     case get_service_unit_container topology (su_id u) of
       Inl err \<Rightarrow> if internal_topology_error err then Inr None else Inl (InTopology err)
     | Inr None \<Rightarrow> Inr None
     | Inr (Some (service_id, service_name, sequence, container_id)) \<Rightarrow>
         Inr (Some \<lparr>su_service = service_id, su_service_name = service_name, su_sequence = sequence,
                    su_id = container_id\<rparr>))"

text \<open>\<open>_get_node_value\<close> and \<open>_set_node_value\<close> of a unit; its \<open>_node_missing\<close> names the service.\<close>

definition unit_value :: "('z, 'c) state_env \<Rightarrow> service_unit \<Rightarrow> string \<Rightarrow> 'z \<Rightarrow> state_error + yvalue option" where
  "unit_value e u key z =
     (case get_node_value (node_at e (unit_path u)) z key None of
        Inl _ \<Rightarrow> Inl (ServiceUnitStateNotFound (su_service_name u))
      | Inr v \<Rightarrow> Inr v)"

definition set_unit_value ::
  "('z, 'c) state_env \<Rightarrow> service_unit \<Rightarrow> string \<Rightarrow> yvalue \<Rightarrow> ('z, state_error, unit) eff" where
  "set_unit_value e u key v = echange (\<lambda>z.
     case set_node_value (node_at e (unit_path u)) z key v of
       Inl _ \<Rightarrow> Inl (ServiceUnitStateNotFound (su_service_name u))
     | Inr z' \<Rightarrow> Inr z')"

definition get_private_address :: "('z, 'c) state_env \<Rightarrow> service_unit \<Rightarrow> 'z \<Rightarrow> state_error + yvalue option" where
  "get_private_address e u = unit_value e u ''private-address''"

definition set_private_address :: "('z, 'c) state_env \<Rightarrow> service_unit \<Rightarrow> yvalue \<Rightarrow> ('z, state_error, unit) eff" where
  "set_private_address e u = set_unit_value e u ''private-address''"

definition get_public_address :: "('z, 'c) state_env \<Rightarrow> service_unit \<Rightarrow> 'z \<Rightarrow> state_error + yvalue option" where
  "get_public_address e u = unit_value e u ''public-address''"

definition set_public_address :: "('z, 'c) state_env \<Rightarrow> service_unit \<Rightarrow> yvalue \<Rightarrow> ('z, state_error, unit) eff" where
  "set_public_address e u = set_unit_value e u ''public-address''"

definition get_unit_charm_id :: "('z, 'c) state_env \<Rightarrow> service_unit \<Rightarrow> 'z \<Rightarrow> state_error + yvalue option" where
  "get_unit_charm_id e u = unit_value e u ''charm''"

definition set_unit_charm_id :: "('z, 'c) state_env \<Rightarrow> service_unit \<Rightarrow> string \<Rightarrow> ('z, state_error, unit) eff" where
  "set_unit_charm_id e u charm_id =
     ebind (eread (\<lambda>_. raise_as InCharm (rbind (parse_url charm_id) assert_revision)))
       (\<lambda>_. set_unit_value e u ''charm'' (YText charm_id))"

definition get_service_charm_id :: "('z, 'c) state_env \<Rightarrow> service_state \<Rightarrow> 'z \<Rightarrow> state_error + yvalue option" where
  "get_service_charm_id e s z =
     (case get_node_value (node_at e (''/services/'' @ ss_id s)) z ''charm'' None of
        Inl _ \<Rightarrow> Inl (ServiceStateNotFound (ss_name s))
      | Inr v \<Rightarrow> Inr v)"

definition set_service_charm_id :: "('z, 'c) state_env \<Rightarrow> service_state \<Rightarrow> string \<Rightarrow> ('z, state_error, unit) eff" where
  "set_service_charm_id e s charm_id =
     ebind (eread (\<lambda>_. raise_as InCharm (rbind (parse_url charm_id) assert_revision))) (\<lambda>_.
     echange (\<lambda>z. case set_node_value (node_at e (''/services/'' @ ss_id s)) z ''charm'' (YText charm_id) of
       Inl _ \<Rightarrow> Inl (ServiceStateNotFound (ss_name s))
     | Inr z' \<Rightarrow> Inr z'))"

section \<open>Creating and removing nodes\<close>

definition create_node :: "('z, 'c) state_env \<Rightarrow> string \<Rightarrow> 'c \<Rightarrow> state_error \<Rightarrow> ('z, state_error, unit) eff" where
  "create_node e path content exists_error =
     echange (\<lambda>z. case zc_create (se_client e) path content z of None \<Rightarrow> Inl exists_error | Some z' \<Rightarrow> Inr z')"

text \<open>\<open>create\<close> and \<open>delete\<close> whose \<open>NodeExistsException\<close> and \<open>NoNodeException\<close> are passed over.\<close>

definition ensure_node :: "('z, 'c) state_env \<Rightarrow> string \<Rightarrow> 'c \<Rightarrow> ('z, state_error, unit) eff" where
  "ensure_node e path content =
     echange (\<lambda>z. Inr (case zc_create (se_client e) path content z of None \<Rightarrow> z | Some z' \<Rightarrow> z'))"

definition drop_node :: "('z, 'c) state_env \<Rightarrow> string \<Rightarrow> ('z, state_error, unit) eff" where
  "drop_node e path =
     echange (\<lambda>z. Inr (case zc_delete (se_client e) path z of None \<Rightarrow> z | Some z' \<Rightarrow> z'))"

definition create_sequence :: "('z, 'c) state_env \<Rightarrow> string \<Rightarrow> 'c \<Rightarrow> ('z, state_error, string) eff" where
  "create_sequence e path content z = (case zc_create_sequence (se_client e) path content z of (p, z') \<Rightarrow> (z', Inr p))"

definition retry_node ::
  "('z, 'c) state_env \<Rightarrow> string \<Rightarrow> ('c option \<Rightarrow> state_error + 'c) \<Rightarrow> ('z, state_error, unit) eff" where
  "retry_node e path f = echange (zc_retry_change (se_client e) path f)"

text \<open>\<open>path.rsplit("/", 1)[1]\<close>\<close>

definition base_name :: "string \<Rightarrow> string" where
  "base_name path = (case rsplit_once CHR ''/'' path of None \<Rightarrow> path | Some (_, b) \<Rightarrow> b)"

text \<open>A change of the topology whose function also yields a value, taken from the topology it was given.\<close>

definition topo_update ::
  "('z, 'c) state_env \<Rightarrow> (topology \<Rightarrow> state_error + topology \<times> 'a) \<Rightarrow> ('z, state_error, 'a) eff" where
  "topo_update e f z =
     (case retry_topology_change (se_topo e) (se_client e) (\<lambda>t. rbind (f t) (\<lambda>(t', _). Inr t')) z of
        Inl err \<Rightarrow> (z, Inl err)
      | Inr z' \<Rightarrow> (z', rbind (content_topology (se_topo e) (zc_get (se_client e) z ''/topology'')) (\<lambda>t.
          rbind (f t) (\<lambda>(_, x). Inr x))))"

section \<open>Adding and removing services and units\<close>

definition add_service_change :: "string \<Rightarrow> string \<Rightarrow> topology \<Rightarrow> state_error + topology" where
  "add_service_change sid service_name topology =
     (if find_service_with_name topology service_name \<notin> {None, Some []} then Inl (ServiceStateNameInUse service_name)
      else raise_as InTopology (add_service topology sid service_name))"

text \<open>\<open>node_data\<close>: the charm id and the constraints with the charm's series, as YAML.\<close>

definition add_service_state ::
  "('z, 'c) state_env \<Rightarrow> string \<Rightarrow> 'c \<Rightarrow> ('z, state_error, service_state) eff" where
  "add_service_state e service_name node_data =
     ebind (create_sequence e ''/services/service-'' node_data) (\<lambda>path.
     let internal_id = base_name path in
     ebind (create_node e (path @ ''/config'') (se_dump e (YMap [])) (NodeExists path)) (\<lambda>_.
     ebind (topo_change e (add_service_change internal_id service_name)) (\<lambda>_.
     eret \<lparr>ss_id = internal_id, ss_name = service_name\<rparr>)))"

text \<open>
  The last test builds its exception from \<open>principal_service.unit_name\<close>, which a \<open>ServiceState\<close> does not have.
\<close>

definition validate_principal_container ::
  "('z, 'c) state_env \<Rightarrow> service_state \<Rightarrow> service_unit \<Rightarrow> 'z \<Rightarrow> state_error + unit" where
  "validate_principal_container e s u z =
     rbind (se_is_subordinate e z (su_service u)) (\<lambda>b.
     if b then Inl (PrincipalServiceUnitRequired (ss_name s) (unit_name_of u))
     else rbind (se_is_subordinate e z (ss_id s)) (\<lambda>b.
     if \<not> b then Inl (InTopology AttributeError) else Inr ()))"

definition add_unit_change ::
  "service_state \<Rightarrow> string \<Rightarrow> string option \<Rightarrow> topology \<Rightarrow> state_error + topology \<times> int" where
  "add_unit_change s uid container_id topology =
     (if \<not> has_service topology (ss_id s) then Inl state_changed
      else raise_as InTopology (add_service_unit topology (ss_id s) uid container_id))"

definition add_unit_state ::
  "('z, 'c) state_env \<Rightarrow> service_state \<Rightarrow> service_unit option \<Rightarrow> ('z, state_error, service_unit) eff" where
  "add_unit_state e s container =
     ebind (eread (\<lambda>z. se_unit_data e z (ss_id s))) (\<lambda>unit_data.
     ebind (create_sequence e ''/units/unit-'' (se_dump e unit_data)) (\<lambda>path.
     let uid = base_name path in
     ebind (case container of
              None \<Rightarrow> eret None
            | Some c \<Rightarrow> ebind (eread (validate_principal_container e s c)) (\<lambda>_. eret (Some (su_id c))))
       (\<lambda>container_id.
     ebind (topo_update e (add_unit_change s uid container_id)) (\<lambda>sequence.
     eret \<lparr>su_service = ss_id s, su_service_name = ss_name s, su_sequence = sequence, su_id = uid\<rparr>))))"

section \<open>Machines\<close>

definition assign_unit :: "service_unit \<Rightarrow> string \<Rightarrow> topology \<Rightarrow> state_error + topology" where
  "assign_unit u machine topology =
     rbind (check_valid_in u topology) (\<lambda>_.
     rbind (raise_as InTopology (get_service_unit_machine topology (su_service u) (su_id u))) (\<lambda>machine_id.
     rbind (raise_as InTopology (get_service_unit_container topology (su_id u))) (\<lambda>container.
     if container \<noteq> None then Inl (IllegalSubordinateMachineAssignment (unit_name_of u))
     else case machine_id of
       None \<Rightarrow> raise_as InTopology (assign_service_unit_to_machine topology (su_service u) (su_id u) machine)
     | Some m \<Rightarrow> if m = machine then Inr topology
         else Inl (ServiceUnitStateMachineAlreadyAssigned (unit_name_of u)))))"

text \<open>The answer of the constraints only decides whether a warning is logged.\<close>

definition assign_to_machine ::
  "('z, 'c) state_env \<Rightarrow> service_unit \<Rightarrow> string \<Rightarrow> ('z, state_error, unit) eff" where
  "assign_to_machine e u machine =
     ebind (eread (\<lambda>z. se_can_satisfy e z machine (su_id u))) (\<lambda>_. topo_change e (assign_unit u machine))"

definition root_machine_id :: string where
  "root_machine_id = ''machine-0000000000''"

fun unused_machine ::
  "(string \<Rightarrow> state_error + bool) \<Rightarrow> topology \<Rightarrow> string list \<Rightarrow> state_error + string" where
  "unused_machine satisfies topology [] = Inl NoUnusedMachines"
| "unused_machine satisfies topology (internal_id # machines) =
     (if internal_id = root_machine_id then unused_machine satisfies topology machines
      else rbind (raise_as InTopology (machine_has_units topology internal_id)) (\<lambda>b.
      if b then unused_machine satisfies topology machines
      else rbind (satisfies internal_id) (\<lambda>ok.
      if ok then Inr internal_id else unused_machine satisfies topology machines)))"

definition assign_unused_unit ::
  "(string \<Rightarrow> state_error + bool) \<Rightarrow> service_unit \<Rightarrow> topology \<Rightarrow> state_error + topology \<times> string" where
  "assign_unused_unit satisfies u topology =
     rbind (check_valid_in u topology) (\<lambda>_.
     rbind (unused_machine satisfies topology (get_machines topology)) (\<lambda>machine.
     rbind (raise_as InTopology (assign_service_unit_to_machine topology (su_service u) (su_id u) machine)) (\<lambda>t.
     Inr (t, machine))))"

definition assign_to_unused_machine ::
  "('z, 'c) state_env \<Rightarrow> service_unit \<Rightarrow> ('z, state_error, string) eff" where
  "assign_to_unused_machine e u z =
     topo_update e (assign_unused_unit (\<lambda>m. se_can_satisfy e z m (su_id u)) u) z"

definition unassign_unit :: "service_unit \<Rightarrow> topology \<Rightarrow> state_error + topology" where
  "unassign_unit u topology =
     rbind (check_valid_in u topology) (\<lambda>_.
     rbind (raise_as InTopology (get_service_unit_machine topology (su_service u) (su_id u))) (\<lambda>machine_id.
     if machine_id \<noteq> None
     then raise_as InTopology (unassign_service_unit_from_machine topology (su_service u) (su_id u))
     else Inr topology))"

definition unassign_from_machine :: "('z, 'c) state_env \<Rightarrow> service_unit \<Rightarrow> ('z, state_error, unit) eff" where
  "unassign_from_machine e u = topo_change e (unassign_unit u)"

definition remove_unit_change :: "service_state \<Rightarrow> service_unit \<Rightarrow> topology \<Rightarrow> state_error + topology" where
  "remove_unit_change s u topology =
     (if \<not> has_service topology (ss_id s) then Inl state_changed
      else rbind (raise_as InTopology (has_service_unit topology (ss_id s) (su_id u))) (\<lambda>b.
      if \<not> b then Inl state_changed
      else raise_as InTopology (remove_service_unit topology (ss_id s) (su_id u))))"

definition remove_unit_state :: "('z, 'c) state_env \<Rightarrow> service_state \<Rightarrow> service_unit \<Rightarrow> ('z, state_error, unit) eff" where
  "remove_unit_state e s u =
     ebind (unassign_from_machine e u) (\<lambda>_.
     ebind (topo_change e (remove_unit_change s u)) (\<lambda>_.
     echange (\<lambda>z. Inr (se_remove_tree e (unit_path u) z))))"

text \<open>The number of a machine's id.\<close>

definition public_machine_id :: "string \<Rightarrow> state_error + int" where
  "public_machine_id internal_id =
     (case rsplit_once CHR ''-'' internal_id of
        None \<Rightarrow> Inl (InTopology ValueError)
      | Some (_, sequence) \<Rightarrow> (case py_int sequence of None \<Rightarrow> Inl (InTopology ValueError) | Some n \<Rightarrow> Inr n))"

text \<open>\<open>None\<close> outside: the chain of containers does not end.\<close>

partial_function (option) get_assigned_machine_id ::
  "('z, 'c) state_env \<Rightarrow> 'z \<Rightarrow> service_unit \<Rightarrow> (state_error + int option) option" where
  "get_assigned_machine_id e z u =
     (case rbind (topo_of e z) (\<lambda>topology.
             rbind (check_valid_in u topology) (\<lambda>_.
             raise_as InTopology (get_service_unit_machine topology (su_service u) (su_id u)))) of
        Inl err \<Rightarrow> Some (Inl err)
      | Inr (Some machine) \<Rightarrow> Some (rbind (public_machine_id machine) (\<lambda>n. Inr (Some n)))
      | Inr None \<Rightarrow>
          (case get_container e u z of
             Inl err \<Rightarrow> Some (Inl err)
           | Inr None \<Rightarrow> Some (Inr None)
           | Inr (Some container) \<Rightarrow> get_assigned_machine_id e z container))"

end
