(* ===== verification/UnitNodes.thy ===== *)
theory UnitNodes
  imports ServiceState
begin

text \<open>
  The nodes of a unit in \<open>juju/state/service.py\<close> through which clients and the unit's agent exchange
  requests: debugged hooks, upgrade, resolved, resolved relations and open ports; and the exposed flag of a
  service.
\<close>

definition service_path :: "service_state \<Rightarrow> string" where
  "service_path s = ''/services/'' @ ss_id s"

definition ports_path :: "service_unit \<Rightarrow> string" where
  "ports_path u = unit_path u @ ''/ports''"

definition hook_debug_path :: "service_unit \<Rightarrow> string" where
  "hook_debug_path u = unit_path u @ ''/debug''"

definition upgrade_flag_path :: "service_unit \<Rightarrow> string" where
  "upgrade_flag_path u = unit_path u @ ''/upgrade''"

definition unit_resolved_path :: "service_unit \<Rightarrow> string" where
  "unit_resolved_path u = unit_path u @ ''/resolved''"

definition relation_resolved_path :: "service_unit \<Rightarrow> string" where
  "relation_resolved_path u = unit_path u @ ''/relation-resolved''"

text \<open>The loaded content of a node, if there is one.\<close>

definition node_value :: "('z, 'c) state_env \<Rightarrow> string \<Rightarrow> 'z \<Rightarrow> state_error + yvalue option" where
  "node_value e path z = Inr (map_option (se_load e) (zc_get (se_client e) z path))"

section \<open>Exposing\<close>

definition exposed_path :: "service_state \<Rightarrow> string" where
  "exposed_path s = service_path s @ ''/exposed''"

definition set_exposed_flag :: "('z, 'c) state_env \<Rightarrow> service_state \<Rightarrow> ('z, state_error, unit) eff" where
  "set_exposed_flag e s = ensure_node e (exposed_path s) (se_empty e)"

definition get_exposed_flag :: "('z, 'c) state_env \<Rightarrow> service_state \<Rightarrow> 'z \<Rightarrow> bool" where
  "get_exposed_flag e s z = zc_exists (se_client e) z (exposed_path s)"

definition clear_exposed_flag :: "('z, 'c) state_env \<Rightarrow> service_state \<Rightarrow> ('z, state_error, unit) eff" where
  "clear_exposed_flag e s = drop_node e (exposed_path s)"

section \<open>Debugging hooks\<close>

definition enable_hook_debug ::
  "('z, 'c) state_env \<Rightarrow> service_unit \<Rightarrow> string list \<Rightarrow> ('z, state_error, bool) eff" where
  "enable_hook_debug e u hook_names =
     (if ''*'' \<in> set hook_names \<and> length hook_names > 1
      then eraise (BadValue ''Ambigious to debug all hooks and named hooks'')
      else ebind (create_node e (hook_debug_path u) (se_dump e (YMap [(''debug_hooks'', YList (map YText hook_names))]))
             (ServiceUnitDebugAlreadyEnabled (unit_name_of u))) (\<lambda>_. eret True))"

definition clear_hook_debug :: "('z, 'c) state_env \<Rightarrow> service_unit \<Rightarrow> ('z, state_error, bool) eff" where
  "clear_hook_debug e u = ebind (drop_node e (hook_debug_path u)) (\<lambda>_. eret True)"

definition get_hook_debug :: "('z, 'c) state_env \<Rightarrow> service_unit \<Rightarrow> 'z \<Rightarrow> state_error + yvalue option" where
  "get_hook_debug e u = node_value e (hook_debug_path u)"

section \<open>Upgrades\<close>

definition upgrade_update :: "('z, 'c) state_env \<Rightarrow> service_unit \<Rightarrow> bool \<Rightarrow> 'c option \<Rightarrow> state_error + 'c" where
  "upgrade_update e u force content =
     (let fresh = Inr (se_dump e (YMap [(''force'', YBool force)])) in
      case content of
        None \<Rightarrow> fresh
      | Some c \<Rightarrow>
          if ty_blank (se_topo e) c then fresh
          else case se_load e c of
            YMap flags \<Rightarrow>
              (case dget flags ''force'' of
                 None \<Rightarrow> Inl (BadContent ''force'')
               | Some v \<Rightarrow>
                   if \<not> y_eq v (YBool force) then Inl (ServiceUnitUpgradeAlreadyEnabled (unit_name_of u)) else Inr c)
          | _ \<Rightarrow> fresh)"

definition set_upgrade_flag :: "('z, 'c) state_env \<Rightarrow> service_unit \<Rightarrow> bool \<Rightarrow> ('z, state_error, unit) eff" where
  "set_upgrade_flag e u force = retry_node e (upgrade_flag_path u) (upgrade_update e u force)"

definition get_upgrade_flag :: "('z, 'c) state_env \<Rightarrow> service_unit \<Rightarrow> 'z \<Rightarrow> yvalue" where
  "get_upgrade_flag e u z =
     (case zc_get (se_client e) z (upgrade_flag_path u) of
        None \<Rightarrow> YBool False
      | Some c \<Rightarrow> if ty_blank (se_topo e) c then YBool False else se_load e c)"

definition clear_upgrade_flag :: "('z, 'c) state_env \<Rightarrow> service_unit \<Rightarrow> ('z, state_error, unit) eff" where
  "clear_upgrade_flag e u = drop_node e (upgrade_flag_path u)"

section \<open>Resolving\<close>

definition RETRY_HOOKS :: int where
  "RETRY_HOOKS = 1000"

definition NO_HOOKS :: int where
  "NO_HOOKS = 1001"

definition set_resolved :: "('z, 'c) state_env \<Rightarrow> service_unit \<Rightarrow> int \<Rightarrow> ('z, state_error, unit) eff" where
  "set_resolved e u retry =
     (if retry \<noteq> RETRY_HOOKS \<and> retry \<noteq> NO_HOOKS then eraise (BadValue ''invalid retry value'')
      else create_node e (unit_resolved_path u) (se_dump e (YMap [(''retry'', YInt retry)]))
        (ServiceUnitResolvedAlreadyEnabled (unit_name_of u)))"

definition get_resolved :: "('z, 'c) state_env \<Rightarrow> service_unit \<Rightarrow> 'z \<Rightarrow> state_error + yvalue option" where
  "get_resolved e u = node_value e (unit_resolved_path u)"

definition clear_resolved :: "('z, 'c) state_env \<Rightarrow> service_unit \<Rightarrow> ('z, state_error, unit) eff" where
  "clear_resolved e u = drop_node e (unit_resolved_path u)"

text \<open>The values merged in are numbers, on which \<open>==\<close> is equality.\<close>

definition update_relation_resolved ::
  "('z, 'c) state_env \<Rightarrow> (string, int) dict \<Rightarrow> 'c option \<Rightarrow> state_error + 'c" where
  "update_relation_resolved e relation_map content =
     (let new = map (\<lambda>(k, v). (k, YInt v)) relation_map in
      case content of
        None \<Rightarrow> Inr (se_dump e (YMap new))
      | Some c \<Rightarrow>
          if ty_blank (se_topo e) c then Inr (se_dump e (YMap new))
          else case se_load e c of
            YMap old \<Rightarrow> rbind (raise_as InNode (dict_merge old new)) (\<lambda>d. Inr (se_dump e (YMap d)))
          | _ \<Rightarrow> Inl (BadContent ''relation-resolved''))"

definition set_relation_resolved ::
  "('z, 'c) state_env \<Rightarrow> service_unit \<Rightarrow> (string, int) dict \<Rightarrow> ('z, state_error, bool) eff" where
  "set_relation_resolved e u relation_map =
     (if list_ex (\<lambda>(_, v). v \<noteq> RETRY_HOOKS \<and> v \<noteq> NO_HOOKS) relation_map
      then eraise (BadValue ''Invalid setting for retry hook'')
      else ebind (ecatch (retry_node e (relation_resolved_path u) (update_relation_resolved e relation_map))
             (\<lambda>err. if err = state_changed
                    then Some (eraise (ServiceUnitRelationResolvedAlreadyEnabled (unit_name_of u))) else None))
        (\<lambda>_. eret True))"

definition get_relation_resolved :: "('z, 'c) state_env \<Rightarrow> service_unit \<Rightarrow> 'z \<Rightarrow> state_error + yvalue option" where
  "get_relation_resolved e u = node_value e (relation_resolved_path u)"

definition clear_relation_resolved :: "('z, 'c) state_env \<Rightarrow> service_unit \<Rightarrow> ('z, state_error, unit) eff" where
  "clear_relation_resolved e u = drop_node e (relation_resolved_path u)"

section \<open>Ports\<close>

definition port_entry :: "int \<times> string \<Rightarrow> yvalue" where
  "port_entry p = YMap [(''port'', YInt (fst p)), (''proto'', YText (snd p))]"

text \<open>The dict of the node and its list under \<open>open\<close>, both created when missing.\<close>

definition ports_data :: "('z, 'c) state_env \<Rightarrow> 'c option \<Rightarrow> state_error + (string, yvalue) dict \<times> yvalue list" where
  "ports_data e content =
     rbind (case content of
              None \<Rightarrow> Inr []
            | Some c \<Rightarrow>
                (case se_load e c of YNone \<Rightarrow> Inr [] | YMap d \<Rightarrow> Inr d | _ \<Rightarrow> Inl (BadContent ''ports''))) (\<lambda>data.
     case dget data ''open'' of
       None \<Rightarrow> Inr (data, [])
     | Some (YList open_ports) \<Rightarrow> Inr (data, open_ports)
     | Some _ \<Rightarrow> Inl (BadContent ''open''))"

definition zk_open_port :: "('z, 'c) state_env \<Rightarrow> int \<times> string \<Rightarrow> 'c option \<Rightarrow> state_error + 'c" where
  "zk_open_port e p content =
     rbind (ports_data e content) (\<lambda>(data, open_ports).
     Inr (se_dump e (YMap (dset ''open''
       (YList (if list_ex (\<lambda>q. y_eq q (port_entry p)) open_ports then open_ports else open_ports @ [port_entry p])) data))))"

definition open_port :: "('z, 'c) state_env \<Rightarrow> service_unit \<Rightarrow> int \<times> string \<Rightarrow> ('z, state_error, unit) eff" where
  "open_port e u p = retry_node e (ports_path u) (zk_open_port e p)"

text \<open>\<open>open_ports.remove\<close>: the first entry that is equal.\<close>

fun remove_port :: "yvalue \<Rightarrow> yvalue list \<Rightarrow> yvalue list" where
  "remove_port p [] = []"
| "remove_port p (q # qs) = (if y_eq q p then qs else q # remove_port p qs)"

definition zk_close_port :: "('z, 'c) state_env \<Rightarrow> int \<times> string \<Rightarrow> 'c option \<Rightarrow> state_error + 'c" where
  "zk_close_port e p content =
     rbind (ports_data e content) (\<lambda>(data, open_ports).
     Inr (se_dump e (YMap (dset ''open'' (YList (remove_port (port_entry p) open_ports)) data))))"

definition close_port :: "('z, 'c) state_env \<Rightarrow> service_unit \<Rightarrow> int \<times> string \<Rightarrow> ('z, state_error, unit) eff" where
  "close_port e u p = retry_node e (ports_path u) (zk_close_port e p)"

definition get_open_ports :: "('z, 'c) state_env \<Rightarrow> service_unit \<Rightarrow> 'z \<Rightarrow> state_error + yvalue" where
  "get_open_ports e u z =
     (case zc_get (se_client e) z (ports_path u) of
        None \<Rightarrow> Inr (YList [])
      | Some c \<Rightarrow>
          (case se_load e c of
             YNone \<Rightarrow> Inr (YList [])
           | YMap data \<Rightarrow> Inr (case dget data ''open'' of None \<Rightarrow> YList [] | Some v \<Rightarrow> v)
           | _ \<Rightarrow> Inl (BadContent ''ports'')))"

section \<open>The open ports of a unit\<close>

datatype port_cmd = OpenPort "int \<times> string" | ClosePort "int \<times> string"

definition run_port :: "('z, 'c) state_env \<Rightarrow> service_unit \<Rightarrow> port_cmd \<Rightarrow> 'z \<Rightarrow> 'z" where
  "run_port e u c = (case c of OpenPort p \<Rightarrow> fst \<circ> open_port e u p | ClosePort p \<Rightarrow> fst \<circ> close_port e u p)"

fun port_effect :: "port_cmd \<Rightarrow> (int \<times> string) set \<Rightarrow> (int \<times> string) set" where
  "port_effect (OpenPort p) ps = insert p ps"
| "port_effect (ClosePort p) ps = ps - {p}"

lemma port_entry_eq [simp]: "y_eq (port_entry p) (port_entry q) \<longleftrightarrow> p = q"
  by (cases p; cases q) (auto simp: port_entry_def y_number_def)

lemma remove_port_map: "distinct ps \<Longrightarrow> remove_port (port_entry p) (map port_entry ps) = map port_entry (filter (\<lambda>q. q \<noteq> p) ps)"
proof (induction ps)
  case (Cons q ps)
  have "filter (\<lambda>x. x \<noteq> q) ps = ps" if "q \<notin> set ps" using that by (induction ps) auto
  with Cons show ?case by auto
qed simp

definition ports_are :: "('z, 'c) state_env \<Rightarrow> (int \<times> string) set \<Rightarrow> 'c option \<Rightarrow> bool" where
  "ports_are e ps content \<longleftrightarrow>
     (content = None \<and> ps = {}) \<or>
     (\<exists>c data qs. content = Some c \<and> se_load e c = YMap data \<and> dget data ''open'' = Some (YList (map port_entry qs)) \<and>
        distinct qs \<and> set qs = ps)"

lemma ports_data_are:
  assumes "ports_are e ps content"
  obtains data qs where "ports_data e content = Inr (data, map port_entry qs)" "distinct qs" "set qs = ps"
proof (cases content)
  case None
  with assms that [of "[]" "[]"] show thesis by (simp add: ports_are_def ports_data_def)
next
  case (Some c)
  then obtain data qs where "se_load e c = YMap data" "dget data ''open'' = Some (YList (map port_entry qs))"
    "distinct qs" "set qs = ps"
    using assms by (auto simp: ports_are_def)
  with that [of data qs] Some show thesis by (simp add: ports_data_def)
qed

definition yaml_env_ok :: "('z, 'c) state_env \<Rightarrow> bool" where
  "yaml_env_ok e \<longleftrightarrow> client_ok (se_client e) \<and> (\<forall>v. se_load e (se_dump e v) = v)"

lemma retry_node_step:
  assumes "client_ok (se_client e)" and "f (zc_get (se_client e) z path) = Inr c"
  shows "\<forall>q. zc_get (se_client e) (fst (retry_node e path f z)) q =
    (if q = path then Some c else zc_get (se_client e) z q)"
  using retry_change_Inr [where f = f, OF assms] by (auto simp: retry_node_def echange_def)

lemma run_port_step:
  assumes ok: "yaml_env_ok e" and ports: "ports_are e ps (zc_get (se_client e) z (ports_path u))"
  shows "ports_are e (port_effect c ps) (zc_get (se_client e) (run_port e u c z) (ports_path u))
    \<and> (\<forall>q. q \<noteq> ports_path u \<longrightarrow> zc_get (se_client e) (run_port e u c z) q = zc_get (se_client e) z q)"
proof -
  have client: "client_ok (se_client e)" and yaml: "\<And>v. se_load e (se_dump e v) = v"
    using ok by (simp_all add: yaml_env_ok_def)
  obtain data qs where qs: "ports_data e (zc_get (se_client e) z (ports_path u)) = Inr (data, map port_entry qs)"
    "distinct qs" "set qs = ps"
    using ports by (rule ports_data_are)
  show ?thesis
  proof (cases c)
    case (OpenPort p)
    define qs' where "qs' = (if p \<in> set qs then qs else qs @ [p])"
    have "zk_open_port e p (zc_get (se_client e) z (ports_path u)) =
        Inr (se_dump e (YMap (dset ''open'' (YList (map port_entry qs')) data)))"
      using qs by (auto simp: zk_open_port_def qs'_def list_ex_iff)
    from retry_node_step [where f = "zk_open_port e p", OF client this] show ?thesis
      using qs(2,3) by (auto simp: run_port_def OpenPort open_port_def ports_are_def yaml dget_dset qs'_def
        intro!: exI [of _ qs'] split: if_splits)
  next
    case (ClosePort p)
    have "zk_close_port e p (zc_get (se_client e) z (ports_path u)) =
        Inr (se_dump e (YMap (dset ''open'' (YList (map port_entry (filter (\<lambda>q. q \<noteq> p) qs))) data)))"
      using qs by (simp add: zk_close_port_def remove_port_map)
    from retry_node_step [where f = "zk_close_port e p", OF client this] show ?thesis
      using qs(2,3) by (auto simp: run_port_def ClosePort close_port_def ports_are_def yaml dget_dset
        intro!: exI [of _ "filter (\<lambda>q. q \<noteq> p) qs"])
  qed
qed

lemma run_ports:
  assumes ok: "yaml_env_ok e" and ports: "ports_are e ps (zc_get (se_client e) z (ports_path u))"
  shows "ports_are e (fold port_effect cs ps) (zc_get (se_client e) (fold (run_port e u) cs z) (ports_path u))
    \<and> (\<forall>q. q \<noteq> ports_path u \<longrightarrow> zc_get (se_client e) (fold (run_port e u) cs z) q = zc_get (se_client e) z q)"
  using ports
proof (induction cs arbitrary: z ps)
  case (Cons c cs)
  from run_port_step [OF ok Cons.prems, of c] Cons.IH [of "port_effect c ps" "run_port e u c z"]
  show ?case by simp
qed simp

text \<open>
  Whatever clients open and close on a unit that has opened no port, and in whatever order their
  writes take effect, \<open>get_open_ports\<close> lists every port that was opened and not closed after, each once,
  and no other node is touched: a port opened twice is closed by one \<open>close_port\<close>, a closed port may be closed.
\<close>

theorem unit_ports:
  assumes "yaml_env_ok e" and "zc_get (se_client e) z (ports_path u) = None"
  shows "\<exists>ports. get_open_ports e u (fold (run_port e u) cs z) = Inr (YList (map port_entry ports))
    \<and> distinct ports \<and> set ports = fold port_effect cs {}
    \<and> (\<forall>q. q \<noteq> ports_path u \<longrightarrow> zc_get (se_client e) (fold (run_port e u) cs z) q = zc_get (se_client e) z q)"
proof -
  have "ports_are e {} (zc_get (se_client e) z (ports_path u))" using assms(2) by (simp add: ports_are_def)
  note final = run_ports [OF assms(1) this, of cs]
  from final have "\<exists>ports. get_open_ports e u (fold (run_port e u) cs z) = Inr (YList (map port_entry ports))
    \<and> distinct ports \<and> set ports = fold port_effect cs {}"
    by (auto simp: ports_are_def get_open_ports_def)
  with final show ?thesis by blast
qed

text \<open>An environment whose nodes hold YAML values as they are.\<close>

datatype content = Value yvalue | Topo topology

definition dict_env :: "((string, content) dict, content) state_env" where
  "dict_env = \<lparr>
     se_client = plain_client,
     se_topo = \<lparr>ty_load = (\<lambda>c. case c of Topo t \<Rightarrow> Some t | _ \<Rightarrow> None), ty_dump = Topo, ty_blank = (\<lambda>c. c = Value YNone)\<rparr>,
     se_load = (\<lambda>c. case c of Value v \<Rightarrow> v | _ \<Rightarrow> YNone),
     se_dump = Value,
     se_empty = Value YNone,
     se_remove_tree = (\<lambda>p z. filter (\<lambda>(q, _). q \<noteq> p \<and> \<not> startswith q (p @ ''/'')) z),
     se_unit_data = (\<lambda>_ _. Inr (YMap [])),
     se_is_subordinate = (\<lambda>_ _. Inr False),
     se_config_defaults = (\<lambda>_ _. Inr []),
     se_can_satisfy = (\<lambda>_ _ _. Inr True)\<rparr>"

definition demo_unit :: service_unit where
  "demo_unit = \<lparr>su_service = ''s-0'', su_service_name = ''wordpress'', su_sequence = 0, su_id = ''u-0''\<rparr>"

lemma dict_env_ok: "yaml_env_ok dict_env"
  by (simp add: yaml_env_ok_def dict_env_def plain_client_ok)

theorem unit_ports_witness:
  "\<exists>ports. get_open_ports dict_env demo_unit (fold (run_port dict_env demo_unit)
       [OpenPort (80, ''tcp''), OpenPort (53, ''udp''), OpenPort (80, ''tcp''), ClosePort (80, ''tcp'')] []) =
       Inr (YList (map port_entry ports)) \<and> set ports = {(53, ''udp'')}"
proof -
  have empty: "zc_get (se_client dict_env) [] (ports_path demo_unit) = None" by (simp add: dict_env_def)
  have "fold port_effect [OpenPort (80, ''tcp''), OpenPort (53, ''udp''), OpenPort (80, ''tcp''), ClosePort (80, ''tcp'')] {} =
      {(53, ''udp'')}" by auto
  with unit_ports [OF dict_env_ok empty,
      of "[OpenPort (80, ''tcp''), OpenPort (53, ''udp''), OpenPort (80, ''tcp''), ClosePort (80, ''tcp'')]"]
  show ?thesis by auto
qed

end
