(* ===== verification/RelationState.thy ===== *)
theory RelationState
  imports UnitNodes
begin

text \<open>
  \<open>juju/state/relation.py\<close>: relations between services, the nodes a unit creates when it joins one, and the
  unit's view of the relation. The watcher of related units is in \<open>RelationWatcher\<close>.
\<close>

section \<open>Relations of a service\<close>

record service_relation =
  sr_service :: string
  sr_relation :: string
  sr_scope :: string
  sr_role :: string
  sr_name :: string

definition get_relation_ident :: "string \<Rightarrow> string \<Rightarrow> state_error + string" where
  "get_relation_ident relation_name internal_relation_id =
     (case py_split CHR ''-'' internal_relation_id of
        _ # digits # _ \<Rightarrow>
          (let normalized = dropWhile (\<lambda>c. c = CHR ''0'') digits
           in Inr (relation_name @ '':'' @ (if normalized = [] then ''0'' else normalized)))
      | _ \<Rightarrow> Inl (InTopology IndexError))"

definition relation_ident :: "service_relation \<Rightarrow> state_error + string" where
  "relation_ident r = get_relation_ident (sr_name r) (sr_relation r)"

definition to_service_relation :: "string \<Rightarrow> service_relation_info \<Rightarrow> service_relation" where
  "to_service_relation sid info =
     \<lparr>sr_service = sid, sr_relation = ri_relation_id info, sr_scope = ri_scope info,
      sr_role = rs_role (ri_service info), sr_name = rs_name (ri_service info)\<rparr>"

definition relations_for_service ::
  "('z, 'c) state_env \<Rightarrow> string \<Rightarrow> 'z \<Rightarrow> state_error + service_relation list" where
  "relations_for_service e sid z =
     rbind (topo_of e z) (\<lambda>topology.
     rbind (raise_as InTopology (get_relations_for_service topology sid)) (\<lambda>infos.
     Inr (map (to_service_relation sid) infos)))"

section \<open>Adding and removing relations\<close>

definition check_endpoints :: "relation_endpoint list \<Rightarrow> state_error + unit" where
  "check_endpoints endpoints =
     (case endpoints of
        [_] \<Rightarrow> Inr ()
      | [a, b] \<Rightarrow>
          if a = b then Inl (DuplicateEndpoints endpoints)
          else if (ep_relation_role a \<in> {''client'', ''server''} \<or> ep_relation_role b \<in> {''client'', ''server''})
                  \<and> \<not> may_relate_to a b
          then Inl (IncompatibleEndpoints endpoints) else Inr ()
      | _ \<Rightarrow> Inl (WrongNumberOfEndpoints (length endpoints)))"

definition relation_scope_of :: "relation_endpoint list \<Rightarrow> string" where
  "relation_scope_of endpoints =
     (if list_ex (\<lambda>ep. ep_relation_scope ep = ''container'') endpoints then ''container'' else ''global'')"

definition create_relation_node :: "('z, 'c) state_env \<Rightarrow> string \<Rightarrow> ('z, state_error, string) eff" where
  "create_relation_node e scope =
     ebind (create_sequence e ''/relations/relation-'' (se_empty e)) (\<lambda>path.
     ebind (if scope = ''global''
            then create_node e (path @ ''/settings'') (se_empty e) (NodeExists (path @ ''/settings'')) else eret ()) (\<lambda>_.
     eret (base_name path)))"

definition create_service_node ::
  "('z, 'c) state_env \<Rightarrow> string \<Rightarrow> relation_endpoint \<Rightarrow> string \<Rightarrow> ('z, state_error, unit) eff" where
  "create_service_node e rid ep scope =
     ensure_node e (if scope = ''global'' then ''/relations/'' @ rid @ ''/'' @ ep_relation_role ep else ''/relations/'' @ rid)
       (se_empty e)"

text \<open>
  The loop of the change function over the service ids found before. Its test always looks at
  \<open>service_id\<close>, the variable the loop before left with the last endpoint's id.
\<close>

fun assign_services ::
  "string \<Rightarrow> string option \<Rightarrow> (string option \<times> relation_endpoint) list \<Rightarrow> topology \<Rightarrow> state_error + topology" where
  "assign_services rid service_id [] topology = Inr topology"
| "assign_services rid service_id ((sid, ep) # services) topology =
     (if \<not> (case service_id of None \<Rightarrow> False | Some s \<Rightarrow> has_service topology s) then Inl state_changed
      else rbind (raise_as InTopology (case sid of
             None \<Rightarrow> Inl (ServiceNotFound None)
           | Some s \<Rightarrow> assign_service_to_relation topology rid s (ep_relation_name ep) (ep_relation_role ep)))
        (assign_services rid service_id services))"

definition add_relation_change ::
  "string \<Rightarrow> string \<Rightarrow> string \<Rightarrow> (string option \<times> relation_endpoint) list \<Rightarrow> topology \<Rightarrow> state_error + topology" where
  "add_relation_change rid type scope services topology =
     (if has_relation_between_endpoints topology (map snd services) then Inl (RelationAlreadyExists (map snd services))
      else rbind (raise_as InTopology (add_relation topology rid type scope))
        (assign_services rid (fst (last services)) services))"

definition add_relation_state ::
  "('z, 'c) state_env \<Rightarrow> relation_endpoint list \<Rightarrow> ('z, state_error, string \<times> service_relation list) eff" where
  "add_relation_state e endpoints =
     ebind (eread (\<lambda>_. check_endpoints endpoints)) (\<lambda>_.
     ebind (eread (topo_of e)) (\<lambda>topology.
     if has_relation_between_endpoints topology endpoints then eraise (RelationAlreadyExists endpoints)
     else let scope = relation_scope_of endpoints;
              type = ep_relation_type (hd endpoints);
              services = map (\<lambda>ep. (find_service_with_name topology (ep_service_name ep), ep)) endpoints
     in ebind (create_relation_node e scope) (\<lambda>rid.
        ebind (efor endpoints (\<lambda>ep. create_service_node e rid ep scope)) (\<lambda>_.
        ebind (topo_change e (add_relation_change rid type scope services)) (\<lambda>_.
        eret (rid, List.map_filter (\<lambda>(sid, ep). map_option (\<lambda>s.
            \<lparr>sr_service = s, sr_relation = rid, sr_scope = scope, sr_role = ep_relation_role ep,
             sr_name = ep_relation_name ep\<rparr>) sid) services))))))"

definition remove_relation_change :: "string \<Rightarrow> topology \<Rightarrow> state_error + topology" where
  "remove_relation_change rid topology =
     (if \<not> has_relation topology rid then Inl state_changed
      else raise_as InTopology (remove_relation topology rid))"

definition remove_relation_state :: "('z, 'c) state_env \<Rightarrow> string \<Rightarrow> ('z, state_error, unit) eff" where
  "remove_relation_state e rid = topo_change e (remove_relation_change rid)"

definition get_relation_state :: "('z, 'c) state_env \<Rightarrow> relation_endpoint list \<Rightarrow> 'z \<Rightarrow> state_error + string" where
  "get_relation_state e endpoints z =
     rbind (topo_of e z) (\<lambda>topology.
     rbind (raise_as InTopology (get_relation_between_endpoints topology endpoints)) (\<lambda>internal_id.
     case internal_id of None \<Rightarrow> Inl RelationStateNotFound | Some rid \<Rightarrow> Inr rid))"

text \<open>\<open>ServiceStateManager.remove_service_state\<close> first removes the service's relations and its units.\<close>

definition remove_service_change :: "service_state \<Rightarrow> topology \<Rightarrow> state_error + topology" where
  "remove_service_change s topology =
     (if \<not> has_service topology (ss_id s) then Inl state_changed
      else raise_as InTopology (remove_service topology (ss_id s)))"

definition remove_service_state :: "('z, 'c) state_env \<Rightarrow> service_state \<Rightarrow> ('z, state_error, unit) eff" where
  "remove_service_state e s =
     ebind (eread (relations_for_service e (ss_id s))) (\<lambda>relations.
     ebind (efor relations (\<lambda>r. remove_relation_state e (sr_relation r))) (\<lambda>_.
     ebind (eread (get_unit_names e s)) (\<lambda>unit_names.
     ebind (efor unit_names (\<lambda>uname.
       ebind (eread (service_unit_state e s uname)) (remove_unit_state e s))) (\<lambda>_.
     ebind (topo_change e (remove_service_change s)) (\<lambda>_.
     echange (\<lambda>z. Inr (se_remove_tree e (service_path s) z)))))))"

definition relation_service_states :: "('z, 'c) state_env \<Rightarrow> string \<Rightarrow> 'z \<Rightarrow> state_error + service_state list" where
  "relation_service_states e rid z =
     rbind (topo_of e z) (\<lambda>topology.
     rbind (raise_as InTopology (get_relation_services topology rid)) (\<lambda>services.
     rmap (\<lambda>sid. rbind (raise_as InTopology (get_service_name topology sid))
       (\<lambda>name. Inr \<lparr>ss_id = sid, ss_name = name\<rparr>)) (dkeys services)))"

section \<open>A unit joins a relation\<close>

definition rstrip_slash :: "string \<Rightarrow> string" where
  "rstrip_slash s = rev (dropWhile (\<lambda>c. c = CHR ''/'') (rev s))"

definition get_scope_path :: "service_relation \<Rightarrow> string \<Rightarrow> string option \<Rightarrow> string" where
  "get_scope_path r unit_id container_id =
     (let relation_scope_value =
        (if sr_scope r = ''container'' then (case container_id of None \<Rightarrow> unit_id | Some c \<Rightarrow> c) else '''')
      in rstrip_slash (''/relations/'' @ sr_relation r @ ''/'' @ relation_scope_value))"

definition unit_settings_node :: "service_relation \<Rightarrow> string \<Rightarrow> string option \<Rightarrow> string" where
  "unit_settings_node r unit_id container_id = get_scope_path r unit_id container_id @ ''/settings/'' @ unit_id"

definition create_scope_container ::
  "('z, 'c) state_env \<Rightarrow> service_relation \<Rightarrow> string \<Rightarrow> string \<Rightarrow> ('z, state_error, unit) eff" where
  "create_scope_container e r scope_path uname =
     ebind (eread (topo_of e)) (\<lambda>topology.
     ebind (eread (\<lambda>_. rbind (parse_service_name uname) (\<lambda>service_name.
       raise_as InTopology (case find_service_with_name topology service_name of
           None \<Rightarrow> Inl (ServiceNotFound None)
         | Some sid \<Rightarrow> get_relation_service topology (sr_relation r) sid)))) (\<lambda>(interface, relation_data).
     ebind (ensure_node e scope_path (se_empty e)) (\<lambda>_.
     ebind (retry_node e (scope_path @ ''/'' @ rs_role relation_data) (\<lambda>_. Inr (se_dump e
       (YMap [(''role'', YText (rs_role relation_data)), (''name'', YText (rs_name relation_data))])))) (\<lambda>_.
     retry_node e (scope_path @ ''/settings'') (\<lambda>_. Inr (se_empty e))))))"

text \<open>What an empty node and a false value load as: no dict yet.\<close>

definition content_map :: "('z, 'c) state_env \<Rightarrow> 'c option \<Rightarrow> state_error + (string, yvalue) dict" where
  "content_map e content =
     (case content of
        None \<Rightarrow> Inr []
      | Some c \<Rightarrow> if ty_blank (se_topo e) c then Inr []
          else (case se_load e c of YMap d \<Rightarrow> Inr d | v \<Rightarrow> Inl (BadContent ''dict'')))"

definition update_address :: "('z, 'c) state_env \<Rightarrow> yvalue option \<Rightarrow> 'c option \<Rightarrow> state_error + 'c" where
  "update_address e private_address content =
     rbind (case content of
              Some c \<Rightarrow> if \<not> ty_blank (se_topo e) c \<and> \<not> y_true (se_load e c) then Inr [] else content_map e content
            | None \<Rightarrow> Inr []) (\<lambda>unit_map.
     Inr (se_dump e (YMap (dset ''private-address''
       (case private_address of None \<Rightarrow> YNone | Some v \<Rightarrow> v) unit_map))))"

definition update_unit_mapping :: "('z, 'c) state_env \<Rightarrow> service_unit \<Rightarrow> 'c option \<Rightarrow> state_error + 'c" where
  "update_unit_mapping e u content =
     rbind (content_map e content) (\<lambda>unit_map.
     case content of
       Some c \<Rightarrow> if dhas unit_map (su_id u) then Inr c
         else Inr (se_dump e (YMap (dset (su_id u) (YText (unit_name_of u)) unit_map)))
     | None \<Rightarrow> Inr (se_dump e (YMap (dset (su_id u) (YText (unit_name_of u)) unit_map))))"

record unit_relation =
  ur_service :: string
  ur_unit :: string
  ur_relation :: string
  ur_scope :: string
  ur_role :: "string option"  \<comment> \<open>cached\<close>

definition new_unit_relation :: "service_relation \<Rightarrow> string \<Rightarrow> unit_relation" where
  "new_unit_relation r uid =
     \<lparr>ur_service = sr_service r, ur_unit = uid, ur_relation = sr_relation r, ur_scope = sr_scope r, ur_role = None\<rparr>"

definition join_relation ::
  "('z, 'c) state_env \<Rightarrow> service_relation \<Rightarrow> service_unit \<Rightarrow> ('z, state_error, unit_relation) eff" where
  "join_relation e r u =
     ebind (eread (get_container e u)) (\<lambda>container.
     let scope_path = get_scope_path r (su_id u) (map_option su_id container);
         role_path = scope_path @ ''/'' @ sr_role r in
     ebind (if sr_scope r = ''container'' then create_scope_container e r scope_path (unit_name_of u) else eret ()) (\<lambda>_.
     ebind (eread (get_private_address e (case container of None \<Rightarrow> u | Some c \<Rightarrow> c))) (\<lambda>private_address.
     ebind (retry_node e (scope_path @ ''/settings/'' @ su_id u) (update_address e private_address)) (\<lambda>_.
     ebind (retry_node e (''/relations/'' @ sr_relation r) (update_unit_mapping e u)) (\<lambda>_.
     ebind (ensure_node e role_path (se_empty e)) (\<lambda>_.
     ebind (ensure_node e (role_path @ ''/'' @ su_id u) (se_empty e)) (\<lambda>_.
     eret (new_unit_relation r (su_id u)))))))))"

definition get_unit_relation ::
  "('z, 'c) state_env \<Rightarrow> service_relation \<Rightarrow> service_unit \<Rightarrow> 'z \<Rightarrow> state_error + unit_relation" where
  "get_unit_relation e r u z =
     rbind (if sr_scope r = ''global'' then Inr (''/relations/'' @ sr_relation r @ ''/'' @ sr_role r @ ''/'' @ su_id u)
            else rbind (get_container e u z) (\<lambda>container.
              Inr (get_scope_path r (su_id u) (map_option su_id container) @ ''/'' @ sr_role r @ ''/'' @ su_id u)))
       (\<lambda>alive_path.
     if \<not> zc_exists (se_client e) z alive_path
     then Inl (UnitRelationStateNotFound (sr_relation r) (sr_name r) (unit_name_of u))
     else Inr (new_unit_relation r (su_id u)))"

section \<open>The unit's view of the relation\<close>

definition get_container_id :: "('z, 'c) state_env \<Rightarrow> unit_relation \<Rightarrow> 'z \<Rightarrow> state_error + string option" where
  "get_container_id e ur z =
     rbind (topo_of e z) (\<lambda>topology.
     rbind (raise_as InTopology (get_service_unit_container topology (ur_unit ur))) (\<lambda>container.
     case container of
       None \<Rightarrow> if ur_scope ur = ''global'' then Inr None else Inr (Some (ur_unit ur))
     | Some (_, _, _, container_id) \<Rightarrow> Inr (Some container_id)))"

text \<open>\<open>"/".join(filter(None, parts))\<close>\<close>

definition join_parts :: "string option list \<Rightarrow> string" where
  "join_parts parts = py_join ''/'' (List.map_filter (\<lambda>p. case p of Some (c # s) \<Rightarrow> Some (c # s) | _ \<Rightarrow> None) parts)"

definition unit_settings_path :: "('z, 'c) state_env \<Rightarrow> unit_relation \<Rightarrow> 'z \<Rightarrow> state_error + string" where
  "unit_settings_path e ur z =
     rbind (get_container_id e ur z) (\<lambda>container.
     Inr (join_parts [Some ''/relations'', Some (ur_relation ur), container, Some ''settings'', Some (ur_unit ur)]))"

definition set_data :: "('z, 'c) state_env \<Rightarrow> unit_relation \<Rightarrow> (string, yvalue) dict \<Rightarrow> ('z, state_error, unit) eff" where
  "set_data e ur data =
     ebind (eread (unit_settings_path e ur)) (\<lambda>path. retry_node e path (\<lambda>_. Inr (se_dump e (YMap data))))"

definition get_data :: "('z, 'c) state_env \<Rightarrow> unit_relation \<Rightarrow> 'z \<Rightarrow> state_error + 'c" where
  "get_data e ur z =
     rbind (unit_settings_path e ur z) (\<lambda>path.
     case zc_get (se_client e) z path of None \<Rightarrow> Inl (NoNode path) | Some c \<Rightarrow> Inr c)"

definition get_relation_role :: "('z, 'c) state_env \<Rightarrow> 'z \<Rightarrow> (unit_relation, state_error, string) eff" where
  "get_relation_role e z ur =
     (case ur_role ur of
        Some role \<Rightarrow> (ur, Inr role)
      | None \<Rightarrow>
          (case rbind (topo_of e z) (\<lambda>topology.
                 if \<not> (has_relation topology (ur_relation ur) \<and> has_service topology (ur_service ur))
                 then Inl state_changed
                 else raise_as InTopology (get_relation_service topology (ur_relation ur) (ur_service ur))) of
             Inl err \<Rightarrow> (ur, Inl err)
           | Inr (_, info) \<Rightarrow> (ur\<lparr>ur_role := Some (rs_role info)\<rparr>, Inr (rs_role info))))"

definition get_related_unit_container :: "('z, 'c) state_env \<Rightarrow> 'z \<Rightarrow> (unit_relation, state_error, string) eff" where
  "get_related_unit_container e z =
     ebind (get_relation_role e z) (\<lambda>role.
     ebind (\<lambda>ur. (ur, if ur_scope ur = ''container'' then get_container_id e ur z else Inr None)) (\<lambda>container.
     eread (\<lambda>ur.
       let endpoint = [''/relations'', ur_relation ur] @ (case container of None \<Rightarrow> [] | Some c \<Rightarrow> [c]) in
       if role = ''server'' then Inr (py_join ''/'' (endpoint @ [''client'']))
       else if role = ''client'' then Inr (py_join ''/'' (endpoint @ [''server'']))
       else if role = ''peer'' then Inr (py_join ''/'' (endpoint @ [''peer'']))
       else rbind (topo_of e z) (\<lambda>topology.
            rbind (raise_as InTopology (get_service_name topology (ur_service ur))) (\<lambda>service_name.
            Inl (UnknownRelationRole (ur_relation ur) role service_name))))))"

end
