(* ===== verification/HookContext.thy ===== *)
theory HookContext
  imports RelationState
begin

text \<open>
  \<open>juju/state/hook.py\<close>: what a running hook sees of the environment. A context caches what it has read
  and buffers what the hook sets until \<open>flush\<close>.

  Every operation gets the state \<open>z\<close> ZooKeeper has when it runs: between two calls of a hook anything may have
  changed. The context is the state of the operations, so caches filled before an exception stay filled.
\<close>

section \<open>Settings with defaults\<close>

record config_state =
  cs_path :: string
  cs_yaml :: "yvalue yaml_state"
  cs_defaults :: "(string, yvalue) dict"

definition config_getitem :: "config_state \<Rightarrow> string \<Rightarrow> yaml_error + yvalue" where
  "config_getitem c key =
     rbind (check (cs_yaml c)) (\<lambda>_.
     case dget (ys_cache (cs_yaml c)) key of
       Some v \<Rightarrow> Inr v
     | None \<Rightarrow> (case dget (cs_defaults c) key of None \<Rightarrow> Inl (NoSuchKey key) | Some v \<Rightarrow> Inr v))"

definition config_keys :: "config_state \<Rightarrow> string list" where
  "config_keys c = remdups (dkeys (ys_cache (cs_yaml c)) @ dkeys (cs_defaults c))"

definition service_config :: "('z, 'c) state_env \<Rightarrow> service_state \<Rightarrow> 'z \<Rightarrow> state_error + config_state" where
  "service_config e s z =
     rbind (se_config_defaults e z (ss_id s)) (\<lambda>defaults.
     let path = service_path s @ ''/config'' in
     case read (node_at e path) z False of
       (Some err, _) \<Rightarrow> Inl (InNode err)
     | (None, y) \<Rightarrow> Inr \<lparr>cs_path = path, cs_yaml = y, cs_defaults = defaults\<rparr>)"

section \<open>Contexts of any hook\<close>

record hook_context =
  hc_unit_name :: string
  hc_service :: "service_state option"
  hc_node_cache :: "(string, string \<times> yvalue yaml_state) dict"  \<comment> \<open>the path and the state of a \<open>YAMLState\<close>\<close>
  hc_name_cache :: "(string, string option) dict"
  hc_config :: "config_state option"
  hc_topology :: "topology option"

definition new_hook_context :: "string \<Rightarrow> topology option \<Rightarrow> hook_context" where
  "new_hook_context uname topology =
     \<lparr>hc_unit_name = uname, hc_service = None, hc_node_cache = [], hc_name_cache = [], hc_config = None,
      hc_topology = topology\<rparr>"

definition cached_topology :: "('z, 'c) state_env \<Rightarrow> 'z \<Rightarrow> ('x hook_context_scheme, state_error, topology) eff" where
  "cached_topology e z c =
     (case hc_topology c of
        Some t \<Rightarrow> (c, Inr t)
      | None \<Rightarrow> (case topo_of e z of Inl err \<Rightarrow> (c, Inl err) | Inr t \<Rightarrow> (c\<lparr>hc_topology := Some t\<rparr>, Inr t)))"

definition resolve_id :: "('z, 'c) state_env \<Rightarrow> 'z \<Rightarrow> string \<Rightarrow> ('x hook_context_scheme, state_error, string) eff" where
  "resolve_id e z unit_id =
     ebind (cached_topology e z) (\<lambda>t. eread (\<lambda>_. raise_as InTopology (get_service_unit_name_from_id t unit_id)))"

definition resolve_name ::
  "('z, 'c) state_env \<Rightarrow> 'z \<Rightarrow> string \<Rightarrow> ('x hook_context_scheme, state_error, string option) eff" where
  "resolve_name e z uname c =
     (case dget (hc_name_cache c) uname of
        Some unit_id \<Rightarrow> (c, Inr unit_id)
      | None \<Rightarrow>
          ebind (cached_topology e z) (\<lambda>t.
          ebind (eread (\<lambda>_. raise_as InTopology (get_service_unit_id_from_name t uname))) (\<lambda>unit_id c.
          (c\<lparr>hc_name_cache := dset uname unit_id (hc_name_cache c)\<rparr>, Inr unit_id))) c)"

definition get_local_unit_state ::
  "('z, 'c) state_env \<Rightarrow> 'z \<Rightarrow> ('x hook_context_scheme, state_error, service_unit) eff" where
  "get_local_unit_state e z = eread (\<lambda>c. get_unit_state e (hc_unit_name c) z)"

definition get_local_service ::
  "('z, 'c) state_env \<Rightarrow> 'z \<Rightarrow> ('x hook_context_scheme, state_error, service_state) eff" where
  "get_local_service e z c =
     (case hc_service c of
        Some s \<Rightarrow> (c, Inr s)
      | None \<Rightarrow>
          (case rbind (parse_service_name (hc_unit_name c)) (\<lambda>name. get_service_state e name z) of
             Inl err \<Rightarrow> (c, Inl err)
           | Inr s \<Rightarrow> (c\<lparr>hc_service := Some s\<rparr>, Inr s)))"

text \<open>A cached config without keys is false: it is read again.\<close>

definition get_config :: "('z, 'c) state_env \<Rightarrow> 'z \<Rightarrow> ('x hook_context_scheme, state_error, config_state) eff" where
  "get_config e z c =
     (case hc_config c of
        Some config \<Rightarrow>
          if config_keys config \<noteq> [] then (c, Inr config)
          else ebind (get_local_service e z) (\<lambda>s. ebind (eread (\<lambda>_. service_config e s z)) (\<lambda>config c.
            (c\<lparr>hc_config := Some config\<rparr>, Inr config))) c
      | None \<Rightarrow>
          ebind (get_local_service e z) (\<lambda>s. ebind (eread (\<lambda>_. service_config e s z)) (\<lambda>config c.
            (c\<lparr>hc_config := Some config\<rparr>, Inr config))) c)"

definition context_relations ::
  "('z, 'c) state_env \<Rightarrow> 'z \<Rightarrow> ('x hook_context_scheme, state_error, service_relation list) eff" where
  "context_relations e z =
     ebind (cached_topology e z) (\<lambda>t.
     ebind (get_local_service e z) (\<lambda>s.
     eread (\<lambda>_. rbind (raise_as InTopology (get_relations_for_service t (ss_id s))) (\<lambda>infos.
       Inr (map (to_service_relation (ss_id s)) infos)))))"

definition get_relation_idents ::
  "('z, 'c) state_env \<Rightarrow> 'z \<Rightarrow> string \<Rightarrow> ('x hook_context_scheme, state_error, string list) eff" where
  "get_relation_idents e z relation_name =
     ebind (context_relations e z) (\<lambda>relations.
     eread (\<lambda>_. rbind (rmap relation_ident
         (filter (\<lambda>r. relation_name = [] \<or> sr_name r = relation_name) relations)) (\<lambda>idents. Inr (sort idents))))"

definition zfill10 :: "string \<Rightarrow> string" where
  "zfill10 s = replicate (10 - length s) CHR ''0'' @ s"

definition get_relation_id_and_scope ::
  "('z, 'c) state_env \<Rightarrow> 'z \<Rightarrow> string \<Rightarrow> ('x hook_context_scheme, state_error, string \<times> string) eff" where
  "get_relation_id_and_scope e z ident =
     (case py_split CHR '':'' ident of
        [relation_name, normalized_id] \<Rightarrow>
          if \<not> py_isdigit normalized_id then eraise (InvalidRelationIdentity ident)
          else let relation_id = ''relation-'' @ zfill10 normalized_id in
            ebind (context_relations e z) (\<lambda>relations.
            case List.find (\<lambda>r. sr_name r = relation_name \<and> sr_relation r = relation_id) relations of
              Some r \<Rightarrow> eret (relation_id, sr_scope r)
            | None \<Rightarrow> eraise RelationStateNotFound)
      | _ \<Rightarrow> eraise (InvalidRelationIdentity ident))"

text \<open>Writing the config; the object in the cache is the one that was written.\<close>

definition flush_config :: "('z, 'c) state_env \<Rightarrow> ('x hook_context_scheme \<times> 'z, state_error, unit) eff" where
  "flush_config e s =
     (let (c, z) = s in
      case get_config e z c of
        (c, Inl err) \<Rightarrow> ((c, z), Inl err)
      | (c, Inr config) \<Rightarrow>
          (case write_state (node_at e (cs_path config)) (cs_yaml config) z of
             Inl err \<Rightarrow> ((c, z), Inl (InNode err))
           | Inr (y, z', _) \<Rightarrow> ((c\<lparr>hc_config := Some (config\<lparr>cs_yaml := y\<rparr>)\<rparr>, z'), Inr ())))"

section \<open>Contexts of relation hooks\<close>

record relation_context = hook_context +
  rc_relation :: unit_relation
  rc_members :: "string list option"
  rc_ident :: string
  rc_needs_flushing :: bool
  rc_scope_path :: "string option"

definition new_relation_context ::
  "unit_relation \<Rightarrow> string \<Rightarrow> string list option \<Rightarrow> string \<Rightarrow> topology option \<Rightarrow> relation_context" where
  "new_relation_context ur ident members uname topology =
     hook_context.extend (new_hook_context uname topology)
       \<lparr>rc_relation = ur, rc_members = members, rc_ident = ident, rc_needs_flushing = False, rc_scope_path = None\<rparr>"

definition get_relation_hook_context ::
  "('z, 'c) state_env \<Rightarrow> 'z \<Rightarrow> string \<Rightarrow> ('x hook_context_scheme, state_error, relation_context) eff" where
  "get_relation_hook_context e z ident =
     ebind (get_local_service e z) (\<lambda>s.
     ebind (get_local_unit_state e z) (\<lambda>u.
     ebind (get_relation_id_and_scope e z ident) (\<lambda>(relation_id, relation_scope).
     eread (\<lambda>c. Inr (new_relation_context
       \<lparr>ur_service = ss_id s, ur_unit = su_id u, ur_relation = relation_id, ur_scope = relation_scope, ur_role = None\<rparr>
       ident None (hc_unit_name c) (hc_topology c))))))"

definition ident_name :: "string \<Rightarrow> string" where
  "ident_name ident = hd (py_split CHR '':'' ident)"

text \<open>\<open>"/".join(path.split("/")[:-1])\<close>\<close>

definition parent_path :: "string \<Rightarrow> string" where
  "parent_path path = py_join ''/'' (butlast (py_split CHR ''/'' path))"

definition settings_path_of :: "('z, 'c) state_env \<Rightarrow> 'z \<Rightarrow> string \<Rightarrow> (relation_context, state_error, string) eff" where
  "settings_path_of e z unit_id c =
     (if ur_scope (rc_relation c) = ''global''
      then (c, Inr (''/relations/'' @ ur_relation (rc_relation c) @ ''/settings/'' @ unit_id))
      else case rc_scope_path c of
        Some p \<Rightarrow> if p \<noteq> [] then (c, Inr (p @ ''/'' @ unit_id))
          else (case unit_settings_path e (rc_relation c) z of
             Inl err \<Rightarrow> (c, Inl err)
           | Inr path \<Rightarrow> (c\<lparr>rc_scope_path := Some (parent_path path)\<rparr>, Inr (parent_path path @ ''/'' @ unit_id)))
      | None \<Rightarrow>
          (case unit_settings_path e (rc_relation c) z of
             Inl err \<Rightarrow> (c, Inl err)
           | Inr path \<Rightarrow> (c\<lparr>rc_scope_path := Some (parent_path path)\<rparr>, Inr (parent_path path @ ''/'' @ unit_id))))"

definition related_container :: "('z, 'c) state_env \<Rightarrow> 'z \<Rightarrow> (relation_context, state_error, string) eff" where
  "related_container e z c =
     (let (ur, r) = get_related_unit_container e z (rc_relation c) in (c\<lparr>rc_relation := ur\<rparr>, r))"

definition get_members :: "('z, 'c) state_env \<Rightarrow> 'z \<Rightarrow> (relation_context, state_error, string list) eff" where
  "get_members e z c =
     (case rc_members c of
        Some members \<Rightarrow> (c, Inr members)
      | None \<Rightarrow>
          (case related_container e z c of
             (c, Inl err) \<Rightarrow> if err = state_changed then (c, Inr []) else (c, Inl err)
           | (c, Inr container) \<Rightarrow>
               (case zc_children (se_client e) z container of
                  None \<Rightarrow> (c, Inl (NoNode container))
                | Some unit_ids \<Rightarrow>
                    ebind (emap (remove1 (ur_unit (rc_relation c)) unit_ids) (resolve_id e z))
                      (\<lambda>members c. (c\<lparr>rc_members := Some members\<rparr>, Inr members)) c)))"

definition setup_relation_state ::
  "('z, 'c) state_env \<Rightarrow> 'z \<Rightarrow> string option \<Rightarrow> (relation_context, state_error, string) eff" where
  "setup_relation_state e z uname_opt c =
     ebind (case uname_opt of Some uname \<Rightarrow> eret uname | None \<Rightarrow> resolve_id e z (ur_unit (rc_relation c))) (\<lambda>uname c.
       if dhas (hc_node_cache c) uname then (c, Inr uname)
       else ebind (resolve_name e z uname) (\<lambda>unit_id.
            ebind (settings_path_of e z (case unit_id of None \<Rightarrow> ''None'' | Some i \<Rightarrow> i)) (\<lambda>path c.
            case read (node_at e path) z True of
              (Some _, _) \<Rightarrow>
                (c, Inl (UnitRelationStateNotFound (ur_relation (rc_relation c)) (ident_name (rc_ident c)) uname))
            | (None, y) \<Rightarrow> (c\<lparr>hc_node_cache := dset uname (path, y) (hc_node_cache c)\<rparr>, Inr uname))) c) c"

text \<open>The \<open>YAMLState\<close> that \<open>_setup_relation_state\<close> returns lives in the cache, under the name it returns here.\<close>

definition cached_settings :: "relation_context \<Rightarrow> string \<Rightarrow> (string, yvalue) dict" where
  "cached_settings c uname = (case dget (hc_node_cache c) uname of None \<Rightarrow> [] | Some (_, y) \<Rightarrow> ys_cache y)"

definition relation_get ::
  "('z, 'c) state_env \<Rightarrow> 'z \<Rightarrow> string option \<Rightarrow> (relation_context, state_error, (string, yvalue) dict) eff" where
  "relation_get e z uname = ebind (setup_relation_state e z uname) (\<lambda>name. eread (\<lambda>c. Inr (cached_settings c name)))"

definition relation_get_value ::
  "('z, 'c) state_env \<Rightarrow> 'z \<Rightarrow> string option \<Rightarrow> string \<Rightarrow> (relation_context, state_error, yvalue) eff" where
  "relation_get_value e z uname key =
     ebind (relation_get e z uname) (\<lambda>settings.
     if settings = [] then eret (YText []) else eret (case dget settings key of None \<Rightarrow> YText [] | Some v \<Rightarrow> v))"

definition update_cached ::
  "string \<Rightarrow> (yvalue yaml_state \<Rightarrow> yaml_error + yvalue yaml_state) \<Rightarrow> (relation_context, state_error, unit) eff" where
  "update_cached uname f c =
     (case dget (hc_node_cache c) uname of
        None \<Rightarrow> (c, Inr ())
      | Some (path, y) \<Rightarrow>
          (case f y of
             Inl err \<Rightarrow> (c, Inl (InNode err))
           | Inr y' \<Rightarrow> (c\<lparr>hc_node_cache := dset uname (path, y') (hc_node_cache c)\<rparr>, Inr ())))"

definition mark_flush :: "(relation_context, state_error, unit) eff" where
  "mark_flush c = (c\<lparr>rc_needs_flushing := True\<rparr>, Inr ())"

definition relation_set_value ::
  "('z, 'c) state_env \<Rightarrow> 'z \<Rightarrow> string \<Rightarrow> yvalue \<Rightarrow> (relation_context, state_error, unit) eff" where
  "relation_set_value e z key v =
     ebind mark_flush (\<lambda>_. ebind (setup_relation_state e z None) (\<lambda>name. update_cached name (\<lambda>y. setitem y key v)))"

definition relation_set ::
  "('z, 'c) state_env \<Rightarrow> 'z \<Rightarrow> (string, yvalue) dict \<Rightarrow> (relation_context, state_error, unit) eff" where
  "relation_set e z data =
     ebind mark_flush (\<lambda>_. ebind (setup_relation_state e z None) (\<lambda>name.
     efor data (\<lambda>(key, v). update_cached name (\<lambda>y. setitem y key v))))"

text \<open>Deleting a key that is not there is no error.\<close>

definition relation_delete_value ::
  "('z, 'c) state_env \<Rightarrow> 'z \<Rightarrow> string \<Rightarrow> (relation_context, state_error, unit) eff" where
  "relation_delete_value e z key =
     ebind mark_flush (\<lambda>_. ebind (setup_relation_state e z None) (\<lambda>name.
     ecatch (update_cached name (\<lambda>y. delitem y key)) (\<lambda>err. if err = InNode (NoSuchKey key) then Some (eret ()) else None)))"

definition has_read :: "relation_context \<Rightarrow> string \<Rightarrow> bool" where
  "has_read c uname = dhas (hc_node_cache c) uname"

definition flush_settings ::
  "('z, 'c) state_env \<Rightarrow> (relation_context \<times> 'z, state_error, yvalue change_item list) eff" where
  "flush_settings e s =
     (let (c, z) = s in
      if \<not> rc_needs_flushing c then ((c, z), Inr [])
      else case setup_relation_state e z None c of
        (c, Inl err) \<Rightarrow> ((c, z), Inl err)
      | (c, Inr name) \<Rightarrow>
          (case dget (hc_node_cache c) name of
             None \<Rightarrow> ((c, z), Inr [])
           | Some (path, y) \<Rightarrow>
               (case write_state (node_at e path) y z of
                  Inl err \<Rightarrow> ((c, z), Inl (InNode err))
                | Inr (y', z', changes) \<Rightarrow>
                    ((c\<lparr>hc_node_cache := dset name (path, y') (hc_node_cache c)\<rparr>, z'), Inr changes))))"

definition relation_flush ::
  "('z, 'c) state_env \<Rightarrow> (relation_context \<times> 'z, state_error, yvalue change_item list) eff" where
  "relation_flush e = ebind (flush_settings e) (\<lambda>changes. ebind (flush_config e) (\<lambda>_. eret changes))"

section \<open>Contexts of relation-broken hooks\<close>

record departed_context = hook_context +
  dc_relation_name :: string
  dc_relation_id :: string
  dc_settings_path :: "string option"
  dc_cache :: "(string, yvalue) dict option"

definition new_departed_context :: "string \<Rightarrow> string \<Rightarrow> string \<Rightarrow> departed_context" where
  "new_departed_context uname relation_name relation_id =
     hook_context.extend (new_hook_context uname None)
       \<lparr>dc_relation_name = relation_name, dc_relation_id = relation_id, dc_settings_path = None, dc_cache = None\<rparr>"

definition departed_members :: "departed_context \<Rightarrow> string list" where
  "departed_members c = []"

definition departed_ident :: "departed_context \<Rightarrow> state_error + string" where
  "departed_ident c = get_relation_ident (dc_relation_name c) (dc_relation_id c)"

definition departed_settings_path :: "('z, 'c) state_env \<Rightarrow> 'z \<Rightarrow> (departed_context, state_error, string) eff" where
  "departed_settings_path e z c =
     (case dc_settings_path c of
        Some (x # p) \<Rightarrow> (c, Inr (x # p))
      | _ \<Rightarrow>
          ebind (resolve_name e z (hc_unit_name c)) (\<lambda>unit_id.
          ebind (eread (\<lambda>_. topo_of e z)) (\<lambda>topology.
          ebind (eread (\<lambda>_. raise_as InTopology (get_service_unit_container topology
            (case unit_id of None \<Rightarrow> ''None'' | Some i \<Rightarrow> i)))) (\<lambda>container c.
          let container_info = (case container of None \<Rightarrow> [] | Some (_, _, _, cid) \<Rightarrow> cid @ ''/'');
              path = ''/relations/'' @ dc_relation_id c @ ''/'' @ container_info @ ''settings/'' @
                (case unit_id of None \<Rightarrow> ''None'' | Some i \<Rightarrow> i)
          in (c\<lparr>dc_settings_path := Some path\<rparr>, Inr path)))) c)"

definition departed_get ::
  "('z, 'c) state_env \<Rightarrow> 'z \<Rightarrow> string option \<Rightarrow> (departed_context, state_error, (string, yvalue) dict) eff" where
  "departed_get e z uname c =
     (if uname \<noteq> None \<and> uname \<noteq> Some (hc_unit_name c)
      then (c, Inl (RelationBrokenContextError ''Cannot access other units in broken relation''))
      else ebind (departed_settings_path e z) (\<lambda>path c.
        case dc_cache c of
          Some d \<Rightarrow> (c, Inr d)
        | None \<Rightarrow>
            (case read (node_at e path) z True of
               (None, y) \<Rightarrow> (c\<lparr>dc_cache := Some (ys_cache y)\<rparr>, Inr (ys_cache y))
             | (Some _, _) \<Rightarrow> (c\<lparr>dc_cache := Some []\<rparr>, Inr []))) c)"

definition departed_get_value ::
  "('z, 'c) state_env \<Rightarrow> 'z \<Rightarrow> string option \<Rightarrow> string \<Rightarrow> (departed_context, state_error, yvalue) eff" where
  "departed_get_value e z uname key =
     ebind (departed_get e z uname) (\<lambda>settings. eret (case dget settings key of None \<Rightarrow> YText [] | Some v \<Rightarrow> v))"

definition departed_change :: "(departed_context, state_error, unit) eff" where
  "departed_change = eraise (RelationBrokenContextError ''Cannot change settings in broken relation'')"

definition departed_has_read :: "departed_context \<Rightarrow> string option \<Rightarrow> bool" where
  "departed_has_read c uname =
     (if uname = None \<or> uname = Some (hc_unit_name c) then dc_cache c \<noteq> None else False)"

end
