(* ===== verification/HookContextProps.thy ===== *)
theory HookContextProps
  imports HookContext StateBaseProps YamlStateProps
begin

text \<open>
  Properties of relations and hook contexts: external relation ids, where a unit's settings are, and what a
  hook sees while other units change theirs.
\<close>

section \<open>External relation ids\<close>

lemma show_nat_no_zero: "0 < n \<Longrightarrow> hd (show_nat n) \<noteq> CHR ''0''"
proof (induction n rule: show_nat.induct)
  case (1 n)
  show ?case
  proof (cases "n < 10")
    case True
    then have "n \<in> {1, 2, 3, 4, 5, 6, 7, 8, 9}" using 1(2) by auto
    then show ?thesis by (subst show_nat.simps) (auto simp: digit_char_def)
  next
    case False
    then have "hd (show_nat (n div 10)) \<noteq> CHR ''0''" using 1(1) by simp
    with False show ?thesis by (subst show_nat.simps) simp
  qed
qed

lemma drop_zeros_replicate: "dropWhile (\<lambda>c. c = x) (replicate k x @ s) = dropWhile (\<lambda>c. c = x) s"
  by (induction k) auto

lemma normalized_id:
  "(let normalized = dropWhile (\<lambda>c. c = CHR ''0'') (zfill10 (show_nat n)) in if normalized = [] then ''0'' else normalized)
   = show_nat n"
proof (cases "n = 0")
  case True
  then have "show_nat n = ''0''" by (subst show_nat.simps) (simp add: digit_char_def)
  then show ?thesis by (simp add: zfill10_def drop_zeros_replicate)
next
  case False
  then have "dropWhile (\<lambda>c. c = CHR ''0'') (show_nat n) = show_nat n"
    using show_nat_no_zero [of n] by (cases "show_nat n") auto
  then show ?thesis by (simp add: zfill10_def drop_zeros_replicate)
qed

lemma split_relation_id: "py_split CHR ''-'' (''relation-'' @ zfill10 (show_nat n)) = [''relation'', zfill10 (show_nat n)]"
proof -
  have "CHR ''-'' \<notin> set (zfill10 (show_nat n))"
    by (auto simp: zfill10_def show_nat_no)
  then have "py_split CHR ''-'' (''relation'' @ CHR ''-'' # zfill10 (show_nat n)) = [''relation'', zfill10 (show_nat n)]"
    by (subst py_split_append_sep) (simp_all add: py_split_no_sep)
  then show ?thesis by simp
qed

lemma ident_of_number:
  "get_relation_ident name (''relation-'' @ zfill10 (show_nat n)) = Inr (name @ '':'' @ show_nat n)"
  using normalized_id [of n] unfolding get_relation_ident_def split_relation_id by (simp add: Let_def)

text \<open>
  External relation ids are exact. For every relation of the service with an id of ZooKeeper's form
  (\<open>relation-\<close> and a sequence number of at least ten digits), the external id is the name and the number, and
  a hook that passes it back reaches that relation and its scope.
\<close>

theorem relation_ident_roundtrip:
  assumes "topo_reachable t" and "hc_topology c = Some t" and "hc_service c = Some s"
    and "context_relations e z c = (c, Inr rels)" and "r \<in> set rels"
    and "sr_relation r = ''relation-'' @ zfill10 (show_nat n)" and "CHR '':'' \<notin> set (sr_name r)"
  shows "relation_ident r = Inr (sr_name r @ '':'' @ show_nat n)
    \<and> get_relation_id_and_scope e z (sr_name r @ '':'' @ show_nat n) c = (c, Inr (sr_relation r, sr_scope r))"
proof -
  obtain infos where infos: "get_relations_for_service t (ss_id s) = Inr infos"
    and rels: "rels = map (to_service_relation (ss_id s)) infos"
    using assms(2,3,4)
    by (cases "get_relations_for_service t (ss_id s)")
      (auto simp: context_relations_def cached_topology_def get_local_service_def ebind_def eread_def)
  have unique: "x = y" if "x \<in> set rels" "y \<in> set rels" "sr_relation x = sr_relation y" for x y
    using that relations_for_service_Inr [OF infos reachableD(1) [OF assms(1)]]
    by (fastforce simp: rels to_service_relation_def)
  have "py_split CHR '':'' (sr_name r @ CHR '':'' # show_nat n) = [sr_name r, show_nat n]"
    using assms(7) by (simp add: py_split_append_sep py_split_no_sep show_nat_no)
  moreover have "List.find (\<lambda>x. sr_name x = sr_name r \<and> sr_relation x = ''relation-'' @ zfill10 (show_nat n)) rels = Some r"
    (is "List.find ?P rels = _")
  proof -
    have "List.find ?P rels \<noteq> None" using assms(5,6) by (auto simp: find_None_iff)
    then obtain x where x: "List.find ?P rels = Some x" by auto
    from find_SomeD [OF x] have "x = r" using unique [of x r] assms(5,6) by simp
    with x show ?thesis by simp
  qed
  ultimately have "get_relation_id_and_scope e z (sr_name r @ '':'' @ show_nat n) c = (c, Inr (sr_relation r, sr_scope r))"
    using assms(4,6) by (simp add: get_relation_id_and_scope_def Let_def ebind_ran eret_def)
  then show ?thesis using ident_of_number [of "sr_name r" n] assms(6) by (simp add: relation_ident_def)
qed

text \<open>The first unit of a service related twice: the external ids of both relations.\<close>

definition db_topology :: topology where
  "db_topology = run_cmds new_topology
     [AddService ''s-0'' ''wordpress'', AddService ''s-1'' ''mysql'', AddUnit ''s-0'' ''u-0'' None,
      AddRelation ''relation-0000000042'' ''mysql'' ''global'',
      AssignRelation ''relation-0000000042'' ''s-0'' ''db'' ''client'',
      AssignRelation ''relation-0000000042'' ''s-1'' ''server'' ''server'']"

definition db_context :: hook_context where
  "db_context = (new_hook_context ''wordpress/0'' (Some db_topology))
     \<lparr>hc_service := Some \<lparr>ss_id = ''s-0'', ss_name = ''wordpress''\<rparr>\<rparr>"

definition db_relation :: service_relation where
  "db_relation = \<lparr>sr_service = ''s-0'', sr_relation = ''relation-0000000042'', sr_scope = ''global'',
     sr_role = ''client'', sr_name = ''db''\<rparr>"

lemma db_reachable: "topo_reachable db_topology"
  unfolding db_topology_def by (rule reachable_run_from [OF topo_reachable.initial])

lemma db_relations:
  "get_relations_for_service db_topology ''s-0'' = Inr
     [\<lparr>ri_relation_id = ''relation-0000000042'', ri_interface = ''mysql'', ri_scope = ''global'',
       ri_service = \<lparr>rs_role = ''client'', rs_name = ''db''\<rparr>\<rparr>]"
  by code_simp

lemma zfill_42: "''relation-'' @ zfill10 (show_nat 42) = ''relation-0000000042''"
  by code_simp

theorem relation_ident_roundtrip_witness:
  "relation_ident db_relation = Inr ''db:42''
    \<and> get_relation_id_and_scope dict_env [] ''db:42'' db_context = (db_context, Inr (''relation-0000000042'', ''global''))"
proof -
  have topo: "hc_topology db_context = Some db_topology" and
    svc: "hc_service db_context = Some \<lparr>ss_id = ''s-0'', ss_name = ''wordpress''\<rparr>"
    by (simp_all add: db_context_def new_hook_context_def)
  have rels: "context_relations dict_env [] db_context = (db_context, Inr [db_relation])"
    by (simp add: context_relations_def cached_topology_def get_local_service_def ebind_def eread_def topo svc
      db_relations to_service_relation_def db_relation_def)
  have "show_nat 42 = ''42''" by code_simp
  then show ?thesis
    using relation_ident_roundtrip [OF db_reachable topo svc rels, of db_relation 42] zfill_42
    by (simp add: db_relation_def)
qed

section \<open>Where the settings of a unit are\<close>

lemma rstrip_slash_id: "s \<noteq> [] \<Longrightarrow> last s \<noteq> CHR ''/'' \<Longrightarrow> rstrip_slash s = s"
  by (cases s rule: rev_cases) (simp_all add: rstrip_slash_def)

lemma rstrip_slash_snoc: "rstrip_slash (s @ ''/'') = rstrip_slash s"
  by (simp add: rstrip_slash_def)

lemma parent_path_append: "CHR ''/'' \<notin> set u \<Longrightarrow> parent_path (p @ CHR ''/'' # u) = p"
  using join_split [of "CHR ''/''" p] by (simp add: parent_path_def split_append py_split_no_sep)

definition path_name :: "string \<Rightarrow> bool" where
  "path_name s \<longleftrightarrow> s \<noteq> [] \<and> CHR ''/'' \<notin> set s"

lemma path_name_last: "path_name s \<Longrightarrow> last s \<noteq> CHR ''/''"
  by (cases s rule: rev_cases) (auto simp: path_name_def)

lemma scope_path_global:
  "path_name (sr_relation r) \<Longrightarrow> sr_scope r \<noteq> ''container'' \<Longrightarrow>
     get_scope_path r uid cid = ''/relations/'' @ sr_relation r"
  using rstrip_slash_snoc [of "''/relations/'' @ sr_relation r"] path_name_last [of "sr_relation r"]
  by (simp add: get_scope_path_def rstrip_slash_id path_name_def)

lemma scope_path_container:
  "path_name c \<Longrightarrow> c = (case cid of None \<Rightarrow> uid | Some c \<Rightarrow> c) \<Longrightarrow> sr_scope r = ''container'' \<Longrightarrow>
     get_scope_path r uid cid = ''/relations/'' @ sr_relation r @ ''/'' @ c"
  using path_name_last [of c] by (simp add: get_scope_path_def rstrip_slash_id path_name_def)

lemma join_parts_settings:
  "path_name R \<Longrightarrow> path_name U \<Longrightarrow>
     join_parts [Some ''/relations'', Some R, None, Some ''settings'', Some U] = ''/relations/'' @ R @ ''/settings/'' @ U"
  "path_name R \<Longrightarrow> path_name U \<Longrightarrow> path_name C \<Longrightarrow>
     join_parts [Some ''/relations'', Some R, Some C, Some ''settings'', Some U] =
       ''/relations/'' @ R @ ''/'' @ C @ ''/settings/'' @ U"
  by (cases R; cases U; simp add: join_parts_def path_name_def List.map_filter_simps)
    (cases R; cases U; cases C; simp add: join_parts_def path_name_def List.map_filter_simps)

definition container_of :: "(string \<times> string \<times> int \<times> string) option \<Rightarrow> string option" where
  "container_of info = map_option (\<lambda>(_, _, _, cid). cid) info"

lemma container_id_of:
  assumes "topo_of e z = Inr t" and "get_service_unit_container t (ur_unit ur) = Inr info"
  shows "get_container_id e ur z = Inr (case container_of info of
     None \<Rightarrow> if ur_scope ur = ''global'' then None else Some (ur_unit ur) | Some c \<Rightarrow> Some c)"
  using assms by (auto simp: get_container_id_def container_of_def split: option.split)

lemma departed_path_of:
  assumes "topo_of e z = Inr t" and "get_service_unit_container t U = Inr info"
    and "dget (hc_name_cache d) (hc_unit_name d) = Some (Some U)" and "dc_settings_path d = None"
  shows "snd (departed_settings_path e z d) = Inr (''/relations/'' @ dc_relation_id d @ ''/'' @
     (case container_of info of None \<Rightarrow> [] | Some c \<Rightarrow> c @ ''/'') @ ''settings/'' @ U)"
  using assms by (auto simp: departed_settings_path_def resolve_name_def ebind_def eread_def container_of_def Let_def
    split: option.split)

text \<open>
  C24: the four places that compute the node with a unit's own settings do not agree. A unit that joins a
  relation creates them at \<open>unit_settings_node\<close>. The context of a relation hook always finds them there. The
  unit relation state does, except for a subordinate unit in a relation of global scope, whose path gets the
  principal's id although global relations have no containers. The context of a relation-broken hook finds
  them exactly for principals in global and subordinates in container scope: a principal unit in a
  container-scoped relation, and a subordinate in a global one, read a node that was never written, and so
  no settings at all.
\<close>

theorem settings_paths:
  assumes "topo_of e z = Inr t" and "get_service_unit_container t (su_id u) = Inr info"
    and "path_name (sr_relation r)" and "path_name (su_id u)" and "\<forall>c. container_of info = Some c \<longrightarrow> path_name c"
    and "sr_scope r \<in> {''global'', ''container''}"
    and "rc_relation c = new_unit_relation r (su_id u)" and "rc_scope_path c = None"
    and "dget (hc_name_cache d) (hc_unit_name d) = Some (Some (su_id u))" and "dc_settings_path d = None"
    and "dc_relation_id d = sr_relation r"
  shows "snd (settings_path_of e z (su_id u) c) = Inr (unit_settings_node r (su_id u) (container_of info))
    \<and> (unit_settings_path e (new_unit_relation r (su_id u)) z = Inr (unit_settings_node r (su_id u) (container_of info))
        \<longleftrightarrow> \<not> (sr_scope r = ''global'' \<and> container_of info \<noteq> None))
    \<and> (snd (departed_settings_path e z d) = Inr (unit_settings_node r (su_id u) (container_of info))
        \<longleftrightarrow> (sr_scope r = ''container'' \<longleftrightarrow> container_of info \<noteq> None))"
proof -
  let ?R = "sr_relation r" and ?U = "su_id u" and ?ur = "new_unit_relation r (su_id u)"
  have ur: "ur_unit ?ur = ?U" "ur_scope ?ur = sr_scope r" "ur_relation ?ur = ?R" by (simp_all add: new_unit_relation_def)
  have cid: "get_container_id e ?ur z = Inr (case container_of info of
      None \<Rightarrow> if sr_scope r = ''global'' then None else Some ?U | Some c \<Rightarrow> Some c)"
    using container_id_of [OF assms(1), of ?ur info] assms(2) by (cases "container_of info") (simp_all add: ur)
  note dep = departed_path_of [OF assms(1,2,9,10), unfolded assms(11)]
  have nU: "CHR ''/'' \<notin> set ?U" and U: "?U \<noteq> []" using assms(4) by (simp_all add: path_name_def)
  consider (g) "sr_scope r = ''global''" | (c) "sr_scope r = ''container''" using assms(6) by blast
  then show ?thesis
  proof cases
    case g
    have node: "unit_settings_node r ?U cid = ''/relations/'' @ ?R @ ''/settings/'' @ ?U" for cid
      using scope_path_global [OF assms(3), of ?U cid] g by (simp add: unit_settings_node_def)
    have ctx: "snd (settings_path_of e z ?U c) = Inr (''/relations/'' @ ?R @ ''/settings/'' @ ?U)"
      using g by (simp add: settings_path_of_def assms(7) ur)
    show ?thesis
    proof (cases "container_of info")
      case None
      then show ?thesis
        using cid g ctx dep join_parts_settings(1) [OF assms(3,4)] by (simp add: node unit_settings_path_def ur)
    next
      case (Some k)
      then have k: "path_name k" "k \<noteq> []" using assms(5) by (auto simp: path_name_def)
      have "length (''/relations/'' @ ?R @ ''/'' @ k @ ''/settings/'' @ ?U) \<noteq> length (''/relations/'' @ ?R @ ''/settings/'' @ ?U)"
        by simp
      then have "''/relations/'' @ ?R @ ''/'' @ k @ ''/settings/'' @ ?U \<noteq> ''/relations/'' @ ?R @ ''/settings/'' @ ?U"
        by metis
      then show ?thesis
        using cid g Some ctx dep join_parts_settings(2) [OF assms(3,4) k(1)] by (simp add: node unit_settings_path_def ur)
    qed
  next
    case c
    define k where "k = (case container_of info of None \<Rightarrow> ?U | Some c \<Rightarrow> c)"
    have k: "path_name k" "k \<noteq> []" using assms(4,5) by (auto simp: k_def path_name_def split: option.split)
    have node: "unit_settings_node r ?U (container_of info) = ''/relations/'' @ ?R @ ''/'' @ k @ ''/settings/'' @ ?U"
      using scope_path_container [OF k(1) k_def c] by (simp add: unit_settings_node_def)
    have path: "unit_settings_path e ?ur z = Inr (''/relations/'' @ ?R @ ''/'' @ k @ ''/settings/'' @ ?U)"
      using cid c join_parts_settings(2) [OF assms(3,4) k(1)]
      by (cases "container_of info") (simp_all add: unit_settings_path_def ur k_def)
    have "parent_path (''/relations/'' @ ?R @ ''/'' @ k @ ''/settings/'' @ ?U) = ''/relations/'' @ ?R @ ''/'' @ k @ ''/settings''"
      using parent_path_append [OF nU, of "''/relations/'' @ ?R @ ''/'' @ k @ ''/settings''"] by simp
    then have ctx: "snd (settings_path_of e z ?U c) = Inr (''/relations/'' @ ?R @ ''/'' @ k @ ''/settings/'' @ ?U)"
      using c path by (simp add: settings_path_of_def assms(7,8) ur)
    have "length (''/relations/'' @ ?R @ ''/'' @ k @ ''/settings/'' @ ?U) \<noteq> length (''/relations/'' @ ?R @ ''/settings/'' @ ?U)"
      by simp
    then have "''/relations/'' @ ?R @ ''/settings/'' @ ?U \<noteq> ''/relations/'' @ ?R @ ''/'' @ k @ ''/settings/'' @ ?U"
      by metis
    then show ?thesis
      unfolding node using c path ctx dep by (cases "container_of info") (simp_all add: k_def)
  qed
qed

definition db_store :: "(string, content) dict" where
  "db_store = [(''/topology'', Topo db_topology)]"

definition db_unit :: service_unit where
  "db_unit = \<lparr>su_service = ''s-0'', su_service_name = ''wordpress'', su_sequence = 0, su_id = ''u-0''\<rparr>"

definition db_departed :: departed_context where
  "db_departed = (new_departed_context ''wordpress/0'' ''db'' ''relation-0000000042'')
     \<lparr>hc_name_cache := [(''wordpress/0'', Some ''u-0'')]\<rparr>"

lemma db_topo_of: "topo_of dict_env db_store = Inr db_topology"
proof -
  have "get_version db_topology = VERSION" by code_simp
  then show ?thesis by (simp add: read_topology_def db_store_def dict_env_def parse_def)
qed

theorem settings_paths_witness:
  "unit_settings_path dict_env (new_unit_relation (db_relation\<lparr>sr_scope := ''container''\<rparr>) ''u-0'') db_store =
       Inr (unit_settings_node (db_relation\<lparr>sr_scope := ''container''\<rparr>) ''u-0'' None)
   \<and> snd (departed_settings_path dict_env db_store db_departed) \<noteq>
       Inr (unit_settings_node (db_relation\<lparr>sr_scope := ''container''\<rparr>) ''u-0'' None)"
proof -
  let ?r = "db_relation\<lparr>sr_scope := ''container''\<rparr>"
  have info: "get_service_unit_container db_topology (su_id db_unit) = Inr None" by code_simp
  show ?thesis
    using settings_paths [OF db_topo_of info, of ?r
        "new_relation_context (new_unit_relation ?r ''u-0'') ''db:42'' None ''wordpress/0'' None" db_departed]
    by (simp add: db_relation_def db_unit_def db_departed_def path_name_def container_of_def new_relation_context_def
      new_departed_context_def new_hook_context_def hook_context.defs)
qed

section \<open>What a hook sees\<close>

text \<open>What a hook does through its relation context.\<close>

datatype hook_op =
    GetValue "string option" string
  | SetValue string yvalue
  | SetAll "(string, yvalue) dict"
  | DeleteValue string
  | ListMembers

fun hook_step :: "('z, 'c) state_env \<Rightarrow> 'z \<times> hook_op \<Rightarrow> relation_context \<Rightarrow> relation_context" where
  "hook_step e (z, GetValue uname key) c = fst (relation_get_value e z uname key c)"
| "hook_step e (z, SetValue key v) c = fst (relation_set_value e z key v c)"
| "hook_step e (z, SetAll data) c = fst (relation_set e z data c)"
| "hook_step e (z, DeleteValue key) c = fst (relation_delete_value e z key c)"
| "hook_step e (z, ListMembers) c = fst (get_members e z c)"

text \<open>What the hook's own writes make of a dict of settings.\<close>

fun own_writes :: "hook_op \<Rightarrow> (string, yvalue) dict \<Rightarrow> (string, yvalue) dict" where
  "own_writes (SetValue key v) d = dset key v d"
| "own_writes (SetAll data) d = dupdate d data"
| "own_writes (DeleteValue key) d = (if dhas d key then ddel key d else d)"
| "own_writes op d = d"

fun writes :: "hook_op \<Rightarrow> bool" where
  "writes (SetValue _ _) \<longleftrightarrow> True"
| "writes (SetAll _) \<longleftrightarrow> True"
| "writes (DeleteValue _) \<longleftrightarrow> True"
| "writes op \<longleftrightarrow> False"

text \<open>A context only learns: what is in its caches stays. Most operations leave the cache of settings alone.\<close>

definition learns :: "relation_context \<Rightarrow> relation_context \<Rightarrow> bool" where
  "learns c c' \<longleftrightarrow>
     (\<forall>u x. dget (hc_node_cache c) u = Some x \<longrightarrow> dget (hc_node_cache c') u = Some x) \<and>
     (\<forall>t. hc_topology c = Some t \<longrightarrow> hc_topology c' = Some t) \<and>
     ur_unit (rc_relation c') = ur_unit (rc_relation c) \<and> rc_needs_flushing c' = rc_needs_flushing c"

definition looks_up :: "relation_context \<Rightarrow> relation_context \<Rightarrow> bool" where
  "looks_up c c' \<longleftrightarrow> learns c c' \<and> hc_node_cache c' = hc_node_cache c"

interpretation look: eff_relation looks_up
  by unfold_locales (auto simp: looks_up_def learns_def)

lemmas looks_up_defs = looks_up_def learns_def look.keeps_def

lemma looks_cached_topology: "look.keeps (cached_topology e z)"
  by (auto simp: looks_up_defs cached_topology_def split: option.split sum.split)

lemma looks_resolve_id: "look.keeps (resolve_id e z uid)"
  unfolding resolve_id_def by (intro look.keeps_bind looks_cached_topology look.keeps_pure)

lemma looks_resolve_name: "look.keeps (resolve_name e z uname)"
proof -
  have "look.keeps (\<lambda>c. (c\<lparr>hc_name_cache := f c\<rparr>, r))" for f r by (simp add: looks_up_defs)
  then have "look.keeps (ebind (cached_topology e z) (\<lambda>t.
      ebind (eread (\<lambda>_. raise_as InTopology (get_service_unit_id_from_name t uname))) (\<lambda>unit_id c.
      (c\<lparr>hc_name_cache := dset uname unit_id (hc_name_cache c)\<rparr>, Inr unit_id))))"
    by (intro look.keeps_bind looks_cached_topology look.keeps_pure)
  from look.keepsD [OF this] show ?thesis
    by (auto simp: look.keeps_def resolve_name_def look.R_refl split: option.split)
qed

lemma looks_settings_path: "look.keeps (settings_path_of e z uid)"
  by (auto simp: looks_up_defs settings_path_of_def split: option.split sum.split)

lemma related_container_unit: "ur_unit (fst (get_related_unit_container e z ur)) = ur_unit ur"
proof -
  have role: "ur_unit (fst (get_relation_role e z ur)) = ur_unit ur"
    by (auto simp: get_relation_role_def split: option.split sum.split)
  show ?thesis
    using role by (cases "get_relation_role e z ur")
      (auto simp: get_related_unit_container_def ebind_def eread_def Let_def split: sum.split)
qed

lemma looks_members: "look.keeps (get_members e z)"
proof -
  have container: "looks_up c (fst (related_container e z c))" for c
    using related_container_unit [of e z "rc_relation c"]
    by (auto simp: related_container_def looks_up_def learns_def split: prod.split)
  have "look.keeps (\<lambda>c. (c\<lparr>rc_members := m\<rparr>, r))" for m r by (simp add: looks_up_defs)
  then have names: "look.keeps (ebind (emap ids (resolve_id e z)) (\<lambda>members c. (c\<lparr>rc_members := Some members\<rparr>, Inr members)))"
    for ids
    by (intro look.keeps_bind look.keeps_map looks_resolve_id)
  show ?thesis
    unfolding look.keeps_def
  proof
    fix c
    obtain c1 r where rc: "related_container e z c = (c1, r)" by (cases "related_container e z c")
    then have "looks_up c c1" using container [of c] by simp
    then show "looks_up c (fst (get_members e z c))"
      using look.R_trans [OF _ look.keepsD [OF names]]
      by (auto simp: get_members_def rc look.R_refl split: option.split sum.split)
  qed
qed

text \<open>Setting up a unit's settings adds at most one entry, and the unit asked for is in the cache then.\<close>

lemma setup_learns:
  assumes "setup_relation_state e z uname_opt c = (c', r)"
  shows "learns c c' \<and> (\<forall>n. r = Inr n \<longrightarrow> dhas (hc_node_cache c') n \<and> (\<forall>u. uname_opt = Some u \<longrightarrow> n = u))"
proof -
  define first :: "(relation_context, state_error, string) eff"
    where "first = (case uname_opt of Some uname \<Rightarrow> eret uname | None \<Rightarrow> resolve_id e z (ur_unit (rc_relation c)))"
  obtain c1 r1 where 1: "first c = (c1, r1)" by (cases "first c")
  have l1: "looks_up c c1"
    using look.keepsD [OF looks_resolve_id, of c e z "ur_unit (rc_relation c)"] 1
    by (auto simp: first_def eret_def look.R_refl split: option.splits)
  show ?thesis
  proof (cases r1)
    case (Inl err)
    then have "c' = c1" "r = Inl err"
      using assms 1 unfolding setup_relation_state_def first_def [symmetric] by (auto simp: ebind_def)
    with l1 show ?thesis by (simp add: looks_up_def)
  next
    case (Inr n)
    have named: "\<forall>u. uname_opt = Some u \<longrightarrow> n = u" using 1 Inr by (auto simp: first_def eret_def)
    show ?thesis
    proof (cases "dhas (hc_node_cache c1) n")
      case True
      then have "c' = c1" "r = Inr n"
        using assms 1 Inr unfolding setup_relation_state_def first_def [symmetric] by (auto simp: ebind_def)
      with l1 named True show ?thesis by (simp add: looks_up_def)
    next
      case False
      obtain c2 r2 where 2: "resolve_name e z n c1 = (c2, r2)" by (cases "resolve_name e z n c1")
      have l2: "looks_up c c2" using look.R_trans [OF l1 look.keepsD [OF looks_resolve_name, of c1 e z n]] 2 by simp
      show ?thesis
      proof (cases r2)
        case (Inl err)
        then have "c' = c2" "r = Inl err"
          using assms 1 2 \<open>r1 = Inr n\<close> False unfolding setup_relation_state_def first_def [symmetric]
          by (auto simp: ebind_def)
        with l2 show ?thesis by (simp add: looks_up_def)
      next
        case (Inr uid)
        let ?uid = "case uid of None \<Rightarrow> ''None'' | Some i \<Rightarrow> i"
        obtain c3 r3 where 3: "settings_path_of e z ?uid c2 = (c3, r3)" by (cases "settings_path_of e z ?uid c2")
        have l3: "looks_up c c3" using look.R_trans [OF l2 look.keepsD [OF looks_settings_path, of c2 e z ?uid]] 3 by simp
        have run: "setup_relation_state e z uname_opt c = ebind (settings_path_of e z ?uid) (\<lambda>path c.
            case read (node_at e path) z True of
              (Some _, _) \<Rightarrow> (c, Inl (UnitRelationStateNotFound (ur_relation (rc_relation c)) (ident_name (rc_ident c)) n))
            | (None, y) \<Rightarrow> (c\<lparr>hc_node_cache := dset n (path, y) (hc_node_cache c)\<rparr>, Inr n)) c2"
          using 1 2 \<open>r1 = Inr n\<close> \<open>r2 = Inr uid\<close> False unfolding setup_relation_state_def first_def [symmetric]
          by (simp add: ebind_ran)
        have "dget (hc_node_cache c) n = None"
          using False l1 by (cases "dget (hc_node_cache c) n") (auto simp: looks_up_def dhas_iff)
        with run assms l3 named 3 show ?thesis
          by (cases r3) (auto simp: ebind_def looks_up_def learns_def dget_dset split: prod.splits option.splits)
      qed
    qed
  qed
qed

text \<open>The context knows the name of its own unit.\<close>

definition settled_ctx :: "relation_context \<Rightarrow> topology \<Rightarrow> string \<Rightarrow> bool" where
  "settled_ctx c t own \<longleftrightarrow>
     hc_topology c = Some t \<and> get_service_unit_name_from_id t (ur_unit (rc_relation c)) = Inr own"

lemma settled_learns: "settled_ctx c t own \<Longrightarrow> learns c c' \<Longrightarrow> settled_ctx c' t own"
  by (simp add: settled_ctx_def learns_def)

lemma settled_resolves:
  "settled_ctx c t own \<Longrightarrow> resolve_id e z (ur_unit (rc_relation c)) c = (c, Inr own)"
  by (simp add: settled_ctx_def resolve_id_def cached_topology_def ebind_def eread_def)

lemma setup_own_cached:
  "settled_ctx c t own \<Longrightarrow> dhas (hc_node_cache c) own \<Longrightarrow> setup_relation_state e z None c = (c, Inr own)"
  using settled_resolves [of c t own e z] by (simp add: setup_relation_state_def ebind_ran)

lemma setup_own_name:
  assumes "settled_ctx c t own" and "setup_relation_state e z None c = (c', Inr n)"
  shows "n = own"
proof -
  have "setup_relation_state e z None c = setup_relation_state e z (Some own) c"
    using settled_resolves [OF assms(1), of e z] by (simp add: setup_relation_state_def ebind_ran eret_def)
  with setup_learns [of e z "Some own" c c' "Inr n"] assms(2) show ?thesis by simp
qed

text \<open>Operations that change the settings of one unit in the cache and nothing else.\<close>

definition edits :: "string \<Rightarrow> ((string, yvalue) dict \<Rightarrow> (string, yvalue) dict) \<Rightarrow> (relation_context, state_error, 'a) eff \<Rightarrow> bool" where
  "edits own g m \<longleftrightarrow> (\<forall>c p y. dget (hc_node_cache c) own = Some (p, y) \<longrightarrow>
     hc_topology (fst (m c)) = hc_topology c \<and> ur_unit (rc_relation (fst (m c))) = ur_unit (rc_relation c) \<and>
     rc_needs_flushing (fst (m c)) = rc_needs_flushing c \<and>
     (\<forall>u. u \<noteq> own \<longrightarrow> dget (hc_node_cache (fst (m c))) u = dget (hc_node_cache c) u) \<and>
     (ys_pristine y \<noteq> None \<longrightarrow>
        dget (hc_node_cache (fst (m c))) own = Some (p, y\<lparr>ys_cache := g (ys_cache y)\<rparr>)))"

lemma edits_set: "edits own (dset key v) (update_cached own (\<lambda>y. setitem y key v))"
  by (auto simp: edits_def update_cached_def setitem_def check_def guard_or_def dget_dset)

lemma edits_delete:
  "edits own (\<lambda>d. if dhas d key then ddel key d else d)
     (ecatch (update_cached own (\<lambda>y. delitem y key)) (\<lambda>err. if err = InNode (NoSuchKey key) then Some (eret ()) else None))"
  by (auto simp: edits_def ecatch_def eret_def Let_def update_cached_def delitem_def check_def guard_or_def dget_dset)

lemma edits_all: "edits own (\<lambda>d. dupdate d data) (efor data (\<lambda>(key, v). update_cached own (\<lambda>y. setitem y key v)))"
proof (induction data)
  case Nil
  then show ?case by (simp add: edits_def)
next
  case (Cons kv data)
  obtain key v where kv: "kv = (key, v)" by (cases kv)
  show ?case
    unfolding edits_def
  proof (intro allI impI)
    fix c :: relation_context and p y assume c: "dget (hc_node_cache c) own = Some (p, y)"
    obtain c1 r1 where 1: "update_cached own (\<lambda>y. setitem y key v) c = (c1, r1)"
      by (cases "update_cached own (\<lambda>y. setitem y key v) c")
    note s1 = edits_set [of own key v, unfolded edits_def, rule_format, OF c, unfolded 1 fst_conv]
    have r1: "ys_pristine y \<noteq> None \<Longrightarrow> r1 = Inr ()"
      using 1 c by (auto simp: update_cached_def setitem_def check_def guard_or_def)
    show "hc_topology (fst (efor (kv # data) (\<lambda>(key, v). update_cached own (\<lambda>y. setitem y key v)) c)) = hc_topology c \<and>
      ur_unit (rc_relation (fst (efor (kv # data) (\<lambda>(key, v). update_cached own (\<lambda>y. setitem y key v)) c))) = ur_unit (rc_relation c) \<and>
      rc_needs_flushing (fst (efor (kv # data) (\<lambda>(key, v). update_cached own (\<lambda>y. setitem y key v)) c)) = rc_needs_flushing c \<and>
      (\<forall>u. u \<noteq> own \<longrightarrow> dget (hc_node_cache (fst (efor (kv # data) (\<lambda>(key, v). update_cached own (\<lambda>y. setitem y key v)) c))) u =
         dget (hc_node_cache c) u) \<and>
      (ys_pristine y \<noteq> None \<longrightarrow>
        dget (hc_node_cache (fst (efor (kv # data) (\<lambda>(key, v). update_cached own (\<lambda>y. setitem y key v)) c))) own =
          Some (p, y\<lparr>ys_cache := dupdate (ys_cache y) (kv # data)\<rparr>))"
    proof (cases "ys_pristine y = None")
      case True
      then have "r1 = Inl (InNode NotRead)" using 1 c by (auto simp: update_cached_def setitem_def check_def)
      with True s1 1 show ?thesis by (simp add: kv ebind_def)
    next
      case False
      with s1 have c1: "dget (hc_node_cache c1) own = Some (p, y\<lparr>ys_cache := dset key v (ys_cache y)\<rparr>)" by blast
      from Cons.IH [unfolded edits_def, rule_format, OF c1] s1 False r1 1 show ?thesis
        by (simp add: kv ebind_def dupdate_Cons)
    qed
  qed
qed

lemma write_op:
  assumes ctx: "settled_ctx c t own" and u: "dget (hc_node_cache c) u = Some (p, y)" and y: "ys_pristine y \<noteq> None"
    and body: "edits own g (body own)"
    and c': "c' = fst (ebind mark_flush (\<lambda>_. ebind (setup_relation_state e z None) body) c)"
  shows "settled_ctx c' t own \<and> rc_needs_flushing c' \<and>
    dget (hc_node_cache c') u = Some (p, if u = own then y\<lparr>ys_cache := g (ys_cache y)\<rparr> else y)"
proof -
  define c0 where "c0 = c\<lparr>rc_needs_flushing := True\<rparr>"
  have s0: "settled_ctx c0 t own" and u0: "dget (hc_node_cache c0) u = Some (p, y)" and f0: "rc_needs_flushing c0"
    using ctx u by (simp_all add: c0_def settled_ctx_def)
  have run: "c' = fst (ebind (setup_relation_state e z None) body c0)" by (simp add: c' mark_flush_def ebind_def c0_def)
  obtain c1 r1 where 1: "setup_relation_state e z None c0 = (c1, r1)" by (cases "setup_relation_state e z None c0")
  note l1 = setup_learns [OF 1]
  have s1: "settled_ctx c1 t own" "rc_needs_flushing c1" "dget (hc_node_cache c1) u = Some (p, y)"
    using l1 settled_learns [OF s0] u0 f0 by (auto simp: learns_def)
  show ?thesis
  proof (cases r1)
    case (Inl err)
    have "u \<noteq> own"
    proof
      assume "u = own"
      then have "dhas (hc_node_cache c0) own" using u0 by (auto simp: dhas_iff)
      from setup_own_cached [OF s0 this, of e z] 1 Inl show False by simp
    qed
    moreover have "c' = c1" using run 1 Inl by (simp add: ebind_def)
    ultimately show ?thesis using s1 by simp
  next
    case (Inr n)
    have n: "n = own" using setup_own_name [OF s0] 1 Inr by simp
    have c1': "c' = fst (body own c1)" using run 1 Inr n by (simp add: ebind_def)
    obtain p1 y1 where own: "dget (hc_node_cache c1) own = Some (p1, y1)" using l1 Inr n by (auto simp: dhas_iff)
    note edit = body [unfolded edits_def, rule_format, OF own, folded c1']
    show ?thesis using edit s1 own y by (cases "u = own") (auto simp: settled_ctx_def)
  qed
qed

lemma hook_step_kept:
  assumes ctx: "settled_ctx c t own" and u: "dget (hc_node_cache c) u = Some (p, y)" and y: "ys_pristine y \<noteq> None"
  shows "settled_ctx (hook_step e (z, op) c) t own \<and>
    rc_needs_flushing (hook_step e (z, op) c) = (rc_needs_flushing c \<or> writes op) \<and>
    dget (hc_node_cache (hook_step e (z, op) c)) u =
      Some (p, if u = own then y\<lparr>ys_cache := own_writes op (ys_cache y)\<rparr> else y)"
proof (cases op)
  case (GetValue uname key)
  obtain c1 r1 where 1: "setup_relation_state e z uname c = (c1, r1)" by (cases "setup_relation_state e z uname c")
  have "fst (relation_get_value e z uname key c) = c1"
    using 1 by (cases r1) (auto simp: relation_get_value_def relation_get_def ebind_def eread_def eret_def)
  with setup_learns [OF 1] settled_learns [OF ctx] u show ?thesis by (auto simp: GetValue learns_def)
next
  case (SetValue key v)
  from write_op [where body = "\<lambda>own. update_cached own (\<lambda>y. setitem y key v)", OF ctx u y edits_set refl, of e z]
  show ?thesis by (simp add: SetValue relation_set_value_def)
next
  case (SetAll data)
  from write_op [where body = "\<lambda>own. efor data (\<lambda>(key, v). update_cached own (\<lambda>y. setitem y key v))",
      OF ctx u y edits_all refl, of e z]
  show ?thesis by (simp add: SetAll relation_set_def)
next
  case (DeleteValue key)
  from write_op [where body = "\<lambda>own. ecatch (update_cached own (\<lambda>y. delitem y key))
        (\<lambda>err. if err = InNode (NoSuchKey key) then Some (eret ()) else None)", OF ctx u y edits_delete refl, of e z]
  show ?thesis by (simp add: DeleteValue relation_delete_value_def)
next
  case ListMembers
  have "looks_up c (fst (get_members e z c))" by (rule look.keepsD [OF looks_members])
  with settled_learns [OF ctx] u show ?thesis by (auto simp: ListMembers looks_up_def learns_def)
qed

lemma hook_run_kept:
  assumes "settled_ctx c t own" and "dget (hc_node_cache c) u = Some (p, y)" and "ys_pristine y \<noteq> None"
  shows "settled_ctx (fold (hook_step e) ops c) t own \<and>
    rc_needs_flushing (fold (hook_step e) ops c) = (rc_needs_flushing c \<or> list_ex (writes \<circ> snd) ops) \<and>
    dget (hc_node_cache (fold (hook_step e) ops c)) u =
      Some (p, if u = own then y\<lparr>ys_cache := fold (own_writes \<circ> snd) ops (ys_cache y)\<rparr> else y)"
  using assms
proof (induction ops arbitrary: c y)
  case (Cons zop ops)
  obtain z op where zop: "zop = (z, op)" by (cases zop)
  note step = hook_step_kept [OF Cons.prems, of e z op]
  define y1 where "y1 = (if u = own then y\<lparr>ys_cache := own_writes op (ys_cache y)\<rparr> else y)"
  have "ys_pristine y1 \<noteq> None" using Cons.prems(3) by (simp add: y1_def)
  from Cons.IH [OF conjunct1 [OF step] _ this] step show ?case
    by (auto simp: zop y1_def)
qed simp

text \<open>Writing a cached node through the client.\<close>

lemma node_at_retry:
  assumes "yaml_env_ok e"
  shows "\<forall>q. zc_get (se_client e) (yn_retry_change (node_at e p) f z) q =
    (if q = p then Some (f (zc_get (se_client e) z p)) else zc_get (se_client e) z q)"
proof -
  obtain z' where "zc_retry_change (se_client e) p (\<lambda>c. Inr (f c)) z = Inr z'"
    "\<forall>q. zc_get (se_client e) z' q = (if q = p then Some (f (zc_get (se_client e) z p)) else zc_get (se_client e) z q)"
    using retry_change_Inr [where f = "\<lambda>c. Inr (f c)", OF _ refl, of "se_client e" p z] assms
    by (auto simp: yaml_env_ok_def)
  then show ?thesis by (simp add: node_at_def)
qed

lemma node_at_ok: "yaml_env_ok e \<Longrightarrow> ynode_ok (node_at e p)"
  unfolding ynode_ok_def using node_at_retry [of e p]
  by (simp add: node_at_def yaml_env_ok_def as_dict_def)

text \<open>
  C4: a hook works on a snapshot and its own writes. Once the settings of a unit have been read, whatever
  the other units do to ZooKeeper between the calls of the hook, \<open>get_value\<close> answers from the settings as
  they were read, changed by exactly the hook's own \<open>set\<close>, \<open>set_value\<close> and \<open>delete_value\<close> if it is the
  hook's own unit and by nothing otherwise. If the hook wrote, \<open>flush\<close> stores a three-way merge: the keys the
  hook left changed get the hook's value, all others keep what the node has by then; no other node changes.
\<close>

theorem hook_isolation:
  assumes "settled_ctx c t own" and "dget (hc_node_cache c) u = Some (p, y)" and "ys_pristine y = Some pr"
    and "yaml_env_ok e"
    and final: "final = (if u = own then fold (own_writes \<circ> snd) ops (ys_cache y) else ys_cache y)"
  shows "snd (relation_get_value e z (Some u) key (fold (hook_step e) ops c)) =
      Inr (case dget final key of None \<Rightarrow> YText [] | Some v \<Rightarrow> v)
    \<and> (u = own \<and> list_ex (writes \<circ> snd) ops \<longrightarrow>
        (\<exists>c' z' changes. flush_settings e (fold (hook_step e) ops c, z) = ((c', z'), Inr changes)
          \<and> (\<forall>k. node_get (node_at e p) z' k =
              (if dget pr k \<noteq> dget final k then dget final k else node_get (node_at e p) z k))
          \<and> (\<forall>q. q \<noteq> p \<longrightarrow> zc_get (se_client e) z' q = zc_get (se_client e) z q)))"
proof -
  let ?c = "fold (hook_step e) ops c"
  have y: "ys_pristine y \<noteq> None" using assms(3) by simp
  note run = hook_run_kept [OF assms(1,2) y, of e ops]
  define y' where "y' = (if u = own then y\<lparr>ys_cache := fold (own_writes \<circ> snd) ops (ys_cache y)\<rparr> else y)"
  have cached: "dget (hc_node_cache ?c) u = Some (p, y')" and y': "ys_cache y' = final" "ys_pristine y' = Some pr"
    using run assms(3) by (simp_all add: y'_def final)
  have has: "dhas (hc_node_cache ?c) u" using cached by (simp add: dhas_iff)
  have setup_u: "setup_relation_state e z (Some u) ?c = (?c, Inr u)"
    using has by (simp add: setup_relation_state_def ebind_def eret_def)
  then have get: "snd (relation_get_value e z (Some u) key ?c) = Inr (case dget final key of None \<Rightarrow> YText [] | Some v \<Rightarrow> v)"
    by (simp add: relation_get_value_def relation_get_def ebind_def eread_def eret_def cached_settings_def cached y')
  have flush: "\<exists>c' z' changes. flush_settings e (?c, z) = ((c', z'), Inr changes)
      \<and> (\<forall>k. node_get (node_at e p) z' k =
          (if dget pr k \<noteq> dget final k then dget final k else node_get (node_at e p) z k))
      \<and> (\<forall>q. q \<noteq> p \<longrightarrow> zc_get (se_client e) z' q = zc_get (se_client e) z q)"
    if "u = own" "list_ex (writes \<circ> snd) ops"
  proof -
    have own_setup: "setup_relation_state e z None ?c = (?c, Inr own)"
      by (rule setup_own_cached [OF conjunct1 [OF run]]) (use has that(1) in simp)
    obtain y2 z' changes where w: "write_state (node_at e p) y' z = Inr (y2, z', changes)"
      by (simp add: write_state_def y')
    have "z' = yn_retry_change (node_at e p)
        (\<lambda>content. yn_dump (node_at e p) (fst (apply_changes pr final (node_dict (node_at e p) content)))) z"
      using w by (simp add: write_state_def y')
    then have others: "\<forall>q. q \<noteq> p \<longrightarrow> zc_get (se_client e) z' q = zc_get (se_client e) z q"
      using node_at_retry [OF assms(4)] by simp
    have merged: "\<forall>k. node_get (node_at e p) z' k =
        (if dget pr k \<noteq> dget final k then dget final k else node_get (node_at e p) z k)"
      using write_result [OF node_at_ok [OF assms(4)] w] by (simp add: y')
    have "rc_needs_flushing ?c" using run that(2) by simp
    then have "flush_settings e (?c, z) = ((?c\<lparr>hc_node_cache := dset own (p, y2) (hc_node_cache ?c)\<rparr>, z'), Inr changes)"
      using own_setup w cached that(1) by (simp add: flush_settings_def)
    with merged others show ?thesis by blast
  qed
  show ?thesis using get flush by blast
qed

definition hook_demo :: relation_context where
  "hook_demo = (new_relation_context (new_unit_relation db_relation ''u-0'') ''db:42'' None ''wordpress/0'' (Some db_topology))
     \<lparr>hc_node_cache := [(''wordpress/0'', (''/relations/relation-0000000042/settings/u-0'',
        \<lparr>ys_pristine = Some [(''host'', YText ''a'')], ys_cache = [(''host'', YText ''a'')]\<rparr>))]\<rparr>"

theorem hook_isolation_witness:
  "snd (relation_get_value dict_env [] (Some ''wordpress/0'') ''port''
     (fold (hook_step dict_env) [([], SetValue ''port'' (YInt 80)), ([], DeleteValue ''host'')] hook_demo)) = Inr (YInt 80)"
proof -
  have "get_service_unit_name_from_id db_topology ''u-0'' = Inr ''wordpress/0''" by code_simp
  then have ctx: "settled_ctx hook_demo db_topology ''wordpress/0''"
    by (simp add: settled_ctx_def hook_demo_def new_relation_context_def new_hook_context_def hook_context.defs
      new_unit_relation_def)
  have cached: "dget (hc_node_cache hook_demo) ''wordpress/0'' = Some (''/relations/relation-0000000042/settings/u-0'',
        \<lparr>ys_pristine = Some [(''host'', YText ''a'')], ys_cache = [(''host'', YText ''a'')]\<rparr>)"
    by (simp add: hook_demo_def)
  have "(case dget (fold (own_writes \<circ> snd) [([], SetValue ''port'' (YInt 80)), ([], DeleteValue ''host'')]
      [(''host'', YText ''a'')]) ''port'' of None \<Rightarrow> YText [] | Some v \<Rightarrow> v) = YInt 80"
    by simp
  then show ?thesis
    using conjunct1 [OF hook_isolation [OF ctx cached _ dict_env_ok refl, of _ "[]" "''port''"
      "[([], SetValue ''port'' (YInt 80)), ([], DeleteValue ''host'')]"]]
    by simp
qed

end
