(* ===== verification/Executor.thy ===== *)
theory Executor
  imports PyStrings "HOL-Library.Multiset"
begin

text \<open>
  \<open>juju/hooks/executor.py\<close>: \<open>HookExecutor\<close>, which runs the hooks of a unit one at a time.

  Every call of \<open>start\<close>, \<open>stop\<close> and \<open>run_priority_hook\<close> is a task that stands at one of the points where the
  source waits: for an entry of the queue, for the run lock, for a hook to end. What it does from there to
  its next wait is one event. Twisted serves those waiting for the queue or the lock in their order; here any
  of them may go first, so what is proved holds for every order.
\<close>

section \<open>Matching hook names\<close>

text \<open>
  \<open>fnmatch.fnmatch\<close>: \<open>*\<close>, \<open>?\<close> and classes in brackets, negated by \<open>!\<close>; a bracket that is not closed is a
  character. A closing bracket directly behind the opening one or its negation belongs to the class.
\<close>

fun in_class :: "char \<Rightarrow> string \<Rightarrow> bool" where
  "in_class c [] \<longleftrightarrow> False"
| "in_class c [a] \<longleftrightarrow> c = a"
| "in_class c [a, b] \<longleftrightarrow> c = a \<or> c = b"
| "in_class c (a # b # d # r) \<longleftrightarrow>
     (if b = CHR ''-'' then (of_char a :: nat) \<le> of_char c \<and> (of_char c :: nat) \<le> of_char d \<or> in_class c r
      else c = a \<or> in_class c (b # d # r))"

definition class_end :: "string \<Rightarrow> (string \<times> string) option" where
  "class_end s =
     (let k = (case s of
                 CHR ''!'' # CHR '']'' # _ \<Rightarrow> 2
               | CHR ''!'' # _ \<Rightarrow> 1
               | CHR '']'' # _ \<Rightarrow> 1
               | _ \<Rightarrow> 0)
      in map_option (\<lambda>(a, b). (take k s @ a, b)) (split_once CHR '']'' (drop k s)))"

definition class_member :: "char \<Rightarrow> string \<Rightarrow> bool" where
  "class_member c stuff = (case stuff of CHR ''!'' # r \<Rightarrow> \<not> in_class c r | _ \<Rightarrow> in_class c stuff)"

lemma split_once_length: "split_once c s = Some (a, b) \<Longrightarrow> length b < length s"
  by (drule split_once_SomeD) simp

lemma class_end_length: "class_end s = Some (a, b) \<Longrightarrow> length b < length s"
  unfolding class_end_def Let_def by (auto dest!: split_once_length)

function fnmatch :: "string \<Rightarrow> string \<Rightarrow> bool" where
  "fnmatch name [] \<longleftrightarrow> name = []"
| "fnmatch name (p # pat) \<longleftrightarrow>
     (if p = CHR ''*'' then fnmatch name pat \<or> (case name of [] \<Rightarrow> False | _ # r \<Rightarrow> fnmatch r (p # pat))
      else if p = CHR ''?'' then (case name of [] \<Rightarrow> False | _ # r \<Rightarrow> fnmatch r pat)
      else if p = CHR ''['' then
        (case class_end pat of
           Some (stuff, rest) \<Rightarrow> (case name of [] \<Rightarrow> False | c # r \<Rightarrow> class_member c stuff \<and> fnmatch r rest)
         | None \<Rightarrow> (case name of [] \<Rightarrow> False | c # r \<Rightarrow> c = p \<and> fnmatch r pat))
      else (case name of [] \<Rightarrow> False | c # r \<Rightarrow> c = p \<and> fnmatch r pat))"
  by pat_completeness auto
termination
  by (relation "measure (\<lambda>(name, pat). length name + length pat)") (auto dest: class_end_length)

section \<open>State\<close>

text \<open>A scheduled hook: who asked for it and the path asked for.\<close>

record hook_call =
  hk_id :: nat
  hk_path :: string

datatype hook_result = Skipped | Succeeded | Failed  \<comment> \<open>\<open>callback(False)\<close>, \<open>callback(True)\<close>, \<open>errback\<close>\<close>

datatype task =
    LoopTop  \<comment> \<open>before the test of \<open>while\<close>\<close>
  | LoopGet  \<comment> \<open>waits for the queue\<close>
  | LoopAcquire hook_call  \<comment> \<open>waits for the lock\<close>
  | LoopRunning hook_call  \<comment> \<open>waits for its hook\<close>
  | StopAcquire
  | PriorityAcquire hook_call
  | PriorityRunning hook_call
  | Finished

record executor =
  ex_running :: bool
  ex_queue :: "hook_call option list"  \<comment> \<open>\<open>None\<close> is \<open>STOP\<close>\<close>
  ex_lock :: bool
  ex_tasks :: "task list"
  ex_invoker :: "hook_call option"  \<comment> \<open>also whose context \<open>_hook_context\<close> is\<close>
  ex_results :: "(hook_call \<times> hook_result) list"
  ex_observed :: "string list"  \<comment> \<open>calls of the observer\<close>
  ex_debug_names :: "string list option"
  ex_debug_file :: "string option"
  ex_signals :: "hook_call list"  \<comment> \<open>invokers that were sent \<open>HUP\<close>\<close>

definition new_executor :: executor where
  "new_executor = \<lparr>ex_running = False, ex_queue = [], ex_lock = False, ex_tasks = [], ex_invoker = None,
     ex_results = [], ex_observed = [], ex_debug_names = None, ex_debug_file = None, ex_signals = []\<rparr>"

text \<open>The file system: which paths exist and the path of a temporary file for a debug hook.\<close>

record file_system =
  fs_exists :: "string \<Rightarrow> bool"
  fs_debug_hook :: "string \<Rightarrow> string"

section \<open>Debugging\<close>

definition hook_basename :: "string \<Rightarrow> string" where
  "hook_basename path = last (py_split CHR ''/'' path)"

definition get_hook_path :: "file_system \<Rightarrow> string \<Rightarrow> executor \<Rightarrow> executor \<times> string" where
  "get_hook_path fs path s =
     (let hook_name = hook_basename path;
          s = s\<lparr>ex_debug_file := None\<rparr>
      in case ex_debug_names s of
        None \<Rightarrow> (s, path)
      | Some names \<Rightarrow>
          if \<not> list_ex (fnmatch hook_name) names then (s, path)
          else (s\<lparr>ex_debug_file := Some (fs_debug_hook fs hook_name)\<rparr>, fs_debug_hook fs hook_name))"

definition set_debug :: "string list option \<Rightarrow> executor \<Rightarrow> executor" where
  "set_debug hook_names s =
     (case (hook_names, ex_invoker s) of
        (None, Some h) \<Rightarrow> s\<lparr>ex_debug_names := hook_names, ex_signals := ex_signals s @ [h]\<rparr>
      | _ \<Rightarrow> s\<lparr>ex_debug_names := hook_names\<rparr>)"

section \<open>Running a hook\<close>

definition deliver_result :: "hook_call \<Rightarrow> hook_result \<Rightarrow> executor \<Rightarrow> executor" where
  "deliver_result h r s = s\<lparr>ex_results := ex_results s @ [(h, r)], ex_observed := ex_observed s @ [hk_path h]\<rparr>"

text \<open>\<open>_run_one\<close> up to the wait for the invoker; \<open>False\<close>: it is already over.\<close>

definition begin_hook :: "file_system \<Rightarrow> hook_call \<Rightarrow> executor \<Rightarrow> executor \<times> bool" where
  "begin_hook fs h s =
     (let (s, hook_path) = get_hook_path fs (hk_path h) s
      in if \<not> fs_exists fs hook_path then (deliver_result h Skipped s, False)
         else (s\<lparr>ex_invoker := Some h\<rparr>, True))"

definition end_hook :: "hook_call \<Rightarrow> bool \<Rightarrow> executor \<Rightarrow> executor" where
  "end_hook h ok s = deliver_result h (if ok then Succeeded else Failed) (s\<lparr>ex_invoker := None\<rparr>)"

section \<open>Events\<close>

datatype exec_event =
    Start
  | Call hook_call
  | Stop
  | Priority hook_call
  | SetDebug "string list option"
  | Continue nat  \<comment> \<open>a task that need not wait any more goes on\<close>
  | HookEnds nat bool  \<comment> \<open>the hook of a task ends, with success or an exception\<close>

definition set_task :: "nat \<Rightarrow> task \<Rightarrow> executor \<Rightarrow> executor" where
  "set_task i t s = s\<lparr>ex_tasks := (ex_tasks s)[i := t]\<rparr>"

text \<open>A task that has just got the lock.\<close>

definition locked_task :: "file_system \<Rightarrow> nat \<Rightarrow> task \<Rightarrow> executor \<Rightarrow> executor" where
  "locked_task fs i t s =
     (case t of
        LoopAcquire h \<Rightarrow>
          if \<not> ex_running s then set_task i LoopTop s
          else (case begin_hook fs h s of
             (s, True) \<Rightarrow> set_task i (LoopRunning h) (s\<lparr>ex_lock := True\<rparr>)
           | (s, False) \<Rightarrow> set_task i LoopTop s)
      | StopAcquire \<Rightarrow> set_task i Finished (s\<lparr>ex_running := False, ex_queue := ex_queue s @ [None]\<rparr>)
      | PriorityAcquire h \<Rightarrow>
          if ex_running s then set_task i Finished s  \<comment> \<open>\<open>AssertionError\<close>\<close>
          else (case begin_hook fs h s of
             (s, True) \<Rightarrow> set_task i (PriorityRunning h) (s\<lparr>ex_lock := True\<rparr>)
           | (s, False) \<Rightarrow> set_task i Finished s)
      | _ \<Rightarrow> s)"

text \<open>\<open>None\<close>: the event cannot happen, or a failed assertion that changes nothing.\<close>

definition continue_task :: "file_system \<Rightarrow> nat \<Rightarrow> executor \<Rightarrow> executor option" where
  "continue_task fs i s =
     (if length (ex_tasks s) \<le> i then None
      else case ex_tasks s ! i of
        LoopTop \<Rightarrow> Some (set_task i (if ex_running s then LoopGet else Finished) s)
      | LoopGet \<Rightarrow>
          (case ex_queue s of
             [] \<Rightarrow> None
           | None # q \<Rightarrow> Some (set_task i LoopTop (s\<lparr>ex_queue := q\<rparr>))
           | Some h # q \<Rightarrow> Some (set_task i (LoopAcquire h) (s\<lparr>ex_queue := q\<rparr>)))
      | LoopAcquire h \<Rightarrow> if ex_lock s then None else Some (locked_task fs i (LoopAcquire h) s)
      | StopAcquire \<Rightarrow> if ex_lock s then None else Some (locked_task fs i StopAcquire s)
      | PriorityAcquire h \<Rightarrow> if ex_lock s then None else Some (locked_task fs i (PriorityAcquire h) s)
      | _ \<Rightarrow> None)"

definition exec_step :: "file_system \<Rightarrow> exec_event \<Rightarrow> executor \<Rightarrow> executor option" where
  "exec_step fs ev s =
     (case ev of
        Start \<Rightarrow> if ex_running s then None
          else Some (s\<lparr>ex_running := True, ex_tasks := ex_tasks s @ [LoopTop]\<rparr>)
      | Call h \<Rightarrow> Some (s\<lparr>ex_queue := ex_queue s @ [Some h]\<rparr>)
      | Stop \<Rightarrow> if \<not> ex_running s then None else Some (s\<lparr>ex_tasks := ex_tasks s @ [StopAcquire]\<rparr>)
      | Priority h \<Rightarrow> Some (s\<lparr>ex_tasks := ex_tasks s @ [PriorityAcquire h]\<rparr>)
      | SetDebug names \<Rightarrow> Some (set_debug names s)
      | Continue i \<Rightarrow> continue_task fs i s
      | HookEnds i ok \<Rightarrow>
          if length (ex_tasks s) \<le> i then None
          else (case ex_tasks s ! i of
             LoopRunning h \<Rightarrow> Some (set_task i LoopTop ((end_hook h ok s)\<lparr>ex_lock := False\<rparr>))
           | PriorityRunning h \<Rightarrow> Some (set_task i Finished ((end_hook h ok s)\<lparr>ex_lock := False\<rparr>))
           | _ \<Rightarrow> None))"

fun exec_run :: "file_system \<Rightarrow> exec_event list \<Rightarrow> executor \<Rightarrow> executor option" where
  "exec_run fs [] s = Some s"
| "exec_run fs (ev # evs) s = (case exec_step fs ev s of None \<Rightarrow> None | Some s' \<Rightarrow> exec_run fs evs s')"

end
