(* ===== verification/ExecutorProps.thy ===== *)
theory ExecutorProps
  imports Executor Prelude
begin

text \<open>
  Properties of the hook executor: one hook at a time, no hook twice, and how a hook gets lost.
\<close>

section \<open>Hooks of tasks\<close>

fun opt_mset :: "'a option \<Rightarrow> 'a multiset" where
  "opt_mset None = {#}"
| "opt_mset (Some x) = {#x#}"

fun running_hook :: "task \<Rightarrow> hook_call option" where
  "running_hook (LoopRunning h) = Some h"
| "running_hook (PriorityRunning h) = Some h"
| "running_hook _ = None"

fun pending_hook :: "task \<Rightarrow> hook_call option" where
  "pending_hook (LoopAcquire h) = Some h"
| "pending_hook (LoopRunning h) = Some h"
| "pending_hook (PriorityAcquire h) = Some h"
| "pending_hook (PriorityRunning h) = Some h"
| "pending_hook _ = None"

definition gather :: "('a \<Rightarrow> 'b option) \<Rightarrow> 'a list \<Rightarrow> 'b multiset" where
  "gather f xs = mset (List.map_filter f xs)"

lemma gather_simps [simp]:
  "gather f [] = {#}"
  "gather f (x # xs) = opt_mset (f x) + gather f xs"
  "gather f (xs @ ys) = gather f xs + gather f ys"
proof -
  show "gather f [] = {#}" by (simp add: gather_def List.map_filter_simps)
  show cons: "gather f (x # xs) = opt_mset (f x) + gather f xs" for x xs
    by (cases "f x") (simp_all add: gather_def List.map_filter_simps)
  show "gather f (xs @ ys) = gather f xs + gather f ys"
    by (induction xs) (auto simp: gather_def List.map_filter_simps split: option.split)
qed

lemma gather_update:
  "i < length xs \<Longrightarrow> gather f (xs[i := t]) + opt_mset (f (xs ! i)) = gather f xs + opt_mset (f t)"
proof (induction xs arbitrary: i)
  case (Cons x xs)
  then show ?case by (cases i) (simp_all add: ac_simps)
qed simp

lemma gather_nth: "i < length xs \<Longrightarrow> f (xs ! i) = Some y \<Longrightarrow> y \<in># gather f xs"
proof (induction xs arbitrary: i)
  case (Cons x xs)
  then show ?case by (cases i) auto
qed simp

text \<open>The hooks the executor has been asked for and has neither run nor dropped.\<close>

definition pending :: "executor \<Rightarrow> hook_call multiset" where
  "pending s = gather (\<lambda>e. e) (ex_queue s) + gather pending_hook (ex_tasks s)"

definition executor_inv :: "executor \<Rightarrow> bool" where
  "executor_inv s \<longleftrightarrow>
     gather running_hook (ex_tasks s) = opt_mset (ex_invoker s) \<and>
     (ex_lock s \<longleftrightarrow> ex_invoker s \<noteq> None) \<and>
     (\<not> ex_running s \<longrightarrow> (\<forall>h. LoopRunning h \<notin> set (ex_tasks s))) \<and>
     ex_observed s = map (hk_path \<circ> fst) (ex_results s)"

text \<open>The hooks an event asks for.\<close>

fun asked :: "exec_event \<Rightarrow> hook_call multiset" where
  "asked (Call h) = {#h#}"
| "asked (Priority h) = {#h#}"
| "asked _ = {#}"

definition accounted :: "executor \<Rightarrow> hook_call multiset" where
  "accounted s = mset (map fst (ex_results s)) + pending s"

section \<open>Steps\<close>

lemma hook_path_keeps:
  assumes "get_hook_path fs path s = (s', p)"
  shows "\<exists>f. s' = s\<lparr>ex_debug_file := f\<rparr>"
  using assms by (auto simp: get_hook_path_def Let_def split: option.splits if_splits)

lemma begin_hook_cases:
  assumes "begin_hook fs h s = (s', b)"
  obtains f where "b" "s' = s\<lparr>ex_debug_file := f, ex_invoker := Some h\<rparr>"
    | f where "\<not> b" "s' = deliver_result h Skipped (s\<lparr>ex_debug_file := f\<rparr>)"
proof -
  obtain s1 p where g: "get_hook_path fs (hk_path h) s = (s1, p)" by (cases "get_hook_path fs (hk_path h) s")
  obtain f where "s1 = s\<lparr>ex_debug_file := f\<rparr>" using hook_path_keeps [OF g] by blast
  with assms g that show thesis by (auto simp: begin_hook_def split: if_splits)
qed

lemma in_set_update: "x \<in> set (xs[i := t]) \<Longrightarrow> x = t \<or> x \<in> set xs"
  using set_update_subset_insert by fastforce

text \<open>A task of no running hook is replaced by another one.\<close>

lemma inv_set_task:
  assumes "executor_inv s" and "i < length (ex_tasks s)" and "running_hook (ex_tasks s ! i) = None" and "running_hook t = None"
  shows "executor_inv (set_task i t s)"
  using assms gather_update [of i "ex_tasks s" running_hook t]
  by (auto simp: executor_inv_def set_task_def dest!: in_set_update)

lemma inv_begin:
  assumes "executor_inv s" and "i < length (ex_tasks s)" and "running_hook (ex_tasks s ! i) = None"
    and "\<not> ex_lock s" and "running_hook t = Some h" and "\<forall>h. t = LoopRunning h \<longrightarrow> ex_running s"
  shows "executor_inv (set_task i t (s\<lparr>ex_debug_file := f, ex_invoker := Some h, ex_lock := True\<rparr>))"
  using assms gather_update [of i "ex_tasks s" running_hook t]
  by (auto simp: executor_inv_def set_task_def dest!: in_set_update)

lemma inv_result:
  "executor_inv s \<Longrightarrow> executor_inv (deliver_result h r (s\<lparr>ex_debug_file := f\<rparr>))"
  by (simp add: executor_inv_def deliver_result_def)

lemma inv_end:
  assumes "executor_inv s" and "i < length (ex_tasks s)" and "running_hook (ex_tasks s ! i) = Some h"
    and "running_hook t = None"
  shows "executor_inv (set_task i t ((end_hook h ok s)\<lparr>ex_lock := False\<rparr>))"
proof -
  have inv: "gather running_hook (ex_tasks s) = opt_mset (ex_invoker s)" using assms(1) by (simp add: executor_inv_def)
  have "h \<in># opt_mset (ex_invoker s)" using gather_nth [of i "ex_tasks s" running_hook h] assms(2,3) inv by simp
  then have "ex_invoker s = Some h" by (cases "ex_invoker s") auto
  with inv gather_update [OF assms(2), of running_hook t] assms(3,4)
  have "gather running_hook ((ex_tasks s)[i := t]) = {#}" by simp
  with assms(1,4) show ?thesis
    by (auto simp: executor_inv_def set_task_def end_hook_def deliver_result_def dest!: in_set_update)
qed

text \<open>What a change of one task does to the account.\<close>

lemma accounted_set_task:
  assumes "i < length (ex_tasks s)" and "ex_tasks s' = ex_tasks s"
    and "mset (map fst (ex_results s')) + gather (\<lambda>e. e) (ex_queue s') + opt_mset (pending_hook t) =
      mset (map fst (ex_results s)) + gather (\<lambda>e. e) (ex_queue s) + opt_mset (pending_hook (ex_tasks s ! i))"
  shows "accounted (set_task i t s') = accounted s"
proof -
  let ?p = "gather pending_hook (ex_tasks s)" and ?q = "gather pending_hook ((ex_tasks s)[i := t])"
  let ?a = "mset (map fst (ex_results s)) + gather (\<lambda>e. e) (ex_queue s)"
  let ?b = "mset (map fst (ex_results s')) + gather (\<lambda>e. e) (ex_queue s')"
  have upd: "?q + opt_mset (pending_hook (ex_tasks s ! i)) = ?p + opt_mset (pending_hook t)"
    by (rule gather_update [OF assms(1)])
  have "(?b + ?q) + opt_mset (pending_hook (ex_tasks s ! i)) = ?b + (?p + opt_mset (pending_hook t))"
    by (simp add: upd add.assoc)
  also have "\<dots> = (?b + opt_mset (pending_hook t)) + ?p" by (simp add: ac_simps)
  also have "\<dots> = (?a + ?p) + opt_mset (pending_hook (ex_tasks s ! i))" using assms(3) by (simp add: ac_simps)
  finally have "?b + ?q = ?a + ?p" by simp
  then show ?thesis by (simp add: accounted_def pending_def set_task_def assms(2) ac_simps)
qed

lemma accounted_drop:
  assumes "i < length (ex_tasks s)" and "pending_hook t = None"
  shows "accounted (set_task i t s) \<subseteq># accounted s"
proof -
  have "gather pending_hook ((ex_tasks s)[i := t]) \<subseteq># gather pending_hook (ex_tasks s)"
    using gather_update [OF assms(1), of pending_hook t] assms(2) by (metis add.right_neutral mset_subset_eq_add_left opt_mset.simps(1))
  then show ?thesis by (simp add: accounted_def pending_def set_task_def)
qed

lemma locked_task_step:
  assumes inv: "executor_inv s" and i: "i < length (ex_tasks s)" and t: "ex_tasks s ! i = t" and lock: "\<not> ex_lock s"
  shows "executor_inv (locked_task fs i t s) \<and> accounted (locked_task fs i t s) \<subseteq># accounted s"
proof (cases t)
  case (LoopAcquire h)
  show ?thesis
  proof (cases "ex_running s")
    case False
    then show ?thesis
      using inv_set_task [OF inv i] accounted_drop [OF i] t LoopAcquire by (simp add: locked_task_def)
  next
    case True
    obtain s' b where b: "begin_hook fs h s = (s', b)" by (cases "begin_hook fs h s")
    then show ?thesis
    proof (cases rule: begin_hook_cases)
      case (1 f)
      have "accounted (set_task i (LoopRunning h) (s\<lparr>ex_debug_file := f, ex_invoker := Some h, ex_lock := True\<rparr>)) = accounted s"
        by (rule accounted_set_task [OF i]) (simp_all add: t LoopAcquire)
      moreover have "executor_inv (set_task i (LoopRunning h) (s\<lparr>ex_debug_file := f, ex_invoker := Some h, ex_lock := True\<rparr>))"
        by (rule inv_begin [OF inv i _ lock]) (simp_all add: t LoopAcquire True)
      ultimately show ?thesis using True b 1 by (simp add: locked_task_def LoopAcquire)
    next
      case (2 f)
      have "accounted (set_task i LoopTop (deliver_result h Skipped (s\<lparr>ex_debug_file := f\<rparr>))) = accounted s"
        by (rule accounted_set_task [OF i]) (simp_all add: t LoopAcquire deliver_result_def)
      moreover have "executor_inv (set_task i LoopTop (deliver_result h Skipped (s\<lparr>ex_debug_file := f\<rparr>)))"
        by (rule inv_set_task [OF inv_result [OF inv]]) (simp_all add: deliver_result_def i t LoopAcquire)
      ultimately show ?thesis using True b 2 by (simp add: locked_task_def LoopAcquire)
    qed
  qed
next
  case StopAcquire
  have stopped: "executor_inv (s\<lparr>ex_running := False, ex_queue := ex_queue s @ [None]\<rparr>)"
  proof -
    have none: "gather running_hook (ex_tasks s) = {#}" using inv lock by (simp add: executor_inv_def)
    have "LoopRunning h \<notin> set (ex_tasks s)" for h
    proof
      assume "LoopRunning h \<in> set (ex_tasks s)"
      then obtain j where "j < length (ex_tasks s)" "ex_tasks s ! j = LoopRunning h" by (auto simp: in_set_conv_nth)
      with gather_nth [of j "ex_tasks s" running_hook h] none show False by simp
    qed
    with inv show ?thesis by (simp add: executor_inv_def)
  qed
  have "accounted (set_task i Finished (s\<lparr>ex_running := False, ex_queue := ex_queue s @ [None]\<rparr>)) = accounted s"
    by (rule accounted_set_task [OF i]) (simp_all add: t StopAcquire)
  with inv_set_task [OF stopped, of i Finished] i t show ?thesis by (simp add: locked_task_def StopAcquire)
next
  case (PriorityAcquire h)
  show ?thesis
  proof (cases "ex_running s")
    case True
    then show ?thesis
      using inv_set_task [OF inv i] accounted_drop [OF i] t PriorityAcquire by (simp add: locked_task_def)
  next
    case False
    obtain s' b where b: "begin_hook fs h s = (s', b)" by (cases "begin_hook fs h s")
    then show ?thesis
    proof (cases rule: begin_hook_cases)
      case (1 f)
      have "accounted (set_task i (PriorityRunning h) (s\<lparr>ex_debug_file := f, ex_invoker := Some h, ex_lock := True\<rparr>)) = accounted s"
        by (rule accounted_set_task [OF i]) (simp_all add: t PriorityAcquire)
      moreover have "executor_inv (set_task i (PriorityRunning h) (s\<lparr>ex_debug_file := f, ex_invoker := Some h, ex_lock := True\<rparr>))"
        by (rule inv_begin [OF inv i _ lock]) (simp_all add: t PriorityAcquire)
      ultimately show ?thesis using False b 1 by (simp add: locked_task_def PriorityAcquire)
    next
      case (2 f)
      have "accounted (set_task i Finished (deliver_result h Skipped (s\<lparr>ex_debug_file := f\<rparr>))) = accounted s"
        by (rule accounted_set_task [OF i]) (simp_all add: t PriorityAcquire deliver_result_def)
      moreover have "executor_inv (set_task i Finished (deliver_result h Skipped (s\<lparr>ex_debug_file := f\<rparr>)))"
        by (rule inv_set_task [OF inv_result [OF inv]]) (simp_all add: deliver_result_def i t PriorityAcquire)
      ultimately show ?thesis using False b 2 by (simp add: locked_task_def PriorityAcquire)
    qed
  qed
qed (use inv in \<open>simp_all add: locked_task_def\<close>)

lemma exec_step_inv:
  assumes inv: "executor_inv s" and ev: "exec_step fs ev s = Some s'"
  shows "executor_inv s' \<and> accounted s' \<subseteq># accounted s + asked ev"
proof (cases ev)
  case Start
  then show ?thesis
    using inv ev by (auto simp: exec_step_def executor_inv_def accounted_def pending_def split: if_splits)
next
  case (Call h)
  then show ?thesis
    using inv ev by (auto simp: exec_step_def executor_inv_def accounted_def pending_def)
next
  case Stop
  then show ?thesis
    using inv ev by (auto simp: exec_step_def executor_inv_def accounted_def pending_def split: if_splits)
next
  case (Priority h)
  then show ?thesis
    using inv ev by (auto simp: exec_step_def executor_inv_def accounted_def pending_def)
next
  case (SetDebug names)
  then show ?thesis
    using inv ev by (auto simp: exec_step_def set_debug_def executor_inv_def accounted_def pending_def split: option.splits)
next
  case (Continue i)
  then have run: "continue_task fs i s = Some s'" and i: "i < length (ex_tasks s)"
    using ev by (auto simp: exec_step_def continue_task_def split: if_splits)
  show ?thesis
  proof (cases "ex_tasks s ! i")
    case LoopTop
    then have s': "s' = set_task i (if ex_running s then LoopGet else Finished) s"
      using run i by (simp add: continue_task_def)
    have "executor_inv s'" unfolding s' by (rule inv_set_task [OF inv i]) (simp_all add: LoopTop)
    moreover have "accounted s' = accounted s"
      unfolding s' by (rule accounted_set_task [OF i]) (simp_all add: LoopTop)
    ultimately show ?thesis by (simp add: Continue)
  next
    case LoopGet
    obtain x q where q: "ex_queue s = x # q" using run i LoopGet by (cases "ex_queue s") (simp_all add: continue_task_def)
    then have s': "s' = set_task i (case x of None \<Rightarrow> LoopTop | Some h \<Rightarrow> LoopAcquire h) (s\<lparr>ex_queue := q\<rparr>)"
      using run i LoopGet by (cases x) (simp_all add: continue_task_def)
    have "executor_inv (s\<lparr>ex_queue := q\<rparr>)" using inv by (simp add: executor_inv_def)
    from inv_set_task [OF this, of i "case x of None \<Rightarrow> LoopTop | Some h \<Rightarrow> LoopAcquire h"] i LoopGet
    have "executor_inv s'" unfolding s' by (cases x) simp_all
    moreover have "accounted s' = accounted s"
      unfolding s' by (rule accounted_set_task [OF i]) (cases x; simp add: LoopGet q)+
    ultimately show ?thesis by (simp add: Continue)
  next
    case (LoopAcquire h)
    with run i locked_task_step [OF inv i LoopAcquire] show ?thesis
      by (auto simp: continue_task_def Continue split: if_splits)
  next
    case StopAcquire
    with run i locked_task_step [OF inv i StopAcquire] show ?thesis
      by (auto simp: continue_task_def Continue split: if_splits)
  next
    case (PriorityAcquire h)
    with run i locked_task_step [OF inv i PriorityAcquire] show ?thesis
      by (auto simp: continue_task_def Continue split: if_splits)
  qed (use run i in \<open>simp_all add: continue_task_def\<close>)
next
  case (HookEnds i ok)
  then have i: "i < length (ex_tasks s)" using ev by (auto simp: exec_step_def split: if_splits)
  show ?thesis
  proof (cases "ex_tasks s ! i")
    case (LoopRunning h)
    then have s': "s' = set_task i LoopTop ((end_hook h ok s)\<lparr>ex_lock := False\<rparr>)"
      using ev HookEnds i by (simp add: exec_step_def)
    have "executor_inv s'" unfolding s' by (rule inv_end [OF inv i]) (simp_all add: LoopRunning)
    moreover have "accounted s' = accounted s"
      unfolding s' by (rule accounted_set_task [OF i]) (simp_all add: LoopRunning end_hook_def deliver_result_def)
    ultimately show ?thesis by (simp add: HookEnds)
  next
    case (PriorityRunning h)
    then have s': "s' = set_task i Finished ((end_hook h ok s)\<lparr>ex_lock := False\<rparr>)"
      using ev HookEnds i by (simp add: exec_step_def)
    have "executor_inv s'" unfolding s' by (rule inv_end [OF inv i]) (simp_all add: PriorityRunning)
    moreover have "accounted s' = accounted s"
      unfolding s' by (rule accounted_set_task [OF i]) (simp_all add: PriorityRunning end_hook_def deliver_result_def)
    ultimately show ?thesis by (simp add: HookEnds)
  qed (use ev HookEnds i in \<open>simp_all add: exec_step_def\<close>)
qed

fun asked_all :: "exec_event list \<Rightarrow> hook_call multiset" where
  "asked_all [] = {#}"
| "asked_all (ev # evs) = asked ev + asked_all evs"

lemma exec_run_inv:
  assumes "executor_inv s" and "exec_run fs evs s = Some s'"
  shows "executor_inv s' \<and> accounted s' \<subseteq># accounted s + asked_all evs"
  using assms
proof (induction evs arbitrary: s)
  case (Cons ev evs)
  then obtain s1 where 1: "exec_step fs ev s = Some s1" "exec_run fs evs s1 = Some s'" by (auto split: option.splits)
  note step = exec_step_inv [OF Cons.prems(1) 1(1)]
  with Cons.IH [OF _ 1(2)] have "executor_inv s'" "accounted s' \<subseteq># accounted s1 + asked_all evs" by auto
  moreover have "accounted s1 + asked_all evs \<subseteq># accounted s + asked ev + asked_all evs" using step by simp
  ultimately show ?case by (auto simp: add.assoc intro: subset_mset.order_trans)
qed simp

lemma new_executor_inv: "executor_inv new_executor"
  by (simp add: executor_inv_def new_executor_def)

text \<open>
  C8: the executor serialises hooks. Whatever is started, stopped, called, prioritised and debugged, in
  whatever order the waiting tasks go on: at most one hook runs, the invoker and the context served to the hook
  tools are that hook's, the run lock is held exactly while a hook runs, a queued hook runs only while the
  executor is running, the observer hears of every result, and no hook runs or waits more often than it was asked for.
\<close>

theorem executor_serialises:
  assumes "exec_run fs evs new_executor = Some s"
  shows "gather running_hook (ex_tasks s) = opt_mset (ex_invoker s)
    \<and> (ex_lock s \<longleftrightarrow> ex_invoker s \<noteq> None)
    \<and> (\<not> ex_running s \<longrightarrow> (\<forall>h. LoopRunning h \<notin> set (ex_tasks s)))
    \<and> ex_observed s = map (hk_path \<circ> fst) (ex_results s)
    \<and> mset (map fst (ex_results s)) + pending s \<subseteq># asked_all evs"
proof -
  have "accounted new_executor = {#}" by (simp add: accounted_def pending_def new_executor_def)
  with exec_run_inv [OF new_executor_inv assms] show ?thesis by (simp add: executor_inv_def accounted_def)
qed

section \<open>A lost hook\<close>

text \<open>
  The executor is restarted as soon as \<open>stop\<close> returns, before the first loop, which has just released the lock,
  tests \<open>_running\<close>: two loops share the queue from then on, and the \<open>STOP\<close> left in it ends neither. While one
  runs a hook and a second \<open>stop\<close> waits for the lock, the other takes the next hook from the queue and waits
  behind it. When it gets the lock the executor is stopped: the hook it took is dropped, its deferred never
  fires. Every task goes on in the order in which Twisted would serve it.
\<close>

definition hook_a :: hook_call where "hook_a = \<lparr>hk_id = 0, hk_path = ''hooks/install''\<rparr>"
definition hook_b :: hook_call where "hook_b = \<lparr>hk_id = 1, hk_path = ''hooks/start''\<rparr>"
definition hook_c :: hook_call where "hook_c = \<lparr>hk_id = 2, hk_path = ''hooks/config-changed''\<rparr>"

definition all_files :: file_system where
  "all_files = \<lparr>fs_exists = (\<lambda>_. True), fs_debug_hook = (\<lambda>n. ''/tmp/debug-'' @ n)\<rparr>"

definition restart_run :: "exec_event list" where
  "restart_run =
     [Start, Continue 0, Call hook_a, Continue 0, Continue 0, Stop, HookEnds 0 True, Continue 1,
      Start, Continue 2, Continue 2, Continue 2, Continue 0, Call hook_b, Continue 2, Continue 2,
      Stop, Call hook_c, Continue 0, HookEnds 2 True, Continue 3, Continue 0]"

lemma hook_lost:
  "map_option (\<lambda>s. (ex_results s, pending s)) (exec_run all_files restart_run new_executor) =
     Some ([(hook_a, Succeeded), (hook_b, Succeeded)], {#})"
  by (simp add: restart_run_def exec_step_def continue_task_def locked_task_def begin_hook_def get_hook_path_def
    set_task_def deliver_result_def end_hook_def new_executor_def all_files_def pending_def Let_def)

theorem executor_serialises_witness:
  "\<exists>s. exec_run all_files restart_run new_executor = Some s \<and> mset (map fst (ex_results s)) + pending s \<subseteq># {#hook_a, hook_b, hook_c#}"
proof -
  obtain s where s: "exec_run all_files restart_run new_executor = Some s"
    using hook_lost by (cases "exec_run all_files restart_run new_executor") auto
  have "asked_all restart_run = {#hook_a, hook_b, hook_c#}" by (simp add: restart_run_def)
  with executor_serialises [OF s] s show ?thesis by auto
qed

end
