(* ===== verification/RelationWatcher.thy ===== *)
theory RelationWatcher
  imports RelationState "HOL-Library.Char_ord" "HOL-Library.List_Lexorder"
begin

text \<open>
  \<open>RelationUnitWatcherBase\<close> and its subclasses of \<open>juju/state/relation.py\<close>: watching the units at the other
  end of a relation.

  A ZooKeeper read answers within the event that asks for it; every event comes with the state \<open>z\<close> it finds. A
  watch set by such a read is a promise of one later event. Those whose event has not come yet and that have a
  handler are in \<open>uw_armed\<close>; they may fire in any order. The two callbacks work on a state \<open>'w\<close> of their
  owner. \<open>set(children) - set(units)\<close> is taken in the order of \<open>children\<close>.
\<close>

section \<open>State\<close>

datatype armed =
    OnChildren  \<comment> \<open>\<open>_cb_container_child_change\<close>\<close>
  | OnCreated  \<comment> \<open>\<open>_cb_container_created\<close>\<close>
  | OnSettings string  \<comment> \<open>\<open>_cb_unit_change\<close> for a unit id\<close>

record unit_watcher =
  uw_unit :: string  \<comment> \<open>the watching unit's id\<close>
  uw_peer :: bool  \<comment> \<open>\<open>PeerUnitWatcher\<close>\<close>
  uw_scope :: string
  uw_container :: string
  uw_units :: "string list"
  uw_stopped :: "bool option"
  uw_names :: yvalue  \<comment> \<open>\<open>_unit_name_map\<close>, \<open>YNone\<close> when not loaded\<close>
  uw_armed :: "armed list"

datatype watch_error =
    AlreadyStarted
  | WatchRead state_error
  | CallbackRaised

text \<open>What the watcher uses besides the client: versions of nodes, its connection, the callbacks.\<close>

record ('z, 'c, 'w) watch_env =
  we_state :: "('z, 'c) state_env"
  we_version :: "'z \<Rightarrow> string \<Rightarrow> int option"  \<comment> \<open>\<open>None\<close>: no such node\<close>
  we_connected :: "'z \<Rightarrow> bool"
  we_members :: "string list \<Rightarrow> string list \<Rightarrow> 'w \<Rightarrow> 'w \<times> bool"  \<comment> \<open>whether it returns\<close>
  we_settings :: "(string \<times> int) list \<Rightarrow> 'w \<Rightarrow> 'w \<times> bool"

type_synonym ('w, 'a) watching = "(unit_watcher \<times> 'w, watch_error, 'a) eff"

text \<open>\<open>posixpath.dirname\<close>\<close>

definition dirname :: "string \<Rightarrow> string" where
  "dirname p =
     (let head = rev (dropWhile (\<lambda>c. c \<noteq> CHR ''/'') (rev p));
          stripped = rstrip_slash head
      in if stripped = [] then head else stripped)"

definition new_watcher :: "unit_relation \<Rightarrow> string \<Rightarrow> string \<Rightarrow> unit_watcher" where
  "new_watcher ur role path =
     \<lparr>uw_unit = ur_unit ur, uw_peer = (role = ''peer''), uw_scope = ur_scope ur, uw_container = path,
      uw_units = [], uw_stopped = None, uw_names = YNone, uw_armed = []\<rparr>"

text \<open>
  A role that is none of the three makes \<open>get_related_unit_container\<close> raise, so a factory is always bound.
\<close>

definition watch_related_units :: "('z, 'c) state_env \<Rightarrow> 'z \<Rightarrow> (unit_relation, state_error, unit_watcher) eff" where
  "watch_related_units e z =
     ebind (get_relation_role e z) (\<lambda>role.
     ebind (get_related_unit_container e z) (\<lambda>path.
     eread (\<lambda>ur. Inr (new_watcher ur role path))))"

definition watcher_running :: "unit_watcher \<Rightarrow> bool" where
  "watcher_running u \<longleftrightarrow> uw_stopped u = Some False"

definition filter_units :: "unit_watcher \<Rightarrow> string list \<Rightarrow> string list" where
  "filter_units u units = (if uw_peer u then filter (\<lambda>uid. uid \<noteq> uw_unit u) units else units)"

definition arm :: "armed \<Rightarrow> ('w, unit) watching" where
  "arm a s = (case s of (u, x) \<Rightarrow> ((u\<lparr>uw_armed := uw_armed u @ [a]\<rparr>, x), Inr ()))"

section \<open>Names\<close>

definition names_path :: "unit_watcher \<Rightarrow> string" where
  "names_path u =
     (let relation_path = dirname (uw_container u)
      in if uw_scope u = ''container'' then dirname relation_path else relation_path)"

definition load_names :: "('z, 'c, 'w) watch_env \<Rightarrow> 'z \<Rightarrow> ('w, yvalue) watching" where
  "load_names e z s =
     (case s of (u, x) \<Rightarrow>
        if y_true (uw_names u) then (s, Inr (uw_names u))
        else case zc_get (se_client (we_state e)) z (names_path u) of
          None \<Rightarrow> (s, Inl (WatchRead (NoNode (names_path u))))
        | Some content \<Rightarrow>
            (let names = se_load (we_state e) content in ((u\<lparr>uw_names := names\<rparr>, x), Inr names)))"

text \<open>\<open>self._unit_name_map[unit_id]\<close>; a name that is no text is an error here already.\<close>

definition name_in :: "yvalue \<Rightarrow> string \<Rightarrow> watch_error + string" where
  "name_in names uid =
     (case names of
        YMap d \<Rightarrow> (case dget d uid of Some (YText n) \<Rightarrow> Inr n | _ \<Rightarrow> Inl (WatchRead (BadContent ''unit names'')))
      | _ \<Rightarrow> Inl (WatchRead (BadContent ''unit names'')))"

definition resolve_unit_names :: "('z, 'c, 'w) watch_env \<Rightarrow> 'z \<Rightarrow> string list list \<Rightarrow> ('w, string list list) watching" where
  "resolve_unit_names e z unit_ids =
     ebind (load_names e z) (\<lambda>names. eread (\<lambda>_. rmap (rmap (name_in names)) unit_ids))"

section \<open>Settings\<close>

definition unit_settings_of :: "unit_watcher \<Rightarrow> string \<Rightarrow> string" where
  "unit_settings_of u uid = dirname (uw_container u) @ ''/settings/'' @ uid"

definition call_owner :: "('w \<Rightarrow> 'w \<times> bool) \<Rightarrow> ('w, unit) watching" where
  "call_owner f s =
     (case s of (u, x) \<Rightarrow> case f x of (x', returns) \<Rightarrow> ((u, x'), if returns then Inr () else Inl CallbackRaised))"

definition notify_settings_version ::
  "('z, 'c, 'w) watch_env \<Rightarrow> 'z \<Rightarrow> int option \<Rightarrow> string \<Rightarrow> ('w, unit) watching" where
  "notify_settings_version e z stat uid =
     (case stat of
        None \<Rightarrow> eret ()
      | Some version \<Rightarrow>
          ebind (resolve_unit_names e z [[uid]]) (\<lambda>names.
            call_owner (we_settings e [(hd (hd names), version)])))"

text \<open>\<open>exists_and_watch\<close> of each new unit's settings; nothing at all once the connection is gone.\<close>

definition watch_settings_for_units ::
  "('z, 'c, 'w) watch_env \<Rightarrow> 'z \<Rightarrow> unit_watcher \<Rightarrow> string list \<Rightarrow> (string \<times> int option) list" where
  "watch_settings_for_units e z u added =
     (if we_connected e z then map (\<lambda>uid. (uid, we_version e z (unit_settings_of u uid))) added else [])"

text \<open>Each \<open>exists_d\<close> is a chain of its own: an exception leaves its own watch without handler, no other.\<close>

definition detached :: "('w, unit) watching \<Rightarrow> ('w, unit) watching" where
  "detached m s = (fst (m s), Inr ())"

definition track_settings ::
  "('z, 'c, 'w) watch_env \<Rightarrow> 'z \<Rightarrow> string \<times> int option \<Rightarrow> ('w, unit) watching" where
  "track_settings e z watch =
     (case watch of (uid, stat) \<Rightarrow>
        detached (ebind (notify_settings_version e z stat uid) (\<lambda>_. arm (OnSettings uid))))"

section \<open>Membership\<close>

definition update_units :: "string list \<Rightarrow> ('w, unit) watching" where
  "update_units units s = (case s of (u, x) \<Rightarrow> ((u\<lparr>uw_units := units\<rparr>, x), Inr ()))"

definition forget_names :: "('w, unit) watching" where
  "forget_names s = (case s of (u, x) \<Rightarrow> ((u\<lparr>uw_names := YNone\<rparr>, x), Inr ()))"

text \<open>The known children are replaced whether or not their names can be resolved.\<close>

definition container_children :: "('z, 'c, 'w) watch_env \<Rightarrow> 'z \<Rightarrow> string list \<Rightarrow> ('w, unit) watching" where
  "container_children e z units s =
     (let u = fst s;
          children = filter_units u units;
          added = filter (\<lambda>uid. uid \<notin> set (uw_units u)) children;
          watches = watch_settings_for_units e z u added
      in if uw_units u = children then (s, Inr ())
         else ebind (if added \<noteq> [] then forget_names else eret ()) (\<lambda>_.
              ebind (\<lambda>s. case resolve_unit_names e z [uw_units u, children] s of
                       (s, r) \<Rightarrow> (fst (update_units children s), r)) (\<lambda>names.
              ebind (call_owner (we_members e (sort (names ! 0)) (sort (names ! 1)))) (\<lambda>_.
              efor watches (track_settings e z)))) s)"

text \<open>
  \<open>_watch_container\<close> with \<open>_eb_no_container\<close>; \<open>est\<close> says whether there is a callback for the established
  watch, \<open>called\<close> whether it ran before. A second call of it raises, which ends the chain of the existence
  check. What happens in that chain is not seen by the caller. The recursion needs no more than 2 steps.
\<close>

fun watch_container :: "('z, 'c, 'w) watch_env \<Rightarrow> 'z \<Rightarrow> nat \<Rightarrow> bool \<Rightarrow> ('w, unit) watching" where
  "watch_container e z 0 est s = (s, Inr ())"
| "watch_container e z (Suc n) est s =
     (let path = uw_container (fst s);
          no_container = (\<lambda>called.
            ebind (arm OnCreated) (\<lambda>_.
            if (est \<and> called) \<or> \<not> zc_exists (se_client (we_state e)) z path then eret ()
            else detached (watch_container e z n False)))
      in case zc_children (se_client (we_state e)) z path of
           None \<Rightarrow> no_container False s
         | Some children \<Rightarrow>
             ecatch (ebind (container_children e z children) (\<lambda>_. arm OnChildren))
               (\<lambda>err. case err of WatchRead (NoNode p) \<Rightarrow> Some (no_container True) | _ \<Rightarrow> None) s)"

section \<open>Events\<close>

text \<open>The deferred of \<open>start\<close> fires when the watch is established; later exceptions do not reach it.\<close>

definition start_watcher :: "('z, 'c, 'w) watch_env \<Rightarrow> 'z \<Rightarrow> ('w, unit) watching" where
  "start_watcher e z s =
     (case s of (u, x) \<Rightarrow>
        if uw_stopped u = Some False then (s, Inl AlreadyStarted)
        else detached (watch_container e z 2 True) (u\<lparr>uw_stopped := Some False\<rparr>, x))"

definition stop_watcher :: "unit_watcher \<Rightarrow> unit_watcher" where
  "stop_watcher u = u\<lparr>uw_stopped := Some True\<rparr>"

definition container_child_change :: "('z, 'c, 'w) watch_env \<Rightarrow> 'z \<Rightarrow> ('w, unit) watching" where
  "container_child_change e z s =
     (if uw_stopped (fst s) = Some True then (s, Inr ())
      else case zc_children (se_client (we_state e)) z (uw_container (fst s)) of
        None \<Rightarrow> (s, Inl (WatchRead (NoNode (uw_container (fst s)))))
      | Some children \<Rightarrow> ebind (container_children e z children) (\<lambda>_. arm OnChildren) s)"

definition container_created :: "('z, 'c, 'w) watch_env \<Rightarrow> 'z \<Rightarrow> bool \<Rightarrow> ('w, unit) watching" where
  "container_created e z created = (if created then watch_container e z 2 False else eret ())"

definition unit_change :: "('z, 'c, 'w) watch_env \<Rightarrow> 'z \<Rightarrow> string \<Rightarrow> ('w, unit) watching" where
  "unit_change e z uid s =
     (let u = fst s in
      if uw_stopped u = Some True \<or> uid \<notin> set (uw_units u) then (s, Inr ())
      else ebind (notify_settings_version e z (we_version e z (unit_settings_of u uid)) uid)
             (\<lambda>_. arm (OnSettings uid)) s)"

datatype watch_event =
    StartWatch
  | StopWatch
  | Fires armed bool  \<comment> \<open>a watch, and whether its event is a creation\<close>

definition disarm :: "armed \<Rightarrow> ('w, unit) watching" where
  "disarm a s = (case s of (u, x) \<Rightarrow> ((u\<lparr>uw_armed := remove1 a (uw_armed u)\<rparr>, x), Inr ()))"

text \<open>An event that cannot happen changes nothing.\<close>

definition watch_step :: "('z, 'c, 'w) watch_env \<Rightarrow> 'z \<Rightarrow> watch_event \<Rightarrow> unit_watcher \<times> 'w \<Rightarrow> unit_watcher \<times> 'w" where
  "watch_step e z ev s =
     (case ev of
        StartWatch \<Rightarrow> fst (start_watcher e z s)
      | StopWatch \<Rightarrow> (stop_watcher (fst s), snd s)
      | Fires a created \<Rightarrow>
          if a \<notin> set (uw_armed (fst s)) then s
          else fst (ebind (disarm a) (\<lambda>_.
            case a of
              OnChildren \<Rightarrow> container_child_change e z
            | OnCreated \<Rightarrow> container_created e z created
            | OnSettings uid \<Rightarrow> unit_change e z uid) s))"

definition watch_run ::
  "('z, 'c, 'w) watch_env \<Rightarrow> ('z \<times> watch_event) list \<Rightarrow> unit_watcher \<times> 'w \<Rightarrow> unit_watcher \<times> 'w" where
  "watch_run e evs s = fold (\<lambda>(z, ev). watch_step e z ev) evs s"

end
