(* ===== verification/RelationLifecycle.thy ===== *)
theory RelationLifecycle
  imports UnitWorkflow Scheduler RelationWatcher HookContext
begin

text \<open>
  \<open>UnitRelationLifecycle\<close> and \<open>RelationInvoker\<close> of \<open>juju/unit/lifecycle.py\<close>: the watcher of the related
  units, the scheduler it feeds and the hooks of one relation, started and stopped by the relation's
  workflow.

  An operation holds the lifecycle's run lock from its start to its end, so each of them is one step; hooks of
  the scheduler wait for that lock and end in a step of their own. The executor is a parameter: how a hook ends and
  what it does to ZooKeeper.
\<close>

section \<open>Paths and environments of hooks\<close>

text \<open>\<open>os.path.join\<close>\<close>

definition path_join :: "string \<Rightarrow> string list \<Rightarrow> string" where
  "path_join a bs = foldl (\<lambda>path b.
     if startswith b ''/'' then b
     else if path = [] \<or> last path = CHR ''/'' then path @ b
     else path @ ''/'' @ b) a bs"

definition hook_path_of :: "string \<Rightarrow> string \<Rightarrow> string" where
  "hook_path_of unit_dir hook_name = path_join unit_dir [''charm'', ''hooks'', hook_name]"

record relation_change =
  rch_ident :: string
  rch_type :: string
  rch_unit :: string

definition change_label :: "change_type \<Rightarrow> string" where
  "change_label t = (case t of ADDED \<Rightarrow> ''joined'' | REMOVED \<Rightarrow> ''departed'' | MODIFIED \<Rightarrow> ''modified'')"

definition get_environment_from_change :: "(string, string) dict \<Rightarrow> relation_change \<Rightarrow> (string, string) dict" where
  "get_environment_from_change env change =
     dset ''JUJU_REMOTE_UNIT'' (rch_unit change)
       (dset ''JUJU_RELATION_ID'' (rch_ident change)
         (dset ''JUJU_RELATION'' (ident_name (rch_ident change)) env))"

section \<open>State\<close>

text \<open>The files, clocks and texts the lifecycle gets from outside, and its executor.\<close>

record ('z, 'c) life_env =
  le_state :: "('z, 'c) state_env"
  le_version :: "'z \<Rightarrow> string \<Rightarrow> int option"
  le_connected :: "'z \<Rightarrow> bool"
  le_writeable :: bool  \<comment> \<open>whether the schedule file can be opened for appending\<close>
  le_error_text :: "state_error \<Rightarrow> string"
  le_unit_dir :: string
  le_execute :: "(string, string) dict \<Rightarrow> string \<Rightarrow> 'z \<Rightarrow> lifecycle_result \<times> 'z"

record 'z relation_life =
  rf_ident :: string
  rf_unit_name :: string
  rf_relation :: unit_relation
  rf_watcher :: "unit_watcher option"
  rf_scheduler :: scheduler
  rf_handler :: bool  \<comment> \<open>whether an error handler is set\<close>
  rf_zk :: 'z

definition new_relation_life :: "string \<Rightarrow> unit_relation \<Rightarrow> string \<Rightarrow> state_file \<Rightarrow> 'z \<Rightarrow> 'z relation_life" where
  "new_relation_life uname ur ident schedule z =
     \<lparr>rf_ident = ident, rf_unit_name = uname, rf_relation = ur, rf_watcher = None,
      rf_scheduler = new_scheduler schedule, rf_handler = False, rf_zk = z\<rparr>"

definition life_watching :: "'z relation_life \<Rightarrow> bool" where
  "life_watching l = (case rf_watcher l of None \<Rightarrow> False | Some u \<Rightarrow> watcher_running u)"

definition life_executing :: "'z relation_life \<Rightarrow> bool" where
  "life_executing l = sc_running (rf_scheduler l)"

definition set_hook_error_handler :: "bool \<Rightarrow> 'z relation_life \<Rightarrow> 'z relation_life" where
  "set_hook_error_handler handler l = l\<lparr>rf_handler := handler\<rparr>"

text \<open>The scheduler's callbacks are the watcher's owner.\<close>

definition scheduler_watch ::
  "('z, 'c) state_env \<Rightarrow> ('z \<Rightarrow> string \<Rightarrow> int option) \<Rightarrow> ('z \<Rightarrow> bool) \<Rightarrow> ('z, 'c, scheduler) watch_env" where
  "scheduler_watch e version connected =
     \<lparr>we_state = e, we_version = version, we_connected = connected,
      we_members = (\<lambda>old new s. case cb_change_members old new s of (s', err) \<Rightarrow> (s', err = None)),
      we_settings = (\<lambda>versions s. case cb_change_settings versions s of (s', err) \<Rightarrow> (s', err = None))\<rparr>"

definition life_watch :: "('z, 'c) life_env \<Rightarrow> ('z, 'c, scheduler) watch_env" where
  "life_watch e = scheduler_watch (le_state e) (le_version e) (le_connected e)"

section \<open>Starting and stopping\<close>

text \<open>The deferred of \<open>self._scheduler.run()\<close> is dropped, and an exception of it with it.\<close>

definition run_scheduler :: "('z, 'c) life_env \<Rightarrow> bool \<Rightarrow> 'z relation_life \<Rightarrow> 'z relation_life" where
  "run_scheduler e start_scheduler l =
     (if start_scheduler \<and> \<not> life_executing l
      then l\<lparr>rf_scheduler := fst (run (le_writeable e) (rf_scheduler l))\<rparr> else l)"

definition create_watcher :: "('z, 'c) life_env \<Rightarrow> 'z relation_life \<Rightarrow> state_error option \<times> 'z relation_life" where
  "create_watcher e l =
     (if rf_watcher l \<noteq> None then (None, l)
      else case watch_related_units (le_state e) (rf_zk l) (rf_relation l) of
        (ur, Inl err) \<Rightarrow> (Some err, l\<lparr>rf_relation := ur\<rparr>)
      | (ur, Inr u) \<Rightarrow> (None, l\<lparr>rf_relation := ur, rf_watcher := Some u\<rparr>))"

definition start_watching :: "('z, 'c) life_env \<Rightarrow> 'z relation_life \<Rightarrow> 'z relation_life" where
  "start_watching e l =
     (case rf_watcher l of
        None \<Rightarrow> l
      | Some u \<Rightarrow>
          (case fst (start_watcher (life_watch e) (rf_zk l) (u, rf_scheduler l)) of
             (u', s') \<Rightarrow> l\<lparr>rf_watcher := Some u', rf_scheduler := s'\<rparr>))"

definition life_start ::
  "('z, 'c) life_env \<Rightarrow> bool \<Rightarrow> bool \<Rightarrow> 'z relation_life \<Rightarrow> lifecycle_result \<times> 'z relation_life" where
  "life_start e start_watches start_scheduler l =
     (case create_watcher e (run_scheduler e start_scheduler l) of
        (Some err, l) \<Rightarrow> (LRaised (le_error_text e err), l)
      | (None, l) \<Rightarrow>
          (LReturned, if start_watches \<and> \<not> life_watching l then start_watching e l else l))"

definition life_stop :: "bool \<Rightarrow> 'z relation_life \<Rightarrow> lifecycle_result \<times> 'z relation_life" where
  "life_stop stop_watches l =
     (let l = (if stop_watches \<and> life_watching l then l\<lparr>rf_watcher := map_option stop_watcher (rf_watcher l)\<rparr> else l);
          l = (if life_executing l then l\<lparr>rf_scheduler := fst (stop (rf_scheduler l))\<rparr> else l)
      in (LReturned, l))"

section \<open>Hooks\<close>

text \<open>
  How \<open>_execute_hook\<close> ends: with \<open>True\<close>, by raising, or with \<open>False\<close> once the error handler was called with this
  change and exception.
\<close>

datatype hook_outcome =
    HookSucceeded
  | HookRaised lifecycle_result
  | HookHandled relation_change lifecycle_result

definition execute_hook ::
  "('z, 'c) life_env \<Rightarrow> string \<Rightarrow> relation_change \<Rightarrow> 'z relation_life \<Rightarrow> hook_outcome \<times> 'z relation_life" where
  "execute_hook e hook_name change l =
     (case le_execute e (get_environment_from_change [] change) (hook_path_of (le_unit_dir e) hook_name) (rf_zk l) of
        (r, z) \<Rightarrow>
          (if r = LReturned then HookSucceeded
           else if rf_handler l then HookHandled change r else HookRaised r,
           l\<lparr>rf_zk := z\<rparr>))"

definition change_hook_name :: "string \<Rightarrow> string \<Rightarrow> string" where
  "change_hook_name relation_name change_type =
     (if change_type = ''departed'' then relation_name @ ''-relation-departed''
      else if change_type = ''joined'' then relation_name @ ''-relation-joined''
      else relation_name @ ''-relation-changed'')"

definition execute_change_hook ::
  "('z, 'c) life_env \<Rightarrow> relation_change \<Rightarrow> 'z relation_life \<Rightarrow> hook_outcome \<times> 'z relation_life" where
  "execute_change_hook e change l =
     execute_hook e (change_hook_name (ident_name (rf_ident l)) (rch_type change)) change l"

definition relation_change_of :: "string \<Rightarrow> change \<Rightarrow> relation_change" where
  "relation_change_of ident c =
     \<lparr>rch_ident = ident, rch_type = change_label (ch_change_type c), rch_unit = ch_unit_name c\<rparr>"

text \<open>
  The hook of the scheduler's \<open>i\<close>-th suspended change. When it raises, the loop ends there without a word to
  the scheduler, which goes on to say that it runs. A handled error leaves the rest to \<open>hook_failed\<close>, after the handler.
\<close>

definition change_hook :: "('z, 'c) life_env \<Rightarrow> nat \<Rightarrow> 'z relation_life \<Rightarrow> hook_outcome \<times> 'z relation_life" where
  "change_hook e i l =
     (let c = sc_executing (rf_scheduler l) ! i in
      case execute_change_hook e (relation_change_of (rf_ident l) c) l of
        (HookSucceeded, l) \<Rightarrow> (HookSucceeded, l\<lparr>rf_scheduler := fst (hook_done i True (rf_scheduler l))\<rparr>)
      | (HookRaised r, l) \<Rightarrow>
          (HookRaised r, l\<lparr>rf_scheduler := (rf_scheduler l)\<lparr>sc_executing := list_pop i (sc_executing (rf_scheduler l))\<rparr>\<rparr>)
      | (HookHandled ch r, l) \<Rightarrow> (HookHandled ch r, l))"

definition hook_failed :: "nat \<Rightarrow> 'z relation_life \<Rightarrow> 'z relation_life" where
  "hook_failed i l = l\<lparr>rf_scheduler := fst (hook_done i False (rf_scheduler l))\<rparr>"

definition life_depart :: "('z, 'c) life_env \<Rightarrow> 'z relation_life \<Rightarrow> lifecycle_result \<times> 'z relation_life" where
  "life_depart e l =
     (case execute_hook e (ident_name (rf_ident l) @ ''-relation-broken'')
             \<lparr>rch_ident = rf_ident l, rch_type = ''departed'', rch_unit = []\<rparr> l of
        (HookRaised r, l) \<Rightarrow> (r, l)
      | (_, l) \<Rightarrow> (LReturned, l))"

section \<open>What the workflow calls\<close>

definition life_ops :: "('z, 'c) life_env \<Rightarrow> 'z relation_life relation_ops" where
  "life_ops e =
     \<lparr>rl_start = life_start e, rl_stop = life_stop, rl_depart = life_depart e,
      rl_set_hook_error_handler = set_hook_error_handler\<rparr>"

text \<open>A watch of the running watcher fires.\<close>

definition life_event :: "('z, 'c) life_env \<Rightarrow> watch_event \<Rightarrow> 'z relation_life \<Rightarrow> 'z relation_life" where
  "life_event e ev l =
     (case rf_watcher l of
        None \<Rightarrow> l
      | Some u \<Rightarrow>
          (case watch_step (life_watch e) (rf_zk l) ev (u, rf_scheduler l) of
             (u', s') \<Rightarrow> l\<lparr>rf_watcher := Some u', rf_scheduler := s'\<rparr>))"

end
