(* ===== verification/RelationWatcherProps.thy ===== *)
theory RelationWatcherProps
  imports RelationWatcher SchedulerProps
begin

text \<open>
  What the watcher of related units promises its owner, stated once in the locale \<open>watch_owner\<close>: an
  invariant of the owner over the units it has been told of is kept, whatever fires in whatever order.
  It is used for a record of the calls and for the hook scheduler.
\<close>

section \<open>What the watcher finds in ZooKeeper\<close>

text \<open>The units whose names the relation's node has.\<close>

definition known :: "('z, 'c, 'w) watch_env \<Rightarrow> string \<Rightarrow> (string \<Rightarrow> string) \<Rightarrow> 'z \<Rightarrow> string set" where
  "known e path nm z =
     {uid. \<exists>c. zc_get (se_client (we_state e)) z path = Some c \<and> name_in (se_load (we_state e) c) uid = Inr (nm uid)}"

definition children_at :: "('z, 'c, 'w) watch_env \<Rightarrow> string \<Rightarrow> 'z \<Rightarrow> string list option" where
  "children_at e path z = zc_children (se_client (we_state e)) z path"

text \<open>
  How relations use their nodes: a unit's name is written before its presence node, names are only added,
  and a role's container stays. A watch for the existence of a missing node tells of its creation.
\<close>

definition names_first :: "('z, 'c, 'w) watch_env \<Rightarrow> string \<Rightarrow> string \<Rightarrow> (string \<Rightarrow> string) \<Rightarrow> 'z \<Rightarrow> bool" where
  "names_first e path npath nm z \<longleftrightarrow> (\<forall>ch. children_at e path z = Some ch \<longrightarrow> set ch \<subseteq> known e npath nm z)"

definition grows :: "('z, 'c, 'w) watch_env \<Rightarrow> string \<Rightarrow> string \<Rightarrow> (string \<Rightarrow> string) \<Rightarrow> 'z \<Rightarrow> 'z \<Rightarrow> bool" where
  "grows e path npath nm z z' \<longleftrightarrow> known e npath nm z \<subseteq> known e npath nm z'
     \<and> (children_at e path z \<noteq> None \<longrightarrow> children_at e path z' \<noteq> None)"

definition history_ok ::
  "('z, 'c, 'w) watch_env \<Rightarrow> string \<Rightarrow> string \<Rightarrow> (string \<Rightarrow> string) \<Rightarrow> ('z \<times> watch_event) list \<Rightarrow> bool" where
  "history_ok e path npath nm evs \<longleftrightarrow> sorted_wrt (grows e path npath nm) (map fst evs)
     \<and> list_all (\<lambda>(z, ev). names_first e path npath nm z \<and> ev \<noteq> Fires OnCreated False) evs"

section \<open>The contract with the owner\<close>

definition valid_names :: "(string \<Rightarrow> string) \<Rightarrow> yvalue \<Rightarrow> string set \<Rightarrow> bool" where
  "valid_names nm v A \<longleftrightarrow> (y_true v \<longrightarrow> (\<forall>uid \<in> A. name_in v uid = Inr (nm uid)))"

lemma valid_names_mono: "valid_names nm v A \<Longrightarrow> B \<subseteq> A \<Longrightarrow> valid_names nm v B"
  by (auto simp: valid_names_def)

lemma rmap_all_Inr: "(\<And>x. x \<in> set xs \<Longrightarrow> f x = Inr (g x)) \<Longrightarrow> rmap f xs = Inr (map g xs)"
  by (induction xs) simp_all

lemma name_in_true: "name_in v uid = Inr n \<Longrightarrow> y_true v"
  by (cases v) (auto simp: name_in_def y_true_def split: option.splits)

lemma load_valid:
  assumes "valid_names nm (uw_names u) A" and "A \<subseteq> known e (names_path u) nm z" and "A \<noteq> {}"
  shows "\<exists>v. load_names e z (u, x) = ((u\<lparr>uw_names := v\<rparr>, x), Inr v) \<and> (\<forall>uid \<in> A. name_in v uid = Inr (nm uid))"
proof (cases "y_true (uw_names u)")
  case True
  then show ?thesis
    using assms(1) by (intro exI [of _ "uw_names u"]) (simp add: load_names_def valid_names_def)
next
  case False
  obtain uid0 where "uid0 \<in> A" using assms(3) by blast
  with assms(2) obtain c where c: "zc_get (se_client (we_state e)) z (names_path u) = Some c"
    by (auto simp: known_def)
  then have "\<forall>uid \<in> A. name_in (se_load (we_state e) c) uid = Inr (nm uid)"
    using assms(2) by (auto simp: known_def)
  with False c show ?thesis by (simp add: load_names_def Let_def)
qed

lemma resolve_valid:
  assumes "valid_names nm (uw_names u) A" and "A \<subseteq> known e (names_path u) nm z" and "A \<noteq> {}"
    and "\<And>ids. ids \<in> set idss \<Longrightarrow> set ids \<subseteq> A"
  shows "\<exists>v. resolve_unit_names e z idss (u, x) = ((u\<lparr>uw_names := v\<rparr>, x), Inr (map (map nm) idss))
    \<and> valid_names nm v A"
proof -
  obtain v where v: "load_names e z (u, x) = ((u\<lparr>uw_names := v\<rparr>, x), Inr v)"
    and names: "\<forall>uid \<in> A. name_in v uid = Inr (nm uid)"
    using load_valid [OF assms(1-3)] by blast
  have "rmap (rmap (name_in v)) idss = Inr (map (map nm) idss)"
    using assms(4) names by (intro rmap_all_Inr) (auto intro!: rmap_all_Inr)
  with v names show ?thesis
    by (auto simp: resolve_unit_names_def ebind_ran valid_names_def eread_def)
qed

lemma names_path_update [simp]:
  "names_path (u\<lparr>uw_names := v\<rparr>) = names_path u" "names_path (u\<lparr>uw_units := us\<rparr>) = names_path u"
  "names_path (u\<lparr>uw_armed := l\<rparr>) = names_path u" "names_path (u\<lparr>uw_stopped := b\<rparr>) = names_path u"
  by (simp_all add: names_path_def)

text \<open>
  \<open>P us x\<close>: what the owner's state \<open>x\<close> is after it was told that the related units are \<open>us\<close>. Both
  callbacks return and keep it.
\<close>

locale watch_owner =
  fixes e :: "('z, 'c, 'w) watch_env" and nm :: "string \<Rightarrow> string" and P :: "string list \<Rightarrow> 'w \<Rightarrow> bool"
  assumes members_kept: "P us x \<Longrightarrow>
      \<exists>x'. we_members e (sort (map nm us)) (sort (map nm us')) x = (x', True) \<and> P us' x'"
    and settings_kept: "P us x \<Longrightarrow> uid \<in> set us \<Longrightarrow>
      \<exists>x'. we_settings e [(nm uid, version)] x = (x', True) \<and> P us x'"
begin

text \<open>Everything of the watcher but its armed watches; \<open>K\<close> are names known for certain.\<close>

definition told :: "string set \<Rightarrow> unit_watcher \<times> 'w \<Rightarrow> bool" where
  "told K s \<longleftrightarrow> (case s of (u, x) \<Rightarrow>
     set (uw_units u) \<subseteq> K \<and> valid_names nm (uw_names u) (set (uw_units u)) \<and> P (uw_units u) x)"

lemma told_mono: "told K s \<Longrightarrow> K \<subseteq> K' \<Longrightarrow> told K' s"
  by (auto simp: told_def)

lemma told_fields:
  "told K (u\<lparr>uw_armed := l\<rparr>, x) = told K (u, x)" "told K (u\<lparr>uw_stopped := b\<rparr>, x) = told K (u, x)"
  by (simp_all add: told_def)

lemma notify_told:
  assumes "told (known e (names_path u) nm z) (u, x)" and "uid \<in> set (uw_units u)"
  shows "\<exists>v x'. notify_settings_version e z stat uid (u, x) = ((u\<lparr>uw_names := v\<rparr>, x'), Inr ())
    \<and> told (known e (names_path u) nm z) (u\<lparr>uw_names := v\<rparr>, x')"
proof (cases stat)
  case None
  then show ?thesis
    using assms(1) by (intro exI [of _ "uw_names u"] exI [of _ x]) (simp add: notify_settings_version_def eret_def)
next
  case (Some version)
  obtain v where v: "resolve_unit_names e z [[uid]] (u, x) = ((u\<lparr>uw_names := v\<rparr>, x), Inr [[nm uid]])"
      "valid_names nm v (set (uw_units u))"
    using resolve_valid [of nm u "set (uw_units u)" e z "[[uid]]" x] assms
    by (cases "uw_units u") (auto simp: told_def)
  obtain x' where "we_settings e [(nm uid, version)] x = (x', True)" "P (uw_units u) x'"
    using settings_kept [of "uw_units u" x uid version] assms by (auto simp: told_def)
  with v Some assms(1) show ?thesis
    by (auto simp: notify_settings_version_def ebind_ran call_owner_def told_def)
qed

text \<open>The watches of new units: only names, armed watches and the owner change.\<close>

lemma track_told:
  assumes "told (known e (names_path u) nm z) (u, x)" and "fst w \<in> set (uw_units u)"
  shows "\<exists>v l x'. track_settings e z w (u, x) = ((u\<lparr>uw_names := v, uw_armed := uw_armed u @ l\<rparr>, x'), Inr ())
    \<and> set l \<subseteq> range OnSettings \<and> told (known e (names_path u) nm z) (u\<lparr>uw_names := v, uw_armed := uw_armed u @ l\<rparr>, x')"
proof -
  obtain uid stat where w: "w = (uid, stat)" by (cases w)
  obtain v x' where step: "notify_settings_version e z stat uid (u, x) = ((u\<lparr>uw_names := v\<rparr>, x'), Inr ())"
    and told: "told (known e (names_path u) nm z) (u\<lparr>uw_names := v\<rparr>, x')"
    using notify_told assms w by (metis fst_conv)
  have "track_settings e z w (u, x) = ((u\<lparr>uw_names := v, uw_armed := uw_armed u @ [OnSettings uid]\<rparr>, x'), Inr ())"
    by (simp add: w track_settings_def detached_def ebind_def step arm_def)
  with told show ?thesis using told_fields(1) [where u = "u\<lparr>uw_names := v\<rparr>" and x = x'] by fastforce
qed

lemma tracks_told:
  "told (known e (names_path u) nm z) (u, x) \<Longrightarrow> fst ` set ws \<subseteq> set (uw_units u) \<Longrightarrow>
   \<exists>v l x'. efor ws (track_settings e z) (u, x) = ((u\<lparr>uw_names := v, uw_armed := uw_armed u @ l\<rparr>, x'), Inr ())
    \<and> set l \<subseteq> range OnSettings \<and> told (known e (names_path u) nm z) (u\<lparr>uw_names := v, uw_armed := uw_armed u @ l\<rparr>, x')"
proof (induction ws arbitrary: u x)
  case Nil
  then show ?case by (intro exI [of _ "uw_names u"] exI [of _ "[]"] exI [of _ x]) simp
next
  case (Cons w ws)
  then obtain v l x1 where step: "track_settings e z w (u, x) = ((u\<lparr>uw_names := v, uw_armed := uw_armed u @ l\<rparr>, x1), Inr ())"
    and l: "set l \<subseteq> range OnSettings"
    and told: "told (known e (names_path u) nm z) (u\<lparr>uw_names := v, uw_armed := uw_armed u @ l\<rparr>, x1)"
    using track_told [of u z x w] by auto
  let ?u = "u\<lparr>uw_names := v, uw_armed := uw_armed u @ l\<rparr>"
  from Cons.IH [of ?u x1] told Cons.prems(2) obtain v' l' x' where
    rest: "efor ws (track_settings e z) (?u, x1) = ((?u\<lparr>uw_names := v', uw_armed := uw_armed ?u @ l'\<rparr>, x'), Inr ())"
      "set l' \<subseteq> range OnSettings"
      "told (known e (names_path ?u) nm z) (?u\<lparr>uw_names := v', uw_armed := uw_armed ?u @ l'\<rparr>, x')"
    by auto
  have "efor (w # ws) (track_settings e z) (u, x) =
      ((u\<lparr>uw_names := v', uw_armed := uw_armed u @ (l @ l')\<rparr>, x'), Inr ())"
    using rest(1) by (simp add: ebind_def step)
  moreover have "told (known e (names_path u) nm z) (u\<lparr>uw_names := v', uw_armed := uw_armed u @ (l @ l')\<rparr>, x')"
    using rest(3) by simp
  ultimately show ?case using l rest(2) by (metis Un_least set_append)
qed

lemma children_told:
  assumes "told (known e (names_path u) nm z) (u, x)" and "set units \<subseteq> known e (names_path u) nm z"
  shows "\<exists>v l x'. let u' = u\<lparr>uw_units := filter_units u units, uw_names := v, uw_armed := uw_armed u @ l\<rparr> in
    container_children e z units (u, x) = ((u', x'), Inr ()) \<and> set l \<subseteq> range OnSettings \<and> told (known e (names_path u) nm z) (u', x')"
proof (cases "uw_units u = filter_units u units")
  case True
  then have "u\<lparr>uw_units := filter_units u units, uw_names := uw_names u, uw_armed := uw_armed u @ []\<rparr> = u"
    by (metis append_Nil2 unit_watcher.surjective unit_watcher.update_convs(5,7,8))
  moreover have "container_children e z units (u, x) = ((u, x), Inr ())"
    using True by (simp add: container_children_def Let_def)
  ultimately show ?thesis
    using assms(1) unfolding Let_def by (metis empty_subsetI list.set(1))
next
  case False
  let ?ch = "filter_units u units" and ?K = "known e (names_path u) nm z"
  let ?added = "filter (\<lambda>uid. uid \<notin> set (uw_units u)) ?ch"
  let ?A = "set (uw_units u) \<union> set ?ch"
  define u1 where "u1 = (if ?added \<noteq> [] then u\<lparr>uw_names := YNone\<rparr> else u)"
  have sub: "set ?ch \<subseteq> ?K" using assms(2) by (auto simp: filter_units_def)
  have forget: "(if ?added \<noteq> [] then forget_names else eret ()) (u, x) = ((u1, x), Inr ())"
    by (simp add: u1_def forget_names_def eret_def)
  have u1: "uw_units u1 = uw_units u" "names_path u1 = names_path u" "valid_names nm (uw_names u1) ?A"
    using assms(1)
    by (auto simp: u1_def valid_names_def told_def y_true_def filter_empty_conv)
  have "?A \<noteq> {}" using False by auto
  moreover have "?A \<subseteq> known e (names_path u1) nm z" using assms(1) sub u1(2) by (auto simp: told_def)
  ultimately obtain v where v: "resolve_unit_names e z [uw_units u, ?ch] (u1, x) =
      ((u1\<lparr>uw_names := v\<rparr>, x), Inr [map nm (uw_units u), map nm ?ch])" "valid_names nm v ?A"
    using resolve_valid [OF u1(3), of e z "[uw_units u, ?ch]" x] by auto
  let ?u2 = "u1\<lparr>uw_names := v, uw_units := ?ch\<rparr>"
  obtain x' where x': "we_members e (sort (map nm (uw_units u))) (sort (map nm ?ch)) x = (x', True)" "P ?ch x'"
    using members_kept assms(1) unfolding told_def by blast
  have told2: "told (known e (names_path ?u2) nm z) (?u2, x')"
    using v(2) x'(2) sub u1(2) by (simp add: told_def valid_names_def)
  have ws: "fst ` set (watch_settings_for_units e z u ?added) \<subseteq> set (uw_units ?u2)"
    by (auto simp: watch_settings_for_units_def)
  from tracks_told [OF told2 ws] obtain v' l x'' where
    tr: "efor (watch_settings_for_units e z u ?added) (track_settings e z) (?u2, x') =
      ((?u2\<lparr>uw_names := v', uw_armed := uw_armed ?u2 @ l\<rparr>, x''), Inr ())"
      "set l \<subseteq> range OnSettings"
      "told (known e (names_path ?u2) nm z) (?u2\<lparr>uw_names := v', uw_armed := uw_armed ?u2 @ l\<rparr>, x'')" by blast
  have same: "?u2\<lparr>uw_names := v', uw_armed := uw_armed ?u2 @ l\<rparr> =
      u\<lparr>uw_units := ?ch, uw_names := v', uw_armed := uw_armed u @ l\<rparr>" by (simp add: u1_def)
  have "container_children e z units (u, x) =
      ((u\<lparr>uw_units := ?ch, uw_names := v', uw_armed := uw_armed u @ l\<rparr>, x''), Inr ())"
    unfolding container_children_def Let_def fst_conv if_not_P [OF False] same [symmetric]
    by (simp add: ebind_def forget v(1) update_units_def call_owner_def x'(1) tr(1))
  with tr(2,3) same u1(2) show ?thesis by (auto simp: Let_def intro!: exI)
qed

section \<open>Events\<close>

text \<open>What an operation leaves as it was, and when it may set a watch on the children.\<close>

definition same_watch :: "'z \<Rightarrow> unit_watcher \<Rightarrow> unit_watcher \<Rightarrow> bool" where
  "same_watch z u u' \<longleftrightarrow> uw_container u' = uw_container u \<and> names_path u' = names_path u
     \<and> uw_stopped u' = uw_stopped u \<and> set (uw_armed u) \<subseteq> set (uw_armed u')
     \<and> (OnChildren \<in> set (uw_armed u') \<longrightarrow> OnChildren \<in> set (uw_armed u) \<or> children_at e (uw_container u) z \<noteq> None)"

lemma same_watch_refl [simp]: "same_watch z u u"
  by (simp add: same_watch_def)

lemma same_watch_trans: "same_watch z u u' \<Longrightarrow> same_watch z u' u'' \<Longrightarrow> same_watch z u u''"
  by (auto simp: same_watch_def)

definition on_watch :: "unit_watcher \<Rightarrow> bool" where
  "on_watch u \<longleftrightarrow> OnChildren \<in> set (uw_armed u) \<or> OnCreated \<in> set (uw_armed u)"

lemma rewatch_told:
  assumes "told (known e (names_path u) nm z) (u, x)" and "names_first e (uw_container u) (names_path u) nm z"
    and "children_at e (uw_container u) z = Some ch"
  shows "\<exists>u' x'. ebind (container_children e z ch) (\<lambda>_. arm OnChildren) (u, x) = ((u', x'), Inr ())
    \<and> told (known e (names_path u) nm z) (u', x') \<and> same_watch z u u' \<and> on_watch u'"
proof -
  obtain v l x' where step: "container_children e z ch (u, x) =
      ((u\<lparr>uw_units := filter_units u ch, uw_names := v, uw_armed := uw_armed u @ l\<rparr>, x'), Inr ())"
    and "set l \<subseteq> range OnSettings"
    and told: "told (known e (names_path u) nm z)
      (u\<lparr>uw_units := filter_units u ch, uw_names := v, uw_armed := uw_armed u @ l\<rparr>, x')"
    using children_told [OF assms(1), of ch] assms(2,3) unfolding names_first_def Let_def by blast
  let ?u = "u\<lparr>uw_units := filter_units u ch, uw_names := v, uw_armed := (uw_armed u @ l) @ [OnChildren]\<rparr>"
  have "ebind (container_children e z ch) (\<lambda>_. arm OnChildren) (u, x) = ((?u, x'), Inr ())"
    by (simp add: ebind_def step arm_def)
  moreover have "told (known e (names_path u) nm z) (?u, x')" using told by (simp add: told_def)
  moreover have "same_watch z u ?u" "on_watch ?u" using assms(3) by (auto simp: same_watch_def on_watch_def)
  ultimately show ?thesis by blast
qed

lemma watch_container_told:
  "told (known e (names_path u) nm z) (u, x) \<Longrightarrow> names_first e (uw_container u) (names_path u) nm z \<Longrightarrow>
   \<exists>u' x'. watch_container e z (Suc n) est (u, x) = ((u', x'), Inr ())
    \<and> told (known e (names_path u) nm z) (u', x') \<and> same_watch z u u' \<and> on_watch u'"
proof (induction n arbitrary: u x est)
  case (0 u x)
  show ?case
  proof (cases "children_at e (uw_container u) z")
    case None
    let ?u = "u\<lparr>uw_armed := uw_armed u @ [OnCreated]\<rparr>"
    have "watch_container e z (Suc 0) est (u, x) = ((?u, x), Inr ())"
      using None by (simp add: children_at_def Let_def ebind_def arm_def detached_def eret_def)
    moreover have "told (known e (names_path u) nm z) (?u, x)" "same_watch z u ?u" "on_watch ?u"
      using 0(1) by (auto simp: told_def same_watch_def on_watch_def)
    ultimately show ?thesis by blast
  next
    case (Some ch)
    from rewatch_told [OF 0 Some] obtain u' x' where
      "ebind (container_children e z ch) (\<lambda>_. arm OnChildren) (u, x) = ((u', x'), Inr ())"
      and rest: "told (known e (names_path u) nm z) (u', x') \<and> same_watch z u u' \<and> on_watch u'" by blast
    then have "watch_container e z (Suc 0) est (u, x) = ((u', x'), Inr ())"
      using Some by (simp add: children_at_def ecatch_def)
    with rest show ?thesis by blast
  qed
next
  case (Suc n u x)
  show ?case
  proof (cases "children_at e (uw_container u) z")
    case None
    let ?u = "u\<lparr>uw_armed := uw_armed u @ [OnCreated]\<rparr>"
    have start: "told (known e (names_path ?u) nm z) (?u, x)" "same_watch z u ?u" "on_watch ?u"
        "names_first e (uw_container ?u) (names_path ?u) nm z"
      using Suc.prems by (auto simp: told_def same_watch_def on_watch_def)
    from Suc.IH [OF start(1,4), of False] obtain u' x' where
      u': "watch_container e z (Suc n) False (?u, x) = ((u', x'), Inr ())"
        "told (known e (names_path u) nm z) (u', x')" "same_watch z ?u u'" "on_watch u'" by auto
    have "watch_container e z (Suc (Suc n)) est (u, x) =
        (if zc_exists (se_client (we_state e)) z (uw_container u) then ((u', x'), Inr ()) else ((?u, x), Inr ()))"
      using None u'(1)
      by (simp del: watch_container.simps add: watch_container.simps(2) [of e z "Suc n"] children_at_def Let_def
          ebind_def arm_def detached_def eret_def)
    with u'(2,4) start same_watch_trans [OF start(2) u'(3)] show ?thesis by auto
  next
    case (Some ch)
    from rewatch_told [OF Suc.prems Some] obtain u' x' where
      "ebind (container_children e z ch) (\<lambda>_. arm OnChildren) (u, x) = ((u', x'), Inr ())"
      and rest: "told (known e (names_path u) nm z) (u', x') \<and> same_watch z u u' \<and> on_watch u'" by blast
    then have "watch_container e z (Suc (Suc n)) est (u, x) = ((u', x'), Inr ())"
      using Some by (simp add: children_at_def ecatch_def)
    with rest show ?thesis by blast
  qed
qed

text \<open>The invariant between events, and what an event at \<open>z\<close> makes of it.\<close>

definition watch_inv :: "string set \<Rightarrow> unit_watcher \<times> 'w \<Rightarrow> bool" where
  "watch_inv K s \<longleftrightarrow> told K s \<and> (uw_stopped (fst s) = Some False \<longrightarrow> on_watch (fst s))"

definition moves_to :: "'z \<Rightarrow> unit_watcher \<Rightarrow> unit_watcher \<Rightarrow> bool" where
  "moves_to z u u' \<longleftrightarrow> uw_container u' = uw_container u \<and> names_path u' = names_path u
     \<and> (OnChildren \<in> set (uw_armed u') \<longrightarrow> OnChildren \<in> set (uw_armed u) \<or> children_at e (uw_container u) z \<noteq> None)"

lemma moves_refl [simp]: "moves_to z u u"
  by (simp add: moves_to_def)

lemma moves_fields: "moves_to z u (u'\<lparr>uw_stopped := b\<rparr>) = moves_to z u u'"
    "moves_to z (u\<lparr>uw_stopped := b\<rparr>) u' = moves_to z u u'"
  by (auto simp: moves_to_def)

lemma same_watch_moves:
  assumes "same_watch z (u\<lparr>uw_armed := remove1 a (uw_armed u)\<rparr>) u'"
  shows "moves_to z u u'"
  using assms by (auto simp: same_watch_def moves_to_def dest: subsetD [OF set_remove1_subset])

lemma start_inv:
  assumes "told (known e (names_path u) nm z) (u, x)" and "names_first e (uw_container u) (names_path u) nm z"
    and "uw_stopped u = Some False \<longrightarrow> on_watch u"
  shows "\<exists>u' x'. watch_step e z StartWatch (u, x) = (u', x') \<and> watch_inv (known e (names_path u) nm z) (u', x')
    \<and> moves_to z u u'"
proof (cases "uw_stopped u = Some False")
  case True
  then show ?thesis using assms by (simp add: watch_step_def start_watcher_def watch_inv_def)
next
  case False
  let ?u = "u\<lparr>uw_stopped := Some False\<rparr>"
  have "told (known e (names_path ?u) nm z) (?u, x)" "names_first e (uw_container ?u) (names_path ?u) nm z"
    using assms by (simp_all add: told_def)
  from watch_container_told [OF this, of 1 True] obtain u' x' where
    u': "watch_container e z 2 True (?u, x) = ((u', x'), Inr ())"
      "told (known e (names_path u) nm z) (u', x')" "same_watch z ?u u'" "on_watch u'"
    by (auto simp: numeral_2_eq_2)
  have "watch_step e z StartWatch (u, x) = (u', x')"
    using False u'(1) by (simp add: watch_step_def start_watcher_def detached_def)
  moreover have "moves_to z u u'" using u'(3) by (simp add: same_watch_def moves_to_def)
  ultimately show ?thesis using u'(2,4) by (simp add: watch_inv_def)
qed

lemma fires_inv:
  assumes told: "told (known e (names_path u) nm z) (u, x)"
    and first: "names_first e (uw_container u) (names_path u) nm z"
    and alert: "uw_stopped u = Some False \<longrightarrow> on_watch u"
    and stays: "OnChildren \<in> set (uw_armed u) \<Longrightarrow> children_at e (uw_container u) z \<noteq> None"
    and created: "a = OnCreated \<Longrightarrow> created"
  shows "\<exists>u' x'. watch_step e z (Fires a created) (u, x) = (u', x') \<and> watch_inv (known e (names_path u) nm z) (u', x')
    \<and> moves_to z u u'"
proof (cases "a \<in> set (uw_armed u)")
  case False
  then show ?thesis using told alert by (simp add: watch_step_def watch_inv_def)
next
  case True
  let ?u = "u\<lparr>uw_armed := remove1 a (uw_armed u)\<rparr>"
  have told': "told (known e (names_path ?u) nm z) (?u, x)"
    and first': "names_first e (uw_container ?u) (names_path ?u) nm z"
    using told first by (simp_all add: told_def)
  have step: "watch_step e z (Fires a created) (u, x) = fst ((case a of
              OnChildren \<Rightarrow> container_child_change e z
            | OnCreated \<Rightarrow> container_created e z created
            | OnSettings uid \<Rightarrow> unit_change e z uid) (?u, x))"
    using True by (simp add: watch_step_def ebind_def disarm_def)
  show ?thesis
  proof (cases a)
    case OnChildren
    show ?thesis
    proof (cases "uw_stopped u = Some True")
      case True
      then have "watch_step e z (Fires a created) (u, x) = (?u, x)"
        using step OnChildren by (simp add: container_child_change_def)
      moreover have "moves_to z u ?u" by (rule same_watch_moves [where a = a]) simp
      ultimately show ?thesis using told' True by (simp add: watch_inv_def)
    next
      case False
      obtain ch where ch: "children_at e (uw_container ?u) z = Some ch" using stays True OnChildren by auto
      from rewatch_told [OF told' first' ch] obtain u' x' where
        u': "ebind (container_children e z ch) (\<lambda>_. arm OnChildren) (?u, x) = ((u', x'), Inr ())"
          "told (known e (names_path u) nm z) (u', x')" "same_watch z ?u u'" "on_watch u'" by auto
      have "watch_step e z (Fires a created) (u, x) = (u', x')"
        using step OnChildren False ch u'(1) by (simp add: container_child_change_def children_at_def)
      with u' same_watch_moves [OF u'(3)] show ?thesis by (simp add: watch_inv_def)
    qed
  next
    case OnCreated
    from watch_container_told [OF told' first', of 1 False] obtain u' x' where
      u': "watch_container e z 2 False (?u, x) = ((u', x'), Inr ())"
        "told (known e (names_path u) nm z) (u', x')" "same_watch z ?u u'" "on_watch u'"
      by (auto simp: numeral_2_eq_2)
    have "watch_step e z (Fires a created) (u, x) = (u', x')"
      using step OnCreated created u'(1) by (simp add: container_created_def)
    with u' same_watch_moves [OF u'(3)] show ?thesis by (simp add: watch_inv_def)
  next
    case (OnSettings uid)
    have alert': "uw_stopped u = Some False \<longrightarrow> on_watch ?u"
      using alert OnSettings by (auto simp: on_watch_def)
    show ?thesis
    proof (cases "uw_stopped u = Some True \<or> uid \<notin> set (uw_units u)")
      case True
      then have "watch_step e z (Fires a created) (u, x) = (?u, x)"
        using step OnSettings by (simp add: unit_change_def)
      moreover have "moves_to z u ?u" by (rule same_watch_moves [where a = a]) simp
      ultimately show ?thesis using told' alert' by (simp add: watch_inv_def)
    next
      case False
      then obtain v x' where
        n: "notify_settings_version e z (we_version e z (unit_settings_of ?u uid)) uid (?u, x) = ((?u\<lparr>uw_names := v\<rparr>, x'), Inr ())"
          "told (known e (names_path ?u) nm z) (?u\<lparr>uw_names := v\<rparr>, x')"
        using notify_told [OF told', where uid = uid and stat = "we_version e z (unit_settings_of ?u uid)"] by auto
      let ?v = "u\<lparr>uw_names := v, uw_armed := remove1 a (uw_armed u) @ [OnSettings uid]\<rparr>"
      have "watch_step e z (Fires a created) (u, x) = (?v, x')"
        using step OnSettings False n(1) by (simp add: unit_change_def Let_def ebind_def arm_def)
      moreover have "told (known e (names_path u) nm z) (?v, x')" using n(2) by (simp add: told_def)
      moreover have "moves_to z u ?v"
        using OnSettings by (auto simp: moves_to_def dest: subsetD [OF set_remove1_subset])
      moreover have "uw_stopped ?v = Some False \<longrightarrow> on_watch ?v" using alert' by (auto simp: on_watch_def)
      ultimately show ?thesis by (simp add: watch_inv_def)
    qed
  qed
qed

lemma step_inv:
  assumes "watch_inv K (u, x)" and "K \<subseteq> known e (names_path u) nm z"
    and "names_first e (uw_container u) (names_path u) nm z"
    and "OnChildren \<in> set (uw_armed u) \<Longrightarrow> children_at e (uw_container u) z \<noteq> None"
    and "ev \<noteq> Fires OnCreated False"
  shows "\<exists>u' x'. watch_step e z ev (u, x) = (u', x') \<and> watch_inv (known e (names_path u) nm z) (u', x') \<and> moves_to z u u'"
proof -
  have told: "told (known e (names_path u) nm z) (u, x)" and alert: "uw_stopped u = Some False \<longrightarrow> on_watch u"
    using assms(1,2) told_mono by (auto simp: watch_inv_def)
  show ?thesis
  proof (cases ev)
    case StartWatch
    then show ?thesis using start_inv [OF told assms(3) alert] by simp
  next
    case StopWatch
    then show ?thesis using told by (simp add: watch_step_def stop_watcher_def watch_inv_def told_def moves_to_def)
  next
    case (Fires a created)
    then show ?thesis using fires_inv [OF told assms(3) alert assms(4)] assms(5) by blast
  qed
qed

theorem run_inv:
  "watch_inv K (u, x) \<Longrightarrow> (\<And>z. z \<in> fst ` set evs \<Longrightarrow> K \<subseteq> known e (names_path u) nm z) \<Longrightarrow>
   (\<And>z. z \<in> fst ` set evs \<Longrightarrow> OnChildren \<in> set (uw_armed u) \<Longrightarrow> children_at e (uw_container u) z \<noteq> None) \<Longrightarrow>
   history_ok e (uw_container u) (names_path u) nm evs \<Longrightarrow> \<exists>K'. watch_inv K' (watch_run e evs (u, x))"
proof (induction evs arbitrary: K u x)
  case Nil
  then show ?case by (auto simp: watch_run_def)
next
  case (Cons zev evs)
  obtain z ev where zev: "zev = (z, ev)" by (cases zev)
  let ?p = "uw_container u" and ?np = "names_path u"
  have ok: "names_first e ?p ?np nm z" "ev \<noteq> Fires OnCreated False" "history_ok e ?p ?np nm evs"
      "\<And>z'. z' \<in> fst ` set evs \<Longrightarrow> grows e ?p ?np nm z z'"
    using Cons.prems(4) by (auto simp: zev history_ok_def)
  obtain u' x' where step: "watch_step e z ev (u, x) = (u', x')" "watch_inv (known e ?np nm z) (u', x')" "moves_to z u u'"
    using step_inv [of K u x z ev] Cons.prems(1,2,3) ok(1,2) by (auto simp: zev)
  have same: "uw_container u' = ?p" "names_path u' = ?np" using step(3) by (simp_all add: moves_to_def)
  have "\<exists>K'. watch_inv K' (watch_run e evs (u', x'))"
  proof (rule Cons.IH [OF step(2)])
    fix z'
    assume z': "z' \<in> fst ` set evs"
    then show "known e ?np nm z \<subseteq> known e (names_path u') nm z'" using ok(4) same by (simp add: grows_def)
    assume "OnChildren \<in> set (uw_armed u')"
    then show "children_at e (uw_container u') z' \<noteq> None"
      using step(3) ok(4) [OF z'] Cons.prems(3) [of z'] z' same by (auto simp: moves_to_def grows_def zev)
  qed (use ok(3) same in simp)
  then show ?case by (simp add: zev watch_run_def step(1))
qed

end

end
