(* ===== verification/RelationLifecycleProps.thy ===== *)
theory RelationLifecycleProps
  imports RelationLifecycle RelationWatcherProps RelationWorkflowProps
begin

text \<open>
  The composition of watcher, scheduler, lifecycle and workflow of a relation: what the scheduler queues
  is what the watcher saw, and what runs is what the workflow's state says.
\<close>

section \<open>The scheduler as the watcher's owner\<close>

definition unused :: "scheduler \<Rightarrow> bool" where
  "unused s \<longleftrightarrow> \<not> sc_running s \<and> sc_waiting s = 0 \<and> sc_context_members s = None \<and> sc_member_versions s = []
     \<and> sc_pending s = []"

definition fed :: "string set \<Rightarrow> (string \<Rightarrow> string) \<Rightarrow> string list \<Rightarrow> scheduler \<Rightarrow> bool" where
  "fed charm nm us s \<longleftrightarrow> (us = [] \<and> charm = {} \<and> unused s)
     \<or> (track charm (nm ` set us) s \<and> set (dkeys (sc_member_versions s)) = nm ` set us)"

lemma unused_members:
  assumes "unused s"
  shows "\<exists>s'. cb_change_members [] new s = (s', None) \<and> track {} (set new) s'
    \<and> set (dkeys (sc_member_versions s')) = set new"
proof -
  let ?s = "s\<lparr>sc_context_members := Some {}\<rparr>"
  have "cb_change_members [] new s = cb_change_members [] new ?s"
    using assms by (simp add: cb_change_members_def unused_def)
  moreover have "track {} {} ?s" "set (dkeys (sc_member_versions ?s)) = {}"
    using assms by (simp_all add: track_def unused_def replay_def)
  ultimately show ?thesis using change_members_track [of "{}" "{}" ?s "[]" new] by simp
qed

lemma fed_members:
  assumes "fed charm nm us s"
  shows "\<exists>s'. cb_change_members (sort (map nm us)) (sort (map nm us')) s = (s', None) \<and> fed charm nm us' s'"
proof -
  have "set (sort (map nm us')) = nm ` set us'" by simp
  with assms show ?thesis
    unfolding fed_def
    using change_members_track [of charm "nm ` set us" s "sort (map nm us)" "sort (map nm us')"]
      unused_members [of s "sort (map nm us')"] by auto
qed

lemma fed_settings:
  assumes "fed charm nm us s" and "uid \<in> set us"
  shows "\<exists>s'. cb_change_settings [(nm uid, version)] s = (s', None) \<and> fed charm nm us s'"
  using assms change_settings_track [of charm "nm ` set us" s "nm uid" version] by (auto simp: fed_def)

text \<open>The laws of the watcher's contract hold for the scheduler's callbacks.\<close>

interpretation queue: watch_owner "scheduler_watch st ver conn" nm "fed charm nm"
proof unfold_locales
  fix us us' s
  assume "fed charm nm us s"
  from fed_members [OF this, of us']
  show "\<exists>s'. we_members (scheduler_watch st ver conn) (sort (map nm us)) (sort (map nm us')) s = (s', True)
      \<and> fed charm nm us' s'"
    by (auto simp: scheduler_watch_def)
next
  fix us s uid version
  assume "fed charm nm us s" "uid \<in> set us"
  from fed_settings [OF this, of version]
  show "\<exists>s'. we_settings (scheduler_watch st ver conn) [(nm uid, version)] s = (s', True) \<and> fed charm nm us s'"
    by (auto simp: scheduler_watch_def)
qed

lemma new_watcher_inv:
  assumes "fed charm nm [] s"
  shows "queue.watch_inv nm charm K (new_watcher ur role path, s)"
  using assms by (simp add: queue.watch_inv_def queue.told_def new_watcher_def valid_names_def y_true_def)

lemma unused_new: "unused (new_scheduler Missing)"
  by (simp add: unused_def new_scheduler_def create_state_def)


text \<open>The other end's container appears after the watch was started, with one unit.\<close>

definition demo_nodes :: "(string, content) dict" where
  "demo_nodes =
     [(''/relations/relation-0'', Value (YMap [(''u-0'', YText ''mysql/0'')])),
      (''/relations/relation-0/server'', Value YNone), (''/relations/relation-0/server/u-0'', Value YNone)]"

definition demo_watch :: "((string, content) dict, content, scheduler) watch_env" where
  "demo_watch = scheduler_watch dict_env (\<lambda>z p. if dhas z p then Some 0 else None) (\<lambda>_. True)"

definition demo_watcher :: unit_watcher where
  "demo_watcher = new_watcher \<lparr>ur_service = ''s-1'', ur_unit = ''u-1'', ur_relation = ''relation-0'', ur_scope = ''global'',
     ur_role = Some ''client''\<rparr> ''client'' ''/relations/relation-0/server''"

lemma demo_children: "children_at demo_watch ''/relations/relation-0/server'' demo_nodes = Some [''u-0'']"
  by (simp add: children_at_def demo_watch_def scheduler_watch_def dict_env_def) code_simp

lemma demo_names_path: "names_path demo_watcher = ''/relations/relation-0''"
  by code_simp

lemma demo_known: "''u-0'' \<in> known demo_watch ''/relations/relation-0'' (\<lambda>_. ''mysql/0'') demo_nodes"
  by (simp add: known_def demo_watch_def scheduler_watch_def dict_env_def demo_nodes_def name_in_def)


text \<open>
  A watcher that waits for its container does not notice \<open>stop\<close>: when the container appears it watches it
  and calls back, which the documentation of \<open>stop\<close> rules out.
\<close>

lemma stopped_watcher_reports:
  "let (u, s) = watch_run demo_watch [([], StartWatch), ([], StopWatch), (demo_nodes, Fires OnCreated True)]
      (demo_watcher, new_scheduler Missing)
   in \<not> watcher_running u \<and> map ch_unit_name (sc_pending s) = [''mysql/0'']"
  by code_simp

section \<open>The lifecycle keeps in step with the workflow\<close>

text \<open>What runs in each state of a relation's workflow.\<close>

definition in_step :: "string option \<Rightarrow> 'z relation_life \<Rightarrow> bool" where
  "in_step state l \<longleftrightarrow> life_executing l = (state = Some ''up'') \<and> life_watching l = (state \<in> {Some ''up'', Some ''error''})"

lemma run_running: "\<not> sc_running s \<Longrightarrow> sc_running (fst (run True s))"
  by (auto simp: run_def loop_turn_def execute_def split: list.splits)

lemma stop_not_running: "\<not> sc_running (fst (stop s))"
  by (auto simp: stop_def put_stop_def Let_def loop_turn_def split: list.splits)

lemma life_executing_simps [simp]:
  "life_executing (l\<lparr>rf_watcher := w\<rparr>) = life_executing l" "life_executing (l\<lparr>rf_relation := ur\<rparr>) = life_executing l"
  "life_executing (l\<lparr>rf_scheduler := s\<rparr>) = sc_running s" "life_executing (l\<lparr>rf_zk := z\<rparr>) = life_executing l"
  "life_watching (l\<lparr>rf_scheduler := s\<rparr>) = life_watching l" "life_watching (l\<lparr>rf_relation := ur\<rparr>) = life_watching l"
  "life_watching (l\<lparr>rf_zk := z\<rparr>) = life_watching l" "life_watching (l\<lparr>rf_handler := b\<rparr>) = life_watching l"
  "life_executing (l\<lparr>rf_handler := b\<rparr>) = life_executing l"
  by (simp_all add: life_executing_def life_watching_def)

lemma life_stop_result:
  "\<exists>l'. life_stop b l = (LReturned, l') \<and> \<not> life_executing l' \<and> life_watching l' = (life_watching l \<and> \<not> b)"
  by (cases "rf_watcher l")
    (auto simp: life_stop_def Let_def stop_not_running life_watching_def watcher_running_def stop_watcher_def)

text \<open>The callbacks of the scheduler leave it running or not.\<close>

lemma save_running [simp]: "sc_running (fst (save_state s)) = sc_running s"
  by (simp add: save_state_def split: option.split)

lemma queue_change_running [simp]: "sc_running (fst (queue_change c k s)) = sc_running s"
  by (auto simp: queue_change_def split: option.split)

lemma sthen_running:
  assumes "\<And>s. sc_running (fst (f s)) = sc_running s"
  shows "sc_running (fst (sthen r f)) = sc_running (fst r)"
  using assms by (cases r) (auto simp: sthen_def split: option.split)

lemma put_running: "sc_running (fst (put c k s)) = sc_running s"
proof (cases "sc_waiting s > 0")
  case True
  have "sc_running (fst (case sc_pending s1 of [] \<Rightarrow> (s1, None)
      | head # _ \<Rightarrow> (execute head (s1\<lparr>sc_waiting := sc_waiting s1 - 1\<rparr>), None))) = sc_running s1" for s1
    by (simp add: execute_def split: list.split)
  from sthen_running [OF this] True show ?thesis by (simp add: put_def)
qed (simp add: put_def)

lemma put_change_running: "sc_running (fst (put_change u t k s)) = sc_running s"
  by (simp add: put_change_def put_running split: sum.split)

lemma sfold_running: "(\<And>x s. sc_running (fst (f x s)) = sc_running s) \<Longrightarrow> sc_running (fst (sfold f xs s)) = sc_running s"
  by (induction xs arbitrary: s) (simp_all add: sthen_running)

lemma callbacks_running:
  "sc_running (fst (cb_change_members old new s)) = sc_running s"
  "sc_running (fst (cb_change_settings versions s)) = sc_running s"
proof -
  have member: "sc_running (fst (member_added u s)) = sc_running s" "sc_running (fst (member_removed u s)) = sc_running s" for u s
    by (simp_all add: member_added_def member_removed_def Let_def put_change_running split: option.split)
  then show "sc_running (fst (cb_change_members old new s)) = sc_running s"
    by (simp add: cb_change_members_def Let_def sthen_running sfold_running)
  have "sc_running (fst (settings_changed uv s)) = sc_running s" for uv s
    by (simp add: settings_changed_def Let_def put_change_running split: prod.split)
  then show "sc_running (fst (cb_change_settings versions s)) = sc_running s"
    by (simp add: cb_change_settings_def sthen_running sfold_running)
qed

text \<open>So nothing the watcher does changes what runs.\<close>

definition runs_alike :: "unit_watcher \<times> scheduler \<Rightarrow> unit_watcher \<times> scheduler \<Rightarrow> bool" where
  "runs_alike s t \<longleftrightarrow> uw_stopped (fst t) = uw_stopped (fst s) \<and> sc_running (snd t) = sc_running (snd s)"

interpretation alike: eff_relation runs_alike
  by unfold_locales (simp_all add: runs_alike_def)

lemma alike_parts:
  "alike.keeps (load_names e z)" "alike.keeps (arm a)" "alike.keeps (update_units us)" "alike.keeps forget_names"
  by (auto simp: alike.keeps_def runs_alike_def load_names_def arm_def update_units_def forget_names_def Let_def
      split: prod.split option.split)

lemma alike_call:
  assumes "\<And>s. sc_running (fst (f s)) = sc_running s"
  shows "alike.keeps (call_owner f)"
  using assms unfolding alike.keeps_def by (simp add: runs_alike_def call_owner_def split_beta)

lemma alike_detached: "alike.keeps m \<Longrightarrow> alike.keeps (detached m)"
  by (simp add: alike.keeps_def detached_def)

lemma life_watch_running:
  "sc_running (fst (we_members (life_watch e) old new s)) = sc_running s"
  "sc_running (fst (we_settings (life_watch e) versions s)) = sc_running s"
  by (simp_all add: life_watch_def scheduler_watch_def callbacks_running split_beta)

lemma alike_resolve: "alike.keeps (resolve_unit_names e z ids)"
  unfolding resolve_unit_names_def by (intro alike.keeps_bind alike.keeps_pure alike_parts)

lemma alike_notify: "alike.keeps (notify_settings_version (life_watch e) z stat uid)"
proof (cases stat)
  case (Some version)
  show ?thesis
    unfolding notify_settings_version_def Some option.case
    by (intro alike.keeps_bind alike_resolve alike_call life_watch_running)
qed (simp add: notify_settings_version_def alike.keeps_pure)

lemma alike_children: "alike.keeps (container_children (life_watch e) z units)"
proof -
  have "alike.keeps (\<lambda>s. case resolve_unit_names (life_watch e) z ids s of (s, r) \<Rightarrow> (fst (update_units ch s), r))" for ids ch
    unfolding alike.keeps_def split_beta fst_conv
    by (intro allI alike.R_trans [OF alike.keepsD [OF alike_resolve] alike.keepsD [OF alike_parts(3)]])
  moreover have "alike.keeps (track_settings (life_watch e) z w)" for w
    unfolding track_settings_def split_beta
    by (intro alike_detached alike.keeps_bind alike_notify alike_parts)
  moreover have "alike.keeps (if b then forget_names else eret ())" for b
    by (cases b) (auto intro: alike_parts)
  ultimately have body: "alike.keeps (ebind (if b then forget_names else eret ()) (\<lambda>_.
      ebind (\<lambda>s. case resolve_unit_names (life_watch e) z ids s of (s, r) \<Rightarrow> (fst (update_units ch s), r)) (\<lambda>names.
      ebind (call_owner (we_members (life_watch e) (sort (names ! 0)) (sort (names ! 1)))) (\<lambda>_.
      efor ws (track_settings (life_watch e) z)))))" for b ids ch ws
    by (intro alike.keeps_bind alike_call alike.keeps_for life_watch_running)
  show ?thesis
    unfolding alike.keeps_def
  proof
    fix s
    show "runs_alike s (fst (container_children (life_watch e) z units s))"
    proof (cases "uw_units (fst s) = filter_units (fst s) units")
      case True
      then show ?thesis by (simp add: container_children_def Let_def alike.R_refl)
    next
      case False
      show ?thesis
        unfolding container_children_def Let_def if_not_P [OF False] by (rule alike.keepsD [OF body])
    qed
  qed
qed

lemma alike_watch: "alike.keeps (watch_container (life_watch e) z n est)"
proof (induction n arbitrary: est)
  case 0
  show ?case by (simp add: alike.keeps_def alike.R_refl)
next
  case (Suc n)
  have none: "alike.keeps (ebind (arm OnCreated) (\<lambda>_. if b then eret () else detached (watch_container (life_watch e) z n False)))" for b
    using Suc.IH by (auto intro!: alike_parts alike_detached)
  show ?case
    unfolding alike.keeps_def
  proof
    fix s
    show "runs_alike s (fst (watch_container (life_watch e) z (Suc n) est s))"
    proof (cases "zc_children (se_client (we_state (life_watch e))) z (uw_container (fst s))")
      case None
      then show ?thesis
        unfolding watch_container.simps(2) Let_def None option.case by (intro alike.keepsD none)
    next
      case (Some ch)
      have "alike.keeps (ecatch (ebind (container_children (life_watch e) z ch) (\<lambda>_. arm OnChildren))
          (\<lambda>err. case err of WatchRead (NoNode p) \<Rightarrow> Some (ebind (arm OnCreated) (\<lambda>_. if b then eret ()
             else detached (watch_container (life_watch e) z n False))) | _ \<Rightarrow> None))" for b
      proof (rule alike.keeps_catch)
        show "alike.keeps (ebind (container_children (life_watch e) z ch) (\<lambda>_. arm OnChildren))"
          by (intro alike.keeps_bind alike_children alike_parts)
      qed (use none in \<open>auto split: watch_error.splits state_error.splits\<close>)
      then show ?thesis
        unfolding watch_container.simps(2) Let_def Some option.case by (rule alike.keepsD)
    qed
  qed
qed

lemma watch_related_new: "watch_related_units st z ur = (ur', Inr u) \<Longrightarrow> uw_stopped u = None"
  by (auto simp: watch_related_units_def ebind_eq_Inr eread_def new_watcher_def)

lemma created_watcher:
  assumes "create_watcher e l = (err, l')"
  shows "life_executing l' = life_executing l" and "life_watching l' = life_watching l"
    and "err = None \<Longrightarrow> rf_watcher l' \<noteq> None"
  using assms
  by (auto simp: create_watcher_def life_watching_def watcher_running_def dest!: watch_related_new
      split: if_splits prod.splits sum.splits)

lemma start_watching_result:
  assumes "rf_watcher l = Some u" and "\<not> life_watching l"
  shows "life_watching (start_watching e l)" and "life_executing (start_watching e l) = life_executing l"
proof -
  have idle: "uw_stopped u \<noteq> Some False" using assms by (simp add: life_watching_def watcher_running_def)
  obtain u' s' where run: "fst (watch_container (life_watch e) (rf_zk l) 2 True (u\<lparr>uw_stopped := Some False\<rparr>, rf_scheduler l)) = (u', s')"
    by (cases "fst (watch_container (life_watch e) (rf_zk l) 2 True (u\<lparr>uw_stopped := Some False\<rparr>, rf_scheduler l))")
  have "uw_stopped u' = Some False" "sc_running s' = sc_running (rf_scheduler l)"
    using alike.keepsD [OF alike_watch, of "(u\<lparr>uw_stopped := Some False\<rparr>, rf_scheduler l)" e "rf_zk l" 2 True] run
    by (simp_all add: runs_alike_def)
  moreover have "start_watching e l = l\<lparr>rf_watcher := Some u', rf_scheduler := s'\<rparr>"
    using assms(1) idle run by (simp add: start_watching_def start_watcher_def detached_def)
  ultimately show "life_watching (start_watching e l)" "life_executing (start_watching e l) = life_executing l"
    by (simp_all add: life_watching_def life_executing_def watcher_running_def)
qed

lemma life_start_result:
  assumes "le_writeable e" and "life_start e b b' l = (LReturned, l')"
  shows "life_executing l' = (life_executing l \<or> b')" and "life_watching l' = (life_watching l \<or> b)"
proof -
  let ?l1 = "run_scheduler e b' l"
  have l1: "life_executing ?l1 = (life_executing l \<or> b')" "life_watching ?l1 = life_watching l"
    using assms(1) run_running by (auto simp: run_scheduler_def life_executing_def)
  obtain l2 where l2: "create_watcher e ?l1 = (None, l2)"
      and l': "l' = (if b \<and> \<not> life_watching l2 then start_watching e l2 else l2)"
    using assms(2) by (auto simp: life_start_def split: prod.splits option.splits)
  note c = created_watcher [OF l2]
  obtain u where u: "rf_watcher l2 = Some u" using c(3) by auto
  show "life_executing l' = (life_executing l \<or> b')" "life_watching l' = (life_watching l \<or> b)"
    using start_watching_result [OF u, of e] c(1,2) l1 by (auto simp: l')
qed

lemma life_depart_keeps:
  "life_executing (snd (life_depart e l)) = life_executing l" "life_watching (snd (life_depart e l)) = life_watching l"
  by (auto simp: life_depart_def execute_hook_def split: prod.split hook_outcome.split)

lemma do_depart_result:
  assumes "do_depart (life_ops e) l = (ActReturned vs, l')"
  shows "\<not> life_executing l'" and "\<not> life_watching l'"
proof -
  obtain l1 where l1: "life_stop True l = (LReturned, l1)" "\<not> life_executing l1" "\<not> life_watching l1"
    using life_stop_result [of True l] by blast
  have "l' = snd (life_depart e (set_hook_error_handler False l1))"
    using assms l1(1)
    by (auto simp: do_depart_def act_then_def relation_call_def life_ops_def split: prod.splits lifecycle_result.splits)
  then show "\<not> life_executing l'" "\<not> life_watching l'"
    using l1(2,3) by (simp_all add: life_depart_keeps set_hook_error_handler_def)
qed

lemma relation_call_returns: "relation_call f w = (ActReturned vs, w') \<longleftrightarrow> vs = None \<and> f w = (LReturned, w')"
  by (auto simp: relation_call_def split: prod.splits lifecycle_result.splits)

lemma action_in_step:
  assumes e: "le_writeable e" and t: "t \<in> set relation_transitions" and before: "in_step (tr_source t) l"
    and run: "run_action (relation_env y client identity (life_ops e)) (tr_id t) l = (ActReturned vs, l')"
  shows "in_step (Some (tr_destination t)) l'"
proof -
  have act: "dget (relation_actions (life_ops e)) (tr_id t) = Some f \<Longrightarrow> f l = (ActReturned vs, l')" for f
    using run by (simp add: run_action_def relation_env_def)
  have stop: "in_step st l'" if "relation_call (life_stop True) l = (ActReturned vs, l')" "st \<noteq> Some ''up''" "st \<noteq> Some ''error''" for st
    using that life_stop_result [of True l] by (auto simp: relation_call_returns in_step_def)
  have start: "in_step (Some ''up'') l'" if "relation_call (life_start e b True) l = (ActReturned vs, l')" "life_watching l \<or> b" for b
    using that life_start_result [OF e, of b True l l'] by (auto simp: relation_call_returns in_step_def)
  have fail: "in_step (Some ''error'') l'" if "relation_call (life_stop False) l = (ActReturned vs, l')" "life_watching l"
    using that life_stop_result [of False l] by (auto simp: relation_call_returns in_step_def)
  have depart: "in_step (Some ''departed'') l'" if "do_depart (life_ops e) l = (ActReturned vs, l')"
    using do_depart_result [OF that] by (simp add: in_step_def)
  have watching: "life_watching l" if "tr_source t = Some ''up'' \<or> tr_source t = Some ''error''"
    using before that by (auto simp: in_step_def)
  from t show ?thesis
    using act watching
    by (auto simp: relation_transitions_def new_transition_def relation_actions_def life_ops_def
        intro: start stop fail depart [unfolded life_ops_def])
qed

lemma fire_in_step:
  assumes "yaml_ok y" and "le_writeable e"
    and "in_step (get_state (relation_env y client identity (life_ops e)) m) (m_world m)"
    and "fire_transition (relation_env y client identity (life_ops e)) 1 tid v m = Some (Inr b, m')"
  shows "in_step (get_state (relation_env y client identity (life_ops e)) m') (m_world m')"
proof -
  obtain t vs w where t: "t \<in> set relation_transitions" "tr_id t = tid"
      "get_state (relation_env y client identity (life_ops e)) m = tr_source t"
      "run_action (relation_env y client identity (life_ops e)) tid (m_world m) = (ActReturned vs, w)"
    and m': "get_state (relation_env y client identity (life_ops e)) m' = Some (tr_destination t)" "m_world m' = w"
    using relation_success_inv [OF assms(1,4)] by metis
  from action_in_step [OF assms(2) t(1), of "m_world m" y client identity vs w] t assms(3) show ?thesis
    unfolding m' by metis
qed

text \<open>\<open>synchronize\<close> of the workflow machine fires at most one transition of a relation.\<close>

lemma synchronize_in_step:
  assumes "yaml_ok y" and "le_writeable e"
    and "in_step (get_state (relation_env y client identity (life_ops e)) m) (m_world m)"
    and "synchronize (relation_env y client identity (life_ops e)) 1 m = Some (Inr b, m')"
  shows "in_step (get_state (relation_env y client identity (life_ops e)) m') (m_world m')"
proof (cases "get_inflight (relation_env y client identity (life_ops e)) m")
  case None
  then consider t :: transition where "fire_transition (relation_env y client identity (life_ops e)) 1 (tr_id t) [] m = Some (Inr b, m')"
    | "m' = m"
    using assms(4) unfolding synchronize_def fire_automatic_code
    by (auto split: if_splits sum.splits option.splits)
  then show ?thesis using fire_in_step [OF assms(1-3)] assms(3) by metis
next
  case (Some tid)
  then have "fire_transition (relation_env y client identity (life_ops e)) 1 tid [] m = Some (Inr b, m')"
    using assms(4) by (simp add: synchronize_def split: if_splits)
  then show ?thesis by (rule fire_in_step [OF assms(1-3)])
qed

lemma relation_synchronize_in_step:
  assumes "yaml_ok y" and "le_writeable e"
    and "relation_synchronize (relation_env y client identity (life_ops e)) (life_ops e) 1 m = Some (Inr b, m')"
  shows "in_step (get_state (relation_env y client identity (life_ops e)) m') (m_world m')"
proof -
  let ?env = "relation_env y client identity (life_ops e)"
  note rel = relation_machine [OF assms(1), of client identity "life_ops e"]
  obtain l1 where l1: "life_stop True (m_world m) = (LReturned, l1)" "\<not> life_executing l1" "\<not> life_watching l1"
    using life_stop_result [of True "m_world m"] by blast
  then have stop: "call_world (rl_stop (life_ops e) True) m = (None, m\<lparr>m_world := l1\<rparr>)"
    by (simp add: call_world_def life_ops_def)
  obtain watches sched where targets: "relation_targets (get_state ?env m) = Some (watches, sched)"
    using assms(3) stop workflow_machine.state_world [OF rel]
    by (auto simp: relation_synchronize_def split: if_splits option.splits)
  obtain m2 where start: "call_if (watches \<or> sched) (life_start e watches sched) (m\<lparr>m_world := l1\<rparr>) = (None, m2)"
      and sync: "synchronize ?env 1 m2 = Some (Inr b, m')"
    using assms(3) stop targets workflow_machine.state_world [OF rel]
    by (auto simp: relation_synchronize_def life_ops_def split: if_splits option.splits prod.splits)
  have "in_step (get_state ?env m2) (m_world m2)"
  proof (cases "watches \<or> sched")
    case True
    then obtain l2 where l2: "life_start e watches sched l1 = (LReturned, l2)" "m2 = m\<lparr>m_world := l2\<rparr>"
      using start by (auto simp: call_if_def call_world_def split: prod.splits elim!: call_error.elims)
    from life_start_result [OF assms(2) l2(1)] l1 targets l2(2) show ?thesis
      using workflow_machine.state_world [OF rel]
      by (auto simp: in_step_def relation_targets_def split: if_splits)
  next
    case False
    then have "m2 = m\<lparr>m_world := l1\<rparr>" using start by (auto simp: call_if_def)
    with False l1 targets show ?thesis
      using workflow_machine.state_world [OF rel]
      by (auto simp: in_step_def relation_targets_def split: if_splits)
  qed
  from synchronize_in_step [OF assms(1,2) this sync] show ?thesis .
qed

text \<open>
  C10: what runs for a relation is what its workflow's state says: hooks are executed exactly in state \<open>up\<close>,
  changes are watched exactly in \<open>up\<close> and \<open>error\<close>. Every transition that returns keeps this, a hook that
  fails as well, and \<open>synchronize\<close> establishes it whatever was running before, after a crash in the middle of a transition
  too.
\<close>

theorem lifecycle_follows_workflow:
  assumes "yaml_ok y" and "le_writeable e" and "env = relation_env y client identity (life_ops e)"
  shows "(in_step (get_state env m) (m_world m) \<and> fire_transition env 1 tid v m = Some (Inr b, m')
      \<longrightarrow> in_step (get_state env m') (m_world m'))
    \<and> (in_step (get_state env m) (m_world m) \<and> on_hook_error env 1 ct text m = Some (Inr b, m')
      \<longrightarrow> in_step (get_state env m') (m_world m'))
    \<and> (relation_synchronize env (life_ops e) 1 m = Some (Inr b, m') \<longrightarrow> in_step (get_state env m') (m_world m'))"
proof (intro conjI impI)
  assume "in_step (get_state env m) (m_world m) \<and> on_hook_error env 1 ct text m = Some (Inr b, m')"
  then obtain m1 where "in_step (get_state env (lock m)) (m_world (lock m))" "m' = release m1"
      "fire_transition env 1 ''error'' [(''change_type'', ct), (''error_message'', text)] (lock m) = Some (Inr b, m1)"
    by (auto simp: on_hook_error_def lock_def get_state_def load_def)
  with fire_in_step [OF assms(1,2), of client identity "lock m"] show "in_step (get_state env m') (m_world m')"
    by (auto simp: assms(3) release_def get_state_def load_def)
qed (use fire_in_step relation_synchronize_in_step assms in blast)+

lemma life_start_with_watcher: "rf_watcher l \<noteq> None \<Longrightarrow> \<exists>w. life_start e b b' l = (LReturned, w)"
  by (auto simp: life_start_def create_watcher_def run_scheduler_def)

definition demo_life_env :: "((string, content) dict, content) life_env" where
  "demo_life_env = \<lparr>le_state = dict_env, le_version = (\<lambda>z p. if dhas z p then Some 0 else None), le_connected = (\<lambda>_. True),
     le_writeable = True, le_error_text = (\<lambda>_. []), le_unit_dir = ''/var/lib/juju/units/wordpress-0'',
     le_execute = (\<lambda>_ _ z. (LReturned, z))\<rparr>"

definition demo_life :: "(string, content) dict relation_life" where
  "demo_life = (new_relation_life ''wordpress/0'' \<lparr>ur_service = ''s-1'', ur_unit = ''u-1'', ur_relation = ''relation-0'',
     ur_scope = ''global'', ur_role = Some ''client''\<rparr> ''db:0'' Missing demo_nodes)\<lparr>rf_watcher := Some demo_watcher\<rparr>"

definition demo_life_machine ::
  "((plain_text, (string, plain_text) dict) disk, (string, content) dict relation_life) machine" where
  "demo_life_machine = set_state (relation_env plain_yaml plain_zk (''/units/unit-0'', ''relation-0'') (life_ops demo_life_env))
     ''down'' [] (fresh_machine demo_life)"

theorem lifecycle_follows_workflow_witness:
  "\<exists>m'. fire_transition (relation_env plain_yaml plain_zk (''/units/unit-0'', ''relation-0'') (life_ops demo_life_env))
      1 ''restart'' [] demo_life_machine = Some (Inr True, m')
    \<and> life_executing (m_world m') \<and> life_watching (m_world m')"
proof -
  let ?env = "relation_env plain_yaml plain_zk (''/units/unit-0'', ''relation-0'') (life_ops demo_life_env)"
  define t where "t = new_transition ''restart'' ''Restart'' (Some ''down'') ''up'' None False (Some ''retry'')"
  have t: "t \<in> set relation_transitions" "tr_id t = ''restart''" "tr_source t = Some ''down''" "tr_destination t = ''up''"
    by (simp_all add: t_def relation_transitions_def new_transition_def)
  note rel = relation_machine [OF plain_yaml_ok, of plain_zk "(''/units/unit-0'', ''relation-0'')" "life_ops demo_life_env"]
  have m: "m_locked demo_life_machine" "get_state ?env demo_life_machine = Some ''down''" "m_world demo_life_machine = demo_life"
    unfolding demo_life_machine_def
    by (simp_all add: workflow_machine.state_set_state [OF rel] workflow_machine.locked_set_state [OF rel]
        workflow_machine.set_state_world [OF rel] fresh_machine_def)
  have "in_step (Some ''down'') demo_life"
    by (simp add: in_step_def demo_life_def new_relation_life_def life_executing_def life_watching_def
        watcher_running_def demo_watcher_def new_watcher_def new_scheduler_def create_state_def)
  then have before: "in_step (get_state ?env demo_life_machine) (m_world demo_life_machine)" by (simp add: m)
  obtain w where "life_start demo_life_env True True demo_life = (LReturned, w)"
    using life_start_with_watcher [of demo_life demo_life_env] by (auto simp: demo_life_def)
  then have run: "run_action ?env (tr_id t) (m_world demo_life_machine) = (ActReturned None, w)"
    by (simp add: run_action_def relation_env_def relation_actions_def relation_call_def life_ops_def t(2) m)
  obtain m' where m': "fire_transition ?env 1 ''restart'' [] demo_life_machine = Some (Inr True, m')"
      "get_state ?env m' = Some ''up''"
    using relation_success [OF plain_yaml_ok t(1) m(1) _ run, of "[]"] m(2) workflow_machine.state_set_state [OF rel]
    unfolding t(2-4) by metis
  have "le_writeable demo_life_env" by (simp add: demo_life_env_def)
  from lifecycle_follows_workflow [OF plain_yaml_ok this refl, THEN conjunct1, rule_format, OF conjI [OF before m'(1)]]
  show ?thesis using m' by (auto simp: in_step_def)
qed

end
