(* ===== verification/UnitLifecycle.thy ===== *)
theory UnitLifecycle
  imports RelationLifecycle UnitNodes
begin

text \<open>
  \<open>UnitLifecycle\<close> and \<open>_CharmUpgradeOperation\<close> of \<open>juju/unit/lifecycle.py\<close>: installing, starting, stopping,
  configuring and upgrading a unit, and the workflows of its relations.

  Every operation but \<open>install\<close> holds the unit's run lock, so each is one step; the two watch callbacks are
  steps of their own. A relation's workflow is the machine of \<open>UnitWorkflow\<close> over the lifecycle of
  \<open>RelationLifecycle\<close>. All of them see one ZooKeeper, \<open>ul_zk\<close>: it is lent to a relation for each call. The
  nodes in which workflows store their states are read by nobody here and stay in \<open>dk_zk\<close> of each.

  Parameters: the executor (how a hook ends), downloading and extracting a charm, deploying a unit, the files
  found on disk when a relation's objects are made, texts of exceptions. Python's sets of relation ids are gone through in
  the order of the dict they come from.
\<close>

section \<open>State\<close>

record ('t, 'y, 'z) relation_slot =
  sl_name :: string  \<comment> \<open>\<open>relation_name\<close> of the workflow state\<close>
  sl_identity :: "string \<times> string"  \<comment> \<open>its node and key in ZooKeeper\<close>
  sl_machine :: "(('t, 'y) disk, 'z relation_life) machine"

record ('t, 'y, 'z) unit_life =
  ul_running :: bool
  ul_relations :: "(string, ('t, 'y, 'z) relation_slot) dict option"
  ul_watching_memberships :: bool
  ul_watching_resolved :: bool
  ul_file :: "(string, string \<times> string) dict option"  \<comment> \<open>known relations: name and scope\<close>
  ul_executor :: bool  \<comment> \<open>whether the executor runs\<close>
  ul_zk :: 'z

record ('z, 'c, 't, 'y) agent_env =
  ae_life :: "('z, 'c) life_env"
  ae_yaml :: "'t yaml"
  ae_client :: "('t, 'y) zk"
  ae_unit :: service_unit
  ae_service :: service_state
  ae_disk :: "string \<Rightarrow> ('t, 'y) disk"  \<comment> \<open>of a relation's workflow\<close>
  ae_schedule :: "string \<Rightarrow> state_file"
  ae_workflow_text :: "wf_error \<Rightarrow> string"
  ae_download :: "'z \<Rightarrow> yvalue \<Rightarrow> string option"  \<comment> \<open>the exception's text, if any\<close>
  ae_extract :: "yvalue \<Rightarrow> string option"
  ae_deploy :: "string \<Rightarrow> int option \<Rightarrow> string \<Rightarrow> 'z \<Rightarrow> 'z"  \<comment> \<open>unit, machine, charm directory\<close>

type_synonym ('t, 'y, 'z, 'a) agent = "(('t, 'y, 'z) unit_life, lifecycle_result, 'a) eff"

definition new_unit_life :: "(string, string \<times> string) dict option \<Rightarrow> bool \<Rightarrow> 'z \<Rightarrow> ('t, 'y, 'z) unit_life" where
  "new_unit_life file executor z =
     \<lparr>ul_running = False, ul_relations = None, ul_watching_memberships = False, ul_watching_resolved = False,
      ul_file = file, ul_executor = executor, ul_zk = z\<rparr>"

abbreviation ae_state :: "('z, 'c, 't, 'y) agent_env \<Rightarrow> ('z, 'c) state_env" where
  "ae_state a \<equiv> le_state (ae_life a)"

section \<open>Calls\<close>

definition zk_call :: "('z, 'c, 't, 'y) agent_env \<Rightarrow> ('z, state_error, 'a) eff \<Rightarrow> ('t, 'y, 'z, 'a) agent" where
  "zk_call a m s =
     (case m (ul_zk s) of
        (z, Inl err) \<Rightarrow> (s\<lparr>ul_zk := z\<rparr>, Inl (LRaised (le_error_text (ae_life a) err)))
      | (z, Inr x) \<Rightarrow> (s\<lparr>ul_zk := z\<rparr>, Inr x))"

definition agent_assert :: "(('t, 'y, 'z) unit_life \<Rightarrow> bool) \<Rightarrow> string \<Rightarrow> ('t, 'y, 'z, unit) agent" where
  "agent_assert p msg s = (s, if p s then Inr () else Inl (LRaised msg))"

definition modify :: "(('t, 'y, 'z) unit_life \<Rightarrow> ('t, 'y, 'z) unit_life) \<Rightarrow> ('t, 'y, 'z, unit) agent" where
  "modify f s = (f s, Inr ())"

text \<open>\<open>_execute_hook\<close> of the unit\<close>

definition unit_hook :: "('z, 'c, 't, 'y) agent_env \<Rightarrow> string \<Rightarrow> ('t, 'y, 'z, unit) agent" where
  "unit_hook a hook_name s =
     (case le_execute (ae_life a) [] (hook_path_of (le_unit_dir (ae_life a)) hook_name) (ul_zk s) of
        (r, z) \<Rightarrow> (s\<lparr>ul_zk := z\<rparr>, if r = LReturned then Inr () else Inl r))"

section \<open>Workflows of relations\<close>

definition workflow_identity_of :: "unit_relation \<Rightarrow> string \<times> string" where
  "workflow_identity_of ur =
     (case zk_workflow_identity (UnitRelationState (ur_unit ur) (ur_relation ur) (ur_scope ur)) of
        Inr identity \<Rightarrow> identity | Inl _ \<Rightarrow> ([], []))"

abbreviation slot_relation :: "('t, 'y, 'z) relation_slot \<Rightarrow> unit_relation" where
  "slot_relation slot \<equiv> rf_relation (m_world (sl_machine slot))"

definition slot_env ::
  "('z, 'c, 't, 'y) agent_env \<Rightarrow> ('t, 'y, 'z) relation_slot \<Rightarrow> (('t, 'y) disk, 'z relation_life) wf_env" where
  "slot_env a slot =
     relation_env (ae_yaml a) (ae_client a) (sl_identity slot) (life_ops (ae_life a))"

definition slot_state :: "('z, 'c, 't, 'y) agent_env \<Rightarrow> ('t, 'y, 'z) relation_slot \<Rightarrow> string option" where
  "slot_state a slot = get_state (slot_env a slot) (sl_machine slot)"

text \<open>\<open>with (yield workflow.lock()): ...\<close>; a relation's transitions never need more fuel than 1.\<close>

definition locked ::
  "((('t, 'y) disk, 'z relation_life) machine \<Rightarrow> (('t, 'y) disk, 'z relation_life) outcome option)
     \<Rightarrow> ('t, 'y, 'z) relation_slot \<Rightarrow> (wf_error + bool) \<times> ('t, 'y, 'z) relation_slot" where
  "locked f slot =
     (case f (lock (sl_machine slot)) of
        None \<Rightarrow> (Inl (CallRaised ''fuel''), slot)
      | Some (r, m) \<Rightarrow> (r, slot\<lparr>sl_machine := release m\<rparr>))"

definition slot_transition ::
  "('z, 'c, 't, 'y) agent_env \<Rightarrow> string \<Rightarrow> ('t, 'y, 'z) relation_slot \<Rightarrow> (wf_error + bool) \<times> ('t, 'y, 'z) relation_slot" where
  "slot_transition a state_id slot = locked (transition_state (slot_env a slot) 1 state_id) slot"

definition slot_synchronize ::
  "('z, 'c, 't, 'y) agent_env \<Rightarrow> ('t, 'y, 'z) relation_slot \<Rightarrow> (wf_error + bool) \<times> ('t, 'y, 'z) relation_slot" where
  "slot_synchronize a slot = locked (relation_synchronize (slot_env a slot) (life_ops (ae_life a)) 1) slot"

definition slot_stop :: "('t, 'y, 'z) relation_slot \<Rightarrow> (wf_error + bool) \<times> ('t, 'y, 'z) relation_slot" where
  "slot_stop slot =
     (Inr True, slot\<lparr>sl_machine := (sl_machine slot)\<lparr>m_world := snd (life_stop True (m_world (sl_machine slot)))\<rparr>\<rparr>)"

definition lend :: "'z \<Rightarrow> ('t, 'y, 'z) relation_slot \<Rightarrow> ('t, 'y, 'z) relation_slot" where
  "lend z slot = slot\<lparr>sl_machine := (sl_machine slot)\<lparr>m_world := (m_world (sl_machine slot))\<lparr>rf_zk := z\<rparr>\<rparr>\<rparr>"

text \<open>A call on the workflow of one relation; \<open>self._relations[relation_id]\<close>.\<close>

definition on_relation ::
  "('z, 'c, 't, 'y) agent_env \<Rightarrow> string
     \<Rightarrow> (('t, 'y, 'z) relation_slot \<Rightarrow> (wf_error + bool) \<times> ('t, 'y, 'z) relation_slot) \<Rightarrow> ('t, 'y, 'z, bool) agent" where
  "on_relation a rid f s =
     (case ul_relations s of
        None \<Rightarrow> (s, Inl (LRaised ''TypeError''))
      | Some rels \<Rightarrow>
          (case dget rels rid of
             None \<Rightarrow> (s, Inl (LRaised ''KeyError''))
           | Some slot \<Rightarrow>
               (case f (lend (ul_zk s) slot) of
                  (r, slot') \<Rightarrow>
                    (s\<lparr>ul_relations := Some (dset rid slot' rels), ul_zk := rf_zk (m_world (sl_machine slot'))\<rparr>,
                     map_sum (\<lambda>err. LRaised (ae_workflow_text a err)) id r))))"

definition relation_ids :: "('t, 'y, 'z) unit_life \<Rightarrow> string list" where
  "relation_ids s = (case ul_relations s of None \<Rightarrow> [] | Some rels \<Rightarrow> dkeys rels)"

definition on_all_relations ::
  "('z, 'c, 't, 'y) agent_env \<Rightarrow> (('t, 'y, 'z) relation_slot \<Rightarrow> (wf_error + bool) \<times> ('t, 'y, 'z) relation_slot)
     \<Rightarrow> ('t, 'y, 'z, unit) agent" where
  "on_all_relations a f s =
     (if ul_relations s = None then (s, Inl (LRaised ''AttributeError''))
      else efor (relation_ids s) (\<lambda>rid. ebind (on_relation a rid f) (\<lambda>_. eret ())) s)"

text \<open>\<open>_store_relations\<close>\<close>

definition slot_info :: "('t, 'y, 'z) relation_slot \<Rightarrow> (string, string \<times> string) dict" where
  "slot_info slot =
     (let ur = slot_relation slot in
      case get_relation_info (UnitRelationState (ur_unit ur) (ur_relation ur) (ur_scope ur)) (sl_name slot) of
        Inr info \<Rightarrow> info | Inl _ \<Rightarrow> [])"

definition relations_info :: "(string, ('t, 'y, 'z) relation_slot) dict \<Rightarrow> (string, string \<times> string) dict" where
  "relations_info rels = fold (\<lambda>slot state_dict. dupdate state_dict (slot_info slot)) (map snd rels) []"

definition store_relations :: "('t, 'y, 'z, unit) agent" where
  "store_relations = modify (\<lambda>s.
     s\<lparr>ul_file := Some (case ul_relations s of None \<Rightarrow> [] | Some rels \<Rightarrow> relations_info rels)\<rparr>)"

text \<open>The objects of a relation: a lifecycle and the workflow state that becomes its error handler.\<close>

definition new_slot ::
  "('z, 'c, 't, 'y) agent_env \<Rightarrow> unit_relation \<Rightarrow> string \<Rightarrow> string \<Rightarrow> 'z \<Rightarrow> ('t, 'y, 'z) relation_slot" where
  "new_slot a ur name ident z =
     \<lparr>sl_name = name, sl_identity = workflow_identity_of ur,
      sl_machine = \<lparr>m_store = ae_disk a (ur_relation ur), m_locked = False, m_has_observer = False, m_observed = [],
        m_world = set_hook_error_handler True
          (new_relation_life (unit_name_of (ae_unit a)) ur ident (ae_schedule a (ur_relation ur)) z)\<rparr>\<rparr>"

definition put_slot :: "string \<Rightarrow> ('t, 'y, 'z) relation_slot \<Rightarrow> ('t, 'y, 'z, unit) agent" where
  "put_slot rid slot = modify (\<lambda>s. s\<lparr>ul_relations := map_option (dset rid slot) (ul_relations s)\<rparr>)"

definition unit_state_of_relation ::
  "('z, 'c, 't, 'y) agent_env \<Rightarrow> service_relation \<Rightarrow> ('z, state_error, unit_relation) eff" where
  "unit_state_of_relation a r =
     ecatch (eread (get_unit_relation (ae_state a) r (ae_unit a)))
       (\<lambda>err. case err of
          UnitRelationStateNotFound _ _ _ \<Rightarrow> Some (join_relation (ae_state a) r (ae_unit a)) | _ \<Rightarrow> None)"

definition add_relation_workflow :: "('z, 'c, 't, 'y) agent_env \<Rightarrow> service_relation \<Rightarrow> ('t, 'y, 'z, unit) agent" where
  "add_relation_workflow a r =
     ebind (zk_call a (unit_state_of_relation a r)) (\<lambda>ur.
     ebind (zk_call a (eread (\<lambda>_. relation_ident r))) (\<lambda>ident.
     ebind (\<lambda>s. put_slot (sr_relation r) (new_slot a ur (sr_name r) ident (ul_zk s)) s) (\<lambda>_.
     ebind (on_relation a (sr_relation r) (slot_synchronize a)) (\<lambda>_. eret ()))))"

text \<open>
  \<open>_load_relations\<close> hands the stored name to \<open>_reconstruct_workflow\<close> as the relation's ident.
\<close>

definition reconstruct_workflow ::
  "('z, 'c, 't, 'y) agent_env \<Rightarrow> string \<Rightarrow> string \<Rightarrow> string \<Rightarrow> ('t, 'y, 'z, unit) agent" where
  "reconstruct_workflow a rid ident scope = (\<lambda>s.
     let ur = \<lparr>ur_service = ss_id (ae_service a), ur_unit = su_id (ae_unit a), ur_relation = rid, ur_scope = scope, ur_role = None\<rparr>
     in put_slot rid (new_slot a ur (ident_name ident) ident (ul_zk s)) s)"

definition load_known ::
  "('z, 'c, 't, 'y) agent_env \<Rightarrow> (string, service_relation) dict \<Rightarrow> (string \<times> string \<times> string) list \<Rightarrow> ('t, 'y, 'z, unit) agent" where
  "load_known a relations_by_id known_relations =
     efor known_relations (\<lambda>(rid, name, scope).
       case dget relations_by_id rid of
         Some r \<Rightarrow> add_relation_workflow a r
       | None \<Rightarrow> reconstruct_workflow a rid name scope)"

definition relations_dict :: "service_relation list \<Rightarrow> (string, service_relation) dict" where
  "relations_dict relations = fold (\<lambda>r d. dset (sr_relation r) r d) relations []"

definition load_relations :: "('z, 'c, 't, 'y) agent_env \<Rightarrow> ('t, 'y, 'z, unit) agent" where
  "load_relations a s =
     ebind (modify (\<lambda>s. s\<lparr>ul_relations := Some []\<rparr>)) (\<lambda>_.
       case ul_file s of
         None \<Rightarrow> eret ()
       | Some known_relations \<Rightarrow>
           ebind (zk_call a (eread (relations_for_service (ae_state a) (ss_id (ae_service a))))) (\<lambda>relations.
           load_known a (relations_dict relations) known_relations)) s"

section \<open>Subordinates\<close>

text \<open>
  \<open>_add_subordinate_unit\<close> is called and its deferred dropped: what it did before an exception stays done, the
  exception is not seen.
\<close>

definition subordinate_unit ::
  "('z, 'c, 't, 'y) agent_env \<Rightarrow> service_relation \<Rightarrow> ('z, state_error, unit) eff" where
  "subordinate_unit a r =
     ebind (eread (relation_service_states (ae_state a) (sr_relation r))) (\<lambda>service_states.
     ebind (eread (\<lambda>_. case filter (\<lambda>s. ss_name s \<noteq> su_service_name (ae_unit a)) service_states of
              [] \<Rightarrow> Inl (InTopology IndexError) | s # _ \<Rightarrow> Inr s)) (\<lambda>subordinate_service.
     ebind (add_unit_state (ae_state a) subordinate_service (Some (ae_unit a))) (\<lambda>subordinate_unit z.
       case get_assigned_machine_id (ae_state a) z (ae_unit a) of
         None \<Rightarrow> (z, Inr ())
       | Some (Inl err) \<Rightarrow> (z, Inl err)
       | Some (Inr machine_id) \<Rightarrow>
           (ae_deploy a (unit_name_of subordinate_unit) machine_id
              (path_join (dirname (le_unit_dir (ae_life a)))
                 [replace_char (CHR ''/'') (CHR ''-'') (unit_name_of subordinate_unit)]) z, Inr ()))))"

definition add_subordinate_unit :: "('z, 'c, 't, 'y) agent_env \<Rightarrow> service_relation \<Rightarrow> ('t, 'y, 'z, unit) agent" where
  "add_subordinate_unit a r s = (s\<lparr>ul_zk := fst (subordinate_unit a r (ul_zk s))\<rparr>, Inr ())"

section \<open>Changes of the service's relations\<close>

definition depart_relation :: "('z, 'c, 't, 'y) agent_env \<Rightarrow> string \<Rightarrow> ('t, 'y, 'z, unit) agent" where
  "depart_relation a rid s =
     (case ul_relations s of
        None \<Rightarrow> (s, Inl (LRaised ''AttributeError''))
      | Some rels \<Rightarrow>
          (case dget rels rid of
             None \<Rightarrow> (s, Inl (LRaised ''KeyError''))
           | Some slot \<Rightarrow>
               (case slot_transition a ''departed'' (lend (ul_zk s) slot) of
                  (r, slot') \<Rightarrow>
                    ebind (\<lambda>s. (s, map_sum (\<lambda>err. LRaised (ae_workflow_text a err)) id r)) (\<lambda>_. store_relations)
                      (s\<lparr>ul_relations := Some (ddel rid rels), ul_zk := rf_zk (m_world (sl_machine slot'))\<rparr>))))"

definition join_new_relation :: "('z, 'c, 't, 'y) agent_env \<Rightarrow> bool \<Rightarrow> service_relation \<Rightarrow> ('t, 'y, 'z, unit) agent" where
  "join_new_relation a is_principal r =
     ebind (add_relation_workflow a r) (\<lambda>_.
     ebind (if is_principal \<and> sr_scope r = ''container'' then add_subordinate_unit a r else eret ()) (\<lambda>_.
     store_relations))"

definition process_service_changes ::
  "('z, 'c, 't, 'y) agent_env \<Rightarrow> service_relation list \<Rightarrow> ('t, 'y, 'z, unit) agent" where
  "process_service_changes a new_relations s =
     (let new_by_id = relations_dict new_relations;
          added = filter (\<lambda>(rid, r). rid \<notin> set (relation_ids s)) new_by_id;
          removed = filter (\<lambda>rid. rid \<notin> set (dkeys new_by_id)) (relation_ids s)
      in ebind (zk_call a (eread (\<lambda>z. se_is_subordinate (ae_state a) z (ss_id (ae_service a))))) (\<lambda>subordinate.
         ebind (efor removed (\<lambda>rid. ebind (on_relation a rid slot_stop) (\<lambda>_. eret ()))) (\<lambda>_.
         ebind (efor removed (depart_relation a)) (\<lambda>_.
         efor added (\<lambda>(rid, r). join_new_relation a (\<not> subordinate) r)))) s)"

text \<open>The two watch callbacks; raising \<open>StopWatcher\<close> ends the watch.\<close>

definition on_service_relation_changes ::
  "('z, 'c, 't, 'y) agent_env \<Rightarrow> service_relation list \<Rightarrow> ('t, 'y, 'z, unit) agent" where
  "on_service_relation_changes a new_relations s =
     (if \<not> ul_running s then (s\<lparr>ul_watching_memberships := False\<rparr>, Inl (LRaised ''StopWatcher''))
      else process_service_changes a new_relations s)"

definition retry_relation :: "('z, 'c, 't, 'y) agent_env \<Rightarrow> string \<Rightarrow> ('t, 'y, 'z, unit) agent" where
  "retry_relation a rid =
     ebind (on_relation a rid (\<lambda>slot.
       if slot_state a slot \<noteq> Some ''up'' then slot_transition a ''up'' slot else (Inr True, slot))) (\<lambda>_. eret ())"

definition process_relation_resolved_changes :: "('z, 'c, 't, 'y) agent_env \<Rightarrow> ('t, 'y, 'z, unit) agent" where
  "process_relation_resolved_changes a =
     ebind (zk_call a (eread (get_relation_resolved (ae_state a) (ae_unit a)))) (\<lambda>resolved.
     case resolved of
       None \<Rightarrow> eret ()
     | Some YNone \<Rightarrow> eret ()
     | Some v \<Rightarrow>
         ebind (zk_call a (clear_relation_resolved (ae_state a) (ae_unit a))) (\<lambda>_ s.
           case v of
             YMap d \<Rightarrow> efor (filter (\<lambda>rid. rid \<in> set (relation_ids s)) (dkeys d)) (retry_relation a) s
           | _ \<Rightarrow> (s, Inl (LRaised ''TypeError''))))"

definition on_relation_resolved_changes :: "('z, 'c, 't, 'y) agent_env \<Rightarrow> ('t, 'y, 'z, unit) agent" where
  "on_relation_resolved_changes a s =
     (if \<not> ul_running s then (s\<lparr>ul_watching_resolved := False\<rparr>, Inl (LRaised ''StopWatcher''))
      else if le_connected (ae_life a) (ul_zk s) then process_relation_resolved_changes a s else (s, Inr ()))"

section \<open>The operations\<close>

definition unit_install :: "('z, 'c, 't, 'y) agent_env \<Rightarrow> bool \<Rightarrow> ('t, 'y, 'z, unit) agent" where
  "unit_install a fire_hooks = (if fire_hooks then unit_hook a ''install'' else eret ())"

text \<open>What \<open>start\<close> does under the lock; it tells which watches are new.\<close>

definition start_locked ::
  "('z, 'c, 't, 'y) agent_env \<Rightarrow> bool \<Rightarrow> bool \<Rightarrow> ('t, 'y, 'z, bool \<times> bool) agent" where
  "start_locked a fire_hooks start_relations =
     ebind (if fire_hooks then ebind (unit_hook a ''config-changed'') (\<lambda>_. unit_hook a ''start'') else eret ()) (\<lambda>_.
     ebind (\<lambda>s. if ul_relations s = None then load_relations a s else (s, Inr ())) (\<lambda>_.
     ebind (if start_relations
            then on_all_relations a (\<lambda>slot.
              if slot_state a slot = Some ''down'' then slot_transition a ''up'' slot else (Inr True, slot))
            else eret ()) (\<lambda>_ s.
     (s\<lparr>ul_watching_memberships := True, ul_watching_resolved := True, ul_running := True\<rparr>,
      Inr (\<not> ul_watching_memberships s, \<not> ul_watching_resolved s)))))"

text \<open>
  Both new watches call back at once, after the lock is given up; the first of their exceptions is the result. A
  \<open>StopWatcher\<close> is for the watch alone.
\<close>

definition first_memberships :: "('z, 'c, 't, 'y) agent_env \<Rightarrow> ('t, 'y, 'z, unit) agent" where
  "first_memberships a =
     ebind (zk_call a (eread (relations_for_service (ae_state a) (ss_id (ae_service a)))))
       (on_service_relation_changes a)"

definition unit_start :: "('z, 'c, 't, 'y) agent_env \<Rightarrow> bool \<Rightarrow> bool \<Rightarrow> ('t, 'y, 'z, unit) agent" where
  "unit_start a fire_hooks start_relations =
     ebind (start_locked a fire_hooks start_relations) (\<lambda>(memberships, resolved) s.
       case (if memberships then first_memberships a s else (s, Inr ())) of
         (s, r1) \<Rightarrow>
           (case (if resolved then on_relation_resolved_changes a s else (s, Inr ())) of
              (s, r2) \<Rightarrow> (s, case r1 of Inl err \<Rightarrow> Inl err | Inr _ \<Rightarrow> r2)))"

definition unit_stop :: "('z, 'c, 't, 'y) agent_env \<Rightarrow> bool \<Rightarrow> bool \<Rightarrow> ('t, 'y, 'z, unit) agent" where
  "unit_stop a fire_hooks stop_relations =
     ebind (agent_assert ul_running ''Already Stopped'') (\<lambda>_.
     ebind (on_all_relations a (if stop_relations then slot_transition a ''down'' else slot_stop)) (\<lambda>_.
     ebind (if fire_hooks then unit_hook a ''stop'' else eret ()) (\<lambda>_.
     modify (\<lambda>s. s\<lparr>ul_running := False\<rparr>))))"

definition unit_configure :: "('z, 'c, 't, 'y) agent_env \<Rightarrow> bool \<Rightarrow> ('t, 'y, 'z, unit) agent" where
  "unit_configure a fire_hooks =
     (if \<not> fire_hooks then eret ()
      else ebind (agent_assert ul_running ''Needs to be running.'') (\<lambda>_. unit_hook a ''config-changed''))"

section \<open>Upgrading the charm\<close>

definition id_value :: "yvalue option \<Rightarrow> yvalue" where
  "id_value v = (case v of None \<Rightarrow> YNone | Some w \<Rightarrow> w)"

text \<open>Whatever goes wrong becomes a \<open>CharmUpgradeError\<close>, which is a \<open>CharmError\<close>.\<close>

definition upgrade_call :: "('z, 'c, 't, 'y) agent_env \<Rightarrow> ('z, state_error, 'a) eff \<Rightarrow> ('t, 'y, 'z, 'a) agent" where
  "upgrade_call a m =
     ecatch (zk_call a m) (\<lambda>err. case err of LRaised text \<Rightarrow> Some (eraise (LCharmError text)) | _ \<Rightarrow> None)"

definition upgrade_error :: "string option \<Rightarrow> ('t, 'y, 'z, unit) agent" where
  "upgrade_error text = (case text of None \<Rightarrow> eret () | Some t \<Rightarrow> eraise (LCharmError t))"

text \<open>The bundle is that of the id returned; \<open>None\<close>: nothing to do.\<close>

definition upgrade_prepare :: "('z, 'c, 't, 'y) agent_env \<Rightarrow> ('t, 'y, 'z, yvalue option) agent" where
  "upgrade_prepare a =
     ebind (upgrade_call a (eread (get_service_charm_id (ae_state a) (ae_service a)))) (\<lambda>new_id.
     ebind (upgrade_call a (eread (get_unit_charm_id (ae_state a) (ae_unit a)))) (\<lambda>old_id.
     if y_eq (id_value new_id) (id_value old_id) then eret None
     else ebind (\<lambda>s. upgrade_error (ae_download a (ul_zk s) (id_value new_id)) s) (\<lambda>_. eret (Some (id_value new_id)))))"

definition upgrade_run :: "('z, 'c, 't, 'y) agent_env \<Rightarrow> yvalue \<Rightarrow> ('t, 'y, 'z, unit) agent" where
  "upgrade_run a new_id =
     ebind (upgrade_error (ae_extract a new_id)) (\<lambda>_.
     upgrade_call a (case new_id of
         YText charm_id \<Rightarrow> set_unit_charm_id (ae_state a) (ae_unit a) charm_id
       | _ \<Rightarrow> eraise (BadContent ''charm'')))"

definition unit_upgrade_charm :: "('z, 'c, 't, 'y) agent_env \<Rightarrow> bool \<Rightarrow> bool \<Rightarrow> ('t, 'y, 'z, unit) agent" where
  "unit_upgrade_charm a fire_hooks force =
     ebind (upgrade_prepare a) (\<lambda>ready.
     ebind (modify (\<lambda>s. s\<lparr>ul_executor := False\<rparr>)) (\<lambda>_.
     ebind (case ready of None \<Rightarrow> eret () | Some new_id \<Rightarrow> upgrade_run a new_id) (\<lambda>_.
     ebind (if (fire_hooks \<or> ready \<noteq> None) \<and> \<not> force then unit_hook a ''upgrade-charm'' else eret ()) (\<lambda>_.
     modify (\<lambda>s. s\<lparr>ul_executor := True\<rparr>)))))"

section \<open>What the unit's workflow calls\<close>

definition agent_result :: "('t, 'y, 'z, unit) agent \<Rightarrow> ('t, 'y, 'z) unit_life \<Rightarrow> lifecycle_result \<times> ('t, 'y, 'z) unit_life" where
  "agent_result m s = (case m s of (s, Inr _) \<Rightarrow> (LReturned, s) | (s, Inl err) \<Rightarrow> (err, s))"

definition unit_life_ops :: "('z, 'c, 't, 'y) agent_env \<Rightarrow> ('t, 'y, 'z) unit_life agent_ops" where
  "unit_life_ops a =
     \<lparr>ag_install = (\<lambda>fire_hooks. agent_result (unit_install a fire_hooks)),
      ag_start = (\<lambda>fire_hooks start_relations. agent_result (unit_start a fire_hooks start_relations)),
      ag_stop = (\<lambda>fire_hooks. agent_result (unit_stop a fire_hooks True)),
      ag_upgrade_charm = (\<lambda>fire_hooks. agent_result (unit_upgrade_charm a fire_hooks False)),
      ag_configure = (\<lambda>fire_hooks. agent_result (unit_configure a fire_hooks)),
      ag_running = ul_running,
      ex_running = ul_executor,
      ex_start = agent_result (modify (\<lambda>s. s\<lparr>ul_executor := True\<rparr>)),
      ex_stop = agent_result (modify (\<lambda>s. s\<lparr>ul_executor := False\<rparr>))\<rparr>"

end
