(* ===== verification/UnitLifecycleProps.thy ===== *)
theory UnitLifecycleProps
  imports UnitLifecycle RelationLifecycleProps HookContextProps
begin

text \<open>
  What the unit's lifecycle does to the relations of its unit: which of them it keeps, and that each keeps in
  step with its workflow.
\<close>

section \<open>One relation\<close>

definition slot_ok :: "('z, 'c, 't, 'y) agent_env \<Rightarrow> ('t, 'y, 'z) relation_slot \<Rightarrow> bool" where
  "slot_ok a slot \<longleftrightarrow> in_step (slot_state a slot) (m_world (sl_machine slot))"

definition agent_env_ok :: "('z, 'c, 't, 'y) agent_env \<Rightarrow> bool" where
  "agent_env_ok a \<longleftrightarrow> yaml_ok (ae_yaml a) \<and> le_writeable (ae_life a)"

lemma slot_env_fields:
  "slot_env a (slot\<lparr>sl_machine := m\<rparr>) = slot_env a slot" "slot_env a (lend z slot) = slot_env a slot"
  by (simp_all add: slot_env_def lend_def)

lemma lend_ok [simp]: "slot_ok a (lend z slot) = slot_ok a slot"
  by (simp add: slot_ok_def slot_state_def slot_env_fields in_step_def)
    (simp add: lend_def get_state_def load_def)

lemma locked_ok:
  assumes "locked f slot = (Inr b, slot')"
    and "\<And>m m'. f m = Some (Inr b, m') \<Longrightarrow> in_step (get_state (slot_env a slot) m) (m_world m) \<or> \<not> need
      \<Longrightarrow> in_step (get_state (slot_env a slot) m') (m_world m')"
    and "need \<Longrightarrow> slot_ok a slot"
  shows "slot_ok a slot'"
proof -
  obtain m where m: "f (lock (sl_machine slot)) = Some (Inr b, m)" "slot' = slot\<lparr>sl_machine := release m\<rparr>"
    using assms(1) by (auto simp: locked_def split: option.splits prod.splits)
  have "in_step (get_state (slot_env a slot) m) (m_world m)"
    using assms(2) [OF m(1)] assms(3)
    by (auto simp: slot_ok_def slot_state_def lock_def get_state_def load_def)
  then show ?thesis
    by (simp add: m(2) slot_ok_def slot_state_def slot_env_fields release_def get_state_def load_def)
qed

lemma slot_transition_ok:
  assumes "agent_env_ok a" and "slot_transition a st slot = (Inr b, slot')" and "slot_ok a slot"
  shows "slot_ok a slot'"
proof (rule locked_ok [where need = True, OF assms(2) [unfolded slot_transition_def] _ assms(3)])
  fix m m'
  assume t: "transition_state (slot_env a slot) 1 st m = Some (Inr b, m')"
    and before: "in_step (get_state (slot_env a slot) m) (m_world m) \<or> \<not> True"
  consider tr :: transition where "fire_transition (slot_env a slot) 1 (tr_id tr) [] m = Some (Inr b, m')" | "m' = m"
    using t unfolding transition_state_def by (auto split: if_splits sum.splits option.splits)
  then show "in_step (get_state (slot_env a slot) m') (m_world m')"
  proof cases
    case 1
    then show ?thesis
      using fire_in_step [of "ae_yaml a" "ae_life a" "ae_client a" "sl_identity slot" m "tr_id tr" "[]" b m'] assms(1) before
      by (simp add: slot_env_def agent_env_ok_def)
  qed (use before in simp)
qed

lemma slot_synchronize_ok:
  assumes "agent_env_ok a" and "slot_synchronize a slot = (Inr b, slot')"
  shows "slot_ok a slot'"
proof (rule locked_ok [where need = False, OF assms(2) [unfolded slot_synchronize_def]])
  fix m m'
  assume "relation_synchronize (slot_env a slot) (life_ops (ae_life a)) 1 m = Some (Inr b, m')"
  then show "in_step (get_state (slot_env a slot) m') (m_world m')"
    using relation_synchronize_in_step assms(1) unfolding slot_env_def agent_env_ok_def by blast
qed simp

section \<open>All relations\<close>

definition relations_ok :: "('z, 'c, 't, 'y) agent_env \<Rightarrow> ('t, 'y, 'z) unit_life \<Rightarrow> bool" where
  "relations_ok a s \<longleftrightarrow> (\<forall>rels rid slot. ul_relations s = Some rels \<longrightarrow> dget rels rid = Some slot \<longrightarrow> slot_ok a slot)"

text \<open>The slot of one relation, as a partial map.\<close>

definition slots :: "('t, 'y, 'z) unit_life \<Rightarrow> string \<Rightarrow> ('t, 'y, 'z) relation_slot option" where
  "slots s rid = (case ul_relations s of None \<Rightarrow> None | Some rels \<Rightarrow> dget rels rid)"

lemma slots_fields [simp]:
  "slots (s\<lparr>ul_zk := z\<rparr>) = slots s" "slots (s\<lparr>ul_file := d\<rparr>) = slots s" "slots (s\<lparr>ul_running := b\<rparr>) = slots s"
  "slots (s\<lparr>ul_executor := b\<rparr>) = slots s"
  by (simp_all add: fun_eq_iff slots_def)

lemma on_relation_result:
  assumes "on_relation a rid f s = (s', Inr b)"
  obtains slot slot' where "slots s rid = Some slot" and "f (lend (ul_zk s) slot) = (Inr b, slot')"
    and "slots s' = (slots s)(rid \<mapsto> slot')" and "ul_relations s' \<noteq> None" and "ul_file s' = ul_file s"
    and "ul_running s' = ul_running s"
proof -
  obtain rels slot where rels: "ul_relations s = Some rels" "dget rels rid = Some slot"
    using assms by (auto simp: on_relation_def split: option.splits)
  obtain r slot' where f: "f (lend (ul_zk s) slot) = (r, slot')" by (cases "f (lend (ul_zk s) slot)")
  have "r = Inr b" using assms rels f by (cases r) (auto simp: on_relation_def)
  moreover have "s' = s\<lparr>ul_relations := Some (dset rid slot' rels), ul_zk := rf_zk (m_world (sl_machine slot'))\<rparr>"
    using assms rels f by (auto simp: on_relation_def)
  ultimately show thesis
    using that [of slot slot'] rels f by (auto simp: slots_def dget_dset fun_eq_iff)
qed

lemma efor_Cons_Inr: "efor (x # xs) f s = (s', Inr u) \<longleftrightarrow> (\<exists>s1. f x s = (s1, Inr ()) \<and> efor xs f s1 = (s', Inr u))"
  by (auto simp: ebind_def split: prod.splits sum.splits)

lemma relation_ids_slots: "rid \<in> set (relation_ids s) \<longleftrightarrow> slots s rid \<noteq> None"
  by (cases "ul_relations s") (auto simp: relation_ids_def slots_def map_of_eq_None_iff)

lemma zk_call_result:
  "zk_call a m s = (s', Inr x) \<Longrightarrow> slots s' = slots s \<and> ul_relations s' = ul_relations s \<and> ul_file s' = ul_file s
     \<and> ul_running s' = ul_running s"
  by (auto simp: zk_call_def slots_def split: prod.splits sum.splits)

lemma put_slot_slots:
  "ul_relations s \<noteq> None \<Longrightarrow> slots (fst (put_slot rid slot s)) = (slots s)(rid \<mapsto> slot)"
  by (auto simp: put_slot_def modify_def slots_def dget_dset fun_eq_iff)

text \<open>A relation added to the unit's: it is the only one that changes, and it is in step.\<close>

lemma add_relation_result:
  assumes "agent_env_ok a" and "ul_relations s \<noteq> None" and "add_relation_workflow a r s = (s', Inr u)"
  shows "\<exists>slot. slots s' = (slots s)(sr_relation r \<mapsto> slot) \<and> slot_ok a slot" and "ul_relations s' \<noteq> None"
proof -
  obtain s1 ur where s1: "zk_call a (unit_state_of_relation a r) s = (s1, Inr ur)"
    and rest1: "ebind (zk_call a (eread (\<lambda>_. relation_ident r))) (\<lambda>ident.
     ebind (\<lambda>s. put_slot (sr_relation r) (new_slot a ur (sr_name r) ident (ul_zk s)) s) (\<lambda>_.
     ebind (on_relation a (sr_relation r) (slot_synchronize a)) (\<lambda>_. eret ()))) s1 = (s', Inr u)"
    using assms(3) unfolding add_relation_workflow_def ebind_eq_Inr by blast
  then obtain s2 ident where s2: "zk_call a (eread (\<lambda>_. relation_ident r)) s1 = (s2, Inr ident)"
    and rest2: "ebind (\<lambda>s. put_slot (sr_relation r) (new_slot a ur (sr_name r) ident (ul_zk s)) s) (\<lambda>_.
     ebind (on_relation a (sr_relation r) (slot_synchronize a)) (\<lambda>_. eret ())) s2 = (s', Inr u)"
    unfolding ebind_eq_Inr by blast
  define slot where "slot = new_slot a ur (sr_name r) ident (ul_zk s2)"
  define s3 where "s3 = fst (put_slot (sr_relation r) slot s2)"
  obtain b where s4: "on_relation a (sr_relation r) (slot_synchronize a) s3 = (s', Inr b)"
    using rest2 unfolding ebind_eq_Inr
    by (auto simp: put_slot_def modify_def s3_def slot_def eret_def)
  have same: "slots s2 = slots s" "ul_relations s2 \<noteq> None"
    using zk_call_result [OF s1] zk_call_result [OF s2] assms(2) by simp_all
  from s4 obtain slot1 slot' where sync: "slot_synchronize a (lend (ul_zk s3) slot1) = (Inr b, slot')"
    and s': "slots s' = (slots s3)(sr_relation r \<mapsto> slot')" "ul_relations s' \<noteq> None"
    by (rule on_relation_result)
  from s'(1) same put_slot_slots [OF same(2), of "sr_relation r" slot]
  have "slots s' = (slots s)(sr_relation r \<mapsto> slot')" by (simp add: s3_def)
  with slot_synchronize_ok [OF assms(1) sync] show "\<exists>slot. slots s' = (slots s)(sr_relation r \<mapsto> slot) \<and> slot_ok a slot"
    by blast
  show "ul_relations s' \<noteq> None" by (rule s'(2))
qed

lemma store_relations_result:
  "store_relations s = (s', r) \<Longrightarrow> slots s' = slots s \<and> ul_relations s' = ul_relations s \<and> ul_running s' = ul_running s"
  by (auto simp: store_relations_def modify_def slots_def)

lemma join_new_result:
  assumes "agent_env_ok a" and "ul_relations s \<noteq> None" and "join_new_relation a p r s = (s', Inr u)"
  shows "\<exists>slot. slots s' = (slots s)(sr_relation r \<mapsto> slot) \<and> slot_ok a slot" and "ul_relations s' \<noteq> None"
    and "ul_file s' = map_option relations_info (ul_relations s')"
proof -
  obtain s1 where s1: "add_relation_workflow a r s = (s1, Inr ())"
    using assms(3) unfolding join_new_relation_def ebind_eq_Inr by auto
  define s2 where "s2 = fst ((if p \<and> sr_scope r = ''container'' then add_subordinate_unit a r else eret ()) s1)"
  have s': "store_relations s2 = (s', Inr u)"
    using assms(3) s1 unfolding join_new_relation_def
    by (auto simp: ebind_def s2_def add_subordinate_unit_def eret_def split: if_splits)
  have same: "slots s2 = slots s1" "ul_relations s2 = ul_relations s1"
    by (simp_all add: s2_def add_subordinate_unit_def eret_def)
  note add = add_relation_result [OF assms(1,2) s1]
  from add same store_relations_result [OF s'] show "\<exists>slot. slots s' = (slots s)(sr_relation r \<mapsto> slot) \<and> slot_ok a slot"
    "ul_relations s' \<noteq> None" by simp_all
  show "ul_file s' = map_option relations_info (ul_relations s')"
    using s' add(2) same by (auto simp: store_relations_def modify_def)
qed

lemma depart_result:
  assumes "depart_relation a rid s = (s', Inr u)"
  shows "slots s' = (slots s)(rid := None)" and "ul_relations s' \<noteq> None"
    and "ul_file s' = map_option relations_info (ul_relations s')"
proof -
  obtain rels slot where rels: "ul_relations s = Some rels" "dget rels rid = Some slot"
    using assms by (auto simp: depart_relation_def split: option.splits)
  obtain r slot' where step: "slot_transition a ''departed'' (lend (ul_zk s) slot) = (r, slot')"
    by (cases "slot_transition a ''departed'' (lend (ul_zk s) slot)")
  have "s' = fst (store_relations (s\<lparr>ul_relations := Some (ddel rid rels), ul_zk := rf_zk (m_world (sl_machine slot'))\<rparr>))"
    using assms rels step by (cases r) (auto simp: depart_relation_def ebind_def store_relations_def modify_def)
  with rels show "slots s' = (slots s)(rid := None)" "ul_relations s' \<noteq> None"
    "ul_file s' = map_option relations_info (ul_relations s')"
    by (auto simp: store_relations_def modify_def slots_def dget_ddel fun_eq_iff)
qed

section \<open>Changes of the service's relations\<close>

lemma relations_dict_snoc: "relations_dict (rs @ [r]) = dset (sr_relation r) r (relations_dict rs)"
  by (simp add: relations_dict_def)

lemma relations_dict_keys: "set (dkeys (relations_dict rs)) = sr_relation ` set rs"
proof (induction rs rule: rev_induct)
  case Nil
  then show ?case by (simp add: relations_dict_def)
next
  case (snoc r rs)
  then show ?case by (simp add: relations_dict_snoc AList.dom_update)
qed

lemma relations_dict_entries: "(rid, r) \<in> set (relations_dict rs) \<Longrightarrow> sr_relation r = rid"
proof (induction rs arbitrary: r rid rule: rev_induct)
  case Nil
  then show ?case by (simp add: relations_dict_def)
next
  case (snoc r' rs)
  have "set (dset k v d) \<subseteq> insert (k, v) (set d)" for k and v :: service_relation and d :: "(string, service_relation) dict"
    by (induction d) auto
  with snoc show ?case by (fastforce simp: relations_dict_snoc)
qed

lemma forget_value: "ebind m (\<lambda>_. eret ()) s = (s', Inr ()) \<longleftrightarrow> (\<exists>b. m s = (s', Inr b))"
  by (auto simp: ebind_eq_Inr eret_def)

text \<open>Stopping the lifecycles of removed relations changes no other relation's.\<close>

lemma stop_removed_result:
  "efor rids (\<lambda>rid. ebind (on_relation a rid f) (\<lambda>_. eret ())) s = (s', Inr u) \<Longrightarrow> ul_relations s \<noteq> None \<Longrightarrow>
   dom (slots s') = dom (slots s) \<and> (\<forall>rid. rid \<notin> set rids \<longrightarrow> slots s' rid = slots s rid) \<and> ul_relations s' \<noteq> None"
proof (induction rids arbitrary: s)
  case Nil
  then show ?case by simp
next
  case (Cons rid rids)
  then obtain s1 b where s1: "on_relation a rid f s = (s1, Inr b)"
    and rest: "efor rids (\<lambda>rid. ebind (on_relation a rid f) (\<lambda>_. eret ())) s1 = (s', Inr ())"
    by (auto simp: efor_Cons_Inr forget_value simp del: efor.simps)
  from s1 obtain slot slot' where "slots s rid = Some slot" "slots s1 = (slots s)(rid \<mapsto> slot')" "ul_relations s1 \<noteq> None"
    by (rule on_relation_result)
  with Cons.IH rest show ?case by (auto simp: dom_def)
qed

lemma depart_removed_result:
  "efor rids (depart_relation a) s = (s', Inr u) \<Longrightarrow> ul_relations s \<noteq> None \<Longrightarrow>
   slots s' = (\<lambda>rid. if rid \<in> set rids then None else slots s rid) \<and> ul_relations s' \<noteq> None
   \<and> (rids \<noteq> [] \<longrightarrow> ul_file s' = map_option relations_info (ul_relations s'))"
proof (induction rids arbitrary: s)
  case Nil
  then show ?case by simp
next
  case (Cons rid rids)
  then obtain s1 where s1: "depart_relation a rid s = (s1, Inr ())" and rest: "efor rids (depart_relation a) s1 = (s', Inr u)"
    by (auto simp: efor_Cons_Inr simp del: efor.simps)
  note d = depart_result [OF s1]
  note IH = Cons.IH [OF rest d(2)]
  have "ul_file s' = map_option relations_info (ul_relations s')"
    using IH d(3) rest by (cases rids) auto
  with IH d(1) show ?case by (auto simp: fun_eq_iff)
qed

lemma join_added_result:
  "agent_env_ok a \<Longrightarrow> efor added (\<lambda>(rid, r). join_new_relation a p r) s = (s', Inr u) \<Longrightarrow> ul_relations s \<noteq> None \<Longrightarrow>
   (\<And>rid r. (rid, r) \<in> set added \<Longrightarrow> sr_relation r = rid) \<Longrightarrow>
   dom (slots s') = dom (slots s) \<union> fst ` set added
   \<and> (\<forall>rid. rid \<notin> fst ` set added \<longrightarrow> slots s' rid = slots s rid)
   \<and> (\<forall>rid \<in> fst ` set added. \<exists>slot. slots s' rid = Some slot \<and> slot_ok a slot)
   \<and> (added \<noteq> [] \<longrightarrow> ul_file s' = map_option relations_info (ul_relations s'))"
proof (induction added arbitrary: s)
  case Nil
  then show ?case by simp
next
  case (Cons x added)
  obtain rid r where x: "x = (rid, r)" by (cases x)
  from Cons.prems(2) obtain s1 where s1: "join_new_relation a p r s = (s1, Inr ())"
    and rest: "efor added (\<lambda>(rid, r). join_new_relation a p r) s1 = (s', Inr u)"
    by (auto simp: x efor_Cons_Inr simp del: efor.simps)
  note j = join_new_result [OF Cons.prems(1,3) s1]
  from j(1) Cons.prems(4) [of rid r] obtain slot where slot: "slots s1 = (slots s)(rid \<mapsto> slot)" "slot_ok a slot"
    by (auto simp: x)
  have IH: "dom (slots s') = dom (slots s1) \<union> fst ` set added
     \<and> (\<forall>rid. rid \<notin> fst ` set added \<longrightarrow> slots s' rid = slots s1 rid)
     \<and> (\<forall>rid \<in> fst ` set added. \<exists>slot. slots s' rid = Some slot \<and> slot_ok a slot)
     \<and> (added \<noteq> [] \<longrightarrow> ul_file s' = map_option relations_info (ul_relations s'))"
    by (rule Cons.IH [OF Cons.prems(1) rest j(2)]) (use Cons.prems(4) in simp)
  have "ul_file s' = map_option relations_info (ul_relations s')"
    using IH j(3) rest by (cases added) auto
  moreover have "\<exists>slot. slots s' rid = Some slot \<and> slot_ok a slot"
    using IH slot by (cases "rid \<in> fst ` set added") auto
  moreover have "slots s' rid' = slots s rid'" if "rid' \<noteq> rid" "rid' \<notin> fst ` set added" for rid'
    using that IH slot(1) by auto
  moreover have "dom (slots s') = insert rid (dom (slots s)) \<union> fst ` set added" using IH slot(1) by simp
  ultimately show ?case using IH by (auto simp: x)
qed

text \<open>
  C18: the unit follows its service's relations. When a callback of the service's watch returns, the unit has
  exactly the relations the service has now; those it had before are untouched; what runs for a new one is what its
  workflow's state says; and the file a restarted agent will read lists the relations the unit has.
\<close>

theorem service_changes_tracked:
  assumes "agent_env_ok a" and "ul_relations s \<noteq> None" and "process_service_changes a new_relations s = (s', Inr ())"
  shows "dom (slots s') = sr_relation ` set new_relations
    \<and> (\<forall>rid \<in> dom (slots s) \<inter> dom (slots s'). slots s' rid = slots s rid)
    \<and> (\<forall>rid slot. slots s rid = None \<and> slots s' rid = Some slot \<longrightarrow> in_step (slot_state a slot) (m_world (sl_machine slot)))
    \<and> (dom (slots s') \<noteq> dom (slots s) \<longrightarrow> ul_file s' = map_option relations_info (ul_relations s'))"
proof -
  let ?new = "relations_dict new_relations"
  define added where "added = filter (\<lambda>(rid, r). rid \<notin> set (relation_ids s)) ?new"
  define removed where "removed = filter (\<lambda>rid. rid \<notin> set (dkeys ?new)) (relation_ids s)"
  obtain s1 sub s2 s3 u2 u3 where
    s1: "zk_call a (eread (\<lambda>z. se_is_subordinate (ae_state a) z (ss_id (ae_service a)))) s = (s1, Inr sub)"
    and s2: "efor removed (\<lambda>rid. ebind (on_relation a rid slot_stop) (\<lambda>_. eret ())) s1 = (s2, Inr u2)"
    and s3: "efor removed (depart_relation a) s2 = (s3, Inr u3)"
    and s': "efor added (\<lambda>(rid, r). join_new_relation a (\<not> sub) r) s3 = (s', Inr ())"
    using assms(3)
    unfolding process_service_changes_def Let_def added_def [symmetric] removed_def [symmetric]
    unfolding ebind_eq_Inr by blast
  have keys: "fst ` set ?new = sr_relation ` set new_relations" using relations_dict_keys [of new_relations] by simp
  have ids: "set (relation_ids s) = dom (slots s)" by (auto simp: relation_ids_slots)
  have add: "fst ` set added = sr_relation ` set new_relations - dom (slots s)"
    unfolding keys [symmetric] by (force simp: added_def ids)
  have rem: "set removed = dom (slots s) - sr_relation ` set new_relations"
    using relations_dict_keys [of new_relations] by (simp add: removed_def ids set_diff_eq del: set_map)
  have one: "slots s1 = slots s" "ul_relations s1 \<noteq> None" using zk_call_result [OF s1] assms(2) by simp_all
  note two = stop_removed_result [OF s2 one(2)]
  have rel2: "ul_relations s2 \<noteq> None" using two by simp
  note three = depart_removed_result [OF s3 rel2]
  have rel3: "ul_relations s3 \<noteq> None" using three by simp
  have entries: "\<And>rid r. (rid, r) \<in> set added \<Longrightarrow> sr_relation r = rid"
    by (auto simp: added_def dest: relations_dict_entries)
  note four = join_added_result [OF assms(1) s' rel3 entries]
  have dom3: "dom (slots s3) = dom (slots s) \<inter> sr_relation ` set new_relations"
    using three two rem one(1) by (auto simp: dom_def split: if_splits)
  have kept: "slots s3 rid = slots s rid" if "rid \<in> dom (slots s3)" for rid
    using that three two one(1) by (auto split: if_splits)
  have doms: "dom (slots s') = sr_relation ` set new_relations" using four dom3 add by auto
  moreover have "slots s' rid = slots s rid" if "rid \<in> dom (slots s) \<inter> dom (slots s')" for rid
  proof -
    have "rid \<notin> fst ` set added" using that add by auto
    then have "slots s' rid = slots s3 rid" using four by blast
    moreover have "rid \<in> dom (slots s3)" using that dom3 doms by auto
    ultimately show ?thesis using kept by simp
  qed
  moreover have "slot_ok a slot" if "slots s rid = None" "slots s' rid = Some slot" for rid slot
  proof -
    have "rid \<in> dom (slots s')" "rid \<notin> dom (slots s)" using that by (simp_all add: dom_def)
    then have "rid \<in> fst ` set added" using add doms by simp
    with four that(2) show ?thesis by force
  qed
  moreover have "ul_file s' = map_option relations_info (ul_relations s')" if "dom (slots s') \<noteq> dom (slots s)"
  proof (cases "added = []")
    case True
    then have "removed \<noteq> []" using that dom3 doms add rem by auto
    with three True s' show ?thesis by simp
  qed (use four in simp)
  ultimately show ?thesis by (auto simp: slot_ok_def)
qed

text \<open>A relation that is up, down or failed always departs: the depart hook's errors are only recorded.\<close>

lemma do_depart_returns: "\<exists>vs l'. do_depart (life_ops e) l = (ActReturned vs, l')"
proof -
  obtain l1 where "life_stop True l = (LReturned, l1)" using life_stop_result [of True l] by blast
  then show ?thesis
    by (cases "life_depart e (set_hook_error_handler False l1)"; cases "fst (life_depart e (set_hook_error_handler False l1))")
      (simp_all add: do_depart_def act_then_def relation_call_def life_ops_def)
qed

lemma slot_departs:
  assumes "agent_env_ok a" and "slot_state a slot = Some src" and "src \<in> {''up'', ''down'', ''error''}"
  shows "\<exists>slot'. slot_transition a ''departed'' slot = (Inr True, slot')"
proof -
  let ?env = "slot_env a slot" and ?m = "lock (sl_machine slot)"
  have y: "yaml_ok (ae_yaml a)" using assms(1) by (simp add: agent_env_ok_def)
  note rel = relation_machine [OF y, of "ae_client a" "sl_identity slot" "life_ops (ae_life a)", folded slot_env_def]
  note t = depart_transition [OF assms(3)]
  have st: "get_state ?env ?m = tr_source (depart_transition src)" "m_locked ?m"
    using assms(2) t(2) by (simp_all add: slot_state_def lock_def get_state_def load_def)
  obtain vs w where run: "run_action ?env (tr_id (depart_transition src)) (m_world ?m) = (ActReturned vs, w)"
    using do_depart_returns [of "ae_life a" "m_world ?m"] t(4) [of "life_ops (ae_life a)"]
    by (auto simp: run_action_def slot_env_def relation_env_def)
  obtain m' where fire: "fire_transition ?env 1 (tr_id (depart_transition src)) [] ?m = Some (Inr True, m')"
    using relation_success [OF y t(1) st(2), of "ae_client a" "sl_identity slot" "life_ops (ae_life a)", folded slot_env_def, OF st(1) run]
    by blast
  have "has_state (env_workflow ?env) (Some ''departed'')"
    by (simp add: slot_env_def relation_env_def RelationWorkflow_def has_state_initialize
        states_of_code relation_transitions_def new_transition_def)
  moreover have "get_available_transitions ?env ?m = Inr (filter (\<lambda>t. tr_source t = Some src) relation_transitions)"
    using workflow_machine.available_of_source(1) [OF rel t(1) st(1)] t(2) by simp
  moreover have "List.find (\<lambda>t. tr_destination t = ''departed'') (filter (\<lambda>t. tr_source t = Some src) relation_transitions)
      = Some (depart_transition src)"
    using assms(3) by (auto simp: relation_transitions_def new_transition_def depart_transition_def)
  ultimately have "transition_state ?env 1 ''departed'' ?m = Some (Inr True, m')"
    using fire st(2) by (simp add: transition_state_def)
  then show ?thesis by (simp add: slot_transition_def locked_def)
qed

definition demo_agent :: "((string, content) dict, content, plain_text, (string, plain_text) dict) agent_env" where
  "demo_agent = \<lparr>ae_life = demo_life_env, ae_yaml = plain_yaml, ae_client = plain_zk, ae_unit = db_unit,
     ae_service = \<lparr>ss_id = ''s-0'', ss_name = ''wordpress''\<rparr>,
     ae_disk = (\<lambda>_. \<lparr>dk_state_file = None, dk_history = [], dk_zk = []\<rparr>), ae_schedule = (\<lambda>_. Missing),
     ae_workflow_text = (\<lambda>_. []), ae_download = (\<lambda>_ _. None), ae_extract = (\<lambda>_. None), ae_deploy = (\<lambda>_ _ _ z. z)\<rparr>"

text \<open>A running unit with one relation, which its service has no more.\<close>

definition demo_slot :: "(plain_text, (string, plain_text) dict, (string, content) dict) relation_slot" where
  "demo_slot = \<lparr>sl_name = ''db'', sl_identity = (''/units/unit-0'', ''relation-0''), sl_machine = demo_life_machine\<rparr>"

definition demo_unit_life :: "(plain_text, (string, plain_text) dict, (string, content) dict) unit_life" where
  "demo_unit_life = (new_unit_life (Some [(''relation-0'', (''db'', ''global''))]) True [])
     \<lparr>ul_running := True, ul_relations := Some [(''relation-0'', demo_slot)]\<rparr>"

lemma demo_agent_ok: "agent_env_ok demo_agent"
  by (simp add: agent_env_ok_def demo_agent_def demo_life_env_def plain_yaml_ok)

lemma demo_slot_state: "slot_state demo_agent demo_slot = Some ''down''"
proof -
  note rel = relation_machine [OF plain_yaml_ok, of plain_zk "(''/units/unit-0'', ''relation-0'')" "life_ops demo_life_env"]
  show ?thesis
    using workflow_machine.state_set_state [OF rel]
    by (simp add: slot_state_def slot_env_def demo_slot_def demo_agent_def demo_life_machine_def)
qed

lemma demo_slot_in_step: "in_step (slot_state demo_agent demo_slot) (m_world (sl_machine demo_slot))"
proof -
  note rel = relation_machine [OF plain_yaml_ok, of plain_zk "(''/units/unit-0'', ''relation-0'')" "life_ops demo_life_env"]
  have "m_world (sl_machine demo_slot) = demo_life"
    by (simp add: demo_slot_def demo_life_machine_def workflow_machine.set_state_world [OF rel] fresh_machine_def)
  then show ?thesis
    by (simp add: demo_slot_state in_step_def demo_life_def new_relation_life_def life_executing_def life_watching_def
        watcher_running_def demo_watcher_def new_watcher_def new_scheduler_def create_state_def)
qed

theorem service_changes_tracked_witness:
  "\<exists>s'. process_service_changes demo_agent [] demo_unit_life = (s', Inr ()) \<and> dom (slots s') = {} \<and> ul_file s' = Some []"
proof -
  let ?s = "demo_unit_life"
  obtain stopped where stop: "slot_stop (lend [] demo_slot) = (Inr True, stopped)" and
    state: "slot_state demo_agent stopped = Some ''down''"
    using demo_slot_state
    by (simp add: slot_stop_def lend_def slot_state_def slot_env_def get_state_def load_def)
  have "slot_state demo_agent (lend z stopped) = Some ''down''" for z
    using state by (simp add: slot_state_def lend_def slot_env_def get_state_def load_def)
  then obtain slot' where depart: "slot_transition demo_agent ''departed'' (lend (rf_zk (m_world (sl_machine stopped))) stopped) = (Inr True, slot')"
    using slot_departs [OF demo_agent_ok] by blast
  have sub: "se_is_subordinate (ae_state demo_agent) z sid = Inr False" for z sid
    by (simp add: demo_agent_def demo_life_env_def dict_env_def)
  obtain s' where s': "process_service_changes demo_agent [] ?s = (s', Inr ())" "ul_relations s' = Some []"
    using stop depart
    by (simp add: process_service_changes_def demo_unit_life_def new_unit_life_def relation_ids_def relations_dict_def
        zk_call_def eread_def sub ebind_def on_relation_def depart_relation_def eret_def store_relations_def modify_def)
  have "ul_relations ?s \<noteq> None" by (simp add: demo_unit_life_def)
  from service_changes_tracked [OF demo_agent_ok this s'(1)]
  have "dom (slots s') = {}" "dom (slots s') \<noteq> dom (slots ?s) \<longrightarrow> ul_file s' = map_option relations_info (ul_relations s')"
    by simp_all
  moreover have "dom (slots ?s) \<noteq> {}" by (simp add: demo_unit_life_def slots_def dom_def)
  ultimately show ?thesis using s' by (auto simp: relations_info_def)
qed

section \<open>A relation that was removed while the agent was down\<close>

text \<open>The workflow of such a relation in state \<open>down\<close>, as \<open>_load_relations\<close> reconstructs it.\<close>

definition orphaned :: "('z, 'c, 't, 'y) agent_env \<Rightarrow> string \<Rightarrow> ('t, 'y, 'z) relation_slot \<Rightarrow> bool" where
  "orphaned a rid slot \<longleftrightarrow> slot_state a slot = Some ''down'' \<and> rf_watcher (m_world (sl_machine slot)) = None
     \<and> ur_role (slot_relation slot) = None \<and> ur_relation (slot_relation slot) = rid"

definition relation_gone :: "('z, 'c, 't, 'y) agent_env \<Rightarrow> string \<Rightarrow> 'z \<Rightarrow> bool" where
  "relation_gone a rid z \<longleftrightarrow> (\<exists>t infos. topo_of (ae_state a) z = Inr t \<and> \<not> has_relation t rid
     \<and> get_relations_for_service t (ss_id (ae_service a)) = Inr infos \<and> rid \<notin> ri_relation_id ` set infos)"

lemma lend_orphaned: "orphaned a rid (lend z slot) = orphaned a rid slot"
  by (simp add: orphaned_def slot_state_def slot_env_fields) (simp add: lend_def get_state_def load_def)

lemma orphan_start:
  assumes "topo_of (le_state e) (rf_zk l) = Inr t" and "\<not> has_relation t (ur_relation (rf_relation l))"
    and "rf_watcher l = None" and "ur_role (rf_relation l) = None"
  shows "\<exists>l'. life_start e b b' l = (LRaised (le_error_text e state_changed), l')
    \<and> rf_watcher l' = None \<and> rf_relation l' = rf_relation l \<and> rf_zk l' = rf_zk l"
proof -
  let ?l = "run_scheduler e b' l"
  have l: "rf_zk ?l = rf_zk l" "rf_relation ?l = rf_relation l" "rf_watcher ?l = None"
    using assms(3) by (simp_all add: run_scheduler_def)
  have "watch_related_units (le_state e) (rf_zk ?l) (rf_relation ?l) = (rf_relation l, Inl state_changed)"
    using assms l by (simp add: watch_related_units_def ebind_def get_relation_role_def)
  then show ?thesis using l by (simp add: life_start_def create_watcher_def)
qed

lemma orphan_up:
  assumes "agent_env_ok a" and "orphaned a rid slot" and "relation_gone a rid (rf_zk (m_world (sl_machine slot)))"
  shows "\<exists>slot' err. slot_transition a ''up'' slot = (Inl err, slot') \<and> orphaned a rid slot'
    \<and> rf_zk (m_world (sl_machine slot')) = rf_zk (m_world (sl_machine slot))"
proof -
  let ?env = "slot_env a slot" and ?m = "lock (sl_machine slot)"
  define t where "t = new_transition ''restart'' ''Restart'' (Some ''down'') ''up'' None False (Some ''retry'')"
  have t: "t \<in> set relation_transitions" "tr_id t = ''restart''" "tr_source t = Some ''down''" "tr_destination t = ''up''"
    by (simp_all add: t_def relation_transitions_def new_transition_def)
  have y: "yaml_ok (ae_yaml a)" using assms(1) by (simp add: agent_env_ok_def)
  note rel = relation_machine [OF y, of "ae_client a" "sl_identity slot" "life_ops (ae_life a)", folded slot_env_def]
  have m: "get_state ?env ?m = tr_source t" "m_locked ?m" "m_world ?m = m_world (sl_machine slot)"
    using assms(2) t(3) by (simp_all add: orphaned_def slot_state_def lock_def get_state_def load_def)
  obtain l' where l': "life_start (ae_life a) True True (m_world ?m) = (LRaised (le_error_text (ae_life a) state_changed), l')"
      "rf_watcher l' = None" "rf_relation l' = slot_relation slot" "rf_zk l' = rf_zk (m_world (sl_machine slot))"
    using assms(2,3) orphan_start [of "ae_life a" "m_world ?m" _ True True] unfolding relation_gone_def orphaned_def m(3) by metis
  have run: "run_action ?env (tr_id t) (m_world ?m) = (ActRaised (le_error_text (ae_life a) state_changed), l')"
    using l'(1)
    by (simp add: t(2) run_action_def slot_env_def relation_env_def relation_actions_def relation_call_def life_ops_def)
  let ?m' = "(set_inflight ?env (Some (tr_id t)) ?m)\<lparr>m_world := l'\<rparr>"
  have "fires ?env (tr_id t) [] ?m (Inl (ActionRaised (le_error_text (ae_life a) state_changed))) ?m'"
    by (rule raises [OF m(2) workflow_machine.available_of_source [OF rel t(1) m(1)] refl _ refl])
      (simp add: run workflow_machine.set_inflight_world [OF rel])
  from workflow_machine.fires_computed [OF rel relation_ranked _ this, folded slot_env_def]
  have fire: "fire_transition ?env 1 ''restart'' [] ?m = Some (Inl (ActionRaised (le_error_text (ae_life a) state_changed)), ?m')"
    by (simp add: t(2))
  have "has_state (env_workflow ?env) (Some ''up'')"
    by (simp add: slot_env_def relation_env_def RelationWorkflow_def has_state_initialize
        states_of_code relation_transitions_def new_transition_def)
  moreover have "get_available_transitions ?env ?m = Inr (filter (\<lambda>t. tr_source t = Some ''down'') relation_transitions)"
    using workflow_machine.available_of_source(1) [OF rel t(1) m(1)] t(3) by simp
  moreover have "List.find (\<lambda>t. tr_destination t = ''up'') (filter (\<lambda>t. tr_source t = Some ''down'') relation_transitions) = Some t"
    by (simp add: relation_transitions_def new_transition_def t_def)
  ultimately have "slot_transition a ''up'' slot =
      (Inl (ActionRaised (le_error_text (ae_life a) state_changed)), slot\<lparr>sl_machine := release ?m'\<rparr>)"
    using fire m(2) t(2) by (simp add: slot_transition_def locked_def transition_state_def)
  moreover have "orphaned a rid (slot\<lparr>sl_machine := release ?m'\<rparr>)"
    using assms(2) l'(2,3) m(1) t(3) workflow_machine.state_set_inflight [OF rel] workflow_machine.state_world [OF rel]
    by (simp add: orphaned_def slot_state_def slot_env_fields release_def get_state_def load_def)
  ultimately show ?thesis using l'(4) by (auto simp: release_def)
qed

lemma orphan_on_relation:
  assumes "agent_env_ok a" and "orphaned a rid slot" and "relation_gone a rid (ul_zk s)"
    and "ul_relations s = Some [(rid, slot)]"
  shows "\<exists>s' slot' msg. on_all_relations a (\<lambda>slot.
      if slot_state a slot = Some ''down'' then slot_transition a ''up'' slot else (Inr True, slot)) s = (s', Inl (LRaised msg))
    \<and> ul_relations s' = Some [(rid, slot')] \<and> orphaned a rid slot' \<and> ul_zk s' = ul_zk s \<and> ul_running s' = ul_running s"
proof -
  let ?slot = "lend (ul_zk s) slot"
  have o: "orphaned a rid ?slot" and z: "rf_zk (m_world (sl_machine ?slot)) = ul_zk s"
    using assms(2) by (simp_all add: lend_orphaned) (simp add: lend_def)
  then obtain slot' err where "slot_transition a ''up'' ?slot = (Inl err, slot')" "orphaned a rid slot'"
      "rf_zk (m_world (sl_machine slot')) = ul_zk s"
    using orphan_up [OF assms(1) o] assms(3) by auto
  moreover have "slot_state a ?slot = Some ''down''" using o by (simp add: orphaned_def)
  ultimately show ?thesis
    using assms(4) by (auto simp: on_all_relations_def relation_ids_def on_relation_def ebind_def)
qed

text \<open>What a unit in this position is: stopped, before its first start or with the relation's objects made.\<close>

definition stuck :: "('z, 'c, 't, 'y) agent_env \<Rightarrow> string \<Rightarrow> ('t, 'y, 'z) unit_life \<Rightarrow> bool" where
  "stuck a rid s \<longleftrightarrow> \<not> ul_running s \<and> relation_gone a rid (ul_zk s)
     \<and> ((ul_relations s = None \<and> (\<exists>name scope. ul_file s = Some [(rid, (name, scope))])
           \<and> (\<exists>d. disk_load (ae_yaml a) (ae_disk a rid) = Some d \<and> sd_state d = Some ''down''))
        \<or> (\<exists>slot. ul_relations s = Some [(rid, slot)] \<and> orphaned a rid slot))"

lemma stuck_load:
  assumes "stuck a rid s" and "ul_relations s = None"
  shows "\<exists>s' slot. load_relations a s = (s', Inr ()) \<and> ul_relations s' = Some [(rid, slot)] \<and> orphaned a rid slot
    \<and> ul_zk s' = ul_zk s \<and> ul_running s' = ul_running s"
proof -
  obtain t infos name scope d where z: "topo_of (ae_state a) (ul_zk s) = Inr t"
      "get_relations_for_service t (ss_id (ae_service a)) = Inr infos" "rid \<notin> ri_relation_id ` set infos"
    and stored: "ul_file s = Some [(rid, (name, scope))]"
    and d: "disk_load (ae_yaml a) (ae_disk a rid) = Some d" "sd_state d = Some ''down''"
    using assms by (auto simp: stuck_def relation_gone_def)
  let ?ur = "\<lparr>ur_service = ss_id (ae_service a), ur_unit = su_id (ae_unit a), ur_relation = rid, ur_scope = scope, ur_role = None\<rparr>"
  let ?slot = "new_slot a ?ur (ident_name name) name (ul_zk s)"
  have "rid \<notin> set (dkeys (relations_dict (map (to_service_relation (ss_id (ae_service a))) infos)))"
    using z(3) unfolding relations_dict_keys by (auto simp: to_service_relation_def)
  then have "dget (relations_dict (map (to_service_relation (ss_id (ae_service a))) infos)) rid = None"
    by (simp add: map_of_eq_None_iff)
  then have "load_relations a s = (s\<lparr>ul_relations := Some [(rid, ?slot)]\<rparr>, Inr ())"
    by (simp add: load_relations_def modify_def ebind_def stored zk_call_def eread_def relations_for_service_def z(1,2)
        load_known_def reconstruct_workflow_def put_slot_def)
  moreover have "orphaned a rid ?slot"
    using d
    by (simp add: orphaned_def new_slot_def new_relation_life_def set_hook_error_handler_def slot_state_def slot_env_def
        get_state_def load_def relation_env_def disk_backend_def)
  ultimately show ?thesis by auto
qed

lemma stuck_start:
  assumes "agent_env_ok a" and "stuck a rid s"
  shows "\<exists>s' msg. unit_start a False True s = (s', Inl (LRaised msg)) \<and> stuck a rid s'"
proof -
  obtain s1 slot where s1: "(if ul_relations s = None then load_relations a s else (s, Inr ())) = (s1, Inr ())"
      "ul_relations s1 = Some [(rid, slot)]" "orphaned a rid slot" "ul_zk s1 = ul_zk s" "ul_running s1 = ul_running s"
  proof (cases "ul_relations s = None")
    case True
    with stuck_load [OF assms(2)] that show thesis by auto
  next
    case False
    then show thesis using assms(2) that by (auto simp: stuck_def)
  qed
  have gone: "relation_gone a rid (ul_zk s1)" using assms(2) s1(4) by (simp add: stuck_def)
  obtain s' slot' msg where s': "on_all_relations a (\<lambda>slot.
      if slot_state a slot = Some ''down'' then slot_transition a ''up'' slot else (Inr True, slot)) s1 = (s', Inl (LRaised msg))"
      "ul_relations s' = Some [(rid, slot')]" "orphaned a rid slot'" "ul_zk s' = ul_zk s1" "ul_running s' = ul_running s1"
    using orphan_on_relation [OF assms(1) s1(3) gone s1(2)] by blast
  have "start_locked a False True s = (s', Inl (LRaised msg))"
    using s1(1) s'(1) by (simp add: start_locked_def ebind_def eret_def)
  then have "unit_start a False True s = (s', Inl (LRaised msg))"
    by (simp add: unit_start_def ebind_def)
  moreover have "stuck a rid s'"
    using assms(2) s1(4,5) s'(2-5) by (simp add: stuck_def)
  ultimately show ?thesis by blast
qed


definition stuck_agent :: "((string, content) dict, content, plain_text, (string, plain_text) dict) agent_env" where
  "stuck_agent = demo_agent\<lparr>ae_disk := (\<lambda>_. \<lparr>dk_state_file = Some (PlainState (Some ''down'') (Some []) None),
     dk_history = [], dk_zk = []\<rparr>)\<rparr>"


section \<open>Stopping a unit\<close>

lemma not_up_after_down:
  assumes "agent_env_ok a" and "slot_transition a ''down'' slot = (Inr b, slot')"
  shows "slot_state a slot' \<noteq> Some ''up''"
proof -
  let ?env = "slot_env a slot" and ?m = "lock (sl_machine slot)"
  have y: "yaml_ok (ae_yaml a)" using assms(1) by (simp add: agent_env_ok_def)
  note rel = relation_machine [OF y, of "ae_client a" "sl_identity slot" "life_ops (ae_life a)", folded slot_env_def]
  obtain m' where m': "transition_state ?env 1 ''down'' ?m = Some (Inr b, m')" "slot' = slot\<lparr>sl_machine := release m'\<rparr>"
    using assms(2) by (auto simp: slot_transition_def locked_def split: option.splits prod.splits)
  then obtain available where av: "get_available_transitions ?env ?m = Inr available"
    by (auto simp: transition_state_def split: if_splits sum.splits)
  then have available: "available = filter (\<lambda>t. tr_source t = get_state ?env ?m) relation_transitions"
    using workflow_machine.available_iff [OF rel, of ?m] by (simp split: if_splits)
  have "get_state ?env m' \<noteq> Some ''up''"
  proof (cases "List.find (\<lambda>t. tr_destination t = ''down'') available")
    case None
    then have "m' = ?m" using m'(1) av by (simp add: transition_state_def split: if_splits)
    moreover have "get_state ?env ?m \<noteq> Some ''up''"
      using None by (auto simp: available relation_transitions_def new_transition_def)
    ultimately show ?thesis by simp
  next
    case (Some t)
    then have t: "t \<in> set relation_transitions" "tr_destination t = ''down''"
      using find_SomeD [OF Some] by (simp_all add: available)
    have "fire_transition ?env 1 (tr_id t) [] ?m = Some (Inr b, m')"
      using m'(1) av Some by (simp add: transition_state_def split: if_splits)
    then obtain t' where t': "t' \<in> set relation_transitions" "tr_id t' = tr_id t" "get_state ?env m' = Some (tr_destination t')"
      unfolding slot_env_def by (rule relation_success_inv [OF y])
    then have "t' = t" using t(1) relation_ids_distinct by (auto simp: distinct_map dest: inj_onD)
    with t(2) t'(3) show ?thesis by simp
  qed
  then show ?thesis by (simp add: m'(2) slot_state_def slot_env_fields release_def get_state_def load_def)
qed

text \<open>What a step does to each relation it is applied to, it does to all the unit has.\<close>

lemma all_relations_result:
  assumes f: "\<And>slot slot' b. slot_ok a slot \<Longrightarrow> f slot = (Inr b, slot') \<Longrightarrow> Q slot'"
  shows "efor rids (\<lambda>rid. ebind (on_relation a rid f) (\<lambda>_. eret ())) s = (s', Inr u) \<Longrightarrow>
    (\<And>rid slot. slots s rid = Some slot \<Longrightarrow> if rid \<in> set rids then slot_ok a slot \<or> Q slot else Q slot) \<Longrightarrow>
    (\<And>slot. Q slot \<Longrightarrow> slot_ok a slot) \<Longrightarrow>
    dom (slots s') = dom (slots s) \<and> ul_running s' = ul_running s \<and> (\<forall>rid slot. slots s' rid = Some slot \<longrightarrow> Q slot)"
proof (induction rids arbitrary: s)
  case Nil
  then show ?case by simp
next
  case (Cons rid rids)
  then obtain s1 b where s1: "on_relation a rid f s = (s1, Inr b)"
    and rest: "efor rids (\<lambda>rid. ebind (on_relation a rid f) (\<lambda>_. eret ())) s1 = (s', Inr u)"
    by (auto simp: efor_Cons_Inr forget_value simp del: efor.simps)
  from s1 obtain slot slot' where slot: "slots s rid = Some slot" "f (lend (ul_zk s) slot) = (Inr b, slot')"
      "slots s1 = (slots s)(rid \<mapsto> slot')" "ul_running s1 = ul_running s"
    by (rule on_relation_result)
  have ok: "slot_ok a slot" using Cons.prems(2) [OF slot(1)] Cons.prems(3) by auto
  have Q: "Q slot'" using f [OF _ slot(2)] ok by simp
  have "if rid' \<in> set rids then slot_ok a slot0 \<or> Q slot0 else Q slot0" if "slots s1 rid' = Some slot0" for rid' slot0
    using Cons.prems(2) [of rid' slot0] that Q slot(3) by (auto split: if_splits)
  note IH = Cons.IH [OF rest this Cons.prems(3)]
  have "dom (slots s1) = dom (slots s)" using slot(1,3) by auto
  with IH slot(4) show ?case by simp
qed

text \<open>
  C19: a stopped unit is quiet. When stopping it returns, it was running and no longer is, it has the relations
  it had, no hook of theirs will be run, and each is as its workflow says; a later start takes those in state
  \<open>down\<close> up again.
\<close>

theorem stopped_unit_is_quiet:
  assumes "agent_env_ok a" and "\<And>rid slot. slots s rid = Some slot \<Longrightarrow> in_step (slot_state a slot) (m_world (sl_machine slot))"
    and "unit_stop a fire_hooks True s = (s', Inr ())"
  shows "ul_running s \<and> \<not> ul_running s' \<and> dom (slots s') = dom (slots s)
    \<and> (\<forall>rid slot. slots s' rid = Some slot \<longrightarrow> slot_state a slot \<noteq> Some ''up''
         \<and> \<not> life_executing (m_world (sl_machine slot)) \<and> in_step (slot_state a slot) (m_world (sl_machine slot)))"
proof -
  obtain s1 s2 u2 s3 u3 where s1: "agent_assert ul_running ''Already Stopped'' s = (s1, Inr ())"
    and s2: "on_all_relations a (slot_transition a ''down'') s1 = (s2, Inr u2)"
    and s3: "(if fire_hooks then unit_hook a ''stop'' else eret ()) s2 = (s3, Inr u3)"
    and s': "modify (\<lambda>s. s\<lparr>ul_running := False\<rparr>) s3 = (s', Inr ())"
    using assms(3) unfolding unit_stop_def ebind_eq_Inr by auto
  have run: "ul_running s" "s1 = s" using s1 by (auto simp: agent_assert_def split: if_splits)
  define Q where "Q slot \<longleftrightarrow> slot_ok a slot \<and> slot_state a slot \<noteq> Some ''up''" for slot
  have "Q slot'" if "slot_ok a slot" "slot_transition a ''down'' slot = (Inr b, slot')" for slot slot' b
    using that slot_transition_ok [OF assms(1) that(2,1)] not_up_after_down [OF assms(1) that(2)] by (simp add: Q_def)
  moreover have "efor (relation_ids s) (\<lambda>rid. ebind (on_relation a rid (slot_transition a ''down'')) (\<lambda>_. eret ())) s = (s2, Inr u2)"
    using s2 run(2) by (simp add: on_all_relations_def split: if_splits)
  moreover have "if rid \<in> set (relation_ids s) then slot_ok a slot \<or> Q slot else Q slot" if "slots s rid = Some slot" for rid slot
    using assms(2) [OF that] that by (simp add: relation_ids_slots slot_ok_def)
  moreover have "slot_ok a slot" if "Q slot" for slot using that by (simp add: Q_def)
  ultimately have all: "dom (slots s2) = dom (slots s) \<and> ul_running s2 = ul_running s
      \<and> (\<forall>rid slot. slots s2 rid = Some slot \<longrightarrow> Q slot)"
    by (rule all_relations_result)
  have "slots s3 = slots s2"
    using s3 by (auto simp: unit_hook_def eret_def split: if_splits prod.splits)
  then have "slots s' = slots s2" "\<not> ul_running s'" using s' by (auto simp: modify_def)
  with all run show ?thesis by (simp add: Q_def slot_ok_def in_step_def)
qed

lemma down_stays:
  assumes "agent_env_ok a" and "slot_state a slot = Some ''down''"
  shows "\<exists>slot'. slot_transition a ''down'' slot = (Inr False, slot')"
proof -
  let ?env = "slot_env a slot" and ?m = "lock (sl_machine slot)"
  have y: "yaml_ok (ae_yaml a)" using assms(1) by (simp add: agent_env_ok_def)
  note rel = relation_machine [OF y, of "ae_client a" "sl_identity slot" "life_ops (ae_life a)", folded slot_env_def]
  have st: "get_state ?env ?m = Some ''down''"
    using assms(2) by (simp add: slot_state_def lock_def get_state_def load_def)
  have "has_state (env_workflow ?env) (Some ''down'')"
    by (simp add: slot_env_def relation_env_def RelationWorkflow_def has_state_initialize
        states_of_code relation_transitions_def new_transition_def)
  moreover have "get_available_transitions ?env ?m = Inr (filter (\<lambda>t. tr_source t = Some ''down'') relation_transitions)"
    using workflow_machine.available_iff [OF rel, of ?m] st
    by (simp add: states_of_code relation_transitions_def new_transition_def)
  moreover have "List.find (\<lambda>t. tr_destination t = ''down'') (filter (\<lambda>t. tr_source t = Some ''down'') relation_transitions) = None"
    by (simp add: relation_transitions_def new_transition_def)
  ultimately show ?thesis by (simp add: slot_transition_def locked_def transition_state_def lock_def)
qed

theorem stopped_unit_is_quiet_witness:
  "\<exists>s'. unit_stop demo_agent False True demo_unit_life = (s', Inr ()) \<and> ul_running demo_unit_life \<and> \<not> ul_running s'
     \<and> dom (slots s') = {''relation-0''}"
proof -
  have "slot_state demo_agent (lend [] demo_slot) = Some ''down''"
    using demo_slot_state by (simp add: slot_state_def lend_def slot_env_def get_state_def load_def)
  then obtain slot' where "slot_transition demo_agent ''down'' (lend [] demo_slot) = (Inr False, slot')"
    using down_stays [OF demo_agent_ok] by blast
  then obtain s' where s': "unit_stop demo_agent False True demo_unit_life = (s', Inr ())"
    by (simp add: unit_stop_def ebind_def agent_assert_def on_all_relations_def relation_ids_def demo_unit_life_def
        new_unit_life_def on_relation_def eret_def modify_def)
  have slots: "slots demo_unit_life = [''relation-0'' \<mapsto> demo_slot]"
    by (auto simp: slots_def demo_unit_life_def)
  have "in_step (slot_state demo_agent slot) (m_world (sl_machine slot))" if "slots demo_unit_life rid = Some slot" for rid slot
    using that demo_slot_in_step by (simp add: slots split: if_splits)
  from stopped_unit_is_quiet [OF demo_agent_ok this s'] s' slots show ?thesis by auto
qed

end
