(* ===== verification/PyText.thy ===== *)
theory PyText
  imports PyStrings
begin

text \<open>
  More of Python 2's byte strings: \<open>upper\<close>, \<open>lower\<close>, \<open>replace\<close> of a character, \<open>endswith\<close>, and
  \<open>repr\<close> (the \<open>%r\<close> of a format).
\<close>

section \<open>Case\<close>

definition to_lower :: "char \<Rightarrow> char" where
  "to_lower c = (if 65 \<le> (of_char c :: nat) \<and> of_char c \<le> (90 :: nat) then char_of (of_char c + 32 :: nat) else c)"

definition to_upper :: "char \<Rightarrow> char" where
  "to_upper c = (if 97 \<le> (of_char c :: nat) \<and> of_char c \<le> (122 :: nat) then char_of (of_char c - 32 :: nat) else c)"

definition py_lower :: "string \<Rightarrow> string" where
  "py_lower s = map to_lower s"

definition py_upper :: "string \<Rightarrow> string" where
  "py_upper s = map to_upper s"

definition endswith :: "string \<Rightarrow> string \<Rightarrow> bool" where
  "endswith s p \<longleftrightarrow> startswith (rev s) (rev p)"

lemma endswith_append [simp]: "endswith (a @ p) p"
  by (simp add: endswith_def startswith_def)

section \<open>\<open>repr\<close>\<close>

definition hex_digit :: "nat \<Rightarrow> char" where
  "hex_digit n = ''0123456789abcdef'' ! n"

definition backslash :: char where
  "backslash = CHR 0x5C"

text \<open>One byte, written between quotes \<open>q\<close>.\<close>

definition repr_char :: "char \<Rightarrow> char \<Rightarrow> string" where
  "repr_char q c =
     (if c = q \<or> c = backslash then [backslash, c]
      else if c = CHR 0x09 then [backslash, CHR ''t'']
      else if c = CHR 0x0A then [backslash, CHR ''n'']
      else if c = CHR 0x0D then [backslash, CHR ''r'']
      else let n = of_char c :: nat in
        if n < 32 \<or> 127 \<le> n then [backslash, CHR ''x'', hex_digit (n div 16), hex_digit (n mod 16)] else [c])"

definition repr_quote :: "string \<Rightarrow> char" where
  "repr_quote s = (if CHR 0x27 \<in> set s \<and> CHR 0x22 \<notin> set s then CHR 0x22 else CHR 0x27)"

definition py_repr :: "string \<Rightarrow> string" where
  "py_repr s = (let q = repr_quote s in q # concat (map (repr_char q) s) @ [q])"

text \<open>\<open>repr\<close> of a tuple\<close>

definition repr_tuple :: "('a \<Rightarrow> string) \<Rightarrow> 'a list \<Rightarrow> string" where
  "repr_tuple f xs =
     (case xs of [x] \<Rightarrow> ''('' @ f x @ '',)'' | _ \<Rightarrow> ''('' @ py_join '', '' (map f xs) @ '')'')"

end
