(* ===== verification/StateErrors.thy ===== *)
theory StateErrors
  imports StateBase PyText "HOL-Library.List_Lexorder" "HOL-Library.Char_ord"
begin

text \<open>
  \<open>juju/state/errors.py\<close>: the texts of the errors of the state package, which reach users and, through
  \<open>juju/hooks/protocol.py\<close>, hooks. The texts of errors that other modules define are the parameter \<open>other\<close>.
\<close>

definition repr_endpoint :: "relation_endpoint \<Rightarrow> string" where
  "repr_endpoint ep =
     ''RelationEndpoint(service_name='' @ py_repr (ep_service_name ep)
     @ '', relation_type='' @ py_repr (ep_relation_type ep)
     @ '', relation_name='' @ py_repr (ep_relation_name ep)
     @ '', relation_role='' @ py_repr (ep_relation_role ep)
     @ '', relation_scope='' @ py_repr (ep_relation_scope ep) @ '')''"

text \<open>\<open>AmbiguousRelation\<close>: one line per pair of endpoints, sorted\<close>

definition ambiguous_line :: "relation_endpoint \<times> relation_endpoint \<Rightarrow> string" where
  "ambiguous_line = (\<lambda>(end1, end2).
     ''  '' @ [CHR 0x27] @ ep_service_name end1 @ '':'' @ ep_relation_name end1 @ '' '' @
     ep_service_name end2 @ '':'' @ ep_relation_name end2 @ [CHR 0x27] @ '' ('' @
     ep_relation_type end1 @ '' '' @ ep_relation_role end1 @ '' / '' @
     ep_relation_type end2 @ '' '' @ ep_relation_role end2 @ '')'')"

definition service_error_text :: "state_error \<Rightarrow> string option" where
  "service_error_text err =
     (case err of
        InNode StateChanged \<Rightarrow> Some ''State changed while operation was in progress''
      | PrincipalNotFound principal_name \<Rightarrow> Some (''Principal '' @ py_repr principal_name @ '' not found'')
      | CharmStateNotFound charm_id \<Rightarrow> Some (''Charm '' @ py_repr charm_id @ '' was not found'')
      | ServiceStateNotFound service_name \<Rightarrow> Some (''Service '' @ py_repr service_name @ '' was not found'')
      | ServiceStateNameInUse service_name \<Rightarrow> Some (''Service name '' @ py_repr service_name @ '' is already in use'')
      | ServiceUnitStateNotFound uname \<Rightarrow> Some (''Service unit '' @ py_repr uname @ '' was not found'')
      | BadServiceStateName expected_name obtained_name \<Rightarrow>
          Some (''Expected service name '' @ py_repr expected_name @ '' but got '' @ py_repr obtained_name)
      | MachineStateNotFound machine_id \<Rightarrow> Some (''Machine '' @ (case machine_id of Inl s \<Rightarrow> py_repr s | Inr i \<Rightarrow> show_int i) @ '' was not found'')
      | MachineStateInUse machine_id \<Rightarrow>
          Some (''Resources are currently assigned to machine '' @ show_int machine_id)
      | NoUnusedMachines \<Rightarrow> Some ''No unused machines are available for assignment''
      | IllegalSubordinateMachineAssignment uname \<Rightarrow>
          Some (''Unable to assign subordinate '' @ uname @ '' to machine.'')
      | _ \<Rightarrow> None)"

definition unit_error_text :: "state_error \<Rightarrow> string option" where
  "unit_error_text err =
     (case err of
        ServiceUnitStateMachineAlreadyAssigned uname \<Rightarrow>
          Some (''Service unit '' @ py_repr uname @ '' is already assigned to a machine'')
      | ServiceUnitStateMachineNotAssigned uname \<Rightarrow>
          Some (''Service unit '' @ py_repr uname @ '' is not assigned to a machine'')
      | ServiceUnitDebugAlreadyEnabled uname \<Rightarrow>
          Some (''Service unit '' @ py_repr uname @ '' is already in debug mode.'')
      | ServiceUnitUpgradeAlreadyEnabled uname \<Rightarrow>
          Some (''Service unit '' @ py_repr uname @ '' is already marked for upgrade.'')
      | ServiceUnitResolvedAlreadyEnabled uname \<Rightarrow>
          Some (''Service unit '' @ py_repr uname @ '' is already marked as resolved.'')
      | ServiceUnitRelationResolvedAlreadyEnabled uname \<Rightarrow>
          Some (''Service unit '' @ py_repr uname @ '' already has relations marked as resolved.'')
      | _ \<Rightarrow> None)"

definition container_error_text :: "state_error \<Rightarrow> string option" where
  "container_error_text err =
     (case err of
        PrincipalServiceUnitRequired service_name value \<Rightarrow>
          Some (''Expected principal service unit as container for '' @ service_name @ '' instance, got '' @ py_repr value)
      | UnitMissingContainer uname \<Rightarrow>
          Some (''The unit '' @ uname @ '' expected a principal container but none was assigned.'')
      | SubordinateUsedAsContainer service_name other_unit \<Rightarrow>
          Some (''Attempted to assign unit of '' @ service_name @ '' to subordinate '' @ other_unit)
      | NotSubordinateCharm service_name other_unit \<Rightarrow>
          Some (service_name @ '' cannot be used as subordinate to '' @ other_unit)
      | UnsupportedSubordinateServiceRemoval subordinate_service_name principal_service_name \<Rightarrow>
          Some (''Unsupported attempt to destroy subordinate service '' @ [CHR 0x27] @ subordinate_service_name @ [CHR 0x27]
            @ '' while principal service '' @ [CHR 0x27] @ principal_service_name @ [CHR 0x27] @ '' is related.'')
      | EnvironmentStateNotFound \<Rightarrow> Some ''Environment state was not found''
      | _ \<Rightarrow> None)"

definition relation_error_text :: "state_error \<Rightarrow> string option" where
  "relation_error_text err =
     (case err of
        RelationAlreadyExists endpoints \<Rightarrow>
          (case endpoints of
             [] \<Rightarrow> None
           | [ep] \<Rightarrow> Some (''Relation '' @ ep_relation_type ep @ '' already exists for '' @ ep_service_name ep)
           | ep # _ \<Rightarrow> Some (''Relation '' @ ep_relation_type ep @ '' already exists between ''
               @ py_join '' and '' (map ep_service_name endpoints)))
      | RelationStateNotFound \<Rightarrow> Some ''Relation not found''
      | UnitRelationStateAlreadyAssigned relation_id relation_name uname \<Rightarrow>
          Some (''The relation '' @ py_repr relation_name @ '' already contains a unit for '' @ py_repr uname)
      | UnitRelationStateNotFound relation_id relation_name uname \<Rightarrow>
          Some (''The relation '' @ py_repr relation_name @ '' has no unit state for '' @ py_repr uname)
      | _ \<Rightarrow> None)"

definition endpoint_error_text :: "state_error \<Rightarrow> string option" where
  "endpoint_error_text err =
     (case err of
        UnknownRelationRole relation_id relation_role service_name \<Rightarrow>
          Some (''Unknown relation role '' @ py_repr relation_role @ '' for service '' @ py_repr service_name)
      | BadDescriptor descriptor \<Rightarrow> Some (''Bad descriptor: '' @ py_repr descriptor)
      | DuplicateEndpoints endpoints \<Rightarrow> Some (''Duplicate endpoints: '' @ repr_tuple repr_endpoint endpoints)
      | IncompatibleEndpoints endpoints \<Rightarrow> Some (''Incompatible endpoints: '' @ repr_tuple repr_endpoint endpoints)
      | NoMatchingEndpoints \<Rightarrow> Some ''No matching endpoints''
      | AmbiguousRelation descriptor1 descriptor2 endpoint_pairs \<Rightarrow>
          Some (''Ambiguous relation '' @ py_repr (descriptor1 @ '' '' @ descriptor2) @ ''; could refer to:'' @ [CHR 0x0A]
            @ py_join [CHR 0x0A] (sort (map ambiguous_line endpoint_pairs)))
      | RelationBrokenContextError message \<Rightarrow> Some message
      | InvalidRelationIdentity relation_ident \<Rightarrow> Some (''Not a valid relation id: '' @ py_repr relation_ident)
      | _ \<Rightarrow> None)"

text \<open>The first that knows the error.\<close>

definition state_error_text :: "(state_error \<Rightarrow> string) \<Rightarrow> state_error \<Rightarrow> string" where
  "state_error_text other err =
     (case List.map_filter (\<lambda>f. f err)
        [service_error_text, unit_error_text, relation_error_text, container_error_text, endpoint_error_text] of
        text # _ \<Rightarrow> text
      | [] \<Rightarrow> other err)"

end
