(* ===== verification/HookServer.thy ===== *)
theory HookServer
  imports HookContext UnitNodes StateErrors RelationLifecycle
begin

text \<open>
  \<open>juju/hooks/invoker.py\<close> and \<open>juju/hooks/protocol.py\<close>: running a hook's process, and the commands the hook
  sends back over the agent's socket while it runs.

  The invoker holds the hook's own context and one context per relation of the service; where the own context is
  that of a relation, the two are one object. A command is an operation on the invoker and ZooKeeper. Parameters:
  JSON, the process, the file system; log output is left out.
\<close>

section \<open>State\<close>

datatype hook_side =
    PlainHook hook_context
  | RelationHook relation_context
  | DepartedHook departed_context

datatype reaper = NoReaper | ReaperPending | ReaperDone

record invoker =
  iv_context :: hook_side
  iv_relations :: "(string, relation_context option) dict"  \<comment> \<open>\<open>None\<close>: the hook's own context\<close>
  iv_change :: "relation_change option"  \<comment> \<open>of a \<open>RelationInvoker\<close>\<close>
  iv_environment :: "(string, string) dict"
  iv_client_id :: string
  iv_socket_path :: string
  iv_unit_path :: string
  iv_process :: bool  \<comment> \<open>whether a process was spawned\<close>
  iv_reaper :: reaper
  iv_connected :: bool  \<comment> \<open>\<open>loseConnection\<close> not called yet\<close>

record json =
  js_loads :: "string \<Rightarrow> yvalue option"  \<comment> \<open>\<open>None\<close>: \<open>ValueError\<close>\<close>
  js_dumps :: "yvalue \<Rightarrow> string"

datatype server_error =
    NoSuchUnit string
  | NotRelationContext
  | NoSuchSetting string  \<comment> \<open>\<open>NoSuchKey\<close>\<close>
  | MustSpecifyRelationName
  | InState state_error
  | BadJson
  | BadArgument  \<comment> \<open>\<open>AttributeError\<close>: a value of another type\<close>

type_synonym ('z, 'a) served = "(invoker \<times> 'z, server_error, 'a) eff"

definition relation_ident_of :: "hook_side \<Rightarrow> string option" where
  "relation_ident_of c = (case c of RelationHook r \<Rightarrow> Some (rc_ident r) | _ \<Rightarrow> None)"

definition new_invoker ::
  "hook_side \<Rightarrow> relation_change option \<Rightarrow> string \<Rightarrow> string \<Rightarrow> string \<Rightarrow> invoker" where
  "new_invoker context change client_id socket_path unit_dir =
     \<lparr>iv_context = context, iv_relations = (case relation_ident_of context of None \<Rightarrow> [] | Some ident \<Rightarrow> [(ident, None)]),
      iv_change = change, iv_environment = [], iv_client_id = client_id, iv_socket_path = socket_path,
      iv_unit_path = unit_dir, iv_process = False, iv_reaper = NoReaper, iv_connected = False\<rparr>"

text \<open>The part of a context every hook has.\<close>

definition ctx_base :: "hook_side \<Rightarrow> hook_context" where
  "ctx_base c = (case c of
     PlainHook b \<Rightarrow> b | RelationHook r \<Rightarrow> hook_context.truncate r | DepartedHook d \<Rightarrow> hook_context.truncate d)"

definition with_base :: "hook_side \<Rightarrow> hook_context \<Rightarrow> hook_side" where
  "with_base c b = (case c of
     PlainHook _ \<Rightarrow> PlainHook b
   | RelationHook r \<Rightarrow> RelationHook (hook_context.extend b (hook_context.more r))
   | DepartedHook d \<Rightarrow> DepartedHook (hook_context.extend b (hook_context.more d)))"

definition on_base :: "('z \<Rightarrow> (hook_context, state_error, 'a) eff) \<Rightarrow> ('z, 'a) served" where
  "on_base f = (\<lambda>(iv, z).
     case f z (ctx_base (iv_context iv)) of
       (b, r) \<Rightarrow> ((iv\<lparr>iv_context := with_base (iv_context iv) b\<rparr>, z), raise_as InState r))"

definition on_zk :: "('z, state_error, 'a) eff \<Rightarrow> ('z, 'a) served" where
  "on_zk m = (\<lambda>(iv, z). case m z of (z', r) \<Rightarrow> ((iv, z'), raise_as InState r))"

section \<open>Contexts of relations\<close>

text \<open>\<open>start\<close>: a context for every relation of the service but the hook's own.\<close>

definition cache_context :: "('z, 'c) state_env \<Rightarrow> string \<Rightarrow> ('z, unit) served" where
  "cache_context e ident =
     ebind (on_base (\<lambda>z. get_relation_hook_context e z ident)) (\<lambda>child (iv, z).
     ((iv\<lparr>iv_relations := dset ident (Some child) (iv_relations iv)\<rparr>, z), Inr ()))"

definition invoker_start :: "('z, 'c) state_env \<Rightarrow> ('z, unit) served" where
  "invoker_start e =
     ebind (on_base (\<lambda>z. get_relation_idents e z [])) (\<lambda>idents (iv, z).
     efor (filter (\<lambda>ident. Some ident \<noteq> relation_ident_of (iv_context iv)) (remdups idents)) (cache_context e) (iv, z))"

text \<open>Which context a command with \<open>-r relation_id\<close> works on; \<open>None\<close>: the hook's own.\<close>

definition relation_target :: "invoker \<Rightarrow> string \<Rightarrow> server_error + string option" where
  "relation_target iv relation_id =
     (if relation_id \<noteq> [] then
        (case dget (iv_relations iv) relation_id of
           None \<Rightarrow> Inl (InState RelationStateNotFound)
         | Some None \<Rightarrow> Inr None
         | Some (Some _) \<Rightarrow> Inr (Some relation_id))
      else (case iv_context iv of RelationHook _ \<Rightarrow> Inr None | _ \<Rightarrow> Inl NotRelationContext))"

definition target_context :: "invoker \<Rightarrow> string option \<Rightarrow> relation_context option" where
  "target_context iv target =
     (case target of
        None \<Rightarrow> (case iv_context iv of RelationHook r \<Rightarrow> Some r | _ \<Rightarrow> None)
      | Some ident \<Rightarrow> (case dget (iv_relations iv) ident of Some c \<Rightarrow> c | None \<Rightarrow> None))"

definition put_context :: "string option \<Rightarrow> relation_context \<Rightarrow> invoker \<Rightarrow> invoker" where
  "put_context target c iv =
     (case target of
        None \<Rightarrow> iv\<lparr>iv_context := RelationHook c\<rparr>
      | Some ident \<Rightarrow> iv\<lparr>iv_relations := dset ident (Some c) (iv_relations iv)\<rparr>)"

definition on_target :: "string option \<Rightarrow> ('z \<Rightarrow> (relation_context, state_error, 'a) eff) \<Rightarrow> ('z, 'a) served" where
  "on_target target f = (\<lambda>(iv, z).
     case target_context iv target of
       None \<Rightarrow> ((iv, z), Inl NotRelationContext)
     | Some c \<Rightarrow> (case f z c of (c', r) \<Rightarrow> ((put_context target c' iv, z), raise_as InState r)))"

section \<open>The commands of a hook\<close>

definition relation_get_command ::
  "('z, 'c) state_env \<Rightarrow> json \<Rightarrow> (state_error \<Rightarrow> string) \<Rightarrow> string \<Rightarrow> string \<Rightarrow> string \<Rightarrow> ('z, string) served" where
  "relation_get_command e js other relation_id uname setting_name =
     ebind (eread (\<lambda>(iv, z). relation_target iv relation_id)) (\<lambda>target.
     ebind (ecatch
         (if setting_name \<noteq> [] then on_target target (\<lambda>z. relation_get_value e z (Some uname) setting_name)
          else on_target target (\<lambda>z. ebind (relation_get e z (Some uname)) (\<lambda>d. eret (YMap d))))
         (\<lambda>err. case err of
            InState (UnitRelationStateNotFound a b c) \<Rightarrow>
              Some (eraise (NoSuchUnit (state_error_text other (UnitRelationStateNotFound a b c))))
          | _ \<Rightarrow> None))
       (\<lambda>data. eret (js_dumps js data)))"

definition apply_setting :: "('z, 'c) state_env \<Rightarrow> string option \<Rightarrow> string \<times> yvalue \<Rightarrow> ('z, unit) served" where
  "apply_setting e target = (\<lambda>(k, v).
     case v of
       YText text \<Rightarrow>
         on_target target (\<lambda>z. if py_strip text = [] then relation_delete_value e z k else relation_set_value e z k v)
     | _ \<Rightarrow> eraise BadArgument)"

definition relation_set_command ::
  "('z, 'c) state_env \<Rightarrow> json \<Rightarrow> string \<Rightarrow> string \<Rightarrow> ('z, unit) served" where
  "relation_set_command e js relation_id json_blob =
     ebind (eread (\<lambda>_. case js_loads js json_blob of None \<Rightarrow> Inl BadJson | Some data \<Rightarrow> Inr data)) (\<lambda>data.
     ebind (eread (\<lambda>(iv, z). relation_target iv relation_id)) (\<lambda>target.
     case data of YMap d \<Rightarrow> efor d (apply_setting e target) | _ \<Rightarrow> eraise BadArgument))"

definition list_relations_command :: "('z, 'c) state_env \<Rightarrow> string \<Rightarrow> ('z, string) served" where
  "list_relations_command e relation_id =
     ebind (eread (\<lambda>(iv, z). relation_target iv relation_id)) (\<lambda>target.
     ebind (on_target target (get_members e)) (\<lambda>members. eret (py_join '' '' members)))"

definition relation_ids_command :: "('z, 'c) state_env \<Rightarrow> string \<Rightarrow> ('z, string) served" where
  "relation_ids_command e relation_name =
     (if relation_name = [] then eraise MustSpecifyRelationName
      else ebind (on_base (\<lambda>z. get_relation_idents e z relation_name)) (\<lambda>ids. eret (py_join '' '' ids)))"

text \<open>\<open>options.get(option_name)\<close> and \<open>dict(options)\<close>\<close>

definition config_value :: "config_state \<Rightarrow> string \<Rightarrow> state_error + yvalue" where
  "config_value c option_name =
     (case config_getitem c option_name of
        Inr v \<Rightarrow> Inr v
      | Inl (NoSuchKey _) \<Rightarrow> Inr YNone
      | Inl err \<Rightarrow> Inl (InNode err))"

definition config_dict :: "config_state \<Rightarrow> state_error + yvalue" where
  "config_dict c =
     rbind (rmap (\<lambda>k. rbind (raise_as InNode (config_getitem c k)) (\<lambda>v. Inr (k, v))) (config_keys c)) (\<lambda>d. Inr (YMap d))"

definition config_get_command :: "('z, 'c) state_env \<Rightarrow> json \<Rightarrow> string \<Rightarrow> ('z, string) served" where
  "config_get_command e js option_name =
     ebind (on_base (get_config e)) (\<lambda>options.
     ebind (eread (\<lambda>_. raise_as InState (if option_name \<noteq> [] then config_value options option_name else config_dict options)))
       (\<lambda>data. eret (js_dumps js data)))"

definition open_port_command :: "('z, 'c) state_env \<Rightarrow> int \<Rightarrow> string \<Rightarrow> ('z, unit) served" where
  "open_port_command e port proto =
     ebind (on_base (get_local_unit_state e)) (\<lambda>u. on_zk (open_port e u (port, proto)))"

definition close_port_command :: "('z, 'c) state_env \<Rightarrow> int \<Rightarrow> string \<Rightarrow> ('z, unit) served" where
  "close_port_command e port proto =
     ebind (on_base (get_local_unit_state e)) (\<lambda>u. on_zk (close_port e u (port, proto)))"

definition unit_get_command :: "('z, 'c) state_env \<Rightarrow> string \<Rightarrow> ('z, yvalue) served" where
  "unit_get_command e setting_name =
     ebind (on_base (get_local_unit_state e)) (\<lambda>u.
     ebind (if setting_name = ''private-address'' then on_zk (eread (get_private_address e u))
            else if setting_name = ''public-address'' then on_zk (eread (get_public_address e u))
            else eraise (NoSuchSetting (''Unit has no setting: '' @ py_repr setting_name))) (\<lambda>value.
     eret (case value of None \<Rightarrow> YText [] | Some v \<Rightarrow> if y_true v then v else YText [])))"

section \<open>The client side\<close>

text \<open>\<open>s.split()\<close>\<close>

fun py_words :: "string \<Rightarrow> string list" where
  "py_words [] = []"
| "py_words (c # s) =
     (if is_space c then py_words s
      else case s of
        [] \<Rightarrow> [[c]]
      | c' # _ \<Rightarrow> if is_space c' then [c] # py_words s
          else (case py_words s of [] \<Rightarrow> [[c]] | w # ws \<Rightarrow> (c # w) # ws))"

definition json_result :: "json \<Rightarrow> ('z, string) served \<Rightarrow> ('z, yvalue) served" where
  "json_result js m =
     ebind m (\<lambda>data. eread (\<lambda>_. case js_loads js data of None \<Rightarrow> Inl BadJson | Some v \<Rightarrow> Inr v))"

definition client_relation_get ::
  "('z, 'c) state_env \<Rightarrow> json \<Rightarrow> (state_error \<Rightarrow> string) \<Rightarrow> string \<Rightarrow> string \<Rightarrow> string option \<Rightarrow> ('z, yvalue) served" where
  "client_relation_get e js other relation_id uname setting_name =
     json_result js (relation_get_command e js other relation_id uname
       (case setting_name of None \<Rightarrow> [] | Some s \<Rightarrow> s))"

definition client_relation_set ::
  "('z, 'c) state_env \<Rightarrow> json \<Rightarrow> string \<Rightarrow> (string, string) dict \<Rightarrow> ('z, unit) served" where
  "client_relation_set e js relation_id data =
     relation_set_command e js relation_id (js_dumps js (YMap (map (\<lambda>(k, v). (k, YText v)) data)))"

definition client_list_relations :: "('z, 'c) state_env \<Rightarrow> string \<Rightarrow> ('z, string list) served" where
  "client_list_relations e relation_id =
     ebind (list_relations_command e relation_id) (\<lambda>members. eret (py_words members))"

definition client_relation_ids :: "('z, 'c) state_env \<Rightarrow> string \<Rightarrow> ('z, string list) served" where
  "client_relation_ids e relation_name =
     ebind (relation_ids_command e relation_name) (\<lambda>ids. eret (py_words ids))"

definition client_config_get :: "('z, 'c) state_env \<Rightarrow> json \<Rightarrow> string \<Rightarrow> ('z, yvalue) served" where
  "client_config_get e js option_name = json_result js (config_get_command e js option_name)"

section \<open>The process of a hook\<close>

datatype hook_exit =
    HookExit  \<comment> \<open>code 0\<close>
  | CharmInvocationError string "int option" "int option"  \<comment> \<open>hook, exit code, signal\<close>

definition process_reason :: "string \<Rightarrow> int option \<Rightarrow> int option \<Rightarrow> hook_exit" where
  "process_reason hook_name exit_code signal =
     (if exit_code = Some 0 then HookExit
      else if exit_code = None \<and> signal \<noteq> None \<and> signal \<noteq> Some 0 then CharmInvocationError hook_name exit_code signal
      else CharmInvocationError hook_name exit_code None)"

definition validate_hook :: "(string \<Rightarrow> bool) \<Rightarrow> (string \<Rightarrow> bool) \<Rightarrow> string \<Rightarrow> string option" where
  "validate_hook file_exists executable hook_filename =
     (if \<not> file_exists hook_filename then Some ''FileNotFound''
      else if \<not> executable hook_filename then Some ''CharmError''
      else None)"

text \<open>\<open>os_environ\<close> and the Python path are the agent's.\<close>

definition get_environment :: "(string, string) dict \<Rightarrow> string \<Rightarrow> invoker \<Rightarrow> (string, string) dict option" where
  "get_environment os_environ python_path iv =
     (case (dget os_environ ''JUJU_UNIT_NAME'', dget os_environ ''PATH'') of
        (Some uname, Some path) \<Rightarrow>
          (let base = [(''JUJU_AGENT_SOCKET'', iv_socket_path iv), (''JUJU_CLIENT_ID'', iv_client_id iv),
             (''CHARM_DIR'', path_join (iv_unit_path iv) [''charm'']), (''JUJU_UNIT_NAME'', uname),
             (''DEBIAN_FRONTEND'', ''noninteractive''), (''APT_LISTCHANGES_FRONTEND'', ''none''),
             (''PATH'', path), (''JUJU_PYTHONPATH'', python_path)];
               env = dupdate base (iv_environment iv)
           in Some (case iv_change iv of None \<Rightarrow> env | Some change \<Rightarrow> get_environment_from_change env change))
      | _ \<Rightarrow> None)"

definition invoke_hook ::
  "(string \<Rightarrow> bool) \<Rightarrow> (string \<Rightarrow> bool) \<Rightarrow> (string, string) dict \<Rightarrow> string \<Rightarrow> string \<Rightarrow> invoker
     \<Rightarrow> string option \<times> invoker" where
  "invoke_hook file_exists executable os_environ python_path hook iv =
     (case validate_hook file_exists executable hook of
        Some err \<Rightarrow> (Some err, iv)
      | None \<Rightarrow>
          (case get_environment os_environ python_path iv of
             None \<Rightarrow> (Some ''KeyError'', iv)
           | Some _ \<Rightarrow> (None, iv\<lparr>iv_process := True, iv_connected := True\<rparr>)))"

text \<open>Writing back what the hook set, context by context; an exception ends it.\<close>

definition flush_context ::
  "('z, 'c) state_env \<Rightarrow> string \<times> relation_context option \<Rightarrow> ('z, (string option \<times> yvalue change_item) list) served" where
  "flush_context e = (\<lambda>(ident, child) (iv, z).
     let target = (case child of None \<Rightarrow> None | Some _ \<Rightarrow> Some ident) in
     case target_context iv target of
       None \<Rightarrow> ((iv, z), Inr [])
     | Some c \<Rightarrow>
         (case relation_flush e (c, z) of
            ((c', z'), r) \<Rightarrow>
              ((put_context target c' iv, z'),
               raise_as InState (map_sum id (map (\<lambda>change. (map_option (\<lambda>_. rc_ident c') target, change))) r))))"

definition flush_contexts :: "('z, 'c) state_env \<Rightarrow> ('z, (string option \<times> yvalue change_item) list) served" where
  "flush_contexts e = (\<lambda>(iv, z). ebind (emap (iv_relations iv) (flush_context e)) (\<lambda>changes. eret (concat changes)) (iv, z))"

definition cleanup_process ::
  "('z, 'c) state_env \<Rightarrow> hook_exit \<Rightarrow> ('z, (string option \<times> yvalue change_item) list) served" where
  "cleanup_process e result = (\<lambda>(iv, z).
     (if result = HookExit then flush_contexts e else eret []) (iv\<lparr>iv_reaper := ReaperPending\<rparr>, z))"

text \<open>The end of the process's output, and the reaper, which closes it if that does not come in time.\<close>

definition ensure_process_termination :: "invoker \<Rightarrow> invoker" where
  "ensure_process_termination iv =
     iv\<lparr>iv_reaper := (if iv_reaper iv = ReaperPending then ReaperDone else iv_reaper iv), iv_connected := False\<rparr>"

definition reap :: "invoker \<Rightarrow> invoker" where
  "reap iv = (if iv_reaper iv = ReaperPending then iv\<lparr>iv_reaper := ReaperDone, iv_connected := False\<rparr> else iv)"

text \<open>The lines of a log message about the changes: the hook's own context first, without its ident.\<close>

definition change_key :: "'v change_item \<Rightarrow> string" where
  "change_key c = (case c of DeletedItem k _ \<Rightarrow> k | ModifiedItem k _ _ \<Rightarrow> k | AddedItem k _ \<Rightarrow> k)"

text \<open>\<open>str\<close> of a change; \<open>repr100\<close> is the \<open>%.100r\<close> of a value\<close>

definition change_text :: "('v \<Rightarrow> string) \<Rightarrow> 'v change_item \<Rightarrow> string" where
  "change_text repr100 c = (case c of
     DeletedItem k old \<Rightarrow> ''Setting deleted: '' @ py_repr k @ '' (was '' @
       (case old of None \<Rightarrow> ''<object object>'' | Some v \<Rightarrow> repr100 v) @ '')''
   | ModifiedItem k old new \<Rightarrow> ''Setting changed: '' @ py_repr k @ ''='' @ repr100 new @ '' (was '' @ repr100 old @ '')''
   | AddedItem k new \<Rightarrow> ''Setting changed: '' @ py_repr k @ ''='' @ repr100 new @ '' (was unset)'')"

definition format_changes :: "(yvalue \<Rightarrow> string) \<Rightarrow> (string option \<times> yvalue change_item) list \<Rightarrow> string" where
  "format_changes repr100 changes =
     py_join [CHR 0x0A] (map (\<lambda>(relation_ident, item).
         ''    '' @ change_text repr100 item @ (case relation_ident of None \<Rightarrow> [] | Some ident \<Rightarrow> '' on '' @ py_repr ident))
       (sort_key (\<lambda>(relation_ident, item). [case relation_ident of None \<Rightarrow> [] | Some ident \<Rightarrow> CHR '':'' # ident, change_key item]) changes))"

end
