(* ===== verification/HookServerProps.thy ===== *)
theory HookServerProps
  imports HookServer HookContextProps "HOL-Library.Countable"
begin

text \<open>
  What a hook can do with its commands: nothing reaches ZooKeeper before it has ended well, but ports; a command
  works on the context of its relation alone; and what a hook sets it reads back.
\<close>

section \<open>Commands\<close>

datatype hook_command =
    RelationGetCommand string string string
  | RelationSetCommand string string
  | ListRelationsCommand string
  | RelationIdsCommand string
  | ConfigGetCommand string
  | OpenPortCommand int string
  | ClosePortCommand int string
  | UnitGetCommand string

text \<open>The state after a command, whatever it answered.\<close>

fun run_command ::
  "('z, 'c) state_env \<Rightarrow> json \<Rightarrow> (state_error \<Rightarrow> string) \<Rightarrow> hook_command \<Rightarrow> invoker \<times> 'z \<Rightarrow> invoker \<times> 'z" where
  "run_command e js other (RelationGetCommand rid uname name) s = fst (relation_get_command e js other rid uname name s)"
| "run_command e js other (RelationSetCommand rid blob) s = fst (relation_set_command e js rid blob s)"
| "run_command e js other (ListRelationsCommand rid) s = fst (list_relations_command e rid s)"
| "run_command e js other (RelationIdsCommand name) s = fst (relation_ids_command e name s)"
| "run_command e js other (ConfigGetCommand option) s = fst (config_get_command e js option s)"
| "run_command e js other (OpenPortCommand port proto) s = fst (open_port_command e port proto s)"
| "run_command e js other (ClosePortCommand port proto) s = fst (close_port_command e port proto s)"
| "run_command e js other (UnitGetCommand name) s = fst (unit_get_command e name s)"

text \<open>The relation a command names.\<close>

fun command_relation :: "hook_command \<Rightarrow> string" where
  "command_relation (RelationGetCommand rid _ _) = rid"
| "command_relation (RelationSetCommand rid _) = rid"
| "command_relation (ListRelationsCommand rid) = rid"
| "command_relation _ = []"

fun port_command :: "hook_command \<Rightarrow> bool" where
  "port_command (OpenPortCommand _ _) \<longleftrightarrow> True"
| "port_command (ClosePortCommand _ _) \<longleftrightarrow> True"
| "port_command _ \<longleftrightarrow> False"

section \<open>What a command leaves alone\<close>

text \<open>ZooKeeper, and every relation's context but the one named.\<close>

definition untouched :: "string \<Rightarrow> invoker \<times> 'z \<Rightarrow> invoker \<times> 'z \<Rightarrow> bool" where
  "untouched rid s t \<longleftrightarrow> snd t = snd s
     \<and> (\<forall>ident. ident \<noteq> rid \<longrightarrow> dget (iv_relations (fst t)) ident = dget (iv_relations (fst s)) ident)"

interpretation frame: eff_relation "untouched rid" for rid
  by unfold_locales (auto simp: untouched_def)

lemma keeps_on_base: "frame.keeps rid (on_base f)"
  by (auto simp: frame.keeps_def untouched_def on_base_def split: prod.split)

lemma keeps_on_zk_read: "frame.keeps rid (on_zk (eread g))"
  by (auto simp: frame.keeps_def untouched_def on_zk_def eread_def)

lemma keeps_on_target: "target = None \<or> target = Some rid \<Longrightarrow> frame.keeps rid (on_target target f)"
  by (auto simp: frame.keeps_def untouched_def on_target_def put_context_def dget_dset split: prod.split option.split)

lemma keeps_with_target:
  assumes "\<And>target. target = None \<or> target = Some rid \<Longrightarrow> frame.keeps rid (f target)"
  shows "frame.keeps rid (ebind (eread (\<lambda>(iv, z). relation_target iv rid)) f)"
proof -
  have "target = None \<or> target = Some rid" if "relation_target iv rid = Inr target" for iv target
    using that by (auto simp: relation_target_def split: if_splits option.splits hook_side.splits)
  then show ?thesis
    using assms by (auto simp: frame.keeps_def ebind_simps frame.R_refl split: sum.split)
qed

lemmas keeps_commands = frame.keeps_bind frame.keeps_pure keeps_on_base keeps_on_zk_read keeps_on_target

lemma keeps_relation_get: "frame.keeps rid (relation_get_command e js other rid uname name)"
  unfolding relation_get_command_def
  by (rule keeps_with_target)
    (auto intro!: keeps_commands frame.keeps_catch split: if_splits server_error.splits state_error.splits)

lemma keeps_relation_set: "frame.keeps rid (relation_set_command e js rid blob)"
proof -
  have "frame.keeps rid (apply_setting e target p)" if "target = None \<or> target = Some rid" for target p
    using that by (auto simp: apply_setting_def intro!: keeps_commands split: prod.split yvalue.split)
  then show ?thesis
    unfolding relation_set_command_def
    by (intro frame.keeps_bind frame.keeps_pure keeps_with_target)
      (auto intro!: frame.keeps_for frame.keeps_pure split: yvalue.split)
qed

lemma command_untouched:
  assumes "\<not> port_command c"
  shows "untouched (command_relation c) s (run_command e js other c s)"
proof (cases c)
  case (ListRelationsCommand rid)
  have "frame.keeps rid (list_relations_command e rid)"
    unfolding list_relations_command_def by (rule keeps_with_target) (auto intro!: keeps_commands)
  with ListRelationsCommand show ?thesis by (simp add: frame.keepsD)
next
  case (UnitGetCommand name)
  have "frame.keeps [] (unit_get_command e name)"
    unfolding unit_get_command_def by (intro frame.keeps_bind keeps_on_base) (auto intro!: keeps_commands)
  with UnitGetCommand show ?thesis by (simp add: frame.keepsD)
next
  case (RelationIdsCommand name)
  have "frame.keeps [] (relation_ids_command e name)"
    unfolding relation_ids_command_def by (auto intro!: keeps_commands)
  with RelationIdsCommand show ?thesis by (simp add: frame.keepsD)
next
  case (ConfigGetCommand option)
  have "frame.keeps [] (config_get_command e js option)"
    unfolding config_get_command_def by (intro keeps_commands)
  with ConfigGetCommand show ?thesis by (simp add: frame.keepsD)
next
  case (RelationGetCommand rid uname name)
  then show ?thesis by (simp add: frame.keepsD [OF keeps_relation_get])
next
  case (RelationSetCommand rid blob)
  then show ?thesis by (simp add: frame.keepsD [OF keeps_relation_set])
qed (use assms in simp_all)

text \<open>
  C7: a hook changes nothing until it has ended well. Whatever it asks of the agent but ports, ZooKeeper stays as
  it was, and so do the contexts of the relations it did not name; if then it does not exit with code 0, its
  settings are dropped.
\<close>

theorem hook_changes_nothing_until_success:
  assumes "\<forall>c \<in> set cs. \<not> port_command c" and "fold (run_command e js other) cs (iv, z) = (iv', z')"
  shows "z' = z
    \<and> (\<forall>ident. ident \<notin> command_relation ` set cs \<longrightarrow> dget (iv_relations iv') ident = dget (iv_relations iv) ident)
    \<and> (\<forall>hook code signal. code \<noteq> Some 0 \<longrightarrow> snd (fst (cleanup_process e (process_reason hook code signal) (iv', z'))) = z)"
proof -
  have run: "snd t = snd s \<and> (\<forall>ident. ident \<notin> command_relation ` set cs \<longrightarrow>
      dget (iv_relations (fst t)) ident = dget (iv_relations (fst s)) ident)"
    if "\<forall>c \<in> set cs. \<not> port_command c" "fold (run_command e js other) cs s = t" for cs and s t :: "invoker \<times> 'a"
    using that
  proof (induction cs arbitrary: s)
    case (Cons c cs)
    from Cons.prems have "untouched (command_relation c) s (run_command e js other c s)"
      by (intro command_untouched) simp
    with Cons.IH [of "run_command e js other c s"] Cons.prems show ?case by (auto simp: untouched_def)
  qed simp
  have "z' = z" using run [OF assms] by simp
  moreover have "snd (fst (cleanup_process e (process_reason hook code signal) (iv', z'))) = z'" if "code \<noteq> Some 0" for hook code signal
    using that by (simp add: cleanup_process_def process_reason_def eret_def)
  ultimately show ?thesis using run [OF assms] by auto
qed

theorem hook_changes_nothing_until_success_witness:
  "\<exists>iv' z'. fold (run_command dict_env \<lparr>js_loads = (\<lambda>_. None), js_dumps = (\<lambda>_. [])\<rparr> (\<lambda>_. []))
        [RelationGetCommand ''db:42'' ''mysql/0'' ''host'', RelationSetCommand ''db:42'' ''{}'']
        (new_invoker (RelationHook hook_demo) None ''constant'' ''s'' ''/u'', db_store) = (iv', z')
     \<and> z' = db_store
     \<and> snd (fst (cleanup_process dict_env (process_reason ''db-relation-changed'' (Some 1) None) (iv', z'))) = db_store"
proof -
  let ?run = "fold (run_command dict_env \<lparr>js_loads = (\<lambda>_. None), js_dumps = (\<lambda>_. [])\<rparr> (\<lambda>_. []))
        [RelationGetCommand ''db:42'' ''mysql/0'' ''host'', RelationSetCommand ''db:42'' ''{}'']
        (new_invoker (RelationHook hook_demo) None ''constant'' ''s'' ''/u'', db_store)"
  obtain iv' z' where r: "?run = (iv', z')" by (cases ?run)
  from hook_changes_nothing_until_success [OF _ r] have "z' = db_store \<and>
      snd (fst (cleanup_process dict_env (process_reason ''db-relation-changed'' (Some 1) None) (iv', z'))) = db_store"
    by auto
  with r show ?thesis by blast
qed

section \<open>Setting and getting\<close>

text \<open>The operation on the context that \<open>relation-set k=text\<close> is.\<close>

definition text_op :: "string \<times> string \<Rightarrow> hook_op" where
  "text_op = (\<lambda>(k, text). if py_strip text = [] then DeleteValue k else SetValue k (YText text))"

lemma own_write_returns:
  assumes "settled_ctx c t own" and "dget (hc_node_cache c) own = Some (p, y)" and "ys_pristine y \<noteq> None"
  shows "snd (relation_set_value e z k v c) = Inr ()" and "snd (relation_delete_value e z k c) = Inr ()"
proof -
  define c0 where "c0 = c\<lparr>rc_needs_flushing := True\<rparr>"
  have "settled_ctx c0 t own" "dget (hc_node_cache c0) own = Some (p, y)"
    using assms(1,2) by (simp_all add: c0_def settled_ctx_def)
  then have "setup_relation_state e z None c0 = (c0, Inr own)" "mark_flush c = (c0, Inr ())"
      "dget (hc_node_cache c0) own = Some (p, y)"
    using setup_own_cached [of c0 t own e z] by (simp_all add: dhas_iff mark_flush_def c0_def)
  then show "snd (relation_set_value e z k v c) = Inr ()" "snd (relation_delete_value e z k c) = Inr ()"
    using assms(3)
    by (auto simp: relation_set_value_def relation_delete_value_def ebind_ran update_cached_def setitem_def delitem_def
        check_def guard_or_def ecatch_def eret_def Let_def)
qed

lemma target_put [simp]: "target_context iv target = Some c \<Longrightarrow> target_context (put_context target c' iv) target = Some c'"
  by (cases target) (simp_all add: target_context_def put_context_def dget_dset)

lemma relation_target_put [simp]:
  "target_context iv target = Some c \<Longrightarrow> relation_target iv rid = Inr target \<Longrightarrow>
   relation_target (put_context target c' iv) rid = Inr target"
  by (cases target)
    (auto simp: relation_target_def target_context_def put_context_def dget_dset split: if_splits option.splits hook_side.splits)

lemma apply_setting_step:
  assumes "target_context iv target = Some c"
    and "settled_ctx c t own" and "dget (hc_node_cache c) own = Some (p, y)" and "ys_pristine y \<noteq> None"
  shows "apply_setting e target (k, YText text) (iv, z) =
    ((put_context target (hook_step e (z, text_op (k, text)) c) iv, z), Inr ())"
  using own_write_returns(1) [OF assms(2-4), of e z k "YText text"] own_write_returns(2) [OF assms(2-4), of e z k] assms(1)
  by (cases "relation_delete_value e z k c"; cases "relation_set_value e z k (YText text) c")
    (auto simp: apply_setting_def on_target_def text_op_def)

lemma apply_settings:
  assumes "target_context iv target = Some c" and "relation_target iv rid = Inr target"
    and "settled_ctx c t own" and "dget (hc_node_cache c) own = Some (p, y)" and "ys_pristine y \<noteq> None"
  shows "\<exists>iv'. efor (map (\<lambda>(k, text). (k, YText text)) data) (apply_setting e target) (iv, z) = ((iv', z), Inr ())
    \<and> target_context iv' target = Some (fold (hook_step e) (map (\<lambda>p. (z, text_op p)) data) c)
    \<and> relation_target iv' rid = Inr target"
  using assms
proof (induction data arbitrary: iv c y)
  case (Cons x data)
  obtain k val where x: "x = (k, val)" by (cases x)
  let ?c = "hook_step e (z, text_op x) c"
  note step = apply_setting_step [OF Cons.prems(1,3-5), of e k val z]
  define y' where "y' = y\<lparr>ys_cache := own_writes (text_op x) (ys_cache y)\<rparr>"
  have kept: "settled_ctx ?c t own" "dget (hc_node_cache ?c) own = Some (p, y')" "ys_pristine y' \<noteq> None"
    using hook_step_kept [OF Cons.prems(3-5), of e z "text_op x"] Cons.prems(5) by (simp_all add: y'_def)
  from Cons.IH [OF target_put [OF Cons.prems(1)] relation_target_put [OF Cons.prems(1,2)] kept] step
  show ?case by (auto simp: x ebind_def)
qed simp

text \<open>What the settings are after them.\<close>

definition read_back :: "(string, string) dict \<Rightarrow> (string, yvalue) dict \<Rightarrow> string \<Rightarrow> yvalue option" where
  "read_back data d key =
     (case dget data key of
        Some text \<Rightarrow> if py_strip text = [] then None else Some (YText text)
      | None \<Rightarrow> dget d key)"

lemma text_ops_read_back:
  "dict_wf data \<Longrightarrow> dget (fold (own_writes \<circ> snd) (map (\<lambda>p. (z, text_op p)) data) d) key = read_back data d key"
proof (induction data arbitrary: d)
  case Nil
  then show ?case by (simp add: read_back_def)
next
  case (Cons x data)
  obtain k val where x: "x = (k, val)" by (cases x)
  have new: "dget data k = None" "dict_wf data" using Cons.prems by (auto simp: x dict_wf_def map_of_eq_None_iff)
  have "dget (own_writes (text_op x) d) key' = read_back [x] d key'" for key'
    by (auto simp: x text_op_def read_back_def dget_dset dget_ddel dhas_iff)
  then show ?case
    using Cons.IH [OF new(2), of "own_writes (text_op x) d"] new(1)
    by (auto simp: x read_back_def split: option.splits)
qed

text \<open>
  What a hook sets with \<open>relation-set\<close> it reads back with \<open>relation-get\<close>, on whatever relation it names:
  the text of a key it set, nothing for a key it set to blanks, and what the relation's settings were for every other
  key, whatever has happened in ZooKeeper since. JSON is only asked to read what it wrote.
\<close>

theorem relation_set_is_read_back:
  assumes "\<And>v. js_loads js (js_dumps js v) = Some v" and "dict_wf data"
    and "relation_target iv rid = Inr target" and "target_context iv target = Some c"
    and "settled_ctx c t own" and "dget (hc_node_cache c) own = Some (p, y)" and "ys_pristine y \<noteq> None"
    and "client_relation_set e js rid data (iv, z) = ((iv', z'), r)" and "key \<noteq> []"
  shows "r = Inr () \<and> snd (client_relation_get e js other rid own (Some key) (iv', z2)) =
    Inr (case read_back data (ys_cache y) key of None \<Rightarrow> YText [] | Some v \<Rightarrow> v)"
proof -
  let ?ops = "map (\<lambda>p. (z, text_op p)) data"
  have set: "client_relation_set e js rid data (iv, z) =
      efor (map (\<lambda>(k, text). (k, YText text)) data) (apply_setting e target) (iv, z)"
    using assms(1,3) by (simp add: client_relation_set_def relation_set_command_def ebind_def eread_def)
  obtain c' where c': "c' = fold (hook_step e) ?ops c" "target_context iv' target = Some c'"
      "relation_target iv' rid = Inr target" "r = Inr ()"
    using apply_settings [OF assms(4,3,5,6,7), of data e z] assms(8) by (auto simp: set)
  obtain pr where pr: "ys_pristine y = Some pr" using assms(7) by auto
  obtain y' where y': "dget (hc_node_cache c') own = Some (p, y')" "dget (ys_cache y') key = read_back data (ys_cache y) key"
    using hook_run_kept [OF assms(5-7), of e ?ops] text_ops_read_back [OF assms(2), of z "ys_cache y" key]
    by (auto simp: c'(1))
  have "relation_get_value e z2 (Some own) key c' =
      (c', Inr (case read_back data (ys_cache y) key of None \<Rightarrow> YText [] | Some v \<Rightarrow> v))"
    using y'(1) by (simp add: relation_get_value_def relation_get_def setup_relation_state_def ebind_def eret_def eread_def
        dhas_iff cached_settings_def)
      (use y'(2) in auto)
  then have "snd (client_relation_get e js other rid own (Some key) (iv', z2)) =
      Inr (case read_back data (ys_cache y) key of None \<Rightarrow> YText [] | Some v \<Rightarrow> v)"
    using c'(2,3) assms(1,9)
    by (simp add: client_relation_get_def json_result_def relation_get_command_def ebind_def eread_def eret_def ecatch_def
        on_target_def)
  with c'(4) show ?thesis by simp
qed

text \<open>An encoding of values as texts.\<close>

instance yvalue :: countable
  by countable_datatype

definition unary_json :: json where
  "unary_json = \<lparr>js_loads = (\<lambda>s. Some (from_nat (length s))), js_dumps = (\<lambda>v. replicate (to_nat v) CHR ''x'')\<rparr>"

theorem relation_set_is_read_back_witness:
  "\<exists>iv' z' r. client_relation_set dict_env unary_json [] [(''host'', '' ''), (''port'', ''80'')]
       (new_invoker (RelationHook hook_demo) None ''constant'' ''s'' ''/u'', db_store) = ((iv', z'), r)
     \<and> snd (client_relation_get dict_env unary_json (\<lambda>_. []) [] ''wordpress/0'' (Some ''port'') (iv', db_store))
         = Inr (YText ''80'')"
proof -
  let ?iv = "new_invoker (RelationHook hook_demo) None ''constant'' ''s'' ''/u''"
  let ?data = "[(''host'', '' ''), (''port'', ''80'')]"
  obtain iv' z' r where run: "client_relation_set dict_env unary_json [] ?data (?iv, db_store) = ((iv', z'), r)"
    by (metis prod.exhaust)
  have json: "\<And>v. js_loads unary_json (js_dumps unary_json v) = Some v" by (simp add: unary_json_def)
  have wf: "dict_wf ?data" by (simp add: dict_wf_def)
  have target: "relation_target ?iv [] = Inr None" "target_context ?iv None = Some hook_demo"
    by (simp_all add: relation_target_def target_context_def new_invoker_def)
  have "get_service_unit_name_from_id db_topology ''u-0'' = Inr ''wordpress/0''" by code_simp
  then have ctx: "settled_ctx hook_demo db_topology ''wordpress/0''"
    by (simp add: settled_ctx_def hook_demo_def new_relation_context_def new_hook_context_def hook_context.defs
      new_unit_relation_def)
  define y where "y = \<lparr>ys_pristine = Some [(''host'', YText ''a'')], ys_cache = [(''host'', YText ''a'')]\<rparr>"
  have cached: "dget (hc_node_cache hook_demo) ''wordpress/0'' = Some (''/relations/relation-0000000042/settings/u-0'', y)"
    by (simp add: hook_demo_def y_def)
  have pristine: "ys_pristine y \<noteq> None" by (simp add: y_def)
  have key: "''port'' \<noteq> []" by simp
  have "read_back ?data (ys_cache y) ''port'' = Some (YText ''80'')" by (simp add: read_back_def py_strip_def is_space_def)
  with relation_set_is_read_back [OF json wf target ctx cached pristine run key, of "\<lambda>_. []" db_store]
  have "snd (client_relation_get dict_env unary_json (\<lambda>_. []) [] ''wordpress/0'' (Some ''port'') (iv', db_store)) = Inr (YText ''80'')"
    by simp
  with run show ?thesis by blast
qed

end
