(* ===== verification/HookCommands.thy ===== *)
theory HookCommands
  imports HookServer "HOL-Library.Product_Lexorder"
begin

text \<open>
  \<open>juju/hooks/cli.py\<close> and \<open>juju/hooks/commands.py\<close>: the commands a charm calls in its hooks: reading their
  arguments, calling the agent, printing the answer. Parameters: files, the environment of the process and
  \<open>argparse\<close>, which hands over the options. What a command prints is the list of its lines.
\<close>

section \<open>Arguments\<close>

datatype argument_error =
    InvalidFormat string
  | InvalidPort string
  | PortOutOfRange int
  | InvalidProtocol string
  | ExpectedOption string  \<comment> \<open>\<open>Expected `option=value`\<close>\<close>
  | NoSuchFile string string  \<comment> \<open>file and argument\<close>

definition parse_port_protocol :: "string \<Rightarrow> argument_error + int \<times> string" where
  "parse_port_protocol port_protocol_string =
     rbind (case py_split CHR ''/'' port_protocol_string of
              [port_string, protocol] \<Rightarrow> Inr (port_string, protocol)
            | [port_string] \<Rightarrow> Inr (port_string, ''tcp'')
            | _ \<Rightarrow> Inl (InvalidFormat port_protocol_string)) (\<lambda>(port_string, protocol).
     case py_int port_string of
       None \<Rightarrow> Inl (InvalidPort port_string)
     | Some port \<Rightarrow>
         if port < 1 \<or> port > 65535 then Inl (PortOutOfRange port)
         else if py_lower protocol \<notin> {''tcp'', ''udp''} then Inl (InvalidProtocol protocol)
         else Inr (port, py_lower protocol))"

text \<open>\<open>logging.getLevelName\<close> of a name\<close>

definition LEVEL_NAMES :: "(string, int) dict" where
  "LEVEL_NAMES = [(''CRITICAL'', 50), (''ERROR'', 40), (''WARN'', 30), (''WARNING'', 30), (''INFO'', 20), (''DEBUG'', 10), (''NOTSET'', 0)]"

definition INFO :: int where
  "INFO = 20"

definition parse_log_level :: "string \<Rightarrow> int" where
  "parse_log_level level =
     (let level = py_upper level in
      if py_isdigit level then int (read_nat level)
      else case dget LEVEL_NAMES level of Some n \<Rightarrow> n | None \<Rightarrow> INFO)"

definition parse_pair :: "(string \<Rightarrow> string option) \<Rightarrow> string \<Rightarrow> argument_error + string \<times> string" where
  "parse_pair read_file kv =
     (case split_once CHR ''='' kv of
        None \<Rightarrow> Inl (ExpectedOption kv)
      | Some (k, v) \<Rightarrow>
          if startswith v ''@'' then
            (case read_file (drop 1 v) of
               None \<Rightarrow> Inl (NoSuchFile (drop 1 v) k)
             | Some content \<Rightarrow> Inr (k, content))
          else Inr (k, v))"

definition parse_keyvalue_pairs ::
  "(string \<Rightarrow> string option) \<Rightarrow> string list \<Rightarrow> argument_error + (string, string) dict" where
  "parse_keyvalue_pairs read_file options =
     rfold (\<lambda>kv data. rbind (parse_pair read_file kv) (\<lambda>(k, v). Inr (dset k v data))) options []"

text \<open>Where the agent listens and whom the client stands for; an error ends the process with code 2.\<close>

definition option_or_environ :: "string option \<Rightarrow> (string, string) dict \<Rightarrow> string \<Rightarrow> string option" where
  "option_or_environ given environ key =
     (case given of
        Some (c # s) \<Rightarrow> Some (c # s)
      | _ \<Rightarrow> (case dget environ key of Some (c # s) \<Rightarrow> Some (c # s) | _ \<Rightarrow> None))"

definition parse_args ::
  "(string, string) dict \<Rightarrow> bool \<Rightarrow> string option \<Rightarrow> string option \<Rightarrow> string + string \<times> string option" where
  "parse_args environ require_cid socket client_id =
     (case option_or_environ socket environ ''JUJU_AGENT_SOCKET'' of
        None \<Rightarrow> Inl ''No JUJU_AGENT_SOCKET/-s option found''
      | Some socket \<Rightarrow>
          (case option_or_environ client_id environ ''JUJU_CLIENT_ID'' of
             None \<Rightarrow> if require_cid then Inl ''No JUJU_CLIENT_ID/--client_id option found'' else Inr (socket, None)
           | Some client_id \<Rightarrow> Inr (socket, Some client_id)))"

section \<open>Running\<close>

definition relation_get_run ::
  "('z, 'c) state_env \<Rightarrow> json \<Rightarrow> (state_error \<Rightarrow> string) \<Rightarrow> string \<Rightarrow> string \<Rightarrow> string \<Rightarrow> ('z, yvalue) served" where
  "relation_get_run e js other relation_id uname settings_name =
     client_relation_get e js other relation_id uname (Some (if settings_name = ''-'' then [] else settings_name))"

definition relation_set_run ::
  "('z, 'c) state_env \<Rightarrow> json \<Rightarrow> (string \<Rightarrow> string option) \<Rightarrow> string \<Rightarrow> string list
     \<Rightarrow> argument_error + ('z, unit) served" where
  "relation_set_run e js read_file relation_id arguments =
     rbind (parse_keyvalue_pairs read_file arguments) (\<lambda>data. Inr (client_relation_set e js relation_id data))"

definition relation_ids_run :: "('z, 'c) state_env \<Rightarrow> (string, string) dict \<Rightarrow> string option \<Rightarrow> ('z, string list) served" where
  "relation_ids_run e environ argument =
     (let relation_name = (case argument of Some s \<Rightarrow> s
        | None \<Rightarrow> (case dget environ ''JUJU_RELATION'' of Some s \<Rightarrow> s | None \<Rightarrow> []))
      in if relation_name = [] then eraise MustSpecifyRelationName else client_relation_ids e relation_name)"

definition open_port_run :: "('z, 'c) state_env \<Rightarrow> string \<Rightarrow> argument_error + ('z, unit) served" where
  "open_port_run e port_protocol =
     rbind (parse_port_protocol port_protocol) (\<lambda>(port, protocol). Inr (open_port_command e port protocol))"

definition close_port_run :: "('z, 'c) state_env \<Rightarrow> string \<Rightarrow> argument_error + ('z, unit) served" where
  "close_port_run e port_protocol =
     rbind (parse_port_protocol port_protocol) (\<lambda>(port, protocol). Inr (close_port_command e port protocol))"

section \<open>Printing\<close>

text \<open>\<open>pipes.quote\<close>\<close>

definition safe_char :: "char \<Rightarrow> bool" where
  "safe_char c \<longleftrightarrow> (let n = of_char c :: nat in
     (48 \<le> n \<and> n \<le> 57) \<or> (65 \<le> n \<and> n \<le> 90) \<or> (97 \<le> n \<and> n \<le> 122)) \<or> c \<in> set ''@%_-+=:,./''"

definition quote_char :: "char \<Rightarrow> string" where
  "quote_char c = (if c = CHR 0x27 then [CHR 0x27, CHR 0x22, CHR 0x27, CHR 0x22, CHR 0x27] else [c])"

definition pipes_quote :: "string \<Rightarrow> string" where
  "pipes_quote s =
     (if s = [] then [CHR 0x27, CHR 0x27]
      else if list_all safe_char s then s
      else CHR 0x27 # concat (map quote_char s) @ [CHR 0x27])"

definition bad_char :: "char \<Rightarrow> bool" where
  "bad_char c \<longleftrightarrow> c \<in> set ''-./:()<>|?*'' \<or> c = CHR 0x5C"

definition shell_name :: "string \<Rightarrow> string" where
  "shell_name k = map (\<lambda>c. if bad_char c then CHR ''_'' else c) (py_upper k)"

definition shell_line :: "string \<times> string \<Rightarrow> string" where
  "shell_line = (\<lambda>(k, v). ''VAR_'' @ py_upper (shell_name k) @ ''='' @ pipes_quote v)"

text \<open>\<open>format_shell\<close> of \<open>relation-get\<close>: what goes to the output and the names in the complaint.\<close>

definition relation_get_format_shell ::
  "(string, string) dict \<Rightarrow> string \<Rightarrow> (string, string) dict + string \<Rightarrow> string list \<times> string list" where
  "relation_get_format_shell environ settings_name result =
     (let result = (case result of Inl d \<Rightarrow> d | Inr v \<Rightarrow>
            if settings_name \<noteq> [] \<and> settings_name \<noteq> ''-'' then [(py_upper settings_name, v)] else [])
      in if result = [] then ([], [])
         else let errs = filter (\<lambda>k. startswith k ''VAR_'') (map fst (sort environ))
           in (map (\<lambda>k. py_upper k @ ''='') errs @ map shell_line (sort result), errs))"

definition list_format_eval :: "string list \<Rightarrow> string" where
  "list_format_eval result = ''export JUJU_MEMBERS='' @ [CHR 0x22] @ py_join '' '' result @ [CHR 0x22]"

text \<open>\<open>render\<close>: the formats a command has; for another one a complaint, and \<open>str\<close> of a result that is true.\<close>

definition render ::
  "(string, 'r \<Rightarrow> string list) dict \<Rightarrow> ('r \<Rightarrow> bool) \<Rightarrow> ('r \<Rightarrow> string) \<Rightarrow> string \<Rightarrow> 'r \<Rightarrow> string list \<times> string list" where
  "render formatters truth str format_name result =
     (case dget formatters format_name of
        Some formatter \<Rightarrow> (formatter result, [])
      | None \<Rightarrow> (if truth result then [str result] else [], [''unknown output format: '' @ format_name]))"

definition client_formats :: "('r option \<Rightarrow> string) \<Rightarrow> ('r option \<Rightarrow> string) \<Rightarrow> (string, 'r option \<Rightarrow> string list) dict" where
  "client_formats dumps str =
     [(''json'', \<lambda>result. [dumps result]), (''smart'', \<lambda>result. if result \<noteq> None then [str result] else [])]"

definition list_formats :: "(string list \<Rightarrow> string) \<Rightarrow> (string, string list \<Rightarrow> string list) dict" where
  "list_formats dumps =
     [(''json'', \<lambda>result. [dumps result]), (''smart'', \<lambda>result. result), (''eval'', \<lambda>result. [list_format_eval result])]"

end
