(* ===== verification/HookCommandsProps.thy ===== *)
theory HookCommandsProps
  imports HookCommands
begin

text \<open>
  The arguments and the output of the commands of hooks: which ports can be asked for, and what a shell makes of
  the lines \<open>relation-get\<close> prints for it.
\<close>

section \<open>Ports\<close>

lemma lower_fixed: "py_lower ''tcp'' = ''tcp''" "py_lower ''udp'' = ''udp''"
  by (simp_all add: py_lower_def to_lower_def)

lemma split_port: "py_split CHR ''/'' (show_int port) = [show_int port]"
    "CHR ''/'' \<notin> set proto \<Longrightarrow> py_split CHR ''/'' (show_int port @ CHR ''/'' # proto) = [show_int port, proto]"
  by (simp_all add: py_split_no_sep py_split_append_sep)

text \<open>
  The ports a hook can open. The argument of \<open>open-port\<close> and \<open>close-port\<close> is only accepted as a port from 1
  to 65535 with protocol \<open>tcp\<close> or \<open>udp\<close>; every such port can be given, with \<open>tcp\<close> where the protocol is left out.
\<close>

theorem port_arguments:
  "(\<forall>port proto. parse_port_protocol s = Inr (port, proto) \<longrightarrow> port \<in> {1..65535} \<and> proto \<in> {''tcp'', ''udp''})
   \<and> (\<forall>port \<in> {1..65535}. \<forall>proto \<in> {''tcp'', ''udp''}.
        parse_port_protocol (show_int port @ ''/'' @ proto) = Inr (port, proto)
        \<and> parse_port_protocol (show_int port) = Inr (port, ''tcp''))"
proof -
  have "port \<in> {1..65535} \<and> proto \<in> {''tcp'', ''udp''}" if "parse_port_protocol s = Inr (port, proto)" for port proto
    using that by (auto simp: parse_port_protocol_def result_simps split: list.splits option.splits if_splits)
  moreover have "parse_port_protocol (show_int port @ ''/'' @ proto) = Inr (port, proto)
      \<and> parse_port_protocol (show_int port) = Inr (port, ''tcp'')"
    if "port \<in> {1..65535}" "proto \<in> {''tcp'', ''udp''}" for port proto
    using that split_port(1) [of port] split_port(2) [of proto port]
    by (auto simp: parse_port_protocol_def lower_fixed)
  ultimately show ?thesis by blast
qed

lemma show_8080: "show_int 8080 = ''8080''"
  by (simp add: show_int_def show_nat.simps digit_char_def)

theorem port_arguments_witness:
  "parse_port_protocol ''8080/udp'' = Inr (8080, ''udp'') \<and> parse_port_protocol ''8080'' = Inr (8080, ''tcp'')"
proof -
  have "(8080 :: int) \<in> {1..65535}" "''udp'' \<in> {''tcp'', ''udp''}" by simp_all
  note bspec [OF bspec [OF conjunct2 [OF port_arguments [of "[]"]] this(1)] this(2)]
  then show ?thesis unfolding show_8080 append.simps .
qed

section \<open>What a shell reads\<close>

text \<open>
  The words of a POSIX shell, as far as no expansion takes place: what one word stands for, \<open>None\<close> where the shell
  would expand or end it.
\<close>

datatype sh_mode = Plain | Single | Double

fun sh_word :: "sh_mode \<Rightarrow> string \<Rightarrow> string option" where
  "sh_word m [] = (if m = Plain then Some [] else None)"
| "sh_word Plain (c # s) =
     (if c = CHR 0x27 then sh_word Single s
      else if c = CHR 0x22 then sh_word Double s
      else if safe_char c then map_option (Cons c) (sh_word Plain s) else None)"
| "sh_word Single (c # s) = (if c = CHR 0x27 then sh_word Plain s else map_option (Cons c) (sh_word Single s))"
| "sh_word Double (c # s) =
     (if c = CHR 0x22 then sh_word Plain s
      else if c \<in> {CHR ''$'', CHR ''`'', CHR 0x5C} then None
      else map_option (Cons c) (sh_word Double s))"

text \<open>An assignment: a name, \<open>=\<close> and a word.\<close>

definition name_char :: "char \<Rightarrow> bool" where
  "name_char c \<longleftrightarrow> (let n = of_char c :: nat in
     (48 \<le> n \<and> n \<le> 57) \<or> (65 \<le> n \<and> n \<le> 90) \<or> (97 \<le> n \<and> n \<le> 122)) \<or> c = CHR ''_''"

definition sh_assignment :: "string \<Rightarrow> (string \<times> string) option" where
  "sh_assignment line =
     (case split_once CHR ''='' line of
        None \<Rightarrow> None
      | Some (name, word) \<Rightarrow>
          if name \<noteq> [] \<and> list_all name_char name \<and> \<not> is_digit (hd name)
          then map_option (Pair name) (sh_word Plain word) else None)"

lemma safe_not_quote: "safe_char c \<Longrightarrow> c \<noteq> CHR 0x27 \<and> c \<noteq> CHR 0x22"
  by (auto simp: safe_char_def)

lemma sh_word_safe: "list_all safe_char s \<Longrightarrow> sh_word Plain s = Some s"
  by (induction s) (auto simp: safe_not_quote)

lemma sh_word_quoted: "sh_word Single (concat (map quote_char s) @ [CHR 0x27]) = Some s"
  by (induction s) (auto simp: quote_char_def)

lemma quoted_word: "sh_word Plain (pipes_quote v) = Some v"
  by (simp add: pipes_quote_def sh_word_safe sh_word_quoted)

lemma upper_upper: "to_upper (to_upper c) = to_upper c"
  by (auto simp: to_upper_def)

lemma shell_name_upper: "py_upper (shell_name k) = shell_name k"
proof -
  have "to_upper (if bad_char (to_upper c) then CHR ''_'' else to_upper c) = (if bad_char (to_upper c) then CHR ''_'' else to_upper c)" for c
    by (simp add: upper_upper) (simp add: to_upper_def)
  then show ?thesis by (simp add: shell_name_def py_upper_def)
qed

text \<open>
  The lines \<open>relation-get\<close> prints for a shell. Its values are quoted so that the shell reads each as it is,
  whatever bytes it has. Its names are not: the line assigns the value to the variable meant exactly if every character of
  the key is a letter, a digit, an underscore or one of those that are replaced. Any other character, and the shell
  does something else with the line; the other unit of the relation chooses the keys.
\<close>

theorem shell_line_assigns:
  "sh_word Plain (pipes_quote v) = Some v
   \<and> (sh_assignment (shell_line (k, v)) = Some (''VAR_'' @ shell_name k, v) \<longleftrightarrow> list_all (\<lambda>c. name_char (to_upper c) \<or> bad_char (to_upper c)) k)"
proof -
  let ?name = "''VAR_'' @ shell_name k"
  have line: "shell_line (k, v) = ?name @ CHR ''='' # pipes_quote v" by (simp add: shell_line_def shell_name_upper)
  have eq: "\<not> name_char CHR ''=''" by (simp add: name_char_def)
  have "(\<forall>c \<in> set (shell_name k). name_char c) \<longleftrightarrow> list_all (\<lambda>c. name_char (to_upper c) \<or> bad_char (to_upper c)) k"
    by (auto simp: shell_name_def py_upper_def list_all_iff name_char_def)
  moreover have "sh_assignment (shell_line (k, v)) = Some (?name, v) \<longleftrightarrow> (\<forall>c \<in> set (shell_name k). name_char c)"
  proof
    assume good: "\<forall>c \<in> set (shell_name k). name_char c"
    then have "CHR ''='' \<notin> set ?name" using eq by auto
    moreover have "list_all name_char ?name" using good by (simp add: list_all_iff name_char_def)
    ultimately show "sh_assignment (shell_line (k, v)) = Some (?name, v)"
      unfolding line sh_assignment_def using split_once_append [of "CHR ''=''" ?name "pipes_quote v"]
      by (simp add: quoted_word is_digit_def)
  next
    assume "sh_assignment (shell_line (k, v)) = Some (?name, v)"
    then have "list_all name_char ?name" by (auto simp: sh_assignment_def split: option.splits prod.splits if_splits)
    then show "\<forall>c \<in> set (shell_name k). name_char c" by (simp add: list_all_iff)
  qed
  ultimately show ?thesis by (simp add: quoted_word)
qed

end
