(* ===== verification/NodeWatch.thy ===== *)
theory NodeWatch
  imports Main
begin

text \<open>
  The watches of single nodes in \<open>juju/state/service.py\<close> and \<open>juju/state/environment.py\<close>: a ZooKeeper watch fires
  once, so each sets a new one before it calls back, and the callback may take any time.

  \<open>Trapping\<close>: \<open>watch_ports\<close>, \<open>watch_resolved\<close>, \<open>watch_relation_resolved\<close>; \<open>Rearming permanent\<close>: \<open>watch_hook_debug\<close>
  and \<open>watch_upgrade_flag\<close>, and with \<open>True\<close> \<open>watch_config_state\<close>; \<open>Flag\<close>: \<open>watch_exposed_flag\<close>; \<open>Runtime\<close>:
  \<open>_RuntimeWatcher\<close>.
\<close>

section \<open>State\<close>

datatype watch_kind = Trapping | Rearming bool | Flag | Runtime

datatype told = Present bool | ChangeEvent

datatype callback_end = CbReturned | CbStopWatcher | CbRaised

record node_watch =
  nw_exists :: bool  \<comment> \<open>the node\<close>
  nw_version :: nat  \<comment> \<open>how often it has changed\<close>
  nw_connected :: bool
  nw_watch :: "bool option"  \<comment> \<open>the last \<open>watch_d\<close>: whether it has fired\<close>
  nw_chained :: bool  \<comment> \<open>whether the watcher is its callback\<close>
  nw_calling :: bool  \<comment> \<open>whether the user's callback runs\<close>
  nw_told :: "told option"  \<comment> \<open>what it was called with last\<close>
  nw_told_at :: nat  \<comment> \<open>the version then\<close>
  nw_running :: bool
  nw_unhandled :: bool  \<comment> \<open>whether it ended in an exception\<close>

definition new_node_watch :: "bool \<Rightarrow> nat \<Rightarrow> bool \<Rightarrow> node_watch" where
  "new_node_watch exists version connected =
     \<lparr>nw_exists = exists, nw_version = version, nw_connected = connected, nw_watch = None, nw_chained = False,
      nw_calling = False, nw_told = None, nw_told_at = 0, nw_running = True, nw_unhandled = False\<rparr>"

definition exists_and_watch :: "node_watch \<Rightarrow> node_watch" where
  "exists_and_watch w = w\<lparr>nw_watch := Some False, nw_chained := False\<rparr>"

definition call_back :: "told \<Rightarrow> node_watch \<Rightarrow> node_watch" where
  "call_back v w = w\<lparr>nw_calling := True, nw_told := Some v, nw_told_at := nw_version w\<rparr>"

definition chain :: "node_watch \<Rightarrow> node_watch" where
  "chain w = w\<lparr>nw_chained := True, nw_calling := False\<rparr>"

definition end_watch :: "bool \<Rightarrow> node_watch \<Rightarrow> node_watch" where
  "end_watch unhandled w = w\<lparr>nw_running := False, nw_calling := False, nw_chained := False, nw_unhandled := unhandled\<rparr>"

section \<open>The watchers\<close>

definition trapping_watcher :: "node_watch \<Rightarrow> node_watch" where
  "trapping_watcher w =
     (if \<not> nw_connected w then end_watch False w else call_back ChangeEvent (exists_and_watch w))"

text \<open>Without a connection there is no new watch, and the callback is called all the same.\<close>

definition rearming_watcher :: "bool \<Rightarrow> node_watch \<Rightarrow> node_watch" where
  "rearming_watcher permanent w =
     call_back ChangeEvent
       (if permanent \<and> nw_connected w then exists_and_watch w else w\<lparr>nw_watch := None, nw_chained := False\<rparr>)"

definition manage_callback :: "node_watch \<Rightarrow> node_watch" where
  "manage_callback w =
     (if \<not> nw_connected w then end_watch False w else call_back (Present (nw_exists w)) (exists_and_watch w))"

definition on_settings_changed :: "told \<Rightarrow> node_watch \<Rightarrow> node_watch" where
  "on_settings_changed v w =
     (if \<not> nw_running w \<or> \<not> nw_connected w then end_watch False w else call_back v (exists_and_watch w))"

fun run_watcher :: "watch_kind \<Rightarrow> node_watch \<Rightarrow> node_watch" where
  "run_watcher Trapping w = trapping_watcher w"
| "run_watcher (Rearming permanent) w = rearming_watcher permanent w"
| "run_watcher Flag w = manage_callback w"
| "run_watcher Runtime w = on_settings_changed ChangeEvent w"

text \<open>The first call; without a connection \<open>exists_and_watch\<close> raises.\<close>

definition start_watch :: "watch_kind \<Rightarrow> node_watch \<Rightarrow> node_watch" where
  "start_watch kind w =
     (case kind of
        Flag \<Rightarrow> manage_callback w
      | Runtime \<Rightarrow>
          if \<not> nw_connected w then end_watch True w
          else if nw_exists w then on_settings_changed (Present True) (exists_and_watch w)
          else chain (exists_and_watch w)
      | _ \<Rightarrow>
          if \<not> nw_connected w then end_watch True w
          else call_back (Present (nw_exists w)) (exists_and_watch w))"

text \<open>The callback has ended; where there is no \<open>watch_d\<close> to chain to, \<open>watch_d.addCallback\<close> raises.\<close>

definition callback_done :: "watch_kind \<Rightarrow> callback_end \<Rightarrow> node_watch \<Rightarrow> node_watch" where
  "callback_done kind outcome w =
     (case outcome of
        CbReturned \<Rightarrow>
          if nw_watch w \<noteq> None then chain w else end_watch (kind = Rearming True) w
      | CbStopWatcher \<Rightarrow> end_watch (\<exists>permanent. kind = Rearming permanent) w
      | CbRaised \<Rightarrow> end_watch (kind \<noteq> Runtime) w)"

definition stop_runtime_watch :: "node_watch \<Rightarrow> node_watch" where
  "stop_runtime_watch w = w\<lparr>nw_running := False\<rparr>"

section \<open>Steps\<close>

text \<open>
  The node changes, which fires the watch of a connected client; the connection is lost; a fired watch runs the
  watcher; the callback ends.
\<close>

inductive watch_step :: "watch_kind \<Rightarrow> node_watch \<Rightarrow> node_watch \<Rightarrow> bool" for kind where
  node_changes: "watch_step kind w (w\<lparr>nw_exists := b, nw_version := Suc (nw_version w),
     nw_watch := (if nw_connected w then map_option (\<lambda>_. True) (nw_watch w) else nw_watch w)\<rparr>)"
| connection_lost: "watch_step kind w (w\<lparr>nw_connected := False\<rparr>)"
| watch_fires: "nw_running w \<Longrightarrow> \<not> nw_calling w \<Longrightarrow> nw_chained w \<Longrightarrow> nw_watch w = Some True \<Longrightarrow>
    watch_step kind w (run_watcher kind w)"
| callback_ends: "nw_calling w \<Longrightarrow> watch_step kind w (callback_done kind outcome w)"

inductive watch_reached :: "watch_kind \<Rightarrow> node_watch \<Rightarrow> bool" for kind where
  started: "watch_reached kind (start_watch kind (new_node_watch b v c))"
| stepped: "watch_reached kind w \<Longrightarrow> watch_step kind w w' \<Longrightarrow> watch_reached kind w'"

inductive_cases watch_stepE: "watch_step kind w w'"

text \<open>A watch that has ended calls back no more.\<close>

lemma watch_ended:
  "watch_step kind w w' \<Longrightarrow> \<not> nw_running w \<Longrightarrow> \<not> nw_calling w \<Longrightarrow> \<not> nw_running w' \<and> \<not> nw_calling w' \<and> nw_told w' = nw_told w"
  by (auto elim!: watch_stepE)

section \<open>Nothing is missed\<close>

definition watch_inv :: "watch_kind \<Rightarrow> node_watch \<Rightarrow> bool" where
  "watch_inv kind w \<longleftrightarrow>
     (nw_running w \<and> \<not> nw_calling w \<longrightarrow> nw_chained w \<and> nw_watch w \<noteq> None)
     \<and> (nw_running w \<and> nw_connected w \<and> nw_watch w = Some False \<longrightarrow>
          (case nw_told w of
             None \<Rightarrow> \<not> nw_exists w
           | Some v \<Rightarrow> nw_told_at w = nw_version w \<and> (\<forall>b. v = Present b \<longrightarrow> b = nw_exists w)))
     \<and> (nw_running w \<and> kind = Flag \<longrightarrow> nw_told w \<noteq> Some ChangeEvent \<and> nw_told w \<noteq> None)"

lemmas watch_defs = watch_inv_def trapping_watcher_def rearming_watcher_def manage_callback_def on_settings_changed_def
  exists_and_watch_def call_back_def chain_def end_watch_def callback_done_def

lemma watch_inv_start: "watch_inv kind (start_watch kind (new_node_watch b v c))"
  by (cases kind) (auto simp: start_watch_def new_node_watch_def watch_defs)

lemma watch_inv_step:
  assumes "watch_step kind w w'" and "watch_inv kind w"
  shows "watch_inv kind w'"
  using assms(1)
proof cases
  case (node_changes b)
  then show ?thesis using assms(2) by (auto simp: watch_inv_def split: option.splits)
next
  case connection_lost
  then show ?thesis using assms(2) by (auto simp: watch_inv_def)
next
  case watch_fires
  then show ?thesis using assms(2) by (cases kind) (auto simp: watch_defs)
next
  case (callback_ends outcome)
  then show ?thesis using assms(2) by (cases outcome) (auto simp: watch_defs split: option.splits)
qed

lemma watch_reached_inv: "watch_reached kind w \<Longrightarrow> watch_inv kind w"
  by (induction rule: watch_reached.induct) (auto intro: watch_inv_start watch_inv_step)

text \<open>
  C21: a watch misses no change. Whenever a watch runs on a live connection, its callback does not, and the watch
  has not fired, the callback was called after the last change of the node, and if it was told whether the node
  exists, this is still true; only a watch of the settings may not have called back yet, and then they do not exist. A
  watch that has fired runs the watcher next.
\<close>

theorem watch_misses_nothing:
  assumes "watch_reached kind w" and "nw_running w" and "nw_connected w" and "\<not> nw_calling w"
  shows "(nw_watch w = Some False \<and>
      (case nw_told w of
         None \<Rightarrow> kind \<noteq> Flag \<and> \<not> nw_exists w
       | Some v \<Rightarrow> nw_told_at w = nw_version w \<and> (kind = Flag \<longrightarrow> v = Present (nw_exists w))
           \<and> (\<forall>b. v = Present b \<longrightarrow> b = nw_exists w)))
    \<or> (nw_watch w = Some True \<and> watch_step kind w (run_watcher kind w))"
proof -
  have inv: "watch_inv kind w" using assms(1) by (rule watch_reached_inv)
  then have chained: "nw_chained w" "nw_watch w \<noteq> None" using assms(2,4) by (simp_all add: watch_inv_def)
  show ?thesis
  proof (cases "nw_watch w = Some True")
    case True
    then show ?thesis using watch_fires [OF assms(2,4) chained(1) True] by blast
  next
    case False
    then have "nw_watch w = Some False" using chained(2) by auto
    then show ?thesis using inv assms(2,3) by (cases "nw_told w"; cases "the (nw_told w)") (auto simp: watch_inv_def)
  qed
qed

theorem watch_misses_nothing_witness:
  "\<exists>w. watch_reached Flag w \<and> nw_version w = 1 \<and> nw_told w = Some (Present True) \<and> nw_told_at w = 1"
proof -
  let ?w0 = "start_watch Flag (new_node_watch False 0 True)"
  have r0: "watch_reached Flag ?w0" by (rule started)
  have w0: "nw_calling ?w0" "nw_watch ?w0 = Some False" "nw_connected ?w0" "nw_running ?w0" "nw_version ?w0 = 0"
    by (simp_all add: start_watch_def new_node_watch_def watch_defs)
  let ?w1 = "callback_done Flag CbReturned ?w0"
  have r1: "watch_reached Flag ?w1" by (rule stepped [OF r0 callback_ends [OF w0(1)]])
  have w1: "\<not> nw_calling ?w1" "nw_watch ?w1 = Some False" "nw_connected ?w1" "nw_running ?w1" "nw_version ?w1 = 0" "nw_chained ?w1"
    using w0 by (simp_all add: callback_done_def chain_def)
  define w2 where "w2 = ?w1\<lparr>nw_exists := True, nw_version := Suc (nw_version ?w1),
     nw_watch := (if nw_connected ?w1 then map_option (\<lambda>_. True) (nw_watch ?w1) else nw_watch ?w1)\<rparr>"
  have r2: "watch_reached Flag w2" unfolding w2_def by (rule stepped [OF r1 node_changes])
  have w2: "\<not> nw_calling w2" "nw_watch w2 = Some True" "nw_connected w2" "nw_running w2" "nw_version w2 = 1" "nw_chained w2" "nw_exists w2"
    using w1 by (simp_all add: w2_def)
  let ?w3 = "callback_done Flag CbReturned (run_watcher Flag w2)"
  have w3: "\<not> nw_calling ?w3" "nw_watch ?w3 = Some False" "nw_connected ?w3" "nw_running ?w3" "nw_version ?w3 = 1" "nw_exists ?w3"
    "nw_calling (run_watcher Flag w2)"
    using w2 by (simp_all add: watch_defs)
  have r3: "watch_reached Flag ?w3"
    by (rule stepped [OF stepped [OF r2 watch_fires [OF w2(4,1,6,2)]] callback_ends [OF w3(7)]])
  from watch_misses_nothing [OF r3 w3(4,3,1)] w3(2,5,6) r3 show ?thesis
    by (cases "nw_told ?w3") auto
qed

end
