(* ===== verification/MachineState.thy ===== *)
theory MachineState
  imports UnitNodes Constraints
begin

text \<open>
  \<open>juju/state/machine.py\<close>, \<open>juju/state/agent.py\<close>, \<open>juju/state/placement.py\<close> and the constraints and global settings of
  \<open>juju/state/environment.py\<close>; with them what \<open>juju/state/service.py\<close> does with constraints.

  The constraint set of the environment comes from its provider and is a parameter, as are the texts of constraint
  errors.
\<close>

section \<open>Constraints in nodes\<close>

record ('z, 'c) machine_env =
  me_state :: "('z, 'c) state_env"
  me_constraint_set :: "'z \<Rightarrow> state_error + constraint_set"
  me_constraint_text :: "constraint_error \<Rightarrow> string"

abbreviation in_constraints :: "('z, 'c) machine_env \<Rightarrow> constraint_error \<Rightarrow> state_error" where
  "in_constraints m err \<equiv> ConstraintError (me_constraint_text m err)"

definition constraints_value :: "cdata \<Rightarrow> yvalue" where
  "constraints_value data = YMap (map (\<lambda>(k, v). (k, case v of None \<Rightarrow> YNone | Some s \<Rightarrow> YText s)) data)"

definition constraint_entry :: "string \<times> yvalue \<Rightarrow> state_error + string \<times> string option" where
  "constraint_entry = (\<lambda>(k, v). case v of
     YNone \<Rightarrow> Inr (k, None) | YText s \<Rightarrow> Inr (k, Some s) | _ \<Rightarrow> Inl (BadContent ''constraints''))"

definition value_constraints :: "yvalue \<Rightarrow> state_error + cdata" where
  "value_constraints v = (case v of YMap d \<Rightarrow> rmap constraint_entry d | _ \<Rightarrow> Inl (BadContent ''constraints''))"

definition load_node_constraints :: "('z, 'c) machine_env \<Rightarrow> constraint_set \<Rightarrow> yvalue option \<Rightarrow> state_error + constraints" where
  "load_node_constraints m cs data =
     rbind (value_constraints (case data of None \<Rightarrow> YNone | Some v \<Rightarrow> v)) (\<lambda>d.
     raise_as (in_constraints m) (load_constraints cs d))"

section \<open>The environment\<close>

definition get_in_legacy_environment :: "('z, 'c) machine_env \<Rightarrow> 'z \<Rightarrow> bool" where
  "get_in_legacy_environment m z = (\<not> zc_exists (se_client (me_state m)) z ''/constraints'')"

definition force_node :: "('z, 'c) machine_env \<Rightarrow> string \<Rightarrow> 'c \<Rightarrow> ('z, state_error, unit) eff" where
  "force_node m path content = retry_node (me_state m) path (\<lambda>_. Inr content)"

definition set_env_constraints :: "('z, 'c) machine_env \<Rightarrow> constraints \<Rightarrow> ('z, state_error, unit) eff" where
  "set_env_constraints m c =
     force_node m ''/constraints'' (se_dump (me_state m) (constraints_value (ddel ''ubuntu-series'' (c_data c))))"

definition get_env_constraints :: "('z, 'c) machine_env \<Rightarrow> 'z \<Rightarrow> state_error + constraints" where
  "get_env_constraints m z =
     rbind (me_constraint_set m z) (\<lambda>cs.
     load_node_constraints m cs (Some (case zc_get (se_client (me_state m)) z ''/constraints'' of
       None \<Rightarrow> YMap [] | Some content \<Rightarrow> se_load (me_state m) content)))"

text \<open>\<open>GlobalSettingsStateManager\<close>\<close>

definition get_setting :: "('z, 'c) machine_env \<Rightarrow> string \<Rightarrow> yvalue \<Rightarrow> 'z \<Rightarrow> state_error + yvalue" where
  "get_setting m key dflt z =
     (case zc_get (se_client (me_state m)) z ''/settings'' of
        None \<Rightarrow> Inr dflt
      | Some content \<Rightarrow>
          (case se_load (me_state m) content of
             YMap data \<Rightarrow> Inr (case dget data key of None \<Rightarrow> dflt | Some v \<Rightarrow> v)
           | _ \<Rightarrow> Inl (BadContent ''/settings'')))"

definition set_setting :: "('z, 'c) machine_env \<Rightarrow> string \<Rightarrow> yvalue \<Rightarrow> ('z, state_error, unit) eff" where
  "set_setting m key v =
     retry_node (me_state m) ''/settings'' (\<lambda>old_content.
       rbind (case old_content of
                None \<Rightarrow> Inr []
              | Some content \<Rightarrow> (case se_load (me_state m) content of
                  YMap data \<Rightarrow> Inr data
                | v \<Rightarrow> if y_true v then Inl (BadContent ''/settings'') else Inr [])) (\<lambda>data.
       Inr (se_dump (me_state m) (YMap (dset key v data)))))"

definition set_provider_type :: "('z, 'c) machine_env \<Rightarrow> string \<Rightarrow> ('z, state_error, unit) eff" where
  "set_provider_type m provider_type = set_setting m ''provider-type'' (YText provider_type)"

definition get_provider_type :: "('z, 'c) machine_env \<Rightarrow> 'z \<Rightarrow> state_error + yvalue" where
  "get_provider_type m = get_setting m ''provider-type'' YNone"

definition is_debug_log_enabled :: "('z, 'c) machine_env \<Rightarrow> 'z \<Rightarrow> state_error + yvalue" where
  "is_debug_log_enabled m = get_setting m ''debug-log'' (YBool False)"

definition set_debug_log :: "('z, 'c) machine_env \<Rightarrow> bool \<Rightarrow> ('z, state_error, unit) eff" where
  "set_debug_log m enabled = set_setting m ''debug-log'' (YBool enabled)"

section \<open>Constraints of services and units\<close>

definition series_constraints :: "('z, 'c) machine_env \<Rightarrow> constraints \<Rightarrow> string \<Rightarrow> state_error + constraints" where
  "series_constraints m base_constraints charm_id =
     rbind (raise_as InCharm (parse_url charm_id)) (\<lambda>url.
     raise_as (in_constraints m) (with_series base_constraints (cc_series (cu_collection url))))"

definition set_service_constraints ::
  "('z, 'c) machine_env \<Rightarrow> service_state \<Rightarrow> constraints \<Rightarrow> ('z, state_error, unit) eff" where
  "set_service_constraints m s c =
     ebind (eread (get_service_charm_id (me_state m) s)) (\<lambda>charm_id.
     ebind (eread (\<lambda>_. case charm_id of Some (YText t) \<Rightarrow> series_constraints m c t | _ \<Rightarrow> Inl (BadContent ''charm''))) (\<lambda>c.
     echange (\<lambda>z. case set_node_value (node_at (me_state m) (service_path s)) z ''constraints'' (constraints_value (c_data c)) of
       Inl _ \<Rightarrow> Inl (ServiceStateNotFound (ss_name s))
     | Inr z' \<Rightarrow> Inr z')))"

definition get_service_constraints :: "('z, 'c) machine_env \<Rightarrow> service_state \<Rightarrow> 'z \<Rightarrow> state_error + constraints" where
  "get_service_constraints m s z =
     rbind (get_env_constraints m z) (\<lambda>c.
     rbind (me_constraint_set m z) (\<lambda>cs.
     rbind (case get_node_value (node_at (me_state m) (service_path s)) z ''constraints'' (Some (YMap [])) of
              Inl _ \<Rightarrow> Inl (ServiceStateNotFound (ss_name s)) | Inr v \<Rightarrow> Inr v) (\<lambda>service_data.
     rbind (load_node_constraints m cs service_data) (\<lambda>own. Inr (update_constraints c own)))))"

definition get_unit_constraints :: "('z, 'c) machine_env \<Rightarrow> service_unit \<Rightarrow> 'z \<Rightarrow> state_error + constraints" where
  "get_unit_constraints m u z =
     rbind (me_constraint_set m z) (\<lambda>cs.
     rbind (case get_node_value (node_at (me_state m) (unit_path u)) z ''constraints'' (Some (YMap [])) of
              Inl _ \<Rightarrow> Inl (ServiceUnitStateNotFound (su_service_name u)) | Inr v \<Rightarrow> Inr v) (\<lambda>data.
     load_node_constraints m cs data))"

text \<open>What \<open>add_unit_state\<close> stores in the node of a new unit.\<close>

definition new_unit_data :: "('z, 'c) machine_env \<Rightarrow> service_state \<Rightarrow> 'z \<Rightarrow> state_error + yvalue" where
  "new_unit_data m s z =
     rbind (get_service_constraints m s z) (\<lambda>c.
     rbind (get_service_charm_id (me_state m) s z) (\<lambda>charm_id.
     Inr (YMap [(''charm'', case charm_id of None \<Rightarrow> YNone | Some v \<Rightarrow> v), (''constraints'', constraints_value (c_data c))])))"

section \<open>Machines\<close>

text \<open>A \<open>MachineState\<close> is its internal id; \<open>"machine-%010d"\<close>.\<close>

definition zero_padded :: "int \<Rightarrow> string" where
  "zero_padded n =
     (if n < 0 then (let d = show_nat (nat (- n)) in CHR ''-'' # replicate (9 - length d) CHR ''0'' @ d)
      else (let d = show_nat (nat n) in replicate (10 - length d) CHR ''0'' @ d))"

definition machine_internal_id :: "int \<Rightarrow> string" where
  "machine_internal_id n = ''machine-'' @ zero_padded n"

definition machine_path :: "string \<Rightarrow> string" where
  "machine_path internal_id = ''/machines/'' @ internal_id"

definition add_machine_state :: "('z, 'c) machine_env \<Rightarrow> constraints \<Rightarrow> ('z, state_error, string) eff" where
  "add_machine_state m c =
     ebind (eread (\<lambda>_. raise_as (in_constraints m) (complete_constraints c))) (\<lambda>complete.
     if \<not> complete then eraise (ConstraintError ''Unprovisionable machine: incomplete constraints'')
     else ebind (create_sequence (me_state m) ''/machines/machine-''
            (se_dump (me_state m) (YMap [(''constraints'', constraints_value (c_data c))]))) (\<lambda>path.
       let internal_id = base_name path in
       ebind (topo_change (me_state m) (\<lambda>t. raise_as InTopology (add_machine t internal_id))) (\<lambda>_. eret internal_id)))"

definition remove_machine_change :: "int \<Rightarrow> topology \<Rightarrow> state_error + topology \<times> bool" where
  "remove_machine_change machine_id topology =
     (let internal_id = machine_internal_id machine_id in
      if has_machine topology internal_id then
        rbind (raise_as InTopology (machine_has_units topology internal_id)) (\<lambda>used.
        if used then Inl (MachineStateInUse machine_id)
        else rbind (raise_as InTopology (remove_machine topology internal_id)) (\<lambda>t. Inr (t, True)))
      else Inr (topology, False))"

definition remove_machine_state :: "('z, 'c) machine_env \<Rightarrow> int \<Rightarrow> ('z, state_error, bool) eff" where
  "remove_machine_state m machine_id =
     ebind (topo_update (me_state m) (remove_machine_change machine_id)) (\<lambda>must_delete.
     ebind (if must_delete then echange (\<lambda>z. Inr (se_remove_tree (me_state m) (machine_path (machine_internal_id machine_id)) z))
            else eret ()) (\<lambda>_. eret must_delete))"

text \<open>Ids are given as numbers or as texts of digits.\<close>

definition get_machine_state :: "('z, 'c) machine_env \<Rightarrow> string + int \<Rightarrow> 'z \<Rightarrow> state_error + string" where
  "get_machine_state m machine_id z =
     (case (case machine_id of Inl s \<Rightarrow> if py_isdigit s then Some (int (read_nat s)) else None | Inr n \<Rightarrow> Some n) of
        None \<Rightarrow> Inl (MachineStateNotFound machine_id)
      | Some n \<Rightarrow>
          rbind (topo_of (me_state m) z) (\<lambda>topology.
          if has_machine topology (machine_internal_id n) then Inr (machine_internal_id n)
          else Inl (MachineStateNotFound (Inr n))))"

definition get_all_machine_states :: "('z, 'c) machine_env \<Rightarrow> 'z \<Rightarrow> state_error + string list" where
  "get_all_machine_states m z = rbind (topo_of (me_state m) z) (\<lambda>topology. Inr (get_machines topology))"

text \<open>\<open>_node_missing\<close> names the public id.\<close>

definition machine_value ::
  "('z, 'c) machine_env \<Rightarrow> string \<Rightarrow> string \<Rightarrow> yvalue option \<Rightarrow> 'z \<Rightarrow> state_error + yvalue option" where
  "machine_value m internal_id key dflt z =
     (case get_node_value (node_at (me_state m) (machine_path internal_id)) z key dflt of
        Inl _ \<Rightarrow> rbind (public_machine_id internal_id) (\<lambda>n. Inl (MachineStateNotFound (Inr n)))
      | Inr v \<Rightarrow> Inr v)"

definition get_instance_id :: "('z, 'c) machine_env \<Rightarrow> string \<Rightarrow> 'z \<Rightarrow> state_error + yvalue option" where
  "get_instance_id m internal_id = machine_value m internal_id ''provider-machine-id'' None"

definition set_instance_id :: "('z, 'c) machine_env \<Rightarrow> string \<Rightarrow> yvalue \<Rightarrow> ('z, state_error, unit) eff" where
  "set_instance_id m internal_id instance_id = echange (\<lambda>z.
     case set_node_value (node_at (me_state m) (machine_path internal_id)) z ''provider-machine-id'' instance_id of
       Inl _ \<Rightarrow> rbind (public_machine_id internal_id) (\<lambda>n. Inl (MachineStateNotFound (Inr n)))
     | Inr z' \<Rightarrow> Inr z')"

definition get_machine_constraints :: "('z, 'c) machine_env \<Rightarrow> string \<Rightarrow> 'z \<Rightarrow> state_error + constraints" where
  "get_machine_constraints m internal_id z =
     rbind (me_constraint_set m z) (\<lambda>cs.
     rbind (machine_value m internal_id ''constraints'' (Some (YMap [])) z) (\<lambda>data.
     load_node_constraints m cs data))"

text \<open>Whether a machine can take a unit, as \<open>assign_to_machine\<close> and \<open>assign_to_unused_machine\<close> ask.\<close>

definition machine_can_satisfy :: "('z, 'c) machine_env \<Rightarrow> service_unit \<Rightarrow> 'z \<Rightarrow> string \<Rightarrow> state_error + bool" where
  "machine_can_satisfy m u z internal_id =
     rbind (get_unit_constraints m u z) (\<lambda>unit_constraints.
     rbind (get_machine_constraints m internal_id z) (\<lambda>machine_constraints.
     raise_as (in_constraints m) (can_satisfy machine_constraints unit_constraints)))"

definition machine_unit :: "topology \<Rightarrow> string \<Rightarrow> state_error + service_unit" where
  "machine_unit topology uid =
     rbind (raise_as InTopology (get_service_unit_service topology uid)) (\<lambda>sid.
     rbind (raise_as InTopology (get_service_name topology sid)) (\<lambda>service_name.
     rbind (raise_as InTopology (get_service_unit_sequence topology sid uid)) (\<lambda>sequence.
     Inr \<lparr>su_service = sid, su_service_name = service_name, su_sequence = sequence, su_id = uid\<rparr>)))"

definition machine_unit_states :: "('z, 'c) machine_env \<Rightarrow> string \<Rightarrow> 'z \<Rightarrow> state_error + service_unit list" where
  "machine_unit_states m internal_id z =
     rbind (topo_of (me_state m) z) (\<lambda>topology.
     rbind (raise_as InTopology (get_service_units_in_machine topology internal_id)) (rmap (machine_unit topology)))"

section \<open>Watches\<close>

definition public_machines :: "topology \<Rightarrow> state_error + int set" where
  "public_machines topology = rbind (rmap public_machine_id (get_machines topology)) (\<lambda>ids. Inr (set ids))"

definition report_machines ::
  "(int set option \<Rightarrow> int set \<Rightarrow> 'w \<Rightarrow> 'w \<times> watch_end) \<Rightarrow> 'w watch_function" where
  "report_machines callback old new x =
     (case (case old of None \<Rightarrow> Inr None | Some t \<Rightarrow> rbind (public_machines t) (\<lambda>ids. Inr (Some ids))) of
        Inl e \<Rightarrow> (x, Failed e)
      | Inr old_machines \<Rightarrow>
          (case public_machines new of
             Inl e \<Rightarrow> (x, Failed e)
           | Inr new_machines \<Rightarrow>
               if old_machines \<noteq> Some new_machines then callback old_machines new_machines x else (x, Returned)))"

definition watch_machine_states ::
  "'c topo_yaml \<Rightarrow> (int set option \<Rightarrow> int set \<Rightarrow> 'w \<Rightarrow> 'w \<times> watch_end) \<Rightarrow> bool \<times> 'c option \<Rightarrow> 'w \<Rightarrow> topo_watch \<times> 'w" where
  "watch_machine_states y callback = watch_topology y (report_machines callback)"

definition machine_unit_names :: "string \<Rightarrow> topology \<Rightarrow> topo_error + string set" where
  "machine_unit_names internal_id topology =
     (if \<not> has_machine topology internal_id then Inr {}
      else rbind (get_service_units_in_machine topology internal_id) (\<lambda>ids.
        rbind (rmap (\<lambda>uid. rbind (get_service_unit_service topology uid) (\<lambda>sid. get_service_unit_name topology sid uid)) ids)
          (\<lambda>unit_names. Inr (set unit_names))))"

text \<open>\<open>_WatchAssignedUnits\<close>: it keeps the names it told last itself; \<open>None\<close>: none yet.\<close>

definition report_assigned_units ::
  "string \<Rightarrow> (string set option \<Rightarrow> string set \<Rightarrow> 'w \<Rightarrow> 'w \<times> watch_end) \<Rightarrow> ('w \<times> string set option) watch_function" where
  "report_assigned_units internal_id callback old new = (\<lambda>(x, old_units).
     case machine_unit_names internal_id new of
       Inl e \<Rightarrow> ((x, old_units), Failed (InTopology e))
     | Inr new_units \<Rightarrow>
         if (new_units \<noteq> {} \<or> (old_units \<noteq> None \<and> old_units \<noteq> Some {})) \<and> Some new_units \<noteq> old_units then
           (case callback old_units new_units x of (x, outcome) \<Rightarrow> ((x, Some new_units), outcome))
         else ((x, old_units), Returned))"

section \<open>Agents\<close>

definition agent_path :: "string \<Rightarrow> string" where
  "agent_path path = path @ ''/agent''"

definition has_agent :: "('z, 'c) state_env \<Rightarrow> string \<Rightarrow> 'z \<Rightarrow> bool" where
  "has_agent e path z = zc_exists (se_client e) z (agent_path path)"

definition connect_agent :: "('z, 'c) state_env \<Rightarrow> string \<Rightarrow> ('z, state_error, unit) eff" where
  "connect_agent e path = create_node e (agent_path path) (se_empty e) (NodeExists (agent_path path))"

section \<open>Placement\<close>

text \<open>The state operations, with the parts about constraints that are parameters of \<open>ServiceState\<close> filled in.\<close>

definition placement_env :: "('z, 'c) machine_env \<Rightarrow> service_unit \<Rightarrow> ('z, 'c) state_env" where
  "placement_env m u = (me_state m)\<lparr>se_can_satisfy := (\<lambda>z machine uid. machine_can_satisfy m u z machine)\<rparr>"

definition local_placement :: "('z, 'c) machine_env \<Rightarrow> service_unit \<Rightarrow> ('z, state_error, string) eff" where
  "local_placement m u =
     ebind (eread (get_machine_state m (Inr 0))) (\<lambda>machine.
     ebind (assign_to_machine (placement_env m u) u machine) (\<lambda>_. eret machine))"

definition unassigned_placement :: "('z, 'c) machine_env \<Rightarrow> service_unit \<Rightarrow> ('z, state_error, string) eff" where
  "unassigned_placement m u =
     ecatch (assign_to_unused_machine (placement_env m u) u) (\<lambda>err.
       if err = NoUnusedMachines then
         Some (ebind (eread (get_unit_constraints m u)) (\<lambda>c.
               ebind (add_machine_state m c) (\<lambda>machine.
               ebind (assign_to_machine (placement_env m u) u machine) (\<lambda>_. eret machine))))
       else None)"

definition pick_policy :: "string \<Rightarrow> string list \<Rightarrow> state_error + string" where
  "pick_policy preference policies =
     (if preference = [] then (case policies of p # _ \<Rightarrow> Inr p | [] \<Rightarrow> Inl (InTopology IndexError))
      else if preference \<notin> set policies then Inl (InvalidPlacementPolicy preference)
      else Inr preference)"

definition place_unit ::
  "('z, 'c) machine_env \<Rightarrow> string option \<Rightarrow> service_unit \<Rightarrow> ('z, state_error, string) eff" where
  "place_unit m policy_name u =
     (case policy_name of
        None \<Rightarrow> unassigned_placement m u
      | Some policy \<Rightarrow>
          if policy = ''local'' then local_placement m u
          else if policy = ''unassigned'' then unassigned_placement m u
          else eraise (state_error.BadValue ''Invalid policy for provider''))"

end
