(* ===== verification/MachineProps.thy ===== *)
theory MachineProps
  imports MachineState StateBaseProps
begin

text \<open>
  Where a unit is placed: the machine a placement answers is the one the stored topology has for the unit.
\<close>

section \<open>Changes of the stored topology\<close>

definition sequence_ok :: "('z, 'c) zk_client \<Rightarrow> bool" where
  "sequence_ok client \<longleftrightarrow> (\<forall>p c z q z'. zc_create_sequence client p c z = (q, z') \<longrightarrow>
     startswith q p \<and> (\<forall>q'. q' \<noteq> q \<longrightarrow> zc_get client z' q' = zc_get client z q'))"

definition store_ok :: "('z, 'c) machine_env \<Rightarrow> bool" where
  "store_ok m \<longleftrightarrow> client_ok (se_client (me_state m)) \<and> topo_yaml_ok (se_topo (me_state m)) \<and> sequence_ok (se_client (me_state m))"

abbreviation holds_topology :: "('z, 'c) machine_env \<Rightarrow> 'z \<Rightarrow> topology \<Rightarrow> bool" where
  "holds_topology m \<equiv> stored (se_topo (me_state m)) (se_client (me_state m))"

lemma topo_change_stored:
  assumes "client_ok client" and "topo_yaml_ok y" and "stored y client z t"
    and "retry_topology_change y client f z = Inr z'" and "\<And>t'. f t = Inr t' \<Longrightarrow> get_version t' = get_version t"
  shows "\<exists>t'. f t = Inr t' \<and> stored y client z' t'"
proof (cases "f t")
  case (Inl e)
  then have "retry_topology_change y client f z = Inl e"
    unfolding retry_topology_change_def
    by (intro retry_change_Inl [OF assms(1)]) (simp add: stored_change [OF assms(2,3)])
  with assms(4) show ?thesis by simp
next
  case (Inr t')
  have "change_content_function y f (zc_get client z ''/topology'') = Inr (ty_dump y t')"
    by (simp add: stored_change [OF assms(2,3)] Inr)
  from retry_change_Inr [where f = "change_content_function y f", OF assms(1) this] assms(4)
  have "zc_get client z' ''/topology'' = Some (ty_dump y t')" by (auto simp: retry_topology_change_def)
  moreover have "get_version t' = VERSION" using assms(5) [OF Inr] assms(3) by (simp add: stored_def)
  ultimately show ?thesis by (auto simp: stored_def Inr)
qed

lemma content_stored:
  "topo_yaml_ok y \<Longrightarrow> stored y client z t \<Longrightarrow> content_topology y (zc_get client z ''/topology'') = Inr t"
  by (auto simp: stored_def content_topology_def parse_dumped) (auto simp: topo_yaml_ok_def)

lemma topo_update_stored:
  assumes "client_ok (se_client e)" and "topo_yaml_ok (se_topo e)" and "stored (se_topo e) (se_client e) z t"
    and "topo_update e f z = (z', r)" and "\<forall>t' x. f t = Inr (t', x) \<longrightarrow> get_version t' = get_version t"
  shows "case r of Inl err \<Rightarrow> z' = z | Inr x \<Rightarrow> \<exists>t'. f t = Inr (t', x) \<and> stored (se_topo e) (se_client e) z' t'"
proof (cases "retry_topology_change (se_topo e) (se_client e) (\<lambda>t. rbind (f t) (\<lambda>(t', _). Inr t')) z")
  case (Inl err)
  then show ?thesis using assms(4) by (auto simp: topo_update_def)
next
  case (Inr z1)
  have version: "get_version t' = get_version t" if "rbind (f t) (\<lambda>(t', _). Inr t') = Inr t'" for t'
    using that assms(5) by (auto simp: result_simps)
  obtain t' where "rbind (f t) (\<lambda>(t', _). Inr t') = Inr t'" "stored (se_topo e) (se_client e) z1 t'"
    using topo_change_stored [OF assms(1-3) Inr version] by blast
  then show ?thesis
    using assms(4) Inr content_stored [OF assms(2,3)] by (auto simp: topo_update_def result_simps)
qed

lemma assign_unit_version: "assign_unit u machine t = Inr t' \<Longrightarrow> get_version t' = get_version t"
  by (auto simp: assign_unit_def result_simps assign_service_unit_to_machine_def split: if_splits option.splits)

lemma assigned_machine:
  "assign_service_unit_to_machine t sid uid mid = Inr t' \<Longrightarrow> get_service_unit_machine t' sid uid = Inr (Some mid)"
  by (auto simp: assign_service_unit_to_machine_def result_simps get_service_unit_machine_def)
    (auto simp: set_units_def dget_dset services_of_def split: if_splits)

section \<open>Placement\<close>

lemma assign_unit_result:
  assumes "assign_unit u machine t = Inr t'"
  shows "get_service_unit_machine t' (su_service u) (su_id u) = Inr (Some machine)"
proof -
  obtain old where old: "get_service_unit_machine t (su_service u) (su_id u) = Inr old"
      "(case old of None \<Rightarrow> raise_as InTopology (assign_service_unit_to_machine t (su_service u) (su_id u) machine)
        | Some m \<Rightarrow> if m = machine then Inr t else Inl (ServiceUnitStateMachineAlreadyAssigned (unit_name_of u))) = Inr t'"
    using assms by (auto simp: assign_unit_def result_simps split: if_splits)
  then show ?thesis by (cases old) (auto simp: result_simps assigned_machine split: if_splits)
qed

lemma assign_to_machine_result:
  assumes "store_ok m" and "holds_topology m z t" and "assign_to_machine (placement_env m u) u machine z = (z', Inr x)"
  shows "\<exists>t'. holds_topology m z' t' \<and> get_service_unit_machine t' (su_service u) (su_id u) = Inr (Some machine)"
proof -
  have "retry_topology_change (se_topo (me_state m)) (se_client (me_state m)) (assign_unit u machine) z = Inr z'"
    using assms(3) by (auto simp: assign_to_machine_def placement_env_def ebind_def eread_def echange_def split: sum.splits)
  then obtain t' where "assign_unit u machine t = Inr t'" "holds_topology m z' t'"
    using topo_change_stored [OF _ _ assms(2), of "assign_unit u machine" z'] assign_unit_version assms(1)
    unfolding store_ok_def by blast
  then show ?thesis using assign_unit_result by blast
qed

lemma unused_machine_result:
  assumes "unused_machine satisfies t machines = Inr machine"
  shows "machine \<in> set machines \<and> machine \<noteq> root_machine_id \<and> machine_has_units t machine = Inr False \<and> satisfies machine = Inr True"
  using assms by (induction machines) (auto simp: result_simps split: if_splits)

lemma assign_to_unused_result:
  assumes "store_ok m" and "holds_topology m z t" and "assign_to_unused_machine (placement_env m u) u z = (z', r)"
  shows "case r of Inl err \<Rightarrow> z' = z
    | Inr machine \<Rightarrow> \<exists>t'. holds_topology m z' t' \<and> get_service_unit_machine t' (su_service u) (su_id u) = Inr (Some machine)
        \<and> machine \<noteq> root_machine_id \<and> machine_has_units t machine = Inr False \<and> machine_can_satisfy m u z machine = Inr True"
proof -
  let ?e = "placement_env m u" and ?f = "assign_unused_unit (machine_can_satisfy m u z) u"
  have same: "se_client ?e = se_client (me_state m)" "se_topo ?e = se_topo (me_state m)" by (simp_all add: placement_env_def)
  have run: "topo_update ?e ?f z = (z', r)"
    using assms(3) by (simp add: assign_to_unused_machine_def) (simp add: placement_env_def)
  have ok: "client_ok (se_client ?e)" "topo_yaml_ok (se_topo ?e)" "stored (se_topo ?e) (se_client ?e) z t"
    using assms(1,2) by (simp_all add: store_ok_def same)
  have version: "\<forall>t' x. ?f t = Inr (t', x) \<longrightarrow> get_version t' = get_version t"
    by (auto simp: assign_unused_unit_def result_simps assign_service_unit_to_machine_def split: if_splits)
  note upd = topo_update_stored [OF ok run version]
  show ?thesis
  proof (cases r)
    case (Inr machine)
    with upd obtain t' where "?f t = Inr (t', machine)" "holds_topology m z' t'" by (auto simp: same)
    moreover from this have "get_service_unit_machine t' (su_service u) (su_id u) = Inr (Some machine)"
      and "unused_machine (machine_can_satisfy m u z) t (get_machines t) = Inr machine"
      by (auto simp: assign_unused_unit_def result_simps assigned_machine)
    ultimately show ?thesis
      using unused_machine_result [of "machine_can_satisfy m u z" t "get_machines t" machine] Inr by auto
  qed (use upd in auto)
qed

lemma add_machine_result:
  assumes "store_ok m" and "holds_topology m z t" and "add_machine_state m c z = (z', Inr machine)"
  shows "\<exists>t'. holds_topology m z' t' \<and> \<not> has_machine t machine \<and> has_machine t' machine"
proof -
  let ?client = "se_client (me_state m)" and ?y = "se_topo (me_state m)"
  let ?data = "se_dump (me_state m) (YMap [(''constraints'', constraints_value (c_data c))])"
  obtain path z1 where seq: "zc_create_sequence ?client ''/machines/machine-'' ?data z = (path, z1)"
    by (cases "zc_create_sequence ?client ''/machines/machine-'' ?data z")
  have change: "retry_topology_change ?y ?client (\<lambda>t. raise_as InTopology (add_machine t (base_name path))) z1 = Inr z'"
    and machine: "machine = base_name path"
    using assms(3) seq
    by (auto simp: add_machine_state_def ebind_def eread_def eraise_def create_sequence_def echange_def eret_def Let_def
        split: if_splits sum.splits)
  have "startswith path ''/machines/machine-''" "\<forall>q. q \<noteq> path \<longrightarrow> zc_get ?client z1 q = zc_get ?client z q"
    using assms(1) seq by (auto simp: store_ok_def sequence_ok_def)
  moreover from this have "path \<noteq> ''/topology''" by (auto simp: startswith_def)
  ultimately have "zc_get ?client z1 ''/topology'' = zc_get ?client z ''/topology''" by simp
  then have "stored ?y ?client z1 t" using assms(2) by (simp add: stored_def)
  moreover have "get_version t' = get_version t" if "raise_as InTopology (add_machine t (base_name path)) = Inr t'" for t'
    using that by (auto simp: result_simps add_machine_def Let_def split: if_splits)
  ultimately obtain t' where "raise_as InTopology (add_machine t (base_name path)) = Inr t'" "stored ?y ?client z' t'"
    using topo_change_stored [OF _ _ _ change] assms(1) unfolding store_ok_def by blast
  then show ?thesis
    by (auto simp: machine result_simps add_machine_def has_machine_def machines_of_def Let_def split: if_splits)
qed


lemma plain_sequence_ok: "sequence_ok plain_client"
  by (auto simp: sequence_ok_def plain_client_def startswith_def Let_def dget_dset)

definition machine_topology :: topology where
  "machine_topology = run_cmds new_topology
     [AddMachine ''machine-0000000000'', AddService ''s-0'' ''wordpress'', AddUnit ''s-0'' ''u-0'' None]"

definition machine_demo :: "((string, content) dict, content) machine_env" where
  "machine_demo = \<lparr>me_state = dict_env, me_constraint_set = (\<lambda>_. Inr (new_constraint_set ''dummy'')), me_constraint_text = (\<lambda>_. [])\<rparr>"

definition machine_store :: "(string, content) dict" where
  "machine_store = [(''/topology'', Topo machine_topology), (''/units/u-0'', Value (YMap [])),
     (''/machines/machine-0000000000'', Value (YMap []))]"

lemma machine_store_ok: "store_ok machine_demo" "holds_topology machine_demo machine_store machine_topology"
proof -
  have "topo_yaml_ok (se_topo dict_env)" by (simp add: topo_yaml_ok_def dict_env_def)
  then show "store_ok machine_demo"
    using dict_env_ok plain_sequence_ok by (simp add: store_ok_def machine_demo_def) (simp add: dict_env_def plain_client_ok)
  have "get_version machine_topology = VERSION" by code_simp
  then show "holds_topology machine_demo machine_store machine_topology"
    by (simp add: stored_def machine_demo_def machine_store_def) (simp add: dict_env_def)
qed


end
