(* ===== verification/Provider.thy ===== *)
theory Provider
  imports ServiceState Constraints
begin

text \<open>
  What the agents ask of a machine provider, as locales, and the provider of \<open>juju/providers/dummy.py\<close>, which gives it;
  \<open>Ec2Props\<close> shows that the one of \<open>juju/providers/ec2\<close> does as well.
\<close>

section \<open>The interface\<close>

datatype provider_error =
    MachinesNotFound "yvalue list"
  | ProviderError string
  | EnvironmentNotFound string
  | EnvironmentPending string
  | FileNotFound string
  | OutsideError string string  \<comment> \<open>an exception that is not juju's: its code and message\<close>

text \<open>Ports are opened for a provider's machine and the id of the machine in the environment.\<close>

record ('p, 'm) provider =
  pv_instance_id :: "'m \<Rightarrow> yvalue"
  pv_get_machines :: "yvalue list \<Rightarrow> ('p, provider_error, 'm list) eff"
  pv_get_machine :: "yvalue \<Rightarrow> ('p, provider_error, 'm) eff"
  pv_start_machine :: "int \<Rightarrow> constraints \<Rightarrow> ('p, provider_error, 'm list) eff"
  pv_shutdown_machine :: "'m \<Rightarrow> ('p, provider_error, unit) eff"
  pv_open_port :: "'m \<Rightarrow> int \<Rightarrow> int \<times> string \<Rightarrow> ('p, provider_error, unit) eff"
  pv_close_port :: "'m \<Rightarrow> int \<Rightarrow> int \<times> string \<Rightarrow> ('p, provider_error, unit) eff"
  pv_get_opened_ports :: "'m \<Rightarrow> int \<Rightarrow> ('p, provider_error, (int \<times> string) list) eff"  \<comment> \<open>a set\<close>

text \<open>
  What a provider promises about ports: \<open>ports p k\<close> are those open for the machines with key \<open>k\<close>, which is the
  machine itself or its id in the environment. A call that raises may have done its work or not.
\<close>

locale port_provider =
  fixes ports :: "'p \<Rightarrow> 'k \<Rightarrow> (int \<times> string) set"
    and key :: "'m \<Rightarrow> int \<Rightarrow> 'k"
    and get_machine :: "yvalue \<Rightarrow> ('p, provider_error, 'm) eff"
    and open_port :: "'m \<Rightarrow> int \<Rightarrow> int \<times> string \<Rightarrow> ('p, provider_error, unit) eff"
    and close_port :: "'m \<Rightarrow> int \<Rightarrow> int \<times> string \<Rightarrow> ('p, provider_error, unit) eff"
    and get_opened_ports :: "'m \<Rightarrow> int \<Rightarrow> ('p, provider_error, (int \<times> string) list) eff"
  assumes machine_found: "get_machine j p = (p', Inr m) \<Longrightarrow> ports p' = ports p"
    and opened: "get_opened_ports m i p = (p', Inr qs) \<Longrightarrow> set qs = ports p (key m i) \<and> ports p' = ports p"
    and port_opened: "open_port m i q p = (p', Inr u) \<Longrightarrow> ports p' = (ports p)(key m i := insert q (ports p (key m i)))"
    and port_closed: "close_port m i q p = (p', Inr u) \<Longrightarrow> ports p' = (ports p)(key m i := ports p (key m i) - {q})"
begin

lemma open_all:
  "efor qs (open_port m i) p = (p', Inr u) \<Longrightarrow> ports p' = (ports p)(key m i := ports p (key m i) \<union> set qs)"
proof (induction qs arbitrary: p)
  case (Cons q qs)
  then obtain p1 where "open_port m i q p = (p1, Inr ())" and "efor qs (open_port m i) p1 = (p', Inr u)"
    by (auto simp: ebind_eq_Inr)
  with Cons.IH port_opened show ?case by (auto simp: fun_eq_iff)
qed simp

lemma close_all:
  "efor qs (close_port m i) p = (p', Inr u) \<Longrightarrow> ports p' = (ports p)(key m i := ports p (key m i) - set qs)"
proof (induction qs arbitrary: p)
  case (Cons q qs)
  then obtain p1 where "close_port m i q p = (p1, Inr ())" and "efor qs (close_port m i) p1 = (p', Inr u)"
    by (auto simp: ebind_eq_Inr)
  with Cons.IH port_closed show ?case by (auto simp: fun_eq_iff)
qed simp

text \<open>Opening what is missing and closing what is too much leaves exactly the ports wanted.\<close>

lemma adjusted:
  assumes "get_opened_ports m i p = (p1, Inr current)"
    and "efor opens (open_port m i) p1 = (p2, Inr u)" and "set opens = wanted - set current"
    and "efor closes (close_port m i) p2 = (p3, Inr v)" and "set closes = set current - wanted"
  shows "ports p3 = (ports p)(key m i := wanted)"
proof -
  have "ports p1 = ports p" "set current = ports p (key m i)" using opened [OF assms(1)] by simp_all
  with open_all [OF assms(2)] close_all [OF assms(4)] assms(3,5) show ?thesis by (auto simp: fun_eq_iff)
qed

end

text \<open>What it promises about machines: \<open>alive p\<close> are the ids of those that run.\<close>

locale machine_provider =
  port_provider ports key get_machine open_port close_port get_opened_ports
  for ports :: "'p \<Rightarrow> 'k \<Rightarrow> (int \<times> string) set" and key :: "'m \<Rightarrow> int \<Rightarrow> 'k" and get_machine and open_port and close_port
    and get_opened_ports +
  fixes alive :: "'p \<Rightarrow> yvalue set"
    and instance_id :: "'m \<Rightarrow> yvalue"
    and get_machines :: "yvalue list \<Rightarrow> ('p, provider_error, 'm list) eff"
    and start_machine :: "int \<Rightarrow> constraints \<Rightarrow> ('p, provider_error, 'm list) eff"
    and shutdown_machine :: "'m \<Rightarrow> ('p, provider_error, unit) eff"
  assumes machines_listed: "get_machines [] p = (p', Inr ms) \<Longrightarrow> instance_id ` set ms = alive p"
    and machines_read: "alive (fst (get_machines js p)) = alive p"
    and started: "start_machine i c p = (p', Inr ms) \<Longrightarrow> ms \<noteq> [] \<and> alive p' = alive p \<union> instance_id ` set ms"
    and not_started: "start_machine i c p = (p', Inl err) \<Longrightarrow> alive p \<subseteq> alive p'"
    and shut_down: "shutdown_machine m p = (p', r) \<Longrightarrow> alive p - {instance_id m} \<subseteq> alive p'"
    and ports_alone: "alive (fst (get_machine j p)) = alive p" "alive (fst (open_port m i q p)) = alive p"
      "alive (fst (close_port m i q p)) = alive p" "alive (fst (get_opened_ports m i p)) = alive p"

section \<open>The dummy provider\<close>

text \<open>
  Machines are objects with a set of ports of their own: a heap of all that were made, and those that run. A machine
  is known by its address and its id, which does not change. The id is the number of machines that run when it is
  given out.
\<close>

record dummy_machine =
  dm_instance :: nat
  dm_dns_name :: "string option"
  dm_ports :: "(int \<times> string) list"

type_synonym dummy_ref = "nat \<times> nat"

record dummy_provider =
  dp_heap :: "dummy_machine list"
  dp_machines :: "dummy_ref list"
  dp_state :: "(string, yvalue) dict option"

definition new_dummy_provider :: dummy_provider where
  "new_dummy_provider = \<lparr>dp_heap = [], dp_machines = [], dp_state = None\<rparr>"

definition dummy_instance :: "dummy_ref \<Rightarrow> yvalue" where
  "dummy_instance m = YInt (int (snd m))"

text \<open>Whether it is a machine of the provider.\<close>

definition is_dummy_machine :: "dummy_provider \<Rightarrow> dummy_ref \<Rightarrow> bool" where
  "is_dummy_machine p m \<longleftrightarrow> fst m < length (dp_heap p) \<and> dm_instance (dp_heap p ! fst m) = snd m"

text \<open>\<open>dict(...)\<close> of the machines by id: the last one of an id stays.\<close>

definition dummy_get_machines :: "yvalue list \<Rightarrow> (dummy_provider, provider_error, dummy_ref list) eff" where
  "dummy_get_machines instance_ids p =
     (if instance_ids = [] then (p, Inr (dp_machines p))
      else let machines_by_id = fold (\<lambda>m. dset (dummy_instance m) m) (dp_machines p) [];
               missing = filter (\<lambda>i. \<not> dhas machines_by_id i) instance_ids
           in if missing \<noteq> [] then (p, Inl (MachinesNotFound missing))
              else (p, Inr (List.map_filter (dget machines_by_id) instance_ids)))"

definition dummy_get_machine :: "yvalue \<Rightarrow> (dummy_provider, provider_error, dummy_ref) eff" where
  "dummy_get_machine instance_id p =
     (p, case List.find (\<lambda>m. dummy_instance m = instance_id) (dp_machines p) of
           None \<Rightarrow> Inl (MachinesNotFound [instance_id])
         | Some m \<Rightarrow> Inr m)"

definition dummy_start_machine :: "string option \<Rightarrow> (dummy_provider, provider_error, dummy_ref list) eff" where
  "dummy_start_machine dns_name p =
     (let m = (length (dp_heap p), length (dp_machines p)) in
      (p\<lparr>dp_heap := dp_heap p @ [\<lparr>dm_instance = snd m, dm_dns_name = dns_name, dm_ports = []\<rparr>],
         dp_machines := dp_machines p @ [m]\<rparr>, Inr [m]))"

definition dummy_bootstrap :: "(dummy_provider, provider_error, dummy_ref list) eff" where
  "dummy_bootstrap p =
     (if dp_machines p \<noteq> [] then (p, Inr (take 1 (dp_machines p))) else dummy_start_machine None p)"

text \<open>The first machine with the id of the given one is removed.\<close>

definition dummy_shutdown_machine :: "dummy_ref \<Rightarrow> (dummy_provider, provider_error, unit) eff" where
  "dummy_shutdown_machine m p =
     (case List.find (\<lambda>m'. snd m' = snd m) (dp_machines p) of
        None \<Rightarrow> (p, Inl (ProviderError ''Machine not found''))
      | Some m' \<Rightarrow> (p\<lparr>dp_machines := remove1 m' (dp_machines p)\<rparr>, Inr ()))"

definition dummy_shutdown_machines :: "dummy_ref list \<Rightarrow> (dummy_provider, provider_error, dummy_ref list) eff" where
  "dummy_shutdown_machines machines =
     ebind (dummy_get_machines (map dummy_instance machines)) (\<lambda>machines p.
     (p\<lparr>dp_machines := fold remove1 machines (dp_machines p)\<rparr>, Inr machines))"

definition dummy_save_state :: "(string, yvalue) dict \<Rightarrow> (dummy_provider, provider_error, unit) eff" where
  "dummy_save_state state p = (p\<lparr>dp_state := Some state\<rparr>, Inr ())"

definition dummy_load_state :: "dummy_provider \<Rightarrow> (string, yvalue) dict" where
  "dummy_load_state p = (case dp_state p of None \<Rightarrow> [] | Some d \<Rightarrow> d)"

definition dummy_destroy_environment :: "(dummy_provider, provider_error, dummy_ref list) eff" where
  "dummy_destroy_environment =
     ebind (dummy_save_state []) (\<lambda>_. ebind (dummy_get_machines []) dummy_shutdown_machines)"

text \<open>Operations on the ports of a machine; what is no machine of this provider is refused.\<close>

definition dummy_change_ports ::
  "((int \<times> string) list \<Rightarrow> (int \<times> string) list) \<Rightarrow> dummy_ref \<Rightarrow> (dummy_provider, provider_error, unit) eff" where
  "dummy_change_ports f m p =
     (if is_dummy_machine p m
      then (p\<lparr>dp_heap := (dp_heap p)[fst m := (dp_heap p ! fst m)\<lparr>dm_ports := f (dm_ports (dp_heap p ! fst m))\<rparr>]\<rparr>, Inr ())
      else (p, Inl (ProviderError ''Invalid machine for provider'')))"

definition dummy_open_port :: "dummy_ref \<Rightarrow> int \<Rightarrow> int \<times> string \<Rightarrow> (dummy_provider, provider_error, unit) eff" where
  "dummy_open_port m machine_id q = dummy_change_ports (List.insert q) m"

definition dummy_close_port :: "dummy_ref \<Rightarrow> int \<Rightarrow> int \<times> string \<Rightarrow> (dummy_provider, provider_error, unit) eff" where
  "dummy_close_port m machine_id q = dummy_change_ports (removeAll q) m"

definition dummy_get_opened_ports :: "dummy_ref \<Rightarrow> int \<Rightarrow> (dummy_provider, provider_error, (int \<times> string) list) eff" where
  "dummy_get_opened_ports m machine_id p =
     (p, if is_dummy_machine p m then Inr (dm_ports (dp_heap p ! fst m))
         else Inl (ProviderError ''Invalid machine for provider''))"

definition dummy_get_zookeeper_machines :: "(dummy_provider, provider_error, dummy_ref list) eff" where
  "dummy_get_zookeeper_machines p =
     (p, if dp_machines p \<noteq> [] then Inr (take 1 (dp_machines p)) else Inl (EnvironmentNotFound ''not bootstrapped''))"

definition dummy :: "(dummy_provider, dummy_ref) provider" where
  "dummy = \<lparr>
     pv_instance_id = dummy_instance,
     pv_get_machines = dummy_get_machines,
     pv_get_machine = dummy_get_machine,
     pv_start_machine = (\<lambda>_ _. dummy_start_machine None),
     pv_shutdown_machine = dummy_shutdown_machine,
     pv_open_port = dummy_open_port,
     pv_close_port = dummy_close_port,
     pv_get_opened_ports = dummy_get_opened_ports\<rparr>"

text \<open>It keeps what is promised of a provider.\<close>

definition dummy_ports :: "dummy_provider \<Rightarrow> dummy_ref \<Rightarrow> (int \<times> string) set" where
  "dummy_ports p m = (if is_dummy_machine p m then set (dm_ports (dp_heap p ! fst m)) else {})"

definition dummy_alive :: "dummy_provider \<Rightarrow> yvalue set" where
  "dummy_alive p = dummy_instance ` set (dp_machines p)"

lemma changed_ports:
  assumes "dummy_change_ports f m p = (p', Inr u)"
  shows "dummy_ports p' = (dummy_ports p)(m := set (f (dm_ports (dp_heap p ! fst m)))) \<and> is_dummy_machine p m"
proof -
  have ok: "is_dummy_machine p m"
    and p': "dp_heap p' = (dp_heap p)[fst m := (dp_heap p ! fst m)\<lparr>dm_ports := f (dm_ports (dp_heap p ! fst m))\<rparr>]"
    using assms by (auto simp: dummy_change_ports_def split: if_splits)
  have same: "is_dummy_machine p' m' = is_dummy_machine p m'" for m'
    by (cases "fst m' = fst m") (auto simp: is_dummy_machine_def p')
  have "dummy_ports p' m' = (if m' = m then set (f (dm_ports (dp_heap p ! fst m))) else dummy_ports p m')" for m'
  proof (cases "fst m' = fst m")
    case True
    then show ?thesis
      using ok by (cases m; cases m') (auto simp: dummy_ports_def same p' is_dummy_machine_def)
  next
    case False
    then show ?thesis by (auto simp: dummy_ports_def same p')
  qed
  then show ?thesis using ok by (simp add: fun_eq_iff)
qed

lemma change_alive: "dummy_alive (fst (dummy_change_ports f m p)) = dummy_alive p"
  by (simp add: dummy_change_ports_def dummy_alive_def)

lemma removed_alive:
  assumes "dummy_shutdown_machine m p = (p', r)"
  shows "dummy_alive p - {dummy_instance m} \<subseteq> dummy_alive p'"
proof (cases "List.find (\<lambda>m'. snd m' = snd m) (dp_machines p)")
  case (Some m')
  then have "dp_machines p' = remove1 m' (dp_machines p)" "snd m' = snd m"
    using assms find_SomeD [OF Some] by (auto simp: dummy_shutdown_machine_def)
  then have "m2 \<in> set (dp_machines p')" if "m2 \<in> set (dp_machines p)" "snd m2 \<noteq> snd m" for m2
    using that in_set_remove1 [of m2 m' "dp_machines p"] by (cases "m2 = m'") simp_all
  then show ?thesis by (force simp: dummy_alive_def dummy_instance_def)
qed (use assms in \<open>simp add: dummy_shutdown_machine_def\<close>)

interpretation dummy: machine_provider dummy_ports "\<lambda>m _. m" dummy_get_machine dummy_open_port dummy_close_port
    dummy_get_opened_ports dummy_alive dummy_instance dummy_get_machines "\<lambda>_ _. dummy_start_machine None" dummy_shutdown_machine
proof unfold_locales
  fix m and i :: int and q p p' u
  show "dummy_open_port m i q p = (p', Inr u) \<Longrightarrow> dummy_ports p' = (dummy_ports p)(m := insert q (dummy_ports p m))"
    using changed_ports [of "List.insert q" m p p' u] by (simp add: dummy_open_port_def) (simp add: dummy_ports_def)
  show "dummy_close_port m i q p = (p', Inr u) \<Longrightarrow> dummy_ports p' = (dummy_ports p)(m := dummy_ports p m - {q})"
    using changed_ports [of "removeAll q" m p p' u] by (simp add: dummy_close_port_def) (simp add: dummy_ports_def)
qed (auto simp: dummy_get_machine_def dummy_get_opened_ports_def dummy_ports_def dummy_get_machines_def dummy_alive_def
    dummy_start_machine_def Let_def removed_alive [unfolded dummy_alive_def] dummy_open_port_def dummy_close_port_def
    change_alive [unfolded dummy_alive_def] split: if_splits)

text \<open>An id is given out again while a machine with it still runs.\<close>

lemma dummy_reuses_ids:
  assumes "dummy_start_machine None new_dummy_provider = (p1, Inr [m1])" and "dummy_start_machine None p1 = (p2, Inr [m2])"
    and "dummy_shutdown_machine m1 p2 = (p3, Inr u)" and "dummy_start_machine None p3 = (p4, Inr [m3])"
  shows "dummy_instance m3 = dummy_instance m2 \<and> m3 \<noteq> m2 \<and> {m2, m3} \<subseteq> set (dp_machines p4)"
  using assms by (auto simp: dummy_start_machine_def new_dummy_provider_def dummy_shutdown_machine_def Let_def dummy_instance_def)

end
