(* ===== verification/Firewall.thy ===== *)
theory Firewall
  imports MachineState Provider
begin

text \<open>
  \<open>juju/state/firewall.py\<close>: the manager that opens and closes the ports of machines as services are exposed and
  their units open and close ports. ZooKeeper answers within the event that asks, so a callback runs as a whole.
\<close>

section \<open>State\<close>

text \<open>The watches that run, each with what its callback captures.\<close>

datatype fw_watch =
    AssignedUnitsWatch string  \<comment> \<open>of a machine, by its internal id\<close>
  | ExposedWatch service_state
  | UnitsWatch service_state
  | PortsWatch service_state string service_unit

text \<open>
  An observer is known by a number and what it is called with is written down. The services watched are mapped to
  \<open>NotExposed\<close> (\<open>None\<close>) or the names of the units watched.
\<close>

record ('z, 'p) fw_state =
  fw_zk :: 'z
  fw_provider :: 'p
  fw_running :: bool
  fw_watched_machines :: "int set"
  fw_watched_services :: "(string, string set option) dict"
  fw_retry :: "int set"
  fw_watches :: "fw_watch list"
  fw_unit_observers :: "nat list"
  fw_machine_observers :: "nat list"
  fw_observed :: "(nat \<times> (service_unit + int)) list"

datatype fw_error =
    FwStopWatcher
  | FwState state_error
  | FwProvider provider_error
  | FwHangs  \<comment> \<open>a chain of containers that has no end\<close>

record ('z, 'c, 'p, 'm) fw_env =
  fe_machines :: "('z, 'c) machine_env"
  fe_provider :: "('p, 'm) provider"

abbreviation fw_states :: "('z, 'c, 'p, 'm) fw_env \<Rightarrow> ('z, 'c) state_env" where
  "fw_states F \<equiv> me_state (fe_machines F)"

type_synonym ('z, 'p, 'a) fw_eff = "(('z, 'p) fw_state, fw_error, 'a) eff"

definition new_firewall :: "'z \<Rightarrow> 'p \<Rightarrow> ('z, 'p) fw_state" where
  "new_firewall z p =
     \<lparr>fw_zk = z, fw_provider = p, fw_running = True, fw_watched_machines = {}, fw_watched_services = [], fw_retry = {},
      fw_watches = [], fw_unit_observers = [], fw_machine_observers = [], fw_observed = []\<rparr>"

definition on_state :: "('z \<Rightarrow> state_error + 'a) \<Rightarrow> ('z, 'p, 'a) fw_eff" where
  "on_state g s = (s, raise_as FwState (g (fw_zk s)))"

definition on_provider :: "('p, provider_error, 'a) eff \<Rightarrow> ('z, 'p, 'a) fw_eff" where
  "on_provider op s = (case op (fw_provider s) of (p, r) \<Rightarrow> (s\<lparr>fw_provider := p\<rparr>, raise_as FwProvider r))"

definition fw_update :: "(('z, 'p) fw_state \<Rightarrow> ('z, 'p) fw_state) \<Rightarrow> ('z, 'p, unit) fw_eff" where
  "fw_update f s = (f s, Inr ())"

text \<open>\<open>if not self.is_running(): raise StopWatcher()\<close>\<close>

definition check_running :: "('z, 'p, unit) fw_eff" where
  "check_running s = (s, if fw_running s then Inr () else Inl FwStopWatcher)"

text \<open>\<open>try: op finally: ...\<close>\<close>

definition finally_do :: "('z, 'p, 'a) fw_eff \<Rightarrow> (('z, 'p) fw_state \<Rightarrow> ('z, 'p) fw_state) \<Rightarrow> ('z, 'p, 'a) fw_eff" where
  "finally_do op f s = (case op s of (s', r) \<Rightarrow> (f s', r))"

definition add_open_close_ports_observer :: "nat \<Rightarrow> ('z, 'p) fw_state \<Rightarrow> ('z, 'p) fw_state" where
  "add_open_close_ports_observer n s = s\<lparr>fw_unit_observers := List.insert n (fw_unit_observers s)\<rparr>"

definition add_open_close_ports_on_machine_observer :: "nat \<Rightarrow> ('z, 'p) fw_state \<Rightarrow> ('z, 'p) fw_state" where
  "add_open_close_ports_on_machine_observer n s = s\<lparr>fw_machine_observers := List.insert n (fw_machine_observers s)\<rparr>"

definition observe_unit :: "service_unit \<Rightarrow> ('z, 'p) fw_state \<Rightarrow> ('z, 'p) fw_state" where
  "observe_unit u s = s\<lparr>fw_observed := fw_observed s @ map (\<lambda>n. (n, Inl u)) (fw_unit_observers s)\<rparr>"

definition observe_machine :: "int \<Rightarrow> ('z, 'p) fw_state \<Rightarrow> ('z, 'p) fw_state" where
  "observe_machine machine_id s = s\<lparr>fw_observed := fw_observed s @ map (\<lambda>n. (n, Inr machine_id)) (fw_machine_observers s)\<rparr>"

section \<open>Opening and closing ports\<close>

definition listed_port :: "yvalue \<Rightarrow> state_error + int \<times> string" where
  "listed_port v = (case v of
     YMap d \<Rightarrow> (case (dget d ''port'', dget d ''proto'') of
         (Some (YInt port), Some (YText proto)) \<Rightarrow> Inr (port, proto)
       | _ \<Rightarrow> Inl (BadContent ''port''))
   | _ \<Rightarrow> Inl (BadContent ''port''))"

definition listed_ports :: "yvalue \<Rightarrow> state_error + (int \<times> string) list" where
  "listed_ports v = (case v of
     YList ps \<Rightarrow> rmap listed_port ps
   | _ \<Rightarrow> if v = YText [] \<or> v = YMap [] then Inr [] else Inl (BadContent ''open''))"

definition exposed_ports :: "('z, 'c, 'p, 'm) fw_env \<Rightarrow> 'z \<Rightarrow> service_unit \<Rightarrow> state_error + (int \<times> string) list" where
  "exposed_ports F z u =
     rbind (get_service_state (fw_states F) (su_service_name u) z) (\<lambda>s.
     if get_exposed_flag (fw_states F) s z
     then rbind (get_open_ports (fw_states F) u z) listed_ports else Inr [])"

definition policy_ports :: "('z, 'c, 'p, 'm) fw_env \<Rightarrow> string \<Rightarrow> 'z \<Rightarrow> state_error + (int \<times> string) list" where
  "policy_ports F machine z =
     rbind (machine_unit_states (fe_machines F) machine z) (\<lambda>us.
     rbind (rmap (exposed_ports F z) us) (\<lambda>pss. Inr (remdups (concat pss))))"

definition adjust_ports :: "('p, 'm) provider \<Rightarrow> 'm \<Rightarrow> int \<Rightarrow> (int \<times> string) list \<Rightarrow> ('p, provider_error, unit) eff" where
  "adjust_ports P machine machine_id policy =
     ebind (pv_get_opened_ports P machine machine_id) (\<lambda>current.
     ebind (efor (filter (\<lambda>q. q \<notin> set current) policy) (pv_open_port P machine machine_id)) (\<lambda>_.
     efor (filter (\<lambda>q. q \<notin> set policy) current) (pv_close_port P machine machine_id)))"

text \<open>The body of the \<open>try\<close>.\<close>

definition set_machine_ports :: "('z, 'c, 'p, 'm) fw_env \<Rightarrow> int \<Rightarrow> ('z, 'p, unit) fw_eff" where
  "set_machine_ports F machine_id =
     ebind (on_state (get_machine_state (fe_machines F) (Inr machine_id))) (\<lambda>machine_state.
     ebind (on_state (get_instance_id (fe_machines F) machine_state)) (\<lambda>instance_id.
     ebind (on_provider (pv_get_machine (fe_provider F) (case instance_id of None \<Rightarrow> YNone | Some v \<Rightarrow> v))) (\<lambda>machine.
     ebind (on_state (policy_ports F machine_state)) (\<lambda>policy.
     on_provider (adjust_ports (fe_provider F) machine machine_id policy)))))"

definition port_error :: "int \<Rightarrow> fw_error \<Rightarrow> ('z, 'p, unit) fw_eff option" where
  "port_error machine_id err =
     (case err of
        FwProvider (MachinesNotFound _) \<Rightarrow> Some (eret ())
      | _ \<Rightarrow> Some (fw_update (\<lambda>s. s\<lparr>fw_retry := insert machine_id (fw_retry s)\<rparr>)))"

definition open_close_ports_on_machine :: "('z, 'c, 'p, 'm) fw_env \<Rightarrow> int \<Rightarrow> ('z, 'p, unit) fw_eff" where
  "open_close_ports_on_machine F machine_id =
     ebind check_running (\<lambda>_.
     finally_do (ecatch (set_machine_ports F machine_id) (port_error machine_id)) (observe_machine machine_id))"

definition assigned_machine :: "('z, 'c, 'p, 'm) fw_env \<Rightarrow> service_unit \<Rightarrow> ('z, 'p, int option) fw_eff" where
  "assigned_machine F u s =
     (s, case get_assigned_machine_id (fw_states F) (fw_zk s) u of
           None \<Rightarrow> Inl FwHangs
         | Some (Inl err) \<Rightarrow> Inl (if err = state_changed then FwStopWatcher else FwState err)
         | Some (Inr machine_id) \<Rightarrow> Inr machine_id)"

definition open_close_ports :: "('z, 'c, 'p, 'm) fw_env \<Rightarrow> service_unit \<Rightarrow> ('z, 'p, unit) fw_eff" where
  "open_close_ports F u =
     ebind check_running (\<lambda>_.
     finally_do
       (ebind (assigned_machine F u) (\<lambda>machine_id.
        case machine_id of None \<Rightarrow> eret () | Some n \<Rightarrow> open_close_ports_on_machine F n))
       (observe_unit u))"

section \<open>Watches\<close>

text \<open>A watch calls back at once, runs on when the callback returns and ends when it raises \<open>StopWatcher\<close>.\<close>

definition watching :: "fw_watch \<Rightarrow> ('z, 'p, unit) fw_eff \<Rightarrow> ('z, 'p, unit) fw_eff" where
  "watching w callback =
     ecatch (ebind callback (\<lambda>_. fw_update (\<lambda>s. s\<lparr>fw_watches := fw_watches s @ [w]\<rparr>)))
       (\<lambda>err. if err = FwStopWatcher then Some (eret ()) else None)"

definition watched_units :: "('z, 'p) fw_state \<Rightarrow> string \<Rightarrow> string set option" where
  "watched_units s service_name = (case dget (fw_watched_services s) service_name of None \<Rightarrow> None | Some v \<Rightarrow> v)"

definition cb_watch_ports ::
  "('z, 'c, 'p, 'm) fw_env \<Rightarrow> service_state \<Rightarrow> string \<Rightarrow> service_unit \<Rightarrow> ('z, 'p, unit) fw_eff" where
  "cb_watch_ports F service uname u s =
     (if \<not> fw_running s \<or> (case watched_units s (ss_name service) of None \<Rightarrow> True | Some us \<Rightarrow> uname \<notin> us)
      then (s, Inl FwStopWatcher) else open_close_ports F u s)"

text \<open>\<open>get_unit_state\<close> where a unit that is not there, or a service, ends what is done with it; \<open>None\<close> is that.\<close>

definition find_unit :: "('z, 'c, 'p, 'm) fw_env \<Rightarrow> service_state \<Rightarrow> string \<Rightarrow> ('z, 'p, service_unit option) fw_eff" where
  "find_unit F service uname = on_state (\<lambda>z.
     case service_unit_state (fw_states F) service uname z of
       Inr u \<Rightarrow> Inr (Some u)
     | Inl (ServiceUnitStateNotFound _) \<Rightarrow> Inr None
     | Inl err \<Rightarrow> if err = state_changed then Inr None else Inl err)"

definition setup_watch_ports :: "('z, 'c, 'p, 'm) fw_env \<Rightarrow> service_state \<Rightarrow> string \<Rightarrow> ('z, 'p, unit) fw_eff" where
  "setup_watch_ports F service uname =
     ebind (find_unit F service uname) (\<lambda>u.
     case u of
       None \<Rightarrow> eret ()
     | Some u \<Rightarrow> watching (PortsWatch service uname u) (cb_watch_ports F service uname u))"

definition set_watched :: "string \<Rightarrow> string set option \<Rightarrow> ('z, 'p) fw_state \<Rightarrow> ('z, 'p) fw_state" where
  "set_watched service_name us s = s\<lparr>fw_watched_services := dset service_name us (fw_watched_services s)\<rparr>"

text \<open>\<open>watched_units\<close> is the set in the dict, changed in place.\<close>

definition on_watched :: "string \<Rightarrow> (string set \<Rightarrow> string set) \<Rightarrow> ('z, 'p) fw_state \<Rightarrow> ('z, 'p) fw_state" where
  "on_watched service_name f s =
     (case watched_units s service_name of None \<Rightarrow> s | Some us \<Rightarrow> set_watched service_name (Some (f us)) s)"

definition removed_unit :: "('z, 'c, 'p, 'm) fw_env \<Rightarrow> service_state \<Rightarrow> string \<Rightarrow> ('z, 'p, unit) fw_eff" where
  "removed_unit F service uname =
     ebind (fw_update (on_watched (ss_name service) (\<lambda>us. us - {uname}))) (\<lambda>_.
     ebind check_running (\<lambda>_.
     ebind (find_unit F service uname) (\<lambda>u.
     case u of None \<Rightarrow> eret () | Some u \<Rightarrow> open_close_ports F u)))"

definition added_unit :: "('z, 'c, 'p, 'm) fw_env \<Rightarrow> service_state \<Rightarrow> string \<Rightarrow> ('z, 'p, unit) fw_eff" where
  "added_unit F service uname s =
     (if (case watched_units s (ss_name service) of None \<Rightarrow> True | Some us \<Rightarrow> uname \<in> us) then (s, Inr ())
      else setup_watch_ports F service uname (on_watched (ss_name service) (insert uname) s))"

text \<open>The sets the callback gets are lists without repetitions here, in an order of any kind.\<close>

definition cb_check_service_units ::
  "('z, 'c, 'p, 'm) fw_env \<Rightarrow> service_state \<Rightarrow> string list \<Rightarrow> string list \<Rightarrow> ('z, 'p, unit) fw_eff" where
  "cb_check_service_units F service old_service_units new_service_units s =
     (if \<not> fw_running s \<or> watched_units s (ss_name service) = None then (s, Inl FwStopWatcher)
      else ebind (efor (filter (\<lambda>n. n \<notin> set new_service_units) old_service_units) (removed_unit F service)) (\<lambda>_.
           efor new_service_units (added_unit F service)) s)"

definition service_unit_names_now :: "('z, 'c, 'p, 'm) fw_env \<Rightarrow> service_state \<Rightarrow> 'z \<Rightarrow> state_error + string list" where
  "service_unit_names_now F service z =
     rbind (topo_of (fw_states F) z) (\<lambda>topology.
     if \<not> has_service topology (ss_id service) then Inr []
     else rbind (raise_as InTopology (get_service_units topology (ss_id service))) (\<lambda>ids.
       rmap (\<lambda>uid. raise_as InTopology (get_service_unit_name topology (ss_id service) uid)) ids))"

text \<open>\<open>watch_service_unit_states\<close> calls back when there are units.\<close>

definition setup_service_unit_watch :: "('z, 'c, 'p, 'm) fw_env \<Rightarrow> service_state \<Rightarrow> ('z, 'p, unit) fw_eff" where
  "setup_service_unit_watch F service =
     ebind (on_state (service_unit_names_now F service)) (\<lambda>new_service_units.
     watching (UnitsWatch service)
       (if new_service_units = [] then eret () else cb_check_service_units F service [] new_service_units))"

definition all_units :: "('z, 'c, 'p, 'm) fw_env \<Rightarrow> service_state \<Rightarrow> ('z, 'p, service_unit list) fw_eff" where
  "all_units F service s =
     (s, case get_all_unit_states (fw_states F) service (fw_zk s) of
           Inl err \<Rightarrow> Inl (if err = state_changed then FwStopWatcher else FwState err)
         | Inr us \<Rightarrow> Inr (List.map_filter (\<lambda>(uid, sequence). map_option (\<lambda>uid.
             \<lparr>su_service = ss_id service, su_service_name = ss_name service, su_sequence = sequence, su_id = uid\<rparr>) uid) us))"

definition cb_watch_service_exposed_flag ::
  "('z, 'c, 'p, 'm) fw_env \<Rightarrow> service_state \<Rightarrow> bool \<Rightarrow> ('z, 'p, unit) fw_eff" where
  "cb_watch_service_exposed_flag F service exposed =
     ebind check_running (\<lambda>_.
     ebind (all_units F service) (\<lambda>us.
     ebind (efor us (open_close_ports F)) (\<lambda>_.
     if \<not> exposed then fw_update (set_watched (ss_name service) None)
     else ebind (fw_update (set_watched (ss_name service) (Some {}))) (\<lambda>_. setup_service_unit_watch F service))))"

definition setup_new_service_watch :: "('z, 'c, 'p, 'm) fw_env \<Rightarrow> string \<Rightarrow> ('z, 'p, unit) fw_eff" where
  "setup_new_service_watch F service_name s =
     (if dhas (fw_watched_services s) service_name then (s, Inr ())
      else let s1 = set_watched service_name None s in
        case get_service_state (fw_states F) service_name (fw_zk s1) of
          Inl err \<Rightarrow>
            if err = ServiceStateNotFound service_name
            then (s1\<lparr>fw_watched_services := ddel service_name (fw_watched_services s1)\<rparr>, Inr ())
            else (s1, Inl (FwState err))
        | Inr service \<Rightarrow>
            watching (ExposedWatch service)
              (cb_watch_service_exposed_flag F service (get_exposed_flag (fw_states F) service (fw_zk s1))) s1)"

definition watch_service_changes ::
  "('z, 'c, 'p, 'm) fw_env \<Rightarrow> string list \<Rightarrow> string list \<Rightarrow> ('z, 'p, unit) fw_eff" where
  "watch_service_changes F old_services new_services =
     ebind (fw_update (\<lambda>s. s\<lparr>fw_watched_services :=
         fold ddel (filter (\<lambda>n. n \<notin> set new_services) old_services) (fw_watched_services s)\<rparr>)) (\<lambda>_.
     efor new_services (setup_new_service_watch F))"

text \<open>Machines are given by their internal ids; \<open>machine_state.id\<close> is the number in them.\<close>

definition fw_retry_machine :: "('z, 'c, 'p, 'm) fw_env \<Rightarrow> int \<Rightarrow> ('z, 'p, unit) fw_eff" where
  "fw_retry_machine F machine_id s =
     (if machine_id \<notin> fw_retry s then (s, Inr ())
      else ecatch (open_close_ports_on_machine F machine_id)
             (\<lambda>err. if err = FwStopWatcher then Some (eret ()) else None) (s\<lparr>fw_retry := fw_retry s - {machine_id}\<rparr>))"

text \<open>The watch of assigned units calls back at once when there are some.\<close>

definition watch_machine_units :: "('z, 'c, 'p, 'm) fw_env \<Rightarrow> string \<Rightarrow> int \<Rightarrow> ('z, 'p, unit) fw_eff" where
  "watch_machine_units F machine machine_id =
     ebind (on_state (\<lambda>z. rbind (topo_of (fw_states F) z) (\<lambda>topology. raise_as InTopology (machine_unit_names machine topology))))
       (\<lambda>new_units. watching (AssignedUnitsWatch machine)
         (if new_units = {} then eret () else open_close_ports_on_machine F machine_id))"

definition fw_process_machine :: "('z, 'c, 'p, 'm) fw_env \<Rightarrow> string \<Rightarrow> ('z, 'p, unit) fw_eff" where
  "fw_process_machine F machine =
     ebind (on_state (\<lambda>_. public_machine_id machine)) (\<lambda>machine_id.
     ebind (fw_retry_machine F machine_id) (\<lambda>_ s.
     if machine_id \<in> fw_watched_machines s then (s, Inr ())
     else watch_machine_units F machine machine_id (s\<lparr>fw_watched_machines := insert machine_id (fw_watched_machines s)\<rparr>)))"

section \<open>Events\<close>

text \<open>A watch that runs fires: it sets itself again while its callback returns.\<close>

datatype fw_event =
    AssignedUnitsChanged string
  | ExposedChanged service_state
  | UnitsChanged service_state "string list" "string list"
  | PortsChanged service_state string service_unit

fun event_watch :: "fw_event \<Rightarrow> fw_watch" where
  "event_watch (AssignedUnitsChanged machine) = AssignedUnitsWatch machine"
| "event_watch (ExposedChanged service) = ExposedWatch service"
| "event_watch (UnitsChanged service _ _) = UnitsWatch service"
| "event_watch (PortsChanged service uname u) = PortsWatch service uname u"

fun event_callback :: "('z, 'c, 'p, 'm) fw_env \<Rightarrow> fw_event \<Rightarrow> ('z, 'p, unit) fw_eff" where
  "event_callback F (AssignedUnitsChanged machine) =
     ebind (on_state (\<lambda>_. public_machine_id machine)) (open_close_ports_on_machine F)"
| "event_callback F (ExposedChanged service) =
     ebind (on_state (\<lambda>z. Inr (get_exposed_flag (fw_states F) service z))) (cb_watch_service_exposed_flag F service)"
| "event_callback F (UnitsChanged service old new) = cb_check_service_units F service old new"
| "event_callback F (PortsChanged service uname u) = cb_watch_ports F service uname u"

definition fire :: "('z, 'c, 'p, 'm) fw_env \<Rightarrow> fw_event \<Rightarrow> ('z, 'p, unit) fw_eff" where
  "fire F event s =
     (if event_watch event \<notin> set (fw_watches s) then (s, Inr ())
      else watching (event_watch event) (event_callback F event)
             (s\<lparr>fw_watches := remove1 (event_watch event) (fw_watches s)\<rparr>))"

end
