(* ===== verification/FirewallProps.thy ===== *)
theory FirewallProps
  imports Firewall MachineProps
begin

text \<open>What the firewall manager leaves open on a machine.\<close>

section \<open>Adjusting the ports of a machine\<close>

abbreviation ports_provider ::
  "('p \<Rightarrow> 'k \<Rightarrow> (int \<times> string) set) \<Rightarrow> ('m \<Rightarrow> int \<Rightarrow> 'k) \<Rightarrow> ('p, 'm) provider \<Rightarrow> bool" where
  "ports_provider ports key P \<equiv>
     port_provider ports key (pv_get_machine P) (pv_open_port P) (pv_close_port P) (pv_get_opened_ports P)"

lemma adjust_ports_result:
  assumes "ports_provider ports key P" and "adjust_ports P machine i policy p = (p', Inr u)"
  shows "ports p' = (ports p)(key machine i := set policy)"
proof -
  obtain current p1 p2 where steps: "pv_get_opened_ports P machine i p = (p1, Inr current)"
      "efor (filter (\<lambda>q. q \<notin> set current) policy) (pv_open_port P machine i) p1 = (p2, Inr ())"
      "efor (filter (\<lambda>q. q \<notin> set policy) current) (pv_close_port P machine i) p2 = (p', Inr u)"
    using assms(2) by (auto simp: adjust_ports_def ebind_eq_Inr)
  show ?thesis
    by (rule port_provider.adjusted [OF assms(1) steps(1,2) _ steps(3)]) auto
qed

lemma on_provider_Inr:
  "on_provider op s = (s', Inr x) \<longleftrightarrow> (\<exists>p. op (fw_provider s) = (p, Inr x) \<and> s' = s\<lparr>fw_provider := p\<rparr>)"
  by (auto simp: on_provider_def raise_as_def split: prod.splits sum.splits)

lemma on_state_Inr: "on_state g s = (s', Inr x) \<longleftrightarrow> s' = s \<and> g (fw_zk s) = Inr x"
  by (auto simp: on_state_def raise_as_def split: sum.splits)

lemma set_machine_ports_result:
  assumes "ports_provider ports key (fe_provider F)" and "set_machine_ports F n s = (s', Inr u)"
  shows "\<exists>machine_state machine policy. get_machine_state (fe_machines F) (Inr n) (fw_zk s) = Inr machine_state
    \<and> policy_ports F machine_state (fw_zk s) = Inr policy
    \<and> ports (fw_provider s') = (ports (fw_provider s))(key machine n := set policy)"
proof -
  obtain machine_state instance_id machine policy p1 p2 where
    steps: "get_machine_state (fe_machines F) (Inr n) (fw_zk s) = Inr machine_state"
      "pv_get_machine (fe_provider F) (case instance_id of None \<Rightarrow> YNone | Some v \<Rightarrow> v) (fw_provider s) = (p1, Inr machine)"
      "policy_ports F machine_state (fw_zk s) = Inr policy"
      "adjust_ports (fe_provider F) machine n policy p1 = (p2, Inr u)" "fw_provider s' = p2"
    using assms(2) by (auto simp: set_machine_ports_def ebind_eq_Inr on_provider_Inr on_state_Inr)
  have "ports p1 = ports (fw_provider s)" using port_provider.machine_found [OF assms(1) steps(2)] .
  with adjust_ports_result [OF assms(1) steps(4)] steps(1,3,5) show ?thesis by auto
qed

text \<open>The try body changes the provider only, so what the manager knows is as it was.\<close>

definition same_manager :: "('z, 'p) fw_state \<Rightarrow> ('z, 'p) fw_state \<Rightarrow> bool" where
  "same_manager s s' \<longleftrightarrow> (\<exists>p. s' = s\<lparr>fw_provider := p\<rparr>)"

interpretation manager: eff_relation same_manager
proof
  show "same_manager s s" for s :: "('z, 'p) fw_state"
    unfolding same_manager_def by (rule exI [of _ "fw_provider s"]) simp
qed (auto simp: same_manager_def)

lemma on_state_keeps: "manager.keeps (on_state g)"
  by (simp add: manager.keeps_def on_state_def manager.R_refl)

lemma on_provider_keeps: "manager.keeps (on_provider op)"
  by (auto simp: manager.keeps_def on_provider_def same_manager_def split: prod.split)

lemma set_machine_ports_keeps: "manager.keeps (set_machine_ports F n)"
  unfolding set_machine_ports_def by (intro manager.keeps_bind on_state_keeps on_provider_keeps)

text \<open>What a run for a machine comes to.\<close>

lemma machine_run_cases:
  assumes "fw_running s" and "set_machine_ports F n s = (s1, r1)"
  shows "open_close_ports_on_machine F n s =
    (observe_machine n (case r1 of Inl (FwProvider (MachinesNotFound ids)) \<Rightarrow> s1
       | Inl _ \<Rightarrow> s1\<lparr>fw_retry := insert n (fw_retry s1)\<rparr> | Inr _ \<Rightarrow> s1), Inr ())"
  using assms
  by (auto simp: open_close_ports_on_machine_def ebind_def check_running_def finally_do_def ecatch_def port_error_def
      eret_def fw_update_def split: sum.splits fw_error.splits provider_error.splits)

lemma policy_ports_set:
  assumes "policy_ports F machine z = Inr policy"
  shows "\<exists>us. machine_unit_states (fe_machines F) machine z = Inr us
    \<and> (\<forall>q. q \<in> set policy \<longleftrightarrow> (\<exists>u\<in>set us. \<exists>qs. exposed_ports F z u = Inr qs \<and> q \<in> set qs))"
proof -
  obtain us pss where us: "machine_unit_states (fe_machines F) machine z = Inr us"
      and pss: "list_all2 (\<lambda>u qs. exposed_ports F z u = Inr qs) us pss" and policy: "policy = remdups (concat pss)"
    using assms by (auto simp: policy_ports_def result_simps)
  have "q \<in> set (concat pss) \<longleftrightarrow> (\<exists>u\<in>set us. \<exists>qs. exposed_ports F z u = Inr qs \<and> q \<in> set qs)" for q
    using pss by (induction rule: list_all2_induct) auto
  with us policy show ?thesis by auto
qed


text \<open>A principal unit on machine 0 with a subordinate one beside it, both exposed with a port open.\<close>

definition fw_topology :: topology where
  "fw_topology = run_cmds new_topology
     [AddMachine ''machine-0000000000'', AddService ''s-0'' ''wordpress'', AddService ''s-1'' ''logging'',
      AddUnit ''s-0'' ''u-0'' None, AssignUnit ''s-0'' ''u-0'' ''machine-0000000000'',
      AddRelation ''r-0'' ''logging'' ''container'', AssignRelation ''r-0'' ''s-0'' ''info'' ''server'',
      AssignRelation ''r-0'' ''s-1'' ''info'' ''client'', AddUnit ''s-1'' ''u-1'' (Some ''u-0'')]"

definition fw_demo :: "((string, content) dict, content, dummy_provider, dummy_ref) fw_env" where
  "fw_demo = \<lparr>fe_machines = machine_demo, fe_provider = dummy\<rparr>"

definition fw_store :: "(string, content) dict" where
  "fw_store = [(''/topology'', Topo fw_topology), (''/machines/machine-0000000000'', Value (YMap [(''provider-machine-id'', YInt 0)])),
     (''/services/s-0/exposed'', Value YNone), (''/services/s-1/exposed'', Value YNone),
     (''/units/u-0/ports'', Value (YMap [(''open'', YList [port_entry (80, ''tcp'')])])),
     (''/units/u-1/ports'', Value (YMap [(''open'', YList [port_entry (514, ''udp'')])]))]"

definition fw_start :: "((string, content) dict, dummy_provider) fw_state" where
  "fw_start = new_firewall fw_store (fst (dummy_start_machine None new_dummy_provider))"

definition principal_unit :: service_unit where
  "principal_unit = \<lparr>su_service = ''s-0'', su_service_name = ''wordpress'', su_sequence = 0, su_id = ''u-0''\<rparr>"

definition logging_unit :: service_unit where
  "logging_unit = \<lparr>su_service = ''s-1'', su_service_name = ''logging'', su_sequence = 0, su_id = ''u-1''\<rparr>"

lemma dummy_ports_provider: "ports_provider dummy_ports (\<lambda>m _. m) (fe_provider fw_demo)"
  using dummy.port_provider_axioms by (simp add: fw_demo_def dummy_def)

definition fw_machine_open :: dummy_provider where
  "fw_machine_open = fst (dummy_open_port (0, 0) 0 (80, ''tcp'') (fw_provider fw_start))"

lemma fw_demo_run:
  "get_machine_state machine_demo (Inr 0) fw_store = Inr ''machine-0000000000''"
  "get_instance_id machine_demo ''machine-0000000000'' fw_store = Inr (Some (YInt 0))"
  "policy_ports fw_demo ''machine-0000000000'' fw_store = Inr [(80, ''tcp'')]"
  "dummy_get_machine (YInt 0) (fw_provider fw_start) = (fw_provider fw_start, Inr (0, 0))"
  "adjust_ports dummy (0, 0) 0 [(80, ''tcp'')] (fw_provider fw_start) = (fw_machine_open, Inr ())"
  by code_simp+


section \<open>Subordinate units\<close>

lemma units_in_machine:
  assumes "wf_dicts t" and "units_unique (topo_abs t)" and "get_service_units_in_machine t machine = Inr uids"
    and "uid \<in> set uids" and "get_service_unit_service t uid = Inr sid"
  shows "get_service_unit_machine t sid uid = Inr (Some machine)"
proof -
  obtain sid' s u where s: "(sid', s) \<in> set (services_of t)" and u: "(uid, u) \<in> set (s_units s)" "u_machine u = Some machine"
    using assms(3,4) by (auto simp: get_service_units_in_machine_def result_simps)
  then have found: "dget (services_of t) sid' = Some s" "dget (s_units s) uid = Some u"
    using wf_dictsD(2,5) [OF assms(1)] by (auto simp: dget_in_set)
  then have "has_unit (topo_abs t) sid' uid" by (simp add: has_unit_topo_abs)
  moreover have "has_unit (topo_abs t) sid uid" using assms(5) unit_service_Inr [OF assms(1,2)] by simp
  ultimately have "sid = sid'" using assms(2) by (simp add: units_unique_def)
  with found u show ?thesis
    by (simp add: get_service_unit_machine_def unit_item_def assert_service_unit_def assert_service_def has_service_def dhas_iff item_def)
qed

lemma machine_units_direct:
  assumes "topo_reachable t" and "topo_of (me_state m) z = Inr t" and "machine_unit_states m machine z = Inr us" and "u \<in> set us"
  shows "get_service_unit_machine t (su_service u) (su_id u) = Inr (Some machine)"
proof -
  obtain uids where uids: "get_service_units_in_machine t machine = Inr uids" "list_all2 (\<lambda>uid u. machine_unit t uid = Inr u) uids us"
    using assms(2,3) by (auto simp: machine_unit_states_def result_simps)
  obtain i where "i < length us" "us ! i = u" using assms(4) by (auto simp: in_set_conv_nth)
  then have "machine_unit t (uids ! i) = Inr u" "uids ! i \<in> set uids"
    using uids(2) by (simp_all add: list_all2_conv_all_nth)
  then obtain uid where uid: "uid \<in> set uids" "machine_unit t uid = Inr u" by blast
  then have "su_id u = uid" "get_service_unit_service t uid = Inr (su_service u)"
    by (auto simp: machine_unit_def result_simps)
  with units_in_machine [OF reachableD(1,4) [OF assms(1)] uids(1) uid(1)] assms(1) show ?thesis by simp
qed

text \<open>
  C31: the ports of a subordinate unit are never opened. A unit that the topology assigns to no machine itself, though
  \<open>open_close_ports\<close> finds the machine of its container, is not among the units whose ports the policy of any machine
  is made of: each of them is assigned to the machine directly.
\<close>

theorem subordinate_ports_ignored:
  assumes "topo_reachable t" and "topo_of (fw_states F) z = Inr t"
    and "get_service_unit_machine t (su_service u) (su_id u) = Inr None"
    and "policy_ports F machine z = Inr policy"
  shows "\<exists>us. machine_unit_states (fe_machines F) machine z = Inr us \<and> u \<notin> set us
    \<and> set policy = (\<Union>v\<in>set us. {q. \<exists>qs. exposed_ports F z v = Inr qs \<and> q \<in> set qs})
    \<and> (\<forall>v\<in>set us. get_service_unit_machine t (su_service v) (su_id v) = Inr (Some machine))"
proof -
  obtain us where us: "machine_unit_states (fe_machines F) machine z = Inr us"
    and policy: "\<forall>q. q \<in> set policy \<longleftrightarrow> (\<exists>v\<in>set us. \<exists>qs. exposed_ports F z v = Inr qs \<and> q \<in> set qs)"
    using policy_ports_set [OF assms(4)] by blast
  have direct: "\<forall>v\<in>set us. get_service_unit_machine t (su_service v) (su_id v) = Inr (Some machine)"
    using machine_units_direct [OF assms(1,2) us] by blast
  then have "u \<notin> set us" using assms(3) by auto
  moreover have "set policy = (\<Union>v\<in>set us. {q. \<exists>qs. exposed_ports F z v = Inr qs \<and> q \<in> set qs})"
    unfolding set_eq_iff using policy by simp
  ultimately show ?thesis using us direct by (intro exI [of _ us] conjI)
qed

lemma fw_topology_reachable: "topo_reachable fw_topology"
  unfolding fw_topology_def by (rule reachable_run)

lemma fw_units_assigned:
  assumes topo: "topo_of (fw_states fw_demo) z = Inr fw_topology"
  shows "get_assigned_machine_id (fw_states fw_demo) z principal_unit = Some (Inr (Some 0))"
    and "get_container (fw_states fw_demo) logging_unit z = Inr (Some principal_unit)"
    and "get_assigned_machine_id (fw_states fw_demo) z logging_unit = Some (Inr (Some 0))"
proof -
  have valid: "check_valid_in logging_unit fw_topology = Inr ()" "check_valid_in principal_unit fw_topology = Inr ()" by code_simp+
  have "get_service_unit_container fw_topology (su_id logging_unit) = Inr (Some (''s-0'', ''wordpress'', 0, ''u-0''))" by code_simp
  then show container: "get_container (fw_states fw_demo) logging_unit z = Inr (Some principal_unit)"
    by (simp add: get_container_def topo principal_unit_def)
  have machine: "get_service_unit_machine fw_topology (su_service logging_unit) (su_id logging_unit) = Inr None"
    "get_service_unit_machine fw_topology (su_service principal_unit) (su_id principal_unit) = Inr (Some ''machine-0000000000'')"
    "public_machine_id ''machine-0000000000'' = Inr 0" by code_simp+
  show principal: "get_assigned_machine_id (fw_states fw_demo) z principal_unit = Some (Inr (Some 0))"
    by (subst get_assigned_machine_id.simps) (simp only: topo valid machine raise_as_simps rbind.simps sum.case option.case)
  then show "get_assigned_machine_id (fw_states fw_demo) z logging_unit = Some (Inr (Some 0))"
    by (subst get_assigned_machine_id.simps) (simp only: topo valid machine container raise_as_simps rbind.simps sum.case option.case)
qed

theorem subordinate_ports_ignored_witness:
  "logging_unit \<notin> set [principal_unit] \<and> machine_unit_states machine_demo ''machine-0000000000'' fw_store = Inr [principal_unit]
    \<and> snd (assigned_machine fw_demo logging_unit fw_start) = Inr (Some 0)
    \<and> exposed_ports fw_demo fw_store logging_unit = Inr [(514, ''udp'')]
    \<and> policy_ports fw_demo ''machine-0000000000'' fw_store = Inr [(80, ''tcp'')]"
proof -
  have units: "machine_unit_states machine_demo ''machine-0000000000'' fw_store = Inr [principal_unit]" by code_simp
  have policy: "policy_ports fw_demo ''machine-0000000000'' fw_store = Inr [(80, ''tcp'')]" by code_simp
  have none: "get_service_unit_machine fw_topology (su_service logging_unit) (su_id logging_unit) = Inr None" by code_simp
  have topo: "topo_of (fw_states fw_demo) fw_store = Inr fw_topology" by code_simp
  have machine: "fe_machines fw_demo = machine_demo" by (simp add: fw_demo_def)
  have "exposed_ports fw_demo fw_store logging_unit = Inr [(514, ''udp'')]" by code_simp
  moreover have "snd (assigned_machine fw_demo logging_unit fw_start) = Inr (Some 0)"
    using fw_units_assigned(3) [OF topo] by (simp add: assigned_machine_def fw_start_def new_firewall_def)
  moreover have "logging_unit \<notin> set [principal_unit]"
    using subordinate_ports_ignored [OF fw_topology_reachable topo none policy] units machine by auto
  ultimately show ?thesis using units policy by blast
qed

end
