(* ===== verification/Provisioning.thy ===== *)
theory Provisioning
  imports Firewall
begin

text \<open>
  \<open>juju/agents/provision.py\<close>: the agent that makes the machines of the provider those of the topology, and
  \<open>concurrent_execution_guard\<close> of \<open>juju/lib/twistutils.py\<close>. Its environment and its connection are made outside.
\<close>

section \<open>State\<close>

text \<open>The manager of the firewall asks the agent whether it runs: \<open>fw_running\<close> is the \<open>_running\<close> of both.\<close>

record ('z, 'p) prov_state =
  pa_firewall :: "('z, 'p) fw_state"
  pa_current_machines :: "int list"
  pa_processing :: bool
  pa_timer :: bool  \<comment> \<open>whether \<open>periodic_machine_check\<close> is scheduled\<close>

definition pa_stop :: "('z, 'p) prov_state \<Rightarrow> ('z, 'p) prov_state" where
  "pa_stop s = s\<lparr>pa_firewall := (pa_firewall s)\<lparr>fw_running := False\<rparr>\<rparr>"

section \<open>One machine\<close>

definition pa_on_zk :: "('z, state_error, 'a) eff \<Rightarrow> ('z, 'p, 'a) fw_eff" where
  "pa_on_zk op s = (case op (fw_zk s) of (z, r) \<Rightarrow> (s\<lparr>fw_zk := z\<rparr>, raise_as FwState r))"

text \<open>The instance of a machine; the first of those the provider started is taken.\<close>

definition start_instance ::
  "('z, 'c, 'p, 'm) fw_env \<Rightarrow> int \<Rightarrow> string \<Rightarrow> ('z, 'p, yvalue) fw_eff" where
  "start_instance F machine_id machine_state =
     ebind (on_state (get_machine_constraints (fe_machines F) machine_state)) (\<lambda>constraints.
     ebind (on_provider (pv_start_machine (fe_provider F) machine_id constraints)) (\<lambda>machines.
     case machines of
       [] \<Rightarrow> eraise (FwState (InTopology IndexError))
     | machine # _ \<Rightarrow>
         ebind (pa_on_zk (set_instance_id (fe_machines F) machine_state (pv_instance_id (fe_provider F) machine)))
           (\<lambda>_. eret (pv_instance_id (fe_provider F) machine))))"

definition process_machine ::
  "('z, 'c, 'p, 'm) fw_env \<Rightarrow> (yvalue, 'm) dict \<Rightarrow> int \<Rightarrow> ('z, 'p, yvalue) fw_eff" where
  "process_machine F provider_machine_map machine_state_id =
     ebind (on_state (get_machine_state (fe_machines F) (Inr machine_state_id))) (\<lambda>machine_state.
     ebind (on_state (get_instance_id (fe_machines F) machine_state)) (\<lambda>instance_id.
     ebind (case instance_id of
              Some i \<Rightarrow> if dhas provider_machine_map i then eret i else start_instance F machine_state_id machine_state
            | None \<Rightarrow> start_instance F machine_state_id machine_state) (\<lambda>instance_id.
     ebind (fw_process_machine F machine_state) (\<lambda>_. eret instance_id))))"

section \<open>All machines\<close>

definition is_provider_error :: "fw_error \<Rightarrow> bool" where
  "is_provider_error err = (case err of FwProvider (MachinesNotFound _) \<Rightarrow> True | FwProvider (ProviderError _) \<Rightarrow> True | _ \<Rightarrow> False)"

definition skips_machine :: "fw_error \<Rightarrow> bool" where
  "skips_machine err = (is_provider_error err \<or> (case err of FwState (MachineStateNotFound _) \<Rightarrow> True | _ \<Rightarrow> False))"

text \<open>\<open>try: ... except: log\<close>: \<open>None\<close> is that it raised.\<close>

definition unless_raised :: "(fw_error \<Rightarrow> bool) \<Rightarrow> ('z, 'p, 'a) fw_eff \<Rightarrow> ('z, 'p, 'a option) fw_eff" where
  "unless_raised caught op =
     ecatch (ebind op (\<lambda>x. eret (Some x))) (\<lambda>err. if caught err then Some (eret None) else None)"

definition shut_down_unused ::
  "('z, 'c, 'p, 'm) fw_env \<Rightarrow> (yvalue, 'm) dict \<Rightarrow> yvalue option list \<Rightarrow> ('z, 'p, unit) fw_eff" where
  "shut_down_unused F provider_machines instance_ids =
     efor (filter (\<lambda>(i, _). Some i \<notin> set instance_ids) provider_machines) (\<lambda>(_, machine).
       ebind (unless_raised is_provider_error (on_provider (pv_shutdown_machine (fe_provider F) machine))) (\<lambda>_. eret ()))"

definition machines_by_id :: "('z, 'c, 'p, 'm) fw_env \<Rightarrow> 'm list \<Rightarrow> (yvalue, 'm) dict" where
  "machines_by_id F machines = fold (\<lambda>m. dset (pv_instance_id (fe_provider F) m) m) machines []"

definition process_machines :: "('z, 'c, 'p, 'm) fw_env \<Rightarrow> int list \<Rightarrow> ('z, 'p, unit) fw_eff" where
  "process_machines F current_machines =
     ebind (unless_raised is_provider_error (on_provider (pv_get_machines (fe_provider F) []))) (\<lambda>listed.
     case listed of
       None \<Rightarrow> eret ()
     | Some machines \<Rightarrow>
         ebind (emap current_machines (\<lambda>n. unless_raised skips_machine (process_machine F (machines_by_id F machines) n)))
           (shut_down_unused F (machines_by_id F machines)))"

section \<open>The agent\<close>

text \<open>\<open>concurrent_execution_guard\<close>: a call while another runs does nothing; the flag is reset however it ends.\<close>

definition guard_execute ::
  "('z, 'p, unit) fw_eff \<Rightarrow> ('z, 'p) prov_state \<Rightarrow> ('z, 'p) prov_state \<times> (fw_error + unit)" where
  "guard_execute f s =
     (if pa_processing s then (s, Inr ())
      else case f (pa_firewall (s\<lparr>pa_processing := True\<rparr>)) of
        (fw, result) \<Rightarrow> (s\<lparr>pa_firewall := fw, pa_processing := False\<rparr>, result))"

definition watch_machine_changes ::
  "('z, 'c, 'p, 'm) fw_env \<Rightarrow> int list \<Rightarrow> ('z, 'p) prov_state \<Rightarrow> ('z, 'p) prov_state \<times> watch_end" where
  "watch_machine_changes F new_machines s =
     (if \<not> fw_running (pa_firewall s) then (s, StopWatcher)
      else (fst (guard_execute (process_machines F new_machines) (s\<lparr>pa_current_machines := new_machines\<rparr>)), Returned))"

definition periodic_machine_check :: "('z, 'c, 'p, 'm) fw_env \<Rightarrow> ('z, 'p) prov_state \<Rightarrow> ('z, 'p) prov_state" where
  "periodic_machine_check F s =
     (fst (guard_execute (process_machines F (pa_current_machines s)) (s\<lparr>pa_timer := False\<rparr>)))\<lparr>pa_timer := True\<rparr>"

end
