(* ===== verification/ProvisioningProps.thy ===== *)
theory ProvisioningProps
  imports Provisioning FirewallProps
begin

text \<open>The machines that are shut down, and those that are not.\<close>

section \<open>What a provider keeps\<close>

abbreviation machines_provider ::
  "('p \<Rightarrow> 'k \<Rightarrow> (int \<times> string) set) \<Rightarrow> ('m \<Rightarrow> int \<Rightarrow> 'k) \<Rightarrow> ('p \<Rightarrow> yvalue set) \<Rightarrow> ('p, 'm) provider \<Rightarrow> bool" where
  "machines_provider ports key alive P \<equiv>
     machine_provider ports key (pv_get_machine P) (pv_open_port P) (pv_close_port P) (pv_get_opened_ports P)
       alive (pv_instance_id P) (pv_get_machines P) (pv_start_machine P) (pv_shutdown_machine P)"

text \<open>The instance of a machine runs and is the one its node names.\<close>

definition instance_runs ::
  "('p \<Rightarrow> yvalue set) \<Rightarrow> ('z, 'c, 'p, 'm) fw_env \<Rightarrow> topology \<Rightarrow> string \<Rightarrow> yvalue \<Rightarrow> ('z, 'p) fw_state \<Rightarrow> bool" where
  "instance_runs alive F t machine i s \<longleftrightarrow>
     i \<in> alive (fw_provider s) \<and> fw_running s \<and> topo_of (fw_states F) (fw_zk s) = Inr t
     \<and> get_instance_id (fe_machines F) machine (fw_zk s) = Inr (Some i)"

definition kept :: "('s \<Rightarrow> bool) \<Rightarrow> 's \<Rightarrow> 's \<Rightarrow> bool" where
  "kept G s s' \<longleftrightarrow> (G s \<longrightarrow> G s')"

interpretation kept: eff_relation "kept G"
  by unfold_locales (auto simp: kept_def)

lemma keptD: "kept.keeps G m \<Longrightarrow> m s = (s', r) \<Longrightarrow> G s \<Longrightarrow> G s'"
  using kept.keepsD [of G m s] by (simp add: kept_def)

lemma state_read_keeps: "kept.keeps G (on_state g)"
  by (simp add: kept.keeps_def on_state_def kept.R_refl)

lemma provider_keeps:
  assumes "\<And>p. i \<in> alive p \<Longrightarrow> i \<in> alive (fst (op p))"
  shows "kept.keeps (instance_runs alive F t machine i) (on_provider op)"
  using assms
  by (auto simp: kept.keeps_def kept_def instance_runs_def on_provider_def split: prod.splits) (metis fst_conv)

lemma update_keeps:
  assumes "\<And>s. fw_provider (f s) = fw_provider s \<and> fw_zk (f s) = fw_zk s \<and> fw_running (f s) = fw_running s"
  shows "kept.keeps (instance_runs alive F t machine i) (fw_update f)"
  using assms by (simp add: kept.keeps_def kept_def instance_runs_def fw_update_def)

lemma finally_keeps:
  assumes "kept.keeps G m" and "\<And>s. G s \<Longrightarrow> G (f s)"
  shows "kept.keeps G (finally_do m f)"
  using assms by (auto simp: kept.keeps_def kept_def finally_do_def split: prod.split)

context machine_provider
begin

lemma alive_for: "(\<And>q p. alive (fst (f q p)) = alive p) \<Longrightarrow> alive (fst (efor qs f p)) = alive p"
proof (induction qs arbitrary: p)
  case (Cons q qs)
  show ?case
  proof (cases "f q p")
    case (Pair p1 r)
    with Cons.prems [of q p] have "alive p1 = alive p" by simp
    then show ?thesis using Cons.IH [OF Cons.prems] Pair by (cases r) (simp_all add: ebind_def)
  qed
qed simp

lemma alive_bind:
  "alive (fst (m p)) = alive p \<Longrightarrow> (\<And>x p. alive (fst (f x p)) = alive p) \<Longrightarrow> alive (fst (ebind m f p)) = alive p"
  by (cases "m p") (auto simp: ebind_def Let_def split: sum.split)

end

lemma adjust_alive:
  assumes "machines_provider ports key alive P"
  shows "alive (fst (adjust_ports P m i policy p)) = alive p"
  unfolding adjust_ports_def
  by (intro machine_provider.alive_bind [OF assms] machine_provider.alive_for [OF assms] machine_provider.ports_alone [OF assms])

section \<open>The firewall keeps instances\<close>

lemma set_machine_ports_keeps_instance:
  assumes "machines_provider ports key alive (fe_provider F)"
  shows "kept.keeps (instance_runs alive F t machine i) (set_machine_ports F n)"
  unfolding set_machine_ports_def
  by (intro kept.keeps_bind state_read_keeps provider_keeps)
    (simp_all add: machine_provider.ports_alone [OF assms] adjust_alive [OF assms])

lemma open_close_keeps_instance:
  assumes "machines_provider ports key alive (fe_provider F)"
  shows "kept.keeps (instance_runs alive F t machine i) (open_close_ports_on_machine F n)"
  unfolding open_close_ports_on_machine_def
proof (intro kept.keeps_bind finally_keeps kept.keeps_catch set_machine_ports_keeps_instance [OF assms])
  show "kept.keeps (instance_runs alive F t machine i) check_running"
    by (simp add: kept.keeps_def check_running_def kept.R_refl)
  show "kept.keeps (instance_runs alive F t machine i) k" if "port_error n err = Some k" for err k
    using that by (auto simp: port_error_def intro: update_keeps kept.keeps_pure split: fw_error.splits provider_error.splits)
  show "instance_runs alive F t machine i s \<Longrightarrow> instance_runs alive F t machine i (observe_machine n s)" for s
    by (simp add: instance_runs_def observe_machine_def)
qed

lemma watching_keeps:
  assumes "kept.keeps (instance_runs alive F t machine i) m"
  shows "kept.keeps (instance_runs alive F t machine i) (watching w m)"
  unfolding watching_def
proof (intro kept.keeps_catch kept.keeps_bind assms update_keeps)
  show "kept.keeps (instance_runs alive F t machine i) k" if "(if err = FwStopWatcher then Some (eret ()) else None) = Some k" for err k
    using that kept.keeps_pure(1) by (auto split: if_splits)
qed simp

lemma retry_keeps:
  assumes "machines_provider ports key alive (fe_provider F)"
  shows "kept.keeps (instance_runs alive F t machine i) (fw_retry_machine F n)"
proof -
  have "kept.keeps (instance_runs alive F t machine i)
      (ecatch (open_close_ports_on_machine F n) (\<lambda>err. if err = FwStopWatcher then Some (eret ()) else None))"
    by (intro kept.keeps_catch open_close_keeps_instance [OF assms]) (auto split: if_splits intro: kept.keeps_pure)
  then show ?thesis
    by (auto simp: kept.keeps_def kept_def fw_retry_machine_def instance_runs_def)
qed

lemma fw_process_keeps:
  assumes "machines_provider ports key alive (fe_provider F)"
  shows "kept.keeps (instance_runs alive F t machine i) (fw_process_machine F m)"
proof -
  have watch: "kept.keeps (instance_runs alive F t machine i) (watch_machine_units F m n)" for n
    unfolding watch_machine_units_def
    by (intro kept.keeps_bind state_read_keeps watching_keeps) (auto intro: kept.keeps_pure open_close_keeps_instance [OF assms])
  have "kept.keeps (instance_runs alive F t machine i) (\<lambda>s. if n \<in> fw_watched_machines s then (s, Inr ())
     else watch_machine_units F m n (s\<lparr>fw_watched_machines := insert n (fw_watched_machines s)\<rparr>))" for n
    using watch [of n] by (auto simp: kept.keeps_def kept_def instance_runs_def)
  then show ?thesis unfolding fw_process_machine_def
    by (intro kept.keeps_bind state_read_keeps retry_keeps [OF assms])
qed

section \<open>The machine itself\<close>

lemma open_close_returns:
  assumes "fw_running s"
  shows "snd (open_close_ports_on_machine F n s) = Inr ()"
  using machine_run_cases [OF assms, of F n] by (cases "set_machine_ports F n s") simp

lemma fw_process_returns:
  assumes provider: "machines_provider ports key alive (fe_provider F)" and runs: "instance_runs alive F t machine i s"
    and "public_machine_id machine = Inr n" and "machine_unit_names machine t = Inr us"
  shows "snd (fw_process_machine F machine s) = Inr ()"
proof -
  obtain s1 r1 where retry: "fw_retry_machine F n s = (s1, r1)" by (cases "fw_retry_machine F n s")
  have "r1 = Inr ()"
  proof (cases "n \<in> fw_retry s")
    case True
    let ?s = "s\<lparr>fw_retry := fw_retry s - {n}\<rparr>"
    have "snd (open_close_ports_on_machine F n ?s) = Inr ()"
      using open_close_returns [of ?s F n] runs by (simp add: instance_runs_def)
    then show ?thesis using retry True
      by (cases "open_close_ports_on_machine F n ?s") (auto simp: fw_retry_machine_def ecatch_def)
  next
    case False
    then show ?thesis using retry by (auto simp: fw_retry_machine_def)
  qed
  moreover have "instance_runs alive F t machine i s1" using keptD [OF retry_keeps [OF provider] retry runs] .
  then have "topo_of (fw_states F) (fw_zk s1) = Inr t" "fw_running s1" by (simp_all add: instance_runs_def)
  then have "snd (watch_machine_units F machine n (s1\<lparr>fw_watched_machines := w\<rparr>)) = Inr ()" for w
    using open_close_returns [of "s1\<lparr>fw_watched_machines := w\<rparr>" F n] assms(4)
    by (cases "open_close_ports_on_machine F n (s1\<lparr>fw_watched_machines := w\<rparr>)")
      (auto simp: watch_machine_units_def ebind_def on_state_def watching_def ecatch_def eret_def fw_update_def)
  ultimately show ?thesis
    using retry by (simp add: fw_process_machine_def ebind_def on_state_def assms(3))
qed

lemma set_node_frame:
  assumes "client_ok (se_client e)" and "set_node_value (node_at e path) z key v = Inr z'" and "q \<noteq> path"
  shows "zc_get (se_client e) z' q = zc_get (se_client e) z q"
proof -
  have frame: "zc_get (se_client e) (yn_retry_change (node_at e path) f z) q = zc_get (se_client e) z q" for f
    using retry_change_Inr [where f = "\<lambda>c. Inr (f c)", OF assms(1) refl, of path z] assms(3)
    by (auto simp: node_at_def)
  from assms(2) obtain f where "z' = yn_retry_change (node_at e path) f z"
    by (auto simp: set_node_value_def write_state_def result_simps split: prod.splits option.splits)
  with frame show ?thesis by simp
qed

lemma instance_of_other:
  assumes "client_ok (se_client (me_state m))" and "set_instance_id m machine' v z = (z', r)" and "machine' \<noteq> machine"
  shows "topo_of (me_state m) z' = topo_of (me_state m) z \<and> get_instance_id m machine z' = get_instance_id m machine z"
proof (cases r)
  case (Inr u)
  then have set: "set_node_value (node_at (me_state m) (machine_path machine')) z ''provider-machine-id'' v = Inr z'"
    using assms(2) by (cases "public_machine_id machine'") (auto simp: set_instance_id_def echange_def split: sum.splits)
  have "''/topology'' \<noteq> machine_path machine'" "machine_path machine \<noteq> machine_path machine'"
    using assms(3) by (simp_all add: machine_path_def)
  note same = set_node_frame [OF assms(1) set this(1)] set_node_frame [OF assms(1) set this(2)]
  have "get_node_value (node_at (me_state m) (machine_path machine)) z' k d =
      get_node_value (node_at (me_state m) (machine_path machine)) z k d" for k d
    using same(2) by (simp add: get_node_value_def read_def node_at_def)
  with same(1) show ?thesis by (simp add: read_topology_def get_instance_id_def machine_value_def)
next
  case (Inl err)
  then have "z' = z" using assms(2) by (auto simp: set_instance_id_def echange_def split: sum.splits)
  then show ?thesis by simp
qed

lemma start_other_keeps:
  assumes provider: "machines_provider ports key alive (fe_provider F)" and client: "client_ok (se_client (fw_states F))"
    and "machine' \<noteq> machine"
  shows "kept.keeps (instance_runs alive F t machine i) (start_instance F n machine')"
proof -
  have set: "kept.keeps (instance_runs alive F t machine i) (pa_on_zk (set_instance_id (fe_machines F) machine' v))" for v
    using instance_of_other [OF client _ assms(3), of v]
    by (auto simp: kept.keeps_def kept_def instance_runs_def pa_on_zk_def split: prod.splits)
  have start: "i \<in> alive p \<Longrightarrow> i \<in> alive (fst (pv_start_machine (fe_provider F) n c p))" for c p
    using machine_provider.started [OF provider, of n c p] machine_provider.not_started [OF provider, of n c p]
    by (cases "pv_start_machine (fe_provider F) n c p"; cases "snd (pv_start_machine (fe_provider F) n c p)") auto
  show ?thesis
    unfolding start_instance_def
    by (intro kept.keeps_bind state_read_keeps provider_keeps start)
      (auto intro: kept.keeps_pure kept.keeps_bind set split: list.split)
qed

lemma process_machine_keeps:
  assumes provider: "machines_provider ports key alive (fe_provider F)" and client: "client_ok (se_client (fw_states F))"
    and "dhas pm i" and run: "process_machine F pm n s = (s', r)" and runs: "instance_runs alive F t machine i s"
  shows "instance_runs alive F t machine i s'"
proof (cases "get_machine_state (fe_machines F) (Inr n) (fw_zk s)")
  case (Inr machine')
  define rest where "rest = (\<lambda>instance_id. ebind (case instance_id of
              Some i \<Rightarrow> if dhas pm i then eret i else start_instance F n machine'
            | None \<Rightarrow> start_instance F n machine') (\<lambda>instance_id.
     ebind (fw_process_machine F machine') (\<lambda>_. eret instance_id)))"
  have run': "ebind (on_state (get_instance_id (fe_machines F) machine')) rest s = (s', r)"
    using run Inr by (simp add: process_machine_def rest_def ebind_def on_state_def)
  have tail: "kept.keeps (instance_runs alive F t machine i) (ebind (fw_process_machine F machine') (\<lambda>_. eret j))" for j
    by (intro kept.keeps_bind fw_process_keeps [OF provider]) (rule kept.keeps_pure)
  show ?thesis
  proof (cases "machine' = machine")
    case True
    then have "on_state (get_instance_id (fe_machines F) machine') s = (s, Inr (Some i))"
      using runs by (simp add: on_state_def instance_runs_def)
    then have "ebind (fw_process_machine F machine') (\<lambda>_. eret i) s = (s', r)"
      using run' assms(3) ebind_ran [of "on_state (get_instance_id (fe_machines F) machine')" s s "Some i" rest]
      by (simp add: rest_def ebind_simps)
    from keptD [OF tail this runs] show ?thesis .
  next
    case False
    have "kept.keeps (instance_runs alive F t machine i) (rest x)" for x
      unfolding rest_def using start_other_keeps [OF provider client False]
      by (intro kept.keeps_bind fw_process_keeps [OF provider]) (auto intro: kept.keeps_pure split: option.split)
    with state_read_keeps have "kept.keeps (instance_runs alive F t machine i) (ebind (on_state (get_instance_id (fe_machines F) machine')) rest)"
      by (rule kept.keeps_bind)
    from keptD [OF this run' runs] show ?thesis .
  qed
next
  case (Inl err)
  then show ?thesis using run runs by (simp add: process_machine_def ebind_def on_state_def)
qed

lemma process_machine_returns:
  assumes provider: "machines_provider ports key alive (fe_provider F)" and runs: "instance_runs alive F t machine i s"
    and "dhas pm i" and "get_machine_state (fe_machines F) (Inr n) (fw_zk s) = Inr machine"
    and "public_machine_id machine = Inr k" and "machine_unit_names machine t = Inr us"
  shows "snd (process_machine F pm n s) = Inr i"
  using fw_process_returns [OF provider runs assms(5,6)] runs assms(3,4)
  by (cases "fw_process_machine F machine s") (simp add: process_machine_def ebind_def on_state_def instance_runs_def eret_def)

section \<open>All machines\<close>

lemma machines_by_id_has:
  assumes "i \<in> pv_instance_id (fe_provider F) ` set machines"
  shows "dhas (machines_by_id F machines) i"
proof -
  have "dhas (fold (\<lambda>m. dset (pv_instance_id (fe_provider F) m) m) ms d) i
      \<longleftrightarrow> i \<in> pv_instance_id (fe_provider F) ` set ms \<or> dhas d i" for ms d
    by (induction ms arbitrary: d) auto
  with assms show ?thesis by (simp add: machines_by_id_def)
qed

lemma machines_by_id_keys: "(i, m) \<in> set (machines_by_id F machines) \<Longrightarrow> i = pv_instance_id (fe_provider F) m"
proof -
  have "(i, m) \<in> set (fold (\<lambda>m. dset (pv_instance_id (fe_provider F) m) m) ms d) \<Longrightarrow>
      (i, m) \<in> set d \<or> i = pv_instance_id (fe_provider F) m" for ms d
  proof (induction ms arbitrary: d)
    case (Cons m' ms)
    have "(i, m) \<in> set (dset (pv_instance_id (fe_provider F) m') m' d) \<Longrightarrow> (i, m) \<in> set d \<or> (i = pv_instance_id (fe_provider F) m' \<and> m = m')"
      by (induction d) (auto split: if_splits)
    with Cons show ?case by fastforce
  qed simp
  then show "(i, m) \<in> set (machines_by_id F machines) \<Longrightarrow> i = pv_instance_id (fe_provider F) m"
    by (fastforce simp: machines_by_id_def)
qed

lemma unless_raised_Inr: "unless_raised caught op s = (s', Inr (Some x)) \<longleftrightarrow> op s = (s', Inr x)"
  by (auto simp: unless_raised_def ecatch_def ebind_def eret_def split: prod.splits sum.splits if_splits)

lemma unless_raised_keeps: "kept.keeps G op \<Longrightarrow> kept.keeps G (unless_raised caught op)"
  unfolding unless_raised_def by (intro kept.keeps_catch kept.keeps_bind) (auto intro: kept.keeps_pure split: if_splits)

lemma unless_raised_fst: "fst (unless_raised caught op s) = fst (op s)"
  by (auto simp: unless_raised_def ecatch_def ebind_def eret_def split: prod.splits sum.splits if_splits)

lemma emap_steps:
  assumes "emap xs f s = (s', r)" and "G s" and step: "\<forall>x s. G s \<longrightarrow> G (fst (f x s))"
  shows "G s' \<and> (\<forall>ys. r = Inr ys \<longrightarrow> (\<forall>x\<in>set xs. \<exists>y\<in>set ys. \<exists>s1. G s1 \<and> snd (f x s1) = Inr y))"
  using assms(1,2)
proof (induction xs arbitrary: s s' r)
  case (Cons x xs)
  obtain s1 r1 where x: "f x s = (s1, r1)" by (cases "f x s")
  have G1: "G s1" using step Cons.prems(2) x by (metis fst_conv)
  show ?case
  proof (cases r1)
    case (Inl err)
    then show ?thesis using Cons.prems(1) x G1 by (auto simp: ebind_def)
  next
    case (Inr y)
    obtain s2 r2 where rest: "emap xs f s1 = (s2, r2)" by (cases "emap xs f s1")
    have here: "\<exists>s1. G s1 \<and> snd (f x s1) = Inr y" using Cons.prems(2) x Inr by (metis snd_conv)
    show ?thesis
    proof (cases r2)
      case (Inr ys)
      with Cons.prems(1) x \<open>r1 = Inr y\<close> rest have "s' = s2" "r = Inr (y # ys)" by (auto simp: ebind_def eret_def)
      then show ?thesis using Cons.IH [OF rest G1] here Inr by simp
    qed (use Cons.IH [OF rest G1] Cons.prems x Inr rest in \<open>auto simp: ebind_def\<close>)
  qed
qed simp

lemma shut_down_keeps:
  assumes provider: "machines_provider ports key alive (fe_provider F)" and "\<forall>(j, m)\<in>set pm. j = pv_instance_id (fe_provider F) m"
    and "Some i \<in> set ids"
  shows "kept.keeps (instance_runs alive F t machine i) (shut_down_unused F pm ids)"
proof -
  have all: "kept.keeps (instance_runs alive F t machine i) (efor xs (\<lambda>(_, m).
       ebind (unless_raised is_provider_error (on_provider (pv_shutdown_machine (fe_provider F) m))) (\<lambda>_. eret ())))"
    if "\<forall>(j, m)\<in>set xs. pv_instance_id (fe_provider F) m \<noteq> i" for xs
    using that
  proof (induction xs)
    case (Cons x xs)
    obtain j m where x: "x = (j, m)" by (cases x)
    have "i \<in> alive p \<Longrightarrow> i \<in> alive (fst (pv_shutdown_machine (fe_provider F) m p))" for p
      using machine_provider.shut_down [OF provider, of m p] Cons.prems x by (cases "pv_shutdown_machine (fe_provider F) m p") auto
    then have "kept.keeps (instance_runs alive F t machine i) (ebind (ebind (unless_raised is_provider_error
        (on_provider (pv_shutdown_machine (fe_provider F) m))) (\<lambda>_. eret ())) (\<lambda>_. efor xs (\<lambda>(_, m).
       ebind (unless_raised is_provider_error (on_provider (pv_shutdown_machine (fe_provider F) m))) (\<lambda>_. eret ()))))"
      using Cons by (intro kept.keeps_bind unless_raised_keeps provider_keeps) (auto intro: kept.keeps_pure)
    then show ?case by (simp add: x kept.keeps_def)
  qed (simp add: kept.keeps_def kept.R_refl)
  have "\<forall>(j, m)\<in>set (filter (\<lambda>(j, _). Some j \<notin> set ids) pm). pv_instance_id (fe_provider F) m \<noteq> i"
    using assms(2,3) by auto
  from all [OF this] show ?thesis unfolding shut_down_unused_def .
qed

text \<open>
  C15: no machine in use is shut down. While the provisioning agent runs, \<open>process_machines\<close> leaves the instance of
  every machine it is given running, if it ran before and the node of the machine names it: the machine is processed
  without an exception, and the instances shut down at the end are others.
\<close>

theorem machines_in_use_survive:
  assumes provider: "machines_provider ports key alive (fe_provider F)" and client: "client_ok (se_client (fw_states F))"
    and runs: "instance_runs alive F t machine i s" and "n \<in> set current" and "machine = machine_internal_id n"
    and "has_machine t machine" and "public_machine_id machine = Inr k" and "machine_unit_names machine t = Inr us"
    and run: "process_machines F current s = (s', r)"
  shows "i \<in> alive (fw_provider s') \<and> get_instance_id (fe_machines F) machine (fw_zk s') = Inr (Some i)"
proof -
  let ?G = "instance_runs alive F t machine i"
  have steps: "kept.keeps ?G (on_provider (pv_get_machines (fe_provider F) []))"
    by (rule provider_keeps) (simp add: machine_provider.machines_read [OF provider])
  obtain s1 r1 where list: "unless_raised is_provider_error (on_provider (pv_get_machines (fe_provider F) [])) s = (s1, r1)"
    by (cases "unless_raised is_provider_error (on_provider (pv_get_machines (fe_provider F) [])) s")
  have G1: "?G s1" using keptD [OF unless_raised_keeps [OF steps] list runs] .
  have "?G s'"
  proof (cases "r1 = Inl (projl r1) \<or> r1 = Inr None")
    case True
    then have "s' = s1" using run list by (cases r1) (auto simp: process_machines_def ebind_def eret_def)
    with G1 show ?thesis by simp
  next
    case False
    then obtain machines where r1: "r1 = Inr (Some machines)" by (cases r1) auto
    define pm where "pm = machines_by_id F machines"
    let ?process = "\<lambda>n. unless_raised skips_machine (process_machine F pm n)"
    obtain p where "pv_get_machines (fe_provider F) [] (fw_provider s) = (p, Inr machines)"
      using list r1 by (auto simp: unless_raised_Inr on_provider_Inr)
    then have has: "dhas pm i"
      using machine_provider.machines_listed [OF provider] runs
      by (auto simp: pm_def instance_runs_def intro!: machines_by_id_has)
    have "?G (fst (process_machine F pm n' s2))" if "?G s2" for n' s2
      using process_machine_keeps [OF provider client has _ that] by (cases "process_machine F pm n' s2") simp
    then have one: "\<forall>n' s2. ?G s2 \<longrightarrow> ?G (fst (?process n' s2))" by (simp add: unless_raised_fst)
    obtain s2 r2 where all: "emap current ?process s1 = (s2, r2)" by (cases "emap current ?process s1")
    note processed = emap_steps [where G = ?G, OF all G1 one]
    show ?thesis
    proof (cases r2)
      case (Inl err)
      then have "s' = s2" using run list r1 all by (simp add: process_machines_def ebind_def pm_def)
      with processed show ?thesis by simp
    next
      case (Inr ids)
      obtain y sa where y: "y \<in> set ids" "?G sa" "snd (?process n sa) = Inr y"
        using processed Inr assms(4) by blast
      have "get_machine_state (fe_machines F) (Inr n) (fw_zk sa) = Inr machine"
        using y(2) assms(5,6) by (simp add: get_machine_state_def instance_runs_def)
      from process_machine_returns [OF provider y(2) has this assms(7,8)] y(3) have "y = Some i"
        by (cases "process_machine F pm n sa") (auto simp: unless_raised_def ecatch_def ebind_def eret_def)
      then have keeps: "kept.keeps ?G (shut_down_unused F pm ids)"
        using y(1) by (intro shut_down_keeps [OF provider]) (auto simp: pm_def dest: machines_by_id_keys)
      have "shut_down_unused F pm ids s2 = (s', r)"
        using run list r1 all Inr by (simp add: process_machines_def ebind_def pm_def)
      from keptD [OF keeps this] processed show ?thesis by simp
    qed
  qed
  then show ?thesis by (simp add: instance_runs_def)
qed

text \<open>A second machine runs that the topology does not know.\<close>

definition prov_start :: "((string, content) dict, dummy_provider) fw_state" where
  "prov_start = fw_start\<lparr>fw_provider := fst (dummy_start_machine None (fw_provider fw_start))\<rparr>"

lemma dummy_machines_provider: "machines_provider dummy_ports (\<lambda>m _. m) dummy_alive (fe_provider fw_demo)"
  using dummy.machine_provider_axioms by (simp add: fw_demo_def dummy_def)

lemma fw_demo_client: "client_ok (se_client (fw_states fw_demo))"
  by (simp add: fw_demo_def machine_demo_def dict_env_def plain_client_ok)

lemma prov_demo_runs: "instance_runs dummy_alive fw_demo fw_topology ''machine-0000000000'' (YInt 0) prov_start"
proof -
  have "topo_of (fw_states fw_demo) fw_store = Inr fw_topology" by code_simp
  moreover have "dp_machines (fw_provider prov_start) = [(0, 0), (1, 1)]" by code_simp
  ultimately show ?thesis using fw_demo_run(2)
    by (simp add: instance_runs_def prov_start_def fw_start_def new_firewall_def dummy_alive_def dummy_instance_def fw_demo_def)
qed

theorem machines_in_use_survive_witness:
  "dummy_alive (fw_provider prov_start) = {YInt 0, YInt 1}
    \<and> YInt 0 \<in> dummy_alive (fw_provider (fst (process_machines fw_demo [0] prov_start)))"
proof -
  have machine: "machine_internal_id 0 = ''machine-0000000000''" by code_simp
  have known: "has_machine fw_topology ''machine-0000000000''" "public_machine_id ''machine-0000000000'' = Inr 0" by code_simp+
  have "case machine_unit_names ''machine-0000000000'' fw_topology of Inl _ \<Rightarrow> False | Inr _ \<Rightarrow> True" by code_simp
  then obtain us where us: "machine_unit_names ''machine-0000000000'' fw_topology = Inr us" by (auto split: sum.splits)
  have "dp_machines (fw_provider prov_start) = [(0, 0), (1, 1)]" by code_simp
  then have "dummy_alive (fw_provider prov_start) = {YInt 0, YInt 1}" by (simp add: dummy_alive_def dummy_instance_def)
  moreover obtain s' r where run: "process_machines fw_demo [0] prov_start = (s', r)" by (cases "process_machines fw_demo [0] prov_start")
  from machines_in_use_survive [OF dummy_machines_provider fw_demo_client prov_demo_runs, of 0 "[0]", OF _ machine [symmetric] known us run] run
  have "YInt 0 \<in> dummy_alive (fw_provider (fst (process_machines fw_demo [0] prov_start)))" by simp
  ultimately show ?thesis by blast
qed

text \<open>
  A machine whose instance is gone gets a new one, and no port of it is opened. Its node names the new instance,
  but the firewall watches the machine since its first instance was made and has nothing to retry for it, so
  \<open>process_machine\<close> does not look at its ports: whatever the policy says, they are as the provider made them.
\<close>

theorem replaced_machine_stays_closed:
  assumes "get_machine_state (fe_machines F) (Inr n) (fw_zk s) = Inr machine" and "public_machine_id machine = Inr n"
    and "get_instance_id (fe_machines F) machine (fw_zk s) = Inr (Some old)" and "\<not> dhas pm old"
    and "n \<in> fw_watched_machines s" and "n \<notin> fw_retry s"
    and "get_machine_constraints (fe_machines F) machine (fw_zk s) = Inr c"
    and "pv_start_machine (fe_provider F) n c (fw_provider s) = (p, Inr (m # ms))"
    and "set_instance_id (fe_machines F) machine (pv_instance_id (fe_provider F) m) (fw_zk s) = (z, Inr ())"
  shows "process_machine F pm n s = (s\<lparr>fw_provider := p, fw_zk := z\<rparr>, Inr (pv_instance_id (fe_provider F) m))"
proof -
  have "start_instance F n machine s = (s\<lparr>fw_provider := p, fw_zk := z\<rparr>, Inr (pv_instance_id (fe_provider F) m))"
    using assms(7-9) by (simp add: start_instance_def ebind_def on_state_def on_provider_def pa_on_zk_def eret_def)
  moreover have "fw_process_machine F machine (s\<lparr>fw_provider := p, fw_zk := z\<rparr>) = (s\<lparr>fw_provider := p, fw_zk := z\<rparr>, Inr ())"
    using assms(2,5,6) by (simp add: fw_process_machine_def ebind_def on_state_def fw_retry_machine_def)
  ultimately show ?thesis using assms(1,3,4)
    by (simp add: process_machine_def ebind_def on_state_def eret_def)
qed

definition prov_replaced :: "((string, content) dict, dummy_provider) fw_state" where
  "prov_replaced = fw_start\<lparr>fw_provider := new_dummy_provider, fw_watched_machines := {0}\<rparr>"

theorem replaced_machine_stays_closed_witness:
  "\<exists>s'. process_machine fw_demo [] 0 prov_replaced = (s', Inr (YInt 0)) \<and> dummy_ports (fw_provider s') (0, 0) = {}
    \<and> policy_ports fw_demo ''machine-0000000000'' fw_store = Inr [(80, ''tcp'')]"
proof -
  let ?m = "''machine-0000000000''"
  define started where "started = fst (dummy_start_machine None new_dummy_provider)"
  have start: "dummy_start_machine None new_dummy_provider = (started, Inr [(0, 0)])"
    by (simp add: started_def) code_simp
  have "case get_machine_constraints machine_demo ?m fw_store of Inl _ \<Rightarrow> False | Inr _ \<Rightarrow> True" by code_simp
  then obtain c where c: "get_machine_constraints machine_demo ?m fw_store = Inr c" by (auto split: sum.splits)
  have "snd (set_instance_id machine_demo ?m (YInt 0) fw_store) = Inr ()" by code_simp
  then obtain z where z: "set_instance_id machine_demo ?m (YInt 0) fw_store = (z, Inr ())" by (metis prod.collapse)
  have zk: "fw_zk prov_replaced = fw_store" "fw_provider prov_replaced = new_dummy_provider" "fw_watched_machines prov_replaced = {0}"
      "fw_retry prov_replaced = {}" "fe_machines fw_demo = machine_demo"
      "pv_instance_id (fe_provider fw_demo) = dummy_instance" "pv_start_machine (fe_provider fw_demo) n c = dummy_start_machine None"
    for n c by (simp_all add: prov_replaced_def fw_start_def new_firewall_def fw_demo_def dummy_def)
  have public: "public_machine_id ?m = Inr 0" by code_simp
  have "process_machine fw_demo [] 0 prov_replaced = (prov_replaced\<lparr>fw_provider := started, fw_zk := z\<rparr>,
      Inr (pv_instance_id (fe_provider fw_demo) (0, 0)))"
    by (rule replaced_machine_stays_closed [where machine = ?m and old = "YInt 0" and c = c and ms = "[]"])
      (simp_all add: zk fw_demo_run public c z start dummy_instance_def)
  moreover have "dummy_ports started (0, 0) = {}"
    by (simp add: started_def dummy_ports_def dummy_start_machine_def new_dummy_provider_def is_dummy_machine_def Let_def)
  ultimately show ?thesis using fw_demo_run(3) by (simp add: zk dummy_instance_def)
qed

end
