(* ===== verification/CharmMetadata.thy ===== *)
theory CharmMetadata
  imports Schema PyText
begin

text \<open>
  \<open>juju/charm/metadata.py\<close>: what a charm says about itself. A YAML text is what it loads to; two values of a document are not the same object.
\<close>

section \<open>Coercers\<close>

text \<open>
  \<open>Dict\<close> and \<open>KeyDict\<close> take any object with a \<open>coerce\<close> method; those of \<open>Schema\<close> take schemas. \<open>MetaData\<close> uses them with
  \<open>InterfaceExpander\<close>.
\<close>

type_synonym coercer = "pyval \<Rightarrow> string list \<Rightarrow> coerce_error + pyval"

definition dict_with :: "schema_env \<Rightarrow> coercer \<Rightarrow> coercer \<Rightarrow> coercer" where
  "dict_with en ks vs v path =
     (case v of
        PDict d \<Rightarrow>
          rbind (rmap (\<lambda>(k, x).
              rbind (ks k path) (\<lambda>k'.
              let value_path = (if path = [] then [key_text en k] else path @ [''.'', key_text en k])
              in rbind (own_error value_path (vs x value_path)) (\<lambda>x'.
                 if hashable k' then Inr (k', x') else Inl PyTypeError))) d)
            (\<lambda>kvs. Inr (PDict (fold (\<lambda>(k, x) acc. pd_set k x acc) kvs [])))
      | _ \<Rightarrow> expectation en path ''dict'' v)"

definition key_dict_with :: "schema_env \<Rightarrow> (string \<times> coercer) list \<Rightarrow> string list \<Rightarrow> coercer" where
  "key_dict_with en ss optional v path =
     (case v of
        PDict d \<Rightarrow>
          (let base = (if path = [] then [] else path @ [''.'']) in
           rbind (rmap (\<lambda>(k, x).
               case List.find (\<lambda>(k', _). py_eq (PStr k') k) ss of
                 None \<Rightarrow> Inr (k, x)
               | Some (_, f) \<Rightarrow>
                   rbind (own_error (base @ [key_text en k]) (f x (base @ [key_text en k]))) (\<lambda>x'.
                   Inr (k, x'))) d) (\<lambda>kvs.
           case List.find (\<lambda>(k, _). is_missing d optional k) ss of
             Some (k, _) \<Rightarrow> schema_error (base @ [k]) (Own (base @ [k])) ''required value not found''
           | None \<Rightarrow> Inr (PDict (fold (\<lambda>(k, x) acc. pd_set k x acc) kvs []))))
      | _ \<Rightarrow> expectation en path ''dict'' v)"

lemma coerce_SDict: "coerce en (SDict ks vs) = dict_with en (coerce en ks) (coerce en vs)"
  by (simp add: fun_eq_iff dict_with_def)

lemma coerce_KeyDict: "coerce en (KeyDict ss optional) = key_dict_with en (map (\<lambda>(k, s). (k, coerce en s)) ss) optional"
proof -
  have find: "List.find Q (map g ss) = map_option g (List.find (\<lambda>p. Q (g p)) ss)"
    for Q and g :: "string \<times> schema \<Rightarrow> string \<times> coercer"
    by (induction ss) auto
  show ?thesis
    by (simp add: fun_eq_iff key_dict_with_def find Let_def comp_def case_prod_unfold del: py_eq.simps split: pyval.split cong: option.case_cong)
qed

section \<open>Metadata\<close>

abbreviation UTF8_SCHEMA :: schema where
  "UTF8_SCHEMA \<equiv> UnicodeOrString ''utf-8''"

definition SCOPE_GLOBAL :: pyval where
  "SCOPE_GLOBAL = PStr ''global''"

definition SCOPE_CONTAINER :: pyval where
  "SCOPE_CONTAINER = PStr ''container''"

definition INTERFACE_SCHEMA :: schema where
  "INTERFACE_SCHEMA = KeyDict
     [(''interface'', UTF8_SCHEMA), (''limit'', OneOf [Constant PNone, SInt]),
      (''scope'', OneOf [Constant SCOPE_GLOBAL, Constant SCOPE_CONTAINER]), (''optional'', SBool)] [''scope'']"

definition expand_interface :: "pyval \<Rightarrow> (pyval \<times> pyval) list \<Rightarrow> (pyval \<times> pyval) list" where
  "expand_interface limit d =
     (let d = (if pd_get d (PStr ''limit'') = None then pd_set (PStr ''limit'') limit d else d);
          d = (if pd_get d (PStr ''optional'') = None then pd_set (PStr ''optional'') (PBool False) d else d)
      in pd_set (PStr ''scope'') (case pd_get d (PStr ''scope'') of None \<Rightarrow> SCOPE_GLOBAL | Some v \<Rightarrow> v) d)"

definition interface_expander :: "schema_env \<Rightarrow> pyval \<Rightarrow> coercer" where
  "interface_expander en limit v path =
     (case v of
        PDict d \<Rightarrow> coerce en INTERFACE_SCHEMA (PDict (expand_interface limit d)) path
      | _ \<Rightarrow> rbind (coerce en UTF8_SCHEMA v path) (\<lambda>interface.
          Inr (PDict [(PStr ''interface'', interface), (PStr ''limit'', limit), (PStr ''scope'', SCOPE_GLOBAL),
                      (PStr ''optional'', PBool False)])))"

definition METADATA_SCHEMA :: "schema_env \<Rightarrow> coercer" where
  "METADATA_SCHEMA en = key_dict_with en
     [(''name'', coerce en UTF8_SCHEMA), (''revision'', coerce en SInt), (''summary'', coerce en UTF8_SCHEMA),
      (''description'', coerce en UTF8_SCHEMA),
      (''peers'', dict_with en (coerce en UTF8_SCHEMA) (interface_expander en (PInt 1))),
      (''provides'', dict_with en (coerce en UTF8_SCHEMA) (interface_expander en PNone)),
      (''requires'', dict_with en (coerce en UTF8_SCHEMA) (interface_expander en (PInt 1))),
      (''subordinate'', coerce en SBool)] [''provides'', ''requires'', ''peers'', ''revision'', ''subordinate'']"

datatype metadata_error =
    BadCharmInfo "string option" string  \<comment> \<open>the path and the schema's message\<close>
  | ImplicitRelation pyval pyval  \<comment> \<open>name of the charm and of the relation\<close>
  | ImplicitInterface pyval pyval pyval
  | NotProperSubordinate "string option"
  | MetaRaised coerce_error  \<comment> \<open>an exception of Python's own\<close>

text \<open>The object is its \<open>_data\<close>.\<close>

definition meta_get :: "pyval \<Rightarrow> string \<Rightarrow> pyval \<Rightarrow> pyval" where
  "meta_get data key dflt =
     (case data of PDict d \<Rightarrow> (case pd_get d (PStr key) of None \<Rightarrow> dflt | Some v \<Rightarrow> v) | _ \<Rightarrow> dflt)"

definition meta_name :: "pyval \<Rightarrow> pyval" where
  "meta_name data = meta_get data ''name'' PNone"

definition obsolete_revision :: "pyval \<Rightarrow> pyval" where
  "obsolete_revision data = meta_get data ''revision'' PNone"

definition meta_summary :: "pyval \<Rightarrow> pyval" where
  "meta_summary data = meta_get data ''summary'' PNone"

definition meta_description :: "pyval \<Rightarrow> pyval" where
  "meta_description data = meta_get data ''description'' PNone"

definition meta_provides :: "pyval \<Rightarrow> pyval" where
  "meta_provides data = meta_get data ''provides'' PNone"

definition meta_requires :: "pyval \<Rightarrow> pyval" where
  "meta_requires data = meta_get data ''requires'' PNone"

definition meta_peers :: "pyval \<Rightarrow> pyval" where
  "meta_peers data = meta_get data ''peers'' PNone"

definition is_subordinate :: "pyval \<Rightarrow> bool" where
  "is_subordinate data = (meta_get data ''subordinate'' (PBool False) = PBool True)"

definition parse_serialization_data :: "schema_env \<Rightarrow> string option \<Rightarrow> pyval \<Rightarrow> metadata_error + pyval" where
  "parse_serialization_data en path data =
     (case METADATA_SCHEMA en data [] of
        Inl (SchemaError info ref) \<Rightarrow> Inl (BadCharmInfo path info)
      | Inl err \<Rightarrow> Inl (MetaRaised err)
      | Inr v \<Rightarrow> Inr v)"

definition get_serialization_data :: "pyval \<Rightarrow> pyval" where
  "get_serialization_data data = data"

definition entries :: "pyval \<Rightarrow> (pyval \<times> pyval) list" where
  "entries v = (case v of PDict d \<Rightarrow> d | _ \<Rightarrow> [])"

text \<open>\<open>startswith("juju-")\<close> of a name, which the schema has made unicode.\<close>

definition implicit_name :: "pyval \<Rightarrow> bool" where
  "implicit_name v = (case as_text v of None \<Rightarrow> False | Some u \<Rightarrow> take 5 u = map of_char ''juju-'')"

definition check_provided :: "pyval \<Rightarrow> pyval \<times> pyval \<Rightarrow> metadata_error + unit" where
  "check_provided charm_name = (\<lambda>(rel, data).
     if implicit_name rel then Inl (ImplicitRelation charm_name rel)
     else let interface = meta_get data ''interface'' PNone
       in guard_or (\<not> implicit_name interface) (ImplicitInterface charm_name interface rel))"

definition proper_subordinate :: "pyval \<Rightarrow> bool" where
  "proper_subordinate data = list_ex (\<lambda>(_, relation_data). py_eq (meta_get relation_data ''scope'' PNone) SCOPE_CONTAINER)
     (entries (meta_requires data))"

definition parse_metadata :: "schema_env \<Rightarrow> string option \<Rightarrow> pyval \<Rightarrow> metadata_error + pyval" where
  "parse_metadata en path content =
     rbind (parse_serialization_data en path content) (\<lambda>data.
     rbind (rmap (check_provided (meta_name data)) (entries (meta_provides data))) (\<lambda>_.
     if is_subordinate data \<and> \<not> proper_subordinate data then Inl (NotProperSubordinate path) else Inr data))"

end
