(* ===== verification/CharmConfig.thy ===== *)
theory CharmConfig
  imports CharmMetadata
begin

text \<open>\<open>juju/charm/config.py\<close>: the options a charm declares and the values its services may give them.\<close>

section \<open>Declarations\<close>

definition OPTION_SCHEMA :: schema where
  "OPTION_SCHEMA = KeyDict
     [(''type'', OneOf (map (\<lambda>s. Constant (PStr s)) [''string'', ''str'', ''int'', ''boolean'', ''float''])),
      (''default'', OneOf [SString, SInt, SFloat]), (''description'', SString)] [''default'', ''description'']"

definition CONFIG_SCHEMA :: schema where
  "CONFIG_SCHEMA = KeyDict [(''options'', SDict SString OPTION_SCHEMA)] []"

datatype config_error =
    ServiceConfigError string string  \<comment> \<open>path and message\<close>
  | UnknownOption pyval  \<comment> \<open>these three are \<open>ServiceConfigValueError\<close>\<close>
  | UnknownOptionType pyval
  | InvalidOptionValue pyval pyval
  | MarkedYAMLError string
  | ConfigRaised coerce_error  \<comment> \<open>an exception of Python's own\<close>

text \<open>The object is its \<open>_data\<close>: the declarations by name.\<close>

type_synonym config_options = "(pyval \<times> pyval) list"

definition parse_option_data :: "schema_env \<Rightarrow> string option \<Rightarrow> pyval \<Rightarrow> config_error + config_options" where
  "parse_option_data en pathname data =
     (let path = (case pathname of None \<Rightarrow> [] | Some p \<Rightarrow> p) in
      if entries data = [] then Inl (ServiceConfigError path ''Expected YAML dict of options metadata'')
      else case coerce en CONFIG_SCHEMA data [] of
        Inl (SchemaError info ref) \<Rightarrow> Inl (ServiceConfigError path (''Invalid options specification: '' @ info))
      | Inl err \<Rightarrow> Inl (ConfigRaised err)
      | Inr v \<Rightarrow> Inr (entries (meta_get v ''options'' PNone)))"

section \<open>Values\<close>

text \<open>\<open>int(value)\<close>: \<open>None\<close> is \<open>ValueError\<close>; the digits of unicode texts beyond ASCII are the parameter \<open>unicode_int\<close>.\<close>

definition py_int_of :: "(nat list \<Rightarrow> int option) \<Rightarrow> pyval \<Rightarrow> config_error + int option" where
  "py_int_of unicode_int v =
     (case v of
        PBool b \<Rightarrow> Inr (Some (if b then 1 else 0))
      | PInt i \<Rightarrow> Inr (Some i)
      | PFloat q \<Rightarrow> Inr (Some (if q < 0 then - \<lfloor>- q\<rfloor> else \<lfloor>q\<rfloor>))
      | PStr s \<Rightarrow> Inr (py_int s)
      | PUnicode u \<Rightarrow> Inr (if ascii u then py_int (map char_of u) else unicode_int u)
      | _ \<Rightarrow> Inl (ConfigRaised PyTypeError))"

text \<open>The validators: the value and whether it is valid.\<close>

definition validate_str :: "pyval \<Rightarrow> pyval \<times> bool" where
  "validate_str v = (v, as_text v \<noteq> None)"

definition validate_int :: "(nat list \<Rightarrow> int option) \<Rightarrow> pyval \<Rightarrow> config_error + pyval \<times> bool" where
  "validate_int unicode_int v =
     rbind (py_int_of unicode_int v) (\<lambda>n. Inr (case n of Some i \<Rightarrow> (PInt i, True) | None \<Rightarrow> (v, False)))"

definition validate_float :: "pyval \<Rightarrow> pyval \<times> bool" where
  "validate_float v = (case as_number v of Some q \<Rightarrow> (PFloat q, True) | None \<Rightarrow> (v, False))"

definition validate_boolean :: "pyval \<Rightarrow> pyval \<times> bool" where
  "validate_boolean v = (v, case v of PBool _ \<Rightarrow> True | _ \<Rightarrow> False)"

definition validation_kinds ::
  "(nat list \<Rightarrow> int option) \<Rightarrow> (pyval \<times> (pyval \<Rightarrow> config_error + pyval \<times> bool)) list" where
  "validation_kinds unicode_int =
     [(PStr ''string'', Inr \<circ> validate_str), (PStr ''str'', Inr \<circ> validate_str), (PStr ''int'', validate_int unicode_int),
      (PStr ''float'', Inr \<circ> validate_float), (PStr ''boolean'', Inr \<circ> validate_boolean)]"

definition validate_one ::
  "(nat list \<Rightarrow> int option) \<Rightarrow> config_options \<Rightarrow> pyval \<Rightarrow> pyval \<Rightarrow> config_error + pyval" where
  "validate_one unicode_int data name v =
     (case pd_get data name of
        None \<Rightarrow> Inl (ConfigRaised PyKeyError)
      | Some declared \<Rightarrow>
          let kind = meta_get declared ''type'' (PStr ''string'') in
          (case pd_get (validation_kinds unicode_int) kind of
             None \<Rightarrow> Inl (UnknownOptionType kind)
           | Some validator \<Rightarrow>
               rbind (validator v) (\<lambda>(v, valid). if valid then Inr v else Inl (InvalidOptionValue name v))))"

definition has_default :: "pyval \<Rightarrow> bool" where
  "has_default declared = (pd_get (entries declared) (PStr ''default'') \<noteq> None)"

definition get_defaults :: "(nat list \<Rightarrow> int option) \<Rightarrow> config_options \<Rightarrow> config_error + (pyval \<times> pyval) list" where
  "get_defaults unicode_int data =
     rmap (\<lambda>(name, declared). rbind (validate_one unicode_int data name (meta_get declared ''default'' PNone)) (\<lambda>v. Inr (name, v)))
       (filter (\<lambda>(_, declared). has_default declared) data)"

definition validate_options ::
  "(nat list \<Rightarrow> int option) \<Rightarrow> config_options \<Rightarrow> (pyval \<times> pyval) list \<Rightarrow> config_error + (pyval \<times> pyval) list" where
  "validate_options unicode_int data options =
     rmap (\<lambda>(name, v).
       if pd_get data name = None then Inl (UnknownOption name)
       else rbind (validate_one unicode_int data name v) (\<lambda>v. Inr (name, v))) options"

definition parse_config ::
  "schema_env \<Rightarrow> (nat list \<Rightarrow> int option) \<Rightarrow> (pyval \<Rightarrow> config_error + pyval) \<Rightarrow> string option \<Rightarrow> pyval \<Rightarrow> config_error + config_options" where
  "parse_config en unicode_int yaml_load pathname data =
     rbind (case data of
              PStr _ \<Rightarrow> yaml_load data
            | PUnicode _ \<Rightarrow> yaml_load data
            | PDict _ \<Rightarrow> Inr data
            | _ \<Rightarrow> Inl (ServiceConfigError (case pathname of None \<Rightarrow> [] | Some p \<Rightarrow> p) ''Unknown data type for config options''))
       (\<lambda>raw_data.
     rbind (parse_option_data en pathname raw_data) (\<lambda>options.
     rbind (get_defaults unicode_int options) (\<lambda>_. Inr options)))"

definition load_config ::
  "schema_env \<Rightarrow> (nat list \<Rightarrow> int option) \<Rightarrow> (pyval \<Rightarrow> config_error + pyval) \<Rightarrow> (string \<Rightarrow> string option) \<Rightarrow> string \<Rightarrow> config_error + config_options" where
  "load_config en unicode_int yaml_load read_file pathname =
     (case read_file pathname of
        None \<Rightarrow> parse_config en unicode_int yaml_load None (PStr (''options: {}'' @ [CHR 0x0A]))
      | Some [] \<Rightarrow> Inl (ServiceConfigError pathname ''Missing required service options metadata'')
      | Some text \<Rightarrow> parse_config en unicode_int yaml_load (Some pathname) (PStr text))"

definition config_serialization :: "config_options \<Rightarrow> pyval" where
  "config_serialization data = PDict [(PStr ''options'', PDict data)]"

end
