(* ===== verification/CharmMetadataProps.thy ===== *)
theory CharmMetadataProps
  imports CharmMetadata SchemaProps
begin

text \<open>Metadata read back from where it was stored is what was stored.\<close>

section \<open>Stable coercers\<close>

text \<open>What a coercer returns it returns unchanged, wherever it stands.\<close>

definition stable :: "coercer \<Rightarrow> bool" where
  "stable f \<longleftrightarrow> (\<forall>v p w q. keys_apart v \<longrightarrow> f v p = Inr w \<longrightarrow> f w q = Inr w)"

lemma stableD: "stable f \<Longrightarrow> keys_apart v \<Longrightarrow> f v p = Inr w \<Longrightarrow> f w q = Inr w"
  unfolding stable_def by blast

lemma stable_validating:
  assumes "validating s"
  shows "stable (coerce en s)"
  unfolding stable_def
proof (intro allI impI)
  fix v p w q
  assume "keys_apart v" and ok: "coerce en s v p = Inr w"
  then have "w = v" using validating_returns [OF assms] by blast
  moreover have "kind (coerce en s v q) = Inr w" using coerce_kind [of en s v q p] ok by simp
  ultimately show "coerce en s w q = Inr w" by (simp add: kind_Inr)
qed

lemma stable_utf8: "stable (coerce en UTF8_SCHEMA)"
  by (auto simp: stable_def split: pyval.splits option.splits)

lemma fold_pd_set_keys:
  "(k, x) \<in> set (fold (\<lambda>(k, x) acc. pd_set k x acc) kvs acc) \<Longrightarrow>
    (k \<in> fst ` set kvs \<or> k \<in> fst ` set acc) \<and> (x \<in> snd ` set kvs \<or> x \<in> snd ` set acc)"
proof (induction kvs arbitrary: acc)
  case (Cons p kvs)
  have "(k, x) \<in> set (pd_set k' x' acc) \<Longrightarrow>
      (k = k' \<or> k \<in> fst ` set acc) \<and> (x = x' \<or> x \<in> snd ` set acc)" for k' x' k x
  proof (induction acc)
    case (Cons a acc)
    then show ?case by (cases a) (force split: if_splits)
  qed simp
  then have set: "k \<in> fst ` set (pd_set k' x' acc) \<Longrightarrow> k = k' \<or> k \<in> fst ` set acc"
      "x \<in> snd ` set (pd_set k' x' acc) \<Longrightarrow> x = x' \<or> x \<in> snd ` set acc" for k' x' k x
    by (auto simp: image_iff) fastforce+
  obtain k' x' where p: "p = (k', x')" by (cases p)
  from Cons.IH [of "pd_set k' x' acc"] Cons.prems p set [of _ k' x'] show ?case
    by (simp add: p) blast
qed (force simp: image_iff)

lemma pd_set_keys: "map fst (pd_set k x d) = (if \<exists>k'\<in>fst ` set d. py_eq k' k then map fst d else map fst d @ [k])"
  by (induction d) force+

lemma pd_set_apart:
  assumes "\<forall>i < length d. \<forall>j < i. \<not> py_eq (fst (d ! j)) (fst (d ! i))"
  shows "\<forall>i < length (pd_set k x d). \<forall>j < i. \<not> py_eq (fst (pd_set k x d ! j)) (fst (pd_set k x d ! i))"
proof -
  have nth: "(\<forall>i < length d. \<forall>j < i. \<not> py_eq (fst (d ! j)) (fst (d ! i))) \<longleftrightarrow>
      (\<forall>i < length (map fst d). \<forall>j < i. \<not> py_eq (map fst d ! j) (map fst d ! i))" for d :: "(pyval \<times> 'v) list"
    by simp
  have "\<not> py_eq (map fst d ! j) k" if "\<not> (\<exists>k'\<in>fst ` set d. py_eq k' k)" "j < length d" for j
    using that by (metis image_eqI length_map list.set_map nth_mem)
  with assms show ?thesis unfolding nth pd_set_keys by (auto simp: nth_append less_Suc_eq)
qed

lemma fold_pd_set_apart:
  assumes "\<forall>i < length acc. \<forall>j < i. \<not> py_eq (fst (acc ! j)) (fst (acc ! i))"
  shows "fold (\<lambda>(k, x) a. pd_set k x a) (fold (\<lambda>(k, x) a. pd_set k x a) kvs acc) [] = fold (\<lambda>(k, x) a. pd_set k x a) kvs acc"
proof -
  have "\<forall>i < length (fold (\<lambda>(k, x) a. pd_set k x a) kvs acc). \<forall>j < i.
      \<not> py_eq (fst (fold (\<lambda>(k, x) a. pd_set k x a) kvs acc ! j)) (fst (fold (\<lambda>(k, x) a. pd_set k x a) kvs acc ! i))"
    using assms
  proof (induction kvs arbitrary: acc)
    case (Cons p kvs)
    from Cons.IH [OF pd_set_apart [OF Cons.prems, of "fst p" "snd p"]] show ?case by (simp add: case_prod_unfold)
  qed simp
  then show ?thesis using fold_pd_set [of "[]"] by simp
qed

lemma stable_dict_with:
  assumes ks: "stable ks" and vs: "stable vs"
  shows "stable (dict_with en ks vs)"
  unfolding stable_def
proof (intro allI impI)
  fix v p w q
  assume apart: "keys_apart v" and ok: "dict_with en ks vs v p = Inr w"
  obtain d where v: "v = PDict d" using ok by (cases v) (simp_all add: dict_with_def)
  with ok obtain kvs where w: "w = PDict (fold (\<lambda>(k, x) acc. pd_set k x acc) kvs [])"
    and all: "list_all2 (\<lambda>(k, x) y. rbind (ks k p) (\<lambda>k'.
              let value_path = (if p = [] then [key_text en k] else p @ [''.'', key_text en k])
              in rbind (own_error value_path (vs x value_path)) (\<lambda>x'.
                 if hashable k' then Inr (k', x') else Inl PyTypeError)) = Inr y) d kvs"
    by (auto simp: dict_with_def rbind_eq_Inr rmap_prod_eq_Inr)
  have steps: "list_all2 (\<lambda>(k, x) y. hashable (fst y) \<and> ks k p = Inr (fst y) \<and> (\<exists>r. vs x r = Inr (snd y))) d kvs"
    by (rule list_all2_mono [OF all]) (auto simp: rbind_eq_Inr Let_def split: if_splits)
  let ?R = "fold (\<lambda>(k, x) acc. pd_set k x acc) kvs []"
  have elem: "(\<exists>k p. keys_apart k \<and> ks k p = Inr k') \<and> hashable k' \<and> (\<exists>x p. keys_apart x \<and> vs x p = Inr x')"
    if mem: "(k', x') \<in> set kvs" for k' x'
  proof -
    have len: "length d = length kvs" using list_all2_lengthD [OF steps] .
    obtain i where i: "i < length d" "kvs ! i = (k', x')" using mem len by (auto simp: in_set_conv_nth)
    obtain k x where kx: "d ! i = (k, x)" by (cases "d ! i")
    then have "(k, x) \<in> set d" using nth_mem [OF i(1)] by simp
    from keys_apart_dictD [OF apart [unfolded v] this] have "keys_apart k" "keys_apart x" by simp_all
    moreover have "hashable k'" "ks k p = Inr k'" "\<exists>r. vs x r = Inr x'"
      using list_all2_nthD [OF steps i(1)] by (simp_all add: kx i(2))
    ultimately show ?thesis by blast
  qed
  have again: "ks k' q' = Inr k' \<and> hashable k' \<and> vs x' q'' = Inr x'" if "(k', x') \<in> set ?R" for k' x' q' q''
  proof -
    have "k' \<in> fst ` set kvs" "x' \<in> snd ` set kvs" using fold_pd_set_keys [OF that] by auto
    then obtain x1 k1 where "(k', x1) \<in> set kvs" "(k1, x') \<in> set kvs" by auto
    from elem [OF this(1)] elem [OF this(2)] show ?thesis using stableD [OF ks] stableD [OF vs] by blast
  qed
  have "rmap (\<lambda>(k, x).
              rbind (ks k q) (\<lambda>k'.
              let value_path = (if q = [] then [key_text en k] else q @ [''.'', key_text en k])
              in rbind (own_error value_path (vs x value_path)) (\<lambda>x'.
                 if hashable k' then Inr (k', x') else Inl PyTypeError))) ?R = Inr ?R"
    unfolding rmap_prod_eq_Inr
    by (rule list_all2_all_nthI) (auto simp: again Let_def own_error_def dest!: nth_mem split: prod.splits)
  then show "dict_with en ks vs w q = Inr w"
    by (simp add: dict_with_def w fold_pd_set_apart)
qed

lemma pd_get_None: "pd_get d k = None \<longleftrightarrow> (\<forall>k'\<in>set (map fst d). \<not> py_eq k' k)"
  by (auto simp: pd_get_def find_None_iff)

text \<open>One entry of a \<open>KeyDict\<close>.\<close>

definition key_entry :: "schema_env \<Rightarrow> (string \<times> coercer) list \<Rightarrow> string list \<Rightarrow> pyval \<times> pyval \<Rightarrow> coerce_error + pyval \<times> pyval" where
  "key_entry en ss base = (\<lambda>(k, x). case List.find (\<lambda>(k', _). py_eq (PStr k') k) ss of
     None \<Rightarrow> Inr (k, x)
   | Some (_, f) \<Rightarrow> rbind (own_error (base @ [key_text en k]) (f x (base @ [key_text en k]))) (\<lambda>x'. Inr (k, x')))"

lemma key_dict_entries:
  "key_dict_with en ss optional (PDict d) p = (let base = (if p = [] then [] else p @ [''.'']) in
      rbind (rmap (key_entry en ss base) d) (\<lambda>kvs.
           case List.find (\<lambda>(k, _). is_missing d optional k) ss of
             Some (k, _) \<Rightarrow> schema_error (base @ [k]) (Own (base @ [k])) ''required value not found''
           | None \<Rightarrow> Inr (PDict (fold (\<lambda>(k, x) acc. pd_set k x acc) kvs []))))"
  by (simp add: key_dict_with_def key_entry_def)

lemma key_entry_key: "key_entry en ss base kx = Inr y \<Longrightarrow> fst y = fst kx"
  by (cases kx; cases "List.find (\<lambda>(k', _). py_eq (PStr k') (fst kx)) ss") (auto simp: key_entry_def rbind_eq_Inr)

lemma key_dict_result:
  assumes apart: "keys_apart (PDict d)" and ok: "key_dict_with en ss optional (PDict d) p = Inr w"
  obtains kvs where "w = PDict kvs" "map fst kvs = map fst d" "fold (\<lambda>(k, x) acc. pd_set k x acc) kvs [] = kvs"
    "list_all2 (\<lambda>kx y. key_entry en ss (if p = [] then [] else p @ [''.'']) kx = Inr y) d kvs"
    "List.find (\<lambda>(k, _). is_missing d optional k) ss = None"
proof -
  define base where "base = (if p = [] then [] else p @ [''.''])"
  obtain kvs where all: "list_all2 (\<lambda>kx y. key_entry en ss base kx = Inr y) d kvs"
    and rest: "(case List.find (\<lambda>(k, _). is_missing d optional k) ss of
             Some (k, _) \<Rightarrow> schema_error (base @ [k]) (Own (base @ [k])) ''required value not found''
           | None \<Rightarrow> Inr (PDict (fold (\<lambda>(k, x) acc. pd_set k x acc) kvs []))) = Inr w"
    using ok unfolding key_dict_entries Let_def base_def [symmetric] by (auto simp: rbind_eq_Inr rmap_eq_Inr)
  have missing: "List.find (\<lambda>(k, _). is_missing d optional k) ss = None"
    using rest by (cases "List.find (\<lambda>(k, _). is_missing d optional k) ss") auto
  have same: "map fst kvs = map fst d"
    using all by (induction rule: list_all2_induct) (simp_all add: key_entry_key)
  then have "length kvs = length d" by (metis length_map)
  then have "\<forall>i < length kvs. \<forall>j < i. \<not> py_eq (fst (kvs ! j)) (fst (kvs ! i))"
    using same apart by (simp add: list_eq_iff_nth_eq)
  then have fold: "fold (\<lambda>(k, x) acc. pd_set k x acc) kvs [] = kvs" using fold_pd_set [of "[]" kvs] by simp
  with rest missing have w: "w = PDict kvs" by simp
  show thesis by (rule that [OF w same fold all [unfolded base_def] missing])
qed

lemma stable_key_dict:
  assumes "\<forall>f\<in>snd ` set ss. stable f"
  shows "stable (key_dict_with en ss optional)"
  unfolding stable_def
proof (intro allI impI)
  fix v p w q
  assume apart: "keys_apart v" and ok: "key_dict_with en ss optional v p = Inr w"
  obtain d where v: "v = PDict d" using ok by (cases v) (simp_all add: key_dict_with_def)
  define base where "base = (if p = [] then [] else p @ [''.''])"
  obtain kvs where w: "w = PDict kvs" and same: "map fst kvs = map fst d"
    and fold: "fold (\<lambda>(k, x) acc. pd_set k x acc) kvs [] = kvs"
    and all: "list_all2 (\<lambda>kx y. key_entry en ss base kx = Inr y) d kvs"
    and missing: "List.find (\<lambda>(k, _). is_missing d optional k) ss = None"
    using key_dict_result [OF apart [unfolded v] ok [unfolded v]] unfolding base_def by metis
  have step: "key_entry en ss base' y = Inr y" if mem: "kx \<in> set d" and ent: "key_entry en ss base kx = Inr y" for kx y base'
  proof -
    obtain k x where kx: "kx = (k, x)" by (cases kx)
    show ?thesis
    proof (cases "List.find (\<lambda>(k', _). py_eq (PStr k') k) ss")
      case None
      then show ?thesis using ent by (auto simp: kx key_entry_def)
    next
      case (Some kf)
      obtain k' f where kf: "kf = (k', f)" by (cases kf)
      then have "f \<in> snd ` set ss" using Some find_in by force
      then have f: "stable f" using assms by blast
      obtain x' r where y: "y = (k, x')" "f x r = Inr x'" using ent Some kf by (auto simp: kx key_entry_def rbind_eq_Inr)
      have "keys_apart x" using keys_apart_dictD [OF apart [unfolded v]] mem kx by blast
      from stableD [OF f this y(2)] show ?thesis using Some kf by (simp add: kx key_entry_def y(1) own_error_def)
    qed
  qed
  have "list_all2 (\<lambda>kx y. kx \<in> set d \<and> key_entry en ss base kx = Inr y) d kvs"
    using all by (simp add: list_all2_conv_all_nth)
  then have "list_all2 (\<lambda>kx y. key_entry en ss base' y = Inr y) d kvs" for base'
    by (rule list_all2_mono) (use step in blast)
  then have "rmap (key_entry en ss base') kvs = Inr kvs" for base'
    by (auto simp: rmap_eq_Inr list_all2_conv_all_nth)
  moreover have "is_missing kvs = is_missing d"
    by (simp add: fun_eq_iff is_missing_def pd_get_None same del: set_map)
  ultimately show "key_dict_with en ss optional w q = Inr w"
    using missing fold unfolding w key_dict_entries Let_def by simp
qed

section \<open>Metadata\<close>

lemma pd_set_same: "pd_get d k = Some v \<Longrightarrow> pd_set k v d = d"
  by (induction d) (auto simp: pd_get_def)

lemma stable_interface: "stable (coerce en INTERFACE_SCHEMA)"
  unfolding INTERFACE_SCHEMA_def coerce_KeyDict
  by (rule stable_key_dict) (use stable_utf8 stable_validating in auto)

lemma pd_get_set: "pd_get (pd_set k v d) k' = None \<Longrightarrow> pd_get d k' = None"
  unfolding pd_get_None pd_set_keys by (auto split: if_splits)

lemma apart_Cons: "keys_apart (PDict d) \<longleftrightarrow>
    (\<forall>(k, v)\<in>set d. keys_apart k \<and> keys_apart v) \<and> (\<forall>i < length d. \<forall>j < i. \<not> py_eq (fst (d ! j)) (fst (d ! i)))"
  by (simp add: list_all_iff)

lemma pd_set_keys_apart:
  assumes "keys_apart (PDict d)" and "keys_apart k" and "keys_apart v"
  shows "keys_apart (PDict (pd_set k v d))"
proof -
  have "\<forall>(k', v')\<in>set d. keys_apart k' \<and> keys_apart v'" using assms(1) unfolding apart_Cons by blast
  then have "\<forall>(k', v')\<in>set (pd_set k v d). keys_apart k' \<and> keys_apart v'"
    using assms(2,3) by (induction d) (auto split: if_splits)
  then show ?thesis using pd_set_apart [of d k v] assms(1) unfolding apart_Cons by blast
qed

lemma expand_apart:
  assumes "limit = PNone \<or> limit = PInt n" and "keys_apart (PDict d)"
  shows "keys_apart (PDict (expand_interface limit d))"
proof -
  define d1 where "d1 = (if pd_get d (PStr ''limit'') = None then pd_set (PStr ''limit'') limit d else d)"
  define d2 where "d2 = (if pd_get d1 (PStr ''optional'') = None then pd_set (PStr ''optional'') (PBool False) d1 else d1)"
  have limit: "keys_apart limit" using assms(1) by auto
  have "keys_apart (PDict d1)" unfolding d1_def using pd_set_keys_apart [OF assms(2) _ limit] assms(2) by simp
  then have d2: "keys_apart (PDict d2)" unfolding d2_def using pd_set_keys_apart [of d1 "PStr ''optional''" "PBool False"] by simp
  have "keys_apart (case pd_get d2 (PStr ''scope'') of None \<Rightarrow> SCOPE_GLOBAL | Some v \<Rightarrow> v)"
  proof (cases "pd_get d2 (PStr ''scope'')")
    case (Some v)
    then obtain k where "(k, v) \<in> set d2" by (auto simp: pd_get_def dest!: find_SomeD)
    with keys_apart_dictD [OF d2] Some show ?thesis by simp
  qed (simp add: SCOPE_GLOBAL_def)
  from pd_set_keys_apart [OF d2 _ this] show ?thesis
    unfolding expand_interface_def Let_def d1_def [symmetric] d2_def [symmetric] by simp
qed

lemma pd_get_set_same: "pd_get (pd_set (PStr k) v d) (PStr k) \<noteq> None"
  unfolding pd_get_None pd_set_keys by auto

lemma expanded:
  assumes "map fst kvs = map fst (expand_interface limit d)"
  shows "expand_interface limit kvs = kvs"
proof -
  define d1 where "d1 = (if pd_get d (PStr ''limit'') = None then pd_set (PStr ''limit'') limit d else d)"
  define d2 where "d2 = (if pd_get d1 (PStr ''optional'') = None then pd_set (PStr ''optional'') (PBool False) d1 else d1)"
  have "pd_get d1 (PStr ''limit'') \<noteq> None" unfolding d1_def using pd_get_set_same by auto
  then have d2: "pd_get d2 (PStr ''limit'') \<noteq> None" "pd_get d2 (PStr ''optional'') \<noteq> None"
    using pd_get_set [of "PStr ''optional''" "PBool False" d1 "PStr ''limit''"] pd_get_set_same [of "''optional''" "PBool False" d1]
    unfolding d2_def by presburger+
  have keys: "pd_get kvs k = None \<longleftrightarrow> pd_get (expand_interface limit d) k = None" for k
    unfolding pd_get_None using assms by simp
  have d: "expand_interface limit d = pd_set (PStr ''scope'') (case pd_get d2 (PStr ''scope'') of None \<Rightarrow> SCOPE_GLOBAL | Some v \<Rightarrow> v) d2"
    unfolding expand_interface_def Let_def d1_def [symmetric] d2_def [symmetric] by simp
  have "pd_get kvs (PStr ''limit'') \<noteq> None" "pd_get kvs (PStr ''optional'') \<noteq> None" "pd_get kvs (PStr ''scope'') \<noteq> None"
    unfolding keys d using d2 pd_get_set pd_get_set_same by metis+
  then show ?thesis using pd_set_same [of kvs "PStr ''scope''"]
    by (auto simp: expand_interface_def Let_def)
qed

lemma stable_expander: "stable (interface_expander en limit)" if limit: "limit = PNone \<or> limit = PInt n"
  unfolding stable_def
proof (intro allI impI)
  fix v p w q
  assume apart: "keys_apart v" and ok: "interface_expander en limit v p = Inr w"
  show "interface_expander en limit w q = Inr w"
  proof (cases "\<exists>d. v = PDict d")
    case False
    then obtain u where u: "coerce en UTF8_SCHEMA v p = Inr u" and w: "w = PDict [(PStr ''interface'', u), (PStr ''limit'', limit),
        (PStr ''scope'', SCOPE_GLOBAL), (PStr ''optional'', PBool False)]"
      using ok by (auto simp: interface_expander_def rbind_eq_Inr split: pyval.splits)
    then obtain t where "u = PUnicode t" by (auto split: pyval.splits option.splits)
    then show ?thesis using limit
      by (auto simp: w interface_expander_def expand_interface_def pd_get_def INTERFACE_SCHEMA_def SCOPE_GLOBAL_def
          SCOPE_CONTAINER_def own_error_def Let_def is_missing_def as_number_def expectation_def schema_error_def)
  next
    case True
    then obtain d where v: "v = PDict d" by blast
    let ?d = "expand_interface limit d"
    have "coerce en INTERFACE_SCHEMA (PDict ?d) p = Inr w" using ok by (simp add: v interface_expander_def)
    note ok = this and ok' = this [unfolded INTERFACE_SCHEMA_def coerce_KeyDict]
    have apart': "keys_apart (PDict ?d)" using expand_apart [OF limit] apart v by simp
    obtain kvs where w: "w = PDict kvs" and same: "map fst kvs = map fst ?d"
      using key_dict_result [OF apart' ok'] by metis
    have "expand_interface limit kvs = kvs" using expanded [OF same] .
    then show ?thesis using stableD [OF stable_interface apart' ok]
      by (simp add: interface_expander_def w)
  qed
qed

lemma stable_metadata: "stable (METADATA_SCHEMA en)"
proof -
  have "stable (interface_expander en PNone)" "stable (interface_expander en (PInt 1))"
    by (rule stable_expander [where n = 0], simp) (rule stable_expander [where n = 1], simp)
  then show ?thesis unfolding METADATA_SCHEMA_def
    by (intro stable_key_dict) (use stable_utf8 stable_validating stable_dict_with in auto)
qed

text \<open>
  Metadata survives its way through ZooKeeper. What \<open>parse_serialization_data\<close> makes of a document, with the
  short forms of interfaces expanded and the texts decoded, it makes of the serialization data of the object again,
  whatever the path; so a charm's state has the metadata the charm had.
\<close>

theorem metadata_roundtrip:
  assumes "keys_apart content" and "parse_serialization_data en path content = Inr data"
  shows "parse_serialization_data en path' (get_serialization_data data) = Inr data"
proof -
  have "METADATA_SCHEMA en content [] = Inr data"
    using assms(2) by (auto simp: parse_serialization_data_def split: sum.splits coerce_error.splits)
  from stableD [OF stable_metadata assms(1) this] show ?thesis
    by (simp add: parse_serialization_data_def get_serialization_data_def)
qed

definition meta_content :: pyval where
  "meta_content = PDict
     [(PStr ''name'', PStr ''logging''), (PStr ''summary'', PStr ''s''), (PStr ''description'', PStr ''d''),
      (PStr ''subordinate'', PBool True),
      (PStr ''provides'', PDict [(PStr ''web'', PStr ''http'')]),
      (PStr ''requires'', PDict [(PStr ''info'', PDict [(PStr ''interface'', PStr ''logs''), (PStr ''scope'', PStr ''container'')])])]"

definition ascii_env :: schema_env where
  "ascii_env = \<lparr>en_repr = (\<lambda>_. ''?''), en_str = (\<lambda>v. case v of PStr s \<Rightarrow> Some s | _ \<Rightarrow> None),
     en_decode = (\<lambda>_ s. Some (map of_char s)), en_regex_ok = (\<lambda>_. True)\<rparr>"

definition meta_data :: pyval where
  "meta_data = (case parse_metadata ascii_env None meta_content of Inr d \<Rightarrow> d | Inl _ \<Rightarrow> PNone)"

lemma meta_parsed: "parse_metadata ascii_env None meta_content = Inr meta_data"
proof -
  have "case parse_metadata ascii_env None meta_content of Inl _ \<Rightarrow> False | Inr _ \<Rightarrow> True" by code_simp
  then show ?thesis by (auto simp: meta_data_def split: sum.splits)
qed

theorem metadata_roundtrip_witness:
  "parse_serialization_data ascii_env (Some ''/charms/x'') meta_data = Inr meta_data
    \<and> meta_get (meta_get (meta_provides meta_data) ''web'' PNone) ''scope'' PNone = PStr ''global''"
proof -
  have "keys_apart meta_content" by (auto simp: meta_content_def less_Suc_eq nth_Cons')
  moreover have "parse_serialization_data ascii_env None meta_content = Inr meta_data"
    using meta_parsed by (simp add: parse_metadata_def result_simps) (auto split: if_splits)
  moreover have "meta_get (meta_get (meta_provides meta_data) ''web'' PNone) ''scope'' PNone = PStr ''global''" by code_simp
  ultimately show ?thesis
    using metadata_roundtrip [of meta_content ascii_env None meta_data "Some ''/charms/x''"]
    by (simp add: get_serialization_data_def)
qed

text \<open>
  A charm that is accepted provides nothing under a name of juju's own, and if it is a subordinate it requires a relation
  in its container.
\<close>

theorem accepted_metadata:
  assumes "parse_metadata en path content = Inr data"
  shows "(\<forall>(rel, spec)\<in>set (entries (meta_provides data)). \<not> implicit_name rel \<and> \<not> implicit_name (meta_get spec ''interface'' PNone))
    \<and> (is_subordinate data \<longrightarrow> (\<exists>(rel, spec)\<in>set (entries (meta_requires data)). py_eq (meta_get spec ''scope'' PNone) SCOPE_CONTAINER))"
proof -
  obtain us where checks: "list_all2 (\<lambda>x y. check_provided (meta_name data) x = Inr y) (entries (meta_provides data)) us"
    and "\<not> (is_subordinate data \<and> \<not> proper_subordinate data)"
    using assms by (auto simp: parse_metadata_def result_simps split: if_splits)
  moreover have "\<not> implicit_name rel \<and> \<not> implicit_name (meta_get spec ''interface'' PNone)"
    if mem: "(rel, spec) \<in> set (entries (meta_provides data))" for rel spec
  proof -
    obtain i where "i < length (entries (meta_provides data))" "entries (meta_provides data) ! i = (rel, spec)"
      using mem unfolding in_set_conv_nth by blast
    then have "check_provided (meta_name data) (rel, spec) = Inr (us ! i)" using list_all2_nthD [OF checks, of i] by simp
    then show ?thesis by (auto simp: check_provided_def Let_def result_simps split: if_splits)
  qed
  ultimately show ?thesis by (auto simp: proper_subordinate_def list_ex_iff)
qed

end
