(* ===== verification/CharmConfigProps.thy ===== *)
theory CharmConfigProps
  imports CharmConfig CharmMetadataProps
begin

text \<open>The values a service gets have the types its charm declares.\<close>

section \<open>Types of values\<close>

definition of_kind :: "pyval \<Rightarrow> pyval \<Rightarrow> bool" where
  "of_kind knd v \<longleftrightarrow>
     (if py_eq (PStr ''string'') knd \<or> py_eq (PStr ''str'') knd then as_text v \<noteq> None
      else if py_eq (PStr ''int'') knd then \<exists>i. v = PInt i
      else if py_eq (PStr ''float'') knd then \<exists>q. v = PFloat q
      else py_eq (PStr ''boolean'') knd \<and> (\<exists>b. v = PBool b))"

definition declared_kind :: "config_options \<Rightarrow> pyval \<Rightarrow> pyval option" where
  "declared_kind data name = map_option (\<lambda>declared. meta_get declared ''type'' (PStr ''string'')) (pd_get data name)"

lemma kind_validator:
  assumes "pd_get (validation_kinds ui) knd = Some f" and "f v = Inr (w, True)"
  shows "of_kind knd w \<and> f w = Inr (w, True)"
proof -
  have cases: "(py_eq (PStr ''string'') knd \<or> py_eq (PStr ''str'') knd) \<and> f = Inr \<circ> validate_str
      \<or> \<not> py_eq (PStr ''string'') knd \<and> \<not> py_eq (PStr ''str'') knd \<and> py_eq (PStr ''int'') knd \<and> f = validate_int ui
      \<or> \<not> py_eq (PStr ''string'') knd \<and> \<not> py_eq (PStr ''str'') knd \<and> \<not> py_eq (PStr ''int'') knd
        \<and> py_eq (PStr ''float'') knd \<and> f = Inr \<circ> validate_float
      \<or> \<not> py_eq (PStr ''string'') knd \<and> \<not> py_eq (PStr ''str'') knd \<and> \<not> py_eq (PStr ''int'') knd
        \<and> \<not> py_eq (PStr ''float'') knd \<and> py_eq (PStr ''boolean'') knd \<and> f = Inr \<circ> validate_boolean"
    using assms(1) by (simp add: validation_kinds_def pd_get_def del: py_eq.simps split: if_splits)
  have str: "f = Inr \<circ> validate_str \<Longrightarrow> w = v \<and> as_text v \<noteq> None" using assms(2) by (auto simp: validate_str_def)
  have int: "f = validate_int ui \<Longrightarrow> \<exists>i. w = PInt i"
    using assms(2) by (auto simp: validate_int_def rbind_eq_Inr split: option.splits)
  have float: "f = Inr \<circ> validate_float \<Longrightarrow> \<exists>q. w = PFloat q"
    using assms(2) by (auto simp: validate_float_def split: option.splits)
  have bool: "f = Inr \<circ> validate_boolean \<Longrightarrow> w = v \<and> (\<exists>b. v = PBool b)"
    using assms(2) by (cases v) (auto simp: validate_boolean_def)
  from cases show ?thesis
  proof (elim disjE conjE)
    assume "f = validate_int ui" "\<not> py_eq (PStr ''string'') knd" "\<not> py_eq (PStr ''str'') knd" "py_eq (PStr ''int'') knd"
    with int show ?thesis by (auto simp: of_kind_def validate_int_def py_int_of_def simp del: py_eq.simps)
  next
    assume "f = Inr \<circ> validate_float" "\<not> py_eq (PStr ''string'') knd" "\<not> py_eq (PStr ''str'') knd" "\<not> py_eq (PStr ''int'') knd"
      "py_eq (PStr ''float'') knd"
    with float show ?thesis by (auto simp: of_kind_def validate_float_def as_number_def simp del: py_eq.simps)
  next
    assume "f = Inr \<circ> validate_boolean" "\<not> py_eq (PStr ''string'') knd" "\<not> py_eq (PStr ''str'') knd" "\<not> py_eq (PStr ''int'') knd"
      "\<not> py_eq (PStr ''float'') knd" "py_eq (PStr ''boolean'') knd"
    with bool show ?thesis by (auto simp: of_kind_def validate_boolean_def simp del: py_eq.simps)
  qed (use str in \<open>auto simp: of_kind_def validate_str_def simp del: py_eq.simps\<close>)
qed

lemma validate_one_result:
  assumes "validate_one ui data name v = Inr w"
  shows "(\<exists>knd. declared_kind data name = Some knd \<and> of_kind knd w) \<and> validate_one ui data name w = Inr w"
proof -
  obtain declared f where found: "pd_get data name = Some declared"
      "pd_get (validation_kinds ui) (meta_get declared ''type'' (PStr ''string'')) = Some f" "f v = Inr (w, True)"
    using assms by (auto simp: validate_one_def Let_def rbind_eq_Inr split: option.splits if_splits)
  from kind_validator [OF found(2,3)] found show ?thesis
    by (simp add: validate_one_def declared_kind_def)
qed

lemma validated_entries:
  assumes "validate_options ui data options = Inr d"
  shows "list_all2 (\<lambda>(name, v) (name', w). name' = name \<and> pd_get data name \<noteq> None \<and> validate_one ui data name v = Inr w) options d"
  using assms by (auto simp: validate_options_def rmap_prod_eq_Inr rbind_eq_Inr split: if_splits elim!: list_all2_mono)

text \<open>
  C26: validated options have the declared types. \<open>validate\<close> returns a value for every option it was given, and only
  for declared ones; the value has the type the charm declares for it, and validating the result again returns it
  unchanged.
\<close>

theorem validated_options_typed:
  assumes "validate_options ui data options = Inr d"
  shows "map fst d = map fst options
    \<and> (\<forall>(name, v)\<in>set d. \<exists>knd. declared_kind data name = Some knd \<and> of_kind knd v)
    \<and> validate_options ui data d = Inr d"
proof -
  have all: "list_all2 (\<lambda>(name, v) (name', w). name' = name \<and> pd_get data name \<noteq> None \<and> validate_one ui data name v = Inr w) options d"
    using validated_entries [OF assms] .
  then have "map fst d = map fst options" by (induction rule: list_all2_induct) auto
  moreover have entry: "pd_get data name \<noteq> None \<and> validate_one ui data name w = Inr w
      \<and> (\<exists>knd. declared_kind data name = Some knd \<and> of_kind knd w)" if mem: "(name, w) \<in> set d" for name w
  proof -
    obtain i where i: "i < length options" "d ! i = (name, w)"
      using mem list_all2_lengthD [OF all] unfolding in_set_conv_nth by auto
    obtain v where "pd_get data name \<noteq> None" "validate_one ui data name v = Inr w"
      using list_all2_nthD [OF all i(1)] i(2) by (cases "options ! i") auto
    then show ?thesis using validate_one_result by blast
  qed
  moreover have "validate_options ui data d = Inr d"
  proof -
    have "(case d ! i of (name, v) \<Rightarrow> if pd_get data name = None then Inl (UnknownOption name)
        else rbind (validate_one ui data name v) (\<lambda>v. Inr (name, v))) = Inr (d ! i)" if "i < length d" for i
      using entry [of "fst (d ! i)" "snd (d ! i)"] nth_mem [OF that] by (cases "d ! i") simp
    then show ?thesis unfolding validate_options_def rmap_eq_Inr by (intro list_all2_all_nthI) simp_all
  qed
  ultimately show ?thesis by blast
qed

definition demo_options :: config_options where
  "demo_options = [(PStr ''title'', PDict [(PStr ''type'', PStr ''string'')]),
     (PStr ''skill'', PDict [(PStr ''type'', PStr ''int''), (PStr ''default'', PInt 3)]),
     (PStr ''debug'', PDict [(PStr ''type'', PStr ''boolean'')])]"

theorem validated_options_typed_witness:
  "validate_options (\<lambda>_. None) demo_options [(PStr ''skill'', PStr ''10''), (PStr ''debug'', PBool True)] = Inr [(PStr ''skill'', PInt 10), (PStr ''debug'', PBool True)]
    \<and> declared_kind demo_options (PStr ''skill'') = Some (PStr ''int'') \<and> of_kind (PStr ''int'') (PInt 10)"
proof -
  have run: "validate_options (\<lambda>_. None) demo_options [(PStr ''skill'', PStr ''10''), (PStr ''debug'', PBool True)]
      = Inr [(PStr ''skill'', PInt 10), (PStr ''debug'', PBool True)]" by code_simp
  moreover have "declared_kind demo_options (PStr ''skill'') = Some (PStr ''int'')" by code_simp
  ultimately show ?thesis using validated_options_typed [OF run] by auto
qed

text \<open>Texts, as the command line gives them, are no values of boolean and float options.\<close>

lemma text_options:
  assumes "declared_kind data name = Some knd" and "of_kind knd v" and "v = PBool b \<or> v = PFloat q"
  shows "\<not> (\<exists>w. validate_one ui data name (PStr s) = Inr w)"
proof
  assume "\<exists>w. validate_one ui data name (PStr s) = Inr w"
  then obtain w where w: "validate_one ui data name (PStr s) = Inr w" by blast
  then obtain declared f where found: "pd_get data name = Some declared"
      "pd_get (validation_kinds ui) (meta_get declared ''type'' (PStr ''string'')) = Some f" "f (PStr s) = Inr (w, True)"
    by (auto simp: validate_one_def Let_def rbind_eq_Inr split: option.splits if_splits)
  then have knd: "knd = meta_get declared ''type'' (PStr ''string'')" using assms(1) by (simp add: declared_kind_def)
  from assms(2,3) have "\<not> py_eq (PStr ''string'') knd" "\<not> py_eq (PStr ''str'') knd" "\<not> py_eq (PStr ''int'') knd"
    by (auto simp: of_kind_def as_text_def simp del: py_eq.simps split: if_splits)
  then have "f = Inr \<circ> validate_float \<or> f = Inr \<circ> validate_boolean"
    using found(2) by (simp add: knd validation_kinds_def pd_get_def del: py_eq.simps split: if_splits)
  then show False using found(3) by (auto simp: validate_float_def validate_boolean_def as_number_def)
qed

section \<open>Stored options\<close>

lemma config_validating: "validating CONFIG_SCHEMA"
  by (simp add: CONFIG_SCHEMA_def OPTION_SCHEMA_def)

lemma pstr_eq: "py_eq k (PStr s) \<longleftrightarrow> py_eq (PStr s) k"
  by (cases k) (auto simp: as_number_def)

lemma option_data_kept:
  assumes apart: "keys_apart raw" and ok: "parse_option_data en path raw = Inr data"
  shows "parse_option_data en path' (config_serialization data) = Inr data"
proof -
  have coerced: "coerce en CONFIG_SCHEMA raw [] = Inr raw" and data: "data = entries (meta_get raw ''options'' PNone)"
    using ok validating_returns [OF config_validating apart]
    by (auto simp: parse_option_data_def Let_def split: if_splits sum.splits coerce_error.splits)
  then obtain d where raw: "raw = PDict d" by (cases raw) (simp_all add: CONFIG_SCHEMA_def)
  let ?S = "SDict SString OPTION_SCHEMA"
  have unfold: "coerce en CONFIG_SCHEMA = key_dict_with en [(''options'', coerce en ?S)] []"
    by (simp add: CONFIG_SCHEMA_def coerce_KeyDict)
  obtain kvs where kvs: "list_all2 (\<lambda>kx y. key_entry en [(''options'', coerce en ?S)] [] kx = Inr y) d kvs"
      "List.find (\<lambda>(k, _). is_missing d [] k) [(''options'', coerce en ?S)] = None"
  proof (rule key_dict_result [OF apart [unfolded raw] coerced [unfolded unfold raw]])
    fix kvs
    assume "list_all2 (\<lambda>kx y. key_entry en [(''options'', coerce en ?S)] (if [] = [] then [] else [] @ [''.'']) kx = Inr y) d kvs"
      and "List.find (\<lambda>(k, _). is_missing d [] k) [(''options'', coerce en ?S)] = None"
    then show thesis by (intro that [of kvs]) (simp_all del: coerce.simps)
  qed
  obtain x where get: "pd_get d (PStr ''options'') = Some x"
    using kvs(2) by (auto simp: is_missing_def split: if_splits)
  then obtain k where kx: "(k, x) \<in> set d" "py_eq k (PStr ''options'')"
    by (auto simp: pd_get_def dest!: find_SomeD)
  then obtain i where i: "i < length d" "d ! i = (k, x)" by (auto simp: in_set_conv_nth)
  have "\<exists>w. coerce en ?S x ([] @ [key_text en k]) = Inr w"
    using list_all2_nthD [OF kvs(1) i(1)] kx(2) pstr_eq [of k]
    by (auto simp: i(2) key_entry_def rbind_eq_Inr simp del: py_eq.simps coerce.simps)
  then obtain w where w: "coerce en ?S x [key_text en k] = Inr w" by auto
  moreover have "keys_apart x" using keys_apart_dictD [OF apart [unfolded raw] kx(1)] by simp
  moreover have "validating ?S" using config_validating by (simp add: CONFIG_SCHEMA_def)
  ultimately have "w = x" using validating_returns by blast
  then have everywhere: "coerce en ?S x q = Inr x" for q
    using coerce_kind [of en ?S x q "[key_text en k]"] w by (simp add: kind_Inr)
  obtain opts where x: "x = PDict opts" using w by (cases x) simp_all
  have "data = opts" using data get by (simp add: raw x meta_get_def entries_def)
  moreover have "coerce en CONFIG_SCHEMA (PDict [(PStr ''options'', x)]) [] = Inr (PDict [(PStr ''options'', x)])"
    unfolding unfold key_dict_entries
    by (simp add: key_entry_def everywhere own_error_def is_missing_def pd_get_def del: coerce.simps)
  ultimately show ?thesis
    by (simp add: parse_option_data_def config_serialization_def x entries_def meta_get_def pd_get_def del: coerce.simps)
qed

text \<open>Options that a charm's file was parsed into are parsed again from where they were stored.\<close>

theorem config_roundtrip:
  assumes "keys_apart raw" and "parse_config en ui yaml_load path (PDict d) = Inr data" and "raw = PDict d"
  shows "parse_config en ui yaml_load path' (config_serialization data) = Inr data"
proof -
  have parsed: "parse_option_data en path raw = Inr data" "\<exists>ds. get_defaults ui data = Inr ds"
    using assms(2,3) by (auto simp: parse_config_def rbind_eq_Inr)
  from option_data_kept [OF assms(1) this(1), of path'] this(2) show ?thesis
    by (auto simp: parse_config_def config_serialization_def)
qed

end
