(* ===== verification/CharmState.thy ===== *)
theory CharmState
  imports CharmConfigProps StateBase
begin

text \<open>\<open>juju/state/charm.py\<close> and \<open>juju/lib/under.py\<close>: the charms of an environment, each in a node of its own.\<close>

section \<open>The names of nodes\<close>

definition SAFE_CHAR :: "char \<Rightarrow> bool" where
  "SAFE_CHAR c \<longleftrightarrow> (let n = of_char c :: nat in
     (48 \<le> n \<and> n \<le> 57) \<or> (65 \<le> n \<and> n \<le> 90) \<or> (97 \<le> n \<and> n \<le> 122)) \<or> c = CHR ''.'' \<or> c = CHR ''-''"

definition under_char :: "char \<Rightarrow> string" where
  "under_char c =
     (if SAFE_CHAR c then [c] else [CHR ''_'', hex_digit (of_char c div 16), hex_digit (of_char c mod 16), CHR ''_''])"

definition under_quote :: "string \<Rightarrow> string" where
  "under_quote unsafe = concat (map under_char unsafe)"

definition charm_path :: "string \<Rightarrow> string" where
  "charm_path charm_id = ''/charms/'' @ under_quote charm_id"

section \<open>State\<close>

record charm_state =
  ch_url :: charm_url
  ch_metadata :: pyval
  ch_config :: config_options
  ch_sha256 :: pyval
  ch_bundle_url :: pyval

record ('z, 'c) charm_env =
  ce_client :: "('z, 'c) zk_client"
  ce_load :: "'c \<Rightarrow> pyval"
  ce_dump :: "pyval \<Rightarrow> 'c"
  ce_schema :: schema_env
  ce_unicode_int :: "nat list \<Rightarrow> int option"
  ce_yaml :: "pyval \<Rightarrow> config_error + pyval"

datatype charm_error =
    CharmExists string  \<comment> \<open>\<open>NodeExistsException\<close>\<close>
  | CharmMissing string  \<comment> \<open>\<open>CharmStateNotFound\<close>\<close>
  | BadCharmUrl url_error
  | BadMetadata metadata_error
  | BadConfig config_error
  | NameMismatch  \<comment> \<open>the assertion\<close>
  | BadCharmData string  \<comment> \<open>\<open>KeyError\<close> and \<open>TypeError\<close> on the loaded data\<close>

definition charm_entry :: "pyval \<Rightarrow> string \<Rightarrow> charm_error + pyval" where
  "charm_entry data key =
     (case data of
        PDict d \<Rightarrow> (case pd_get d (PStr key) of None \<Rightarrow> Inl (BadCharmData key) | Some v \<Rightarrow> Inr v)
      | _ \<Rightarrow> Inl (BadCharmData key))"

definition wrap_error :: "('a \<Rightarrow> charm_error) \<Rightarrow> 'a + 'b \<Rightarrow> charm_error + 'b" where
  "wrap_error f r = (case r of Inl err \<Rightarrow> Inl (f err) | Inr x \<Rightarrow> Inr x)"

lemma wrap_error_Inr [result_simps]: "wrap_error f r = Inr x \<longleftrightarrow> r = Inr x"
  by (cases r) (simp_all add: wrap_error_def)

definition new_charm_state :: "('z, 'c) charm_env \<Rightarrow> string \<Rightarrow> pyval \<Rightarrow> charm_error + charm_state" where
  "new_charm_state e charm_id charm_data =
     rbind (wrap_error BadCharmUrl (parse_url charm_id)) (\<lambda>url.
     rbind (wrap_error BadCharmUrl (assert_revision url)) (\<lambda>_.
     rbind (charm_entry charm_data ''metadata'') (\<lambda>metadata_data.
     rbind (wrap_error BadMetadata (parse_serialization_data (ce_schema e) None metadata_data)) (\<lambda>metadata.
     rbind (charm_entry charm_data ''config'') (\<lambda>config_data.
     rbind (wrap_error BadConfig (parse_config (ce_schema e) (ce_unicode_int e) (ce_yaml e) None config_data)) (\<lambda>config.
     if \<not> py_eq (PStr (cu_name url)) (meta_name metadata) then Inl NameMismatch
     else rbind (charm_entry charm_data ''sha256'') (\<lambda>sha256.
     Inr \<lparr>ch_url = url, ch_metadata = metadata, ch_config = config, ch_sha256 = sha256,
          ch_bundle_url = meta_get charm_data ''url'' PNone\<rparr>)))))))"

text \<open>A charm is its config, metadata and hash.\<close>

definition charm_data_of :: "config_options \<Rightarrow> pyval \<Rightarrow> string \<Rightarrow> string \<Rightarrow> pyval" where
  "charm_data_of config metadata sha256 url = PDict
     [(PStr ''config'', config_serialization config), (PStr ''metadata'', get_serialization_data metadata),
      (PStr ''sha256'', PStr sha256), (PStr ''url'', PStr url)]"

definition add_charm_state ::
  "('z, 'c) charm_env \<Rightarrow> string \<Rightarrow> config_options \<Rightarrow> pyval \<Rightarrow> string \<Rightarrow> string \<Rightarrow> 'z \<Rightarrow> 'z \<times> (charm_error + charm_state)" where
  "add_charm_state e charm_id config metadata sha256 url z =
     (let charm_data = charm_data_of config metadata sha256 url in
      case zc_create (ce_client e) (charm_path charm_id) (ce_dump e charm_data) z of
        None \<Rightarrow> (z, Inl (CharmExists charm_id))
      | Some z' \<Rightarrow> (z', new_charm_state e charm_id charm_data))"

definition get_charm_state :: "('z, 'c) charm_env \<Rightarrow> string \<Rightarrow> 'z \<Rightarrow> charm_error + charm_state" where
  "get_charm_state e charm_id z =
     (case zc_get (ce_client e) z (charm_path charm_id) of
        None \<Rightarrow> Inl (CharmMissing charm_id)
      | Some content \<Rightarrow> new_charm_state e charm_id (ce_load e content))"

section \<open>Nodes of different charms\<close>

fun hex_value :: "char \<Rightarrow> nat" where
  "hex_value c = (let n = of_char c in if n \<le> 57 then n - 48 else n - 87)"

text \<open>Reading a quoted text back.\<close>

fun under_unquote :: "string \<Rightarrow> string" where
  "under_unquote (u # a # b # v # s) =
     (if u = CHR ''_'' then char_of (16 * hex_value a + hex_value b) # under_unquote s
      else u # under_unquote (a # b # v # s))"
| "under_unquote (c # s) = c # under_unquote s"
| "under_unquote [] = []"

lemma hex_value_digit: "n < 16 \<Longrightarrow> hex_value (hex_digit n) = n"
proof -
  have "\<forall>n\<in>{..<16}. hex_value (hex_digit n) = n" by code_simp
  then show "n < 16 \<Longrightarrow> hex_value (hex_digit n) = n" by simp
qed

lemma unquote_safe: "c \<noteq> CHR ''_'' \<Longrightarrow> under_unquote (c # s) = c # under_unquote s"
  by (cases "c # s" rule: under_unquote.cases) auto

lemma under_unquote_quote: "under_unquote (under_quote s) = s"
proof (induction s)
  case (Cons c s)
  show ?case
  proof (cases "SAFE_CHAR c")
    case True
    then have "c \<noteq> CHR ''_''" by (auto simp: SAFE_CHAR_def)
    then show ?thesis using Cons True by (simp add: under_quote_def under_char_def unquote_safe)
  next
    case False
    have "(of_char c :: nat) mod 256 < 256" by (rule mod_less_divisor) simp
    then have "of_char c < (256::nat)" by (simp only: of_char_mod_256)
    then have "of_char c div 16 < (16::nat)" by (intro less_mult_imp_div_less) simp
    then have "16 * hex_value (hex_digit (of_char c div 16)) + hex_value (hex_digit (of_char c mod 16)) = (of_char c :: nat)"
      by (simp add: hex_value_digit del: hex_value.simps)
    then show ?thesis using Cons False by (simp add: under_quote_def under_char_def del: hex_value.simps)
  qed
qed (simp add: under_quote_def)

lemma charm_path_inj: "charm_path a = charm_path b \<longleftrightarrow> a = b"
  using under_unquote_quote by (metis charm_path_def same_append_eq)

section \<open>What is stored is found\<close>

text \<open>\<open>create\<close> makes one node and touches no other.\<close>

definition creates :: "('z, 'c) zk_client \<Rightarrow> bool" where
  "creates client \<longleftrightarrow> (\<forall>p c z z'. zc_create client p c z = Some z' \<longrightarrow>
     (\<forall>q. zc_get client z' q = (if q = p then Some c else zc_get client z q)))"

lemma plain_creates: "creates plain_client"
  by (auto simp: creates_def plain_client_def dget_dset split: if_splits)


definition charm_demo :: "((string, pyval) dict, pyval) charm_env" where
  "charm_demo = \<lparr>ce_client = plain_client, ce_load = (\<lambda>c. c), ce_dump = (\<lambda>v. v), ce_schema = ascii_env,
     ce_unicode_int = (\<lambda>_. None), ce_yaml = Inr\<rparr>"

definition option_content :: "(pyval \<times> pyval) list" where
  "option_content = [(PStr ''options'', PDict [(PStr ''skill'', PDict [(PStr ''type'', PStr ''int''), (PStr ''default'', PInt 3)])])]"


end
