(* ===== verification/Security.thy ===== *)
theory Security
  imports StateBase Schema Effects
begin

text \<open>
  \<open>juju/state/auth.py\<close> and \<open>juju/state/security.py\<close>: who may use which ZooKeeper node. Principals and their tokens,
  groups, one time passwords, the policy that makes the ACL of a new node, and changes of the ACL of a node.

  The state \<open>'z\<close> is ZooKeeper's together with the credentials of this connection. Parameters: the calls of the
  client (\<open>acl_client\<close>), the digest of credentials, base64, YAML, and the strings the random source gives.
\<close>

section \<open>Identities and entries\<close>

record ace =
  ace_id :: string
  ace_scheme :: string
  ace_perms :: int

datatype auth_error =
    CredentialsFormat  \<comment> \<open>these are \<open>SyntaxError\<close>\<close>
  | InvalidPermission string
  | NotEnabling string
  | NoPermissions
  | InvalidScheme  \<comment> \<open>the assertion\<close>

definition make_identity :: "(string \<Rightarrow> string) \<Rightarrow> string \<Rightarrow> auth_error + string" where
  "make_identity digest credentials =
     (case split_once CHR '':'' credentials of
        None \<Rightarrow> Inl CredentialsFormat
      | Some (user, password) \<Rightarrow> Inr (user @ '':'' @ digest credentials))"

text \<open>The constants of the \<open>zookeeper\<close> module.\<close>

record zk_perms =
  PERM_READ :: int
  PERM_WRITE :: int
  PERM_DELETE :: int
  PERM_CREATE :: int
  PERM_ADMIN :: int
  PERM_ALL :: int

definition PERM_MAP :: "zk_perms \<Rightarrow> (string, int) dict" where
  "PERM_MAP c = [(''read'', PERM_READ c), (''write'', PERM_WRITE c), (''delete'', PERM_DELETE c),
     (''create'', PERM_CREATE c), (''admin'', PERM_ADMIN c), (''all'', PERM_ALL c)]"

definition VALID_SCHEMES :: "string list" where
  "VALID_SCHEMES = [''digest'', ''world'']"

definition add_permission :: "zk_perms \<Rightarrow> string \<times> pyval \<Rightarrow> int \<Rightarrow> auth_error + int" where
  "add_permission c = (\<lambda>(name, v) perms.
     case dget (PERM_MAP c) name of
       None \<Rightarrow> Inl (InvalidPermission name)
     | Some perm \<Rightarrow> if v \<noteq> PBool True then Inl (NotEnabling name) else Inr (Bit_Operations.or perms perm))"

definition make_ace :: "zk_perms \<Rightarrow> string \<Rightarrow> string \<Rightarrow> (string \<times> pyval) list \<Rightarrow> auth_error + ace" where
  "make_ace c identity scheme permissions =
     (if scheme \<notin> set VALID_SCHEMES then Inl InvalidScheme
      else rbind (rfold (add_permission c) permissions 0) (\<lambda>perms.
      if perms = 0 then Inl NoPermissions
      else Inr \<lparr>ace_id = identity, ace_scheme = scheme, ace_perms = perms\<rparr>))"

section \<open>The client\<close>

datatype zk_failure = NoNode | NodeExists | BadVersion | BadArguments | NoAuth | InvalidAcl

record ('z, 'c) acl_client =
  ac_get :: "'z \<Rightarrow> string \<Rightarrow> zk_failure + 'c"
  ac_create :: "string \<Rightarrow> 'c \<Rightarrow> ace list \<Rightarrow> bool \<Rightarrow> 'z \<Rightarrow> zk_failure + string \<times> 'z"  \<comment> \<open>\<open>True\<close>: in sequence\<close>
  ac_delete :: "string \<Rightarrow> 'z \<Rightarrow> zk_failure + 'z"
  ac_get_acl :: "'z \<Rightarrow> string \<Rightarrow> zk_failure + ace list \<times> nat"  \<comment> \<open>with its version\<close>
  ac_set_acl :: "string \<Rightarrow> ace list \<Rightarrow> nat option \<Rightarrow> 'z \<Rightarrow> zk_failure + 'z"
  ac_add_auth :: "string \<Rightarrow> string \<Rightarrow> 'z \<Rightarrow> 'z"

record ('z, 'c) sec_env =
  sv_client :: "('z, 'c) acl_client"
  sv_perms :: zk_perms
  sv_digest :: "string \<Rightarrow> string"
  sv_dump :: "(string, string option) dict \<Rightarrow> 'c"  \<comment> \<open>YAML\<close>
  sv_load :: "'c \<Rightarrow> (string, string option) dict"
  sv_encode :: "string \<Rightarrow> string"  \<comment> \<open>base64\<close>
  sv_decode :: "string \<Rightarrow> string option"
  sv_tokens :: "('z, 'c, string) ynode"  \<comment> \<open>the node of the token database\<close>
  sv_open_acl :: ace  \<comment> \<open>\<open>ZOO_OPEN_ACL_UNSAFE\<close> of \<open>txzookeeper\<close>\<close>

datatype security_error =
    InAuth auth_error
  | InZk zk_failure
  | InTokens yaml_error
  | GroupMissing string  \<comment> \<open>\<open>StateNotFound\<close>\<close>
  | GroupExists string  \<comment> \<open>\<open>RuntimeError\<close>\<close>
  | NotInitialized  \<comment> \<open>\<open>RuntimeError\<close> of the two \<open>_check\<close>\<close>
  | AlreadyCreated  \<comment> \<open>\<open>ValueError\<close>\<close>
  | BadOtpData
  | BadPrincipalData
  | PrincipalNotFound string
  | AclMissing string  \<comment> \<open>\<open>StateNotFound\<close>\<close>
  | CannotAttach  \<comment> \<open>\<open>TypeError\<close>: \<open>NotImplemented\<close> is no class\<close>

definition sec_fail :: "('e \<Rightarrow> security_error) \<Rightarrow> 'e + 'a \<Rightarrow> security_error + 'a" where
  "sec_fail f r = (case r of Inl err \<Rightarrow> Inl (f err) | Inr x \<Rightarrow> Inr x)"

lemma sec_fail_simps [simp]: "sec_fail f (Inl err) = Inl (f err)" "sec_fail f (Inr x) = Inr x"
  by (simp_all add: sec_fail_def)

lemma sec_fail_Inr [result_simps]: "sec_fail f r = Inr x \<longleftrightarrow> r = Inr x"
  by (cases r) simp_all

section \<open>Principals\<close>

record principal =
  pr_name :: string
  pr_password :: string

definition credentials_of :: "string \<Rightarrow> string \<Rightarrow> string" where
  "credentials_of name password = name @ '':'' @ password"

definition get_token :: "('z, 'c) sec_env \<Rightarrow> principal \<Rightarrow> security_error + string" where
  "get_token e p = sec_fail InAuth (make_identity (sv_digest e) (credentials_of (pr_name p) (pr_password p)))"

definition attach :: "('z, 'c) sec_env \<Rightarrow> principal \<Rightarrow> ('z, security_error, unit) eff" where
  "attach e p = echange (\<lambda>z. Inr (ac_add_auth (sv_client e) ''digest'' (credentials_of (pr_name p) (pr_password p)) z))"

text \<open>\<open>"%s" % password\<close>, which may be \<open>None\<close>\<close>

definition printed :: "string option \<Rightarrow> string" where
  "printed v = (case v of None \<Rightarrow> ''None'' | Some s \<Rightarrow> s)"

section \<open>Groups\<close>

record group_principal =
  gp_path :: string
  gp_name :: "string option"
  gp_password :: "string option"

definition new_group :: "string \<Rightarrow> group_principal" where
  "new_group path = \<lparr>gp_path = path, gp_name = None, gp_password = None\<rparr>"

text \<open>The two entries of loaded credentials; \<open>KeyError\<close> when one is missing.\<close>

definition principal_data :: "(string, string option) dict \<Rightarrow> security_error + string option \<times> string option" where
  "principal_data d =
     (case (dget d ''name'', dget d ''password'') of
        (Some n, Some p) \<Rightarrow> Inr (n, p)
      | _ \<Rightarrow> Inl BadPrincipalData)"

definition group_initialize :: "('z, 'c) sec_env \<Rightarrow> group_principal \<Rightarrow> ('z, security_error, group_principal) eff" where
  "group_initialize e g = eread (\<lambda>z.
     case ac_get (sv_client e) z (gp_path g) of
       Inl err \<Rightarrow> if err = NoNode then Inl (GroupMissing (gp_path g)) else Inl (InZk err)
     | Inr data \<Rightarrow> rbind (principal_data (sv_load e data)) (\<lambda>(n, p). Inr (g\<lparr>gp_name := n, gp_password := p\<rparr>)))"

definition group_principal_of :: "group_principal \<Rightarrow> security_error + principal" where
  "group_principal_of g =
     (case gp_name g of
        None \<Rightarrow> Inl NotInitialized
      | Some name \<Rightarrow> Inr \<lparr>pr_name = name, pr_password = printed (gp_password g)\<rparr>)"

definition group_token :: "('z, 'c) sec_env \<Rightarrow> group_principal \<Rightarrow> security_error + string" where
  "group_token e g = rbind (group_principal_of g) (get_token e)"

definition group_attach :: "('z, 'c) sec_env \<Rightarrow> group_principal \<Rightarrow> ('z, security_error, unit) eff" where
  "group_attach e g = ebind (eread (\<lambda>_. group_principal_of g)) (attach e)"

definition group_create ::
  "('z, 'c) sec_env \<Rightarrow> group_principal \<Rightarrow> string \<Rightarrow> string \<Rightarrow> ('z, security_error, group_principal) eff" where
  "group_create e g name password z =
     (case ac_create (sv_client e) (gp_path g) (sv_dump e [(''name'', Some name), (''password'', Some password)])
             [sv_open_acl e] False z of
        Inl err \<Rightarrow> (z, Inl (if err = NodeExists then GroupExists (gp_path g) else InZk err))
      | Inr (_, z') \<Rightarrow> (z', Inr (g\<lparr>gp_name := Some name, gp_password := Some password\<rparr>)))"

definition get_acl :: "('z, 'c) sec_env \<Rightarrow> string \<Rightarrow> ('z, security_error, ace list) eff" where
  "get_acl e path = eread (\<lambda>z. rbind (sec_fail InZk (ac_get_acl (sv_client e) z path)) (\<lambda>(acl, _). Inr acl))"

definition set_acl :: "('z, 'c) sec_env \<Rightarrow> string \<Rightarrow> ace list \<Rightarrow> ('z, security_error, unit) eff" where
  "set_acl e path acl = echange (\<lambda>z. sec_fail InZk (ac_set_acl (sv_client e) path acl None z))"

definition add_member :: "('z, 'c) sec_env \<Rightarrow> group_principal \<Rightarrow> principal \<Rightarrow> ('z, security_error, unit) eff" where
  "add_member e g p =
     ebind (eread (\<lambda>_. group_principal_of g)) (\<lambda>_.
     ebind (get_acl e (gp_path g)) (\<lambda>acl.
     ebind (eread (\<lambda>_. get_token e p)) (\<lambda>token.
     if list_ex (\<lambda>a. ace_id a = token) acl then eret ()
     else ebind (eread (\<lambda>_. sec_fail InAuth (make_ace (sv_perms e) token ''digest'' [(''read'', PBool True)]))) (\<lambda>a.
     set_acl e (gp_path g) (acl @ [a])))))"

text \<open>\<open>ace["id"].split(":")[0]\<close>\<close>

definition ace_principal :: "ace \<Rightarrow> string" where
  "ace_principal a = hd (py_split CHR '':'' (ace_id a))"

definition remove_member :: "('z, 'c) sec_env \<Rightarrow> group_principal \<Rightarrow> string \<Rightarrow> ('z, security_error, unit) eff" where
  "remove_member e g name =
     ebind (eread (\<lambda>_. group_principal_of g)) (\<lambda>_.
     ebind (get_acl e (gp_path g)) (\<lambda>acl.
     case List.find (\<lambda>a. ace_principal a = name) acl of
       None \<Rightarrow> eret ()
     | Some a \<Rightarrow> set_acl e (gp_path g) (remove1 a acl)))"

section \<open>One time passwords\<close>

record otp =
  ot_name :: "string option"
  ot_password :: "string option"
  ot_otp_name :: string
  ot_otp :: string
  ot_path :: string

definition new_otp :: "string \<Rightarrow> otp" where
  "new_otp path = \<lparr>ot_name = None, ot_password = None, ot_otp_name = [], ot_otp = [], ot_path = path\<rparr>"

definition truthy :: "string option \<Rightarrow> bool" where
  "truthy v \<longleftrightarrow> v \<noteq> None \<and> v \<noteq> Some []"

definition otp_principal_of :: "otp \<Rightarrow> security_error + principal" where
  "otp_principal_of ot =
     (if \<not> truthy (ot_name ot) then Inl NotInitialized
      else Inr \<lparr>pr_name = the (ot_name ot), pr_password = printed (ot_password ot)\<rparr>)"

definition otp_token :: "('z, 'c) sec_env \<Rightarrow> otp \<Rightarrow> security_error + string" where
  "otp_token e ot = rbind (otp_principal_of ot) (get_token e)"

definition otp_attach :: "otp \<Rightarrow> ('z, security_error, unit) eff" where
  "otp_attach ot = eraise CannotAttach"

text \<open>\<open>v or self._generate_string()\<close>\<close>

definition given_or :: "string option \<Rightarrow> string \<Rightarrow> string" where
  "given_or v generated = (if truthy v then the v else generated)"

text \<open>
  The fields are set before the node is created. What is stored is \<open>password\<close>, the argument. \<open>extra\<close> is the entry
  of \<open>set_additional_otp_ace\<close>.
\<close>

definition otp_fields :: "string \<Rightarrow> string option \<Rightarrow> string option \<Rightarrow> string option \<Rightarrow> string \<times> string \<times> string \<Rightarrow> otp \<Rightarrow> otp" where
  "otp_fields name password otp_name otp generated ot =
     ot\<lparr>ot_name := Some name, ot_password := Some (given_or password (fst generated)),
       ot_otp_name := given_or otp_name (fst (snd generated)), ot_otp := given_or otp (snd (snd generated))\<rparr>"

definition otp_acl :: "('z, 'c) sec_env \<Rightarrow> ace option \<Rightarrow> otp \<Rightarrow> security_error + ace list" where
  "otp_acl e extra ot =
     rbind (get_token e \<lparr>pr_name = ot_otp_name ot, pr_password = ot_otp ot\<rparr>) (\<lambda>token.
     rbind (sec_fail InAuth (make_ace (sv_perms e) token ''digest'' [(''read'', PBool True)])) (\<lambda>a.
     Inr (a # (case extra of None \<Rightarrow> [] | Some x \<Rightarrow> [x]))))"

definition otp_create ::
  "('z, 'c) sec_env \<Rightarrow> ace option \<Rightarrow> string \<Rightarrow> string option \<Rightarrow> string option \<Rightarrow> string option
     \<Rightarrow> string \<times> string \<times> string \<Rightarrow> (otp \<times> 'z, security_error, unit) eff" where
  "otp_create e extra name password otp_name otp generated = (\<lambda>(ot, z).
     if truthy (ot_name ot) then ((ot, z), Inl AlreadyCreated)
     else let ot = otp_fields name password otp_name otp generated ot in
       case otp_acl e extra ot of
         Inl err \<Rightarrow> ((ot, z), Inl err)
       | Inr acl \<Rightarrow>
           (case ac_create (sv_client e) (ot_path ot) (sv_dump e [(''name'', Some name), (''password'', password)]) acl True z of
              Inl err \<Rightarrow> ((ot, z), Inl (InZk err))
            | Inr (path, z') \<Rightarrow> ((ot\<lparr>ot_path := path\<rparr>, z'), Inr ())))"

definition serialize :: "('z, 'c) sec_env \<Rightarrow> otp \<Rightarrow> string" where
  "serialize e ot = sv_encode e (ot_path ot @ '':'' @ ot_otp_name ot @ '':'' @ ot_otp ot)"

definition consume :: "('z, 'c) sec_env \<Rightarrow> string \<Rightarrow> ('z, security_error, string option \<times> string option) eff" where
  "consume e otp_data =
     (case sv_decode e otp_data of
        None \<Rightarrow> eraise BadOtpData
      | Some decoded \<Rightarrow>
          (case split_once CHR '':'' decoded of
             None \<Rightarrow> eraise BadOtpData
           | Some (path, credentials) \<Rightarrow>
               ebind (echange (\<lambda>z. Inr (ac_add_auth (sv_client e) ''digest'' credentials z))) (\<lambda>_.
               ebind (eread (\<lambda>z. sec_fail InZk (ac_get (sv_client e) z path))) (\<lambda>data.
               ebind (echange (\<lambda>z. sec_fail InZk (ac_delete (sv_client e) path z))) (\<lambda>_.
               eread (\<lambda>_. principal_data (sv_load e data)))))))"

section \<open>Tokens by name\<close>

definition on_tokens :: "yaml_error + 'a \<Rightarrow> security_error + 'a" where
  "on_tokens = sec_fail InTokens"

definition token_read :: "('z, 'c) sec_env \<Rightarrow> 'z \<Rightarrow> security_error + string yaml_state" where
  "token_read e z = (case read (sv_tokens e) z False of (Some err, _) \<Rightarrow> Inl (InTokens err) | (None, s) \<Rightarrow> Inr s)"

definition token_write :: "('z, 'c) sec_env \<Rightarrow> string yaml_state \<Rightarrow> ('z, security_error, unit) eff" where
  "token_write e s = echange (\<lambda>z. rbind (on_tokens (write_state (sv_tokens e) s z)) (\<lambda>(_, z', _). Inr z'))"

definition token_add :: "('z, 'c) sec_env \<Rightarrow> principal \<Rightarrow> ('z, security_error, unit) eff" where
  "token_add e p =
     ebind (eread (token_read e)) (\<lambda>s.
     ebind (eread (\<lambda>_. get_token e p)) (\<lambda>token.
     ebind (eread (\<lambda>_. on_tokens (setitem s (pr_name p) token))) (\<lambda>s.
     token_write e s)))"

definition token_get :: "('z, 'c) sec_env \<Rightarrow> string \<Rightarrow> 'z \<Rightarrow> security_error + string" where
  "token_get e name z =
     rbind (token_read e z) (\<lambda>s.
     case getitem s name of
       Inl (NoSuchKey k) \<Rightarrow> Inl (PrincipalNotFound name)
     | Inl err \<Rightarrow> Inl (InTokens err)
     | Inr token \<Rightarrow> Inr token)"

definition token_remove :: "('z, 'c) sec_env \<Rightarrow> string \<Rightarrow> ('z, security_error, unit) eff" where
  "token_remove e name =
     ebind (eread (token_read e)) (\<lambda>s.
     if name \<in> set (keys s) then ebind (eread (\<lambda>_. on_tokens (delitem s name))) (token_write e) else eret ())"

section \<open>The policy of new nodes\<close>

text \<open>A rule answers entries for a path; a rule's own reads of ZooKeeper are its argument \<open>'z\<close>.\<close>

type_synonym 'z acl_rule = "string \<Rightarrow> 'z \<Rightarrow> security_error + ace list"

record 'z policy =
  po_rules :: "'z acl_rule list"
  po_owner :: "principal option"

text \<open>The constructor drops its \<open>owner\<close>.\<close>

definition new_policy :: "'z acl_rule list \<Rightarrow> principal option \<Rightarrow> 'z policy" where
  "new_policy rules owner = \<lparr>po_rules = rules, po_owner = None\<rparr>"

text \<open>\<open>None\<close>: the assertion\<close>

definition set_owner :: "principal \<Rightarrow> 'z policy \<Rightarrow> 'z policy option" where
  "set_owner p po = (if po_owner po = None then Some (po\<lparr>po_owner := Some p\<rparr>) else None)"

definition add_rule :: "'z acl_rule \<Rightarrow> 'z policy \<Rightarrow> 'z policy" where
  "add_rule rule po = po\<lparr>po_rules := po_rules po @ [rule]\<rparr>"

definition OPEN_AUTH_ACL :: "zk_perms \<Rightarrow> auth_error + ace" where
  "OPEN_AUTH_ACL c = make_ace c ''auth'' ''world'' [(''all'', PBool True)]"

definition all_ace :: "('z, 'c) sec_env \<Rightarrow> string \<Rightarrow> security_error + ace" where
  "all_ace e token = sec_fail InAuth (make_ace (sv_perms e) token ''digest'' [(''all'', PBool True)])"

definition policy_acl :: "('z, 'c) sec_env \<Rightarrow> 'z policy \<Rightarrow> string \<Rightarrow> 'z \<Rightarrow> security_error + ace list" where
  "policy_acl e po path z =
     rbind (rmap (\<lambda>rule. rule path z) (po_rules po)) (\<lambda>entries.
     rbind (if concat entries = [] then rbind (sec_fail InAuth (OPEN_AUTH_ACL (sv_perms e))) (\<lambda>a. Inr [a])
            else Inr (concat entries)) (\<lambda>acl_entries.
     rbind (token_get e ''admin'' z) (\<lambda>admin_token.
     rbind (all_ace e admin_token) (\<lambda>admin.
     case po_owner po of
       None \<Rightarrow> Inr (acl_entries @ [admin])
     | Some owner \<Rightarrow>
         rbind (get_token e owner) (\<lambda>token.
         rbind (all_ace e token) (\<lambda>a. Inr (acl_entries @ [admin, a])))))))"

definition secure_create ::
  "('z, 'c) sec_env \<Rightarrow> 'z policy option \<Rightarrow> string \<Rightarrow> 'c \<Rightarrow> ace list \<Rightarrow> bool \<Rightarrow> ('z, security_error, string) eff" where
  "secure_create e po path data acls sequence =
     ebind (eread (\<lambda>z. case po of
         Some p \<Rightarrow> if acls = [sv_open_acl e] then policy_acl e p path z else Inr acls
       | None \<Rightarrow> Inr acls)) (\<lambda>acls z.
     case ac_create (sv_client e) path data acls sequence z of
       Inl err \<Rightarrow> (z, Inl (InZk err))
     | Inr (created, z') \<Rightarrow> (z', Inr created))"

section \<open>Changing the ACL of a node\<close>

fun principal_index :: "ace list \<Rightarrow> string \<Rightarrow> nat option" where
  "principal_index [] name = None"
| "principal_index (a # acl) name =
     (if ace_principal a = name then Some 0 else map_option Suc (principal_index acl name))"

text \<open>
  \<open>_update_acl\<close> reads the ACL and writes it back until nobody else has written in between. What others do in round
  \<open>n\<close>, between the two calls, is \<open>others n\<close>. The loop need not end: then the value is \<open>None\<close>.
\<close>

partial_function (option) update_acl ::
  "('z, 'c) acl_client \<Rightarrow> (nat \<Rightarrow> 'z \<Rightarrow> 'z) \<Rightarrow> string \<Rightarrow> (ace list \<Rightarrow> ace list) \<Rightarrow> nat \<Rightarrow> 'z
     \<Rightarrow> ('z \<times> (security_error + unit)) option" where
  "update_acl client others path change n z =
     (case ac_get_acl client z path of
        Inl err \<Rightarrow> Some (z, Inl (if err = BadArguments \<or> err = NoNode then AclMissing path else InZk err))
      | Inr (acl, version) \<Rightarrow>
          (let z = others n z in
           case ac_set_acl client path (change acl) (Some version) z of
             Inr z' \<Rightarrow> Some (z', Inr ())
           | Inl err \<Rightarrow>
               if err = BadVersion then update_acl client others path change (Suc n) z
               else Some (z, Inl (InZk err))))"

definition grant_entry :: "string \<Rightarrow> ace \<Rightarrow> ace list \<Rightarrow> ace list" where
  "grant_entry name a acl =
     (case principal_index acl name of
        Some i \<Rightarrow> acl[i := (acl ! i)\<lparr>ace_perms := Bit_Operations.or (ace_perms a) (ace_perms (acl ! i))\<rparr>]
      | None \<Rightarrow> acl @ [a])"

definition grant ::
  "('z, 'c) sec_env \<Rightarrow> (nat \<Rightarrow> 'z \<Rightarrow> 'z) \<Rightarrow> string \<Rightarrow> string \<Rightarrow> (string \<times> pyval) list \<Rightarrow> 'z
     \<Rightarrow> ('z \<times> (security_error + unit)) option" where
  "grant e others path name perms z =
     (case rbind (token_get e name z) (\<lambda>token. sec_fail InAuth (make_ace (sv_perms e) token ''digest'' perms)) of
        Inl err \<Rightarrow> Some (z, Inl err)
      | Inr a \<Rightarrow> update_acl (sv_client e) others path (grant_entry name a) 0 z)"

definition prohibit_entry :: "string \<Rightarrow> ace list \<Rightarrow> ace list" where
  "prohibit_entry name acl =
     (case principal_index acl name of None \<Rightarrow> acl | Some i \<Rightarrow> take i acl @ drop (Suc i) acl)"

definition prohibit ::
  "('z, 'c) sec_env \<Rightarrow> (nat \<Rightarrow> 'z \<Rightarrow> 'z) \<Rightarrow> string \<Rightarrow> string \<Rightarrow> 'z \<Rightarrow> ('z \<times> (security_error + unit)) option" where
  "prohibit e others path name z = update_acl (sv_client e) others path (prohibit_entry name) 0 z"

end
