(* ===== verification/SecurityProps.thy ===== *)
theory SecurityProps
  imports Security YamlStateProps
begin

text \<open>What becomes of the ACLs of nodes when several clients change them, and of the secrets passed on.\<close>

section \<open>The contract of the client\<close>

text \<open>
  ZooKeeper counts the changes of the ACL of a node. A connection that may change it does so when it names the
  current version or none, and is refused otherwise; an empty ACL is invalid.
\<close>

definition acl_client_ok :: "('z, 'c) acl_client \<Rightarrow> bool" where
  "acl_client_ok client \<longleftrightarrow> (\<forall>p acl v z old cur. ac_get_acl client z p = Inr (old, cur) \<longrightarrow> acl \<noteq> [] \<longrightarrow>
     (if v = None \<or> v = Some cur
      then \<exists>z'. ac_set_acl client p acl v z = Inr z' \<and> ac_get_acl client z' p = Inr (acl, Suc cur)
        \<and> (\<forall>q. q \<noteq> p \<longrightarrow> ac_get_acl client z' q = ac_get_acl client z q)
      else ac_set_acl client p acl v z = Inl BadVersion))"

lemma set_acl_current:
  assumes "acl_client_ok client" and "ac_get_acl client z p = Inr (old, cur)" and "acl \<noteq> []"
  shows "\<exists>z'. ac_set_acl client p acl (Some cur) z = Inr z' \<and> ac_get_acl client z' p = Inr (acl, Suc cur)
    \<and> (\<forall>q. q \<noteq> p \<longrightarrow> ac_get_acl client z' q = ac_get_acl client z q)"
  using assms(1) [unfolded acl_client_ok_def, rule_format, OF assms(2,3), of "Some cur"] by simp

lemma set_acl_stale:
  assumes "acl_client_ok client" and "ac_get_acl client z p = Inr (old, cur)" and "acl \<noteq> []" and "v \<noteq> cur"
  shows "ac_set_acl client p acl (Some v) z = Inl BadVersion"
  using assms(1) [unfolded acl_client_ok_def, rule_format, OF assms(2,3), of "Some v"] assms(4) by simp

section \<open>Updates by several clients\<close>

text \<open>The state after what others did in the first rounds, had nobody else changed it.\<close>

fun drift :: "(nat \<Rightarrow> 'z \<Rightarrow> 'z) \<Rightarrow> nat \<Rightarrow> 'z \<Rightarrow> 'z" where
  "drift others 0 z = z"
| "drift others (Suc n) z = others n (drift others n z)"

text \<open>
  What others do to the node \<open>p\<close>: it is there all the time, the version tells its ACL, and in round \<open>n\<close> they
  leave it alone.
\<close>

definition others_ok :: "('z, 'c) acl_client \<Rightarrow> (nat \<Rightarrow> 'z \<Rightarrow> 'z) \<Rightarrow> string \<Rightarrow> nat \<Rightarrow> 'z \<Rightarrow> bool" where
  "others_ok client others p n z \<longleftrightarrow>
     (\<forall>k\<le>Suc n. \<exists>acl v. ac_get_acl client (drift others k z) p = Inr (acl, v)) \<and>
     (\<forall>k\<le>n. \<forall>acl acl' v. ac_get_acl client (drift others k z) p = Inr (acl, v) \<longrightarrow>
        ac_get_acl client (drift others (Suc k) z) p = Inr (acl', v) \<longrightarrow> acl = acl') \<and>
     ac_get_acl client (drift others (Suc n) z) p = ac_get_acl client (drift others n z) p"

lemma update_acl_from:
  assumes client: "acl_client_ok client" and others: "others_ok client others p n z"
    and change: "\<And>acl. change acl \<noteq> []"
  shows "m \<le> n \<Longrightarrow> \<exists>k z' acl v. k \<le> n \<and> update_acl client others p change m (drift others m z) = Some (z', Inr ())
    \<and> ac_get_acl client (drift others (Suc k) z) p = Inr (acl, v) \<and> ac_get_acl client z' p = Inr (change acl, Suc v)
    \<and> (\<forall>q. q \<noteq> p \<longrightarrow> ac_get_acl client z' q = ac_get_acl client (drift others (Suc k) z) q)"
proof (induction "n - m" arbitrary: m)
  case 0
  then have m: "m = n" by simp
  obtain acl v where now: "ac_get_acl client (drift others n z) p = Inr (acl, v)"
    using others unfolding others_ok_def by (meson le_SucI order_refl)
  then have after: "ac_get_acl client (drift others (Suc n) z) p = Inr (acl, v)"
    using others by (simp add: others_ok_def)
  obtain z' where set: "ac_set_acl client p (change acl) (Some v) (drift others (Suc n) z) = Inr z'"
    "ac_get_acl client z' p = Inr (change acl, Suc v)"
    "\<forall>q. q \<noteq> p \<longrightarrow> ac_get_acl client z' q = ac_get_acl client (drift others (Suc n) z) q"
    using set_acl_current [OF client after change] by blast
  have "update_acl client others p change m (drift others m z) = Some (z', Inr ())"
    by (subst update_acl.simps) (use now set(1) m in \<open>simp add: Let_def\<close>)
  with after set show ?case by blast
next
  case (Suc d)
  then have m: "m < n" by simp
  obtain acl v where now: "ac_get_acl client (drift others m z) p = Inr (acl, v)"
    using others m unfolding others_ok_def by (meson le_SucI less_imp_le)
  obtain acl' v' where after: "ac_get_acl client (drift others (Suc m) z) p = Inr (acl', v')"
    using others m unfolding others_ok_def by (meson Suc_le_mono less_imp_le)
  show ?case
  proof (cases "v = v'")
    case True
    then have same: "acl' = acl" using others m now after unfolding others_ok_def by (metis less_imp_le)
    obtain z' where set: "ac_set_acl client p (change acl) (Some v) (drift others (Suc m) z) = Inr z'"
      "ac_get_acl client z' p = Inr (change acl, Suc v)"
      "\<forall>q. q \<noteq> p \<longrightarrow> ac_get_acl client z' q = ac_get_acl client (drift others (Suc m) z) q"
      using set_acl_current [OF client after change] True same by blast
    have "update_acl client others p change m (drift others m z) = Some (z', Inr ())"
      by (subst update_acl.simps) (use now set(1) in \<open>simp add: Let_def\<close>)
    with after set True same m show ?thesis by (metis less_imp_le)
  next
    case False
    then have "ac_set_acl client p (change acl) (Some v) (drift others (Suc m) z) = Inl BadVersion"
      using set_acl_stale [OF client after change] by simp
    then have "update_acl client others p change m (drift others m z)
        = update_acl client others p change (Suc m) (drift others (Suc m) z)"
      by (subst update_acl.simps) (use now in \<open>simp add: Let_def\<close>)
    then show ?thesis using Suc.hyps(1) [of "Suc m"] Suc.hyps(2) m by simp
  qed
qed

lemmas update_acl_result = update_acl_from [where m = 0, simplified]

section \<open>Grants\<close>

lemma principal_index_None: "principal_index acl name = None \<longleftrightarrow> (\<forall>a\<in>set acl. ace_principal a \<noteq> name)"
  by (induction acl) auto

lemma principal_index_Some:
  "principal_index acl name = Some i \<Longrightarrow> i < length acl \<and> ace_principal (acl ! i) = name"
  by (induction acl arbitrary: i) (auto split: if_splits)

text \<open>The right a bit of the permissions stands for.\<close>

definition may :: "ace list \<Rightarrow> string \<Rightarrow> nat \<Rightarrow> bool" where
  "may acl name b \<longleftrightarrow> (\<exists>a\<in>set acl. ace_principal a = name \<and> bit (ace_perms a) b)"

lemma ace_principal_perms [simp]: "ace_principal (a\<lparr>ace_perms := v\<rparr>) = ace_principal a"
  by (simp add: ace_principal_def)

lemma may_Cons: "may (a # acl) name b \<longleftrightarrow> (ace_principal a = name \<and> bit (ace_perms a) b) \<or> may acl name b"
  by (auto simp: may_def)

lemma grant_entry_Cons:
  "grant_entry name a (x # acl) =
     (if ace_principal x = name then x\<lparr>ace_perms := Bit_Operations.or (ace_perms a) (ace_perms x)\<rparr> # acl
      else x # grant_entry name a acl)"
  by (auto simp: grant_entry_def split: option.split)

lemma may_grant_entry:
  assumes "ace_principal a = name"
  shows "may (grant_entry name a acl) other b \<longleftrightarrow> may acl other b \<or> (other = name \<and> bit (ace_perms a) b)"
proof (induction acl)
  case Nil
  then show ?case using assms by (auto simp: grant_entry_def may_def)
next
  case (Cons x acl)
  then show ?case using assms by (auto simp: grant_entry_Cons may_Cons bit_or_iff)
qed

text \<open>
  C27: changes of ACLs lose nothing. When \<open>grant\<close> runs while other clients change the ACL of the same node, and they
  leave it alone in some round, it returns after at most as many rounds. The node then has the ACL the others left,
  in which the principal has the granted rights besides those it had, and every other principal those it had; no
  other node's ACL is touched.
\<close>

theorem grants_lose_nothing:
  assumes client: "acl_client_ok (sv_client e)" and others: "others_ok (sv_client e) others p n z"
    and token: "token_get e name z = Inr token" "hd (py_split CHR '':'' token) = name"
    and ace: "make_ace (sv_perms e) token ''digest'' perms = Inr a"
  shows "\<exists>k z' acl acl' v. k \<le> n \<and> grant e others p name perms z = Some (z', Inr ())
    \<and> ac_get_acl (sv_client e) (drift others (Suc k) z) p = Inr (acl, v) \<and> ac_get_acl (sv_client e) z' p = Inr (acl', Suc v)
    \<and> (\<forall>other b. may acl' other b \<longleftrightarrow> may acl other b \<or> (other = name \<and> bit (ace_perms a) b))
    \<and> (\<forall>q. q \<noteq> p \<longrightarrow> ac_get_acl (sv_client e) z' q = ac_get_acl (sv_client e) (drift others (Suc k) z) q)"
proof -
  have "ace_id a = token" using ace by (auto simp: make_ace_def result_simps split: if_splits)
  then have name: "ace_principal a = name" using token(2) by (simp add: ace_principal_def)
  have change: "grant_entry name a acl \<noteq> []" for acl
    by (cases "principal_index acl name") (auto simp: grant_entry_def dest: principal_index_Some)
  have "grant e others p name perms z = update_acl (sv_client e) others p (grant_entry name a) 0 z"
    using token(1) ace by (simp add: grant_def)
  with update_acl_result [OF client others, of "grant_entry name a"] change may_grant_entry [OF name]
  show ?thesis by fastforce
qed

text \<open>\<open>prohibit\<close> takes away one entry of the principal; where the ACL has two, as a policy makes them, the other stays.\<close>

lemma prohibit_entry_Cons:
  "prohibit_entry name (x # acl) = (if ace_principal x = name then acl else x # prohibit_entry name acl)"
  by (auto simp: prohibit_entry_def split: option.split)

lemma prohibit_leaves_entries:
  "filter (\<lambda>a. ace_principal a = name) (prohibit_entry name acl) = tl (filter (\<lambda>a. ace_principal a = name) acl)
   \<and> filter (\<lambda>a. ace_principal a \<noteq> name) (prohibit_entry name acl) = filter (\<lambda>a. ace_principal a \<noteq> name) acl"
proof (induction acl)
  case Nil
  then show ?case by (simp add: prohibit_entry_def)
next
  case (Cons x acl)
  then show ?case by (simp add: prohibit_entry_Cons)
qed

section \<open>A client over a list of nodes\<close>

record acl_store =
  as_nodes :: "(string, (string, string option) dict \<times> ace list \<times> nat) dict"
  as_auth :: "string list"

definition plain_perms :: zk_perms where
  "plain_perms = \<lparr>PERM_READ = 1, PERM_WRITE = 2, PERM_DELETE = 8, PERM_CREATE = 4, PERM_ADMIN = 16, PERM_ALL = 31\<rparr>"

definition readable :: "(string \<Rightarrow> string) \<Rightarrow> string list \<Rightarrow> ace list \<Rightarrow> bool" where
  "readable digest auths acl \<longleftrightarrow> list_ex (\<lambda>a. Bit_Operations.and (ace_perms a) (PERM_READ plain_perms) \<noteq> 0 \<and>
     (ace_scheme a = ''world'' \<or> list_ex (\<lambda>c. make_identity digest c = Inr (ace_id a)) auths)) acl"

definition plain_acl_client :: "(string \<Rightarrow> string) \<Rightarrow> (acl_store, (string, string option) dict) acl_client" where
  "plain_acl_client digest = \<lparr>
     ac_get = (\<lambda>z p. case dget (as_nodes z) p of None \<Rightarrow> Inl NoNode
       | Some (data, acl, _) \<Rightarrow> if readable digest (as_auth z) acl then Inr data else Inl NoAuth),
     ac_create = (\<lambda>p data acl sequence z. let q = (if sequence then p @ show_nat (length (as_nodes z)) else p) in
       if acl = [] then Inl InvalidAcl else if dhas (as_nodes z) q then Inl NodeExists
       else Inr (q, z\<lparr>as_nodes := dset q (data, acl, 0) (as_nodes z)\<rparr>)),
     ac_delete = (\<lambda>p z. if dhas (as_nodes z) p then Inr (z\<lparr>as_nodes := ddel p (as_nodes z)\<rparr>) else Inl NoNode),
     ac_get_acl = (\<lambda>z p. case dget (as_nodes z) p of None \<Rightarrow> Inl NoNode | Some (_, acl, v) \<Rightarrow> Inr (acl, v)),
     ac_set_acl = (\<lambda>p acl v z. case dget (as_nodes z) p of None \<Rightarrow> Inl NoNode
       | Some (data, _, cur) \<Rightarrow> if acl = [] then Inl InvalidAcl else if v = None \<or> v = Some cur
           then Inr (z\<lparr>as_nodes := dset p (data, acl, Suc cur) (as_nodes z)\<rparr>) else Inl BadVersion),
     ac_add_auth = (\<lambda>scheme c z. z\<lparr>as_auth := as_auth z @ [c]\<rparr>)\<rparr>"

lemma plain_acl_client_ok: "acl_client_ok (plain_acl_client digest)"
  by (auto simp: acl_client_ok_def plain_acl_client_def dget_dset split: option.splits)

definition token_content :: "(string, string option) dict \<Rightarrow> (string, string) dict" where
  "token_content d = map (\<lambda>(k, v). (k, printed v)) d"

definition token_node :: "(acl_store, (string, string option) dict, string) ynode" where
  "token_node = \<lparr>yn_load = token_content, yn_dump = map (\<lambda>(k, v). (k, Some v)),
     yn_get = (\<lambda>z. map_option fst (dget (as_nodes z) ''/auth-tokens'')),
     yn_retry_change = (\<lambda>f z. z\<lparr>as_nodes := dset ''/auth-tokens''
        (f (map_option fst (dget (as_nodes z) ''/auth-tokens'')), [], 0) (as_nodes z)\<rparr>)\<rparr>"

definition sec_demo :: "(acl_store, (string, string option) dict) sec_env" where
  "sec_demo = \<lparr>sv_client = plain_acl_client rev, sv_perms = plain_perms, sv_digest = rev, sv_dump = (\<lambda>d. d), sv_load = (\<lambda>d. d),
     sv_encode = (\<lambda>s. s), sv_decode = Some, sv_tokens = token_node,
     sv_open_acl = \<lparr>ace_id = ''anyone'', ace_scheme = ''world'', ace_perms = 31\<rparr>\<rparr>"

text \<open>While \<open>bob\<close> is granted read access, another client adds \<open>eve\<close> in the first round.\<close>

definition demo_ace :: "string \<Rightarrow> int \<Rightarrow> ace" where
  "demo_ace name perms = \<lparr>ace_id = name @ '':x'', ace_scheme = ''digest'', ace_perms = perms\<rparr>"

definition sec_store :: acl_store where
  "sec_store = \<lparr>as_nodes = [(''/auth-tokens'', [(''bob'', Some ''bob:x'')], [], 0),
     (''/n'', [], [demo_ace ''bob'' 2], 5)], as_auth = []\<rparr>"

definition sec_others :: "nat \<Rightarrow> acl_store \<Rightarrow> acl_store" where
  "sec_others n z = (if n = 0 then z\<lparr>as_nodes := dset ''/n'' ([], [demo_ace ''bob'' 2, demo_ace ''eve'' 1], 6) (as_nodes z)\<rparr> else z)"

theorem grants_lose_nothing_witness:
  "\<exists>z' acl'. grant sec_demo sec_others ''/n'' ''bob'' [(''read'', PBool True)] sec_store = Some (z', Inr ())
    \<and> ac_get_acl (sv_client sec_demo) z' ''/n'' = Inr (acl', 7) \<and> may acl' ''bob'' 0 \<and> may acl' ''bob'' 1 \<and> may acl' ''eve'' 0"
proof -
  let ?c = "sv_client sec_demo"
  have client: "acl_client_ok ?c" by (simp add: sec_demo_def plain_acl_client_ok)
  have acls: "ac_get_acl ?c (drift sec_others 0 sec_store) ''/n'' = Inr ([demo_ace ''bob'' 2], 5)"
    "ac_get_acl ?c (drift sec_others (Suc k) sec_store) ''/n'' = Inr ([demo_ace ''bob'' 2, demo_ace ''eve'' 1], 6)" for k
    by (simp add: sec_demo_def plain_acl_client_def sec_store_def)
      (induction k; simp add: sec_demo_def plain_acl_client_def sec_store_def sec_others_def)
  have others: "others_ok ?c sec_others ''/n'' 1 sec_store"
  proof -
    have "\<exists>acl v. ac_get_acl ?c (drift sec_others k sec_store) ''/n'' = Inr (acl, v)" for k
      using acls by (cases k) (simp_all del: drift.simps)
    moreover have "acl = acl'" if "ac_get_acl ?c (drift sec_others k sec_store) ''/n'' = Inr (acl, v)"
        "ac_get_acl ?c (drift sec_others (Suc k) sec_store) ''/n'' = Inr (acl', v)" for k acl acl' v
      using that acls by (cases k) (simp_all del: drift.simps)
    ultimately show ?thesis using acls unfolding others_ok_def by (metis One_nat_def)
  qed
  have token: "token_get sec_demo ''bob'' sec_store = Inr ''bob:x''" "hd (py_split CHR '':'' ''bob:x'') = ''bob''" by code_simp+
  have ace: "make_ace (sv_perms sec_demo) ''bob:x'' ''digest'' [(''read'', PBool True)] = Inr (demo_ace ''bob'' 1)" by code_simp
  obtain k z' acl acl' v where k: "k \<le> 1" "grant sec_demo sec_others ''/n'' ''bob'' [(''read'', PBool True)] sec_store = Some (z', Inr ())"
    "ac_get_acl ?c (drift sec_others (Suc k) sec_store) ''/n'' = Inr (acl, v)" "ac_get_acl ?c z' ''/n'' = Inr (acl', Suc v)"
    "\<forall>other b. may acl' other b \<longleftrightarrow> may acl other b \<or> (other = ''bob'' \<and> bit (ace_perms (demo_ace ''bob'' 1)) b)"
    using grants_lose_nothing [OF client others token ace] by (elim exE conjE) (rule that; assumption)
  have acl: "acl = [demo_ace ''bob'' 2, demo_ace ''eve'' 1]" "v = 6" using k(3) unfolding acls by auto
  have "may acl ''eve'' 0" "may acl ''bob'' 1" "bit (ace_perms (demo_ace ''bob'' 1)) 0" unfolding acl by code_simp+
  with k acl show ?thesis by auto
qed

section \<open>One time passwords\<close>

text \<open>
  A node made in sequence is read by whoever adds credentials that an entry with the right to read names, until it is
  deleted; its path has no colon if the one asked for has none.
\<close>

definition otp_client_ok :: "('z, 'c) sec_env \<Rightarrow> bool" where
  "otp_client_ok e \<longleftrightarrow> (\<forall>p data acl z path z'. ac_create (sv_client e) p data acl True z = Inr (path, z') \<longrightarrow>
     (CHR '':'' \<notin> set p \<longrightarrow> CHR '':'' \<notin> set path) \<and>
     (\<forall>c a. a \<in> set acl \<longrightarrow> ace_scheme a = ''digest'' \<longrightarrow> make_identity (sv_digest e) c = Inr (ace_id a) \<longrightarrow>
        Bit_Operations.and (ace_perms a) (PERM_READ (sv_perms e)) \<noteq> 0 \<longrightarrow>
        (let z1 = ac_add_auth (sv_client e) ''digest'' c z' in
           ac_get (sv_client e) z1 path = Inr data \<and>
           (\<exists>z2. ac_delete (sv_client e) path z1 = Inr z2 \<and>
              (\<forall>c'. ac_get (sv_client e) (ac_add_auth (sv_client e) ''digest'' c' z2) path = Inl NoNode)))))"

lemma created_otp:
  assumes "otp_create e extra name password otp_name otp generated (ot, z) = ((ot', z'), Inr ())"
  shows "\<exists>acl a path. ac_create (sv_client e) (ot_path ot) (sv_dump e [(''name'', Some name), (''password'', password)]) acl True z = Inr (path, z')
    \<and> ot' = (otp_fields name password otp_name otp generated ot)\<lparr>ot_path := path\<rparr> \<and> a \<in> set acl \<and> ace_scheme a = ''digest''
    \<and> make_identity (sv_digest e) (ot_otp_name ot' @ '':'' @ ot_otp ot') = Inr (ace_id a)
    \<and> ace_perms a = PERM_READ (sv_perms e) \<and> PERM_READ (sv_perms e) \<noteq> 0"
proof -
  let ?ot = "otp_fields name password otp_name otp generated ot"
  obtain acl path where acl: "otp_acl e extra ?ot = Inr acl"
    "ac_create (sv_client e) (ot_path ?ot) (sv_dump e [(''name'', Some name), (''password'', password)]) acl True z = Inr (path, z')"
    "ot' = ?ot\<lparr>ot_path := path\<rparr>"
    using assms by (auto simp: otp_create_def Let_def split: if_splits sum.splits)
  obtain token a where a: "get_token e \<lparr>pr_name = ot_otp_name ?ot, pr_password = ot_otp ?ot\<rparr> = Inr token"
    "make_ace (sv_perms e) token ''digest'' [(''read'', PBool True)] = Inr a" "a \<in> set acl"
    using acl(1) by (auto simp: otp_acl_def result_simps)
  have "ace_id a = token \<and> ace_scheme a = ''digest'' \<and> ace_perms a = PERM_READ (sv_perms e) \<and> PERM_READ (sv_perms e) \<noteq> 0"
    using a(2) by (auto simp: make_ace_def add_permission_def PERM_MAP_def result_simps split: if_splits)
  moreover have "ot_path ?ot = ot_path ot" by (simp add: otp_fields_def)
  ultimately show ?thesis using acl a by (auto simp: get_token_def credentials_of_def result_simps)
qed

text \<open>
  C28: a one time password hands its credentials over once. When \<open>create\<close> has returned, whoever gets the text of
  \<open>serialize\<close> and consumes it is answered the name and the password given to \<open>create\<close>; whoever consumes it again
  finds no node. With a password given, these are the credentials behind the token of the principal; without one the
  token is made of the generated password and the answer has none.
\<close>

theorem otp_roundtrip:
  assumes client: "otp_client_ok e" and base64: "\<forall>s. sv_decode e (sv_encode e s) = Some s"
    and yaml: "\<forall>d. dget (sv_load e (sv_dump e d)) = dget d"
    and path: "CHR '':'' \<notin> set (ot_path ot)" and name: "name \<noteq> []"
    and create: "otp_create e extra name password otp_name otp generated (ot, z) = ((ot', z'), Inr ())"
  shows "\<exists>z2 z3. consume e (serialize e ot') z' = (z2, Inr (Some name, password))
    \<and> consume e (serialize e ot') z2 = (z3, Inl (InZk NoNode))
    \<and> otp_token e ot' = get_token e \<lparr>pr_name = name, pr_password = given_or password (fst generated)\<rparr>"
proof -
  obtain acl a p where made:
    "ac_create (sv_client e) (ot_path ot) (sv_dump e [(''name'', Some name), (''password'', password)]) acl True z = Inr (p, z')"
    "ot' = (otp_fields name password otp_name otp generated ot)\<lparr>ot_path := p\<rparr>" "a \<in> set acl" "ace_scheme a = ''digest''"
    "make_identity (sv_digest e) (ot_otp_name ot' @ '':'' @ ot_otp ot') = Inr (ace_id a)"
    "ace_perms a = PERM_READ (sv_perms e)" "PERM_READ (sv_perms e) \<noteq> 0"
    using created_otp [OF create] by blast
  let ?c = "ot_otp_name ot' @ '':'' @ ot_otp ot'" and ?client = "sv_client e"
  let ?z1 = "ac_add_auth ?client ''digest'' ?c z'"
  have plain: "CHR '':'' \<notin> set p" and "ac_get ?client ?z1 p = Inr (sv_dump e [(''name'', Some name), (''password'', password)])
      \<and> (\<exists>z2. ac_delete ?client p ?z1 = Inr z2 \<and> (\<forall>c'. ac_get ?client (ac_add_auth ?client ''digest'' c' z2) p = Inl NoNode))"
    using client [unfolded otp_client_ok_def, rule_format, OF made(1)] path made(3-7) by (auto simp: Let_def)
  then obtain z2 where z2: "ac_get ?client ?z1 p = Inr (sv_dump e [(''name'', Some name), (''password'', password)])"
    "ac_delete ?client p ?z1 = Inr z2" "ac_get ?client (ac_add_auth ?client ''digest'' ?c z2) p = Inl NoNode" by blast
  have "ot_path ot' = p" by (simp add: made(2))
  then have decoded: "sv_decode e (serialize e ot') = Some (p @ CHR '':'' # ?c)" using base64 by (simp add: serialize_def)
  have once: "consume e (serialize e ot') z' = (z2, Inr (Some name, password))"
    using z2 yaml by (simp add: consume_def decoded split_once_append [OF plain] eff_simps principal_data_def)
  moreover have "consume e (serialize e ot') z2 = (ac_add_auth ?client ''digest'' ?c z2, Inl (InZk NoNode))"
    using z2(3) by (simp add: consume_def decoded split_once_append [OF plain] eff_simps)
  moreover have "otp_token e ot' = get_token e \<lparr>pr_name = name, pr_password = given_or password (fst generated)\<rparr>"
    using name by (simp add: otp_token_def otp_principal_of_def made(2) otp_fields_def truthy_def printed_def)
  ultimately show ?thesis by blast
qed

lemma plain_otp_client: "otp_client_ok sec_demo"
proof -
  have digits: "CHR '':'' \<notin> set (show_nat n)" for n
  proof
    assume "CHR '':'' \<in> set (show_nat n)"
    then have "is_digit CHR '':''" using show_nat_digits by (metis list_all_iff)
    then show False by (simp add: is_digit_def)
  qed
  have "readable rev (auths @ [c]) acl" if "a \<in> set acl" "make_identity rev c = Inr (ace_id a)"
      "Bit_Operations.and (ace_perms a) (PERM_READ plain_perms) \<noteq> 0" for auths c acl a
    using that by (auto simp: readable_def list_ex_iff)
  with digits show ?thesis
    by (auto simp: otp_client_ok_def sec_demo_def plain_acl_client_def Let_def dget_dset dget_ddel split: if_splits)
qed

theorem otp_roundtrip_witness:
  "\<exists>ot z z2. otp_create sec_demo None ''bob'' None None None (''pw'', ''one'', ''time'') (new_otp ''/otp/otp-'', sec_store) = ((ot, z), Inr ())
    \<and> consume sec_demo (serialize sec_demo ot) z = (z2, Inr (Some ''bob'', None))
    \<and> otp_token sec_demo ot = get_token sec_demo \<lparr>pr_name = ''bob'', pr_password = ''pw''\<rparr>"
proof -
  let ?run = "otp_create sec_demo None ''bob'' None None None (''pw'', ''one'', ''time'') (new_otp ''/otp/otp-'', sec_store)"
  have "snd ?run = Inr ()" by code_simp
  then obtain ot z where create: "?run = ((ot, z), Inr ())" by (metis prod.collapse)
  have "\<forall>s. sv_decode sec_demo (sv_encode sec_demo s) = Some s" "\<forall>d. dget (sv_load sec_demo (sv_dump sec_demo d)) = dget d"
    "CHR '':'' \<notin> set (ot_path (new_otp ''/otp/otp-''))" by (simp_all add: sec_demo_def new_otp_def)
  from otp_roundtrip [OF plain_otp_client this _ create] have
    "\<exists>z2. consume sec_demo (serialize sec_demo ot) z = (z2, Inr (Some ''bob'', None))"
    "otp_token sec_demo ot = get_token sec_demo \<lparr>pr_name = ''bob'', pr_password = ''pw''\<rparr>"
    by (auto simp: given_or_def truthy_def)
  with create show ?thesis by blast
qed

section \<open>Policies\<close>

text \<open>
  C36: a policy decides who may use a new node. A node created with the default ACL under a policy has the entries
  its rules answer for the path, an entry with all rights for the token of \<open>admin\<close>, one for the owner if there is one,
  and no other, but for the entry open to all when the rules answer none.
\<close>

theorem policy_covers_new_nodes:
  assumes "secure_create e (Some po) path data [sv_open_acl e] sequence z = (z', Inr created)"
  shows "\<exists>acl answers admin. ac_create (sv_client e) path data acl sequence z = Inr (created, z')
    \<and> rmap (\<lambda>rule. rule path z) (po_rules po) = Inr answers \<and> token_get e ''admin'' z = Inr admin
    \<and> set acl = set (concat answers)
        \<union> (if concat answers = [] then {\<lparr>ace_id = ''auth'', ace_scheme = ''world'', ace_perms = PERM_ALL (sv_perms e)\<rparr>} else {})
        \<union> {\<lparr>ace_id = token, ace_scheme = ''digest'', ace_perms = PERM_ALL (sv_perms e)\<rparr> | token.
             token = admin \<or> (\<exists>owner. po_owner po = Some owner \<and> get_token e owner = Inr token)}"
proof -
  have ace: "make_ace c i s [(''all'', PBool True)] = Inr a \<longleftrightarrow>
      s \<in> set VALID_SCHEMES \<and> PERM_ALL c \<noteq> 0 \<and> a = \<lparr>ace_id = i, ace_scheme = s, ace_perms = PERM_ALL c\<rparr>" for c i s a
    by (auto simp: make_ace_def add_permission_def PERM_MAP_def)
  obtain acl where acl: "policy_acl e po path z = Inr acl" "ac_create (sv_client e) path data acl sequence z = Inr (created, z')"
    using assms by (auto simp: secure_create_def eff_simps split: sum.splits)
  obtain answers where answers: "rmap (\<lambda>rule. rule path z) (po_rules po) = Inr answers"
    using acl(1) by (auto simp: policy_acl_def result_simps)
  obtain admin where admin: "token_get e ''admin'' z = Inr admin"
    using acl(1) by (auto simp: policy_acl_def result_simps)
  have "set acl = set (concat answers)
        \<union> (if concat answers = [] then {\<lparr>ace_id = ''auth'', ace_scheme = ''world'', ace_perms = PERM_ALL (sv_perms e)\<rparr>} else {})
        \<union> {\<lparr>ace_id = token, ace_scheme = ''digest'', ace_perms = PERM_ALL (sv_perms e)\<rparr> | token.
             token = admin \<or> (\<exists>owner. po_owner po = Some owner \<and> get_token e owner = Inr token)}"
    using acl(1) unfolding policy_acl_def answers admin
    by (auto simp: result_simps all_ace_def OPEN_AUTH_ACL_def ace split: if_splits option.splits)
  with acl(2) answers admin show ?thesis by blast
qed

definition policy_demo :: "acl_store policy" where
  "policy_demo = \<lparr>po_rules = [\<lambda>path z. Inr (if path = ''/s'' then [demo_ace ''bob'' 1] else [])], po_owner = None\<rparr>"

definition policy_store :: acl_store where
  "policy_store = \<lparr>as_nodes = [(''/auth-tokens'', [(''admin'', Some ''admin:x'')], [], 0)], as_auth = []\<rparr>"

theorem policy_covers_new_nodes_witness:
  "\<exists>z acl admin. secure_create sec_demo (Some policy_demo) ''/s'' [] [sv_open_acl sec_demo] False policy_store = (z, Inr ''/s'')
    \<and> ac_create (sv_client sec_demo) ''/s'' [] acl False policy_store = Inr (''/s'', z)
    \<and> token_get sec_demo ''admin'' policy_store = Inr admin
    \<and> set acl = {demo_ace ''bob'' 1, \<lparr>ace_id = admin, ace_scheme = ''digest'', ace_perms = 31\<rparr>}"
proof -
  let ?run = "secure_create sec_demo (Some policy_demo) ''/s'' [] [sv_open_acl sec_demo] False policy_store"
  have "snd ?run = Inr ''/s''" by code_simp
  then obtain z where run: "?run = (z, Inr ''/s'')" by (metis prod.collapse)
  have rules: "rmap (\<lambda>rule. rule ''/s'' policy_store) (po_rules policy_demo) = Inr [[demo_ace ''bob'' 1]]"
    by (simp add: policy_demo_def)
  have demo: "PERM_ALL (sv_perms sec_demo) = 31" "po_owner policy_demo = None"
    by (simp_all add: sec_demo_def plain_perms_def policy_demo_def)
  from policy_covers_new_nodes [OF run] obtain acl admin where
    "ac_create (sv_client sec_demo) ''/s'' [] acl False policy_store = Inr (''/s'', z)"
    "token_get sec_demo ''admin'' policy_store = Inr admin"
    "set acl = {demo_ace ''bob'' 1} \<union> {\<lparr>ace_id = admin, ace_scheme = ''digest'', ace_perms = 31\<rparr>}"
    unfolding rules demo by auto
  with run show ?thesis by (auto intro!: exI [of _ z] exI [of _ acl])
qed

section \<open>Tokens\<close>

text \<open>The database answers the token of the principal added last under a name, whatever else is added or removed.\<close>

lemma read_optional: "\<exists>s. read node z False = (None, s)"
  by (cases "yn_get node z") (simp_all add: read_def Let_def)

lemma token_get_node:
  assumes "ynode_ok (sv_tokens e)"
  shows "token_get e name z =
    (case node_get (sv_tokens e) z name of None \<Rightarrow> Inl (PrincipalNotFound name) | Some token \<Rightarrow> Inr token)"
proof -
  obtain s where s: "read (sv_tokens e) z False = (None, s)" using read_optional [of "sv_tokens e" z] by blast
  show ?thesis using read_pristine [OF s]
    by (auto simp: token_get_def token_read_def s getitem_def check_def guard_or_def split: option.split)
qed

lemma token_add_kept:
  assumes ok: "ynode_ok (sv_tokens e)" and add: "token_add e p z = (z', Inr ())"
  shows "token_get e (pr_name p) z' = get_token e p \<and> (\<forall>name. name \<noteq> pr_name p \<longrightarrow> token_get e name z' = token_get e name z)"
proof -
  obtain s where s: "read (sv_tokens e) z False = (None, s)" using read_optional [of "sv_tokens e" z] by blast
  obtain token where token: "get_token e p = Inr token"
    using add by (auto simp: token_add_def eff_simps split: sum.splits)
  let ?s = "s\<lparr>ys_cache := dset (pr_name p) token (ys_cache s)\<rparr>"
  have set: "setitem s (pr_name p) token = Inr ?s"
    using read_pristine [OF s] by (simp add: setitem_def check_def)
  obtain s' changes where wrote: "write_state (sv_tokens e) ?s z = Inr (s', z', changes)"
    using add by (auto simp: token_add_def token_write_def token_read_def s token set on_tokens_def eff_simps echange_def
        result_simps split: sum.splits)
  have "node_get (sv_tokens e) z' name = (if name = pr_name p then Some token else node_get (sv_tokens e) z name)" for name
    using write_result [OF ok wrote] read_pristine [OF s] by (auto simp: dget_dset)
  then show ?thesis by (simp add: token_get_node [OF ok] token)
qed

end
