(* ===== verification/ProviderCommon.thy ===== *)
theory ProviderCommon
  imports Provider
begin

text \<open>
  \<open>juju/providers/common\<close>: what the providers of machines have in common: the state kept in their file storage, finding
  the machines that run ZooKeeper, launching machines, bootstrapping, destroying and connecting.

  A provider is a record of the methods its class overrides and of its file storage; \<open>'w\<close> is the world they work on,
  \<open>'c\<close> the contents of files, written and read by YAML.
\<close>

record ('w, 'c, 'm) base_provider =
  bp_instance_id :: "'m \<Rightarrow> yvalue"
  bp_dns_name :: "'m \<Rightarrow> string option"
  bp_get_machines :: "yvalue list \<Rightarrow> ('w, provider_error, 'm list) eff"
  bp_shutdown_machines :: "'m list \<Rightarrow> ('w, provider_error, 'm list) eff"
  bp_launch :: "string \<Rightarrow> constraints \<Rightarrow> bool \<Rightarrow> 'm list \<Rightarrow> ('w, provider_error, 'm list) eff"
    \<comment> \<open>\<open>start_machine\<close> of the launch class: machine id, constraints, master, zookeepers\<close>
  bp_storage_get :: "string \<Rightarrow> ('w, provider_error, 'c) eff"
  bp_storage_put :: "string \<Rightarrow> 'c \<Rightarrow> ('w, provider_error, unit) eff"
  bp_load :: "'c \<Rightarrow> yvalue"
  bp_dump :: "yvalue \<Rightarrow> 'c"
  bp_text :: "string \<Rightarrow> 'c"
  bp_error_text :: "provider_error \<Rightarrow> string"  \<comment> \<open>\<open>str\<close>\<close>
  bp_config :: "(string, yvalue) dict"

section \<open>State\<close>

definition STATE_FILE :: string where
  "STATE_FILE = ''provider-state''"

text \<open>\<open>load(data.read()) or False\<close>\<close>

definition load_provider_state :: "('w, 'c, 'm) base_provider \<Rightarrow> ('w, provider_error, yvalue) eff" where
  "load_provider_state b =
     ecatch (ebind (bp_storage_get b STATE_FILE) (\<lambda>data.
         let v = bp_load b data in eret (if y_true v then v else YBool False)))
       (\<lambda>err. case err of FileNotFound _ \<Rightarrow> Some (eret (YBool False)) | _ \<Rightarrow> None)"

definition save_provider_state :: "('w, 'c, 'm) base_provider \<Rightarrow> yvalue \<Rightarrow> ('w, provider_error, unit) eff" where
  "save_provider_state b state = bp_storage_put b STATE_FILE (bp_dump b state)"

section \<open>Machines\<close>

text \<open>\<open>itemgetter(0)\<close>\<close>

definition first_machine :: "'m list \<Rightarrow> provider_error + 'm" where
  "first_machine ms = (case ms of [] \<Rightarrow> Inl (OutsideError ''IndexError'' []) | m # _ \<Rightarrow> Inr m)"

definition base_get_machine :: "('w, 'c, 'm) base_provider \<Rightarrow> yvalue \<Rightarrow> ('w, provider_error, 'm) eff" where
  "base_get_machine b instance_id = ebind (bp_get_machines b [instance_id]) (\<lambda>ms. eread (\<lambda>_. first_machine ms))"

definition base_shutdown_machine :: "('w, 'c, 'm) base_provider \<Rightarrow> 'm \<Rightarrow> ('w, provider_error, 'm) eff" where
  "base_shutdown_machine b machine = ebind (bp_shutdown_machines b [machine]) (\<lambda>ms. eread (\<lambda>_. first_machine ms))"

text \<open>
  \<open>try: save_state({}) finally: ...\<close>: what the \<open>finally\<close> returns takes the place of an exception of \<open>save_state\<close>.
\<close>

definition base_destroy_environment :: "('w, 'c, 'm) base_provider \<Rightarrow> ('w, provider_error, 'm list) eff" where
  "base_destroy_environment b w =
     (let (w', _) = save_provider_state b (YMap []) w
      in ebind (bp_get_machines b []) (bp_shutdown_machines b) w')"

definition get_placement_policy :: "('w, 'c, 'm) base_provider \<Rightarrow> yvalue" where
  "get_placement_policy b = (case dget (bp_config b) ''placement'' of None \<Rightarrow> YText ''unassigned'' | Some v \<Rightarrow> v)"

section \<open>The machines that run ZooKeeper\<close>

definition require_true :: "yvalue \<Rightarrow> provider_error + unit" where
  "require_true v = guard_or (y_true v) (EnvironmentNotFound ''is the environment bootstrapped?'')"

definition state_entry :: "yvalue \<Rightarrow> string \<Rightarrow> provider_error + yvalue" where
  "state_entry v k =
     (case v of
        YMap d \<Rightarrow> Inr (case dget d k of None \<Rightarrow> YNone | Some x \<Rightarrow> x)
      | _ \<Rightarrow> Inl (OutsideError ''AttributeError'' []))"

definition id_list :: "yvalue \<Rightarrow> provider_error + yvalue list" where
  "id_list v = (case v of YList ids \<Rightarrow> Inr ids | _ \<Rightarrow> Inl (OutsideError ''TypeError'' []))"

text \<open>The loop: the machines found and the ids of those missing.\<close>

fun find_machines :: "('w, 'c, 'm) base_provider \<Rightarrow> yvalue list \<Rightarrow> 'm list \<times> yvalue list
    \<Rightarrow> ('w, provider_error, 'm list \<times> yvalue list) eff" where
  "find_machines b [] acc w = (w, Inr acc)"
| "find_machines b (i # ids) (machines, missing) w =
     ebind (ecatch (ebind (base_get_machine b i) (\<lambda>m. eret (machines @ [m], missing)))
         (\<lambda>err. case err of MachinesNotFound js \<Rightarrow> Some (eret (machines, missing @ js)) | _ \<Rightarrow> None))
       (find_machines b ids) w"

definition join_ids :: "yvalue list \<Rightarrow> provider_error + string" where
  "join_ids ids =
     rbind (rmap (\<lambda>v. case v of YText s \<Rightarrow> Inr s | _ \<Rightarrow> Inl (OutsideError ''TypeError'' [])) ids) (\<lambda>ss.
     Inr (py_join '', '' ss))"

definition find_zookeepers :: "('w, 'c, 'm) base_provider \<Rightarrow> ('w, provider_error, 'm list) eff" where
  "find_zookeepers b =
     ebind (load_provider_state b) (\<lambda>state.
     ebind (eread (\<lambda>_. require_true state)) (\<lambda>_.
     ebind (eread (\<lambda>_. state_entry state ''zookeeper-instances'')) (\<lambda>instance_ids.
     ebind (eread (\<lambda>_. require_true instance_ids)) (\<lambda>_.
     ebind (eread (\<lambda>_. id_list instance_ids)) (\<lambda>ids.
     ebind (find_machines b ids ([], [])) (\<lambda>(machines, missing).
     if machines \<noteq> [] then eret machines
     else eread (\<lambda>_. rbind (join_ids missing) (\<lambda>s. Inl (EnvironmentNotFound (''machines are not running ('' @ s @ '')''))))))))))"

section \<open>Launching\<close>

text \<open>\<open>LaunchMachine.run\<close>\<close>

definition launch_run ::
  "('w, 'c, 'm) base_provider \<Rightarrow> constraints \<Rightarrow> bool \<Rightarrow> string \<Rightarrow> ('w, provider_error, 'm list) eff" where
  "launch_run b constraints master machine_id =
     ebind (if master then eret [] else find_zookeepers b) (\<lambda>zookeepers.
     ebind (bp_launch b machine_id constraints master zookeepers) (\<lambda>machines.
     ebind (if master
            then save_provider_state b (YMap [(''zookeeper-instances'', YList (map (bp_instance_id b) machines))])
            else eret ()) (\<lambda>_.
     eret machines)))"

text \<open>The two entries of \<open>machine_data\<close> that are read.\<close>

record machine_data =
  md_machine_id :: "string option"
  md_constraints :: "constraints option"

definition launch :: "('w, 'c, 'm) base_provider \<Rightarrow> machine_data \<Rightarrow> bool \<Rightarrow> ('w, provider_error, 'm list) eff" where
  "launch b data master =
     (case md_machine_id data of
        None \<Rightarrow> eraise (ProviderError ''Cannot launch a machine without specifying a machine-id'')
      | Some machine_id \<Rightarrow>
          (case md_constraints data of
             None \<Rightarrow> eraise (ProviderError ''Cannot launch a machine without specifying constraints'')
           | Some constraints \<Rightarrow> launch_run b constraints master machine_id))"

section \<open>Bootstrapping\<close>

definition VERIFY_PATH :: string where
  "VERIFY_PATH = ''bootstrap-verify''"

definition verify_file_storage :: "('w, 'c, 'm) base_provider \<Rightarrow> ('w, provider_error, unit) eff" where
  "verify_file_storage b =
     ecatch (bp_storage_put b VERIFY_PATH (bp_text b ''storage is writable''))
       (\<lambda>err. Some (eraise (ProviderError (''Bootstrap aborted because file storage is not writable: '' @ bp_error_text b err))))"

definition bootstrap :: "('w, 'c, 'm) base_provider \<Rightarrow> constraints \<Rightarrow> ('w, provider_error, 'm list) eff" where
  "bootstrap b constraints =
     ecatch (find_zookeepers b)
       (\<lambda>err. case err of
          EnvironmentNotFound _ \<Rightarrow> Some (ebind (verify_file_storage b) (\<lambda>_.
            launch b \<lparr>md_machine_id = Some ''0'', md_constraints = Some constraints\<rparr> True))
        | _ \<Rightarrow> None)"

section \<open>Connecting\<close>

text \<open>
  Parameters: which of the machines is chosen, the connection over SSH, and the wait for \<open>/initialized\<close>. \<open>EnvironmentNotFound\<close>
  and \<open>EnvironmentPending\<close> are \<open>NoConnection\<close>; \<open>no_connection\<close> says which outside errors are, or are a timeout.
\<close>

record ('w, 'm, 'client) connector =
  cn_choose :: "'m list \<Rightarrow> 'm"
  cn_connect :: "string \<Rightarrow> ('w, provider_error, 'client) eff"
  cn_wait :: "'client \<Rightarrow> ('w, provider_error, unit) eff"
  cn_no_connection :: "string \<Rightarrow> bool"

definition is_no_connection :: "('w, 'm, 'client) connector \<Rightarrow> provider_error \<Rightarrow> bool" where
  "is_no_connection c err =
     (case err of EnvironmentNotFound _ \<Rightarrow> True | EnvironmentPending _ \<Rightarrow> True | OutsideError code _ \<Rightarrow> cn_no_connection c code
      | _ \<Rightarrow> False)"

definition internal_connect ::
  "('w, 'c, 'm) base_provider \<Rightarrow> ('w, 'm, 'client) connector \<Rightarrow> ('w, provider_error, 'client) eff" where
  "internal_connect b c =
     ebind (find_zookeepers b) (\<lambda>candidates.
     let assigned = filter (\<lambda>m. bp_dns_name b m \<noteq> None \<and> bp_dns_name b m \<noteq> Some []) candidates in
     if assigned = [] then eraise (EnvironmentPending ''No machines have assigned addresses'')
     else let name = the (bp_dns_name b (cn_choose c assigned)) in
       ebind (ecatch (cn_connect c (name @ '':2181'')) (\<lambda>err.
           if is_no_connection c err
           then Some (eraise (EnvironmentPending (''Cannot connect to environment using '' @ name
             @ '' (perhaps still initializing): '' @ bp_error_text b err)))
           else None)) (\<lambda>client.
       ebind (cn_wait c client) (\<lambda>_. eret client)))"

text \<open>What others do before attempt \<open>n\<close> is \<open>others n\<close>. The loop need not end.\<close>

partial_function (option) connect_from ::
  "('w, 'c, 'm) base_provider \<Rightarrow> ('w, 'm, 'client) connector \<Rightarrow> (nat \<Rightarrow> 'w \<Rightarrow> 'w) \<Rightarrow> nat \<Rightarrow> 'w
     \<Rightarrow> ('w \<times> (provider_error + 'client)) option" where
  "connect_from b c others n w =
     (case internal_connect b c (others n w) of
        (w', Inl (EnvironmentPending _)) \<Rightarrow> connect_from b c others (Suc n) w'
      | r \<Rightarrow> Some r)"

text \<open>The world before attempt \<open>n\<close> when all before were pending.\<close>

fun after_attempts ::
  "('w, 'c, 'm) base_provider \<Rightarrow> ('w, 'm, 'client) connector \<Rightarrow> (nat \<Rightarrow> 'w \<Rightarrow> 'w) \<Rightarrow> nat \<Rightarrow> 'w \<Rightarrow> 'w" where
  "after_attempts b c others 0 w = w"
| "after_attempts b c others (Suc n) w = fst (internal_connect b c (others n (after_attempts b c others n w)))"

definition is_pending :: "provider_error + 'a \<Rightarrow> bool" where
  "is_pending r \<longleftrightarrow> (\<exists>info. r = Inl (EnvironmentPending info))"

lemma connect_from_attempts:
  assumes "\<forall>k. m \<le> k \<and> k < n \<longrightarrow> is_pending (snd (internal_connect b c (others k (after_attempts b c others k w))))"
    and "internal_connect b c (others n (after_attempts b c others n w)) = (w', r)" and "\<not> is_pending r" and "m \<le> n"
  shows "connect_from b c others m (after_attempts b c others m w) = Some (w', r)"
  using assms(1,4)
proof (induction "n - m" arbitrary: m)
  case 0
  then have "m = n" by simp
  then show ?case using assms(2,3)
    by (subst connect_from.simps) (auto simp: is_pending_def split: sum.split provider_error.split)
next
  case (Suc d)
  then have "m < n" by simp
  then obtain info where "snd (internal_connect b c (others m (after_attempts b c others m w))) = Inl (EnvironmentPending info)"
    using Suc.prems(1) by (auto simp: is_pending_def)
  then have "connect_from b c others m (after_attempts b c others m w)
      = connect_from b c others (Suc m) (after_attempts b c others (Suc m) w)"
    by (subst connect_from.simps) (simp add: case_prod_unfold)
  moreover have "d = n - Suc m" "\<forall>k. Suc m \<le> k \<and> k < n \<longrightarrow> is_pending (snd (internal_connect b c (others k (after_attempts b c others k w))))" "Suc m \<le> n"
    using Suc.hyps(2) Suc.prems(1) \<open>m < n\<close> by simp_all
  ultimately show ?case using Suc.hyps(1) by presburger
qed

text \<open>Connecting ends with the first attempt that is not pending, and answers what that one does.\<close>

lemma connect_first:
  assumes "\<forall>k<n. is_pending (snd (internal_connect b c (others k (after_attempts b c others k w))))"
    and "internal_connect b c (others n (after_attempts b c others n w)) = (w', r)" and "\<not> is_pending r"
  shows "connect_from b c others 0 w = Some (w', r)"
  using connect_from_attempts [of 0 n b c others w w' r] assms by simp

section \<open>An environment is bootstrapped once\<close>

text \<open>
  What is asked of a provider: \<open>files w\<close> are the files of its storage, \<open>running w\<close> its machines by id. Listing
  machines changes nothing; launching answers machines that run from then on and leaves the files alone.
\<close>

definition storage_ok :: "('w, 'c, 'm) base_provider \<Rightarrow> ('w \<Rightarrow> string \<Rightarrow> 'c option) \<Rightarrow> bool" where
  "storage_ok b files \<longleftrightarrow>
     (\<forall>f w. bp_storage_get b f w = (w, case files w f of None \<Rightarrow> Inl (FileNotFound f) | Some c \<Rightarrow> Inr c)) \<and>
     (\<forall>f c w w'. bp_storage_put b f c w = (w', Inr ()) \<longrightarrow> files w' = (files w)(f \<mapsto> c)) \<and>
     (\<forall>v. bp_load b (bp_dump b v) = v)"

definition machines_ok ::
  "('w, 'c, 'm) base_provider \<Rightarrow> ('w \<Rightarrow> string \<Rightarrow> 'c option) \<Rightarrow> ('w \<Rightarrow> yvalue \<Rightarrow> 'm option) \<Rightarrow> bool" where
  "machines_ok b files running \<longleftrightarrow>
     (\<forall>i w m. running w i = Some m \<longrightarrow> bp_get_machines b [i] w = (w, Inr [m]) \<and> bp_instance_id b m = i) \<and>
     (\<forall>is w. fst (bp_get_machines b is w) = w) \<and>
     (\<forall>f c w. running (fst (bp_storage_put b f c w)) = running w) \<and>
     (\<forall>ms w. files (fst (bp_shutdown_machines b ms w)) = files w) \<and>
     (\<forall>i c master zs w w' ms. bp_launch b i c master zs w = (w', Inr ms) \<longrightarrow>
        ms \<noteq> [] \<and> files w' = files w \<and> (\<forall>m\<in>set ms. running w' (bp_instance_id b m) = Some m))"

lemma find_machines_running:
  assumes "machines_ok b files running" and "\<forall>m\<in>set ms. running w (bp_instance_id b m) = Some m"
  shows "find_machines b (map (bp_instance_id b) ms) (found, missing) w = (w, Inr (found @ ms, missing))"
  using assms(2)
proof (induction ms arbitrary: found)
  case (Cons m ms)
  then have "bp_get_machines b [bp_instance_id b m] w = (w, Inr [m])"
    using assms(1) unfolding machines_ok_def by simp
  then have "base_get_machine b (bp_instance_id b m) w = (w, Inr m)"
    by (simp add: base_get_machine_def ebind_def first_machine_def eread_def)
  then show ?case using Cons by (simp add: ebind_def ecatch_def eret_def)
qed simp

text \<open>What the storage and the listing of machines keep, finding those that run ZooKeeper keeps.\<close>

context eff_relation
begin

lemma keeps_get_machine: "(\<And>ids. keeps (bp_get_machines b ids)) \<Longrightarrow> keeps (base_get_machine b i)"
  unfolding base_get_machine_def by (intro keeps_bind keeps_pure)

lemma keeps_find_machines:
  assumes "\<And>ids. keeps (bp_get_machines b ids)"
  shows "keeps (find_machines b ids acc)"
proof (induction ids arbitrary: acc)
  case Nil
  then show ?case by (cases acc) (simp add: keeps_def R_refl)
next
  case (Cons i ids)
  obtain machines missing where acc: "acc = (machines, missing)" by (cases acc)
  have "find_machines b (i # ids) acc =
     ebind (ecatch (ebind (base_get_machine b i) (\<lambda>m. eret (machines @ [m], missing)))
         (\<lambda>err. case err of MachinesNotFound js \<Rightarrow> Some (eret (machines, missing @ js)) | _ \<Rightarrow> None))
       (find_machines b ids)" by (simp add: acc fun_eq_iff)
  moreover have "keeps k" if "(case err of MachinesNotFound js \<Rightarrow> Some (eret (machines, missing @ js)) | _ \<Rightarrow> None) = Some k"
    for err k using that by (cases err) auto
  ultimately show ?case
    by (auto intro!: keeps_bind keeps_catch keeps_pure keeps_get_machine assms Cons.IH)
qed

lemma keeps_load_provider_state: "keeps (bp_storage_get b STATE_FILE) \<Longrightarrow> keeps (load_provider_state b)"
  unfolding load_provider_state_def Let_def
  by (intro keeps_catch keeps_bind keeps_pure) (auto split: provider_error.splits)

lemma keeps_find_zookeepers:
  assumes "keeps (bp_storage_get b STATE_FILE)" and "\<And>ids. keeps (bp_get_machines b ids)"
  shows "keeps (find_zookeepers b)"
  unfolding find_zookeepers_def
  by (intro keeps_bind keeps_pure keeps_load_provider_state keeps_find_machines assms) (auto split: prod.split)

end

text \<open>What only reads leaves the world as it is.\<close>

interpretation reads: eff_relation "\<lambda>w w' :: 'w. w' = w"
  by unfold_locales simp_all

lemma load_state_stored:
  assumes "storage_ok b files" and "files w STATE_FILE = Some (bp_dump b v)"
  shows "load_provider_state b w = (w, Inr (if y_true v then v else YBool False))"
  using assms by (simp add: storage_ok_def load_provider_state_def ecatch_def ebind_def eret_def Let_def)

lemma zookeepers_found:
  assumes "storage_ok b files" and "machines_ok b files running"
    and "files w STATE_FILE = Some (bp_dump b (YMap [(''zookeeper-instances'', YList (map (bp_instance_id b) ms))]))"
    and "ms \<noteq> []" and "\<forall>m\<in>set ms. running w (bp_instance_id b m) = Some m"
  shows "find_zookeepers b w = (w, Inr ms)"
  using load_state_stored [OF assms(1,3)] find_machines_running [OF assms(2,5), of "[]" "[]"] assms(4)
  by (simp add: find_zookeepers_def ebind_def eread_def eret_def require_true_def y_true_def state_entry_def id_list_def)

lemma find_zookeepers_reads:
  assumes "storage_ok b files" and "machines_ok b files running"
  shows "reads.keeps (find_zookeepers b)"
  by (rule reads.keeps_find_zookeepers) (use assms in \<open>simp_all add: reads.keeps_def storage_ok_def machines_ok_def\<close>)

lemma put_keeps_running: "machines_ok b files running \<Longrightarrow> running (fst (bp_storage_put b f c w)) = running w"
  by (simp add: machines_ok_def)

lemma launched_found:
  assumes ok: "storage_ok b files" "machines_ok b files running" and run: "launch_run b c True i w = (w', Inr ms)"
  shows "find_zookeepers b w' = (w', Inr ms)"
proof -
  obtain w1 where launch: "bp_launch b i c True [] w = (w1, Inr ms)"
    and save: "bp_storage_put b STATE_FILE (bp_dump b (YMap [(''zookeeper-instances'', YList (map (bp_instance_id b) ms))])) w1 = (w', Inr ())"
    using run by (auto simp: launch_run_def save_provider_state_def ebind_eq_Inr eret_def)
  have new: "ms \<noteq> []" "\<forall>m\<in>set ms. running w1 (bp_instance_id b m) = Some m"
    using ok(2) launch by (simp_all add: machines_ok_def)
  have "running w' = running w1" using put_keeps_running [OF ok(2)] save by (metis fst_conv)
  moreover have "files w' STATE_FILE = Some (bp_dump b (YMap [(''zookeeper-instances'', YList (map (bp_instance_id b) ms))]))"
    using ok(1) save by (simp add: storage_ok_def)
  ultimately show ?thesis using zookeepers_found [OF ok] new by simp
qed

text \<open>
  C38: an environment is bootstrapped once. When \<open>bootstrap\<close> has returned, its machines are those that run ZooKeeper,
  and bootstrapping again answers them and changes nothing. After the environment was destroyed, unless its state could
  not be saved, there is none.
\<close>

theorem bootstrap_once:
  assumes ok: "storage_ok b files" "machines_ok b files running" and boot: "bootstrap b c w = (w', Inr ms)"
  shows "find_zookeepers b w' = (w', Inr ms) \<and> bootstrap b c' w' = (w', Inr ms)
    \<and> (\<forall>w'' r. base_destroy_environment b w' = (w'', r) \<longrightarrow> snd (save_provider_state b (YMap []) w') = Inr () \<longrightarrow>
        (\<exists>info. find_zookeepers b w'' = (w'', Inl (EnvironmentNotFound info))))"
proof (intro conjI allI impI)
  obtain r where first: "find_zookeepers b w = (w, r)"
    using reads.keepsD [OF find_zookeepers_reads [OF ok], of w] by (metis prod.collapse)
  show found: "find_zookeepers b w' = (w', Inr ms)"
  proof (cases r)
    case (Inr x)
    then show ?thesis using boot first by (simp add: bootstrap_def ecatch_def)
  next
    case (Inl err)
    then obtain w1 where "launch_run b c True ''0'' w1 = (w', Inr ms)"
      using boot first by (auto simp: bootstrap_def ecatch_def launch_def ebind_eq_Inr split: provider_error.splits)
    then show ?thesis by (rule launched_found [OF ok])
  qed
  then show "bootstrap b c' w' = (w', Inr ms)" by (simp add: bootstrap_def ecatch_def)
  fix w'' r'
  assume destroy: "base_destroy_environment b w' = (w'', r')" and saved: "snd (save_provider_state b (YMap []) w') = Inr ()"
  obtain w1 where w1: "save_provider_state b (YMap []) w' = (w1, Inr ())" using saved by (metis prod.collapse)
  then have "files w1 STATE_FILE = Some (bp_dump b (YMap []))" using ok(1) by (simp add: storage_ok_def save_provider_state_def)
  moreover have "files w'' = files w1"
  proof -
    have "fst (bp_get_machines b [] w1) = w1" "files (fst (bp_shutdown_machines b machines w1)) = files w1" for machines
      using ok(2) by (simp_all add: machines_ok_def)
    then show ?thesis
      using destroy w1 by (auto simp: base_destroy_environment_def ebind_def Let_def split: prod.splits sum.splits) (metis fst_conv)
  qed
  ultimately have "load_provider_state b w'' = (w'', Inr (YBool False))"
    using load_state_stored [OF ok(1), of w'' "YMap []"] by (simp add: y_true_def)
  then show "\<exists>info. find_zookeepers b w'' = (w'', Inl (EnvironmentNotFound info))"
    by (simp add: find_zookeepers_def ebind_def eread_def require_true_def y_true_def guard_or_def)
qed

text \<open>A provider that keeps files and the numbers of its machines.\<close>

type_synonym demo_world = "(string, yvalue) dict \<times> nat list"

definition demo_base :: "(demo_world, yvalue, nat) base_provider" where
  "demo_base = \<lparr>
     bp_instance_id = (\<lambda>m. YInt (int m)), bp_dns_name = (\<lambda>m. Some ''host''),
     bp_get_machines = (\<lambda>is w. (w, if is = [] then Inr (snd w)
        else case filter (\<lambda>i. \<not> list_ex (\<lambda>m. i = YInt (int m)) (snd w)) is of
          [] \<Rightarrow> Inr (List.map_filter (\<lambda>i. List.find (\<lambda>m. i = YInt (int m)) (snd w)) is) | js \<Rightarrow> Inl (MachinesNotFound js))),
     bp_shutdown_machines = (\<lambda>ms w. ((fst w, filter (\<lambda>m. m \<notin> set ms) (snd w)), Inr ms)),
     bp_launch = (\<lambda>i c master zs w. ((fst w, snd w @ [length (snd w)]), Inr [length (snd w)])),
     bp_storage_get = (\<lambda>f w. (w, case dget (fst w) f of None \<Rightarrow> Inl (FileNotFound f) | Some c \<Rightarrow> Inr c)),
     bp_storage_put = (\<lambda>f c w. ((dset f c (fst w), snd w), Inr ())),
     bp_load = (\<lambda>c. c), bp_dump = (\<lambda>v. v), bp_text = YText, bp_error_text = (\<lambda>_. []), bp_config = []\<rparr>"

definition demo_running :: "demo_world \<Rightarrow> yvalue \<Rightarrow> nat option" where
  "demo_running w i = List.find (\<lambda>m. i = YInt (int m)) (snd w)"

lemma demo_base_ok: "storage_ok demo_base (\<lambda>w. dget (fst w))" "machines_ok demo_base (\<lambda>w. dget (fst w)) demo_running"
proof -
  show "storage_ok demo_base (\<lambda>w. dget (fst w))" by (simp add: storage_ok_def demo_base_def dget_dset)
  have "\<exists>n. List.find (\<lambda>m. k = m) (ns @ [k]) = Some n \<and> n = k" for k :: nat and ns
    by (induction ns) auto
  then have new: "List.find (\<lambda>m. k = m) (ns @ [k]) = Some k" for k :: nat and ns by blast
  show "machines_ok demo_base (\<lambda>w. dget (fst w)) demo_running"
    unfolding machines_ok_def
  proof (intro conjI allI impI)
    fix i w m assume m: "demo_running w i = Some m"
    then have "m \<in> set (snd w)" "i = YInt (int m)" using find_SomeD [of _ "snd w" m] by (auto simp: demo_running_def)
    then show "bp_get_machines demo_base [i] w = (w, Inr [m])" "bp_instance_id demo_base m = i"
      using m by (auto simp: demo_base_def demo_running_def list_ex_iff List.map_filter_def)
  next
    fix i c master zs w w' ms assume launch: "bp_launch demo_base i c master zs w = (w', Inr ms)"
    then show "ms \<noteq> []" "dget (fst w') = dget (fst w)" by (auto simp: demo_base_def)
    show "\<forall>m\<in>set ms. demo_running w' (bp_instance_id demo_base m) = Some m"
      using launch new by (auto simp: demo_base_def demo_running_def)
  qed (simp_all add: demo_base_def demo_running_def fun_eq_iff)
qed

theorem bootstrap_once_witness:
  "\<forall>c. \<exists>w. bootstrap demo_base c ([], []) = (w, Inr [0]) \<and> bootstrap demo_base c w = (w, Inr [0])
    \<and> (\<exists>w' info. fst (base_destroy_environment demo_base w) = w' \<and> find_zookeepers demo_base w' = (w', Inl (EnvironmentNotFound info)))"
proof
  fix c
  have "snd (bootstrap demo_base c ([], [])) = Inr [0]" by code_simp
  then obtain w where boot: "bootstrap demo_base c ([], []) = (w, Inr [0])" by (metis prod.collapse)
  obtain w' r where destroy: "base_destroy_environment demo_base w = (w', r)" by (cases "base_destroy_environment demo_base w")
  have "snd (save_provider_state demo_base (YMap []) w) = Inr ()" by (simp add: save_provider_state_def demo_base_def)
  with bootstrap_once [OF demo_base_ok boot, of c] boot destroy
  show "\<exists>w. bootstrap demo_base c ([], []) = (w, Inr [0]) \<and> bootstrap demo_base c w = (w, Inr [0])
      \<and> (\<exists>w' info. fst (base_destroy_environment demo_base w) = w' \<and> find_zookeepers demo_base w' = (w', Inl (EnvironmentNotFound info)))"
    by auto
qed

end
