(* ===== verification/Ec2.thy ===== *)
theory Ec2
  imports ProviderCommon PyText
begin

text \<open>
  \<open>juju/providers/ec2\<close>: the provider of machines of Amazon EC2: which instance type and image a machine gets, its security
  groups and ports, launching, listing and shutting down.

  Parameters: the calls of \<open>txaws\<close> (\<open>ec2_api\<close>), the page of current images as rows of a table, the user data of a
  machine (\<open>CloudInit\<close>) and the file storage. An \<open>EC2Error\<close> is its code and message.
\<close>

section \<open>Instance types\<close>

record instance_type_info =
  it_arch :: string
  it_cpu :: rat
  it_mem :: rat
  it_cost :: rat
  it_hvm :: bool

definition EITHER_ARCH :: string where
  "EITHER_ARCH = ''?''"

definition instance_type_of :: "string \<Rightarrow> rat \<Rightarrow> rat \<Rightarrow> rat \<Rightarrow> bool \<Rightarrow> instance_type_info" where
  "instance_type_of arch cpu mem cost hvm = \<lparr>it_arch = arch, it_cpu = cpu, it_mem = mem, it_cost = cost, it_hvm = hvm\<rparr>"

definition INSTANCE_TYPES :: "(string, instance_type_info) dict" where
  "INSTANCE_TYPES =
     [(''t1.micro'', instance_type_of EITHER_ARCH (1/10) 613 (2/100) False),
      (''m1.small'', instance_type_of EITHER_ARCH 1 1740 (8/100) False),
      (''m1.medium'', instance_type_of EITHER_ARCH 2 3840 (16/100) False),
      (''m1.large'', instance_type_of ''amd64'' 4 7680 (32/100) False),
      (''m1.xlarge'', instance_type_of ''amd64'' 8 15360 (64/100) False),
      (''m2.xlarge'', instance_type_of ''amd64'' (13/2) 17510 (45/100) False),
      (''m2.2xlarge'', instance_type_of ''amd64'' 13 35020 (9/10) False),
      (''m2.4xlarge'', instance_type_of ''amd64'' 26 70040 (18/10) False),
      (''c1.medium'', instance_type_of EITHER_ARCH 5 1740 (165/1000) False),
      (''c1.xlarge'', instance_type_of ''amd64'' 20 7168 (66/100) False),
      (''cc1.4xlarge'', instance_type_of ''amd64'' (67/2) 23552 (13/10) True),
      (''cc2.8xlarge'', instance_type_of ''amd64'' 88 61952 (24/10) True),
      (''cg1.4xlarge'', instance_type_of ''amd64'' (67/2) 22528 (21/10) True)]"

definition DEFAULT_REGION :: string where
  "DEFAULT_REGION = ''us-east-1''"

definition convert_zone :: "string \<Rightarrow> conv_error + cvalue" where
  "convert_zone s =
     (let s = py_lower s in
      case s of [c] \<Rightarrow> if (97::nat) \<le> of_char c \<and> of_char c \<le> (122::nat) then Inr (CStr s) else Inl BadValue | _ \<Rightarrow> Inl BadValue)"

definition get_region_uri :: "string \<Rightarrow> string" where
  "get_region_uri region = ''https://ec2.'' @ region @ ''.amazonaws.com''"

definition arch_match :: "string \<Rightarrow> string \<Rightarrow> bool" where
  "arch_match actual desired \<longleftrightarrow> actual = desired \<or> (actual = EITHER_ARCH \<and> desired \<in> {''i386'', ''amd64''})"

text \<open>\<open>not desired\<close>: none, the empty text or zero\<close>

definition desires_nothing :: "cvalue option \<Rightarrow> bool" where
  "desires_nothing v \<longleftrightarrow> v = None \<or> v = Some (CStr []) \<or> v = Some (CNum (Fin 0))"

definition arch_ok :: "cvalue option \<Rightarrow> instance_type_info \<Rightarrow> bool" where
  "arch_ok desired t \<longleftrightarrow> desires_nothing desired \<or> (case desired of Some (CStr a) \<Rightarrow> arch_match (it_arch t) a | _ \<Rightarrow> False)"

definition at_least :: "cvalue option \<Rightarrow> rat \<Rightarrow> bool" where
  "at_least desired v \<longleftrightarrow> desires_nothing desired \<or> (case desired of Some d \<Rightarrow> op_ge (CNum (Fin v)) d | None \<Rightarrow> False)"

definition get_filters :: "constraints \<Rightarrow> constraint_error + (instance_type_info \<Rightarrow> bool)" where
  "get_filters c =
     rbind (get_item c ''arch'') (\<lambda>arch.
     rbind (get_item c ''cpu'') (\<lambda>cpu.
     rbind (get_item c ''mem'') (\<lambda>mem.
     Inr (\<lambda>t. arch_ok arch t \<and> at_least cpu (it_cpu t) \<and> at_least mem (it_mem t)))))"

datatype spec_error =
    NoInstanceType  \<comment> \<open>\<open>ProviderError\<close>\<close>
  | BadConstraints constraint_error
  | UnknownType string  \<comment> \<open>\<open>KeyError\<close>\<close>
  | NoDefaultSeries  \<comment> \<open>\<open>KeyError\<close>\<close>
  | NoImage string string string  \<comment> \<open>\<open>LookupError\<close>\<close>
  | NoHvmImage string
  | ShortRow  \<comment> \<open>\<open>IndexError\<close>\<close>
  | PageError string

definition spec_fail :: "('e \<Rightarrow> spec_error) \<Rightarrow> 'e + 'a \<Rightarrow> spec_error + 'a" where
  "spec_fail f r = (case r of Inl err \<Rightarrow> Inl (f err) | Inr x \<Rightarrow> Inr x)"

definition cheapest :: "(string \<times> instance_type_info) list \<Rightarrow> string list" where
  "cheapest ts = map fst (sort_key (\<lambda>(_, t). it_cost t) ts)"

definition get_instance_type :: "(string, string) dict \<Rightarrow> constraints \<Rightarrow> spec_error + string" where
  "get_instance_type config c =
     (case dget config ''default-instance-type'' of
        Some t \<Rightarrow> Inr t
      | None \<Rightarrow>
          rbind (spec_fail BadConstraints (get_item c ''instance-type'')) (\<lambda>instance_type.
          case instance_type of
            Some (CStr t) \<Rightarrow> Inr t
          | _ \<Rightarrow>
              rbind (spec_fail BadConstraints (get_filters c)) (\<lambda>ok.
              case cheapest (filter (\<lambda>(_, t). ok t) INSTANCE_TYPES) of
                [] \<Rightarrow> Inl NoInstanceType
              | t # _ \<Rightarrow> Inr t)))"

section \<open>Images\<close>

text \<open>\<open>extract_ami\<close> on the rows of the page\<close>

fun extract_ami :: "string \<Rightarrow> string \<Rightarrow> string \<Rightarrow> bool \<Rightarrow> string list list \<Rightarrow> spec_error + string" where
  "extract_ami series arch region hvm [] = Inl (NoImage series arch region)"
| "extract_ami series arch region hvm (tokens # rows) =
     (if length tokens \<le> 4 then Inl ShortRow
      else if tokens ! 4 \<noteq> ''ebs'' then extract_ami series arch region hvm rows
      else if length tokens > 10 \<and> tokens ! 10 \<noteq> (if hvm then ''hvm'' else ''paravirtual'') then extract_ami series arch region hvm rows
      else if length tokens \<le> 10 \<and> hvm then Inl (NoHvmImage series)
      else if length tokens \<le> 5 then Inl ShortRow
      else if tokens ! 5 \<noteq> arch then extract_ami series arch region hvm rows
      else if length tokens \<le> 6 then Inl ShortRow
      else if tokens ! 6 \<noteq> region then extract_ami series arch region hvm rows
      else if length tokens \<le> 7 then Inl ShortRow
      else Inr (tokens ! 7))"

text \<open>The page by its address: the rows, or the status of the error.\<close>

definition image_uri :: "string \<Rightarrow> string" where
  "image_uri series = ''https://cloud-images.ubuntu.com/query/'' @ series @ ''/server/released.current.txt''"

definition get_current_ami ::
  "(string \<Rightarrow> string + string list list) \<Rightarrow> string \<Rightarrow> string \<Rightarrow> string \<Rightarrow> bool \<Rightarrow> spec_error + string" where
  "get_current_ami page series arch region hvm =
     (case page (image_uri series) of
        Inl status \<Rightarrow> Inl (if status = ''404'' then NoImage series arch region else PageError status)
      | Inr rows \<Rightarrow> extract_ami series arch region hvm rows)"

definition text_of :: "cvalue option \<Rightarrow> string option" where
  "text_of v = (case v of Some (CStr []) \<Rightarrow> None | Some (CStr s) \<Rightarrow> Some s | _ \<Rightarrow> None)"

text \<open>\<open>constraints["ubuntu-series"] or config["default-series"]\<close>, \<open>constraints["arch"] or "amd64"\<close>\<close>

definition get_machine_spec ::
  "(string \<Rightarrow> string + string list list) \<Rightarrow> (string, string) dict \<Rightarrow> constraints \<Rightarrow> spec_error + string \<times> string" where
  "get_machine_spec page config c =
     rbind (get_instance_type config c) (\<lambda>instance_type.
     case dget config ''default-image-id'' of
       Some image_id \<Rightarrow> Inr (instance_type, image_id)
     | None \<Rightarrow>
         rbind (spec_fail BadConstraints (get_item c ''ubuntu-series'')) (\<lambda>series.
         rbind (case text_of series of
                  Some s \<Rightarrow> Inr s
                | None \<Rightarrow> (case dget config ''default-series'' of Some s \<Rightarrow> Inr s | None \<Rightarrow> Inl NoDefaultSeries)) (\<lambda>series.
         rbind (spec_fail BadConstraints (get_item c ''arch'')) (\<lambda>arch.
         case dget INSTANCE_TYPES instance_type of
           None \<Rightarrow> Inl (UnknownType instance_type)
         | Some t \<Rightarrow>
             rbind (get_current_ami page series (case text_of arch of Some a \<Rightarrow> a | None \<Rightarrow> ''amd64'')
                      (case dget config ''region'' of Some r \<Rightarrow> r | None \<Rightarrow> DEFAULT_REGION) (it_hvm t))
               (\<lambda>image_id. Inr (instance_type, image_id))))))"

section \<open>The service\<close>

datatype ec2_error = EC2Error (ec_code: string) (ec_message: string)

record ec2_instance =
  ei_instance_id :: string
  ei_dns_name :: "string option"
  ei_private_dns_name :: "string option"
  ei_state :: string
  ei_groups :: "string list"  \<comment> \<open>of its reservation\<close>

record ip_permission =
  ip_protocol :: string
  ip_from_port :: string
  ip_to_port :: string
  ip_cidr :: string

record security_group =
  sg_name :: string
  sg_owner_id :: string
  sg_allowed_ips :: "ip_permission list"

record run_request =
  rr_image_id :: string
  rr_instance_type :: string
  rr_security_groups :: "string list"
  rr_availability_zone :: "string option"
  rr_user_data :: string

record 'w ec2_api =
  ea_describe_instances :: "string list \<Rightarrow> ('w, ec2_error, ec2_instance list) eff"
  ea_terminate_instances :: "string list \<Rightarrow> ('w, ec2_error, string list) eff"  \<comment> \<open>the ids of what it answers\<close>
  ea_run_instances :: "run_request \<Rightarrow> ('w, ec2_error, ec2_instance list) eff"
  ea_describe_security_groups :: "string list \<Rightarrow> ('w, ec2_error, security_group list) eff"
  ea_create_security_group :: "string \<Rightarrow> string \<Rightarrow> ('w, ec2_error, unit) eff"
  ea_delete_security_group :: "string \<Rightarrow> ('w, ec2_error, unit) eff"
  ea_authorize_port :: "string \<Rightarrow> ip_permission \<Rightarrow> ('w, ec2_error, unit) eff"
  ea_authorize_group :: "string \<Rightarrow> string \<Rightarrow> string \<Rightarrow> ('w, ec2_error, unit) eff"  \<comment> \<open>the group and owner let in\<close>
  ea_revoke_port :: "string \<Rightarrow> ip_permission \<Rightarrow> ('w, ec2_error, unit) eff"

record ec2_machine =
  em_instance_id :: string
  em_dns_name :: "string option"
  em_private_dns_name :: "string option"
  em_state :: string

record 'w ec2_env =
  ee_api :: "'w ec2_api"
  ee_environment :: string
  ee_config :: "(string, string) dict"
  ee_page :: "string \<Rightarrow> string + string list list"
  ee_user_data :: "string \<Rightarrow> constraints \<Rightarrow> bool \<Rightarrow> ec2_machine list \<Rightarrow> provider_error + string"
  ee_odd_id :: "yvalue \<Rightarrow> provider_error"  \<comment> \<open>what asking for an id that is no text raises\<close>
  ee_spec_error :: "spec_error \<Rightarrow> provider_error"

text \<open>An operation of the service with what becomes of its error; \<open>raw_error\<close> lets it pass.\<close>

definition on_ec2 :: "(ec2_error \<Rightarrow> provider_error) \<Rightarrow> ('w, ec2_error, 'a) eff \<Rightarrow> ('w, provider_error, 'a) eff" where
  "on_ec2 f op w = (case op w of (w', Inl err) \<Rightarrow> (w', Inl (f err)) | (w', Inr x) \<Rightarrow> (w', Inr x))"

definition raw_error :: "ec2_error \<Rightarrow> provider_error" where
  "raw_error err = OutsideError (ec_code err) (ec_message err)"

definition machine_from_instance :: "ec2_instance \<Rightarrow> ec2_machine" where
  "machine_from_instance i =
     \<lparr>em_instance_id = ei_instance_id i, em_dns_name = ei_dns_name i, em_private_dns_name = ei_private_dns_name i,
      em_state = ei_state i\<rparr>"

section \<open>Security groups\<close>

definition juju_security_group :: "'w ec2_env \<Rightarrow> string" where
  "juju_security_group e = ''juju-'' @ ee_environment e"

definition machine_group_name :: "'w ec2_env \<Rightarrow> string \<Rightarrow> string" where
  "machine_group_name e machine_id = ''juju-'' @ ee_environment e @ ''-'' @ machine_id"

definition anywhere :: string where
  "anywhere = ''0.0.0.0/0''"

definition port_permission :: "int \<times> string \<Rightarrow> ip_permission" where
  "port_permission = (\<lambda>(port, protocol).
     \<lparr>ip_protocol = protocol, ip_from_port = show_int port, ip_to_port = show_int port, ip_cidr = anywhere\<rparr>)"

definition port_message :: "string \<Rightarrow> int \<times> string \<Rightarrow> ec2_machine \<Rightarrow> ec2_error \<Rightarrow> provider_error" where
  "port_message doing = (\<lambda>(port, protocol) machine err.
     ProviderError (''Unexpected EC2Error '' @ doing @ '' '' @ show_int port @ ''/'' @ protocol @ '' on machine ''
       @ em_instance_id machine @ '': '' @ ec_message err))"

definition open_provider_port :: "'w ec2_env \<Rightarrow> ec2_machine \<Rightarrow> string \<Rightarrow> int \<times> string \<Rightarrow> ('w, provider_error, unit) eff" where
  "open_provider_port e machine machine_id q =
     on_ec2 (port_message ''opening'' q machine) (ea_authorize_port (ee_api e) (machine_group_name e machine_id) (port_permission q))"

definition close_provider_port :: "'w ec2_env \<Rightarrow> ec2_machine \<Rightarrow> string \<Rightarrow> int \<times> string \<Rightarrow> ('w, provider_error, unit) eff" where
  "close_provider_port e machine machine_id q =
     on_ec2 (port_message ''closing'' q machine) (ea_revoke_port (ee_api e) (machine_group_name e machine_id) (port_permission q))"

text \<open>The port a permission opens to the world, if it is a single one; \<open>int\<close> may raise.\<close>

definition opened_port :: "ip_permission \<Rightarrow> provider_error + (int \<times> string) option" where
  "opened_port p =
     (if ip_cidr p \<noteq> anywhere then Inr None
      else case (py_int (ip_from_port p), py_int (ip_to_port p)) of
        (Some a, Some b) \<Rightarrow> Inr (if a = b then Some (a, ip_protocol p) else None)
      | _ \<Rightarrow> Inl (OutsideError ''ValueError'' []))"

definition get_provider_opened_ports :: "'w ec2_env \<Rightarrow> ec2_machine \<Rightarrow> string \<Rightarrow> ('w, provider_error, (int \<times> string) list) eff" where
  "get_provider_opened_ports e machine machine_id =
     ebind (on_ec2 (\<lambda>err. ProviderError (''Unexpected EC2Error getting open ports on machine '' @ em_instance_id machine
               @ '': '' @ ec_message err))
             (ea_describe_security_groups (ee_api e) [machine_group_name e machine_id])) (\<lambda>groups.
     eread (\<lambda>_. case groups of
         [] \<Rightarrow> Inl (OutsideError ''IndexError'' [])
       | g # _ \<Rightarrow> rbind (rmap opened_port (sg_allowed_ips g)) (\<lambda>qs. Inr (remdups (List.map_filter (\<lambda>q. q) qs)))))"

definition machine_group_of :: "'w ec2_env \<Rightarrow> ec2_instance \<Rightarrow> string option" where
  "machine_group_of e i = List.find (\<lambda>g. g \<noteq> juju_security_group e) (ei_groups i)"

definition delete_security_group :: "'w ec2_env \<Rightarrow> string \<Rightarrow> ('w, provider_error, unit) eff" where
  "delete_security_group e g =
     on_ec2 (\<lambda>err. ProviderError (''EC2 error when attempting to delete group '' @ g @ '': '' @ ec_message err))
       (ea_delete_security_group (ee_api e) g)"

text \<open>
  One instance of an answer: a terminated one is not waited for any more, and the deletion of its group starts; how the
  deletion ended is kept in \<open>pending\<close>.
\<close>

definition check_terminated ::
  "'w ec2_env \<Rightarrow> ec2_instance \<Rightarrow> 'w \<times> string list \<times> (provider_error + unit) list \<Rightarrow> 'w \<times> string list \<times> (provider_error + unit) list" where
  "check_terminated e i = (\<lambda>(w, wait_on, pending).
     if ei_state i = ''terminated''
     then (case machine_group_of e i of
             None \<Rightarrow> (w, removeAll (ei_instance_id i) wait_on, pending)
           | Some g \<Rightarrow> (let (w', r) = delete_security_group e g w in (w', removeAll (ei_instance_id i) wait_on, pending @ [r])))
     else (w, wait_on, pending))"

text \<open>The polls: who is still waited for, the deletions, and the last answer.\<close>

fun poll_terminated ::
  "'w ec2_env \<Rightarrow> nat \<Rightarrow> string list \<Rightarrow> (provider_error + unit) list \<Rightarrow> ec2_instance list
     \<Rightarrow> ('w, provider_error, string list \<times> (provider_error + unit) list \<times> ec2_instance list) eff" where
  "poll_terminated e 0 wait_on pending instances w = (w, Inr (wait_on, pending, instances))"
| "poll_terminated e (Suc n) wait_on pending instances w =
     (if wait_on = [] then (w, Inr (wait_on, pending, instances))
      else case on_ec2 raw_error (ea_describe_instances (ee_api e) wait_on) w of
        (w, Inl err) \<Rightarrow> (w, Inl err)
      | (w, Inr instances) \<Rightarrow>
          (let (w, wait_on, pending) = fold (check_terminated e) instances (w, wait_on, pending)
           in poll_terminated e n wait_on pending instances w))"

text \<open>\<open>", ".join(sorted(outstanding))\<close> raises where the group of an instance is \<open>None\<close>.\<close>

definition report_outstanding :: "'w ec2_env \<Rightarrow> ec2_instance list \<Rightarrow> provider_error + unit" where
  "report_outstanding e instances =
     (if list_all (\<lambda>i. machine_group_of e i \<noteq> None) instances then Inr () else Inl (OutsideError ''TypeError'' []))"

definition gather_results :: "(provider_error + unit) list \<Rightarrow> provider_error + unit" where
  "gather_results rs = rbind (rmap (\<lambda>r. r) rs) (\<lambda>_. Inr ())"

definition remove_security_groups :: "'w ec2_env \<Rightarrow> string list \<Rightarrow> ('w, provider_error, unit) eff" where
  "remove_security_groups e instance_ids =
     ebind (poll_terminated e 200 (remdups instance_ids) [] []) (\<lambda>(wait_on, pending, instances).
     ebind (if wait_on = [] then eret () else eread (\<lambda>_. report_outstanding e instances)) (\<lambda>_.
     eread (\<lambda>_. gather_results pending)))"

text \<open>Whether the group was deleted; an error is none here.\<close>

definition destroy_environment_security_group :: "'w ec2_env \<Rightarrow> ('w, provider_error, bool) eff" where
  "destroy_environment_security_group e w =
     (case ea_delete_security_group (ee_api e) (juju_security_group e) w of
        (w', Inl err) \<Rightarrow> (w', Inr False)
      | (w', Inr _) \<Rightarrow> (w', Inr True))"

section \<open>Launching\<close>

text \<open>The environment's group, made where there is none.\<close>

definition ensure_juju_group :: "'w ec2_env \<Rightarrow> string list \<Rightarrow> ('w, provider_error, unit) eff" where
  "ensure_juju_group e group_ids =
     (let api = ee_api e; g = juju_security_group e in
      if g \<in> set group_ids then eret ()
      else
        ebind (on_ec2 raw_error (ea_create_security_group api g (''juju group for '' @ ee_environment e))) (\<lambda>_.
        ebind (on_ec2 raw_error (ea_authorize_port api g (port_permission (22, ''tcp'')))) (\<lambda>_.
        ebind (on_ec2 raw_error (ea_describe_security_groups api [g])) (\<lambda>groups_info.
        if groups_info = [] then eraise (OutsideError ''IndexError'' [])
        else on_ec2 raw_error (ea_authorize_group api g g (sg_owner_id (last groups_info)))))))"

definition ensure_groups :: "'w ec2_env \<Rightarrow> string \<Rightarrow> ('w, provider_error, string list) eff" where
  "ensure_groups e machine_id =
     (let api = ee_api e; machine_group = machine_group_name e machine_id in
      ebind (on_ec2 raw_error (ea_describe_security_groups api [])) (\<lambda>groups.
      ebind (ensure_juju_group e (map sg_name groups)) (\<lambda>_.
      ebind (if machine_group \<in> set (map sg_name groups)
             then on_ec2 (\<lambda>err. ProviderError (''Unexpected EC2Error deleting security group '' @ machine_group @ '': '' @ ec_message err))
                    (ea_delete_security_group api machine_group)
             else eret ()) (\<lambda>_.
      ebind (on_ec2 raw_error (ea_create_security_group api machine_group
          (''juju group for '' @ ee_environment e @ '' machine '' @ machine_id))) (\<lambda>_.
      eret [juju_security_group e, machine_group])))))"

definition on_constraint :: "constraint_error + 'a \<Rightarrow> 'w ec2_env \<Rightarrow> provider_error + 'a" where
  "on_constraint r e = (case r of Inl err \<Rightarrow> Inl (ee_spec_error e (BadConstraints err)) | Inr x \<Rightarrow> Inr x)"

definition availability_zone :: "'w ec2_env \<Rightarrow> cvalue option \<Rightarrow> string option" where
  "availability_zone e zone =
     (case zone of
        Some (CStr z) \<Rightarrow> Some ((case dget (ee_config e) ''region'' of Some r \<Rightarrow> r | None \<Rightarrow> DEFAULT_REGION) @ z)
      | _ \<Rightarrow> None)"

definition ec2_launch ::
  "'w ec2_env \<Rightarrow> string \<Rightarrow> constraints \<Rightarrow> bool \<Rightarrow> ec2_machine list \<Rightarrow> ('w, provider_error, ec2_machine list) eff" where
  "ec2_launch e machine_id c master zookeepers =
     ebind (eread (\<lambda>_. ee_user_data e machine_id c master zookeepers)) (\<lambda>user_data.
     ebind (eread (\<lambda>_. on_constraint (get_item c ''ec2-zone'') e)) (\<lambda>zone.
     ebind (eread (\<lambda>_. case get_machine_spec (ee_page e) (ee_config e) c of
         Inl err \<Rightarrow> Inl (ee_spec_error e err) | Inr spec \<Rightarrow> Inr spec)) (\<lambda>spec.
     ebind (ensure_groups e machine_id) (\<lambda>security_groups.
     ebind (on_ec2 raw_error (ea_run_instances (ee_api e)
         \<lparr>rr_image_id = snd spec, rr_instance_type = fst spec, rr_security_groups = security_groups,
          rr_availability_zone = availability_zone e zone, rr_user_data = user_data\<rparr>)) (\<lambda>instances.
     eret (map machine_from_instance instances))))))"

section \<open>The provider\<close>

definition using_amazon :: "'w ec2_env \<Rightarrow> bool" where
  "using_amazon e \<longleftrightarrow> \<not> dhas (ee_config e) ''ec2-uri''"

definition ec2_constraint_set :: "constraint_error + constraint_set" where
  "ec2_constraint_set =
     rbind (register_generics (dkeys INSTANCE_TYPES) (new_constraint_set ''ec2'')) (\<lambda>cs.
     Inr (register ''ec2-zone'' None convert_zone op_eq True cs))"

definition ec2_legacy_config_keys :: "'w ec2_env \<Rightarrow> string list" where
  "ec2_legacy_config_keys e =
     (if using_amazon e then filter (dhas (ee_config e)) [''default-image-id'', ''default-instance-type''] else [])"

text \<open>\<open>re.findall(r"\bi-[0-9a-f]{3,15}\b", message)\<close>: \<open>i-\<close> and a run of 3 to 15 digits that ends where the word does.\<close>

definition word_char :: "char \<Rightarrow> bool" where
  "word_char c \<longleftrightarrow> (let n = of_char c :: nat in
     (48 \<le> n \<and> n \<le> 57) \<or> (65 \<le> n \<and> n \<le> 90) \<or> (97 \<le> n \<and> n \<le> 122) \<or> n = 95)"

definition hex_char :: "char \<Rightarrow> bool" where
  "hex_char c \<longleftrightarrow> (let n = of_char c :: nat in (48 \<le> n \<and> n \<le> 57) \<or> (97 \<le> n \<and> n \<le> 102))"

fun find_instance_ids :: "bool \<Rightarrow> string \<Rightarrow> string list" where
  "find_instance_ids in_word [] = []"
| "find_instance_ids in_word (c # s) =
     (let digits = takeWhile hex_char (drop 1 s) in
      if \<not> in_word \<and> c = CHR ''i'' \<and> take 1 s = ''-'' \<and> 3 \<le> length digits \<and> length digits \<le> 15
        \<and> \<not> list_ex word_char (take 1 (drop (1 + length digits) s))
      then (c # ''-'' @ digits) # find_instance_ids True (drop (1 + length digits) s)
      else find_instance_ids (word_char c) s)"

definition listing_error :: "string list \<Rightarrow> ec2_error \<Rightarrow> provider_error" where
  "listing_error instance_ids err =
     (if ec_code err = ''InvalidInstanceID.NotFound'' then MachinesNotFound (map YText (find_instance_ids False (ec_message err)))
      else ProviderError (''Unexpected EC2Error getting machines '' @ py_join '', '' instance_ids @ '': '' @ ec_message err))"

definition of_environment :: "'w ec2_env \<Rightarrow> ec2_instance \<Rightarrow> bool" where
  "of_environment e i \<longleftrightarrow> ei_state i \<in> {''running'', ''pending''} \<and> juju_security_group e \<in> set (ei_groups i)"

definition ec2_get_machines :: "'w ec2_env \<Rightarrow> string list \<Rightarrow> ('w, provider_error, ec2_machine list) eff" where
  "ec2_get_machines e instance_ids =
     ebind (on_ec2 (listing_error instance_ids) (ea_describe_instances (ee_api e) instance_ids)) (\<lambda>instances.
     let machines = map machine_from_instance (filter (of_environment e) instances);
         missing = filter (\<lambda>i. i \<notin> em_instance_id ` set machines) (remdups instance_ids)
     in if missing \<noteq> [] then eraise (MachinesNotFound (map YText missing)) else eret machines)"

definition ec2_shutdown_machines :: "'w ec2_env \<Rightarrow> ec2_machine list \<Rightarrow> ('w, provider_error, ec2_machine list) eff" where
  "ec2_shutdown_machines e machines =
     (if machines = [] then eret []
      else ebind (ec2_get_machines e (map em_instance_id machines)) (\<lambda>killable_machines.
        if killable_machines = [] then eret []
        else ebind (on_ec2 raw_error (ea_terminate_instances (ee_api e) (map em_instance_id killable_machines))) (\<lambda>terminated_ids.
          ebind (remove_security_groups e terminated_ids) (\<lambda>_. eret killable_machines))))"

text \<open>Ids come as values of any type; the client is asked for texts.\<close>

definition text_ids :: "'w ec2_env \<Rightarrow> yvalue list \<Rightarrow> provider_error + string list" where
  "text_ids e is = rmap (\<lambda>v. case v of YText s \<Rightarrow> Inr s | _ \<Rightarrow> Inl (ee_odd_id e v)) is"

definition ec2_base ::
  "'w ec2_env \<Rightarrow> (string \<Rightarrow> ('w, provider_error, 'c) eff) \<Rightarrow> (string \<Rightarrow> 'c \<Rightarrow> ('w, provider_error, unit) eff)
     \<Rightarrow> ('c \<Rightarrow> yvalue) \<Rightarrow> (yvalue \<Rightarrow> 'c) \<Rightarrow> (provider_error \<Rightarrow> string) \<Rightarrow> ('w, 'c, ec2_machine) base_provider" where
  "ec2_base e get put load dmp error_text = \<lparr>
     bp_instance_id = (\<lambda>m. YText (em_instance_id m)), bp_dns_name = em_dns_name,
     bp_get_machines = (\<lambda>is. ebind (eread (\<lambda>_. text_ids e is)) (ec2_get_machines e)),
     bp_shutdown_machines = ec2_shutdown_machines e,
     bp_launch = ec2_launch e,
     bp_storage_get = get, bp_storage_put = put, bp_load = load, bp_dump = dmp, bp_text = (\<lambda>s. dmp (YText s)),
     bp_error_text = error_text, bp_config = map (\<lambda>(k, v). (k, YText v)) (ee_config e)\<rparr>"

text \<open>\<open>destroy_environment\<close>: the group is deleted however destroying ends.\<close>

definition ec2_destroy_environment :: "'w ec2_env \<Rightarrow> ('w, 'c, ec2_machine) base_provider \<Rightarrow> ('w, provider_error, ec2_machine list) eff" where
  "ec2_destroy_environment e b w =
     (let (w1, r) = base_destroy_environment b w; (w2, _) = destroy_environment_security_group e w1 in (w2, r))"

text \<open>What the agents see of it; the id of a machine is printed into the name of its group.\<close>

definition ec2_provider :: "'w ec2_env \<Rightarrow> ('w, 'c, ec2_machine) base_provider \<Rightarrow> ('w, ec2_machine) provider" where
  "ec2_provider e b = \<lparr>
     pv_instance_id = bp_instance_id b,
     pv_get_machines = bp_get_machines b,
     pv_get_machine = base_get_machine b,
     pv_start_machine = (\<lambda>i c. launch b \<lparr>md_machine_id = Some (show_int i), md_constraints = Some c\<rparr> False),
     pv_shutdown_machine = (\<lambda>m. ebind (base_shutdown_machine b m) (\<lambda>_. eret ())),
     pv_open_port = (\<lambda>m i. open_provider_port e m (show_int i)),
     pv_close_port = (\<lambda>m i. close_provider_port e m (show_int i)),
     pv_get_opened_ports = (\<lambda>m i. get_provider_opened_ports e m (show_int i))\<rparr>"

end
