(* ===== verification/Ec2Props.thy ===== *)
theory Ec2Props
  imports Ec2 ProvisioningProps
begin

text \<open>
  The instance type a machine gets, and what agents may rely on with the EC2 provider: it keeps the contract of
  providers of machines and ports as long as the service does what its documentation says.
\<close>

section \<open>Instance types\<close>

lemma cheapest_head:
  assumes "cheapest ts = n # ns"
  shows "\<exists>t. (n, t) \<in> set ts \<and> (\<forall>(n', t')\<in>set ts. it_cost t \<le> it_cost t')"
proof -
  let ?f = "\<lambda>(_ :: string, t). it_cost t"
  obtain t rest where sorted: "sort_key ?f ts = (n, t) # rest" using assms by (auto simp: cheapest_def Cons_eq_map_conv)
  then have "(n, t) \<in> set ts" by (metis list.set_intros(1) set_sort)
  moreover have "it_cost t \<le> it_cost t'" if "(n', t') \<in> set ts" for n' t'
  proof -
    have "(n', t') \<in> set ((n, t) # rest)" using that sorted by (metis set_sort)
    moreover have "sorted (map ?f ((n, t) # rest))" using sorted_sort_key [of ?f ts] sorted by metis
    ultimately show ?thesis by auto
  qed
  ultimately show ?thesis by blast
qed

lemma cheapest_Nil: "cheapest ts = [] \<Longrightarrow> ts = []"
  using length_sort [of "\<lambda>(_, t). it_cost t" ts] by (cases ts) (auto simp: cheapest_def)

lemma types_distinct: "dict_wf INSTANCE_TYPES"
  unfolding dict_wf_def by code_simp

text \<open>
  C29: a machine gets the cheapest instance type that satisfies its constraints. Where neither the configuration nor the
  constraints name a type, the one chosen runs the architecture and has at least the processors and the memory asked
  for, and no type that would do costs less; an error means that none would do.
\<close>

theorem cheapest_instance_type:
  assumes "dget config ''default-instance-type'' = None" and "get_item c ''instance-type'' = Inr None"
    and items: "get_item c ''arch'' = Inr arch" "get_item c ''cpu'' = Inr cpu" "get_item c ''mem'' = Inr mem"
  shows "case get_instance_type config c of
      Inr n \<Rightarrow> \<exists>t. dget INSTANCE_TYPES n = Some t \<and> arch_ok arch t \<and> at_least cpu (it_cpu t) \<and> at_least mem (it_mem t)
        \<and> (\<forall>n' t'. dget INSTANCE_TYPES n' = Some t' \<longrightarrow> arch_ok arch t' \<longrightarrow> at_least cpu (it_cpu t') \<longrightarrow> at_least mem (it_mem t')
             \<longrightarrow> it_cost t \<le> it_cost t')
    | Inl err \<Rightarrow> err = NoInstanceType
        \<and> (\<forall>n' t'. dget INSTANCE_TYPES n' = Some t' \<longrightarrow> \<not> (arch_ok arch t' \<and> at_least cpu (it_cpu t') \<and> at_least mem (it_mem t')))"
proof -
  let ?ok = "\<lambda>t. arch_ok arch t \<and> at_least cpu (it_cpu t) \<and> at_least mem (it_mem t)"
  let ?ts = "filter (\<lambda>(_ :: string, t). ?ok t) INSTANCE_TYPES"
  have result: "get_instance_type config c = (case cheapest ?ts of [] \<Rightarrow> Inl NoInstanceType | n # _ \<Rightarrow> Inr n)"
    using assms by (simp add: get_instance_type_def spec_fail_def get_filters_def)
  have entry: "dget INSTANCE_TYPES n = Some t \<longleftrightarrow> (n, t) \<in> set INSTANCE_TYPES" for n t
    using dget_in_set [OF types_distinct] by blast
  show ?thesis
  proof (cases "cheapest ?ts")
    case Nil
    then have none: "?ts = []" by (rule cheapest_Nil)
    have "\<not> ?ok t'" if "dget INSTANCE_TYPES n' = Some t'" for n' t'
      using none that unfolding entry filter_empty_conv by blast
    moreover have "get_instance_type config c = Inl NoInstanceType" using result Nil by simp
    ultimately show ?thesis by (simp only: sum.case) blast
  next
    case (Cons n ns)
    from cheapest_head [OF Cons] obtain t where t: "(n, t) \<in> set ?ts" "\<forall>(n', t')\<in>set ?ts. it_cost t \<le> it_cost t'" by blast
    then have "dget INSTANCE_TYPES n = Some t" "?ok t" by (simp_all add: entry)
    moreover have "it_cost t \<le> it_cost t'" if "dget INSTANCE_TYPES n' = Some t'" "?ok t'" for n' t'
      using t(2) that by (auto simp only: entry set_filter mem_Collect_eq prod.case)
    moreover have "get_instance_type config c = Inr n" using result Cons by simp
    ultimately show ?thesis by (simp only: sum.case) blast
  qed
qed

definition ec2_demo_constraints :: constraints where
  "ec2_demo_constraints =
     (case rbind ec2_constraint_set (\<lambda>cs. parse_constraints cs [''cpu=3'', ''mem=1G'', ''arch=i386'']) of
        Inr c \<Rightarrow> c | Inl _ \<Rightarrow> \<lparr>c_available = new_constraint_set [], c_data = []\<rparr>)"

theorem cheapest_instance_type_witness:
  "get_instance_type [] ec2_demo_constraints = Inr ''c1.medium''
    \<and> (\<exists>t. dget INSTANCE_TYPES ''c1.medium'' = Some t
      \<and> (\<forall>n' t'. dget INSTANCE_TYPES n' = Some t' \<longrightarrow> arch_ok (Some (CStr ''i386'')) t' \<longrightarrow> at_least (Some (CNum (Fin 3))) (it_cpu t')
           \<longrightarrow> at_least (Some (CNum (Fin 1024))) (it_mem t') \<longrightarrow> it_cost t \<le> it_cost t'))"
proof -
  have items: "get_item ec2_demo_constraints ''instance-type'' = Inr None"
    "get_item ec2_demo_constraints ''arch'' = Inr (Some (CStr ''i386''))" "get_item ec2_demo_constraints ''cpu'' = Inr (Some (CNum (Fin 3)))"
    "get_item ec2_demo_constraints ''mem'' = Inr (Some (CNum (Fin 1024)))"
    by code_simp+
  have run: "get_instance_type [] ec2_demo_constraints = Inr ''c1.medium''" by code_simp
  from cheapest_instance_type [of "[]" ec2_demo_constraints, OF _ items] run show ?thesis by auto
qed

section \<open>What is asked of the service\<close>

text \<open>
  \<open>insts w\<close> are the instances, \<open>perms w g\<close> the permissions of the group \<open>g\<close> for ports, if there is one. Listing changes
  nothing; terminating touches no other instance; an instance that was started is pending or running in the groups asked
  for. Ports are kept as decimal numbers.
\<close>

definition lists_instances :: "'w ec2_api \<Rightarrow> ('w \<Rightarrow> ec2_instance set) \<Rightarrow> bool" where
  "lists_instances api insts \<longleftrightarrow>
     (\<forall>ids w w' r. ea_describe_instances api ids w = (w', r) \<longrightarrow> w' = w \<and>
        (\<forall>l. r = Inr l \<longrightarrow> set l = {i \<in> insts w. ids = [] \<or> ei_instance_id i \<in> set ids}))"

definition keeps_instances :: "'w ec2_api \<Rightarrow> ('w \<Rightarrow> ec2_instance set) \<Rightarrow> bool" where
  "keeps_instances api insts \<longleftrightarrow>
     (\<forall>ids w w' r. ea_terminate_instances api ids w = (w', r) \<longrightarrow>
        (\<forall>i. ei_instance_id i \<notin> set ids \<longrightarrow> (i \<in> insts w' \<longleftrightarrow> i \<in> insts w)) \<and> (\<forall>l. r = Inr l \<longrightarrow> set l \<subseteq> set ids)) \<and>
     (\<forall>q w w' r. ea_run_instances api q w = (w', r) \<longrightarrow>
        (case r of
           Inl _ \<Rightarrow> insts w \<subseteq> insts w'
         | Inr l \<Rightarrow> l \<noteq> [] \<and> insts w' = insts w \<union> set l
             \<and> (\<forall>i\<in>set l. ei_state i \<in> {''pending'', ''running''} \<and> ei_groups i = rr_security_groups q))) \<and>
     (\<forall>gs w. fst (ea_describe_security_groups api gs w) = w) \<and>
     (\<forall>g d w. insts (fst (ea_create_security_group api g d w)) = insts w) \<and>
     (\<forall>g w. insts (fst (ea_delete_security_group api g w)) = insts w) \<and>
     (\<forall>g p w. insts (fst (ea_authorize_port api g p w)) = insts w) \<and>
     (\<forall>g h k w. insts (fst (ea_authorize_group api g h k w)) = insts w) \<and>
     (\<forall>g p w. insts (fst (ea_revoke_port api g p w)) = insts w)"

definition keeps_permissions :: "'w ec2_api \<Rightarrow> ('w \<Rightarrow> string \<Rightarrow> ip_permission set option) \<Rightarrow> bool" where
  "keeps_permissions api perms \<longleftrightarrow>
     (\<forall>g w w' l. ea_describe_security_groups api [g] w = (w', Inr l) \<longrightarrow>
        (\<exists>sg. l = [sg] \<and> perms w g = Some (set (sg_allowed_ips sg)))) \<and>
     (\<forall>g q w w'. ea_authorize_port api g (port_permission q) w = (w', Inr ()) \<longrightarrow>
        (\<exists>s. perms w g = Some s \<and> perms w' = (perms w)(g \<mapsto> insert (port_permission q) s))) \<and>
     (\<forall>g q w w'. ea_revoke_port api g (port_permission q) w = (w', Inr ()) \<longrightarrow>
        (\<exists>s. perms w g = Some s \<and> perms w' = (perms w)(g \<mapsto> s - {port_permission q}))) \<and>
     (\<forall>w g s p q. perms w g = Some s \<longrightarrow> p \<in> s \<longrightarrow> opened_port p = Inr (Some q) \<longrightarrow> p = port_permission q)"

definition ec2_ok ::
  "'w ec2_env \<Rightarrow> ('w, 'c, ec2_machine) base_provider \<Rightarrow> ('w \<Rightarrow> ec2_instance set) \<Rightarrow> ('w \<Rightarrow> string \<Rightarrow> ip_permission set option) \<Rightarrow> bool" where
  "ec2_ok e b insts perms \<longleftrightarrow>
     lists_instances (ee_api e) insts \<and> keeps_instances (ee_api e) insts \<and> keeps_permissions (ee_api e) perms \<and>
     (\<exists>get put load dmp error_text. b = ec2_base e get put load dmp error_text \<and> (\<forall>f w. insts (fst (get f w)) = insts w))"

definition ec2_ports :: "'w ec2_env \<Rightarrow> ('w \<Rightarrow> string \<Rightarrow> ip_permission set option) \<Rightarrow> 'w \<Rightarrow> int \<Rightarrow> (int \<times> string) set" where
  "ec2_ports e perms w i =
     {q. \<exists>s p. perms w (machine_group_name e (show_int i)) = Some s \<and> p \<in> s \<and> opened_port p = Inr (Some q)}"

definition ec2_alive :: "'w ec2_env \<Rightarrow> ('w \<Rightarrow> ec2_instance set) \<Rightarrow> 'w \<Rightarrow> yvalue set" where
  "ec2_alive e insts w = (\<lambda>i. YText (ei_instance_id i)) ` {i \<in> insts w. of_environment e i}"

section \<open>Ports\<close>

lemma opened_port_permission [simp]: "opened_port (port_permission q) = Inr (Some q)"
  by (cases q) (simp add: opened_port_def port_permission_def)

lemma group_name_inj: "machine_group_name e (show_int i) = machine_group_name e (show_int j) \<longleftrightarrow> i = j"
  using py_int_show_int [of i] py_int_show_int [of j] by (auto simp: machine_group_name_def)

lemma on_ec2_Inr: "on_ec2 f op w = (w', Inr x) \<longleftrightarrow> op w = (w', Inr x)"
  by (auto simp: on_ec2_def split: prod.splits sum.splits)

lemma permissions_kept:
  assumes "keeps_permissions api perms"
  shows "ea_authorize_port api g (port_permission q) w = (w', Inr ())
      \<Longrightarrow> \<exists>s. perms w g = Some s \<and> perms w' = (perms w)(g \<mapsto> insert (port_permission q) s)"
    and "ea_revoke_port api g (port_permission q) w = (w', Inr ())
      \<Longrightarrow> \<exists>s. perms w g = Some s \<and> perms w' = (perms w)(g \<mapsto> s - {port_permission q})"
    and "ea_describe_security_groups api [g] w = (w', Inr l) \<Longrightarrow> \<exists>sg. l = [sg] \<and> perms w g = Some (set (sg_allowed_ips sg))"
    and "perms w g = Some s \<Longrightarrow> p \<in> s \<Longrightarrow> opened_port p = Inr (Some q) \<Longrightarrow> p = port_permission q"
  using assms unfolding keeps_permissions_def by blast+

lemma ec2_port_opened:
  assumes "keeps_permissions (ee_api e) perms" and "open_provider_port e m (show_int i) q w = (w', Inr u)"
  shows "ec2_ports e perms w' = (ec2_ports e perms w)(i := insert q (ec2_ports e perms w i))"
proof -
  obtain s where "perms w (machine_group_name e (show_int i)) = Some s"
      "perms w' = (perms w)(machine_group_name e (show_int i) \<mapsto> insert (port_permission q) s)"
    using permissions_kept(1) [OF assms(1), of "machine_group_name e (show_int i)" q w w'] assms(2)
    by (auto simp: open_provider_port_def on_ec2_Inr)
  then show ?thesis by (auto simp: fun_eq_iff ec2_ports_def group_name_inj)
qed

lemma ec2_port_closed:
  assumes "keeps_permissions (ee_api e) perms" and "close_provider_port e m (show_int i) q w = (w', Inr u)"
  shows "ec2_ports e perms w' = (ec2_ports e perms w)(i := ec2_ports e perms w i - {q})"
proof -
  let ?g = "machine_group_name e (show_int i)"
  obtain s where s: "perms w ?g = Some s" "perms w' = (perms w)(?g \<mapsto> s - {port_permission q})"
    using permissions_kept(2) [OF assms(1), of ?g q w w'] assms(2)
    by (auto simp: close_provider_port_def on_ec2_Inr)
  have decimal: "p = port_permission r" if "p \<in> s" "opened_port p = Inr (Some r)" for p r
    using permissions_kept(4) [OF assms(1) s(1) that] .
  have "ec2_ports e perms w' j = (if j = i then ec2_ports e perms w i - {q} else ec2_ports e perms w j)" for j
    using s decimal by (auto simp: ec2_ports_def group_name_inj)
  then show ?thesis by (simp add: fun_eq_iff)
qed

lemma rmap_opened:
  "rmap opened_port ps = Inr qs \<Longrightarrow> set (remdups (List.map_filter (\<lambda>q. q) qs)) = {q. \<exists>p\<in>set ps. opened_port p = Inr (Some q)}"
  unfolding rmap_eq_Inr set_remdups set_map_filter by (induction rule: list_all2_induct) auto

lemma ec2_ports_listed:
  assumes "keeps_permissions (ee_api e) perms" and "keeps_instances (ee_api e) insts"
    and "get_provider_opened_ports e m (show_int i) w = (w', Inr qs)"
  shows "set qs = ec2_ports e perms w i \<and> w' = w"
proof -
  let ?g = "machine_group_name e (show_int i)"
  obtain l where l: "ea_describe_security_groups (ee_api e) [?g] w = (w', Inr l)"
    using assms(3) by (auto simp: get_provider_opened_ports_def ebind_eq_Inr on_ec2_Inr eread_def)
  obtain sg where sg: "l = [sg]" "perms w ?g = Some (set (sg_allowed_ips sg))"
    using permissions_kept(3) [OF assms(1) l] by blast
  have "w' = w" using assms(2) l unfolding keeps_instances_def by (metis fst_conv)
  moreover obtain ps where "rmap opened_port (sg_allowed_ips sg) = Inr ps" "qs = remdups (List.map_filter (\<lambda>q. q) ps)"
    using assms(3) l sg(1) by (auto simp: get_provider_opened_ports_def ebind_def on_ec2_def eread_def result_simps)
  ultimately show ?thesis using rmap_opened [of "sg_allowed_ips sg" ps] sg(2) by (auto simp: ec2_ports_def)
qed

section \<open>Instances\<close>

text \<open>Instances with ids outside \<open>K\<close> are as they were.\<close>

definition others_kept :: "string set \<Rightarrow> ('w \<Rightarrow> ec2_instance set) \<Rightarrow> 'w \<Rightarrow> 'w \<Rightarrow> bool" where
  "others_kept K insts w w' \<longleftrightarrow> (\<forall>i. ei_instance_id i \<notin> K \<longrightarrow> (i \<in> insts w' \<longleftrightarrow> i \<in> insts w))"

interpretation others: eff_relation "others_kept K insts"
  by unfold_locales (auto simp: others_kept_def)

lemma others_same: "insts w' = insts w \<Longrightarrow> others_kept K insts w w'"
  by (simp add: others_kept_def)

lemma others_none: "others_kept {} insts w w' \<longleftrightarrow> insts w' = insts w"
  by (auto simp: others_kept_def)

lemma on_ec2_keeps: "others.keeps K insts op \<Longrightarrow> others.keeps K insts (on_ec2 f op)"
  by (auto simp: others.keeps_def on_ec2_def split: prod.split sum.split dest: spec) (metis fst_conv)+

lemma instances_kept:
  assumes "keeps_instances api insts"
  shows "ea_terminate_instances api ids w = (w', r) \<Longrightarrow> others_kept (set ids) insts w w'"
    and "ea_terminate_instances api ids w = (w', Inr l) \<Longrightarrow> set l \<subseteq> set ids"
    and "ea_run_instances api q w = (w', Inl err) \<Longrightarrow> insts w \<subseteq> insts w'"
    and "ea_run_instances api q w = (w', Inr started) \<Longrightarrow> started \<noteq> [] \<and> insts w' = insts w \<union> set started
      \<and> (\<forall>i\<in>set started. ei_state i \<in> {''pending'', ''running''} \<and> ei_groups i = rr_security_groups q)"
proof -
  show "ea_terminate_instances api ids w = (w', r) \<Longrightarrow> others_kept (set ids) insts w w'"
    using assms [unfolded keeps_instances_def, THEN conjunct1, rule_format] by (simp add: others_kept_def)
  show "ea_terminate_instances api ids w = (w', Inr l) \<Longrightarrow> set l \<subseteq> set ids"
    using assms [unfolded keeps_instances_def, THEN conjunct1, rule_format, of ids w w' "Inr l"] by simp
  note run = assms [unfolded keeps_instances_def, THEN conjunct2, THEN conjunct1, rule_format]
  show "ea_run_instances api q w = (w', Inl err) \<Longrightarrow> insts w \<subseteq> insts w'"
    using run [of q w w' "Inl err"] by simp
  show "ea_run_instances api q w = (w', Inr started) \<Longrightarrow> started \<noteq> [] \<and> insts w' = insts w \<union> set started
      \<and> (\<forall>i\<in>set started. ei_state i \<in> {''pending'', ''running''} \<and> ei_groups i = rr_security_groups q)"
    using run [of q w w' "Inr started"] by simp
qed

lemma service_keeps:
  assumes "lists_instances api insts" and "keeps_instances api insts"
  shows "others.keeps K insts (ea_describe_instances api ids)"
    and "others.keeps K insts (ea_describe_security_groups api gs)"
    and "others.keeps K insts (ea_create_security_group api g d)"
    and "others.keeps K insts (ea_delete_security_group api g)"
    and "others.keeps K insts (ea_authorize_port api g p)"
    and "others.keeps K insts (ea_authorize_group api g h k)"
    and "others.keeps K insts (ea_revoke_port api g p)"
    and "set ids \<subseteq> K \<Longrightarrow> others.keeps K insts (ea_terminate_instances api ids)"
proof -
  have "fst (ea_describe_instances api ids w) = w" for w
    using assms(1) unfolding lists_instances_def by (metis prod.collapse)
  then show "others.keeps K insts (ea_describe_instances api ids)" by (simp add: others.keeps_def others_same)
  show "others.keeps K insts (ea_terminate_instances api ids)" if sub: "set ids \<subseteq> K"
    using instances_kept(1) [OF assms(2), of ids] sub
    by (auto simp: others.keeps_def others_kept_def subset_eq) (metis prod.collapse)+
qed (use assms(2) in \<open>simp_all add: keeps_instances_def others.keeps_def others_same\<close>)

lemma keep_machine_lists:
  assumes "lists_instances (ee_api e) insts" and "keeps_instances (ee_api e) insts"
  shows "others.keeps K insts (ec2_get_machines e ids)"
  unfolding ec2_get_machines_def Let_def
  by (intro others.keeps_bind on_ec2_keeps service_keeps [OF assms]) auto

lemma keep_ports:
  assumes "lists_instances (ee_api e) insts" and "keeps_instances (ee_api e) insts"
  shows "others.keeps K insts (open_provider_port e m i q)" and "others.keeps K insts (close_provider_port e m i q)"
    and "others.keeps K insts (get_provider_opened_ports e m i)" and "others.keeps K insts (delete_security_group e g)"
  unfolding open_provider_port_def close_provider_port_def get_provider_opened_ports_def delete_security_group_def
  by (intro others.keeps_bind on_ec2_keeps service_keeps [OF assms] others.keeps_pure)+

lemma keep_groups:
  assumes "lists_instances (ee_api e) insts" and "keeps_instances (ee_api e) insts"
  shows "others.keeps K insts (ensure_groups e i)"
proof -
  have juju: "others.keeps K insts (ensure_juju_group e gs)" for gs
    unfolding ensure_juju_group_def Let_def
    by (auto intro!: others.keeps_bind on_ec2_keeps service_keeps [OF assms] others.keeps_pure)
  show ?thesis
    unfolding ensure_groups_def Let_def
    by (auto intro!: others.keeps_bind on_ec2_keeps service_keeps [OF assms] others.keeps_pure juju)
qed

lemma fold_terminated_keeps:
  assumes "lists_instances (ee_api e) insts" and "keeps_instances (ee_api e) insts"
    and "fold (check_terminated e) is (w, wait_on, pending) = (w', r)"
  shows "others_kept K insts w w'"
  using assms(3)
proof (induction "is" arbitrary: w wait_on pending)
  case Nil
  then show ?case by (simp add: others.R_refl)
next
  case (Cons i "is")
  obtain w1 wait1 pending1 where step: "check_terminated e i (w, wait_on, pending) = (w1, wait1, pending1)"
    by (cases "check_terminated e i (w, wait_on, pending)")
  have "others_kept K insts w w1"
    using step others.keepsD [OF keep_ports(4) [OF assms(1,2)], of K w]
    by (auto simp: check_terminated_def others.R_refl Let_def split: if_splits option.splits prod.splits) (metis fst_conv)
  moreover have "others_kept K insts w1 w'" using Cons step by simp
  ultimately show ?case by (rule others.R_trans)
qed

lemma poll_keeps:
  assumes "lists_instances (ee_api e) insts" and "keeps_instances (ee_api e) insts"
  shows "others_kept K insts w (fst (poll_terminated e n wait_on pending l w))"
proof (induction n arbitrary: wait_on pending l w)
  case (Suc n)
  obtain w1 r where listed: "on_ec2 raw_error (ea_describe_instances (ee_api e) wait_on) w = (w1, r)"
    by (cases "on_ec2 raw_error (ea_describe_instances (ee_api e) wait_on) w")
  then have first: "others_kept K insts w w1"
    using others.keepsD [OF on_ec2_keeps [OF service_keeps(1) [OF assms]], of K w raw_error wait_on] by simp
  show ?case
  proof (cases r)
    case (Inr instances)
    obtain w2 wait2 pending2 where step: "fold (check_terminated e) instances (w1, wait_on, pending) = (w2, wait2, pending2)"
      by (cases "fold (check_terminated e) instances (w1, wait_on, pending)")
    from fold_terminated_keeps [OF assms step] first have "others_kept K insts w w2" by (rule others.R_trans [rotated])
    from others.R_trans [OF this Suc.IH] show ?thesis
      by (simp add: listed Inr step others.R_refl)
  qed (simp add: listed first others.R_refl)
qed (simp add: others.R_refl)

lemma keep_removals:
  assumes "lists_instances (ee_api e) insts" and "keeps_instances (ee_api e) insts"
  shows "others.keeps K insts (remove_security_groups e ids)"
  unfolding remove_security_groups_def
  by (intro others.keeps_bind) (auto simp: others.keeps_def poll_keeps [OF assms] others.R_refl eret_def eread_def split: prod.split
      simp del: poll_terminated.simps intro!: others.keeps_bind [unfolded others.keeps_def, rule_format])

section \<open>The contract of providers\<close>

interpretation grows: eff_relation "\<lambda>w w'. (insts :: 'w \<Rightarrow> ec2_instance set) w \<subseteq> insts w'"
  by unfold_locales auto

lemma others_grow: "others.keeps {} insts m \<Longrightarrow> grows.keeps insts m"
  by (simp add: others.keeps_def grows.keeps_def others_none)

lemma listing_reads:
  assumes "lists_instances (ee_api e) insts"
  shows "reads.keeps (ec2_get_machines e ids)"
proof -
  have "reads.keeps (on_ec2 f (ea_describe_instances (ee_api e) ids))" for f
    using assms unfolding lists_instances_def
    by (auto simp: reads.keeps_def on_ec2_def split: prod.split sum.split)
  then show ?thesis unfolding ec2_get_machines_def Let_def by (intro reads.keeps_bind) auto
qed

lemma listed_machines:
  assumes "lists_instances (ee_api e) insts" and "ec2_get_machines e ids w = (w', Inr ms)"
  shows "set ms = machine_from_instance ` {i \<in> insts w. of_environment e i \<and> (ids = [] \<or> ei_instance_id i \<in> set ids)}"
proof -
  obtain l where "ea_describe_instances (ee_api e) ids w = (w', Inr l)" "ms = map machine_from_instance (filter (of_environment e) l)"
    using assms(2) by (auto simp: ec2_get_machines_def ebind_eq_Inr on_ec2_Inr Let_def eret_def eraise_def split: if_splits)
  moreover have "set l = {i \<in> insts w. ids = [] \<or> ei_instance_id i \<in> set ids}"
    using assms(1) calculation(1) unfolding lists_instances_def by blast
  ultimately show ?thesis by auto
qed

lemma launched_instances:
  assumes ok: "lists_instances (ee_api e) insts" "keeps_instances (ee_api e) insts" and run: "ec2_launch e i c master zs w = (w', Inr ms)"
  shows "\<exists>l. l \<noteq> [] \<and> ms = map machine_from_instance l \<and> insts w' = insts w \<union> set l \<and> (\<forall>i\<in>set l. of_environment e i)"
proof -
  obtain w1 groups q l where steps: "ensure_groups e i w = (w1, Inr groups)" "ea_run_instances (ee_api e) q w1 = (w', Inr l)"
      "rr_security_groups q = groups" "ms = map machine_from_instance l"
    using run by (auto simp: ec2_launch_def ebind_eq_Inr on_ec2_Inr eread_def eret_def)
  have "insts w1 = insts w"
    using others.keepsD [OF keep_groups [OF ok], of "{}" w i] steps(1) by (simp add: others_none)
  moreover have "juju_security_group e \<in> set groups"
    using steps(1) by (auto simp: ensure_groups_def Let_def ebind_eq_Inr eret_def)
  ultimately show ?thesis
    using instances_kept(4) [OF ok(2) steps(2)] steps(3,4) by (auto simp: of_environment_def)
qed

lemma launch_grows:
  assumes ok: "lists_instances (ee_api e) insts" "keeps_instances (ee_api e) insts"
  shows "grows.keeps insts (ec2_launch e i c master zs)"
proof -
  have "insts w \<subseteq> insts (fst (ea_run_instances (ee_api e) q w))" for q w
  proof (cases "ea_run_instances (ee_api e) q w")
    case (Pair w' r)
    then show ?thesis using instances_kept(3,4) [OF ok(2), of q w w'] by (cases r) auto
  qed
  then have "grows.keeps insts (on_ec2 f (ea_run_instances (ee_api e) q))" for f q
    by (auto simp: grows.keeps_def on_ec2_def split: prod.split sum.split) (metis fst_conv subsetD)+
  then show ?thesis
    unfolding ec2_launch_def
    by (intro grows.keeps_bind grows.keeps_pure others_grow [OF keep_groups [OF ok]])
qed

lemma shutdown_keeps_others:
  assumes ok: "lists_instances (ee_api e) insts" "keeps_instances (ee_api e) insts"
  shows "others_kept (em_instance_id ` set machines) insts w (fst (ec2_shutdown_machines e machines w))"
proof (cases "machines = []")
  case True
  then show ?thesis by (simp add: ec2_shutdown_machines_def eret_def others.R_refl)
next
  case False
  let ?K = "em_instance_id ` set machines" and ?ids = "map em_instance_id machines"
  obtain w1 r where listed: "ec2_get_machines e ?ids w = (w1, r)" by (cases "ec2_get_machines e ?ids w")
  have w1: "w1 = w" using reads.keepsD [of "ec2_get_machines e ?ids" w, OF listing_reads [OF ok(1)]] listed by simp
  show ?thesis
  proof (cases r)
    case (Inl err)
    then show ?thesis using listed w1 False by (simp add: ec2_shutdown_machines_def ebind_def others.R_refl)
  next
    case (Inr killable)
    have "em_instance_id ` set killable \<subseteq> ?K"
      using listed_machines [OF ok(1) listed [unfolded Inr]] False by (auto simp: machine_from_instance_def)
    then have "others.keeps ?K insts (on_ec2 raw_error (ea_terminate_instances (ee_api e) (map em_instance_id killable)))"
      by (intro on_ec2_keeps service_keeps(8) [OF ok]) simp
    then have "others.keeps ?K insts (ebind (on_ec2 raw_error (ea_terminate_instances (ee_api e) (map em_instance_id killable)))
        (\<lambda>terminated_ids. ebind (remove_security_groups e terminated_ids) (\<lambda>_. eret killable)))"
      by (intro others.keeps_bind keep_removals [OF ok] others.keeps_pure)
    from others.keepsD [OF this, of w] show ?thesis
      using False by (simp add: ec2_shutdown_machines_def ebind_ran [where m = "ec2_get_machines e ?ids", OF listed [unfolded w1 Inr]]
          others.R_refl eret_simp)
  qed
qed

lemma ec2_parts:
  assumes "ec2_ok e b insts perms"
  shows "lists_instances (ee_api e) insts" "keeps_instances (ee_api e) insts" "keeps_permissions (ee_api e) perms"
    "bp_instance_id b = (\<lambda>m. YText (em_instance_id m))" "bp_shutdown_machines b = ec2_shutdown_machines e" "bp_launch b = ec2_launch e"
    "bp_get_machines b = (\<lambda>is. ebind (eread (\<lambda>_. text_ids e is)) (ec2_get_machines e))"
    "others.keeps {} insts (bp_storage_get b f)"
  using assms by (auto simp: ec2_ok_def ec2_base_def others.keeps_def others_none)

lemma ec2_listing_reads: "ec2_ok e b insts perms \<Longrightarrow> reads.keeps (bp_get_machines b is)"
  unfolding ec2_parts by (intro reads.keeps_bind reads.keeps_pure listing_reads ec2_parts(1))

lemma zookeepers_keep_instances:
  assumes "ec2_ok e b insts perms"
  shows "insts (fst (find_zookeepers b w)) = insts w"
proof -
  have "others.keeps {} insts (bp_get_machines b ids)" for ids
    unfolding ec2_parts [OF assms] by (intro others.keeps_bind others.keeps_pure keep_machine_lists ec2_parts [OF assms])
  then have "others.keeps {} insts (find_zookeepers b)"
    by (intro others.keeps_find_zookeepers ec2_parts(8) [OF assms])
  from others.keepsD [OF this, of w] show ?thesis by (simp add: others_none)
qed

lemma ec2_started:
  assumes ok: "ec2_ok e b insts perms"
    and run: "launch b \<lparr>md_machine_id = Some i, md_constraints = Some c\<rparr> False w = (w', r)"
  shows "case r of Inr ms \<Rightarrow> ms \<noteq> [] \<and> ec2_alive e insts w' = ec2_alive e insts w \<union> bp_instance_id b ` set ms
    | Inl _ \<Rightarrow> ec2_alive e insts w \<subseteq> ec2_alive e insts w'"
proof -
  obtain w1 r1 where zookeepers: "find_zookeepers b w = (w1, r1)" by (cases "find_zookeepers b w")
  have w1: "insts w1 = insts w" using zookeepers_keep_instances [OF ok, of w] zookeepers by simp
  show ?thesis
  proof (cases r1)
    case (Inl err)
    then have "w' = w1" "r = Inl err" using run zookeepers by (simp_all add: launch_def launch_run_def ebind_def)
    then show ?thesis using w1 by (simp add: ec2_alive_def)
  next
    case (Inr zs)
    have launched: "ec2_launch e i c False zs w1 = (w', r)"
      using run zookeepers Inr ec2_parts(6) [OF ok]
      by (cases "ec2_launch e i c False zs w1") (auto simp: launch_def launch_run_def ebind_def eret_def split: sum.splits)
    show ?thesis
    proof (cases r)
      case (Inl err)
      then show ?thesis
        using grows.keepsD [OF launch_grows [OF ec2_parts(1,2) [OF ok]], of w1 i c False zs] launched w1
        by (auto simp: ec2_alive_def)
    next
      case (Inr ms)
      then show ?thesis
        using launched_instances [OF ec2_parts(1,2) [OF ok] launched [unfolded Inr]] w1 ec2_parts(4) [OF ok]
        by (auto simp: ec2_alive_def machine_from_instance_def image_iff) blast
    qed
  qed
qed

lemma ec2_stopped:
  assumes "ec2_ok e b insts perms" and "base_shutdown_machine b m w = (w', r)"
  shows "ec2_alive e insts w - {bp_instance_id b m} \<subseteq> ec2_alive e insts w'"
proof -
  have "fst (base_shutdown_machine b m w) = fst (ec2_shutdown_machines e [m] w)"
    by (cases "ec2_shutdown_machines e [m] w")
      (auto simp: base_shutdown_machine_def ec2_parts [OF assms(1)] ebind_def eread_def split: sum.split)
  then have "others_kept {em_instance_id m} insts w w'"
    using shutdown_keeps_others [OF ec2_parts(1,2) [OF assms(1)], of "[m]" w] assms(2) by simp
  then show ?thesis by (auto simp: ec2_alive_def others_kept_def ec2_parts [OF assms(1)])
qed


section \<open>A service over lists\<close>

record ec2_world =
  ew_instances :: "ec2_instance list"
  ew_groups :: "(string, ip_permission list) dict"

definition decimal_permission :: "ip_permission \<Rightarrow> bool" where
  "decimal_permission p \<longleftrightarrow> (case opened_port p of Inr (Some q) \<Rightarrow> p = port_permission q | _ \<Rightarrow> True)"

definition change_group ::
  "(ip_permission list \<Rightarrow> ip_permission list) \<Rightarrow> string \<Rightarrow> (ec2_world, ec2_error, unit) eff" where
  "change_group f g w =
     (case dget (ew_groups w) g of
        None \<Rightarrow> (w, Inl (EC2Error ''InvalidGroup.NotFound'' []))
      | Some ps \<Rightarrow> (w\<lparr>ew_groups := dset g (f ps) (ew_groups w)\<rparr>, Inr ()))"

definition plain_ec2 :: "ec2_world ec2_api" where
  "plain_ec2 = \<lparr>
     ea_describe_instances = (\<lambda>ids w. (w, Inr (filter (\<lambda>i. ids = [] \<or> ei_instance_id i \<in> set ids) (ew_instances w)))),
     ea_terminate_instances = (\<lambda>ids w. (w\<lparr>ew_instances := map (\<lambda>i. if ei_instance_id i \<in> set ids
        then i\<lparr>ei_state := ''terminated''\<rparr> else i) (ew_instances w)\<rparr>, Inr ids)),
     ea_run_instances = (\<lambda>q w. let i = \<lparr>ei_instance_id = ''i-'' @ show_nat (length (ew_instances w)), ei_dns_name = None,
        ei_private_dns_name = None, ei_state = ''pending'', ei_groups = rr_security_groups q\<rparr>
        in (w\<lparr>ew_instances := ew_instances w @ [i]\<rparr>, Inr [i])),
     ea_describe_security_groups = (\<lambda>gs w. (w, case those (map (\<lambda>g. map_option (Pair g) (dget (ew_groups w) g)) gs) of
          None \<Rightarrow> Inl (EC2Error ''InvalidGroup.NotFound'' [])
        | Some found \<Rightarrow> Inr (map (\<lambda>(g, ps). \<lparr>sg_name = g, sg_owner_id = [], sg_allowed_ips = filter decimal_permission ps\<rparr>)
            (if gs = [] then ew_groups w else found)))),
     ea_create_security_group = (\<lambda>g d w. (w\<lparr>ew_groups := dset g [] (ew_groups w)\<rparr>, Inr ())),
     ea_delete_security_group = (\<lambda>g w. (w\<lparr>ew_groups := ddel g (ew_groups w)\<rparr>, Inr ())),
     ea_authorize_port = (\<lambda>g p. change_group (List.insert p) g),
     ea_authorize_group = (\<lambda>g h k w. (w, Inr ())),
     ea_revoke_port = (\<lambda>g p. change_group (removeAll p) g)\<rparr>"

definition plain_permissions :: "ec2_world \<Rightarrow> string \<Rightarrow> ip_permission set option" where
  "plain_permissions w g = map_option (\<lambda>ps. set (filter decimal_permission ps)) (dget (ew_groups w) g)"

definition ec2_demo :: "ec2_world ec2_env" where
  "ec2_demo = \<lparr>ee_api = plain_ec2, ee_environment = ''moon'', ee_config = [], ee_page = (\<lambda>_. Inl ''404''),
     ee_user_data = (\<lambda>_ _ _ _. Inr []), ee_odd_id = (\<lambda>_. ProviderError []), ee_spec_error = (\<lambda>_. ProviderError [])\<rparr>"

definition ec2_demo_base :: "(ec2_world, yvalue, ec2_machine) base_provider" where
  "ec2_demo_base = ec2_base ec2_demo (\<lambda>f w. (w, Inl (FileNotFound f))) (\<lambda>f c w. (w, Inr ())) (\<lambda>c. c) (\<lambda>v. v) (\<lambda>_. [])"

lemma change_group_result:
  "change_group f g w = (w', r) \<Longrightarrow> ew_instances w' = ew_instances w \<and>
     (r = Inr () \<longrightarrow> (\<exists>ps. dget (ew_groups w) g = Some ps \<and> dget (ew_groups w') = (dget (ew_groups w))(g \<mapsto> f ps)))"
  by (auto simp: change_group_def dget_dset split: option.splits)

lemma decimal_port [simp]: "decimal_permission (port_permission q)"
  by (simp add: decimal_permission_def)

lemma plain_lists: "lists_instances plain_ec2 (\<lambda>w. set (ew_instances w))"
  by (simp add: lists_instances_def plain_ec2_def)

lemma plain_instances: "keeps_instances plain_ec2 (\<lambda>w. set (ew_instances w))"
proof -
  have "ew_instances (fst (change_group f g w)) = ew_instances w" for f g w
    by (simp add: change_group_def split: option.split)
  then show ?thesis
    by (auto simp: keeps_instances_def plain_ec2_def Let_def image_iff)
qed

lemma plain_groups: "keeps_permissions plain_ec2 plain_permissions"
proof -
  have change: "\<exists>s. plain_permissions w g = Some s \<and> plain_permissions w' = (plain_permissions w)(g \<mapsto> F s)"
    if "change_group f g w = (w', Inr ())" and "\<And>ps. set (filter decimal_permission (f ps)) = F (set (filter decimal_permission ps))" for f g w w' F
    using change_group_result [OF that(1)] that(2) by (auto simp: plain_permissions_def fun_eq_iff)
  have "\<exists>s. plain_permissions w g = Some s \<and> plain_permissions w' = (plain_permissions w)(g \<mapsto> insert (port_permission q) s)"
    if "change_group (List.insert (port_permission q)) g w = (w', Inr ())" for g q w w'
    by (rule change [OF that]) auto
  moreover have "\<exists>s. plain_permissions w g = Some s \<and> plain_permissions w' = (plain_permissions w)(g \<mapsto> s - {port_permission q})"
    if "change_group (removeAll (port_permission q)) g w = (w', Inr ())" for g q w w'
    by (rule change [OF that]) auto
  moreover have "p = port_permission q"
    if "plain_permissions w g = Some s" "p \<in> s" "opened_port p = Inr (Some q)" for w g s p q
    using that by (auto simp: plain_permissions_def decimal_permission_def)
  moreover have "\<exists>sg. l = [sg] \<and> plain_permissions w g = Some (set (sg_allowed_ips sg))"
    if "ea_describe_security_groups plain_ec2 [g] w = (w', Inr l)" for g w w' l
    using that by (auto simp: plain_ec2_def plain_permissions_def split: option.splits)
  ultimately show ?thesis
    unfolding keeps_permissions_def by (simp add: plain_ec2_def)
qed

lemma plain_ec2_ok: "ec2_ok ec2_demo ec2_demo_base (\<lambda>w. set (ew_instances w)) plain_permissions"
  unfolding ec2_ok_def ec2_demo_base_def
  by (auto simp: ec2_demo_def plain_lists plain_instances plain_groups intro!: exI)

definition ec2_demo_start :: ec2_world where
  "ec2_demo_start = \<lparr>ew_instances = [\<lparr>ei_instance_id = ''i-0'', ei_dns_name = None, ei_private_dns_name = None, ei_state = ''running'',
     ei_groups = [juju_security_group ec2_demo]\<rparr>], ew_groups = [(machine_group_name ec2_demo ''7'', [])]\<rparr>"


end
