(* ===== verification/Status.thy ===== *)
theory Status
  imports MachineState CharmState RelationState UnitWorkflow Provider
begin

text \<open>
  \<open>juju/control/status.py\<close>: what \<open>juju status\<close> collects. The environment is read in one state \<open>z\<close>; asking the provider
  for machines may change its world. Python's nested dicts are records here; the dict of a unit is one object with several
  owners, so services and containers list the names of units and \<open>st_units\<close> holds the dicts themselves. Renderers print
  and are left out.
\<close>

section \<open>Scopes\<close>

text \<open>\<open>digest_scope\<close>: names of services and of units.\<close>

definition digest_scope :: "string list option \<Rightarrow> string list \<times> string list" where
  "digest_scope scope =
     (case scope of
        None \<Rightarrow> ([], [])
      | Some vs \<Rightarrow> (filter (\<lambda>v. CHR ''/'' \<notin> set v) vs, filter (\<lambda>v. CHR ''/'' \<in> set v) vs))"

text \<open>
  \<open>fnmatch\<close> of the standard library on a system whose file names have case: a class in brackets is a list of ranges, and
  one whose bounds are the wrong way round is an error of the regular expression it becomes.
\<close>

datatype glob = Star | AnyChar | OneOf bool "(char \<times> char) list"  \<comment> \<open>whether negated\<close>

fun char_ranges :: "string \<Rightarrow> (char \<times> char) list option" where
  "char_ranges (a # m # b # s) =
     (if m = CHR ''-''
      then (if (of_char b :: nat) < of_char a then None else map_option (Cons (a, b)) (char_ranges s))
      else map_option (Cons (a, a)) (char_ranges (m # b # s)))"
| "char_ranges s = Some (map (\<lambda>c. (c, c)) s)"

text \<open>What is between the brackets, and the rest; a bracket right after the opening one is part of the class.\<close>

definition bracket_body :: "string \<Rightarrow> (string \<times> string) option" where
  "bracket_body s =
     (let start = (if take 1 s = ''!'' then 1 else 0);
          start = (if take 1 (drop start s) = '']'' then start + 1 else start);
          body = take start s @ takeWhile (\<lambda>c. c \<noteq> CHR '']'') (drop start s)
      in if length body < length s then Some (body, drop (length body + 1) s) else None)"

lemma bracket_body_shorter: "bracket_body s = Some (body, rest) \<Longrightarrow> length rest < length s"
  by (auto simp: bracket_body_def Let_def split: if_splits)

function glob_of :: "string \<Rightarrow> glob list option" where
  "glob_of [] = Some []"
| "glob_of (c # s) =
     (if c = CHR ''*'' then map_option (Cons Star) (glob_of s)
      else if c = CHR ''?'' then map_option (Cons AnyChar) (glob_of s)
      else if c = CHR ''['' then
        (case bracket_body s of
           None \<Rightarrow> map_option (Cons (OneOf False [(c, c)])) (glob_of s)
         | Some (body, rest) \<Rightarrow>
             (let negated = take 1 body = ''!'' in
              case char_ranges (if negated then drop 1 body else body) of
                None \<Rightarrow> None
              | Some rs \<Rightarrow> map_option (Cons (OneOf negated rs)) (glob_of rest)))
      else map_option (Cons (OneOf False [(c, c)])) (glob_of s))"
  by pat_completeness auto
termination by (relation "measure length") (auto dest: bracket_body_shorter)

fun in_ranges :: "char \<Rightarrow> (char \<times> char) list \<Rightarrow> bool" where
  "in_ranges c rs \<longleftrightarrow> list_ex (\<lambda>(a, b). (of_char a :: nat) \<le> of_char c \<and> (of_char c :: nat) \<le> of_char b) rs"

fun glob_match :: "glob list \<Rightarrow> string \<Rightarrow> bool" where
  "glob_match [] s \<longleftrightarrow> s = []"
| "glob_match (Star # p) [] \<longleftrightarrow> glob_match p []"
| "glob_match (Star # p) (c # s) \<longleftrightarrow> glob_match p (c # s) \<or> glob_match (Star # p) s"
| "glob_match (AnyChar # p) [] \<longleftrightarrow> False"
| "glob_match (AnyChar # p) (c # s) \<longleftrightarrow> glob_match p s"
| "glob_match (OneOf n rs # p) [] \<longleftrightarrow> False"
| "glob_match (OneOf n rs # p) (c # s) \<longleftrightarrow> in_ranges c rs \<noteq> n \<and> glob_match p s"

definition fnmatch :: "string \<Rightarrow> string \<Rightarrow> bool option" where
  "fnmatch name pattern = map_option (\<lambda>p. glob_match p name) (glob_of pattern)"

section \<open>What is collected\<close>

datatype status_error =
    StState state_error
  | StCharm charm_error
  | StWorkflow workflow_error
  | StProvider provider_error
  | StPattern string  \<comment> \<open>the error of the regular expression\<close>
  | StKeyError string
  | StTooManyEndpoints  \<comment> \<open>\<open>ValueError\<close>\<close>
  | StIndexError
  | StBadPorts  \<comment> \<open>\<open>TypeError\<close> on the content of the node of ports\<close>
  | StHangs  \<comment> \<open>no exception: the chain of containers does not end\<close>

definition on_status :: "('e \<Rightarrow> status_error) \<Rightarrow> 'e + 'a \<Rightarrow> status_error + 'a" where
  "on_status f r = (case r of Inl err \<Rightarrow> Inl (f err) | Inr x \<Rightarrow> Inr x)"

record unit_info =
  ui_container :: "string option"
  ui_machine :: "int option option"  \<comment> \<open>the key and its value\<close>
  ui_agent_state :: string
  ui_open_ports :: "string list option"
  ui_public_address :: "yvalue option option"
  ui_relation_errors :: "(string, string list) dict option"
  ui_subordinates :: "string list"  \<comment> \<open>the keys of \<open>subordinates\<close>; the values are those of \<open>st_units\<close>\<close>

record service_info =
  si_charm :: string
  si_relations :: "(string, string list) dict"
  si_subordinate :: bool
  si_exposed :: bool
  si_subordinate_to :: "string list option"
  si_units :: "string list option"

record machine_info =
  mi_instance_id :: yvalue
  mi_dns_name :: "string option option"
  mi_instance_state :: "string option"
  mi_agent_state :: "string option"

record status_data =
  st_services :: "(string, service_info) dict"
  st_machines :: "(int, machine_info) dict"
  st_units :: "(string, unit_info) dict"
  st_subordinates :: "(string, string list) dict"
  st_seen :: "int option list"

definition empty_status :: status_data where
  "empty_status = \<lparr>st_services = [], st_machines = [], st_units = [], st_subordinates = [], st_seen = []\<rparr>"

record ('z, 'c, 'w, 'm) status_env =
  sv_machines :: "('z, 'c) machine_env"
  sv_charms :: "('z, 'c) charm_env"
  sv_yaml :: "'c yaml"
  sv_zk :: "('c, 'z) zk"
  sv_provider :: "('w, 'm) provider"
  sv_dns_name :: "'m \<Rightarrow> string option"
  sv_machine_state :: "'m \<Rightarrow> string"
  sv_format :: "yvalue \<Rightarrow> string"  \<comment> \<open>\<open>str.format\<close> of what is neither a number nor a text\<close>

abbreviation sv_state :: "('z, 'c, 'w, 'm) status_env \<Rightarrow> ('z, 'c) state_env" where
  "sv_state e \<equiv> me_state (sv_machines e)"

section \<open>Relations\<close>

text \<open>\<open>setdefault(key, set()).add(x)\<close>\<close>

definition add_member :: "string \<Rightarrow> string \<Rightarrow> (string, string list) dict \<Rightarrow> (string, string list) dict" where
  "add_member key x d = dset key (List.insert x (case dget d key of None \<Rightarrow> [] | Some xs \<Rightarrow> xs)) d"

definition sort_members :: "(string, string list) dict \<Rightarrow> (string, string list) dict" where
  "sort_members d = map (\<lambda>(k, xs). (k, sort xs)) d"

definition remote_service :: "('z, 'c, 'w, 'm) status_env \<Rightarrow> 'z \<Rightarrow> service_state \<Rightarrow> service_relation \<Rightarrow> status_error + string" where
  "remote_service e z s r =
     rbind (on_status StState (relation_service_states (sv_state e) (sr_relation r) z)) (\<lambda>rel_services.
     let rel_services = (if length rel_services > 1 then filter (\<lambda>t. ss_name t \<noteq> ss_name s) rel_services else rel_services)
     in if length rel_services > 1 then Inl StTooManyEndpoints
        else case rel_services of [] \<Rightarrow> Inl StIndexError | t # _ \<Rightarrow> Inr (ss_name t))"

text \<open>The body of the loops of \<open>_process_relation_map\<close> and \<open>_process_relations\<close>.\<close>

definition note_relation ::
  "('z, 'c, 'w, 'm) status_env \<Rightarrow> 'z \<Rightarrow> service_state \<Rightarrow> service_relation \<Rightarrow> (string, string list) dict \<times> (string, string) dict
     \<Rightarrow> status_error + (string, string list) dict \<times> (string, string) dict" where
  "note_relation e z s r = (\<lambda>(relation_data, rel_svc_map).
     rbind (remote_service e z s r) (\<lambda>name.
     Inr (add_member (sr_name r) name relation_data, dset (sr_relation r) name rel_svc_map)))"

definition service_info_of :: "status_data \<Rightarrow> service_state \<Rightarrow> status_error + service_info" where
  "service_info_of st s =
     (case dget (st_services st) (ss_name s) of None \<Rightarrow> Inl (StKeyError (ss_name s)) | Some i \<Rightarrow> Inr i)"

definition set_service_info :: "service_state \<Rightarrow> service_info \<Rightarrow> status_data \<Rightarrow> status_data" where
  "set_service_info s i st = st\<lparr>st_services := dset (ss_name s) i (st_services st)\<rparr>"

definition process_relation_map ::
  "('z, 'c, 'w, 'm) status_env \<Rightarrow> 'z \<Rightarrow> service_state \<Rightarrow> status_data
     \<Rightarrow> status_error + status_data \<times> service_relation list \<times> (string, string) dict" where
  "process_relation_map e z s st =
     rbind (service_info_of st s) (\<lambda>i.
     rbind (on_status StState (relations_for_service (sv_state e) (ss_id s) z)) (\<lambda>relations.
     rbind (rfold (note_relation e z s) relations (si_relations i, [])) (\<lambda>(relation_data, rel_svc_map).
     Inr (set_service_info s (i\<lparr>si_relations := relation_data\<rparr>) st, relations, rel_svc_map))))"

definition process_relations ::
  "('z, 'c, 'w, 'm) status_env \<Rightarrow> 'z \<Rightarrow> service_state \<Rightarrow> service_relation list \<Rightarrow> (string, string) dict \<Rightarrow> status_data
     \<Rightarrow> status_error + status_data" where
  "process_relations e z s relations rel_svc_map st =
     rbind (service_info_of st s) (\<lambda>i.
     rbind (rfold (note_relation e z s) relations (si_relations i, rel_svc_map)) (\<lambda>(relation_data, _).
     Inr (set_service_info s (i\<lparr>si_relations := sort_members relation_data\<rparr>) st)))"

section \<open>Units\<close>

definition port_field :: "('z, 'c, 'w, 'm) status_env \<Rightarrow> yvalue \<Rightarrow> string" where
  "port_field e v = (case v of YInt n \<Rightarrow> show_int n | YText s \<Rightarrow> s | _ \<Rightarrow> sv_format e v)"

text \<open>\<open>"{port}/{proto}".format(**port_info)\<close>\<close>

definition port_text :: "('z, 'c, 'w, 'm) status_env \<Rightarrow> yvalue \<Rightarrow> status_error + string" where
  "port_text e v =
     (case v of
        YMap d \<Rightarrow>
          (case (dget d ''port'', dget d ''proto'') of
             (Some port, Some proto) \<Rightarrow> Inr (port_field e port @ ''/'' @ port_field e proto)
           | (None, _) \<Rightarrow> Inl (StKeyError ''port'')
           | _ \<Rightarrow> Inl (StKeyError ''proto''))
      | _ \<Rightarrow> Inl StBadPorts)"

definition open_port_texts :: "('z, 'c, 'w, 'm) status_env \<Rightarrow> yvalue \<Rightarrow> status_error + string list" where
  "open_port_texts e v =
     (case v of
        YList xs \<Rightarrow> rmap (port_text e) xs
      | YMap [] \<Rightarrow> Inr []
      | YText [] \<Rightarrow> Inr []
      | _ \<Rightarrow> Inl StBadPorts)"

definition assigned_id :: "('z, 'c, 'w, 'm) status_env \<Rightarrow> 'z \<Rightarrow> service_unit \<Rightarrow> status_error + int option" where
  "assigned_id e z u =
     (case get_assigned_machine_id (sv_state e) z u of None \<Rightarrow> Inl StHangs | Some r \<Rightarrow> on_status StState r)"

definition unit_workflow :: "('z, 'c, 'w, 'm) status_env \<Rightarrow> 'z \<Rightarrow> service_unit \<Rightarrow> status_error + string option" where
  "unit_workflow e z u =
     on_status StWorkflow (client_get_state (sv_yaml e) (sv_zk e) (ServiceUnitState (su_id u) (unit_name_of u)) z)"

definition relation_workflow :: "('z, 'c, 'w, 'm) status_env \<Rightarrow> 'z \<Rightarrow> unit_relation \<Rightarrow> status_error + string option" where
  "relation_workflow e z ur =
     on_status StWorkflow (client_get_state (sv_yaml e) (sv_zk e) (UnitRelationState (ur_unit ur) (ur_relation ur) (ur_scope ur)) z)"

definition agent_state :: "('z, 'c, 'w, 'm) status_env \<Rightarrow> 'z \<Rightarrow> service_unit \<Rightarrow> string option \<Rightarrow> string" where
  "agent_state e z u unit_state =
     (case unit_state of
        Some (c # s) \<Rightarrow>
          (if has_agent (sv_state e) (unit_path u) z then replace_char CHR ''_'' CHR ''-'' (c # s) else ''down'')
      | _ \<Rightarrow> ''pending'')"

text \<open>The body of the loop of \<open>_process_unit_relations\<close>.\<close>

definition note_relation_error ::
  "('z, 'c, 'w, 'm) status_env \<Rightarrow> 'z \<Rightarrow> service_unit \<Rightarrow> (string, string) dict \<Rightarrow> service_relation \<Rightarrow> (string, string list) dict
     \<Rightarrow> status_error + (string, string list) dict" where
  "note_relation_error e z u rel_svc_map r relation_errors =
     (case get_unit_relation (sv_state e) r u z of
        Inl (UnitRelationStateNotFound _ _ _) \<Rightarrow> Inr relation_errors
      | Inl err \<Rightarrow> Inl (StState err)
      | Inr relation_unit \<Rightarrow>
          rbind (relation_workflow e z relation_unit) (\<lambda>workflow_state.
          case dget rel_svc_map (sr_relation r) of
            Some (c # name) \<Rightarrow>
              if workflow_state \<in> {Some ''up'', None} then Inr relation_errors
              else Inr (add_member (sr_name r) (c # name) relation_errors)
          | _ \<Rightarrow> Inr relation_errors))"

definition unit_relation_errors ::
  "('z, 'c, 'w, 'm) status_env \<Rightarrow> 'z \<Rightarrow> service_unit \<Rightarrow> service_relation list \<Rightarrow> (string, string) dict
     \<Rightarrow> status_error + (string, string list) dict option" where
  "unit_relation_errors e z u relations rel_svc_map =
     rbind (rfold (note_relation_error e z u rel_svc_map) relations []) (\<lambda>relation_errors.
     Inr (if relation_errors = [] then None else Some (sort_members relation_errors)))"

definition unit_info_of ::
  "('z, 'c, 'w, 'm) status_env \<Rightarrow> 'z \<Rightarrow> bool \<Rightarrow> service_unit \<Rightarrow> service_relation list \<Rightarrow> (string, string) dict
     \<Rightarrow> status_error + service_unit option \<times> int option \<times> unit_info" where
  "unit_info_of e z exposed u relations rel_svc_map =
     rbind (on_status StState (get_container (sv_state e) u z)) (\<lambda>container.
     rbind (assigned_id e z u) (\<lambda>machine_id.
     rbind (unit_workflow e z u) (\<lambda>unit_state.
     rbind (if exposed
            then rbind (on_status StState (get_open_ports (sv_state e) u z)) (\<lambda>v.
              rbind (open_port_texts e v) (\<lambda>ports. Inr (Some ports)))
            else Inr None) (\<lambda>open_ports.
     rbind (on_status StState (get_public_address (sv_state e) u z)) (\<lambda>public_address.
     rbind (unit_relation_errors e z u relations rel_svc_map) (\<lambda>relation_errors.
     Inr (container, machine_id,
       \<lparr>ui_container = map_option unit_name_of container, ui_machine = Some machine_id,
        ui_agent_state = agent_state e z u unit_state, ui_open_ports = open_ports,
        ui_public_address = Some public_address, ui_relation_errors = relation_errors, ui_subordinates = []\<rparr>)))))))"

definition process_unit ::
  "('z, 'c, 'w, 'm) status_env \<Rightarrow> 'z \<Rightarrow> service_state \<Rightarrow> service_relation list \<Rightarrow> (string, string) dict \<Rightarrow> service_unit
     \<Rightarrow> status_data \<Rightarrow> status_error + status_data" where
  "process_unit e z s relations rel_svc_map u st =
     rbind (service_info_of st s) (\<lambda>i.
     rbind (unit_info_of e z (si_exposed i) u relations rel_svc_map) (\<lambda>(container, machine_id, info).
     Inr (st\<lparr>st_units := dset (unit_name_of u) info (st_units st),
       st_subordinates := (case container of
           None \<Rightarrow> st_subordinates st
         | Some c \<Rightarrow> add_member (su_service_name u) (su_service_name c) (st_subordinates st)),
       st_seen := List.insert machine_id (st_seen st)\<rparr>)))"

text \<open>The loop over patterns stops at the first that matches; without patterns everything does.\<close>

fun first_match :: "string list \<Rightarrow> string \<Rightarrow> status_error + bool" where
  "first_match [] name = Inr False"
| "first_match (p # ps) name =
     (case fnmatch name p of
        None \<Rightarrow> Inl (StPattern p)
      | Some True \<Rightarrow> Inr True
      | Some False \<Rightarrow> first_match ps name)"

definition matches :: "string list \<Rightarrow> string \<Rightarrow> status_error + bool" where
  "matches patterns name = (if patterns = [] then Inr True else first_match patterns name)"

text \<open>A unit whose id is not found is one the state does not have: its machine is asked for and not answered.\<close>

definition process_listed_unit ::
  "('z, 'c, 'w, 'm) status_env \<Rightarrow> 'z \<Rightarrow> string list \<Rightarrow> service_state \<Rightarrow> service_relation list \<Rightarrow> (string, string) dict
     \<Rightarrow> string option \<times> int \<Rightarrow> status_data \<times> bool \<Rightarrow> status_error + status_data \<times> bool" where
  "process_listed_unit e z filter_units s relations rel_svc_map = (\<lambda>(uid, sequence) (st, unit_matched).
     rbind (matches filter_units (ss_name s @ ''/'' @ show_int sequence)) (\<lambda>found.
     if \<not> found then Inr (st, unit_matched)
     else case uid of
       None \<Rightarrow> Inl (StState state_changed)
     | Some i \<Rightarrow>
         rbind (process_unit e z s relations rel_svc_map
           \<lparr>su_service = ss_id s, su_service_name = ss_name s, su_sequence = sequence, su_id = i\<rparr> st) (\<lambda>st. Inr (st, True))))"

definition process_units ::
  "('z, 'c, 'w, 'm) status_env \<Rightarrow> 'z \<Rightarrow> string list \<Rightarrow> service_state \<Rightarrow> service_relation list \<Rightarrow> (string, string) dict \<Rightarrow> status_data
     \<Rightarrow> status_error + status_data \<times> bool" where
  "process_units e z filter_units s relations rel_svc_map st =
     rbind (on_status StState (get_all_unit_states (sv_state e) s z)) (\<lambda>units.
     rfold (process_listed_unit e z filter_units s relations rel_svc_map) units (st, False))"

section \<open>Services\<close>

definition process_expose :: "('z, 'c, 'w, 'm) status_env \<Rightarrow> 'z \<Rightarrow> service_state \<Rightarrow> service_info \<Rightarrow> service_info" where
  "process_expose e z s i = (if get_exposed_flag (sv_state e) s z then i\<lparr>si_exposed := True\<rparr> else i)"

text \<open>The charm of a service, as \<open>get_charm_id\<close> and \<open>get_charm_state\<close> answer it, twice: for \<open>is_subordinate\<close> as well.\<close>

definition service_charm :: "('z, 'c, 'w, 'm) status_env \<Rightarrow> 'z \<Rightarrow> service_state \<Rightarrow> status_error + string \<times> charm_state" where
  "service_charm e z s =
     rbind (on_status StState (get_service_charm_id (sv_state e) s z)) (\<lambda>charm_id.
     case charm_id of
       Some (YText i) \<Rightarrow> rbind (on_status StCharm (get_charm_state (sv_charms e) i z)) (\<lambda>c. Inr (i, c))
     | _ \<Rightarrow> Inl (StCharm (BadCharmData ''charm'')))"

definition process_service ::
  "('z, 'c, 'w, 'm) status_env \<Rightarrow> 'z \<Rightarrow> string list \<Rightarrow> service_state \<Rightarrow> status_data \<Rightarrow> status_error + status_data" where
  "process_service e z filter_units s st =
     rbind (service_charm e z s) (\<lambda>(charm_id, charm).
     let info = \<lparr>si_charm = charm_id, si_relations = [], si_subordinate = is_subordinate (ch_metadata charm),
                 si_exposed = False, si_subordinate_to = None, si_units = Some []\<rparr> in
     rbind (process_relation_map e z s (set_service_info s (process_expose e z s info) st)) (\<lambda>(st, relations, rel_svc_map).
     rbind (process_units e z filter_units s relations rel_svc_map st) (\<lambda>(st, unit_matched).
     if filter_units \<noteq> [] \<and> \<not> unit_matched then Inr (st\<lparr>st_services := ddel (ss_name s) (st_services st)\<rparr>)
     else process_relations e z s relations rel_svc_map st)))"

definition process_services ::
  "('z, 'c, 'w, 'm) status_env \<Rightarrow> 'z \<Rightarrow> string list \<Rightarrow> string list \<Rightarrow> status_data \<Rightarrow> status_error + status_data" where
  "process_services e z filter_services filter_units st =
     rbind (on_status StState (get_all_service_states (sv_state e) z)) (\<lambda>services.
     rfold (\<lambda>s st.
       rbind (matches filter_services (ss_name s)) (\<lambda>found.
       if found then process_service e z filter_units s st else Inr st)) services st)"

section \<open>Subordinates\<close>

text \<open>
  The dict of a subordinate unit moves into the one of its container, every other into its service's; the keys that come
  from the container are dropped.
\<close>

definition hide_container :: "unit_info \<Rightarrow> unit_info" where
  "hide_container u = u\<lparr>ui_container := None, ui_machine := None, ui_public_address := None\<rparr>"

definition place_unit_info :: "string \<Rightarrow> status_data \<Rightarrow> status_error + status_data" where
  "place_unit_info uname st =
     (case dget (st_units st) uname of
        None \<Rightarrow> Inl (StKeyError uname)
      | Some u \<Rightarrow>
          (case ui_container u of
             Some (c # cs) \<Rightarrow>
               (case dget (st_units st) (c # cs) of
                  None \<Rightarrow> Inl (StKeyError (c # cs))
                | Some d \<Rightarrow>
                    Inr (st\<lparr>st_units :=
                      (let units = dset (c # cs) (d\<lparr>ui_subordinates := List.insert uname (ui_subordinates d)\<rparr>) (st_units st)
                       in map (\<lambda>(n, v). (n, if n = uname then hide_container v else v)) units)\<rparr>))
           | _ \<Rightarrow>
               rbind (on_status StState (parse_service_name uname)) (\<lambda>service_name.
               case dget (st_services st) service_name of
                 None \<Rightarrow> Inl (StKeyError service_name)
               | Some i \<Rightarrow>
                   (case si_units i of
                      None \<Rightarrow> Inl (StKeyError ''units'')
                    | Some us \<Rightarrow>
                        Inr (st\<lparr>st_services := dset service_name (i\<lparr>si_units := Some (List.insert uname us)\<rparr>) (st_services st)\<rparr>)))))"

definition place_subordinate_service :: "string \<times> string list \<Rightarrow> status_data \<Rightarrow> status_error + status_data" where
  "place_subordinate_service = (\<lambda>(sub_service, principals) st.
     (case dget (st_services st) sub_service of
        None \<Rightarrow> Inl (StKeyError sub_service)
      | Some i \<Rightarrow> Inr (st\<lparr>st_services :=
          dset sub_service (i\<lparr>si_subordinate_to := Some (sort principals), si_units := None\<rparr>) (st_services st)\<rparr>)))"

definition process_subordinates :: "status_data \<Rightarrow> status_error + status_data" where
  "process_subordinates st =
     rbind (rfold place_unit_info (dkeys (st_units st)) st) (\<lambda>st.
     rfold place_subordinate_service (st_subordinates st) st)"

section \<open>Machines\<close>

text \<open>Of the units of a machine one has a workflow state; the loop stops there.\<close>

fun some_unit_ran :: "('z, 'c, 'w, 'm) status_env \<Rightarrow> 'z \<Rightarrow> service_unit list \<Rightarrow> status_error + bool" where
  "some_unit_ran e z [] = Inr False"
| "some_unit_ran e z (u # us) =
     rbind (unit_workflow e z u) (\<lambda>w. if w = None \<or> w = Some [] then some_unit_ran e z us else Inr True)"

definition machine_agent_state :: "('z, 'c, 'w, 'm) status_env \<Rightarrow> 'z \<Rightarrow> string \<Rightarrow> status_error + string" where
  "machine_agent_state e z internal_id =
     (if has_agent (sv_state e) (machine_path internal_id) z then Inr ''running''
      else rbind (on_status StState (machine_unit_states (sv_machines e) internal_id z)) (\<lambda>units.
        rbind (some_unit_ran e z units) (\<lambda>ran. Inr (if ran then ''down'' else ''not-started''))))"

definition is_status_provider_error :: "provider_error \<Rightarrow> bool" where
  "is_status_provider_error err = (case err of MachinesNotFound _ \<Rightarrow> True | ProviderError _ \<Rightarrow> True | _ \<Rightarrow> False)"

definition machine_info_of :: "('z, 'c, 'w, 'm) status_env \<Rightarrow> 'z \<Rightarrow> string \<Rightarrow> ('w, status_error, machine_info) eff" where
  "machine_info_of e z internal_id w =
     (case on_status StState (get_instance_id (sv_machines e) internal_id z) of
        Inl err \<Rightarrow> (w, Inl err)
      | Inr instance_id \<Rightarrow>
          (let m = \<lparr>mi_instance_id = YText ''pending'', mi_dns_name = None, mi_instance_state = None, mi_agent_state = None\<rparr> in
           if instance_id \<in> {None, Some YNone} then (w, Inr m)
           else let i = the instance_id; m = m\<lparr>mi_instance_id := i\<rparr> in
             case pv_get_machine (sv_provider e) i w of
               (w', Inl err) \<Rightarrow> (w', if is_status_provider_error err then Inr m else Inl (StProvider err))
             | (w', Inr pm) \<Rightarrow>
                 (w', rbind (machine_agent_state e z internal_id) (\<lambda>a.
                    Inr (m\<lparr>mi_dns_name := Some (sv_dns_name e pm), mi_instance_state := Some (sv_machine_state e pm),
                           mi_agent_state := Some a\<rparr>)))))"

definition process_machine_state ::
  "('z, 'c, 'w, 'm) status_env \<Rightarrow> 'z \<Rightarrow> bool \<Rightarrow> string \<Rightarrow> status_data \<Rightarrow> ('w, status_error, status_data) eff" where
  "process_machine_state e z filtered internal_id st =
     (let machine_id = on_status StState (public_machine_id internal_id) in
      ebind (if filtered then eread (\<lambda>_. rbind machine_id (\<lambda>n. Inr (Some n \<notin> set (st_seen st)))) else eret False) (\<lambda>skip.
      if skip then eret st
      else ebind (machine_info_of e z internal_id) (\<lambda>m.
        eread (\<lambda>_. rbind machine_id (\<lambda>n. Inr (st\<lparr>st_machines := dset n m (st_machines st)\<rparr>))))))"

fun process_machine_states ::
  "('z, 'c, 'w, 'm) status_env \<Rightarrow> 'z \<Rightarrow> bool \<Rightarrow> string list \<Rightarrow> status_data \<Rightarrow> ('w, status_error, status_data) eff" where
  "process_machine_states e z filtered [] st w = (w, Inr st)"
| "process_machine_states e z filtered (i # is) st w =
     ebind (process_machine_state e z filtered i st) (process_machine_states e z filtered is) w"

section \<open>The command\<close>

definition status_command ::
  "('z, 'c, 'w, 'm) status_env \<Rightarrow> 'z \<Rightarrow> string list option \<Rightarrow> ('w, status_error, status_data) eff" where
  "status_command e z scope =
     (let (filter_services, filter_units) = digest_scope scope in
      ebind (eread (\<lambda>_. process_services e z filter_services filter_units empty_status)) (\<lambda>st.
      ebind (eread (\<lambda>_. process_subordinates st)) (\<lambda>st.
      ebind (eread (\<lambda>_. on_status StState (get_all_machine_states (sv_machines e) z))) (\<lambda>machines.
      process_machine_states e z (filter_services \<noteq> [] \<or> filter_units \<noteq> []) machines st))))"

end
