(* ===== verification/StatusProps.thy ===== *)
theory StatusProps
  imports Status FirewallProps
begin

text \<open>
  What \<open>juju status\<close> shows (\<open>Status\<close>): the units that match, each under its service or under the unit that contains it, and
  when nesting them fails.
\<close>

section \<open>Nesting\<close>

definition owner :: "unit_info \<Rightarrow> string option" where
  "owner u = (if ui_container u = Some [] then None else ui_container u)"

definition fresh_status :: "status_data \<Rightarrow> bool" where
  "fresh_status c \<longleftrightarrow>
     dict_wf (st_units c) \<and> dict_wf (st_subordinates c) \<and>
     (\<forall>n u. dget (st_units c) n = Some u \<longrightarrow> ui_subordinates u = [] \<and>
        (\<exists>s. parse_service_name n = Inr s \<and> dhas (st_services c) s)) \<and>
     (\<forall>s i. dget (st_services c) s = Some i \<longrightarrow> si_units i = Some []) \<and>
     (\<forall>s. dhas (st_subordinates c) s \<longrightarrow> dhas (st_services c) s)"

text \<open>The names in \<open>P\<close> that belong to the unit or the service.\<close>

definition nested :: "status_data \<Rightarrow> string set \<Rightarrow> string \<Rightarrow> string set" where
  "nested c P n = {m \<in> P. \<exists>x. dget (st_units c) m = Some x \<and> owner x = Some n}"

definition top_units :: "status_data \<Rightarrow> string set \<Rightarrow> string \<Rightarrow> string set" where
  "top_units c P s = {m \<in> P. \<exists>x. dget (st_units c) m = Some x \<and> owner x = None \<and> parse_service_name m = Inr s}"

definition shown_unit :: "unit_info \<Rightarrow> unit_info" where
  "shown_unit u = (if owner u = None then u else hide_container u)"

text \<open>The state when the names in \<open>P\<close> have been placed.\<close>

definition placed :: "status_data \<Rightarrow> string set \<Rightarrow> status_data \<Rightarrow> bool" where
  "placed c P st \<longleftrightarrow>
     dom (dget (st_units st)) = dom (dget (st_units c)) \<and>
     (\<forall>n u. dget (st_units c) n = Some u \<longrightarrow> (\<exists>ms. dget (st_units st) n
        = Some ((if n \<in> P then shown_unit u else u)\<lparr>ui_subordinates := ms\<rparr>) \<and> set ms = nested c P n)) \<and>
     dom (dget (st_services st)) = dom (dget (st_services c)) \<and>
     (\<forall>s i. dget (st_services c) s = Some i \<longrightarrow> (\<exists>ms. dget (st_services st) s = Some (i\<lparr>si_units := Some ms\<rparr>) \<and> set ms = top_units c P s)) \<and>
     st_subordinates st = st_subordinates c"

lemma place_unit_info_owner:
  "place_unit_info n st =
     (case dget (st_units st) n of
        None \<Rightarrow> Inl (StKeyError n)
      | Some u \<Rightarrow>
          (case owner u of
             Some c \<Rightarrow>
               (case dget (st_units st) c of
                  None \<Rightarrow> Inl (StKeyError c)
                | Some d \<Rightarrow> Inr (st\<lparr>st_units := map (\<lambda>(m, v). (m, if m = n then hide_container v else v))
                    (dset c (d\<lparr>ui_subordinates := List.insert n (ui_subordinates d)\<rparr>) (st_units st))\<rparr>))
           | None \<Rightarrow>
               rbind (on_status StState (parse_service_name n)) (\<lambda>s.
               case dget (st_services st) s of
                 None \<Rightarrow> Inl (StKeyError s)
               | Some i \<Rightarrow>
                   (case si_units i of
                      None \<Rightarrow> Inl (StKeyError ''units'')
                    | Some us \<Rightarrow> Inr (st\<lparr>st_services := dset s (i\<lparr>si_units := Some (List.insert n us)\<rparr>) (st_services st)\<rparr>)))))"
proof (cases "dget (st_units st) n")
  case None
  then show ?thesis by (simp add: place_unit_info_def)
next
  case (Some u)
  show ?thesis
  proof (cases "owner u")
    case None
    then have "ui_container u = None \<or> ui_container u = Some []" by (auto simp: owner_def split: if_splits)
    then show ?thesis using Some None by (auto simp: place_unit_info_def)
  next
    case k: (Some k)
    then obtain c cs where "ui_container u = Some (c # cs)" "k = c # cs" by (cases k) (auto simp: owner_def split: if_splits)
    then show ?thesis using Some k by (cases "dget (st_units st) k") (simp_all add: place_unit_info_def Let_def)
  qed
qed

lemma owner_shown [simp]: "owner (u\<lparr>ui_subordinates := ms\<rparr>) = owner u"
  by (simp add: owner_def)

lemma placed_start: "fresh_status c \<Longrightarrow> placed c {} c"
  unfolding placed_def nested_def top_units_def fresh_status_def
  by (auto intro!: exI [of _ "[]"])

lemma placed_unit:
  assumes "placed c P st" and "dget (st_units c) n = Some u"
  obtains ms where "dget (st_units st) n = Some ((if n \<in> P then shown_unit u else u)\<lparr>ui_subordinates := ms\<rparr>)" "set ms = nested c P n"
  using assms unfolding placed_def by blast

lemma placed_service:
  assumes "placed c P st" and "dget (st_services c) s = Some i"
  obtains ms where "dget (st_services st) s = Some (i\<lparr>si_units := Some ms\<rparr>)" "set ms = top_units c P s"
  using assms unfolding placed_def by blast

lemma fresh_service:
  assumes "fresh_status c" and "dget (st_units c) n = Some u"
  obtains s i where "parse_service_name n = Inr s" "dget (st_services c) s = Some i"
  using assms unfolding fresh_status_def dhas_iff by blast

text \<open>One name more: it succeeds when its container is there.\<close>

lemma place_nested:
  assumes "placed c P st" and n: "dget (st_units c) n = Some u" "n \<notin> P" "owner u = Some k" and k: "dget (st_units c) k = Some x"
  shows "\<exists>st'. place_unit_info n st = Inr st' \<and> placed c (insert n P) st'"
proof -
  obtain us where us: "dget (st_units st) n = Some (u\<lparr>ui_subordinates := us\<rparr>)"
    using placed_unit [OF assms(1) n(1)] n(2) by auto
  obtain ks where ks: "dget (st_units st) k = Some ((if k \<in> P then shown_unit x else x)\<lparr>ui_subordinates := ks\<rparr>)" "set ks = nested c P k"
    using placed_unit [OF assms(1) k] .
  define st' where "st' = st\<lparr>st_units := map (\<lambda>(m, v). (m, if m = n then hide_container v else v))
      (dset k ((if k \<in> P then shown_unit x else x)\<lparr>ui_subordinates := List.insert n ks\<rparr>) (st_units st))\<rparr>"
  have step: "place_unit_info n st = Inr st'"
    using us ks(1) n(3) by (simp add: place_unit_info_owner st'_def)
  have nested: "nested c (insert n P) m = (if m = k then insert n (nested c P m) else nested c P m)" for m
    using n(1,3) by (auto simp: nested_def)
  have units: "\<exists>ms. dget (st_units st') m = Some ((if m \<in> insert n P then shown_unit v else v)\<lparr>ui_subordinates := ms\<rparr>)
      \<and> set ms = nested c (insert n P) m" if m: "dget (st_units c) m = Some v" for m v
  proof -
    obtain ms where ms: "dget (st_units st) m = Some ((if m \<in> P then shown_unit v else v)\<lparr>ui_subordinates := ms\<rparr>)" "set ms = nested c P m"
      using placed_unit [OF assms(1) m] .
    have at: "dget (st_units st') j = map_option (\<lambda>v. if j = n then hide_container v else v)
        (((dget (st_units st)) (k \<mapsto> (if k \<in> P then shown_unit x else x)\<lparr>ui_subordinates := List.insert n ks\<rparr>)) j)" for j
      by (simp add: st'_def dget_map_value dget_dset)
    have shown: "shown_unit u = hide_container u" using n(3) by (simp add: shown_unit_def)
    show ?thesis
    proof (cases "m = k")
      case True
      then have "v = x" using m k by simp
      let ?ms = "List.insert n ks"
      have "dget (st_units st') k = Some ((if k \<in> insert n P then shown_unit x else x)\<lparr>ui_subordinates := ?ms\<rparr>)"
      proof (cases "k = n")
        case True
        then have "u = x" using n k by simp
        then show ?thesis using True n(2) shown by (simp add: at hide_container_def)
      qed (simp add: at)
      moreover have "set ?ms = nested c (insert n P) k" using ks(2) by (simp add: nested)
      ultimately show ?thesis using True \<open>v = x\<close> by (intro exI [of _ ?ms]) simp
    next
      case False
      then have same: "nested c (insert n P) m = nested c P m" by (simp add: nested)
      show ?thesis
      proof (cases "m = n")
        case True
        then have "dget (st_units st') m = Some ((shown_unit v)\<lparr>ui_subordinates := ms\<rparr>)"
          using m n ms(1) shown False by (simp add: at hide_container_def)
        then show ?thesis using True ms(2) same by (intro exI [of _ ms]) simp
      next
        case m': False
        then have "dget (st_units st') m = dget (st_units st) m" using False by (simp add: at map_option.identity)
        then show ?thesis using m' ms same by (intro exI [of _ ms]) simp
      qed
    qed
  qed
  have tops: "top_units c (insert n P) s = top_units c P s" for s
    using n(1,3) by (auto simp: top_units_def)
  have "placed c (insert n P) st'"
    unfolding placed_def
  proof (intro conjI allI impI)
    show "dom (dget (st_units st')) = dom (dget (st_units c))"
      using assms(1) k by (auto simp: placed_def st'_def dom_def dget_map_value dget_dset)
  qed (use assms(1) units tops in \<open>auto simp: placed_def st'_def\<close>)
  with step show ?thesis by blast
qed

lemma place_top:
  assumes "fresh_status c" and "placed c P st" and n: "dget (st_units c) n = Some u" "n \<notin> P" "owner u = None"
  shows "\<exists>st'. place_unit_info n st = Inr st' \<and> placed c (insert n P) st'"
proof -
  obtain us where us: "dget (st_units st) n = Some (u\<lparr>ui_subordinates := us\<rparr>)"
    using placed_unit [OF assms(2) n(1)] n(2) by auto
  obtain s i where s: "parse_service_name n = Inr s" "dget (st_services c) s = Some i"
    using fresh_service [OF assms(1) n(1)] .
  obtain ms where ms: "dget (st_services st) s = Some (i\<lparr>si_units := Some ms\<rparr>)" "set ms = top_units c P s"
    using placed_service [OF assms(2) s(2)] .
  define st' where "st' = st\<lparr>st_services := dset s (i\<lparr>si_units := Some (List.insert n ms)\<rparr>) (st_services st)\<rparr>"
  have step: "place_unit_info n st = Inr st'"
    using us ms(1) s(1) n(3) by (simp add: place_unit_info_owner st'_def on_status_def)
  have tops: "top_units c (insert n P) t = (if t = s then insert n (top_units c P t) else top_units c P t)" for t
    using n(1,3) s(1) by (auto simp: top_units_def)
  have nested: "nested c (insert n P) m = nested c P m" for m
    using n(1,3) by (auto simp: nested_def)
  have shown: "shown_unit u = u" using n(3) by (simp add: shown_unit_def)
  have "placed c (insert n P) st'"
    unfolding placed_def
  proof (intro conjI allI impI)
    fix m v assume m: "dget (st_units c) m = Some v"
    obtain xs where "dget (st_units st) m = Some ((if m \<in> P then shown_unit v else v)\<lparr>ui_subordinates := xs\<rparr>)" "set xs = nested c P m"
      using placed_unit [OF assms(2) m] .
    then show "\<exists>ms. dget (st_units st') m = Some ((if m \<in> insert n P then shown_unit v else v)\<lparr>ui_subordinates := ms\<rparr>)
        \<and> set ms = nested c (insert n P) m"
      using m n(1) shown by (auto simp: st'_def nested)
  next
    fix t j assume t: "dget (st_services c) t = Some j"
    obtain xs where "dget (st_services st) t = Some (j\<lparr>si_units := Some xs\<rparr>)" "set xs = top_units c P t"
      using placed_service [OF assms(2) t] .
    then show "\<exists>ms. dget (st_services st') t = Some (j\<lparr>si_units := Some ms\<rparr>) \<and> set ms = top_units c (insert n P) t"
      using t s ms by (auto simp: st'_def dget_dset tops)
  qed (use assms(2) s in \<open>auto simp: placed_def st'_def dget_dset\<close>)
  with step show ?thesis by blast
qed

text \<open>All names: nesting ends well exactly when every container was collected.\<close>

lemma place_all:
  assumes "fresh_status c" and "placed c P st" and "distinct ns" and "set ns \<inter> P = {}" and "set ns \<subseteq> dom (dget (st_units c))"
    and "\<forall>n\<in>set ns. \<forall>u k. dget (st_units c) n = Some u \<longrightarrow> owner u = Some k \<longrightarrow> dhas (st_units c) k"
  shows "\<exists>st'. rfold place_unit_info ns st = Inr st' \<and> placed c (P \<union> set ns) st'"
  using assms(2-)
proof (induction ns arbitrary: st P)
  case Nil
  then show ?case by simp
next
  case (Cons n ns)
  then obtain u where u: "dget (st_units c) n = Some u" "n \<notin> P" by auto
  have "\<exists>st'. place_unit_info n st = Inr st' \<and> placed c (insert n P) st'"
  proof (cases "owner u")
    case None
    then show ?thesis using place_top [OF assms(1) Cons.prems(1) u] by simp
  next
    case (Some k)
    then obtain x where "dget (st_units c) k = Some x" using Cons.prems(5) u(1) by (auto simp: dhas_iff)
    then show ?thesis using place_nested [OF Cons.prems(1) u Some] by simp
  qed
  then obtain st1 where st1: "place_unit_info n st = Inr st1" "placed c (insert n P) st1" by blast
  have "\<exists>st'. rfold place_unit_info ns st1 = Inr st' \<and> placed c (insert n P \<union> set ns) st'"
    using Cons.prems by (intro Cons.IH [OF st1(2)]) auto
  with st1(1) show ?case by auto
qed

lemma place_needs_owner:
  assumes "placed c P st" and "dget (st_units c) n = Some u" and "n \<notin> P" and "owner u = Some k" and "\<not> dhas (st_units c) k"
  shows "place_unit_info n st = Inl (StKeyError k)"
proof -
  obtain ms where "dget (st_units st) n = Some (u\<lparr>ui_subordinates := ms\<rparr>)"
    using placed_unit [OF assms(1,2)] assms(3) by auto
  moreover have "dget (st_units st) k = None"
    using assms(1,5) unfolding placed_def dhas_iff by (metis domIff not_None_eq)
  ultimately show ?thesis using assms(4) by (simp add: place_unit_info_owner)
qed

lemma place_fails:
  assumes "fresh_status c" and "placed c P st" and "distinct ns" and "set ns \<inter> P = {}" and "set ns \<subseteq> dom (dget (st_units c))"
    and "n \<in> set ns" and "dget (st_units c) n = Some u" and "owner u = Some k" and "\<not> dhas (st_units c) k"
  shows "\<exists>j. rfold place_unit_info ns st = Inl (StKeyError j)"
  using assms(2-6)
proof (induction ns arbitrary: st P)
  case Nil
  then show ?case by simp
next
  case (Cons m ns)
  then obtain v where v: "dget (st_units c) m = Some v" "m \<notin> P" by auto
  show ?case
  proof (cases "\<exists>j. owner v = Some j \<and> \<not> dhas (st_units c) j")
    case True
    then show ?thesis using place_needs_owner [OF Cons.prems(1) v] by auto
  next
    case False
    then have "m \<noteq> n" using assms(7-9) v by auto
    have "\<exists>st'. rfold place_unit_info [m] st = Inr st' \<and> placed c (P \<union> set [m]) st'"
      using Cons.prems(1,3) v False by (intro place_all [OF assms(1)]) auto
    then obtain st1 where st1: "place_unit_info m st = Inr st1" "placed c (insert m P) st1" by (auto simp: result_simps)
    have "\<exists>j. rfold place_unit_info ns st1 = Inl (StKeyError j)"
      using Cons.prems \<open>m \<noteq> n\<close> by (intro Cons.IH [OF st1(2)]) auto
    with st1(1) show ?thesis by simp
  qed
qed

text \<open>What is left in the end.\<close>

definition nested_status :: "status_data \<Rightarrow> status_data \<Rightarrow> bool" where
  "nested_status c st \<longleftrightarrow>
     dom (dget (st_units st)) = dom (dget (st_units c)) \<and>
     (\<forall>n u. dget (st_units c) n = Some u \<longrightarrow> (\<exists>ms. dget (st_units st) n = Some ((shown_unit u)\<lparr>ui_subordinates := ms\<rparr>)
        \<and> set ms = {m. \<exists>x. dget (st_units c) m = Some x \<and> owner x = Some n})) \<and>
     dom (dget (st_services st)) = dom (dget (st_services c)) \<and>
     (\<forall>s i. dget (st_services c) s = Some i \<longrightarrow>
        (case dget (st_subordinates c) s of
           Some principals \<Rightarrow> dget (st_services st) s = Some (i\<lparr>si_subordinate_to := Some (sort principals), si_units := None\<rparr>)
         | None \<Rightarrow> \<exists>ms. dget (st_services st) s = Some (i\<lparr>si_units := Some ms\<rparr>)
             \<and> set ms = {m. \<exists>x. dget (st_units c) m = Some x \<and> owner x = None \<and> parse_service_name m = Inr s}))"

lemma nested_status_same:
  "st_units st = st_units st1 \<Longrightarrow> st_services st = st_services st1 \<Longrightarrow> nested_status c st = nested_status c st1"
  by (simp only: nested_status_def)

lemma place_subordinate_services:
  assumes "distinct (dkeys d)" and "\<forall>s. dhas d s \<longrightarrow> dhas (st_services st) s"
  shows "\<exists>st'. rfold place_subordinate_service d st = Inr st' \<and> st_units st' = st_units st
    \<and> (\<forall>s. dget (st_services st') s = (case dget d s of
         None \<Rightarrow> dget (st_services st) s
       | Some ps \<Rightarrow> map_option (\<lambda>i. i\<lparr>si_subordinate_to := Some (sort ps), si_units := None\<rparr>) (dget (st_services st) s)))"
  using assms
proof (induction d arbitrary: st)
  case Nil
  then show ?case by simp
next
  case (Cons p d)
  obtain s ps where p: "p = (s, ps)" by (cases p)
  have "dhas (st_services st) s" using Cons.prems(2) p by simp
  then obtain i where i: "dget (st_services st) s = Some i" by (auto simp: dhas_iff)
  define st1 where "st1 = st\<lparr>st_services := dset s (i\<lparr>si_subordinate_to := Some (sort ps), si_units := None\<rparr>) (st_services st)\<rparr>"
  have step: "place_subordinate_service p st = Inr st1"
    using i by (simp add: place_subordinate_service_def p st1_def)
  have new: "dget d s = None" using Cons.prems(1) p by (simp add: map_of_eq_None_iff)
  have "\<exists>st'. rfold place_subordinate_service d st1 = Inr st' \<and> st_units st' = st_units st1
    \<and> (\<forall>s. dget (st_services st') s = (case dget d s of
         None \<Rightarrow> dget (st_services st1) s
       | Some ps \<Rightarrow> map_option (\<lambda>i. i\<lparr>si_subordinate_to := Some (sort ps), si_units := None\<rparr>) (dget (st_services st1) s)))"
    using Cons.prems p by (intro Cons.IH) (auto simp: st1_def)
  then obtain st' where st': "rfold place_subordinate_service d st1 = Inr st'" "st_units st' = st_units st1"
    "\<And>s. dget (st_services st') s = (case dget d s of
         None \<Rightarrow> dget (st_services st1) s
       | Some ps \<Rightarrow> map_option (\<lambda>i. i\<lparr>si_subordinate_to := Some (sort ps), si_units := None\<rparr>) (dget (st_services st1) s))"
    by blast
  have "dget (st_services st') t = (case dget (p # d) t of
         None \<Rightarrow> dget (st_services st) t
       | Some ps \<Rightarrow> map_option (\<lambda>i. i\<lparr>si_subordinate_to := Some (sort ps), si_units := None\<rparr>) (dget (st_services st) t))" for t
    unfolding st'(3) using p new i by (auto simp: st1_def dget_dset split: option.split)
  with step st'(1,2) show ?case by (auto simp: st1_def)
qed

lemma nesting_ends:
  assumes "fresh_status c" and "\<forall>n u k. dget (st_units c) n = Some u \<longrightarrow> owner u = Some k \<longrightarrow> dhas (st_units c) k"
  shows "\<exists>st. process_subordinates c = Inr st \<and> nested_status c st"
proof -
  let ?ns = "dkeys (st_units c)"
  have wf: "dict_wf (st_units c)" "dict_wf (st_subordinates c)" "\<forall>s. dhas (st_subordinates c) s \<longrightarrow> dhas (st_services c) s"
    using assms(1) by (auto simp: fresh_status_def)
  have names: "set ?ns = dom (dget (st_units c))" by (simp add: dom_map_of_conv_image_fst)
  have "\<exists>st'. rfold place_unit_info ?ns c = Inr st' \<and> placed c ({} \<union> set ?ns) st'"
    by (rule place_all [OF assms(1) placed_start [OF assms(1)]]) (use wf(1) assms(2) names in \<open>auto simp: dict_wf_def\<close>)
  then obtain st1 where st1: "rfold place_unit_info ?ns c = Inr st1" "placed c (set ?ns) st1" by auto
  have subs: "st_subordinates st1 = st_subordinates c" and services: "dom (dget (st_services st1)) = dom (dget (st_services c))"
    and units: "dom (dget (st_units st1)) = dom (dget (st_units c))"
    using st1(2) by (auto simp: placed_def)
  have "\<exists>st'. rfold place_subordinate_service (st_subordinates c) st1 = Inr st' \<and> st_units st' = st_units st1
    \<and> (\<forall>s. dget (st_services st') s = (case dget (st_subordinates c) s of
         None \<Rightarrow> dget (st_services st1) s
       | Some ps \<Rightarrow> map_option (\<lambda>i. i\<lparr>si_subordinate_to := Some (sort ps), si_units := None\<rparr>) (dget (st_services st1) s)))"
    by (rule place_subordinate_services) (use wf services in \<open>auto simp: dict_wf_def dhas_iff dom_def\<close>)
  then obtain st where st: "rfold place_subordinate_service (st_subordinates c) st1 = Inr st" "st_units st = st_units st1"
    "\<And>s. dget (st_services st) s = (case dget (st_subordinates c) s of
         None \<Rightarrow> dget (st_services st1) s
       | Some ps \<Rightarrow> map_option (\<lambda>i. i\<lparr>si_subordinate_to := Some (sort ps), si_units := None\<rparr>) (dget (st_services st1) s))"
    by blast
  have "process_subordinates c = Inr st" using st1(1) st(1) subs by (simp add: process_subordinates_def)
  moreover have "nested_status c st"
    unfolding nested_status_def
  proof (intro conjI allI impI)
    fix n u assume n: "dget (st_units c) n = Some u"
    then have "n \<in> set ?ns" using names by auto
    moreover obtain ms where "dget (st_units st1) n = Some ((if n \<in> set ?ns then shown_unit u else u)\<lparr>ui_subordinates := ms\<rparr>)"
        "set ms = nested c (set ?ns) n"
      using placed_unit [OF st1(2) n] .
    ultimately show "\<exists>ms. dget (st_units st) n = Some ((shown_unit u)\<lparr>ui_subordinates := ms\<rparr>)
        \<and> set ms = {m. \<exists>x. dget (st_units c) m = Some x \<and> owner x = Some n}"
      using names by (auto simp: st(2) nested_def)
  next
    fix s i assume s: "dget (st_services c) s = Some i"
    obtain ms where "dget (st_services st1) s = Some (i\<lparr>si_units := Some ms\<rparr>)" "set ms = top_units c (set ?ns) s"
      using placed_service [OF st1(2) s] .
    then show "case dget (st_subordinates c) s of
           Some principals \<Rightarrow> dget (st_services st) s = Some (i\<lparr>si_subordinate_to := Some (sort principals), si_units := None\<rparr>)
         | None \<Rightarrow> \<exists>ms. dget (st_services st) s = Some (i\<lparr>si_units := Some ms\<rparr>)
             \<and> set ms = {m. \<exists>x. dget (st_units c) m = Some x \<and> owner x = None \<and> parse_service_name m = Inr s}"
      using names by (auto simp: st(3) top_units_def split: option.split)
  next
    show "dom (dget (st_services st)) = dom (dget (st_services c))"
      unfolding services [symmetric] by (auto simp: st(3) dom_def split: option.splits)
  qed (simp add: st(2) units)
  ultimately show ?thesis by blast
qed

lemma nesting_fails:
  assumes "fresh_status c" and "dget (st_units c) n = Some u" and "owner u = Some k" and "\<not> dhas (st_units c) k"
  shows "\<exists>j. process_subordinates c = Inl (StKeyError j)"
proof -
  have "\<exists>j. rfold place_unit_info (dkeys (st_units c)) c = Inl (StKeyError j)"
    by (rule place_fails [OF assms(1) placed_start [OF assms(1)] _ _ _ _ assms(2-4)])
      (use assms(1,2) in \<open>auto simp: fresh_status_def dict_wf_def dom_map_of_conv_image_fst intro: rev_image_eqI dest: map_of_SomeD\<close>)
  then show ?thesis by (auto simp: process_subordinates_def)
qed

section \<open>Collecting\<close>

lemma parse_unit_service: "parse_service_name (s @ ''/'' @ show_int n) = Inr s"
  using rsplit_once_append [of "CHR ''/''" "show_int n" s]
  by (simp add: parse_service_name_def parse_unit_name_def)

text \<open>A unit of the list matches; what is collected is what was read of it.\<close>

definition listed_match :: "string list \<Rightarrow> service_state \<Rightarrow> (string option \<times> int) list \<Rightarrow> string \<Rightarrow> bool" where
  "listed_match fu s units n \<longleftrightarrow> (\<exists>uid sequence. (uid, sequence) \<in> set units \<and> n = ss_name s @ ''/'' @ show_int sequence \<and> matches fu n = Inr True)"

definition read_of ::
  "('z, 'c, 'w, 'm) status_env \<Rightarrow> 'z \<Rightarrow> bool \<Rightarrow> service_state \<Rightarrow> service_relation list \<Rightarrow> (string, string) dict
     \<Rightarrow> (string option \<times> int) list \<Rightarrow> string \<Rightarrow> unit_info \<Rightarrow> bool" where
  "read_of e z exposed s relations rel_svc_map units n info \<longleftrightarrow>
     (\<exists>u container machine_id. (Some (su_id u), su_sequence u) \<in> set units \<and> su_service u = ss_id s \<and> su_service_name u = ss_name s
        \<and> n = unit_name_of u \<and> unit_info_of e z exposed u relations rel_svc_map = Inr (container, machine_id, info))"

lemma unit_info_read:
  "unit_info_of e z exposed u relations rel_svc_map = Inr (container, machine_id, info) \<Longrightarrow>
     ui_subordinates info = [] \<and> ui_machine info = Some machine_id \<and> ui_container info = map_option unit_name_of container"
  by (auto simp: unit_info_of_def result_simps)

text \<open>What the loop over units leaves: \<open>b\<close> is whether some unit matched.\<close>

definition collects ::
  "('z, 'c, 'w, 'm) status_env \<Rightarrow> 'z \<Rightarrow> bool \<Rightarrow> string list \<Rightarrow> service_state \<Rightarrow> service_relation list \<Rightarrow> (string, string) dict
     \<Rightarrow> (string option \<times> int) list \<Rightarrow> status_data \<Rightarrow> status_data \<Rightarrow> bool" where
  "collects e z exposed fu s relations rel_svc_map units st st' \<longleftrightarrow>
     st_services st' = st_services st \<and> st_machines st' = st_machines st \<and>
     (dict_wf (st_units st) \<longrightarrow> dict_wf (st_units st')) \<and> (dict_wf (st_subordinates st) \<longrightarrow> dict_wf (st_subordinates st')) \<and>
     (\<forall>n. dhas (st_units st') n \<longleftrightarrow> dhas (st_units st) n \<or> listed_match fu s units n) \<and>
     (\<forall>n info. dget (st_units st') n = Some info \<longrightarrow>
        dget (st_units st) n = Some info \<or> listed_match fu s units n \<and> read_of e z exposed s relations rel_svc_map units n info
          \<and> (\<forall>m. ui_machine info = Some m \<longrightarrow> m \<in> set (st_seen st'))) \<and>
     set (st_seen st) \<subseteq> set (st_seen st') \<and>
     (\<forall>k. dhas (st_subordinates st') k \<longrightarrow> dhas (st_subordinates st) k \<or> k = ss_name s \<and> (\<exists>n. listed_match fu s units n)) \<and>
     ((\<forall>n. \<not> listed_match fu s units n) \<longrightarrow> st' = st)"

lemma process_unit_Inr:
  assumes "process_unit e z s relations rel_svc_map u st = Inr st'"
  obtains i container machine_id info where "dget (st_services st) (ss_name s) = Some i"
    and "unit_info_of e z (si_exposed i) u relations rel_svc_map = Inr (container, machine_id, info)"
    and "st' = st\<lparr>st_units := dset (unit_name_of u) info (st_units st),
       st_subordinates := (case container of None \<Rightarrow> st_subordinates st
         | Some c \<Rightarrow> add_member (su_service_name u) (su_service_name c) (st_subordinates st)),
       st_seen := List.insert machine_id (st_seen st)\<rparr>"
  using assms by (auto simp: process_unit_def service_info_of_def result_simps split: option.splits)

lemma collects_more:
  assumes "process_listed_unit e z fu s relations rel_svc_map (uid, sequence) (st, b) = Inr (st1, b1)"
    and "dget (st_services st) (ss_name s) = Some i"
  shows "collects e z (si_exposed i) fu s relations rel_svc_map [(uid, sequence)] st st1
    \<and> (b1 \<longleftrightarrow> b \<or> (\<exists>n. listed_match fu s [(uid, sequence)] n))"
proof -
  let ?n = "ss_name s @ ''/'' @ show_int sequence"
  obtain found where found: "matches fu ?n = Inr found"
    using assms(1) by (auto simp: process_listed_unit_def result_simps)
  show ?thesis
  proof (cases found)
    case False
    then show ?thesis using assms(1) found by (auto simp: process_listed_unit_def collects_def listed_match_def)
  next
    case True
    then obtain uid' where uid: "uid = Some uid'" "b1"
        "process_unit e z s relations rel_svc_map
           \<lparr>su_service = ss_id s, su_service_name = ss_name s, su_sequence = sequence, su_id = uid'\<rparr> st = Inr st1"
      using assms(1) found by (auto simp: process_listed_unit_def result_simps split: option.splits)
    let ?u = "\<lparr>su_service = ss_id s, su_service_name = ss_name s, su_sequence = sequence, su_id = uid'\<rparr>"
    obtain j container machine_id info where j: "dget (st_services st) (ss_name s) = Some j"
      and info': "unit_info_of e z (si_exposed j) ?u relations rel_svc_map = Inr (container, machine_id, info)"
      and st1: "st1 = st\<lparr>st_units := dset (unit_name_of ?u) info (st_units st),
       st_subordinates := (case container of None \<Rightarrow> st_subordinates st
         | Some c \<Rightarrow> add_member (su_service_name ?u) (su_service_name c) (st_subordinates st)),
       st_seen := List.insert machine_id (st_seen st)\<rparr>"
      by (rule process_unit_Inr [OF uid(3)])
    have info: "unit_info_of e z (si_exposed i) ?u relations rel_svc_map = Inr (container, machine_id, info)"
      using info' j assms(2) by simp
    have name: "unit_name_of ?u = ?n" by (simp add: unit_name_of_def)
    have match: "listed_match fu s [(uid, sequence)] n \<longleftrightarrow> n = ?n" for n
      using found True by (auto simp: listed_match_def)
    have "read_of e z (si_exposed i) s relations rel_svc_map [(uid, sequence)] ?n info"
      unfolding read_of_def by (rule exI [of _ ?u]) (use info name uid(1) in simp)
    moreover have "dhas (st_subordinates st1) k \<longrightarrow> dhas (st_subordinates st) k \<or> k = ss_name s" "dict_wf (st_subordinates st) \<longrightarrow> dict_wf (st_subordinates st1)" for k
      by (auto simp: st1 add_member_def split: option.split)
    moreover have "dget (st_units st1) = (dget (st_units st)) (?n \<mapsto> info)" "st_seen st1 = List.insert machine_id (st_seen st)"
      "dict_wf (st_units st) \<longrightarrow> dict_wf (st_units st1)" "st_services st1 = st_services st" "st_machines st1 = st_machines st"
      by (simp_all add: st1 dget_dset name)
    ultimately have "collects e z (si_exposed i) fu s relations rel_svc_map [(uid, sequence)] st st1"
      using unit_info_read [OF info] unfolding collects_def match by (simp add: dhas_iff subset_insertI)
    then show ?thesis using uid(2) match by simp
  qed
qed

lemma collects_trans:
  assumes "collects e z exposed fu s relations rel_svc_map units st st1"
    and "collects e z exposed fu s relations rel_svc_map units' st1 st'"
  shows "collects e z exposed fu s relations rel_svc_map (units @ units') st st'"
proof -
  have match: "listed_match fu s (units @ units') n \<longleftrightarrow> listed_match fu s units n \<or> listed_match fu s units' n" for n
    by (simp add: listed_match_def) blast
  have read: "read_of e z exposed s relations rel_svc_map (units @ units') n info" 
    if "read_of e z exposed s relations rel_svc_map units n info \<or> read_of e z exposed s relations rel_svc_map units' n info" for n info
    using that unfolding read_of_def set_append Un_iff by blast
  have idle: "st2' = st2" if "collects e z exposed fu s relations rel_svc_map us st2 st2'" "\<forall>n. \<not> listed_match fu s us n" for us st2 st2'
    using that unfolding collects_def by blast
  have last: "st' = st" if "\<forall>n. \<not> listed_match fu s (units @ units') n"
    using idle [OF assms(1)] idle [OF assms(2)] that match by metis
  have info: "dget (st_units st) n = Some info \<or> listed_match fu s (units @ units') n
      \<and> read_of e z exposed s relations rel_svc_map (units @ units') n info \<and> (\<forall>m. ui_machine info = Some m \<longrightarrow> m \<in> set (st_seen st'))"
    if "dget (st_units st') n = Some info" for n info
  proof -
    have seen: "set (st_seen st1) \<subseteq> set (st_seen st')" using assms(2) by (simp add: collects_def)
    have "dget (st_units st1) n = Some info \<or> listed_match fu s units' n \<and> read_of e z exposed s relations rel_svc_map units' n info
        \<and> (\<forall>m. ui_machine info = Some m \<longrightarrow> m \<in> set (st_seen st'))"
      using assms(2) that by (simp add: collects_def)
    moreover have "dget (st_units st1) n = Some info \<longrightarrow> dget (st_units st) n = Some info \<or> listed_match fu s units n
        \<and> read_of e z exposed s relations rel_svc_map units n info \<and> (\<forall>m. ui_machine info = Some m \<longrightarrow> m \<in> set (st_seen st1))"
      using assms(1) by (simp add: collects_def)
    ultimately show ?thesis using seen match read by blast
  qed
  have subs: "dhas (st_subordinates st) k \<or> k = ss_name s \<and> (\<exists>n. listed_match fu s (units @ units') n)"
    if "dhas (st_subordinates st') k" for k
    using assms(1) [unfolded collects_def, THEN conjunct2, THEN conjunct2, THEN conjunct2, THEN conjunct2, THEN conjunct2,
        THEN conjunct2, THEN conjunct2, THEN conjunct1, rule_format, of k]
      assms(2) [unfolded collects_def, THEN conjunct2, THEN conjunct2, THEN conjunct2, THEN conjunct2, THEN conjunct2,
        THEN conjunct2, THEN conjunct2, THEN conjunct1, rule_format, of k] that match by blast
  have rest: "st_services st' = st_services st" "st_machines st' = st_machines st" "dict_wf (st_units st) \<longrightarrow> dict_wf (st_units st')"
    "dict_wf (st_subordinates st) \<longrightarrow> dict_wf (st_subordinates st')" "set (st_seen st) \<subseteq> set (st_seen st')"
    "dhas (st_units st') n \<longleftrightarrow> dhas (st_units st) n \<or> listed_match fu s (units @ units') n" for n
    using assms unfolding collects_def match by auto
  show ?thesis unfolding collects_def by (intro conjI allI; (rule rest | (rule impI, erule last) | (rule impI, erule info) | (rule impI, erule subs)))
qed

lemma collects_all:
  assumes "rfold (process_listed_unit e z fu s relations rel_svc_map) units (st, b) = Inr (st', b')"
    and "dget (st_services st) (ss_name s) = Some i"
  shows "collects e z (si_exposed i) fu s relations rel_svc_map units st st' \<and> (b' \<longleftrightarrow> b \<or> (\<exists>n. listed_match fu s units n))"
  using assms
proof (induction units arbitrary: st b)
  case Nil
  then show ?case by (auto simp: collects_def listed_match_def)
next
  case (Cons x units)
  obtain uid sequence where x: "x = (uid, sequence)" by (cases x)
  obtain st1 b1 where st1: "process_listed_unit e z fu s relations rel_svc_map (uid, sequence) (st, b) = Inr (st1, b1)"
      "rfold (process_listed_unit e z fu s relations rel_svc_map) units (st1, b1) = Inr (st', b')"
    using Cons.prems(1) x by (auto simp: result_simps)
  note first = collects_more [OF st1(1) Cons.prems(2)]
  then have "st_services st1 = st_services st" by (simp add: collects_def)
  then have rest: "collects e z (si_exposed i) fu s relations rel_svc_map units st1 st' \<and> (b' \<longleftrightarrow> b1 \<or> (\<exists>n. listed_match fu s units n))"
    using Cons.IH [OF st1(2)] Cons.prems(2) by simp
  have "collects e z (si_exposed i) fu s relations rel_svc_map ([(uid, sequence)] @ units) st st'"
    using first rest by (intro collects_trans) auto
  moreover have "(\<exists>n. listed_match fu s (x # units) n) \<longleftrightarrow> (\<exists>n. listed_match fu s [(uid, sequence)] n) \<or> (\<exists>n. listed_match fu s units n)"
    unfolding listed_match_def x by (metis list.set_intros(1,2) set_ConsD list.set(1) empty_iff)
  ultimately show ?case using first rest x by auto
qed

text \<open>A unit of a service as the state lists it.\<close>

definition unit_read ::
  "('z, 'c, 'w, 'm) status_env \<Rightarrow> 'z \<Rightarrow> string list \<Rightarrow> service_state \<Rightarrow> string \<Rightarrow> unit_info \<Rightarrow> bool" where
  "unit_read e z fu s n info \<longleftrightarrow>
     (\<exists>units relations relation_data rel_svc_map. get_all_unit_states (sv_state e) s z = Inr units
        \<and> relations_for_service (sv_state e) (ss_id s) z = Inr relations
        \<and> rfold (note_relation e z s) relations ([], []) = Inr (relation_data, rel_svc_map)
        \<and> read_of e z (get_exposed_flag (sv_state e) s z) s relations rel_svc_map units n info \<and> matches fu n = Inr True)"

definition has_match :: "('z, 'c, 'w, 'm) status_env \<Rightarrow> 'z \<Rightarrow> string list \<Rightarrow> service_state \<Rightarrow> string \<Rightarrow> bool" where
  "has_match e z fu s n \<longleftrightarrow> (\<exists>units. get_all_unit_states (sv_state e) s z = Inr units \<and> listed_match fu s units n)"

text \<open>What has been collected when the services in \<open>S\<close> have been processed.\<close>

definition collected ::
  "('z, 'c, 'w, 'm) status_env \<Rightarrow> 'z \<Rightarrow> string list \<Rightarrow> service_state set \<Rightarrow> status_data \<Rightarrow> bool" where
  "collected e z fu S c \<longleftrightarrow>
     st_machines c = [] \<and> fresh_status c \<and>
     (\<forall>n. dhas (st_units c) n \<longleftrightarrow> (\<exists>s\<in>S. has_match e z fu s n)) \<and>
     (\<forall>n info. dget (st_units c) n = Some info \<longrightarrow> (\<exists>s\<in>S. unit_read e z fu s n info)
        \<and> (\<forall>m. ui_machine info = Some m \<longrightarrow> m \<in> set (st_seen c))) \<and>
     (\<forall>k. dhas (st_services c) k \<longrightarrow> k \<in> ss_name ` S) \<and>
     (\<forall>s\<in>S. dhas (st_services c) (ss_name s) \<longleftrightarrow> fu = [] \<or> (\<exists>n. has_match e z fu s n))"

lemma process_service_Inr:
  assumes "process_service e z fu s st = Inr st'"
  obtains i relations relation_data rel_svc_map units st1 b where
    "relations_for_service (sv_state e) (ss_id s) z = Inr relations"
    and "rfold (note_relation e z s) relations ([], []) = Inr (relation_data, rel_svc_map)"
    and "get_all_unit_states (sv_state e) s z = Inr units"
    and "si_exposed i = get_exposed_flag (sv_state e) s z" and "si_units i = Some []"
    and "rfold (process_listed_unit e z fu s relations rel_svc_map) units (set_service_info s i st, False) = Inr (st1, b)"
    and "if fu \<noteq> [] \<and> \<not> b then st' = st1\<lparr>st_services := ddel (ss_name s) (st_services st1)\<rparr>
      else \<exists>data. dget (st_services st1) (ss_name s) \<noteq> None
        \<and> st' = set_service_info s ((the (dget (st_services st1) (ss_name s)))\<lparr>si_relations := data\<rparr>) st1"
proof -
  obtain charm_id charm where charm: "service_charm e z s = Inr (charm_id, charm)"
    using assms by (auto simp: process_service_def result_simps)
  define info where "info = \<lparr>si_charm = charm_id, si_relations = [], si_subordinate = is_subordinate (ch_metadata charm),
      si_exposed = False, si_subordinate_to = None, si_units = Some []\<rparr>"
  let ?i = "process_expose e z s info"
  have i: "si_relations ?i = []" "si_exposed ?i = get_exposed_flag (sv_state e) s z" "si_units ?i = Some []"
    by (simp_all add: process_expose_def info_def)
  obtain st0 relations rel_svc_map st1 b where run: "process_relation_map e z s (set_service_info s ?i st) = Inr (st0, relations, rel_svc_map)"
      "process_units e z fu s relations rel_svc_map st0 = Inr (st1, b)"
      "(if fu \<noteq> [] \<and> \<not> b then Inr (st1\<lparr>st_services := ddel (ss_name s) (st_services st1)\<rparr>)
        else process_relations e z s relations rel_svc_map st1) = Inr st'"
    using assms charm by (auto simp: process_service_def result_simps info_def [symmetric])
  have map: "\<exists>data. relations_for_service (sv_state e) (ss_id s) z = Inr relations
      \<and> rfold (note_relation e z s) relations ([], []) = Inr (data, rel_svc_map)
      \<and> st0 = set_service_info s (?i\<lparr>si_relations := data\<rparr>) (set_service_info s ?i st)"
    using run(1) i(1)
    by (auto simp: process_relation_map_def service_info_of_def set_service_info_def dget_dset result_simps on_status_def split: sum.splits)
  then obtain data where data: "relations_for_service (sv_state e) (ss_id s) z = Inr relations"
      "rfold (note_relation e z s) relations ([], []) = Inr (data, rel_svc_map)"
      "st0 = set_service_info s (?i\<lparr>si_relations := data\<rparr>) (set_service_info s ?i st)" by blast
  have st0: "st0 = set_service_info s (?i\<lparr>si_relations := data\<rparr>) st"
    unfolding data(3) set_service_info_def by (simp add: AList.update_Some_unfold)
  obtain units where units: "get_all_unit_states (sv_state e) s z = Inr units"
      "rfold (process_listed_unit e z fu s relations rel_svc_map) units (st0, False) = Inr (st1, b)"
    using run(2) by (auto simp: process_units_def result_simps on_status_def split: sum.splits)
  have "if fu \<noteq> [] \<and> \<not> b then st' = st1\<lparr>st_services := ddel (ss_name s) (st_services st1)\<rparr>
      else \<exists>data. dget (st_services st1) (ss_name s) \<noteq> None
        \<and> st' = set_service_info s ((the (dget (st_services st1) (ss_name s)))\<lparr>si_relations := data\<rparr>) st1"
    using run(3) by (auto simp: process_relations_def service_info_of_def result_simps split: if_splits option.splits)
  with data(1,2) units i(2,3) show thesis
    by (intro that [of relations data rel_svc_map units "?i\<lparr>si_relations := data\<rparr>" st1 b]) (simp_all add: st0)
qed

lemma no_match_left:
  assumes "collects e z exposed fu s relations rel_svc_map units st st'" and "\<forall>n. \<not> listed_match fu s units n"
  shows "st' = st"
  using assms unfolding collects_def by blast

lemma read_parts:
  assumes "read_of e z exposed s relations rel_svc_map units n info"
  shows "ui_subordinates info = []" and "parse_service_name n = Inr (ss_name s)"
  using assms unit_info_read parse_unit_service
  by (auto simp: read_of_def unit_name_of_def dest: unit_info_read) 

text \<open>One service more, whose name is new.\<close>

lemma collect_service:
  assumes c: "collected e z fu S st" and "process_service e z fu s st = Inr st'" and new: "ss_name s \<notin> ss_name ` S"
  shows "collected e z fu (insert s S) st'"
proof -
  obtain i relations relation_data rel_svc_map units st1 b where
    rels: "relations_for_service (sv_state e) (ss_id s) z = Inr relations"
      "rfold (note_relation e z s) relations ([], []) = Inr (relation_data, rel_svc_map)"
    and units: "get_all_unit_states (sv_state e) s z = Inr units"
    and i: "si_exposed i = get_exposed_flag (sv_state e) s z" "si_units i = Some []"
    and loop: "rfold (process_listed_unit e z fu s relations rel_svc_map) units (set_service_info s i st, False) = Inr (st1, b)"
    and last: "if fu \<noteq> [] \<and> \<not> b then st' = st1\<lparr>st_services := ddel (ss_name s) (st_services st1)\<rparr>
      else \<exists>data. dget (st_services st1) (ss_name s) \<noteq> None
        \<and> st' = set_service_info s ((the (dget (st_services st1) (ss_name s)))\<lparr>si_relations := data\<rparr>) st1"
    by (rule process_service_Inr [OF assms(2)])
  let ?st = "set_service_info s i st"
  have at: "dget (st_services ?st) (ss_name s) = Some i" by (simp add: set_service_info_def dget_dset)
  have match: "has_match e z fu s n \<longleftrightarrow> listed_match fu s units n" for n
    using units by (simp add: has_match_def)
  have loop': "collects e z (si_exposed i) fu s relations rel_svc_map units ?st st1" "b \<longleftrightarrow> (\<exists>n. has_match e z fu s n)"
    using collects_all [OF loop at] by (simp_all add: match)
  have services1: "st_services st1 = dset (ss_name s) i (st_services st)" and same: "st_machines st1 = st_machines st"
    using loop'(1) by (simp_all add: collects_def set_service_info_def)
  have kept: "st_units st' = st_units st1" "st_machines st' = st_machines st1" "st_subordinates st' = st_subordinates st1" "st_seen st' = st_seen st1"
    using last by (auto simp: set_service_info_def split: if_splits)
  have services: "dget (st_services st') k =
      (if k = ss_name s then if fu \<noteq> [] \<and> \<not> b then None else dget (st_services st') k else dget (st_services st) k)" for k
    using last by (auto simp: set_service_info_def services1 dget_dset dget_ddel split: if_splits)
  have own: "(fu = [] \<or> b) = dhas (st_services st') (ss_name s)"
    "dget (st_services st') (ss_name s) = Some j \<Longrightarrow> si_units j = Some []" for j
    using last i(2) by (auto simp: set_service_info_def services1 dget_dset dget_ddel dhas_iff split: if_splits)
  have old: "fresh_status st" "st_machines st = []" "\<And>n. dhas (st_units st) n \<longleftrightarrow> (\<exists>s\<in>S. has_match e z fu s n)"
    "\<And>n info. dget (st_units st) n = Some info \<Longrightarrow> (\<exists>s\<in>S. unit_read e z fu s n info) \<and> (\<forall>m. ui_machine info = Some m \<longrightarrow> m \<in> set (st_seen st))"
    "\<And>k. dhas (st_services st) k \<Longrightarrow> k \<in> ss_name ` S"
    "\<And>t. t \<in> S \<Longrightarrow> dhas (st_services st) (ss_name t) \<longleftrightarrow> fu = [] \<or> (\<exists>n. has_match e z fu t n)"
    using c unfolding collected_def by blast+
  have other: "k \<noteq> ss_name s" "dhas (st_services st') k" if "dhas (st_services st) k" for k
  proof -
    show k: "k \<noteq> ss_name s" using old(5) [OF that] new by metis
    show "dhas (st_services st') k" using that k services [of k] by (simp add: dhas_iff)
  qed
  have read: "unit_read e z fu s n info" if "listed_match fu s units n" "read_of e z (si_exposed i) s relations rel_svc_map units n info" for n info
    using that rels units i(1) unfolding unit_read_def listed_match_def by metis
  have units': "\<And>n. dhas (st_units st') n \<longleftrightarrow> dhas (st_units st) n \<or> has_match e z fu s n"
    "\<And>n info. dget (st_units st') n = Some info \<Longrightarrow> dget (st_units st) n = Some info \<or> has_match e z fu s n
        \<and> read_of e z (si_exposed i) s relations rel_svc_map units n info \<and> (\<forall>m. ui_machine info = Some m \<longrightarrow> m \<in> set (st_seen st'))"
    "set (st_seen st) \<subseteq> set (st_seen st')"
    "\<And>k. dhas (st_subordinates st') k \<Longrightarrow> dhas (st_subordinates st) k \<or> k = ss_name s \<and> b"
    "dict_wf (st_units st')" "dict_wf (st_subordinates st')"
    using loop'(1) old(1) unfolding collects_def kept match loop'(2) fresh_status_def by (simp_all add: set_service_info_def)
  have fresh: "fresh_status st'"
    unfolding fresh_status_def
  proof (intro conjI allI impI units'(5,6))
    fix n u assume n: "dget (st_units st') n = Some u"
    consider "dget (st_units st) n = Some u" | "has_match e z fu s n" "read_of e z (si_exposed i) s relations rel_svc_map units n u"
      using units'(2) [OF n] by blast
    then have "ui_subordinates u = [] \<and> (\<exists>s. parse_service_name n = Inr s \<and> dhas (st_services st') s)"
    proof cases
      case 1
      then have "ui_subordinates u = [] \<and> (\<exists>s. parse_service_name n = Inr s \<and> dhas (st_services st) s)"
        using old(1) unfolding fresh_status_def by blast
      then show ?thesis using other by blast
    next
      case 2
      then have "dhas (st_services st') (ss_name s)" using own(1) loop'(2) by blast
      then show ?thesis using read_parts [OF 2(2)] by blast
    qed
    then show "ui_subordinates u = []" "\<exists>s. parse_service_name n = Inr s \<and> dhas (st_services st') s" by blast+
  next
    fix k j assume k: "dget (st_services st') k = Some j"
    show "si_units j = Some []"
    proof (cases "k = ss_name s")
      case True
      then show ?thesis using own(2) k by simp
    next
      case False
      then have "dget (st_services st) k = Some j" using services [of k] k by simp
      then show ?thesis using old(1) unfolding fresh_status_def by blast
    qed
  next
    fix k assume "dhas (st_subordinates st') k"
    then consider "dhas (st_subordinates st) k" | "k = ss_name s" b using units'(4) by blast
    then show "dhas (st_services st') k"
    proof cases
      case 1
      then have "dhas (st_services st) k" using old(1) unfolding fresh_status_def by blast
      then show ?thesis by (rule other(2))
    next
      case 2
      then show ?thesis using own(1) by simp
    qed
  qed
  show ?thesis
    unfolding collected_def
  proof (intro conjI allI impI ballI fresh)
    show "st_machines st' = []" using kept(2) same old(2) by simp
    show "dhas (st_units st') n \<longleftrightarrow> (\<exists>t\<in>insert s S. has_match e z fu t n)" for n using units'(1) old(3) by blast
  next
    fix n info assume "dget (st_units st') n = Some info"
    from units'(2) [OF this]
    have "(\<exists>t\<in>insert s S. unit_read e z fu t n info) \<and> (\<forall>m. ui_machine info = Some m \<longrightarrow> m \<in> set (st_seen st'))"
      using old(4) [of n info] read units'(3) match by blast
    then show "\<exists>t\<in>insert s S. unit_read e z fu t n info" "\<And>m. ui_machine info = Some m \<Longrightarrow> m \<in> set (st_seen st')" by blast+
  next
    fix k assume "dhas (st_services st') k"
    then show "k \<in> ss_name ` insert s S" using services [of k] old(5) [of k] by (cases "k = ss_name s") (auto simp: dhas_iff)
  next
    fix t assume "t \<in> insert s S"
    show "dhas (st_services st') (ss_name t) \<longleftrightarrow> fu = [] \<or> (\<exists>n. has_match e z fu t n)"
    proof (cases "t = s")
      case True
      then show ?thesis using own(1) loop'(2) by blast
    next
      case False
      then have t: "t \<in> S" using \<open>t \<in> insert s S\<close> by simp
      then have "ss_name t \<noteq> ss_name s" using new by (metis imageI)
      then have "dhas (st_services st') (ss_name t) = dhas (st_services st) (ss_name t)"
        using services [of "ss_name t"] by (simp add: dhas_iff)
      then show ?thesis using old(6) [OF t] by simp
    qed
  qed
qed

lemma collect_services:
  assumes "process_services e z fs fu empty_status = Inr c" and "get_all_service_states (sv_state e) z = Inr services"
    and "distinct (map ss_name services)"
  shows "collected e z fu {s \<in> set services. matches fs (ss_name s) = Inr True} c
    \<and> (\<forall>s\<in>set services. \<exists>found. matches fs (ss_name s) = Inr found)"
proof -
  let ?f = "\<lambda>s st. rbind (matches fs (ss_name s)) (\<lambda>found. if found then process_service e z fu s st else Inr st)"
  have "collected e z fu (S \<union> {s \<in> set ss. matches fs (ss_name s) = Inr True}) st'
      \<and> (\<forall>s\<in>set ss. \<exists>found. matches fs (ss_name s) = Inr found)"
    if "rfold ?f ss st = Inr st'" "collected e z fu S st" "distinct (map ss_name ss)" "ss_name ` set ss \<inter> ss_name ` S = {}" for ss S st st'
    using that
  proof (induction ss arbitrary: S st)
    case Nil
    then show ?case by simp
  next
    case (Cons s ss)
    obtain found st1 where found: "matches fs (ss_name s) = Inr found" and st1: "?f s st = Inr st1" "rfold ?f ss st1 = Inr st'"
      using Cons.prems(1) by (auto simp: result_simps)
    show ?case
    proof (cases found)
      case True
      have "collected e z fu (insert s S) st1"
        using st1(1) found True Cons.prems(2,4) by (intro collect_service [OF Cons.prems(2)]) auto
      moreover have "S \<union> {t \<in> set (s # ss). matches fs (ss_name t) = Inr True} = insert s S \<union> {s \<in> set ss. matches fs (ss_name s) = Inr True}"
        using found True by auto
      ultimately show ?thesis using Cons.IH [OF st1(2), of "insert s S"] Cons.prems(3,4) found by simp
    next
      case False
      then have "collected e z fu S st1" using st1(1) found Cons.prems(2) by simp
      moreover have "S \<union> {t \<in> set (s # ss). matches fs (ss_name t) = Inr True} = S \<union> {s \<in> set ss. matches fs (ss_name s) = Inr True}"
        using found False by auto
      ultimately show ?thesis using Cons.IH [OF st1(2), of S] Cons.prems(3,4) found by simp
    qed
  qed
  from this [of services empty_status c "{}"] assms show ?thesis
    by (auto simp: process_services_def on_status_def collected_def fresh_status_def empty_status_def)
qed

section \<open>Machines\<close>

lemma machine_states_collected:
  assumes "process_machine_states e z filtered is st w = (w', Inr st')"
  shows "st_units st' = st_units st \<and> st_services st' = st_services st \<and> (\<forall>n. dhas (st_machines st') n \<longleftrightarrow> dhas (st_machines st) n
    \<or> (\<exists>i\<in>set is. public_machine_id i = Inr n \<and> (filtered \<longrightarrow> Some n \<in> set (st_seen st))))"
  using assms
proof (induction "is" arbitrary: st w)
  case Nil
  then show ?case by simp
next
  case (Cons i "is")
  obtain w1 st1 where st1: "process_machine_state e z filtered i st w = (w1, Inr st1)"
      and rest: "process_machine_states e z filtered is st1 w1 = (w', Inr st')"
    using Cons.prems by (auto simp: ebind_def split: prod.splits sum.splits)
  have "st_units st1 = st_units st \<and> st_services st1 = st_services st \<and> st_seen st1 = st_seen st
    \<and> (\<forall>n. dhas (st_machines st1) n \<longleftrightarrow> dhas (st_machines st) n \<or> public_machine_id i = Inr n \<and> (filtered \<longrightarrow> Some n \<in> set (st_seen st)))"
    using st1
    by (auto simp: process_machine_state_def Let_def ebind_def eread_def eret_def on_status_def result_simps
        split: prod.splits sum.splits if_splits)
  with Cons.IH [OF rest] show ?case by auto
qed

section \<open>The command\<close>

lemma status_run:
  assumes "status_command e z scope w = (w', Inr st)" and "digest_scope scope = (fs, fu)"
  obtains c st1 machines where "process_services e z fs fu empty_status = Inr c" and "process_subordinates c = Inr st1"
    and "get_all_machine_states (sv_machines e) z = Inr machines"
    and "process_machine_states e z (fs \<noteq> [] \<or> fu \<noteq> []) machines st1 w = (w', Inr st)"
  using assms by (auto simp: status_command_def ebind_def eread_def on_status_def split: prod.splits sum.splits)

lemma nesting_keeps_seen:
  assumes "process_subordinates c = Inr st"
  shows "st_seen st = st_seen c \<and> st_machines st = st_machines c"
proof -
  obtain st1 where st1: "rfold place_unit_info (dkeys (st_units c)) c = Inr st1" "rfold place_subordinate_service (st_subordinates st1) st1 = Inr st"
    using assms by (auto simp: process_subordinates_def result_simps)
  have step: "st_seen s' = st_seen s \<and> st_machines s' = st_machines s" if place: "place_unit_info n s = Inr s'" for n s s'
  proof -
    obtain u where u: "dget (st_units s) n = Some u" using place by (cases "dget (st_units s) n") (simp_all add: place_unit_info_owner)
    show ?thesis
    proof (cases "owner u")
      case None
      obtain t i us where "parse_service_name n = Inr t" "dget (st_services s) t = Some i" "si_units i = Some us"
        using place u None by (auto simp: place_unit_info_owner on_status_def result_simps split: option.split_asm sum.split_asm)
      then show ?thesis using place u None by (auto simp: place_unit_info_owner on_status_def)
    next
      case (Some k)
      then show ?thesis using place u by (cases "dget (st_units s) k") (auto simp: place_unit_info_owner)
    qed
  qed
  have "st_seen st1 = st_seen c \<and> st_machines st1 = st_machines c"
    by (rule rfold_invariant [OF st1(1)]) (auto dest: step)
  moreover have "st_seen st = st_seen st1 \<and> st_machines st = st_machines st1"
    using st1(2) by (rule rfold_invariant) (auto simp: place_subordinate_service_def split: option.splits)
  ultimately show ?thesis by simp
qed


text \<open>
  C35: status fails where it shows a subordinate unit without its container. When what matches has been collected, nesting
  it raises \<open>KeyError\<close> unless the container of each unit that matches matches too, and then the command does: asking
  for a subordinate service or unit alone is answered by an exception.
\<close>

theorem status_needs_containers:
  assumes "process_services e z fs fu empty_status = Inr c" and "digest_scope scope = (fs, fu)"
    and "get_all_service_states (sv_state e) z = Inr services" and "distinct (map ss_name services)"
  shows "if \<forall>n u k. dget (st_units c) n = Some u \<longrightarrow> owner u = Some k \<longrightarrow> dhas (st_units c) k
    then \<exists>st. process_subordinates c = Inr st
    else \<exists>k. \<forall>w. status_command e z scope w = (w, Inl (StKeyError k))"
proof -
  have fresh: "fresh_status c"
    using collect_services [OF assms(1,3,4)] by (simp add: collected_def)
  show ?thesis
  proof (cases "\<forall>n u k. dget (st_units c) n = Some u \<longrightarrow> owner u = Some k \<longrightarrow> dhas (st_units c) k")
    case True
    then have "\<exists>st. process_subordinates c = Inr st" using nesting_ends [OF fresh] by blast
    with True show ?thesis by simp
  next
    case False
    then obtain j where "process_subordinates c = Inl (StKeyError j)" using nesting_fails [OF fresh] by blast
    then have "\<forall>w. status_command e z scope w = (w, Inl (StKeyError j))"
      using assms(1,2) by (simp add: status_command_def ebind_def eread_def)
    with False show ?thesis by auto
  qed
qed

section \<open>An environment with a subordinate unit\<close>

definition demo_charm :: "string \<Rightarrow> bool \<Rightarrow> pyval" where
  "demo_charm name sub = PDict [(PStr ''config'', PDict [(PStr ''options'', PDict [])]),
     (PStr ''metadata'', PDict
       [(PStr ''name'', PStr name), (PStr ''summary'', PStr ''s''), (PStr ''description'', PStr ''d''),
        (PStr ''subordinate'', PBool sub),
        (PStr ''requires'', PDict [(PStr ''info'', PDict [(PStr ''interface'', PStr ''logs''), (PStr ''scope'', PStr ''container'')])])]),
     (PStr ''sha256'', PStr ''abc''), (PStr ''url'', PStr ''http://x'')]"

definition status_demo :: "((string, content) dict, content, dummy_provider, dummy_ref) status_env" where
  "status_demo = \<lparr>sv_machines = machine_demo,
     sv_charms = \<lparr>ce_client = plain_client, ce_load = (\<lambda>c. demo_charm (case c of Value (YText s) \<Rightarrow> s | _ \<Rightarrow> []) (c = Value (YText ''logging''))),
       ce_dump = (\<lambda>_. Value YNone), ce_schema = ascii_env, ce_unicode_int = (\<lambda>_. None), ce_yaml = Inr\<rparr>,
     sv_yaml = \<lparr>y_dump_state = (\<lambda>_. Value YNone), y_load_state = (\<lambda>_. None), y_dump_node = (\<lambda>_. Value YNone), y_load_node = (\<lambda>_. None)\<rparr>,
     sv_zk = \<lparr>zk_get = (\<lambda>_ _. None), zk_retry_change = (\<lambda>_ _ z. z)\<rparr>,
     sv_provider = dummy, sv_dns_name = (\<lambda>_. None), sv_machine_state = (\<lambda>_. ''running''), sv_format = (\<lambda>_. [])\<rparr>"

definition status_store :: "(string, content) dict" where
  "status_store = fw_store @
    [(''/services/s-0'', Value (YMap [(''charm'', YText ''local:oneiric/wordpress-1'')])),
     (''/services/s-1'', Value (YMap [(''charm'', YText ''local:oneiric/logging-1'')])),
     (charm_path ''local:oneiric/wordpress-1'', Value (YText ''wordpress'')),
     (charm_path ''local:oneiric/logging-1'', Value (YText ''logging'')),
     (''/units/u-0'', Value (YMap [])), (''/units/u-1'', Value (YMap []))]"

definition wordpress_service :: service_state where
  "wordpress_service = \<lparr>ss_id = ''s-0'', ss_name = ''wordpress''\<rparr>"

definition logging_service :: service_state where
  "logging_service = \<lparr>ss_id = ''s-1'', ss_name = ''logging''\<rparr>"

lemma status_demo_reads:
  "get_all_service_states (sv_state status_demo) status_store = Inr [wordpress_service, logging_service]"
  "get_all_machine_states (sv_machines status_demo) status_store = Inr [''machine-0000000000'']"
  "get_all_unit_states (sv_state status_demo) wordpress_service status_store = Inr [(Some ''u-0'', 0)]"
  "get_all_unit_states (sv_state status_demo) logging_service status_store = Inr [(Some ''u-1'', 0)]"
  "digest_scope (Some [''logging'']) = ([''logging''], [])"
  "matches [''logging''] ''wordpress'' = Inr False" "matches [''logging''] ''logging'' = Inr True"
  by code_simp+

lemma status_demo_charms:
  "case service_charm status_demo status_store wordpress_service of Inr (i, c) \<Rightarrow> i = ''local:oneiric/wordpress-1'' \<and> \<not> is_subordinate (ch_metadata c) | _ \<Rightarrow> False"
  "case service_charm status_demo status_store logging_service of Inr (i, c) \<Rightarrow> i = ''local:oneiric/logging-1'' \<and> is_subordinate (ch_metadata c) | _ \<Rightarrow> False"
  by code_simp+

definition status_relation :: service_relation where
  "status_relation = \<lparr>sr_service = ''s-1'', sr_relation = ''r-0'', sr_scope = ''container'', sr_role = ''client'', sr_name = ''info''\<rparr>"

definition logging_info :: unit_info where
  "logging_info = \<lparr>ui_container = Some ''wordpress/0'', ui_machine = Some (Some 0), ui_agent_state = ''pending'',
     ui_open_ports = Some [''514/udp''], ui_public_address = Some None, ui_relation_errors = None, ui_subordinates = []\<rparr>"

lemma logging_reads:
  "relations_for_service (sv_state status_demo) ''s-1'' status_store = Inr [status_relation]"
  "remote_service status_demo status_store logging_service status_relation = Inr ''wordpress''"
  "unit_relation_errors status_demo status_store logging_unit [status_relation] [(''r-0'', ''wordpress'')] = Inr None"
  "unit_workflow status_demo status_store logging_unit = Inr None"
  "get_open_ports (sv_state status_demo) logging_unit status_store = Inr (YList [port_entry (514, ''udp'')])"
  "open_port_texts status_demo (YList [port_entry (514, ''udp'')]) = Inr [''514/udp'']"
  "get_public_address (sv_state status_demo) logging_unit status_store = Inr None"
  "get_exposed_flag (sv_state status_demo) logging_service status_store"
  "unit_name_of principal_unit = ''wordpress/0''" "unit_name_of logging_unit = ''logging/0''"
  by code_simp+

lemma logging_read:
  "unit_info_of status_demo status_store True logging_unit [status_relation] [(''r-0'', ''wordpress'')]
     = Inr (Some principal_unit, Some 0, logging_info)"
proof -
  have state: "sv_state status_demo = fw_states fw_demo" by (simp add: status_demo_def fw_demo_def)
  have "topo_of (fw_states fw_demo) status_store = Inr fw_topology" by code_simp
  note units = fw_units_assigned [OF this, folded state]
  show ?thesis
    by (simp add: unit_info_of_def units assigned_id_def on_status_def logging_reads agent_state_def logging_info_def)
qed

lemma demo_units:
  "\<lparr>su_service = ss_id logging_service, su_service_name = ss_name logging_service, su_sequence = 0, su_id = ''u-1''\<rparr> = logging_unit"
  "\<lparr>su_service = ss_id wordpress_service, su_service_name = ss_name wordpress_service, su_sequence = 0, su_id = ''u-0''\<rparr> = principal_unit"
  "su_service_name logging_unit = ''logging''" "su_service_name principal_unit = ''wordpress''"
  "ss_name logging_service = ''logging''" "ss_name wordpress_service = ''wordpress''" "ss_id logging_service = ''s-1''" "ss_id wordpress_service = ''s-0''"
  "sr_relation status_relation = ''r-0''" "sr_name status_relation = ''info''"
  by (simp_all add: logging_unit_def logging_service_def principal_unit_def wordpress_service_def status_relation_def)

lemma logging_processed:
  "\<exists>st'. process_service status_demo status_store [] logging_service st = Inr st'
     \<and> st_units st' = dset ''logging/0'' logging_info (st_units st)"
proof -
  obtain i c where charm: "service_charm status_demo status_store logging_service = Inr (i, c)"
    using status_demo_charms(2) by (auto split: sum.splits)
  have unit: "process_unit status_demo status_store logging_service [status_relation] [(''r-0'', ''wordpress'')] logging_unit st1
      = Inr (st1\<lparr>st_units := dset ''logging/0'' logging_info (st_units st1),
          st_subordinates := add_member ''logging'' ''wordpress'' (st_subordinates st1), st_seen := List.insert (Some 0) (st_seen st1)\<rparr>)"
    if "dget (st_services st1) ''logging'' = Some j" "si_exposed j" for st1 j
    unfolding process_unit_def service_info_of_def demo_units that option.case rbind.simps eqTrueI [OF that(2)] logging_read prod.case logging_reads
    by simp
  have units: "process_units status_demo status_store [] logging_service [status_relation] [(''r-0'', ''wordpress'')] st1
      = Inr (st1\<lparr>st_units := dset ''logging/0'' logging_info (st_units st1),
          st_subordinates := add_member ''logging'' ''wordpress'' (st_subordinates st1), st_seen := List.insert (Some 0) (st_seen st1)\<rparr>, True)"
    if "dget (st_services st1) ''logging'' = Some j" "si_exposed j" for st1 j
    unfolding process_units_def status_demo_reads on_status_def sum.case rbind.simps rfold.simps process_listed_unit_def prod.case matches_def
      demo_units(1) option.case unit [OF that] by simp
  show ?thesis
    by (simp add: process_service_def charm process_relation_map_def set_service_info_def service_info_of_def dget_dset demo_units logging_reads
        on_status_def note_relation_def process_expose_def units process_relations_def)
qed

definition principal_relation :: service_relation where
  "principal_relation = \<lparr>sr_service = ''s-0'', sr_relation = ''r-0'', sr_scope = ''container'', sr_role = ''server'', sr_name = ''info''\<rparr>"

definition principal_info :: unit_info where
  "principal_info = \<lparr>ui_container = None, ui_machine = Some (Some 0), ui_agent_state = ''pending'',
     ui_open_ports = Some [''80/tcp''], ui_public_address = Some None, ui_relation_errors = None, ui_subordinates = []\<rparr>"

lemma principal_reads:
  "relations_for_service (sv_state status_demo) ''s-0'' status_store = Inr [principal_relation]"
  "remote_service status_demo status_store wordpress_service principal_relation = Inr ''logging''"
  "get_container (sv_state status_demo) principal_unit status_store = Inr None"
  "unit_relation_errors status_demo status_store principal_unit [principal_relation] [(''r-0'', ''logging'')] = Inr None"
  "unit_workflow status_demo status_store principal_unit = Inr None"
  "get_open_ports (sv_state status_demo) principal_unit status_store = Inr (YList [port_entry (80, ''tcp'')])"
  "open_port_texts status_demo (YList [port_entry (80, ''tcp'')]) = Inr [''80/tcp'']"
  "get_public_address (sv_state status_demo) principal_unit status_store = Inr None"
  "get_exposed_flag (sv_state status_demo) wordpress_service status_store"
  "sr_relation principal_relation = ''r-0''" "sr_name principal_relation = ''info''"
  by code_simp+

lemma principal_read:
  "unit_info_of status_demo status_store True principal_unit [principal_relation] [(''r-0'', ''logging'')]
     = Inr (None, Some 0, principal_info)"
proof -
  have state: "sv_state status_demo = fw_states fw_demo" by (simp add: status_demo_def fw_demo_def)
  have "topo_of (fw_states fw_demo) status_store = Inr fw_topology" by code_simp
  note units = fw_units_assigned [OF this, folded state]
  show ?thesis
    by (simp add: unit_info_of_def units assigned_id_def on_status_def principal_reads agent_state_def principal_info_def)
qed

lemma principal_processed:
  "\<exists>st'. process_service status_demo status_store [] wordpress_service st = Inr st'
     \<and> st_units st' = dset ''wordpress/0'' principal_info (st_units st)"
proof -
  obtain i c where charm: "service_charm status_demo status_store wordpress_service = Inr (i, c)"
    using status_demo_charms(1) by (auto split: sum.splits)
  have unit: "process_unit status_demo status_store wordpress_service [principal_relation] [(''r-0'', ''logging'')] principal_unit st1
      = Inr (st1\<lparr>st_units := dset ''wordpress/0'' principal_info (st_units st1),
          st_subordinates := st_subordinates st1, st_seen := List.insert (Some 0) (st_seen st1)\<rparr>)"
    if "dget (st_services st1) ''wordpress'' = Some j" "si_exposed j" for st1 j
    unfolding process_unit_def service_info_of_def demo_units that option.case rbind.simps eqTrueI [OF that(2)] principal_read prod.case logging_reads
    by simp
  have units: "process_units status_demo status_store [] wordpress_service [principal_relation] [(''r-0'', ''logging'')] st1
      = Inr (st1\<lparr>st_units := dset ''wordpress/0'' principal_info (st_units st1),
          st_subordinates := st_subordinates st1, st_seen := List.insert (Some 0) (st_seen st1)\<rparr>, True)"
    if "dget (st_services st1) ''wordpress'' = Some j" "si_exposed j" for st1 j
    unfolding process_units_def status_demo_reads on_status_def sum.case rbind.simps rfold.simps process_listed_unit_def prod.case matches_def
      demo_units(2) option.case unit [OF that] by simp
  show ?thesis
    by (simp add: process_service_def charm process_relation_map_def set_service_info_def service_info_of_def dget_dset demo_units principal_reads
        on_status_def note_relation_def process_expose_def units process_relations_def)
qed

text \<open>\<open>juju status logging\<close>: the subordinate unit matches, its container does not.\<close>

lemma status_needs_containers_witness:
  "\<exists>k. \<forall>w. status_command status_demo status_store (Some [''logging'']) w = (w, Inl (StKeyError k))"
proof -
  obtain c where c: "process_service status_demo status_store [] logging_service empty_status = Inr c"
      "st_units c = dset ''logging/0'' logging_info (st_units empty_status)"
    using logging_processed by blast
  have "process_services status_demo status_store [''logging''] [] empty_status = Inr c"
    using c(1) by (simp add: process_services_def status_demo_reads on_status_def demo_units)
  note fails = status_needs_containers [OF this status_demo_reads(5,1)]
  have "dget (st_units c) ''logging/0'' = Some logging_info" "owner logging_info = Some ''wordpress/0''" "\<not> dhas (st_units c) ''wordpress/0''"
    by (simp_all add: c(2) empty_status_def owner_def logging_info_def)
  then have "\<not> (\<forall>n u k. dget (st_units c) n = Some u \<longrightarrow> owner u = Some k \<longrightarrow> dhas (st_units c) k)" by blast
  then show ?thesis using fails by (simp add: demo_units)
qed


end
