(* ===== verification/UnitAgent.thy ===== *)
theory UnitAgent
  imports UnitNodes RelationState UnitWorkflow
begin

text \<open>
  \<open>juju/agents/unit.py\<close>: the agent of a unit, whose callbacks turn what clients ask for (\<open>resolved\<close>, \<open>upgrade\<close>, changed
  options) into transitions of the unit's workflow, and \<open>juju/control/resolved.py\<close>, the client's side of the first.

  A callback reads and clears its node and waits for the workflow's lock; the lock is handed on in order. The agent is a
  state of the workflow machine, the callbacks that wait and the hooks to debug; ZooKeeper is the one of the machine's store.
\<close>

section \<open>The agent\<close>

record ('z, 'c, 'w) unit_agent_env =
  ua_state :: "('z, 'c) state_env"
  ua_yaml :: "'c yaml"
  ua_client :: "('c, 'z) zk"
  ua_ops :: "'w agent_ops"
  ua_force_upgrade :: "'w \<Rightarrow> lifecycle_result \<times> 'w"  \<comment> \<open>\<open>upgrade_charm(fire_hooks=False, force=True)\<close>\<close>
  ua_stop_quietly :: "'w \<Rightarrow> lifecycle_result \<times> 'w"  \<comment> \<open>\<open>stop(fire_hooks=False, stop_relations=False)\<close>\<close>
  ua_addresses :: "'z \<Rightarrow> state_error + yvalue \<times> yvalue"  \<comment> \<open>public and private, of \<open>get_unit_address\<close>\<close>
  ua_unit :: service_unit
  ua_service :: service_state

text \<open>What a callback does once it has the lock.\<close>

datatype lock_task =
    ResolvedTask yvalue
  | UpgradeTask yvalue
  | ConfigureTask

record ('z, 'c, 'w) unit_agent =
  ug_machine :: "(('c, 'z) disk, 'w) machine"
  ug_waiting :: "lock_task list"
  ug_debug :: "yvalue option"  \<comment> \<open>what \<open>set_debug\<close> was told\<close>

datatype agent_error =
    AgState state_error
  | AgWorkflow wf_error
  | AgLifecycle string
  | AgValue string  \<comment> \<open>\<open>KeyError\<close>, \<open>TypeError\<close>, \<open>AttributeError\<close> on the content of a node\<close>

type_synonym ('z, 'c, 'w, 'a) agent_eff = "(('z, 'c, 'w) unit_agent, agent_error, 'a) eff"

definition agent_z :: "('z, 'c, 'w) unit_agent \<Rightarrow> 'z" where
  "agent_z s = dk_zk (m_store (ug_machine s))"

definition set_agent_z :: "'z \<Rightarrow> ('z, 'c, 'w) unit_agent \<Rightarrow> ('z, 'c, 'w) unit_agent" where
  "set_agent_z z s = s\<lparr>ug_machine := (ug_machine s)\<lparr>m_store := (m_store (ug_machine s))\<lparr>dk_zk := z\<rparr>\<rparr>\<rparr>"

definition in_zk :: "('z, state_error, 'a) eff \<Rightarrow> ('z, 'c, 'w, 'a) agent_eff" where
  "in_zk op s = (case op (agent_z s) of (z, Inl err) \<Rightarrow> (set_agent_z z s, Inl (AgState err)) | (z, Inr x) \<Rightarrow> (set_agent_z z s, Inr x))"

definition agent_wf :: "('z, 'c, 'w) unit_agent_env \<Rightarrow> (('c, 'z) disk, 'w) wf_env" where
  "agent_wf e = unit_env (ua_yaml e) (ua_client e) (''/units/'' @ su_id (ua_unit e), unit_name_of (ua_unit e)) (ua_ops e)"

definition agent_workflow_state :: "('z, 'c, 'w) unit_agent_env \<Rightarrow> ('z, 'c, 'w) unit_agent \<Rightarrow> string option" where
  "agent_workflow_state e s = get_state (agent_wf e) (ug_machine s)"

definition wait_for_lock :: "lock_task \<Rightarrow> ('z, 'c, 'w, unit) agent_eff" where
  "wait_for_lock t s = (s\<lparr>ug_waiting := ug_waiting s @ [t]\<rparr>, Inr ())"

section \<open>Callbacks\<close>

text \<open>\<open>None\<close> is no node and a node with nothing in it.\<close>

definition cb_watch_resolved :: "('z, 'c, 'w) unit_agent_env \<Rightarrow> ('z, 'c, 'w, unit) agent_eff" where
  "cb_watch_resolved e =
     ebind (in_zk (eread (get_resolved (ua_state e) (ua_unit e)))) (\<lambda>resolved.
     case resolved of
       None \<Rightarrow> eret ()
     | Some v \<Rightarrow>
         if v = YNone then eret ()
         else ebind (in_zk (clear_resolved (ua_state e) (ua_unit e))) (\<lambda>_. wait_for_lock (ResolvedTask v)))"

text \<open>\<open>debug and debug.get("debug_hooks") or None\<close>\<close>

definition cb_watch_hook_debug :: "('z, 'c, 'w) unit_agent_env \<Rightarrow> ('z, 'c, 'w, unit) agent_eff" where
  "cb_watch_hook_debug e =
     ebind (in_zk (eread (get_hook_debug (ua_state e) (ua_unit e)))) (\<lambda>debug.
     ebind (case debug of
         None \<Rightarrow> eret None
       | Some v \<Rightarrow>
           if \<not> y_true v then eret None
           else (case v of
              YMap d \<Rightarrow> eret (case dget d ''debug_hooks'' of None \<Rightarrow> None | Some h \<Rightarrow> if y_true h then Some h else None)
            | _ \<Rightarrow> eraise (AgValue ''debug''))) (\<lambda>debug_hooks s.
     (s\<lparr>ug_debug := debug_hooks\<rparr>, Inr ())))"

definition cb_watch_upgrade_flag :: "('z, 'c, 'w) unit_agent_env \<Rightarrow> ('z, 'c, 'w, unit) agent_eff" where
  "cb_watch_upgrade_flag e =
     ebind (in_zk (eread (\<lambda>z. Inr (get_upgrade_flag (ua_state e) (ua_unit e) z)))) (\<lambda>upgrade_flag.
     if \<not> y_true upgrade_flag then eret ()
     else
       ebind (in_zk (clear_upgrade_flag (ua_state e) (ua_unit e))) (\<lambda>_.
       ebind (in_zk (eread (get_service_charm_id (ua_state e) (ua_service e)))) (\<lambda>new_id.
       ebind (in_zk (eread (get_unit_charm_id (ua_state e) (ua_unit e)))) (\<lambda>old_id.
       if new_id = old_id then eret () else wait_for_lock (UpgradeTask upgrade_flag)))))"

definition cb_watch_config_changed :: "('z, 'c, 'w, unit) agent_eff" where
  "cb_watch_config_changed = wait_for_lock ConfigureTask"

section \<open>With the lock\<close>

text \<open>Firing needs fuel, and three is enough (\<open>workflows_terminate\<close>).\<close>

definition fired :: "('s, 'w) outcome option \<Rightarrow> ('s, 'w) machine \<Rightarrow> (wf_error + bool) \<times> ('s, 'w) machine" where
  "fired r m = (case r of None \<Rightarrow> (Inr False, m) | Some x \<Rightarrow> x)"

text \<open>\<open>resolved["retry"] == RETRY_HOOKS\<close>; whatever is raised is logged.\<close>

definition run_resolved ::
  "('z, 'c, 'w) unit_agent_env \<Rightarrow> yvalue \<Rightarrow> (('c, 'z) disk, 'w) machine \<Rightarrow> (agent_error + unit) \<times> (('c, 'z) disk, 'w) machine" where
  "run_resolved e resolved m =
     (if get_state (agent_wf e) m = Some ''started'' then (Inr (), m)
      else case resolved of
        YMap d \<Rightarrow>
          (case dget d ''retry'' of
             None \<Rightarrow> (Inr (), m)
           | Some r \<Rightarrow>
               (Inr (), snd (fired (fire_transition_alias (agent_wf e) 3
                  (if y_eq r (YInt RETRY_HOOKS) then ''retry_hook'' else ''retry'') m) m)))
      | _ \<Rightarrow> (Inr (), m))"

definition run_upgrade ::
  "('z, 'c, 'w) unit_agent_env \<Rightarrow> yvalue \<Rightarrow> (('c, 'z) disk, 'w) machine \<Rightarrow> (agent_error + unit) \<times> (('c, 'z) disk, 'w) machine" where
  "run_upgrade e upgrade_flag m =
     (if get_state (agent_wf e) m \<noteq> Some ''started''
      then (case upgrade_flag of
          YMap d \<Rightarrow>
            (case dget d ''force'' of
               None \<Rightarrow> (Inl (AgValue ''force''), m)
             | Some f \<Rightarrow>
                 if y_true f
                 then (case ua_force_upgrade e (m_world m) of
                     (r, w) \<Rightarrow> (if r = LReturned then Inr () else Inl (AgLifecycle (exception_text r)), m\<lparr>m_world := w\<rparr>))
                 else (Inr (), m))
        | _ \<Rightarrow> (Inl (AgValue ''force''), m))
      else case fired (fire_transition (agent_wf e) 3 ''upgrade_charm'' [] m) m of
        (Inl err, m') \<Rightarrow> (Inl (AgWorkflow err), m')
      | (Inr _, m') \<Rightarrow> (Inr (), m'))"

definition run_configure ::
  "('z, 'c, 'w) unit_agent_env \<Rightarrow> (('c, 'z) disk, 'w) machine \<Rightarrow> (agent_error + unit) \<times> (('c, 'z) disk, 'w) machine" where
  "run_configure e m =
     (if get_state (agent_wf e) m \<noteq> Some ''started'' then (Inr (), m)
      else case fired (fire_transition (agent_wf e) 3 ''configure'' [] m) m of
        (Inl err, m') \<Rightarrow> (Inl (AgWorkflow err), m')
      | (Inr _, m') \<Rightarrow> (Inr (), m'))"

definition run_task ::
  "('z, 'c, 'w) unit_agent_env \<Rightarrow> lock_task \<Rightarrow> (('c, 'z) disk, 'w) machine \<Rightarrow> (agent_error + unit) \<times> (('c, 'z) disk, 'w) machine" where
  "run_task e t = (case t of ResolvedTask v \<Rightarrow> run_resolved e v | UpgradeTask v \<Rightarrow> run_upgrade e v | ConfigureTask \<Rightarrow> run_configure e)"

text \<open>\<open>with (yield self.workflow.lock())\<close>: the first that waits; the lock is released however it ends.\<close>

definition take_lock :: "('z, 'c, 'w) unit_agent_env \<Rightarrow> ('z, 'c, 'w, unit) agent_eff" where
  "take_lock e s =
     (case ug_waiting s of
        [] \<Rightarrow> (s, Inr ())
      | t # ts \<Rightarrow> (case run_task e t (lock (ug_machine s)) of (r, m) \<Rightarrow> (s\<lparr>ug_machine := release m, ug_waiting := ts\<rparr>, r)))"

text \<open>A watch that is set calls back at once and is waited for; the lock is free then.\<close>

definition run_now :: "('z, 'c, 'w) unit_agent_env \<Rightarrow> ('z, 'c, 'w, unit) agent_eff \<Rightarrow> ('z, 'c, 'w, unit) agent_eff" where
  "run_now e callback = ebind callback (\<lambda>_. take_lock e)"

section \<open>Starting and stopping\<close>

text \<open>
  \<open>start\<close>, after the unit has been looked up and the socket is there; watches are set where \<open>watching\<close>. The hook debug
  watch is set twice.
\<close>

definition agent_synchronize :: "('z, 'c, 'w) unit_agent_env \<Rightarrow> ('z, 'c, 'w, unit) agent_eff" where
  "agent_synchronize e s =
     (case fired (unit_synchronize (agent_wf e) (ua_ops e) 3 (lock (ug_machine s))) (lock (ug_machine s)) of
        (Inl err, m) \<Rightarrow> (s\<lparr>ug_machine := release m\<rparr>, Inl (AgWorkflow err))
      | (Inr _, m) \<Rightarrow> (s\<lparr>ug_machine := release m\<rparr>, Inr ()))"

definition unit_agent_start :: "('z, 'c, 'w) unit_agent_env \<Rightarrow> bool \<Rightarrow> ('z, 'c, 'w, unit) agent_eff" where
  "unit_agent_start e watching =
     ebind (in_zk (eread (ua_addresses e))) (\<lambda>(public_address, private_address).
     ebind (in_zk (set_public_address (ua_state e) (ua_unit e) public_address)) (\<lambda>_.
     ebind (in_zk (set_private_address (ua_state e) (ua_unit e) private_address)) (\<lambda>_.
     ebind (if watching then cb_watch_hook_debug e else eret ()) (\<lambda>_.
     ebind (in_zk (create_node (ua_state e) (unit_path (ua_unit e) @ ''/agent'') (se_empty (ua_state e))
         (NodeExists (unit_path (ua_unit e) @ ''/agent'')))) (\<lambda>_.
     ebind (if watching then cb_watch_hook_debug e else eret ()) (\<lambda>_.
     ebind (agent_synchronize e) (\<lambda>_.
     if watching
     then ebind (run_now e (cb_watch_resolved e)) (\<lambda>_.
          ebind (run_now e cb_watch_config_changed) (\<lambda>_. run_now e (cb_watch_upgrade_flag e)))
     else eret ())))))))"

definition call_lifecycle :: "('w \<Rightarrow> lifecycle_result \<times> 'w) \<Rightarrow> ('z, 'c, 'w, unit) agent_eff" where
  "call_lifecycle f s =
     (case f (m_world (ug_machine s)) of
        (r, w) \<Rightarrow> (s\<lparr>ug_machine := (ug_machine s)\<lparr>m_world := w\<rparr>\<rparr>, if r = LReturned then Inr () else Inl (AgLifecycle (exception_text r))))"

definition unit_agent_stop :: "('z, 'c, 'w) unit_agent_env \<Rightarrow> ('z, 'c, 'w, unit) agent_eff" where
  "unit_agent_stop e =
     ebind (\<lambda>s. if ag_running (ua_ops e) (m_world (ug_machine s)) then call_lifecycle (ua_stop_quietly e) s else (s, Inr ())) (\<lambda>_.
     call_lifecycle (ex_stop (ua_ops e)))"

section \<open>The client's side\<close>

datatype resolved_result = NothingToDo | Marked

text \<open>The relations of the unit that are not running, with what to do about them.\<close>

fun relations_to_resolve ::
  "('z, 'c) state_env \<Rightarrow> 'c yaml \<Rightarrow> ('c, 'z) zk \<Rightarrow> service_unit \<Rightarrow> int \<Rightarrow> 'z \<Rightarrow> service_relation list \<Rightarrow> (string, int) dict
     \<Rightarrow> agent_error + (string, int) dict" where
  "relations_to_resolve e y client u retry z [] acc = Inr acc"
| "relations_to_resolve e y client u retry z (r # rs) acc =
     (case get_unit_relation e r u z of
        Inl err \<Rightarrow> Inl (AgState err)
      | Inr ur \<Rightarrow>
          (case is_relation_running y client (UnitRelationState (ur_unit ur) (ur_relation ur) (ur_scope ur)) z of
             Inl _ \<Rightarrow> Inl (AgValue ''workflow_state'')
           | Inr (running, _) \<Rightarrow>
               relations_to_resolve e y client u retry z rs (if running then acc else dset (ur_relation ur) retry acc)))"

definition as_agent_error :: "state_error + 'a \<Rightarrow> agent_error + 'a" where
  "as_agent_error r = (case r of Inl err \<Rightarrow> Inl (AgState err) | Inr x \<Rightarrow> Inr x)"

definition as_agent :: "('z, state_error, 'a) eff \<Rightarrow> ('z, agent_error, 'a) eff" where
  "as_agent op z = (case op z of (z', Inl err) \<Rightarrow> (z', Inl (AgState err)) | (z', Inr x) \<Rightarrow> (z', Inr x))"

definition resolve_relations ::
  "('z, 'c) state_env \<Rightarrow> 'c yaml \<Rightarrow> ('c, 'z) zk \<Rightarrow> service_state \<Rightarrow> service_unit \<Rightarrow> string \<Rightarrow> int \<Rightarrow> ('z, agent_error, resolved_result) eff" where
  "resolve_relations e y client s u relation_name retry =
     ebind (eread (\<lambda>z. as_agent_error (relations_for_service e (ss_id s) z))) (\<lambda>service_relations.
     let service_relations = filter (\<lambda>r. sr_name r = relation_name) service_relations in
     if service_relations = [] then eraise (AgState RelationStateNotFound)
     else ebind (eread (\<lambda>z. relations_to_resolve e y client u retry z service_relations [])) (\<lambda>resolved_relations.
       if resolved_relations = [] then eret NothingToDo
       else ebind (as_agent (set_relation_resolved e u resolved_relations)) (\<lambda>_. eret Marked)))"

definition resolve_unit ::
  "('z, 'c) state_env \<Rightarrow> 'c yaml \<Rightarrow> ('c, 'z) zk \<Rightarrow> service_unit \<Rightarrow> int \<Rightarrow> ('z, agent_error, resolved_result) eff" where
  "resolve_unit e y client u retry =
     ebind (eread (\<lambda>z. case is_unit_running y client (ServiceUnitState (su_id u) (unit_name_of u)) z of
         Inl _ \<Rightarrow> Inl (AgValue ''workflow_state'') | Inr r \<Rightarrow> Inr r)) (\<lambda>(running, _).
     if running then eret NothingToDo else ebind (as_agent (set_resolved e u retry)) (\<lambda>_. eret Marked))"

definition resolved_command ::
  "('z, 'c) state_env \<Rightarrow> 'c yaml \<Rightarrow> ('c, 'z) zk \<Rightarrow> string \<Rightarrow> string option \<Rightarrow> bool \<Rightarrow> ('z, agent_error, resolved_result) eff" where
  "resolved_command e y client uname relation_name retry =
     ebind (as_agent (eread (get_unit_state e uname))) (\<lambda>u.
     ebind (as_agent (eread (get_service_state e (takeWhile (\<lambda>c. c \<noteq> CHR ''/'') uname)))) (\<lambda>s.
     let retry = (if retry then RETRY_HOOKS else NO_HOOKS) in
     case relation_name of
       Some (c # cs) \<Rightarrow> resolve_relations e y client s u (c # cs) retry
     | _ \<Rightarrow> resolve_unit e y client u retry))"

end
