(* ===== verification/UnitAgentProps.thy ===== *)
theory UnitAgentProps
  imports UnitAgent RelationWorkflowProps CharmState FirewallProps
begin

text \<open>
  The agent of a unit (\<open>UnitAgent\<close>): a unit marked as resolved recovers, and a unit in an error state waits for that.
\<close>

section \<open>State and ZooKeeper\<close>

definition removes :: "('z, 'c) zk_client \<Rightarrow> bool" where
  "removes client \<longleftrightarrow> (\<forall>p z. case zc_delete client p z of
     None \<Rightarrow> zc_get client z p = None
   | Some z' \<Rightarrow> \<forall>q. zc_get client z' q = (if q = p then None else zc_get client z q))"

lemma plain_removes: "removes plain_client"
  by (auto simp: removes_def plain_client_def dget_ddel dhas_iff split: option.split)

lemma agent_z_set [simp]: "agent_z (set_agent_z z s) = z"
  by (simp add: agent_z_def set_agent_z_def)

lemma set_agent_z_twice [simp]: "set_agent_z z (set_agent_z z' s) = set_agent_z z s"
  by (simp add: set_agent_z_def)

lemma set_agent_z_same [simp]: "set_agent_z (agent_z s) s = s"
  by (simp add: set_agent_z_def agent_z_def)

lemma set_agent_z_parts [simp]:
  "ug_waiting (set_agent_z z s) = ug_waiting s" "ug_debug (set_agent_z z s) = ug_debug s"
  "m_world (ug_machine (set_agent_z z s)) = m_world (ug_machine s)" "m_locked (ug_machine (set_agent_z z s)) = m_locked (ug_machine s)"
  "dk_state_file (m_store (ug_machine (set_agent_z z s))) = dk_state_file (m_store (ug_machine s))"
  by (simp_all add: set_agent_z_def)

text \<open>The agent reads its own file.\<close>

lemma agent_get_state:
  "get_state (agent_wf e) m = (case disk_load (ua_yaml e) (m_store m) of None \<Rightarrow> None | Some d \<Rightarrow> sd_state d)"
  by (simp add: agent_wf_def get_state_def load_def unit_env_def disk_backend_def)

lemma agent_state_kept [simp]:
  "agent_workflow_state e (set_agent_z z s) = agent_workflow_state e s" "get_state (agent_wf e) (lock m) = get_state (agent_wf e) m"
  "get_state (agent_wf e) (release m) = get_state (agent_wf e) m"
  by (simp_all add: agent_workflow_state_def agent_get_state disk_load_def lock_def release_def)

lemma agent_inflight_release [simp]: "get_inflight (agent_wf e) (release m) = get_inflight (agent_wf e) m"
  by (simp add: get_inflight_def load_def release_def agent_wf_def unit_env_def disk_backend_def)

lemma in_zk_reads [simp]:
  "in_zk (eread f) s = (s, case f (agent_z s) of Inl err \<Rightarrow> Inl (AgState err) | Inr x \<Rightarrow> Inr x)"
  by (cases "f (agent_z s)") (simp_all add: in_zk_def eread_def)

lemma drop_node_run: "drop_node e p z = (fst (drop_node e p z), Inr ())"
  by (simp add: drop_node_def echange_def)

lemma in_zk_drops: "in_zk (drop_node e p) s = (set_agent_z (fst (drop_node e p (agent_z s))) s, Inr ())"
  unfolding in_zk_def by (subst drop_node_run) simp

lemma drop_node_gone:
  assumes "removes (se_client e)"
  shows "zc_get (se_client e) (fst (drop_node e p z)) q = (if q = p then None else zc_get (se_client e) z q)"
proof -
  have "case zc_delete (se_client e) p z of None \<Rightarrow> zc_get (se_client e) z p = None
      | Some z' \<Rightarrow> \<forall>q. zc_get (se_client e) z' q = (if q = p then None else zc_get (se_client e) z q)"
    using assms unfolding removes_def by blast
  then show ?thesis by (cases "zc_delete (se_client e) p z") (auto simp: drop_node_def echange_def)
qed

section \<open>Resolving\<close>

text \<open>What the client's command leaves when it marks the unit.\<close>

lemma resolved_command_marks:
  assumes "creates (se_client e)" and "get_unit_state e uname z = Inr u"
    and "resolved_command e y client uname None retry z = (z', Inr Marked)"
  shows "zc_get (se_client e) z' (unit_resolved_path u) = Some (se_dump e (YMap [(''retry'', YInt (if retry then RETRY_HOOKS else NO_HOOKS))]))"
proof -
  let ?r = "if retry then RETRY_HOOKS else NO_HOOKS"
  have "resolve_unit e y client u ?r z = (z', Inr Marked)"
    using assms(2,3)
    by (auto simp: resolved_command_def ebind_def as_agent_def eread_def split: sum.splits prod.splits)
  then have "set_resolved e u ?r z = (z', Inr ())"
    by (auto simp: resolve_unit_def ebind_def eread_def as_agent_def eret_def split: sum.splits prod.splits if_splits)
  then obtain z2 where "zc_create (se_client e) (unit_resolved_path u) (se_dump e (YMap [(''retry'', YInt ?r)])) z = Some z2" "z2 = z'"
    by (auto simp: set_resolved_def create_node_def echange_def eraise_def split: if_splits option.splits)
  then show ?thesis using assms(1) unfolding creates_def by simp
qed

text \<open>
  C39: a unit marked as resolved recovers. When a client has marked a unit in an error state and the operations of its
  lifecycle return, the callback of the agent takes the mark away and, once it has the lock, brings the unit to
  \<open>stopped\<close> from a stop error and to \<open>started\<close> from every other one; the lock is free again and nothing waits.
\<close>

theorem resolved_unit_recovers:
  assumes yaml: "yaml_ok (ua_yaml e)" "\<forall>v. se_load (ua_state e) (se_dump (ua_state e) v) = v"
    and client: "creates (se_client (ua_state e))" "removes (se_client (ua_state e))"
    and ops: "all_return (ua_ops e)"
    and state: "agent_workflow_state e s = Some st" "st \<in> set error_states" "ug_waiting s = []"
    and unit: "get_unit_state (ua_state e) uname (agent_z s) = Inr (ua_unit e)"
    and marked: "resolved_command (ua_state e) (ua_yaml e) (ua_client e) uname None retry (agent_z s) = (z1, Inr Marked)"
  shows "\<exists>s1 s2. cb_watch_resolved e (set_agent_z z1 s) = (s1, Inr ())
    \<and> zc_get (se_client (ua_state e)) (agent_z s1) (unit_resolved_path (ua_unit e)) = None
    \<and> take_lock e s1 = (s2, Inr ()) \<and> agent_workflow_state e s2 = Some (if st = ''stop_error'' then ''stopped'' else ''started'')
    \<and> get_inflight (agent_wf e) (ug_machine s2) = None \<and> \<not> m_locked (ug_machine s2) \<and> ug_waiting s2 = []"
proof -
  let ?u = "ua_unit e" and ?r = "if retry then RETRY_HOOKS else NO_HOOKS"
  let ?mark = "YMap [(''retry'', YInt ?r)]"
  have "zc_get (se_client (ua_state e)) z1 (unit_resolved_path ?u) = Some (se_dump (ua_state e) ?mark)"
    by (rule resolved_command_marks [OF client(1) unit marked])
  then have read: "get_resolved (ua_state e) ?u z1 = Inr (Some ?mark)" by (simp add: get_resolved_def node_value_def yaml(2))
  define z2 where "z2 = fst (drop_node (ua_state e) (unit_resolved_path ?u) z1)"
  define s1 where "s1 = set_agent_z z2 s\<lparr>ug_waiting := [ResolvedTask ?mark]\<rparr>"
  have cb: "cb_watch_resolved e (set_agent_z z1 s) = (s1, Inr ())"
    using state(3) read
    by (simp add: cb_watch_resolved_def ebind_def clear_resolved_def in_zk_drops wait_for_lock_def s1_def z2_def)
  have gone: "zc_get (se_client (ua_state e)) (agent_z s1) (unit_resolved_path ?u) = None"
    using drop_node_gone [OF client(2)] by (simp add: s1_def z2_def agent_z_def set_agent_z_def)
  define m where "m = lock (ug_machine s1)"
  have m: "get_state (agent_wf e) m = Some st" "m_locked m"
    using state(1) by (simp_all add: m_def s1_def agent_workflow_state_def agent_get_state disk_load_def lock_def set_agent_z_def)
  have st: "st \<noteq> ''started''" using state(2) by (auto simp: error_states_def)
  define al where "al = (if y_eq (YInt ?r) (YInt RETRY_HOOKS) then ''retry_hook'' else ''retry'')"
  then have "al \<in> {''retry'', ''retry_hook''}" by (simp split: if_split)
  then obtain m' where m': "fire_transition_alias (agent_wf e) 3 al m = Some (Inr True, m')"
      "get_state (agent_wf e) m' = Some (if st = ''stop_error'' then ''stopped'' else ''started'')" "get_inflight (agent_wf e) m' = None"
    using unit_retry [OF yaml(1) ops m(2) m(1) [unfolded agent_wf_def] state(2)] unfolding agent_wf_def by blast
  have run: "run_resolved e ?mark m = (Inr (), m')"
  proof -
    have "run_resolved e ?mark m = (Inr (), snd (fired (fire_transition_alias (agent_wf e) 3 al m) m))"
      using m(1) st unfolding al_def run_resolved_def by simp
    then show ?thesis using m'(1) by (simp add: fired_def)
  qed
  define s2 where "s2 = s1\<lparr>ug_machine := release m', ug_waiting := []\<rparr>"
  have "take_lock e s1 = (s2, Inr ())"
    using run by (simp add: take_lock_def s1_def run_task_def m_def s2_def)
  moreover have "agent_workflow_state e s2 = Some (if st = ''stop_error'' then ''stopped'' else ''started'')"
    "get_inflight (agent_wf e) (ug_machine s2) = None" "\<not> m_locked (ug_machine s2)" "ug_waiting s2 = []"
    using m' by (simp_all add: s2_def agent_workflow_state_def) (simp add: release_def)
  ultimately show ?thesis using cb gone by blast
qed

section \<open>Waiting to be resolved\<close>

text \<open>
  What can happen around the agent: other clients change ZooKeeper in any way, a callback runs, or the first that waits
  takes the lock. How a step ends is left to the log.
\<close>

inductive agent_step :: "('z, 'c, 'w) unit_agent_env \<Rightarrow> ('z, 'c, 'w) unit_agent \<Rightarrow> ('z, 'c, 'w) unit_agent \<Rightarrow> bool" for e where
  clients: "agent_step e s (set_agent_z z s)"
| resolved: "cb_watch_resolved e s = (s', r) \<Longrightarrow> agent_step e s s'"
| upgrade: "cb_watch_upgrade_flag e s = (s', r) \<Longrightarrow> agent_step e s s'"
| debug: "cb_watch_hook_debug e s = (s', r) \<Longrightarrow> agent_step e s s'"
| config: "cb_watch_config_changed s = (s', r) \<Longrightarrow> agent_step e s s'"
| lock: "take_lock e s = (s', r) \<Longrightarrow> agent_step e s s'"

inductive_cases agent_stepE: "agent_step e s s'"

inductive agent_steps :: "('z, 'c, 'w) unit_agent_env \<Rightarrow> (('z, 'c, 'w) unit_agent \<Rightarrow> bool) \<Rightarrow> ('z, 'c, 'w) unit_agent \<Rightarrow> ('z, 'c, 'w) unit_agent \<Rightarrow> bool"
  for e P where
  refl: "agent_steps e P s s"
| step: "agent_steps e P s s1 \<Longrightarrow> P s1 \<Longrightarrow> agent_step e s1 s2 \<Longrightarrow> agent_steps e P s s2"

text \<open>The next callback to get the lock is not one that recovers or upgrades by force.\<close>

definition not_resolving :: "('z, 'c, 'w) unit_agent \<Rightarrow> bool" where
  "not_resolving s \<longleftrightarrow>
     (case ug_waiting s of
        ResolvedTask v # _ \<Rightarrow> False
      | UpgradeTask (YMap d) # _ \<Rightarrow> \<not> (\<exists>f. dget d ''force'' = Some f \<and> y_true f)
      | _ \<Rightarrow> True)"

definition same_unit :: "('z, 'c, 'w) unit_agent \<Rightarrow> ('z, 'c, 'w) unit_agent \<Rightarrow> bool" where
  "same_unit s s' \<longleftrightarrow> m_world (ug_machine s') = m_world (ug_machine s)
     \<and> dk_state_file (m_store (ug_machine s')) = dk_state_file (m_store (ug_machine s))"

lemma same_unit_state: "same_unit s s' \<Longrightarrow> agent_workflow_state e s' = agent_workflow_state e s"
  by (simp add: same_unit_def agent_workflow_state_def agent_get_state disk_load_def)

interpretation unit_kept: eff_relation same_unit
  by unfold_locales (auto simp: same_unit_def)

lemma keeps_in_zk: "unit_kept.keeps (in_zk op)"
  by (auto simp: unit_kept.keeps_def in_zk_def same_unit_def split: prod.split sum.split)

lemma keeps_wait: "unit_kept.keeps (wait_for_lock t)"
  by (simp add: unit_kept.keeps_def wait_for_lock_def same_unit_def)

lemma callbacks_keep:
  "unit_kept.keeps (cb_watch_resolved e)" "unit_kept.keeps (cb_watch_upgrade_flag e)" "unit_kept.keeps (cb_watch_hook_debug e)"
  "unit_kept.keeps cb_watch_config_changed"
proof -
  show "unit_kept.keeps (cb_watch_resolved e)"
    unfolding cb_watch_resolved_def
    by (intro unit_kept.keeps_bind keeps_in_zk) (auto intro!: unit_kept.keeps_bind keeps_in_zk keeps_wait split: option.split)
  show "unit_kept.keeps (cb_watch_upgrade_flag e)"
    unfolding cb_watch_upgrade_flag_def
    by (intro unit_kept.keeps_bind keeps_in_zk) (auto intro!: unit_kept.keeps_bind keeps_in_zk keeps_wait)
  show "unit_kept.keeps (cb_watch_hook_debug e)"
    unfolding cb_watch_hook_debug_def
  proof (intro unit_kept.keeps_bind keeps_in_zk)
    show "unit_kept.keeps (\<lambda>s. (s\<lparr>ug_debug := h\<rparr>, Inr ()))" for h :: "yvalue option"
      by (simp add: unit_kept.keeps_def same_unit_def)
  qed (auto split: option.split yvalue.split)
  show "unit_kept.keeps cb_watch_config_changed" unfolding cb_watch_config_changed_def by (rule keeps_wait)
qed

lemma lock_keeps:
  assumes "take_lock e s = (s', r)" and "not_resolving s" and "agent_workflow_state e s \<noteq> Some ''started''"
  shows "same_unit s s'"
proof (cases "ug_waiting s")
  case Nil
  then show ?thesis using assms(1) by (simp add: take_lock_def same_unit_def)
next
  case (Cons t ts)
  have state: "get_state (agent_wf e) (lock (ug_machine s)) \<noteq> Some ''started''" using assms(3) by (simp add: agent_workflow_state_def)
  have "snd (run_task e t (lock (ug_machine s))) = lock (ug_machine s)"
  proof (cases t)
    case (ResolvedTask v)
    then show ?thesis using assms(2) Cons by (simp add: not_resolving_def)
  next
    case (UpgradeTask v)
    then show ?thesis
      using assms(2) Cons state by (auto simp: not_resolving_def run_task_def run_upgrade_def split: yvalue.splits option.splits)
  next
    case ConfigureTask
    then show ?thesis using state by (simp add: run_task_def run_configure_def)
  qed
  moreover have "m_world (lock m) = m_world m" "m_store (lock m) = m_store m" "m_world (release m) = m_world m" "m_store (release m) = m_store m"
    for m :: "(('b, 'a) disk, 'c) machine" by (simp_all add: lock_def release_def)
  ultimately show ?thesis
    using assms(1) Cons by (cases "run_task e t (lock (ug_machine s))") (auto simp: take_lock_def same_unit_def)
qed

text \<open>
  C40: a unit that is not started is left alone. Whatever clients write, whatever callbacks run and whoever takes the lock
  in whatever order, as long as it is neither resolved nor upgraded by force the unit keeps its state, and its lifecycle is
  not called.
\<close>

theorem unstarted_unit_waits:
  assumes "agent_steps e not_resolving s s'" and "agent_workflow_state e s \<noteq> Some ''started''"
  shows "agent_workflow_state e s' = agent_workflow_state e s \<and> same_unit s s'"
  using assms
proof (induction rule: agent_steps.induct)
  case (refl s)
  then show ?case by (simp add: same_unit_def)
next
  case (step s s1 s2)
  then have before: "same_unit s s1" "agent_workflow_state e s1 \<noteq> Some ''started''" by auto
  have "same_unit s1 s2"
    using step.hyps(3)
  proof (cases rule: agent_step.cases)
    case (lock r)
    then show ?thesis using lock_keeps step.hyps(2) before(2) by blast
  next
    case (clients z)
    then show ?thesis by (simp add: same_unit_def)
  next
    case (resolved r)
    then show ?thesis using unit_kept.keepsD [OF callbacks_keep(1), of s1 e] by simp
  next
    case (upgrade r)
    then show ?thesis using unit_kept.keepsD [OF callbacks_keep(2), of s1 e] by simp
  next
    case (debug r)
    then show ?thesis using unit_kept.keepsD [OF callbacks_keep(3), of s1 e] by simp
  next
    case (config r)
    then show ?thesis using unit_kept.keepsD [OF callbacks_keep(4), of s1] by simp
  qed
  with before(1) have "same_unit s s2" by (simp add: same_unit_def)
  then show ?case using same_unit_state by blast
qed

section \<open>An environment\<close>

text \<open>The nodes of the unit's workflow and those of the clients, in one store.\<close>

datatype agent_text =
    AState "string option" "(string \<times> string) list option" "string option"
  | ANode "(string \<times> agent_text) list option" "(string \<times> string) list"
  | Kept content

definition agent_yaml :: "agent_text yaml" where
  "agent_yaml =
     \<lparr>y_dump_state = (\<lambda>d. AState (sd_state d) (sd_vars d) (sd_transition d)),
      y_load_state = (\<lambda>c. case c of AState s v t \<Rightarrow> Some \<lparr>sd_state = s, sd_vars = v, sd_transition = t\<rparr> | _ \<Rightarrow> None),
      y_dump_node = (\<lambda>n. ANode (un_workflow_state n) (un_rest n)),
      y_load_node = (\<lambda>c. case c of ANode w r \<Rightarrow> Some \<lparr>un_workflow_state = w, un_rest = r\<rparr> | _ \<Rightarrow> None)\<rparr>"

lemma agent_yaml_ok: "yaml_ok agent_yaml"
  by (simp add: yaml_ok_def agent_yaml_def)

definition agent_state_env :: "((string, agent_text) dict, agent_text) state_env" where
  "agent_state_env = \<lparr>
     se_client = plain_client,
     se_topo = \<lparr>ty_load = (\<lambda>c. case c of Kept (Topo t) \<Rightarrow> Some t | _ \<Rightarrow> None), ty_dump = (\<lambda>t. Kept (Topo t)), ty_blank = (\<lambda>c. c = Kept (Value YNone))\<rparr>,
     se_load = (\<lambda>c. case c of Kept (Value v) \<Rightarrow> v | _ \<Rightarrow> YNone),
     se_dump = (\<lambda>v. Kept (Value v)),
     se_empty = Kept (Value YNone),
     se_remove_tree = (\<lambda>p z. filter (\<lambda>(q, _). q \<noteq> p \<and> \<not> startswith q (p @ ''/'')) z),
     se_unit_data = (\<lambda>_ _. Inr (YMap [])),
     se_is_subordinate = (\<lambda>_ _. Inr False),
     se_config_defaults = (\<lambda>_ _. Inr []),
     se_can_satisfy = (\<lambda>_ _ _. Inr True)\<rparr>"

definition waiting_env :: "((string, agent_text) dict, agent_text, bool \<times> bool) unit_agent_env" where
  "waiting_env = \<lparr>ua_state = agent_state_env, ua_yaml = agent_yaml, ua_client = plain_zk, ua_ops = switch_ops,
     ua_force_upgrade = (\<lambda>w. (LReturned, w)), ua_stop_quietly = (\<lambda>w. (LReturned, w)),
     ua_addresses = (\<lambda>_. Inr (YNone, YNone)), ua_unit = principal_unit, ua_service = \<lparr>ss_id = ''s-0'', ss_name = ''wordpress''\<rparr>\<rparr>"

text \<open>The unit \<open>wordpress/0\<close>, whose install hook has failed.\<close>

definition failed_agent :: "((string, agent_text) dict, agent_text, bool \<times> bool) unit_agent" where
  "failed_agent = \<lparr>ug_machine = \<lparr>m_store = \<lparr>dk_state_file = Some (AState (Some ''install_error'') (Some []) None), dk_history = [],
       dk_zk = [(''/topology'', Kept (Topo fw_topology)),
         (''/units/u-0'', ANode (Some [(''wordpress/0'', AState (Some ''install_error'') (Some []) None)]) [])]\<rparr>,
     m_locked = False, m_has_observer = False, m_observed = [], m_world = (False, False)\<rparr>, ug_waiting = [], ug_debug = None\<rparr>"

lemma failed_agent_reads:
  "agent_workflow_state waiting_env failed_agent = Some ''install_error''"
  "ug_waiting failed_agent = []" "all_return (ua_ops waiting_env)" "''install_error'' \<in> set error_states"
  "get_unit_state (ua_state waiting_env) ''wordpress/0'' (agent_z failed_agent) = Inr (ua_unit waiting_env)"
  by (simp add: agent_workflow_state_def agent_get_state disk_load_def waiting_env_def failed_agent_def agent_yaml_def,
      simp add: failed_agent_def, simp add: all_return_def waiting_env_def switch_ops_def, simp add: error_states_def, code_simp)

lemma failed_agent_marked:
  "\<exists>z1. resolved_command (ua_state waiting_env) (ua_yaml waiting_env) (ua_client waiting_env) ''wordpress/0'' None False
     (agent_z failed_agent) = (z1, Inr Marked)"
proof -
  have "snd (resolved_command (ua_state waiting_env) (ua_yaml waiting_env) (ua_client waiting_env) ''wordpress/0'' None False
     (agent_z failed_agent)) = Inr Marked" by code_simp
  then show ?thesis by (metis prod.collapse)
qed

lemma waiting_env_ok:
  "yaml_ok (ua_yaml waiting_env)" "\<forall>v. se_load (ua_state waiting_env) (se_dump (ua_state waiting_env) v) = v"
  "creates (se_client (ua_state waiting_env))" "removes (se_client (ua_state waiting_env))"
  by (simp_all add: waiting_env_def agent_state_env_def agent_yaml_ok plain_creates plain_removes)

theorem resolved_unit_recovers_witness:
  "\<exists>z1 s1 s2. resolved_command agent_state_env agent_yaml plain_zk ''wordpress/0'' None False (agent_z failed_agent) = (z1, Inr Marked)
    \<and> cb_watch_resolved waiting_env (set_agent_z z1 failed_agent) = (s1, Inr ())
    \<and> take_lock waiting_env s1 = (s2, Inr ()) \<and> agent_workflow_state waiting_env s2 = Some ''started''"
proof -
  obtain z1 where z1: "resolved_command (ua_state waiting_env) (ua_yaml waiting_env) (ua_client waiting_env) ''wordpress/0'' None False
     (agent_z failed_agent) = (z1, Inr Marked)" using failed_agent_marked by blast
  note recovers = resolved_unit_recovers [OF waiting_env_ok failed_agent_reads(3,1,4,2,5) z1]
  have "ua_state waiting_env = agent_state_env" "ua_yaml waiting_env = agent_yaml" "ua_client waiting_env = plain_zk"
    by (simp_all add: waiting_env_def)
  with z1 recovers show ?thesis by auto
qed

text \<open>Changed options are told of, and their turn comes, while nobody resolves the unit.\<close>

theorem unstarted_unit_waits_witness:
  "\<exists>s'. agent_steps waiting_env not_resolving failed_agent s' \<and> ug_waiting s' = []
    \<and> agent_workflow_state waiting_env s' = Some ''install_error''"
proof -
  define s1 where "s1 = failed_agent\<lparr>ug_waiting := [ConfigureTask]\<rparr>"
  have told: "cb_watch_config_changed failed_agent = (s1, Inr ())"
    by (simp add: cb_watch_config_changed_def wait_for_lock_def s1_def failed_agent_def)
  obtain s2 r where turn: "take_lock waiting_env s1 = (s2, r)" by fastforce
  have next_one: "not_resolving failed_agent" "not_resolving s1" by (simp_all add: not_resolving_def s1_def failed_agent_def)
  have steps: "agent_steps waiting_env not_resolving failed_agent s2"
    using agent_steps.refl next_one agent_step.config [OF told] agent_step.lock [OF turn] agent_steps.step by metis
  have "ug_waiting s2 = []" using turn by (auto simp: take_lock_def s1_def split: prod.splits)
  with steps unstarted_unit_waits [OF steps] failed_agent_reads(1) show ?thesis by auto
qed

end
