(* ===== verification/Spec2Isabelle.thy ===== *)
theory Spec2Isabelle
  imports TopologyProps RelationWorkflowProps SchedulerProps ConstraintsProps SchemaProps YamlStateProps
    CharmUrl StateBaseProps UnitNodes HookContextProps ExecutorProps RelationLifecycleProps UnitLifecycleProps
    StateErrors HookServerProps HookCommandsProps NodeWatch MachineProps FirewallProps ProvisioningProps
    CharmState SecurityProps Ec2Props StatusProps UnitAgentProps
begin

text \<open>
  A verification development for the core of juju, \<open>src/juju\<close>: the state clients and agents share in
  ZooKeeper, and the agents that bring machines, units and their charms to what it says.

  \<^bold>\<open>The program.\<close> Clients change the topology (services, units, machines, relations, one YAML document in the node
  \<open>/topology\<close>) and nodes beside it. The provisioning agent starts and stops machines of a provider and opens their
  ports; the agent of a unit runs a workflow whose actions run hooks of the charm; for each relation it keeps a
  workflow, a watcher of the units at the other end and a queue of hooks for their changes; a hook talks back to the
  agent through commands, which read and write the settings of its unit in a relation.

  \<^bold>\<open>Conventions.\<close> A class is a record, a method a function of it; a dict is an association list with distinct keys
  (\<open>Prelude\<close>), a Python 2 byte string a \<open>string\<close> (\<open>PyStrings\<close>, \<open>PyText\<close>). A function that may raise answers
  \<open>Inl\<close> the error or \<open>Inr\<close> the result (\<open>rbind\<close>); where the change made before an exception is visible to
  others, it is a function of the state that answers the state as well (\<open>Effects\<close>, \<open>ebind\<close>). Every branch that raises
  in the source is a branch of the model. Twisted runs one callback at a time, up to its next wait: components whose
  callbacks interleave are step functions over events, and their theorems hold for every sequence of events.

  \<^bold>\<open>Theories.\<close>
  \<^item> Topology: \<open>Endpoint\<close> (\<open>state/endpoint.py\<close>), \<open>Topology\<close> (\<open>state/topology.py\<close>, \<open>InternalTopology\<close>).
    \<open>TopologySpec\<close> gives an abstract state of finite maps and proves that each method is its abstract command;
    \<open>TopologyProps\<close> carries the invariants over to every reachable topology.
  \<^item> Shared state: \<open>YamlState\<close> (\<open>state/utils.py\<close>), \<open>StateBase\<close> (\<open>state/base.py\<close>), \<open>StateErrors\<close> (\<open>state/errors.py\<close>),
    \<open>ServiceState\<close> and \<open>UnitNodes\<close> (\<open>state/service.py\<close>), \<open>RelationState\<close> and \<open>RelationWatcher\<close> (\<open>state/relation.py\<close>),
    \<open>NodeWatch\<close> (watches of single nodes), \<open>MachineState\<close> (\<open>state/machine.py\<close>, \<open>agent.py\<close>, \<open>placement.py\<close>,
    \<open>environment.py\<close>), \<open>CharmState\<close> (\<open>state/charm.py\<close>, \<open>lib/under.py\<close>), \<open>Security\<close> (\<open>state/security.py\<close>,
    \<open>auth.py\<close>). Their properties: writes merge, watches miss nothing, a unit goes where its placement says, charms are
    found as they were stored, changes of ACLs lose nothing.
  \<^item> Workflows: \<open>Statemachine\<close> (\<open>lib/statemachine.py\<close>) and \<open>StatemachineSpec\<close>, the locale of what a storage of
    states promises and what follows; \<open>UnitWorkflow\<close>, \<open>WorkflowTables\<close> (\<open>unit/workflow.py\<close>), whose storages interpret it in
    \<open>WorkflowProps\<close>; \<open>RelationWorkflowProps\<close> for retries and for the relation workflow.
  \<^item> Hooks: \<open>HookContext\<close> (\<open>state/hook.py\<close>), \<open>Executor\<close> (\<open>hooks/executor.py\<close>), \<open>Scheduler\<close> (\<open>hooks/scheduler.py\<close>),
    \<open>HookServer\<close> (\<open>hooks/invoker.py\<close>, \<open>protocol.py\<close>), \<open>HookCommands\<close> (\<open>hooks/cli.py\<close>, \<open>commands.py\<close>).
  \<^item> Lifecycles: \<open>RelationLifecycle\<close> and \<open>UnitLifecycle\<close> (\<open>unit/lifecycle.py\<close>) put watcher, scheduler, workflows and contexts
    together. The locale \<open>watch_owner\<close> of \<open>RelationWatcherProps\<close> is the interface between a watcher and its owner;
    the scheduler interprets it. \<open>UnitAgent\<close> (\<open>agents/unit.py\<close>, \<open>control/resolved.py\<close>) turns what clients write
    into transitions of the unit's workflow.
  \<^item> Machines: \<open>Constraints\<close> (\<open>machine/constraints.py\<close>), \<open>Provider\<close> (\<open>providers/dummy.py\<close> and the locales \<open>port_provider\<close>,
    \<open>machine_provider\<close> of what the agents ask of any provider), \<open>ProviderCommon\<close> (\<open>providers/common\<close>), \<open>Ec2\<close>
    (\<open>providers/ec2\<close>, over a record of the operations of the EC2 client), \<open>Firewall\<close> (\<open>state/firewall.py\<close>),
    \<open>Provisioning\<close> (\<open>agents/provision.py\<close>). The dummy provider and EC2's interpret the locales.
  \<^item> Charms: \<open>CharmUrl\<close> (\<open>charm/url.py\<close>), \<open>Schema\<close> (\<open>lib/schema.py\<close>), \<open>CharmMetadata\<close> (\<open>charm/metadata.py\<close>),
    \<open>CharmConfig\<close> (\<open>charm/config.py\<close>).
  \<^item> Clients: \<open>Status\<close> (\<open>control/status.py\<close>), what \<open>juju status\<close> collects.
  A theory \<open>XProps\<close> holds the properties of \<open>X\<close>.

  \<^bold>\<open>Parameters.\<close> ZooKeeper's client and txzookeeper's \<open>retry_change\<close> (\<open>zk_client\<close>, \<open>ynode\<close>, \<open>acl_client\<close>), the YAML and
  JSON codecs, base64 and SHA-1, processes and files, the EC2 client and its service (\<open>ec2_api\<close>), and Twisted's reactor. What
  is relied on is stated as a predicate (\<open>client_ok\<close>, \<open>ynode_ok\<close>, \<open>creates\<close>, \<open>acl_client_ok\<close>, \<open>ec2_ok\<close>, ...), each
  with a concrete client that satisfies it.

  \<^bold>\<open>Loops and fuel.\<close> Structural loops are \<open>fun\<close>. Firing a transition takes fuel, since nothing in the class bounds
  it: a unit's workflow needs 3, a relation's 1 (\<open>fire_enough_fuel\<close> with the ranks of \<open>WorkflowTables\<close>), and the
  theorems say that this much gives a result. A watcher's \<open>watch_container\<close> calls itself at most twice. The loop of
  \<open>update_acl\<close> need not end and is a \<open>partial_function\<close>; \<open>grants_lose_nothing\<close> says when it does. So is the one that
  connects to an environment (\<open>connect_first\<close>); waiting for instances to end is bounded by 200 polls, as in the code.

  \<^bold>\<open>Not modelled.\<close> The parts the manifest lists as such: argument parsing and printing of the command line, daemons and
  their options, logging, the cloud services, containers and files, the vendored \<open>lib/mocker.py\<close>, and wrappers around
  external programs. Floats are exact rationals; the order of Python's dicts and sets is that of a list, and what is
  proved holds for each such list.
\<close>

end
